(* ===== verification/Py_Prelude.thy ===== *)
theory Py_Prelude
  imports Main "HOL-Library.Sublist" "HOL-Library.Char_ord"
begin

text \<open>
  Shared vocabulary of the development: time, Python strings restricted to code points below
  256, results of fallible code, lemma collections, and the locales that state the two contracts
  used again and again: a transition system with an inductive invariant, and a one-use capability.
\<close>

named_theorems stage_simps \<open>evaluation of the attempt stage machine\<close>
named_theorems db_simps \<open>reads of updated database rows\<close>
named_theorems guard_elims \<open>what a successful guarded operation has checked\<close>

section \<open>Time\<close>

text \<open>
  A point in time is an instant: microseconds of UTC, as \<open>int\<close>. Database columns hold naive UTC
  values and are read as instants. Where the code distinguishes naive from aware values, the
  argument is a \<open>datetime\<close>.
\<close>

type_synonym instant = int

datatype datetime = Naive instant | Aware instant

definition seconds :: "int \<Rightarrow> int" where
  "seconds n = n * 1000000"

definition minutes :: "int \<Rightarrow> int" where
  "minutes n = seconds (60 * n)"

fun is_aware :: "datetime \<Rightarrow> bool" where
  "is_aware (Aware t) = True"
| "is_aware (Naive t) = False"

fun as_instant :: "datetime \<Rightarrow> instant" where
  "as_instant (Aware t) = t"
| "as_instant (Naive t) = t"

section \<open>Strings\<close>

text \<open>
  \<open>str.lower\<close>, \<open>str.isspace\<close> and \<open>str.strip\<close> on code points below 256 (Latin-1): the capital
  letters are A-Z and 192-222 without 215; white space is 9-13, 28-32, 133 and 160.
\<close>

definition lower_char :: "char \<Rightarrow> char" where
  "lower_char c =
     (let n = (of_char c :: nat)
      in if (65 \<le> n \<and> n \<le> 90) \<or> (192 \<le> n \<and> n \<le> 222 \<and> n \<noteq> 215)
         then char_of (n + 32) else c)"

definition py_lower :: "string \<Rightarrow> string" where
  "py_lower s = map lower_char s"

definition is_space :: "char \<Rightarrow> bool" where
  "is_space c =
     (let n = (of_char c :: nat)
      in (9 \<le> n \<and> n \<le> 13) \<or> (28 \<le> n \<and> n \<le> 32) \<or> n = 133 \<or> n = 160)"

definition lstrip :: "string \<Rightarrow> string" where
  "lstrip s = dropWhile is_space s"

definition rstrip :: "string \<Rightarrow> string" where
  "rstrip s = rev (dropWhile is_space (rev s))"

definition strip :: "string \<Rightarrow> string" where
  "strip s = rstrip (lstrip s)"

text \<open>The Python test \<open>pat in s\<close>.\<close>

fun contains :: "string \<Rightarrow> string \<Rightarrow> bool" where
  "contains pat [] = (pat = [])"
| "contains pat (c # cs) = (prefix pat (c # cs) \<or> contains pat cs)"

text \<open>\<open>len(s) == 64 and all(c in "0123456789abcdef" for c in s)\<close>.\<close>

definition hex_digits :: string where
  "hex_digits = ''0123456789abcdef''"

definition is_sha256 :: "string \<Rightarrow> bool" where
  "is_sha256 s = (length s = 64 \<and> list_all (\<lambda>c. c \<in> set hex_digits) s)"

text \<open>
  The bounded tokens the contracts check by regular expression: \<open>[A-Z][A-Z0-9_]{1,63}\<close> for reasons,
  \<open>[a-z][a-z0-9_-]{0,63}\<close> for slugs, three numbers with dots for versions.
\<close>

definition char_between :: "char \<Rightarrow> char \<Rightarrow> char \<Rightarrow> bool" where
  "char_between a b c \<longleftrightarrow> (of_char a :: nat) \<le> of_char c \<and> (of_char c :: nat) \<le> of_char b"

definition is_upper :: "char \<Rightarrow> bool" where
  "is_upper = char_between CHR ''A'' CHR ''Z''"

definition is_lower :: "char \<Rightarrow> bool" where
  "is_lower = char_between CHR ''a'' CHR ''z''"

definition is_digit :: "char \<Rightarrow> bool" where
  "is_digit = char_between CHR ''0'' CHR ''9''"

fun bounded_token :: "(char \<Rightarrow> bool) \<Rightarrow> (char \<Rightarrow> bool) \<Rightarrow> nat \<Rightarrow> string \<Rightarrow> bool" where
  "bounded_token hd_ok tl_ok least [] = False"
| "bounded_token hd_ok tl_ok least (c # cs) =
     (hd_ok c \<and> list_all tl_ok cs \<and> least \<le> length cs \<and> length cs \<le> 63)"

definition reason_token :: "string \<Rightarrow> bool" where
  "reason_token = bounded_token is_upper (\<lambda>c. is_upper c \<or> is_digit c \<or> c = CHR ''_'') 1"

definition safe_token :: "string \<Rightarrow> bool" where
  "safe_token =
     bounded_token is_lower (\<lambda>c. is_lower c \<or> is_digit c \<or> c = CHR ''_'' \<or> c = CHR ''-'') 0"

definition after_number :: "string \<Rightarrow> string option" where
  "after_number s = (if takeWhile is_digit s = [] then None else Some (dropWhile is_digit s))"

definition after_dot :: "string \<Rightarrow> string option" where
  "after_dot s = (case s of [] \<Rightarrow> None | c # cs \<Rightarrow> if c = CHR ''.'' then Some cs else None)"

definition version_token :: "string \<Rightarrow> bool" where
  "version_token s \<longleftrightarrow>
     Option.bind (Option.bind (Option.bind (Option.bind (after_number s) after_dot) after_number) after_dot)
       after_number = Some []"

text \<open>\<open>str.split()\<close>: the maximal runs without white space.\<close>

fun split_words :: "string \<Rightarrow> string \<Rightarrow> string list" where
  "split_words w [] = (if w = [] then [] else [rev w])"
| "split_words w (c # cs) =
     (if is_space c then (if w = [] then [] else [rev w]) @ split_words [] cs else split_words (c # w) cs)"

definition join_words :: "string list \<Rightarrow> string" where
  "join_words ws = (case ws of [] \<Rightarrow> [] | w # vs \<Rightarrow> w @ concat (map (\<lambda>v. '' '' @ v) vs))"

text \<open>
  \<open>str.casefold\<close>: lower case, and the sharp s as \<open>ss\<close>. The micro sign folds to a letter above 255 and
  is kept as its own fold.
\<close>

definition casefold :: "string \<Rightarrow> string" where
  "casefold s = concat (map (\<lambda>c. if (of_char c :: nat) = 223 then ''ss'' else [lower_char c]) s)"

text \<open>\<open>tuple(dict.fromkeys(xs))\<close>: the first occurrences, in order.\<close>

definition fromkeys :: "'a list \<Rightarrow> 'a list" where
  "fromkeys xs = rev (remdups (rev xs))"

section \<open>Optional values\<close>

text \<open>The Python value \<open>str(x or "")\<close> of an optional string.\<close>

definition or_empty :: "string option \<Rightarrow> string" where
  "or_empty x = (case x of None \<Rightarrow> [] | Some s \<Rightarrow> s)"

text \<open>The truth value of an optional string: neither missing nor empty.\<close>

definition truthy :: "string option \<Rightarrow> bool" where
  "truthy x = (case x of None \<Rightarrow> False | Some s \<Rightarrow> s \<noteq> [])"

text \<open>\<open>isinstance(value, str) and bool(value.strip())\<close>.\<close>

definition nonblank :: "string option \<Rightarrow> bool" where
  "nonblank x = (case x of None \<Rightarrow> False | Some s \<Rightarrow> strip s \<noteq> [])"

definition opt_sha256 :: "string option \<Rightarrow> bool" where
  "opt_sha256 x = (case x of None \<Rightarrow> False | Some s \<Rightarrow> is_sha256 s)"

definition opt_min :: "instant \<Rightarrow> instant option \<Rightarrow> instant" where
  "opt_min a b = (case b of None \<Rightarrow> a | Some t \<Rightarrow> min a t)"

section \<open>Lemmas on strings and options\<close>

lemma contains_iff_sublist: "contains pat s \<longleftrightarrow> sublist pat s"
  by (induction s) (simp_all add: sublist_Cons_right)

lemma contains_Nil [simp]: "contains [] s"
  by (cases s) simp_all

lemma contains_refl [simp]: "contains s s"
  by (simp add: contains_iff_sublist)

lemma length_py_lower [simp]: "length (py_lower s) = length s"
  by (simp add: py_lower_def)

lemma truthy_iff: "truthy x \<longleftrightarrow> (\<exists>s. x = Some s \<and> s \<noteq> [])"
  by (simp add: truthy_def split: option.splits)

lemma truthy_or_empty: "truthy x \<Longrightarrow> x = Some (or_empty x)"
  by (auto simp: truthy_iff or_empty_def)

lemma nonblank_iff: "nonblank x \<longleftrightarrow> (\<exists>s. x = Some s \<and> strip s \<noteq> [])"
  by (simp add: nonblank_def split: option.splits)

lemma or_empty_Some [simp]: "or_empty (Some s) = s"
  by (simp add: or_empty_def)

lemma or_empty_None [simp]: "or_empty None = []"
  by (simp add: or_empty_def)

lemma opt_min_le: "opt_min a b \<le> a"
  by (simp add: opt_min_def split: option.splits)

lemma opt_min_le_bound: "b = Some t \<Longrightarrow> opt_min a b \<le> t"
  by (simp add: opt_min_def)

lemma set_fromkeys [simp]: "set (fromkeys xs) = set xs"
  by (simp add: fromkeys_def)

lemma distinct_fromkeys [simp]: "distinct (fromkeys xs)"
  by (simp add: fromkeys_def)

lemma fromkeys_distinct [simp]: "distinct xs \<Longrightarrow> fromkeys xs = xs"
  by (simp add: fromkeys_def distinct_remdups_id)

lemma fromkeys_Nil_iff [simp]: "fromkeys xs = [] \<longleftrightarrow> xs = []"
  by (simp add: fromkeys_def)

section \<open>Transition systems\<close>

text \<open>
  The contract of a component that is driven step by step: the initial states satisfy the
  invariant and every step keeps it. The client gets the invariant on all reachable states.
\<close>

inductive reachable_by :: "('s \<Rightarrow> bool) \<Rightarrow> ('s \<Rightarrow> 's \<Rightarrow> bool) \<Rightarrow> 's \<Rightarrow> bool"
  for init :: "'s \<Rightarrow> bool" and step :: "'s \<Rightarrow> 's \<Rightarrow> bool" where
  reach_start: "init s \<Longrightarrow> reachable_by init step s"
| reach_step: "reachable_by init step s \<Longrightarrow> step s t \<Longrightarrow> reachable_by init step t"

locale invariant_system =
  fixes init :: "'s \<Rightarrow> bool"
    and step :: "'s \<Rightarrow> 's \<Rightarrow> bool"
    and inv :: "'s \<Rightarrow> bool"
  assumes init_inv: "init s \<Longrightarrow> inv s"
    and step_inv: "inv s \<Longrightarrow> step s t \<Longrightarrow> inv t"
begin

lemma reachable_inv: "reachable_by init step s \<Longrightarrow> inv s"
  by (induction rule: reachable_by.induct) (auto intro: init_inv step_inv)

lemma steps_inv: "inv s \<Longrightarrow> step\<^sup>*\<^sup>* s t \<Longrightarrow> inv t"
  by (erule rtranclp_induct) (auto intro: step_inv)

end

section \<open>One-use capabilities\<close>

text \<open>
  A capability that may be spent once: \<open>spend\<close> fails on a spent one and otherwise returns a
  spent one. Whatever the times at which it is presented, it is accepted at most once.
\<close>

locale one_use =
  fixes spent :: "'c \<Rightarrow> bool"
    and spend :: "'c \<Rightarrow> instant \<Rightarrow> 'e + 'c"
  assumes spend_unspent: "spend c t = Inr c' \<Longrightarrow> \<not> spent c"
    and spend_spends: "spend c t = Inr c' \<Longrightarrow> spent c'"
begin

fun present_all :: "'c \<Rightarrow> instant list \<Rightarrow> nat \<times> 'c" where
  "present_all c [] = (0, c)"
| "present_all c (t # ts) =
     (case spend c t of
        Inl e \<Rightarrow> present_all c ts
      | Inr c' \<Rightarrow> (case present_all c' ts of (n, c'') \<Rightarrow> (Suc n, c'')))"

lemma present_spent: "spent c \<Longrightarrow> present_all c ts = (0, c)"
  by (induction ts) (auto split: sum.splits dest: spend_unspent)

lemma accepted_at_most_once: "fst (present_all c ts) \<le> 1"
proof (induction ts)
  case (Cons t ts)
  show ?case
  proof (cases "spend c t")
    case (Inl e)
    with Cons.IH show ?thesis by simp
  next
    case (Inr c')
    then have "present_all c' ts = (0, c')" by (simp add: present_spent spend_spends)
    with Inr show ?thesis by simp
  qed
qed simp

end

end
