(* ===== verification/Submission_Domain.thy ===== *)
theory Submission_Domain
  imports Py_Prelude
begin

text \<open>
  The closed vocabularies of \<^verbatim>\<open>core/submission_domain.py\<close> and the status columns of
  \<^verbatim>\<open>db/models.py\<close>, employer evidence, and the discriminated adapter outcomes with the validation
  that untrusted adapter output passes before the worker may act on it.
\<close>

section \<open>Enumerations\<close>

datatype attempt_stage =
  QUEUED | INSPECTING | PREPARING | READY | COMMITTING | VERIFYING | FINISHED

datatype attempt_outcome =
  CONFIRMED_SUBMITTED | ALREADY_APPLIED | NEEDS_REVIEW | UNKNOWN | FAILED_BEFORE_COMMIT
  | DRAFT_ONLY | OPERATOR_CONFIRMED | LEGACY_UNVERIFIED

datatype reason_code =
  R_RUNTIME_NOT_READY | R_BUILD_MISMATCH | R_ADAPTER_NOT_QUALIFIED | R_SESSION_EXPIRED
  | R_MFA_REQUIRED | R_CHALLENGE_DETECTED | R_FORM_CHANGED | R_FORM_PLAN_INCOMPLETE
  | R_REQUIRED_FIELD_UNKNOWN | R_ATTACHMENT_UNVERIFIED | R_FINAL_ACTION_UNCONFIRMED
  | R_ALREADY_APPLIED | R_JOB_CLOSED | R_SELECTOR_DRIFT | R_STALE_INDETERMINATE
  | R_DRY_RUN_DISCARDED | R_DRAFT_ONLY | R_PERMIT_MISSING | R_PERMIT_EXPIRED | R_PERMIT_REPLAYED
  | R_PERMIT_BINDING_MISMATCH | R_COMMAND_EXPIRED | R_COMMAND_REPLAYED | R_GOVERNOR_DENIED
  | R_OPERATOR_CANCELLED | R_EVIDENCE_INVALID | R_UNSUPPORTED_CONTROL | R_NETWORK_ERROR
  | R_INTERNAL_ERROR | R_PROFILE_VERSION_NOT_FOUND | R_PROFILE_SNAPSHOT_INVALID
  | R_LLM_UNAVAILABLE | R_LLM_MODEL_MISSING | R_LLM_TIMEOUT | R_LLM_CIRCUIT_OPEN
  | R_LLM_SCHEMA_INVALID | R_UNSUPPORTED_CLAIM | R_ANSWER_POLICY_CHANGED

datatype evidence_type =
  EMPLOYER_APPLICATION_ID | API_RECEIPT | CANDIDATE_PORTAL_RECORD
  | VISIBLE_POST_CLICK_CONFIRMATION

datatype job_status =
  JS_EXTRACTED | JS_SCORED | JS_SKIPPED | JS_DRAFT | JS_APPROVED | JS_SUBMITTED | JS_FAILED
  | JS_NEEDS_REVIEW

datatype submission_status =
  SS_PENDING | SS_RUNNING | SS_SUCCESS | SS_FAILED | SS_DRAFT_ONLY | SS_UNKNOWN

section \<open>Employer evidence\<close>

record submission_evidence =
  ev_attempt_id :: int
  ev_type :: evidence_type
  ev_employer_application_id :: "string option"
  ev_api_receipt_id :: "string option"
  ev_candidate_portal_reference :: "string option"
  ev_form_fingerprint :: string
  ev_attached_cv_hash :: string
  ev_observed_at :: datetime
  ev_digest :: string

text \<open>
  The dictionary \<open>references\<close> of the validator, read at one evidence type, and the list
  \<open>populated\<close> of the types whose reference is present, in the dictionary's order.
\<close>

definition typed_reference :: "submission_evidence \<Rightarrow> evidence_type \<Rightarrow> string option" where
  "typed_reference e k =
     (case k of
        EMPLOYER_APPLICATION_ID \<Rightarrow> ev_employer_application_id e
      | API_RECEIPT \<Rightarrow> ev_api_receipt_id e
      | CANDIDATE_PORTAL_RECORD \<Rightarrow> ev_candidate_portal_reference e
      | VISIBLE_POST_CLICK_CONFIRMATION \<Rightarrow> None)"

definition populated_references :: "submission_evidence \<Rightarrow> evidence_type list" where
  "populated_references e =
     filter (\<lambda>k. typed_reference e k \<noteq> None)
       [EMPLOYER_APPLICATION_ID, API_RECEIPT, CANDIDATE_PORTAL_RECORD]"

definition require_typed_reference :: "submission_evidence \<Rightarrow> bool" where
  "require_typed_reference e =
     (if ev_type e = VISIBLE_POST_CLICK_CONFIRMATION then populated_references e = []
      else typed_reference e (ev_type e) \<noteq> None \<and> populated_references e = [ev_type e])"

text \<open>\<open>StringConstraints(strip_whitespace=True, min_length=1, max_length=n)\<close> on stripped text.\<close>

definition bounded_text :: "nat \<Rightarrow> string \<Rightarrow> string option" where
  "bounded_text n s =
     (let t = strip s in if 1 \<le> length t \<and> length t \<le> n then Some t else None)"

definition bounded_opt :: "nat \<Rightarrow> string option \<Rightarrow> string option option" where
  "bounded_opt n x =
     (case x of None \<Rightarrow> Some None | Some s \<Rightarrow> map_option Some (bounded_text n s))"

text \<open>Validation of the model \<open>SubmissionEvidence\<close>: the declared field types, then the validator.\<close>

definition validate_evidence :: "submission_evidence \<Rightarrow> submission_evidence option" where
  "validate_evidence e =
     (case (bounded_opt 255 (ev_employer_application_id e), bounded_opt 255 (ev_api_receipt_id e),
            bounded_opt 255 (ev_candidate_portal_reference e)) of
        (Some a, Some r, Some p) \<Rightarrow>
          (let e' = e\<lparr>ev_employer_application_id := a, ev_api_receipt_id := r,
                      ev_candidate_portal_reference := p\<rparr>
           in if 0 < ev_attempt_id e \<and> is_sha256 (ev_form_fingerprint e)
                 \<and> is_sha256 (ev_attached_cv_hash e) \<and> is_sha256 (ev_digest e)
                 \<and> is_aware (ev_observed_at e) \<and> require_typed_reference e'
              then Some e' else None)
      | _ \<Rightarrow> None)"

section \<open>The prepared final action\<close>

record prepared_action =
  pa_attempt_id :: int
  pa_adapter_name :: string
  pa_adapter_version :: string
  pa_selector_version :: string
  pa_form_fingerprint :: string
  pa_attached_cv_hash :: string
  pa_prepared_at :: instant
  pa_expires_at :: instant
  pa_action_nonce :: string

definition validate_prepared_action :: "prepared_action \<Rightarrow> prepared_action option" where
  "validate_prepared_action a =
     (case (bounded_text 500 (pa_adapter_name a), bounded_text 500 (pa_adapter_version a),
            bounded_text 500 (pa_selector_version a)) of
        (Some n, Some v, Some s) \<Rightarrow>
          (if 0 < pa_attempt_id a \<and> is_sha256 (pa_form_fingerprint a)
              \<and> is_sha256 (pa_attached_cv_hash a) \<and> is_sha256 (pa_action_nonce a)
              \<and> pa_prepared_at a < pa_expires_at a
              \<and> pa_expires_at a - pa_prepared_at a \<le> minutes 5
           then Some (a\<lparr>pa_adapter_name := n, pa_adapter_version := v,
                        pa_selector_version := s\<rparr>)
           else None)
      | _ \<Rightarrow> None)"

section \<open>Adapter outcomes\<close>

text \<open>
  What an adapter returns is untrusted. \<open>adapter_value\<close> is its shape before validation; a value
  whose discriminator or fields fit no member of the union is \<open>V_OTHER\<close>.
\<close>

datatype adapter_value =
  V_CONFIRMED submission_evidence
  | V_ALREADY_APPLIED reason_code "submission_evidence option"
  | V_NEEDS_REVIEW reason_code "string list"
  | V_UNKNOWN reason_code
  | V_FAILED_BEFORE_COMMIT reason_code
  | V_DRAFT_ONLY reason_code
  | V_PREPARED prepared_action
  | V_OTHER

datatype commit_outcome =
  ConfirmedSubmittedOutcome submission_evidence
  | AlreadyAppliedOutcome reason_code "submission_evidence option"
  | NeedsReviewOutcome reason_code "string list"
  | UnknownOutcome reason_code
  | FailedBeforeCommitOutcome reason_code
  | DraftOnlyOutcome reason_code

datatype preflight_outcome =
  PreparedFinalAction prepared_action
  | PreflightFinished commit_outcome

fun outcome_kind :: "commit_outcome \<Rightarrow> attempt_outcome" where
  "outcome_kind (ConfirmedSubmittedOutcome e) = CONFIRMED_SUBMITTED"
| "outcome_kind (AlreadyAppliedOutcome r e) = ALREADY_APPLIED"
| "outcome_kind (NeedsReviewOutcome r fs) = NEEDS_REVIEW"
| "outcome_kind (UnknownOutcome r) = UNKNOWN"
| "outcome_kind (FailedBeforeCommitOutcome r) = FAILED_BEFORE_COMMIT"
| "outcome_kind (DraftOnlyOutcome r) = DRAFT_ONLY"

definition needs_review_reasons :: "reason_code list" where
  "needs_review_reasons =
     [R_RUNTIME_NOT_READY, R_BUILD_MISMATCH, R_ADAPTER_NOT_QUALIFIED, R_SESSION_EXPIRED,
      R_MFA_REQUIRED, R_CHALLENGE_DETECTED, R_FORM_CHANGED, R_REQUIRED_FIELD_UNKNOWN,
      R_ATTACHMENT_UNVERIFIED, R_JOB_CLOSED, R_SELECTOR_DRIFT, R_UNSUPPORTED_CONTROL]"

definition unknown_reasons :: "reason_code list" where
  "unknown_reasons =
     [R_FINAL_ACTION_UNCONFIRMED, R_STALE_INDETERMINATE, R_SESSION_EXPIRED, R_CHALLENGE_DETECTED,
      R_NETWORK_ERROR, R_INTERNAL_ERROR, R_EVIDENCE_INVALID]"

definition failed_before_commit_reasons :: "reason_code list" where
  "failed_before_commit_reasons =
     [R_RUNTIME_NOT_READY, R_BUILD_MISMATCH, R_ADAPTER_NOT_QUALIFIED, R_SESSION_EXPIRED,
      R_FORM_CHANGED, R_REQUIRED_FIELD_UNKNOWN, R_ATTACHMENT_UNVERIFIED, R_JOB_CLOSED,
      R_SELECTOR_DRIFT, R_PERMIT_MISSING, R_PERMIT_EXPIRED, R_PERMIT_REPLAYED,
      R_PERMIT_BINDING_MISMATCH, R_COMMAND_EXPIRED, R_COMMAND_REPLAYED, R_GOVERNOR_DENIED,
      R_OPERATOR_CANCELLED, R_UNSUPPORTED_CONTROL, R_NETWORK_ERROR, R_INTERNAL_ERROR]"

definition bounded_texts :: "nat \<Rightarrow> string list \<Rightarrow> string list option" where
  "bounded_texts n xs =
     (if list_all (\<lambda>s. bounded_text n s \<noteq> None) xs then Some (map strip xs) else None)"

definition validate_already_applied ::
  "reason_code \<Rightarrow> submission_evidence option \<Rightarrow> commit_outcome option" where
  "validate_already_applied r e =
     (if r \<noteq> R_ALREADY_APPLIED then None
      else (case e of
              None \<Rightarrow> Some (AlreadyAppliedOutcome r None)
            | Some ev \<Rightarrow>
                map_option (\<lambda>ev'. AlreadyAppliedOutcome r (Some ev')) (validate_evidence ev)))"

definition validate_needs_review :: "reason_code \<Rightarrow> string list \<Rightarrow> commit_outcome option" where
  "validate_needs_review r fs =
     (if r \<in> set needs_review_reasons
      then map_option (NeedsReviewOutcome r) (bounded_texts 500 fs) else None)"

definition validate_unknown :: "reason_code \<Rightarrow> commit_outcome option" where
  "validate_unknown r = (if r \<in> set unknown_reasons then Some (UnknownOutcome r) else None)"

definition validate_failed_before_commit :: "reason_code \<Rightarrow> commit_outcome option" where
  "validate_failed_before_commit r =
     (if r \<in> set failed_before_commit_reasons then Some (FailedBeforeCommitOutcome r) else None)"

definition validate_draft_only :: "reason_code \<Rightarrow> commit_outcome option" where
  "validate_draft_only r =
     (if r = R_DRY_RUN_DISCARDED \<or> r = R_DRAFT_ONLY then Some (DraftOnlyOutcome r) else None)"

text \<open>\<open>None\<close> is the \<open>ValidationError\<close> that the caller catches.\<close>

fun parse_commit_outcome :: "adapter_value \<Rightarrow> commit_outcome option" where
  "parse_commit_outcome (V_CONFIRMED e) =
     map_option ConfirmedSubmittedOutcome (validate_evidence e)"
| "parse_commit_outcome (V_ALREADY_APPLIED r e) = validate_already_applied r e"
| "parse_commit_outcome (V_NEEDS_REVIEW r fs) = validate_needs_review r fs"
| "parse_commit_outcome (V_UNKNOWN r) = validate_unknown r"
| "parse_commit_outcome (V_FAILED_BEFORE_COMMIT r) = validate_failed_before_commit r"
| "parse_commit_outcome (V_DRAFT_ONLY r) = validate_draft_only r"
| "parse_commit_outcome (V_PREPARED a) = None"
| "parse_commit_outcome V_OTHER = None"

fun parse_preflight_outcome :: "adapter_value \<Rightarrow> preflight_outcome option" where
  "parse_preflight_outcome (V_PREPARED a) =
     map_option PreparedFinalAction (validate_prepared_action a)"
| "parse_preflight_outcome (V_ALREADY_APPLIED r e) =
     map_option PreflightFinished (validate_already_applied r e)"
| "parse_preflight_outcome (V_NEEDS_REVIEW r fs) =
     map_option PreflightFinished (validate_needs_review r fs)"
| "parse_preflight_outcome (V_FAILED_BEFORE_COMMIT r) =
     map_option PreflightFinished (validate_failed_before_commit r)"
| "parse_preflight_outcome (V_DRAFT_ONLY r) =
     map_option PreflightFinished (validate_draft_only r)"
| "parse_preflight_outcome (V_CONFIRMED e) = None"
| "parse_preflight_outcome (V_UNKNOWN r) = None"
| "parse_preflight_outcome V_OTHER = None"

section \<open>Lemmas\<close>

lemma validate_evidenceD:
  assumes "validate_evidence e = Some e'"
  shows "0 < ev_attempt_id e'" "is_sha256 (ev_form_fingerprint e')"
    "is_sha256 (ev_attached_cv_hash e')" "is_sha256 (ev_digest e')"
    "is_aware (ev_observed_at e')" "require_typed_reference e'"
  using assms by (auto simp: validate_evidence_def Let_def split: option.splits if_splits)

lemma validate_evidence_keeps:
  assumes "validate_evidence e = Some e'"
  shows "ev_attempt_id e' = ev_attempt_id e" "ev_type e' = ev_type e"
    "ev_form_fingerprint e' = ev_form_fingerprint e"
    "ev_attached_cv_hash e' = ev_attached_cv_hash e"
    "ev_observed_at e' = ev_observed_at e" "ev_digest e' = ev_digest e"
  using assms by (auto simp: validate_evidence_def Let_def split: option.splits if_splits)

lemma require_typed_reference_unique:
  assumes "require_typed_reference e" and "typed_reference e k \<noteq> None"
  shows "k = ev_type e"
  using assms
  by (cases k; cases "ev_type e")
     (auto simp: require_typed_reference_def populated_references_def typed_reference_def
           split: if_splits)

lemma validate_already_applied_kind:
  "validate_already_applied r e = Some o' \<Longrightarrow> outcome_kind o' = ALREADY_APPLIED"
  by (auto simp: validate_already_applied_def split: if_splits option.splits)

lemma validate_needs_review_kind:
  "validate_needs_review r fs = Some o' \<Longrightarrow> outcome_kind o' = NEEDS_REVIEW"
  by (auto simp: validate_needs_review_def split: if_splits)

lemma validate_failed_before_commit_kind:
  "validate_failed_before_commit r = Some o' \<Longrightarrow> outcome_kind o' = FAILED_BEFORE_COMMIT"
  by (auto simp: validate_failed_before_commit_def split: if_splits)

lemma validate_draft_only_kind:
  "validate_draft_only r = Some o' \<Longrightarrow> outcome_kind o' = DRAFT_ONLY"
  by (auto simp: validate_draft_only_def split: if_splits)

lemmas validate_kinds =
  validate_already_applied_kind validate_needs_review_kind validate_failed_before_commit_kind
  validate_draft_only_kind

lemma parse_preflight_kind:
  assumes "parse_preflight_outcome v = Some (PreflightFinished oc)"
  shows "outcome_kind oc \<in> {ALREADY_APPLIED, NEEDS_REVIEW, FAILED_BEFORE_COMMIT, DRAFT_ONLY}"
  using assms by (cases v) (auto dest: validate_kinds)

lemma parse_commit_confirmedD:
  assumes "parse_commit_outcome v = Some (ConfirmedSubmittedOutcome e)"
  shows "\<exists>e0. v = V_CONFIRMED e0 \<and> validate_evidence e0 = Some e"
  using assms
  by (cases v)
     (auto simp: validate_already_applied_def validate_needs_review_def validate_unknown_def
        validate_failed_before_commit_def validate_draft_only_def split: if_splits option.splits)

end
