(* ===== verification/Submission_State.thy ===== *)
theory Submission_State
  imports Submission_Domain
begin

text \<open>
  The attempt stage machine of \<^verbatim>\<open>core/submission_state.py\<close>: allowed stage transitions, allowed
  terminal outcomes, and the projection onto the legacy status column.
\<close>

section \<open>The machine\<close>

datatype state_error =
  InvalidTransition attempt_stage attempt_stage "attempt_outcome option"
  | FinishedNeedsOutcome
  | UnfinishedWithOutcome

text \<open>The parameter \<open>outcome\<close> of the functions is an \<open>AttemptOutcome\<close> or a \<open>CommitOutcome\<close>.\<close>

datatype outcome_arg = Plain attempt_outcome | Typed commit_outcome

fun normalize_outcome :: "outcome_arg \<Rightarrow> attempt_outcome" where
  "normalize_outcome (Plain k) = k"
| "normalize_outcome (Typed c) = outcome_kind c"

fun allowed_next_stages :: "attempt_stage \<Rightarrow> attempt_stage set" where
  "allowed_next_stages QUEUED = {INSPECTING, FINISHED}"
| "allowed_next_stages INSPECTING = {PREPARING, READY, FINISHED}"
| "allowed_next_stages PREPARING = {READY, FINISHED}"
| "allowed_next_stages READY = {COMMITTING, FINISHED}"
| "allowed_next_stages COMMITTING = {VERIFYING, FINISHED}"
| "allowed_next_stages VERIFYING = {FINISHED}"
| "allowed_next_stages FINISHED = {}"

fun allowed_terminal_outcomes :: "attempt_stage \<Rightarrow> attempt_outcome set" where
  "allowed_terminal_outcomes QUEUED = {NEEDS_REVIEW, FAILED_BEFORE_COMMIT, DRAFT_ONLY}"
| "allowed_terminal_outcomes INSPECTING =
     {ALREADY_APPLIED, NEEDS_REVIEW, FAILED_BEFORE_COMMIT, DRAFT_ONLY}"
| "allowed_terminal_outcomes PREPARING =
     {ALREADY_APPLIED, NEEDS_REVIEW, FAILED_BEFORE_COMMIT, DRAFT_ONLY}"
| "allowed_terminal_outcomes READY =
     {ALREADY_APPLIED, NEEDS_REVIEW, FAILED_BEFORE_COMMIT, DRAFT_ONLY}"
| "allowed_terminal_outcomes COMMITTING = {UNKNOWN}"
| "allowed_terminal_outcomes VERIFYING = {CONFIRMED_SUBMITTED, UNKNOWN}"
| "allowed_terminal_outcomes FINISHED = {}"

definition can_transition ::
  "attempt_stage \<Rightarrow> attempt_stage \<Rightarrow> outcome_arg option \<Rightarrow> bool" where
  "can_transition current target oc =
     (if target \<notin> allowed_next_stages current then False
      else if target = FINISHED
      then (case oc of None \<Rightarrow> False
            | Some a \<Rightarrow> normalize_outcome a \<in> allowed_terminal_outcomes current)
      else oc = None)"

definition require_transition ::
  "attempt_stage \<Rightarrow> attempt_stage \<Rightarrow> outcome_arg option \<Rightarrow> state_error + unit" where
  "require_transition current target oc =
     (if can_transition current target oc then Inr ()
      else Inl (InvalidTransition current target (map_option normalize_outcome oc)))"

fun legacy_terminal_projection :: "attempt_outcome \<Rightarrow> submission_status" where
  "legacy_terminal_projection CONFIRMED_SUBMITTED = SS_SUCCESS"
| "legacy_terminal_projection ALREADY_APPLIED = SS_FAILED"
| "legacy_terminal_projection NEEDS_REVIEW = SS_FAILED"
| "legacy_terminal_projection UNKNOWN = SS_UNKNOWN"
| "legacy_terminal_projection FAILED_BEFORE_COMMIT = SS_FAILED"
| "legacy_terminal_projection DRAFT_ONLY = SS_DRAFT_ONLY"
| "legacy_terminal_projection OPERATOR_CONFIRMED = SS_UNKNOWN"
| "legacy_terminal_projection LEGACY_UNVERIFIED = SS_UNKNOWN"

definition project_legacy_status ::
  "attempt_stage \<Rightarrow> outcome_arg option \<Rightarrow> state_error + submission_status" where
  "project_legacy_status stage oc =
     (if stage = FINISHED
      then (case oc of None \<Rightarrow> Inl FinishedNeedsOutcome
            | Some a \<Rightarrow> Inr (legacy_terminal_projection (normalize_outcome a)))
      else if oc \<noteq> None then Inl UnfinishedWithOutcome
      else if stage \<in> {QUEUED, INSPECTING, PREPARING, READY} then Inr SS_PENDING
      else Inr SS_RUNNING)"

section \<open>Runs of the machine\<close>

text \<open>
  A request to move an attempt is a target stage with an optional outcome. \<open>stage_run\<close> applies a
  list of requests and stops at the first rejected one, as the exception does.
\<close>

type_synonym move = "attempt_stage \<times> outcome_arg option"

fun stage_run :: "attempt_stage \<Rightarrow> move list \<Rightarrow> state_error + attempt_stage" where
  "stage_run s [] = Inr s"
| "stage_run s ((t, oc) # ms) =
     (case require_transition s t oc of Inl e \<Rightarrow> Inl e | Inr _ \<Rightarrow> stage_run t ms)"

text \<open>The position of a stage in the enumeration: every allowed transition increases it.\<close>

fun stage_rank :: "attempt_stage \<Rightarrow> nat" where
  "stage_rank QUEUED = 0"
| "stage_rank INSPECTING = 1"
| "stage_rank PREPARING = 2"
| "stage_rank READY = 3"
| "stage_rank COMMITTING = 4"
| "stage_rank VERIFYING = 5"
| "stage_rank FINISHED = 6"

definition crossed :: "attempt_stage \<Rightarrow> bool" where
  "crossed s \<longleftrightarrow> s = COMMITTING \<or> s = VERIFYING"

definition precommit :: "attempt_stage \<Rightarrow> bool" where
  "precommit s \<longleftrightarrow> s \<in> {QUEUED, INSPECTING, PREPARING, READY}"

section \<open>Lemmas\<close>

lemma can_transition_finished [stage_simps]:
  "can_transition s FINISHED (Some a) \<longleftrightarrow> normalize_outcome a \<in> allowed_terminal_outcomes s"
  by (cases s) (auto simp: can_transition_def)

lemma can_transition_unfinished [stage_simps]:
  "t \<noteq> FINISHED \<Longrightarrow> can_transition s t oc \<longleftrightarrow> oc = None \<and> t \<in> allowed_next_stages s"
  by (auto simp: can_transition_def)

lemma can_transition_rank: "can_transition s t oc \<Longrightarrow> stage_rank s < stage_rank t"
  by (cases s; cases t) (auto simp: can_transition_def)

lemma require_transition_Inr [simp]:
  "require_transition s t oc = Inr u \<longleftrightarrow> can_transition s t oc"
  by (simp add: require_transition_def)

lemma require_transition_cases:
  "(case require_transition s t oc of Inl e \<Rightarrow> f e | Inr _ \<Rightarrow> g) =
     (if can_transition s t oc then g
      else f (InvalidTransition s t (map_option normalize_outcome oc)))"
  by (simp add: require_transition_def)

lemma precommit_outcome_only_finish:
  "precommit s \<Longrightarrow> k \<in> {NEEDS_REVIEW, FAILED_BEFORE_COMMIT, DRAFT_ONLY} \<Longrightarrow>
     can_transition s FINISHED (Some (Plain k))"
  by (cases s) (auto simp: precommit_def stage_simps)

lemma crossed_only_unknown_or_confirmed:
  "crossed s \<Longrightarrow> can_transition s FINISHED (Some a) \<Longrightarrow>
     normalize_outcome a \<in> {UNKNOWN, CONFIRMED_SUBMITTED}"
  by (auto simp: crossed_def stage_simps)

lemma stage_run_ConsD:
  assumes "stage_run s ((u, oc) # ms) = Inr t"
  shows "can_transition s u oc" "stage_run u ms = Inr t"
  using assms by (auto simp: require_transition_def split: if_splits)

lemma stage_run_rank:
  "stage_run s ms = Inr t \<Longrightarrow> stage_rank s + length ms \<le> stage_rank t"
proof (induction ms arbitrary: s)
  case (Cons m ms)
  obtain u oc where m: "m = (u, oc)" by force
  note step = stage_run_ConsD[OF Cons.prems[unfolded m]]
  from can_transition_rank[OF step(1)] Cons.IH[OF step(2)] show ?case by simp
qed simp

lemma stage_run_append:
  "stage_run s (ms @ ns) =
     (case stage_run s ms of Inl e \<Rightarrow> Inl e | Inr u \<Rightarrow> stage_run u ns)"
  by (induction ms arbitrary: s) (auto simp: require_transition_def split: sum.splits)

lemma stage_run_target:
  "stage_run s ms = Inr t \<Longrightarrow> t \<noteq> FINISHED \<Longrightarrow> t = s \<or> (t, None) \<in> set ms"
proof (induction ms arbitrary: s)
  case (Cons m ms)
  obtain u oc where m: "m = (u, oc)" by force
  note step = stage_run_ConsD[OF Cons.prems(1)[unfolded m]]
  from Cons.IH[OF step(2) Cons.prems(2)] step(1) Cons.prems(2) m show ?case
    by (auto simp: can_transition_def split: if_splits)
qed simp

lemma stage_run_verifying:
  "stage_run s ms = Inr VERIFYING \<Longrightarrow> crossed s \<or> (COMMITTING, None) \<in> set ms"
proof (induction ms arbitrary: s)
  case (Cons m ms)
  obtain u oc where m: "m = (u, oc)" by force
  note step = stage_run_ConsD[OF Cons.prems(1)[unfolded m]]
  from Cons.IH[OF step(2)] step(1) m show ?case
    by (cases s; cases u) (auto simp: can_transition_def crossed_def split: if_splits)
qed (simp add: crossed_def)

lemma confirmed_only_from_verifying:
  "can_transition s FINISHED (Some a) \<Longrightarrow> normalize_outcome a = CONFIRMED_SUBMITTED \<Longrightarrow>
     s = VERIFYING"
  by (cases s) (auto simp: stage_simps)

section \<open>Properties\<close>

text \<open>
  C32: every run of the stage machine terminates within six moves and each move strictly advances
  the stage: no list of requests, in any order, brings an attempt back to an earlier stage.
\<close>

theorem stage_run_bounded:
  assumes "stage_run s ms = Inr t"
  shows "stage_rank s + length ms \<le> stage_rank t \<and> length ms \<le> 6"
proof -
  have "stage_rank t \<le> 6" by (cases t) simp_all
  with stage_run_rank[OF assms] show ?thesis by simp
qed

theorem stage_run_bounded_witness:
  "stage_run QUEUED [(INSPECTING, None), (PREPARING, None), (READY, None), (COMMITTING, None),
     (VERIFYING, None), (FINISHED, Some (Plain CONFIRMED_SUBMITTED))] = Inr FINISHED
   \<and> stage_rank QUEUED + 6 \<le> stage_rank FINISHED"
proof -
  have run: "stage_run QUEUED [(INSPECTING, None), (PREPARING, None), (READY, None),
     (COMMITTING, None), (VERIFYING, None), (FINISHED, Some (Plain CONFIRMED_SUBMITTED))]
     = Inr FINISHED"
    by (simp add: require_transition_def can_transition_def)
  show ?thesis using run stage_run_bounded[OF run] by simp
qed

text \<open>
  A confirmed submission needs the whole boundary. If a run that starts before the commit
  boundary finishes with the outcome \<open>CONFIRMED_SUBMITTED\<close>, then its moves pass through
  \<open>COMMITTING\<close> and \<open>VERIFYING\<close>; and legacy \<open>SUCCESS\<close> is projected from no other outcome.
\<close>

theorem confirmed_passes_boundary:
  assumes "stage_run s (ms @ [(FINISHED, Some a)]) = Inr FINISHED" and "precommit s"
    and "project_legacy_status FINISHED (Some a) = Inr SS_SUCCESS"
  shows "normalize_outcome a = CONFIRMED_SUBMITTED
         \<and> (COMMITTING, None) \<in> set ms \<and> (VERIFYING, None) \<in> set ms"
proof -
  from assms(3) have a: "normalize_outcome a = CONFIRMED_SUBMITTED"
    by (cases "normalize_outcome a") (auto simp: project_legacy_status_def)
  from assms(1) obtain u where run: "stage_run s ms = Inr u"
    and "can_transition u FINISHED (Some a)"
    by (auto simp: stage_run_append require_transition_def split: sum.splits if_splits)
  with a have u: "u = VERIFYING" by (blast dest: confirmed_only_from_verifying)
  from assms(2) have "\<not> crossed s" and "s \<noteq> VERIFYING" by (auto simp: precommit_def crossed_def)
  with stage_run_target[OF run] stage_run_verifying[OF run[unfolded u]] u a show ?thesis by auto
qed

theorem confirmed_passes_boundary_witness:
  "(COMMITTING, None) \<in>
     set [(INSPECTING, None), (READY, None), (COMMITTING, None), (VERIFYING, None) :: move]"
  using confirmed_passes_boundary
    [of QUEUED "[(INSPECTING, None), (READY, None), (COMMITTING, None), (VERIFYING, None)]"
      "Plain CONFIRMED_SUBMITTED"]
  by (simp add: require_transition_def can_transition_def precommit_def project_legacy_status_def)

end
