(* ===== verification/Safe_Pattern.thy ===== *)
theory Safe_Pattern
  imports Py_Prelude
begin

text \<open>
  The matcher for employer-supplied input patterns of \<^verbatim>\<open>core/submission_domain.py\<close>. An untrusted
  pattern is compiled to a list of bounded atoms, or refused, and matched by a set of positions,
  never by a regular-expression engine. The reference definition is the language of a list of
  atoms; the matcher decides exactly that language, and its work is bounded by the accepted
  pattern.
\<close>

section \<open>Character sets and atoms\<close>

definition ascii_letters :: string where
  "ascii_letters = ''abcdefghijklmnopqrstuvwxyzABCDEFGHIJKLMNOPQRSTUVWXYZ''"

definition ascii_digits :: string where
  "ascii_digits = ''0123456789''"

definition literal_chars :: "char set" where
  "literal_chars = set (ascii_letters @ ascii_digits @ '' _:/@.,%-'')"

definition escaped_literals :: "char set" where
  "escaped_literals = set (CHR 0x5C # ''.+-*?{}[]()|^$'')"

definition ascii_word :: "char set" where
  "ascii_word = set (ascii_letters @ ascii_digits @ ''_'')"

definition ascii_space :: "char set" where
  "ascii_space =
     set [CHR 0x20, CHR 0x09, CHR 0x0D, CHR 0x0A, CHR 0x0C, CHR 0x0B]"

definition max_pattern_chars :: nat where
  "max_pattern_chars = 128"

definition max_pattern_repeat :: nat where
  "max_pattern_repeat = 64"

definition max_pattern_states :: nat where
  "max_pattern_states = 256"

record pattern_atom =
  pat_characters :: "char set"
  pat_minimum :: nat
  pat_maximum :: nat

section \<open>Parsing\<close>

definition escaped_pattern_characters :: "string \<Rightarrow> nat \<Rightarrow> (char set \<times> nat) option" where
  "escaped_pattern_characters p i =
     (if length p \<le> i + 1 then None
      else let e = p ! (i + 1) in
        if e = CHR ''d'' then Some (set ascii_digits, i + 2)
        else if e = CHR ''w'' then Some (ascii_word, i + 2)
        else if e = CHR ''s'' then Some (ascii_space, i + 2)
        else if e \<in> escaped_literals then Some ({e}, i + 2)
        else None)"

text \<open>One unit of a class: its characters, the literal it stands for if single, the next index.\<close>

definition class_unit :: "string \<Rightarrow> nat \<Rightarrow> (char set \<times> char option \<times> nat) option" where
  "class_unit p i =
     (if length p \<le> i \<or> p ! i = CHR '']'' then None
      else if p ! i = CHR 0x5C
      then (case escaped_pattern_characters p i of
              None \<Rightarrow> None
            | Some (cs, j) \<Rightarrow> Some (cs, if card cs = 1 then Some (the_elem cs) else None, j))
      else let c = p ! i in
        if c \<notin> literal_chars \<or> c = CHR ''['' then None else Some ({c}, Some c, i + 1))"

definition char_range :: "char \<Rightarrow> char \<Rightarrow> char set" where
  "char_range a b = set (map char_of [(of_char a :: nat) ..< Suc (of_char b)])"

text \<open>
  One turn of the loop of \<open>_character_class\<close>: a range when the unit is followed by a dash that
  does not end the class, the unit alone otherwise.
\<close>

definition class_item :: "string \<Rightarrow> nat \<Rightarrow> (char set \<times> nat) option" where
  "class_item p i =
     (case class_unit p i of
        None \<Rightarrow> None
      | Some (cs, lit, j) \<Rightarrow>
          (if j < length p \<and> p ! j = CHR ''-'' \<and> j + 1 < length p \<and> p ! (j + 1) \<noteq> CHR '']''
           then (case class_unit p (j + 1) of
                   None \<Rightarrow> None
                 | Some (cs2, lit2, k) \<Rightarrow>
                     (case (lit, lit2) of
                        (Some a, Some b) \<Rightarrow>
                          (if (of_char a :: nat) > of_char b then None
                           else Some (char_range a b, k))
                      | _ \<Rightarrow> None))
           else Some (cs, j)))"

lemma escaped_pattern_characters_advances:
  "escaped_pattern_characters p i = Some (cs, j) \<Longrightarrow> i < j \<and> j \<le> length p"
  by (auto simp: escaped_pattern_characters_def Let_def split: if_splits)

lemma class_unit_advances: "class_unit p i = Some (cs, l, j) \<Longrightarrow> i < j \<and> j \<le> length p"
  by (auto simp: class_unit_def Let_def split: if_splits option.splits
      dest: escaped_pattern_characters_advances)

lemma class_item_advances: "class_item p i = Some (cs, j) \<Longrightarrow> i < j \<and> j \<le> length p"
  by (force simp: class_item_def split: if_splits option.splits dest: class_unit_advances)

function class_loop :: "string \<Rightarrow> nat \<Rightarrow> char set \<Rightarrow> (char set \<times> nat) option" where
  "class_loop p i acc =
     (if i < length p \<and> p ! i \<noteq> CHR '']''
      then (case class_item p i of
              None \<Rightarrow> None
            | Some (cs, j) \<Rightarrow> class_loop p j (acc \<union> cs))
      else Some (acc, i))"
  by pat_completeness auto
termination
  by (relation "measure (\<lambda>(p, i, acc). length p - i)") (auto dest: class_item_advances)

declare class_loop.simps [simp del]

definition character_class :: "string \<Rightarrow> nat \<Rightarrow> (char set \<times> nat) option" where
  "character_class p i =
     (if length p \<le> i + 1 \<or> p ! (i + 1) = CHR ''^'' \<or> p ! (i + 1) = CHR '']'' then None
      else (case class_loop p (i + 1) {} of
              None \<Rightarrow> None
            | Some (cs, j) \<Rightarrow>
                (if length p \<le> j \<or> p ! j \<noteq> CHR '']'' \<or> cs = {} then None
                 else Some (cs, j + 1))))"

section \<open>Quantifiers\<close>

text \<open>\<open>str.find(c, start)\<close>.\<close>

definition find_from :: "string \<Rightarrow> char \<Rightarrow> nat \<Rightarrow> nat option" where
  "find_from p c i =
     (let k = length (takeWhile (\<lambda>x. x \<noteq> c) (drop i p))
      in if i + k < length p then Some (i + k) else None)"

definition digit_value :: "char \<Rightarrow> nat" where
  "digit_value c = of_char c - 48"

definition decimal :: "string \<Rightarrow> nat" where
  "decimal s = foldl (\<lambda>n c. 10 * n + digit_value c) 0 s"

definition two_digits :: "string \<Rightarrow> bool" where
  "two_digits s = (1 \<le> length s \<and> length s \<le> 2 \<and> list_all (\<lambda>c. c \<in> set ascii_digits) s)"

text \<open>
  The full match of one or two digits with an optional comma and one or two further digits:
  minimum and maximum, where a missing second number repeats the first.
\<close>

definition quantifier_body :: "string \<Rightarrow> (nat \<times> nat) option" where
  "quantifier_body s =
     (let a = takeWhile (\<lambda>c. c \<noteq> CHR '','') s; rest = dropWhile (\<lambda>c. c \<noteq> CHR '','') s
      in if \<not> two_digits a then None
         else (case rest of
                 [] \<Rightarrow> Some (decimal a, decimal a)
               | c # b \<Rightarrow> if two_digits b then Some (decimal a, decimal b) else None))"

definition bounded_quantifier :: "string \<Rightarrow> nat \<Rightarrow> (nat \<times> nat \<times> nat) option" where
  "bounded_quantifier p i =
     (if length p \<le> i then Some (1, 1, i)
      else if p ! i = CHR ''?'' then Some (0, 1, i + 1)
      else if p ! i \<noteq> CHR ''{''
      then (if p ! i = CHR ''*'' \<or> p ! i = CHR ''+'' then None else Some (1, 1, i))
      else (case find_from p (CHR ''}'') (i + 1) of
              None \<Rightarrow> None
            | Some close \<Rightarrow>
                (case quantifier_body (take (close - (i + 1)) (drop (i + 1) p)) of
                   None \<Rightarrow> None
                 | Some (mn, mx) \<Rightarrow>
                     (if mx < 1 \<or> mn > mx \<or> mx > max_pattern_repeat then None
                      else Some (mn, mx, close + 1)))))"

text \<open>The first part of an atom at the cursor: a class, an escape or a literal.\<close>

definition pattern_unit :: "string \<Rightarrow> nat \<Rightarrow> (char set \<times> nat) option" where
  "pattern_unit p i =
     (let c = p ! i in
      if c = CHR ''['' then character_class p i
      else if c = CHR 0x5C then escaped_pattern_characters p i
      else if c \<in> literal_chars then Some ({c}, i + 1)
      else None)"

lemma class_loop_advances: "class_loop p i acc = Some (cs, j) \<Longrightarrow> i \<le> j"
proof (induction p i acc rule: class_loop.induct)
  case (1 p i acc)
  then show ?case
    by (force simp: class_loop.simps[of p i acc] split: if_splits option.splits
        dest!: class_item_advances)
qed

lemma character_class_advances: "character_class p i = Some (cs, j) \<Longrightarrow> i < j \<and> j \<le> length p"
  by (auto simp: character_class_def split: if_splits option.splits dest: class_loop_advances)

lemma pattern_unit_advances:
  "pattern_unit p i = Some (cs, j) \<Longrightarrow> i < length p \<Longrightarrow> i < j \<and> j \<le> length p"
  by (auto simp: pattern_unit_def Let_def split: if_splits
      dest: character_class_advances escaped_pattern_characters_advances)

lemma find_from_bounds: "find_from p c i = Some k \<Longrightarrow> i \<le> k \<and> k < length p"
  by (auto simp: find_from_def Let_def split: if_splits)

lemma bounded_quantifier_advances:
  "bounded_quantifier p i = Some (mn, mx, j) \<Longrightarrow> i \<le> j"
  by (auto simp: bounded_quantifier_def split: if_splits option.splits dest!: find_from_bounds)

section \<open>Compilation\<close>

text \<open>
  The main loop of \<open>_parse_bounded_form_pattern\<close>, on the pattern without its terminal anchor:
  cursor, state count so far, result.
\<close>

function parse_loop :: "string \<Rightarrow> nat \<Rightarrow> nat \<Rightarrow> pattern_atom list option" where
  "parse_loop p i states =
     (if length p \<le> i then Some []
      else (case pattern_unit p i of
              None \<Rightarrow> None
            | Some (cs, j) \<Rightarrow>
                (case bounded_quantifier p j of
                   None \<Rightarrow> None
                 | Some (mn, mx, k) \<Rightarrow>
                     (if states + mx > max_pattern_states then None
                      else map_option (Cons \<lparr>pat_characters = cs, pat_minimum = mn,
                                            pat_maximum = mx\<rparr>)
                             (parse_loop p k (states + mx))))))"
  by pat_completeness auto
termination
  by (relation "measure (\<lambda>(p, i, n). length p - i)")
     (auto, metis bounded_quantifier_advances diff_less_mono2 dual_order.strict_trans2 not_le
        order_less_le_trans pattern_unit_advances)

declare parse_loop.simps [simp del]

text \<open>
  The terminal \<open>$\<close> is an anchor unless it is escaped: an even number of backslashes before it.
\<close>

definition trailing_backslashes :: "string \<Rightarrow> nat" where
  "trailing_backslashes p = length (takeWhile (\<lambda>c. c = CHR 0x5C) (rev (butlast p)))"

definition terminal_index :: "string \<Rightarrow> nat" where
  "terminal_index p =
     (if p \<noteq> [] \<and> last p = CHR ''$'' \<and> even (trailing_backslashes p)
      then length p - 1 else length p)"

definition parse_bounded_form_pattern :: "string \<Rightarrow> pattern_atom list option" where
  "parse_bounded_form_pattern p =
     (if p = [] \<or> length p > max_pattern_chars then None
      else let cursor = (if hd p = CHR ''^'' then 1 else 0); terminal = terminal_index p
           in if cursor > terminal then None
              else (case parse_loop (take terminal p) cursor 0 of
                      None \<Rightarrow> None
                    | Some atoms \<Rightarrow> (if atoms = [] then None else Some atoms)))"

section \<open>Matching\<close>

text \<open>
  The inner loop for one position: the end positions after \<open>count\<close> further characters, for every
  count up to the maximum while the characters match. \<open>n\<close> counts the repetitions left.
\<close>

fun extend_position :: "pattern_atom \<Rightarrow> string \<Rightarrow> nat \<Rightarrow> nat \<Rightarrow> nat \<Rightarrow> nat set" where
  "extend_position a v cursor count 0 = {}"
| "extend_position a v cursor count (Suc n) =
     (if length v \<le> cursor \<or> v ! cursor \<notin> pat_characters a then {}
      else (if pat_minimum a \<le> count then {Suc cursor} else {})
           \<union> extend_position a v (Suc cursor) (Suc count) n)"

definition step_position :: "pattern_atom \<Rightarrow> string \<Rightarrow> nat \<Rightarrow> nat set" where
  "step_position a v pos =
     (if pat_minimum a = 0 then {pos} else {}) \<union> extend_position a v pos 1 (pat_maximum a)"

fun match_positions :: "pattern_atom list \<Rightarrow> string \<Rightarrow> nat set \<Rightarrow> nat set option" where
  "match_positions [] v P = Some P"
| "match_positions (a # as) v P =
     (let Q = (\<Union>pos \<in> P. step_position a v pos)
      in if Q = {} then None else match_positions as v Q)"

definition matches_bounded_form_pattern :: "string \<Rightarrow> string \<Rightarrow> bool" where
  "matches_bounded_form_pattern p v =
     (case parse_bounded_form_pattern p of
        None \<Rightarrow> False
      | Some atoms \<Rightarrow>
          (if length v > sum_list (map pat_maximum atoms) then False
           else (case match_positions atoms v {0} of
                   None \<Rightarrow> False
                 | Some P \<Rightarrow> length v \<in> P)))"

section \<open>The reference: the language of a list of atoms\<close>

definition atom_lang :: "pattern_atom \<Rightarrow> string set" where
  "atom_lang a =
     {u. pat_minimum a \<le> length u \<and> length u \<le> pat_maximum a \<and> set u \<subseteq> pat_characters a}"

fun atoms_lang :: "pattern_atom list \<Rightarrow> string set" where
  "atoms_lang [] = {[]}"
| "atoms_lang (a # as) = {u @ w |u w. u \<in> atom_lang a \<and> w \<in> atoms_lang as}"

definition wf_atom :: "pattern_atom \<Rightarrow> bool" where
  "wf_atom a \<longleftrightarrow> pat_minimum a \<le> pat_maximum a \<and> 1 \<le> pat_maximum a
     \<and> pat_maximum a \<le> max_pattern_repeat"

section \<open>The matcher decides the language\<close>

lemma extend_position_eq:
  "extend_position a v c count n =
     {c + k |k. 1 \<le> k \<and> k \<le> n \<and> pat_minimum a \<le> count + k - 1 \<and> c + k \<le> length v
                \<and> set (take k (drop c v)) \<subseteq> pat_characters a}"
proof (induction n arbitrary: c count)
  case 0
  then show ?case by auto
next
  case (Suc n)
  show ?case
  proof (cases "c < length v \<and> v ! c \<in> pat_characters a")
    case False
    have "k = 0" if "c + k \<le> length v" "set (take k (drop c v)) \<subseteq> pat_characters a" for k
    proof (rule ccontr)
      assume "k \<noteq> 0"
      with that(1) have "c < length v" and "v ! c \<in> set (take k (drop c v))"
        by (auto simp: in_set_conv_nth intro!: exI[of _ 0])
      with False that(2) show False by auto
    qed
    with False show ?thesis by fastforce
  next
    case True
    then have tk: "take (Suc k) (drop c v) = v ! c # take k (drop (Suc c) v)" for k
      by (simp add: Cons_nth_drop_Suc[symmetric])
    have split: "{c + k |k. 1 \<le> k \<and> k \<le> Suc n \<and> P k} =
        (if P 1 then {Suc c} else {}) \<union> {Suc c + k |k. 1 \<le> k \<and> k \<le> n \<and> P (Suc k)}"
      for P
    proof -
      have "1 \<le> k \<and> k \<le> Suc n \<longleftrightarrow> k = 1 \<or> (\<exists>j. k = Suc j \<and> 1 \<le> j \<and> j \<le> n)" for k
        by (cases k) auto
      then show ?thesis by (auto; metis One_nat_def add_Suc_right)
    qed
    from True show ?thesis
      unfolding split by (simp add: Suc.IH tk)
  qed
qed

lemma step_position_eq:
  assumes "pos \<le> length v" "pat_minimum a \<le> pat_maximum a"
  shows "step_position a v pos =
     {pos + length u |u w. drop pos v = u @ w \<and> u \<in> atom_lang a}"
proof -
  have "q \<in> step_position a v pos \<longleftrightarrow>
      (\<exists>k. q = pos + k \<and> pat_minimum a \<le> k \<and> k \<le> pat_maximum a \<and> pos + k \<le> length v
           \<and> set (take k (drop pos v)) \<subseteq> pat_characters a)" for q
    using assms by (cases "q = pos") (auto simp: step_position_def extend_position_eq)
  moreover have "(\<exists>k. q = pos + k \<and> pat_minimum a \<le> k \<and> k \<le> pat_maximum a
        \<and> pos + k \<le> length v \<and> set (take k (drop pos v)) \<subseteq> pat_characters a) \<longleftrightarrow>
      (\<exists>u w. q = pos + length u \<and> drop pos v = u @ w \<and> u \<in> atom_lang a)" (is "?L \<longleftrightarrow> ?R") for q
  proof
    assume ?L
    then obtain k where k: "q = pos + k" "pat_minimum a \<le> k" "k \<le> pat_maximum a"
      "pos + k \<le> length v" "set (take k (drop pos v)) \<subseteq> pat_characters a" by blast
    then show ?R
      by (intro exI[of _ "take k (drop pos v)"] exI[of _ "drop (k + pos) v"])
         (auto simp: atom_lang_def append_take_drop_id simp flip: drop_drop)
  next
    assume ?R
    then obtain u w where u: "q = pos + length u" "drop pos v = u @ w" "u \<in> atom_lang a" by blast
    then have "length u \<le> length v - pos" by (metis length_append length_drop le_add1)
    with u assms(1) show ?L by (intro exI[of _ "length u"]) (auto simp: atom_lang_def)
  qed
  ultimately show ?thesis by blast
qed

lemma step_position_bounded:
  "pos \<le> length v \<Longrightarrow> pat_minimum a \<le> pat_maximum a \<Longrightarrow> q \<in> step_position a v pos \<Longrightarrow> q \<le> length v"
  by (auto simp: step_position_eq) (metis length_append length_drop le_add1 le_diff_conv2 add.commute)

lemma match_positions_iff:
  assumes "\<forall>a \<in> set as. pat_minimum a \<le> pat_maximum a" and "\<forall>pos \<in> P. pos \<le> length v"
  shows "(case match_positions as v P of None \<Rightarrow> False | Some Q \<Rightarrow> length v \<in> Q) \<longleftrightarrow>
         (\<exists>pos \<in> P. drop pos v \<in> atoms_lang as)"
  using assms
proof (induction as arbitrary: P)
  case Nil
  then show ?case by (auto intro: bexI[of _ "length v"])
next
  case (Cons a as)
  let ?Q = "\<Union>pos \<in> P. step_position a v pos"
  from Cons.prems have a: "pat_minimum a \<le> pat_maximum a" by simp
  have bound: "\<forall>q \<in> ?Q. q \<le> length v"
    using Cons.prems(2) step_position_bounded[OF _ a] by blast
  have split: "(\<exists>q \<in> ?Q. drop q v \<in> atoms_lang as) \<longleftrightarrow>
      (\<exists>pos \<in> P. drop pos v \<in> atoms_lang (a # as))"
  proof -
    have "(\<exists>q \<in> step_position a v pos. drop q v \<in> atoms_lang as) \<longleftrightarrow>
        drop pos v \<in> atoms_lang (a # as)" if "pos \<in> P" for pos
    proof -
      from that Cons.prems(2) have "pos \<le> length v" by simp
      moreover have "drop (pos + length u) v = w" if "drop pos v = u @ w" for u w :: string
        using that by (metis add.commute append_eq_conv_conj drop_drop)
      ultimately show ?thesis by (simp add: step_position_eq[OF _ a]) blast
    qed
    then show ?thesis by blast
  qed
  show ?case
  proof (cases "?Q = {}")
    case True
    with split show ?thesis by (auto simp: Let_def)
  next
    case False
    then have "match_positions (a # as) v P = match_positions as v ?Q" 
      by (simp only: match_positions.simps Let_def if_False)
    with Cons.IH[OF _ bound] Cons.prems(1) split show ?thesis by simp
  qed
qed

lemma atoms_lang_length: "u \<in> atoms_lang as \<Longrightarrow> length u \<le> sum_list (map pat_maximum as)"
  by (induction as arbitrary: u) (auto simp: atom_lang_def intro!: add_mono)

section \<open>What the compiler accepts\<close>

lemma bounded_quantifier_wf:
  "bounded_quantifier p i = Some (mn, mx, j) \<Longrightarrow> mn \<le> mx \<and> 1 \<le> mx \<and> mx \<le> max_pattern_repeat"
  by (auto simp: bounded_quantifier_def max_pattern_repeat_def split: if_splits option.splits)

lemma parse_loop_wf:
  "parse_loop p i n = Some as \<Longrightarrow>
     list_all wf_atom as \<and> n + sum_list (map pat_maximum as) \<le> max n max_pattern_states"
proof (induction p i n arbitrary: as rule: parse_loop.induct)
  case (1 p i n)
  show ?case
  proof (cases "length p \<le> i")
    case True
    with "1.prems" show ?thesis by (simp add: parse_loop.simps[of p i n])
  next
    case False
    with "1.prems" obtain cs j mn mx k as' where u: "pattern_unit p i = Some (cs, j)"
      and q: "bounded_quantifier p j = Some (mn, mx, k)" and n: "\<not> n + mx > max_pattern_states"
      and rest: "parse_loop p k (n + mx) = Some as'"
      and as: "as = \<lparr>pat_characters = cs, pat_minimum = mn, pat_maximum = mx\<rparr> # as'"
      by (auto simp: parse_loop.simps[of p i n] split: if_splits option.splits)
    have "list_all wf_atom as' \<and>
        n + mx + sum_list (map pat_maximum as') \<le> max (n + mx) max_pattern_states"
      by (rule "1.IH"[OF False u refl q refl refl n rest])
    moreover have "wf_atom \<lparr>pat_characters = cs, pat_minimum = mn, pat_maximum = mx\<rparr>"
      using bounded_quantifier_wf[OF q] by (simp add: wf_atom_def)
    ultimately show ?thesis using n as by simp
  qed
qed

lemma parse_pattern_wf:
  assumes "parse_bounded_form_pattern p = Some as"
  shows "as \<noteq> []" "list_all wf_atom as" "sum_list (map pat_maximum as) \<le> max_pattern_states"
  using assms
  by (auto simp: parse_bounded_form_pattern_def Let_def split: if_splits option.splits
      dest!: parse_loop_wf)

section \<open>Patterns of plain characters\<close>

definition literal_atom :: "char \<Rightarrow> pattern_atom" where
  "literal_atom c = \<lparr>pat_characters = {c}, pat_minimum = 1, pat_maximum = 1\<rparr>"

lemma literal_chars_plain:
  "c \<in> literal_chars \<Longrightarrow>
     c \<noteq> CHR ''['' \<and> c \<noteq> CHR 0x5C \<and> c \<noteq> CHR ''?'' \<and> c \<noteq> CHR ''{'' \<and> c \<noteq> CHR ''*''
     \<and> c \<noteq> CHR ''+'' \<and> c \<noteq> CHR ''^'' \<and> c \<noteq> CHR ''$''"
  by (auto simp: literal_chars_def ascii_letters_def ascii_digits_def)

lemma parse_loop_literals:
  assumes "set p \<subseteq> literal_chars" and "n + (length p - i) \<le> max_pattern_states"
  shows "parse_loop p i n = Some (map literal_atom (drop i p))"
  using assms(2)
proof (induction "length p - i" arbitrary: i n)
  case 0
  then show ?case by (simp add: parse_loop.simps[of p i n])
next
  case (Suc k)
  then have i: "i < length p" by simp
  with assms(1) have c: "p ! i \<in> literal_chars" by (auto dest: nth_mem)
  then have u: "pattern_unit p i = Some ({p ! i}, i + 1)"
    by (auto simp: pattern_unit_def Let_def dest: literal_chars_plain)
  have q: "bounded_quantifier p (i + 1) = Some (1, 1, i + 1)"
  proof (cases "i + 1 < length p")
    case True
    with assms(1) have "p ! (i + 1) \<in> literal_chars" by (auto dest: nth_mem)
    with True show ?thesis by (auto simp: bounded_quantifier_def dest: literal_chars_plain)
  qed (simp add: bounded_quantifier_def)
  have "parse_loop p (i + 1) (n + 1) = Some (map literal_atom (drop (i + 1) p))"
    using Suc.hyps(2) Suc.prems by (intro Suc.hyps(1)) auto
  with i u q Suc.prems show ?case
    by (simp add: parse_loop.simps[of p i n] literal_atom_def Cons_nth_drop_Suc[symmetric])
qed

lemma atoms_lang_literals: "atoms_lang (map literal_atom s) = {s}"
proof (induction s)
  case (Cons c s)
  have "u \<in> atom_lang (literal_atom c) \<longleftrightarrow> u = [c]" for u
    by (cases u) (auto simp: atom_lang_def literal_atom_def)
  with Cons show ?case by auto
qed simp

lemma parse_pattern_literals:
  assumes "s \<noteq> []" "length s \<le> max_pattern_chars" "set s \<subseteq> literal_chars"
  shows "parse_bounded_form_pattern s = Some (map literal_atom s)"
proof -
  from assms have h: "hd s \<in> literal_chars" and l: "last s \<in> literal_chars" by auto
  then have "hd s \<noteq> CHR ''^''" and "terminal_index s = length s"
    by (auto simp: terminal_index_def dest: literal_chars_plain)
  moreover have "parse_loop s 0 0 = Some (map literal_atom s)"
    using parse_loop_literals[OF assms(3), of 0 0] assms(2)
    by (simp add: max_pattern_chars_def max_pattern_states_def)
  ultimately show ?thesis using assms(1,2) by (simp add: parse_bounded_form_pattern_def)
qed

lemma matches_iff_atoms_lang:
  "matches_bounded_form_pattern p v \<longleftrightarrow>
     (\<exists>as. parse_bounded_form_pattern p = Some as \<and> v \<in> atoms_lang as)"
proof (cases "parse_bounded_form_pattern p")
  case None
  then show ?thesis by (simp add: matches_bounded_form_pattern_def)
next
  case (Some as)
  from parse_pattern_wf(2)[OF Some] have "\<forall>a \<in> set as. pat_minimum a \<le> pat_maximum a"
    by (auto simp: list_all_iff wf_atom_def)
  then have "(case match_positions as v {0} of None \<Rightarrow> False | Some Q \<Rightarrow> length v \<in> Q) \<longleftrightarrow>
      v \<in> atoms_lang as"
    by (simp add: match_positions_iff)
  with Some show ?thesis by (auto simp: matches_bounded_form_pattern_def dest: atoms_lang_length)
qed

section \<open>Properties\<close>

text \<open>
  C40: the position-set matcher is equivalent to the reference: it accepts a value exactly when the
  pattern compiles and the value is a concatenation of one word per atom, each word built of the
  atom's characters with a length between its minimum and its maximum.
\<close>

theorem matcher_decides_language:
  "matches_bounded_form_pattern p v \<longleftrightarrow>
     (case parse_bounded_form_pattern p of None \<Rightarrow> False | Some as \<Rightarrow> v \<in> atoms_lang as)"
  by (simp add: matches_iff_atoms_lang split: option.splits)

text \<open>
  Bounds on untrusted patterns. Every compiled pattern has between 1 and 256 automaton states,
  every atom repeats at most 64 times with a consistent lower bound, and no value longer than 256
  characters is ever accepted, whatever the employer supplied.
\<close>

theorem compiled_pattern_bounds:
  assumes "parse_bounded_form_pattern p = Some as"
  shows "as \<noteq> [] \<and> list_all wf_atom as \<and> sum_list (map pat_maximum as) \<le> max_pattern_states
         \<and> length p \<le> max_pattern_chars
         \<and> (\<forall>v. matches_bounded_form_pattern p v \<longrightarrow> length v \<le> 256)"
proof -
  have "length v \<le> 256" if "matches_bounded_form_pattern p v" for v
    using that assms parse_pattern_wf(3)[OF assms] atoms_lang_length[of v as]
    by (auto simp: matches_iff_atoms_lang max_pattern_states_def)
  moreover have "length p \<le> max_pattern_chars"
    using assms by (auto simp: parse_bounded_form_pattern_def split: if_splits)
  ultimately show ?thesis using parse_pattern_wf[OF assms] by blast
qed

theorem compiled_pattern_bounds_witness:
  "parse_bounded_form_pattern ''ab'' = Some (map literal_atom ''ab'')
   \<and> list_all wf_atom (map literal_atom ''ab'')"
proof -
  have p: "parse_bounded_form_pattern ''ab'' = Some (map literal_atom ''ab'')"
    by (rule parse_pattern_literals)
       (auto simp: max_pattern_chars_def literal_chars_def ascii_letters_def)
  show ?thesis using p compiled_pattern_bounds[OF p] by simp
qed

text \<open>
  A pattern of plain characters is its own specification: a non-empty text of at most 128
  literal characters compiles and matches itself and nothing else.
\<close>

theorem literal_pattern_roundtrip:
  assumes "s \<noteq> []" and "length s \<le> max_pattern_chars" and "set s \<subseteq> literal_chars"
  shows "matches_bounded_form_pattern s v \<longleftrightarrow> v = s"
  by (simp add: matches_iff_atoms_lang parse_pattern_literals[OF assms] atoms_lang_literals)

theorem literal_pattern_roundtrip_witness:
  "matches_bounded_form_pattern ''a-b'' ''a-b'' \<and> \<not> matches_bounded_form_pattern ''a-b'' ''axb''"
  using literal_pattern_roundtrip[of "''a-b''" "''a-b''"]
    literal_pattern_roundtrip[of "''a-b''" "''axb''"]
  by (simp add: max_pattern_chars_def literal_chars_def ascii_letters_def)

end
