(* ===== verification/Field_Values.thy ===== *)
theory Field_Values
  imports Complex_Main Submission_Domain Safe_Pattern
begin

text \<open>
  Typed form answers of \<^verbatim>\<open>core/submission_domain.py\<close>: observed fields with options and constraints,
  the semantic checks on dates, e-mail addresses, phone numbers and URLs, and the check of a
  resolved value against its field.
\<close>

section \<open>Observed fields\<close>

datatype field_type =
  FT_TEXT | FT_TEXTAREA | FT_SELECT | FT_MULTI_SELECT | FT_RADIO | FT_CHECKBOX | FT_DATE
  | FT_NUMBER | FT_EMAIL | FT_PHONE | FT_URL | FT_FILE | FT_CONSENT | FT_ATTESTATION | FT_UNKNOWN

datatype sensitive_category =
  SC_AUTHORIZATION | SC_SPONSORSHIP | SC_NATIONALITY | SC_CITIZENSHIP | SC_CLEARANCE
  | SC_LICENSING | SC_CERTIFICATION | SC_DEMOGRAPHIC | SC_CONSENT | SC_ATTESTATION

text \<open>A binary float: a finite value, or an infinity or NaN.\<close>

datatype py_float = Fin rat | NonFinite

record form_option =
  op_option_id :: "string option"
  op_value :: string
  op_label :: string
  op_disabled :: bool

record field_constraints =
  fc_min_length :: "int option"
  fc_max_length :: "int option"
  fc_min_value :: "py_float option"
  fc_max_value :: "py_float option"
  fc_pattern :: "string option"
  fc_accepted_file_types :: "string list"
  fc_max_file_bytes :: "int option"
  fc_multiple :: bool

record form_field =
  ff_field_id :: string
  ff_canonical_name :: "string option"
  ff_label :: string
  ff_type :: field_type
  ff_required :: bool
  ff_position :: int
  ff_options :: "form_option list"
  ff_constraints :: field_constraints
  ff_sensitive_category :: "sensitive_category option"

fun finite_float :: "py_float \<Rightarrow> bool" where
  "finite_float (Fin q) = True"
| "finite_float NonFinite = False"

definition fin_value :: "py_float \<Rightarrow> rat" where
  "fin_value f = (case f of Fin q \<Rightarrow> q | NonFinite \<Rightarrow> 0)"

text \<open>The validators \<open>values_are_finite\<close> and \<open>validate_ranges\<close> with the declared bounds.\<close>

definition constraints_valid :: "field_constraints \<Rightarrow> bool" where
  "constraints_valid c \<longleftrightarrow>
     (case fc_min_length c of None \<Rightarrow> True | Some n \<Rightarrow> 0 \<le> n)
     \<and> (case fc_max_length c of None \<Rightarrow> True | Some n \<Rightarrow> 0 \<le> n)
     \<and> (case fc_max_file_bytes c of None \<Rightarrow> True | Some n \<Rightarrow> 0 < n)
     \<and> length (fc_accepted_file_types c) \<le> 32
     \<and> (case fc_min_value c of None \<Rightarrow> True | Some v \<Rightarrow> finite_float v)
     \<and> (case fc_max_value c of None \<Rightarrow> True | Some v \<Rightarrow> finite_float v)
     \<and> (case (fc_min_length c, fc_max_length c) of (Some a, Some b) \<Rightarrow> a \<le> b | _ \<Rightarrow> True)
     \<and> (case (fc_min_value c, fc_max_value c) of
          (Some a, Some b) \<Rightarrow> fin_value a \<le> fin_value b | _ \<Rightarrow> True)"

text \<open>
  \<open>FormFieldV1.validate_options\<close>. \<open>normt\<close> is \<open>normalize_policy_text\<close>, which rests on the Unicode
  tables. \<open>alias_owned_once\<close> says that the normalised values and labels of two different options
  never meet.
\<close>

definition option_aliases :: "(string \<Rightarrow> string) \<Rightarrow> form_option \<Rightarrow> string set" where
  "option_aliases normt op = {normt (op_value op), normt (op_label op)}"

definition alias_owned_once :: "(string \<Rightarrow> string) \<Rightarrow> form_option list \<Rightarrow> bool" where
  "alias_owned_once normt ops \<longleftrightarrow>
     list_all (\<lambda>i. list_all (\<lambda>j. i = j \<or>
        option_aliases normt (ops ! i) \<inter> option_aliases normt (ops ! j) = {}) [0 ..< length ops])
       [0 ..< length ops]"

definition control_category :: "field_type \<Rightarrow> sensitive_category option" where
  "control_category t =
     (case t of FT_CONSENT \<Rightarrow> Some SC_CONSENT | FT_ATTESTATION \<Rightarrow> Some SC_ATTESTATION | _ \<Rightarrow> None)"

definition validate_options :: "(string \<Rightarrow> string) \<Rightarrow> form_field \<Rightarrow> bool" where
  "validate_options normt f \<longleftrightarrow>
     distinct (map op_value (ff_options f))
     \<and> distinct (map normt (List.map_filter op_option_id (ff_options f)))
     \<and> list_all (\<lambda>op. normt (op_value op) \<noteq> [] \<and> normt (op_label op) \<noteq> []) (ff_options f)
     \<and> alias_owned_once normt (ff_options f)
     \<and> (if ff_type f \<in> {FT_SELECT, FT_MULTI_SELECT, FT_RADIO} then ff_options f \<noteq> []
        else ff_options f = [])
     \<and> (control_category (ff_type f) \<noteq> None \<longrightarrow>
          ff_sensitive_category f = control_category (ff_type f))
     \<and> (ff_sensitive_category f \<in> {Some SC_CONSENT, Some SC_ATTESTATION} \<longrightarrow>
          control_category (ff_type f) = ff_sensitive_category f)"

section \<open>Answer values\<close>

datatype answer_value =
  A_STR string | A_BOOL bool | A_INT int | A_FLOAT py_float | A_TUPLE "string list"

text \<open>
  \<open>float(n)\<close> of an integer: the nearest binary64 value, ties to even, and \<open>OverflowError\<close>
  (\<open>None\<close>) from \<open>2 ^ 1024\<close> on. Below \<open>2 ^ 53\<close> the conversion is exact.
\<close>

function bit_length :: "int \<Rightarrow> nat" where
  "bit_length n = (if n \<le> 0 then 0 else Suc (bit_length (n div 2)))"
  by pat_completeness auto
termination
  by (relation "measure nat") auto

declare bit_length.simps [simp del]

definition round_int :: "int \<Rightarrow> int" where
  "round_int a =
     (if a < 2 ^ 53 then a
      else let e = bit_length a - 53; q = a div 2 ^ e; r = a mod 2 ^ e; half = 2 ^ (e - 1)
           in (if r > half \<or> (r = half \<and> odd q) then q + 1 else q) * 2 ^ e)"

definition int_to_float :: "int \<Rightarrow> rat option" where
  "int_to_float n =
     (let m = round_int \<bar>n\<bar>
      in if m \<ge> 2 ^ 1024 then None else Some (of_int (if n < 0 then - m else m)))"

section \<open>Semantic text values\<close>

definition is_digit :: "char \<Rightarrow> bool" where
  "is_digit c \<longleftrightarrow> c \<in> set ascii_digits"

definition is_alnum :: "char \<Rightarrow> bool" where
  "is_alnum c \<longleftrightarrow> c \<in> set (ascii_letters @ ascii_digits)"

definition is_leap :: "nat \<Rightarrow> bool" where
  "is_leap y \<longleftrightarrow> y mod 4 = 0 \<and> (y mod 100 \<noteq> 0 \<or> y mod 400 = 0)"

definition days_in_month :: "nat \<Rightarrow> nat \<Rightarrow> nat" where
  "days_in_month y m =
     (if m = 2 then (if is_leap y then 29 else 28)
      else if m \<in> {4, 6, 9, 11} then 30 else 31)"

definition valid_date_text :: "string \<Rightarrow> bool" where
  "valid_date_text v \<longleftrightarrow>
     length v = 10 \<and> v ! 4 = CHR ''-'' \<and> v ! 7 = CHR ''-''
     \<and> list_all (\<lambda>i. is_digit (v ! i)) [0, 1, 2, 3, 5, 6, 8, 9]
     \<and> (let y = decimal (take 4 v); m = decimal (take 2 (drop 5 v)); d = decimal (drop 8 v)
        in 1 \<le> y \<and> 1 \<le> m \<and> m \<le> 12 \<and> 1 \<le> d \<and> d \<le> days_in_month y m)"

text \<open>\<open>str.split(c)\<close>.\<close>

fun split_on :: "char \<Rightarrow> string \<Rightarrow> string list" where
  "split_on c [] = [[]]"
| "split_on c (x # xs) =
     (if x = c then [] # split_on c xs
      else (case split_on c xs of [] \<Rightarrow> [[x]] | y # ys \<Rightarrow> (x # y) # ys))"

definition email_local_chars :: string where
  "email_local_chars =
     ascii_letters @ ascii_digits @ ''.!#$%&'' @ [CHR 0x27] @ ''*+/=?^_'' @ [CHR 0x60] @ ''{|}~-''"

definition email_label :: "string \<Rightarrow> bool" where
  "email_label l \<longleftrightarrow>
     1 \<le> length l \<and> length l \<le> 63 \<and> is_alnum (hd l) \<and> is_alnum (last l)
     \<and> list_all (\<lambda>c. is_alnum c \<or> c = CHR ''-'') l"

definition valid_email_text :: "string \<Rightarrow> bool" where
  "valid_email_text v \<longleftrightarrow>
     (let loc = takeWhile (\<lambda>c. c \<noteq> CHR ''@'') v; rest = dropWhile (\<lambda>c. c \<noteq> CHR ''@'') v
      in loc \<noteq> [] \<and> list_all (\<lambda>c. c \<in> set email_local_chars) loc
         \<and> (case rest of
              [] \<Rightarrow> False
            | c # host \<Rightarrow>
                (let ls = split_on (CHR ''.'') host in 2 \<le> length ls \<and> list_all email_label ls)))"

definition phone_middle_chars :: string where
  "phone_middle_chars = ascii_digits @ '' ().-''"

definition valid_phone_text :: "string \<Rightarrow> bool" where
  "valid_phone_text v \<longleftrightarrow>
     (let b = (case v of [] \<Rightarrow> [] | c # cs \<Rightarrow> if c = CHR ''+'' then cs else v)
      in 7 \<le> length b \<and> length b \<le> 32 \<and> is_digit (hd b) \<and> is_digit (last b)
         \<and> list_all (\<lambda>c. c \<in> set phone_middle_chars) (butlast (tl b)))
     \<and> count_list v (CHR ''+'') \<le> 1
     \<and> count_list v (CHR ''('') = count_list v (CHR '')'')
     \<and> 7 \<le> length (filter is_digit v) \<and> length (filter is_digit v) \<le> 15"

text \<open>
  \<open>urlsplit\<close> as the check uses it, on text without white space or control characters: a scheme is
  the part before the first colon when it starts with a letter and consists of letters, digits
  and \<open>+-.\<close>; the authority follows \<open>//\<close> up to the first of \<open>/?#\<close>. \<open>bracket_ok\<close> is the
  standard library's check of an authority with brackets (\<^verbatim>\<open>ipaddress\<close>); where it fails, or the
  brackets do not pair, \<open>urlsplit\<close> raises and the check answers False.
\<close>

definition url_scheme_chars :: string where
  "url_scheme_chars = ascii_letters @ ascii_digits @ ''+-.''"

definition url_scheme_rest :: "string \<Rightarrow> (string \<times> string) option" where
  "url_scheme_rest v =
     (let s = takeWhile (\<lambda>c. c \<noteq> CHR '':'') v; rest = dropWhile (\<lambda>c. c \<noteq> CHR '':'') v
      in if rest \<noteq> [] \<and> s \<noteq> [] \<and> hd s \<in> set ascii_letters
            \<and> list_all (\<lambda>c. c \<in> set url_scheme_chars) s
         then Some (py_lower s, tl rest) else None)"

definition url_authority :: "string \<Rightarrow> string" where
  "url_authority rest =
     (if take 2 rest = ''//''
      then takeWhile (\<lambda>c. c \<notin> {CHR ''/'', CHR ''?'', CHR ''#''}) (drop 2 rest) else [])"

definition authority_hostname :: "string \<Rightarrow> string" where
  "authority_hostname a =
     (if CHR ''['' \<in> set a
      then takeWhile (\<lambda>c. c \<noteq> CHR '']'') (tl (dropWhile (\<lambda>c. c \<noteq> CHR ''['') a))
      else takeWhile (\<lambda>c. c \<noteq> CHR '':'') a)"

definition valid_url_text :: "(string \<Rightarrow> bool) \<Rightarrow> string \<Rightarrow> bool" where
  "valid_url_text bracket_ok v \<longleftrightarrow>
     list_all (\<lambda>c. \<not> is_space c \<and> (of_char c :: nat) \<ge> 32) v
     \<and> (case url_scheme_rest v of
          None \<Rightarrow> False
        | Some (s, rest) \<Rightarrow>
            (let a = url_authority rest
             in (CHR ''['' \<in> set a \<longleftrightarrow> CHR '']'' \<in> set a)
                \<and> (CHR ''['' \<in> set a \<longrightarrow> bracket_ok a)
                \<and> (s = ''http'' \<or> s = ''https'')
                \<and> authority_hostname a \<noteq> [] \<and> CHR ''@'' \<notin> set a))"

definition valid_semantic_text_value :: "(string \<Rightarrow> bool) \<Rightarrow> field_type \<Rightarrow> string \<Rightarrow> bool" where
  "valid_semantic_text_value bracket_ok t v =
     (case t of
        FT_DATE \<Rightarrow> valid_date_text v
      | FT_EMAIL \<Rightarrow> valid_email_text v
      | FT_PHONE \<Rightarrow> valid_phone_text v
      | FT_URL \<Rightarrow> valid_url_text bracket_ok v
      | _ \<Rightarrow> True)"

section \<open>A resolved value against its field\<close>

datatype value_error =
  NotBoolean | NotNumber | BelowMinimum | AboveMaximum | NotString | TooLongForDomain
  | NotCanonical | ShorterThanMinimum | LongerThanMaximum | PatternMismatch | NotTuple
  | UnknownControl

definition boolean_types :: "field_type set" where
  "boolean_types = {FT_CHECKBOX, FT_CONSENT, FT_ATTESTATION}"

definition text_types :: "field_type set" where
  "text_types = {FT_TEXT, FT_TEXTAREA, FT_DATE, FT_EMAIL, FT_PHONE, FT_URL, FT_FILE}"

text \<open>\<open>float(value)\<close> of a number answer; booleans, texts, tuples and non-finite values fail.\<close>

definition numeric_value :: "answer_value \<Rightarrow> rat option" where
  "numeric_value v =
     (case v of
        A_INT n \<Rightarrow> int_to_float n
      | A_FLOAT (Fin q) \<Rightarrow> Some q
      | _ \<Rightarrow> None)"

definition check_number :: "field_constraints \<Rightarrow> answer_value \<Rightarrow> value_error + unit" where
  "check_number c v =
     (case numeric_value v of
        None \<Rightarrow> Inl NotNumber
      | Some q \<Rightarrow>
          (if (case fc_min_value c of None \<Rightarrow> False | Some m \<Rightarrow> q < fin_value m) then Inl BelowMinimum
           else if (case fc_max_value c of None \<Rightarrow> False | Some m \<Rightarrow> q > fin_value m)
           then Inl AboveMaximum else Inr ()))"

definition check_text ::
  "(string \<Rightarrow> bool) \<Rightarrow> field_type \<Rightarrow> field_constraints \<Rightarrow> string \<Rightarrow> value_error + unit" where
  "check_text bracket_ok t c s =
     (let n = int (length s) in
      if n > 2000 then Inl TooLongForDomain
      else if \<not> valid_semantic_text_value bracket_ok t s then Inl NotCanonical
      else if (case fc_min_length c of None \<Rightarrow> False | Some m \<Rightarrow> n < m) then Inl ShorterThanMinimum
      else if (case fc_max_length c of None \<Rightarrow> False | Some m \<Rightarrow> n > m) then Inl LongerThanMaximum
      else if (case fc_pattern c of None \<Rightarrow> False
               | Some p \<Rightarrow> \<not> matches_bounded_form_pattern p s) then Inl PatternMismatch
      else Inr ())"

definition validate_resolved_field_value ::
  "(string \<Rightarrow> bool) \<Rightarrow> form_field \<Rightarrow> answer_value \<Rightarrow> value_error + unit" where
  "validate_resolved_field_value bracket_ok f v =
     (if ff_type f \<in> boolean_types
      then (case v of A_BOOL b \<Rightarrow> Inr () | _ \<Rightarrow> Inl NotBoolean)
      else if ff_type f = FT_NUMBER then check_number (ff_constraints f) v
      else if ff_type f \<in> text_types
      then (case v of A_STR s \<Rightarrow> check_text bracket_ok (ff_type f) (ff_constraints f) s
            | _ \<Rightarrow> Inl NotString)
      else if ff_type f = FT_SELECT \<or> ff_type f = FT_RADIO
      then (case v of A_STR s \<Rightarrow> Inr () | _ \<Rightarrow> Inl NotString)
      else if ff_type f = FT_MULTI_SELECT
      then (case v of A_TUPLE xs \<Rightarrow> Inr () | _ \<Rightarrow> Inl NotTuple)
      else Inl UnknownControl)"

section \<open>Lemmas\<close>

lemma check_text_okD:
  assumes "check_text bk t c s = Inr ()"
  shows "length s \<le> 2000" "valid_semantic_text_value bk t s"
    "fc_min_length c = Some m \<Longrightarrow> m \<le> int (length s)"
    "fc_max_length c = Some m \<Longrightarrow> int (length s) \<le> m"
    "fc_pattern c = Some p \<Longrightarrow> matches_bounded_form_pattern p s"
  using assms by (auto simp: check_text_def Let_def split: if_splits)

lemma check_number_okD:
  assumes "check_number c v = Inr ()"
  shows "\<exists>q. numeric_value v = Some q
             \<and> (\<forall>m. fc_min_value c = Some m \<longrightarrow> fin_value m \<le> q)
             \<and> (\<forall>m. fc_max_value c = Some m \<longrightarrow> q \<le> fin_value m)"
  using assms by (auto simp: check_number_def split: option.splits if_splits)

lemma int_to_float_exact:
  assumes "\<bar>n\<bar> < 2 ^ 53"
  shows "int_to_float n = Some (of_int n)"
proof -
  have "\<bar>n\<bar> < (2::int) ^ 1024" using assms by (rule less_trans) simp
  with assms show ?thesis by (simp add: int_to_float_def round_int_def Let_def del: power_numeral)
qed

end
