(* ===== verification/Form_Plan.thy ===== *)
theory Form_Plan
  imports Field_Values
begin

text \<open>
  Reviewed form plans of \<^verbatim>\<open>core/submission_domain.py\<close>: answer decisions, disclosures, the validator
  of \<open>FormPlanV1\<close>, readiness, the domain permit, and the binding of a prepared final action to its
  plan and permit.
\<close>

section \<open>Decisions and disclosures\<close>

datatype answer_disposition = D_RESOLVED | D_ABSTAINED | D_OPERATOR_REQUIRED | D_CONFIRMED_BLANK

datatype answer_provenance =
  P_DETERMINISTIC_IDENTITY | P_USER_CONFIRMED | P_OPERATOR_APPROVED_REUSABLE | P_CV_EVIDENCE
  | P_LOCAL_LLM | P_VERIFIED_ATTACHMENT | P_OPERATOR_CONFIRMED | P_ABSTAINED

record answer_decision =
  ad_field_id :: string
  ad_disposition :: answer_disposition
  ad_provenance :: answer_provenance
  ad_value :: "answer_value option"
  ad_evidence_refs :: "string list"
  ad_reason :: "reason_code option"

definition operator_reference :: "string \<Rightarrow> bool" where
  "operator_reference r \<longleftrightarrow> prefix ''operator_confirmation:'' r"

definition blank_value :: "answer_value \<Rightarrow> bool" where
  "blank_value v =
     (case v of
        A_STR s \<Rightarrow> strip s = []
      | A_TUPLE xs \<Rightarrow> xs = [] \<or> list_ex (\<lambda>x. strip x = []) xs
      | _ \<Rightarrow> False)"

text \<open>\<open>AnswerDecisionV1.validate_decision\<close>: False where it raises.\<close>

definition validate_decision :: "answer_decision \<Rightarrow> bool" where
  "validate_decision d =
     (if ad_disposition d = D_CONFIRMED_BLANK
      then ad_value d = None \<and> ad_provenance d = P_OPERATOR_CONFIRMED
           \<and> ad_evidence_refs d \<noteq> [] \<and> list_all operator_reference (ad_evidence_refs d)
           \<and> ad_reason d = None
      else if ad_disposition d = D_RESOLVED
      then (case ad_value d of None \<Rightarrow> False | Some v \<Rightarrow> \<not> blank_value v)
           \<and> ad_provenance d \<noteq> P_ABSTAINED \<and> ad_reason d = None
      else ad_value d = None \<and> ad_provenance d = P_ABSTAINED \<and> ad_reason d \<noteq> None)"

datatype disclosure_kind =
  K_PRIVACY_POLICY | K_NO_PRIVACY_POLICY_NOTICE | K_AI_DISCLOSURE | K_IMPRINT | K_DIVERSITY
  | K_INFORMATION

datatype disclosure_source = DS_INLINE | DS_LINK | DS_SYNTHETIC

record form_disclosure =
  fd_disclosure_id :: string
  fd_kind :: disclosure_kind
  fd_source :: disclosure_source
  fd_position :: int
  fd_summary :: string
  fd_content_sha256 :: string
  fd_reference_sha256 :: string
  fd_acknowledgement_field_id :: "string option"

text \<open>\<open>FormDisclosureV1.validate_disclosure\<close>; \<open>sha\<close> is the hexadecimal SHA-256 digest.\<close>

definition validate_disclosure :: "(string \<Rightarrow> string) \<Rightarrow> form_disclosure \<Rightarrow> bool" where
  "validate_disclosure sha d \<longleftrightarrow>
     fd_content_sha256 d = sha (fd_summary d)
     \<and> (if fd_kind d = K_NO_PRIVACY_POLICY_NOTICE
        then fd_source d = DS_SYNTHETIC \<and> fd_acknowledgement_field_id d = None
        else fd_source d \<noteq> DS_SYNTHETIC)"

section \<open>Plans\<close>

record form_plan =
  fp_plan_id :: string
  fp_application_id :: int
  fp_application_revision :: int
  fp_adapter_name :: string
  fp_adapter_version :: string
  fp_selector_version :: string
  fp_form_fingerprint :: string
  fp_selected_cv_id :: string
  fp_selected_cv_hash :: string
  fp_attached_cv_id :: string
  fp_attached_cv_hash :: string
  fp_attachment_verified :: bool
  fp_profile_version :: int
  fp_session_verified_at :: instant
  fp_created_at :: instant
  fp_expires_at :: instant
  fp_fields :: "form_field list"
  fp_disclosures :: "form_disclosure list"
  fp_decisions :: "answer_decision list"
  fp_blockers :: "reason_code list"
  fp_locale :: string
  fp_answer_policy_version :: string
  fp_llm_prompt_version :: "string option"
  fp_llm_model_provider :: "string option"
  fp_llm_model_name :: "string option"
  fp_llm_model_digest :: "string option"

text \<open>
  What the validator asks of other parts: the field classifiers of the sensitive-text policy, the
  registry of qualified local models, the serialised size, the bracket check of \<open>urlsplit\<close>, the
  text normalisation over the Unicode tables and the SHA-256 digest. The plan's guarantees hold
  for every such policy.
\<close>

record plan_policy =
  pp_requires_review :: "form_field \<Rightarrow> bool"
  pp_label_compatible :: "form_field \<Rightarrow> bool"
  pp_cv_attachment :: "form_field \<Rightarrow> bool"
  pp_scoped_sensitive :: "form_field \<Rightarrow> bool"
  pp_canonical_key :: "string \<Rightarrow> string"
  pp_qualified_model :: "string \<Rightarrow> string \<Rightarrow> string \<Rightarrow> bool"
  pp_serialized_size :: "form_plan \<Rightarrow> int"
  pp_bracket_ok :: "string \<Rightarrow> bool"
  pp_normalize :: "string \<Rightarrow> string"
  pp_sha256 :: "string \<Rightarrow> string"

datatype plan_error =
  FieldShapeInvalid | ExpiryBeforeCreation | LifetimeTooLong | PlanTooLarge | PartialModelAudit | DuplicateFieldIds
  | DuplicateDisclosureIds | DuplicateDisclosurePositions | ContradictoryPolicies
  | BadAcknowledgement | DuplicateDecisionIds | UnknownDecisionField | DuplicateBlockers
  | UnsafeBlank | BadAttachmentAnswer | FileNeedsAttachment | IncompatibleLabel
  | SensitiveUnconfirmed | SensitiveNoEvidence | SensitiveUnscopedReuse | SensitiveProfileUnscoped
  | BadFieldValue value_error | OptionNotObserved | MultiNotTuple | OptionsNotObserved
  | AuditLlmMismatch | UnqualifiedLlm | RequiredUnresolved

text \<open>\<open>field_allows_operator_confirmed_blank\<close>.\<close>

definition allows_confirmed_blank :: "plan_policy \<Rightarrow> form_field \<Rightarrow> bool" where
  "allows_confirmed_blank pol f =
     (if ff_required f \<or> pp_requires_review pol f then False
      else if ff_type f \<in> {FT_FILE, FT_CONSENT, FT_ATTESTATION, FT_UNKNOWN} then False
      else fc_min_length (ff_constraints f) \<in> {None, Some 0})"

definition field_by_id :: "form_plan \<Rightarrow> string \<Rightarrow> form_field option" where
  "field_by_id p i = find (\<lambda>f. ff_field_id f = i) (fp_fields p)"

definition decision_by_id :: "form_plan \<Rightarrow> string \<Rightarrow> answer_decision option" where
  "decision_by_id p i = find (\<lambda>d. ad_field_id d = i) (fp_decisions p)"

definition attachment_sentinel :: string where
  "attachment_sentinel = ''verified_attachment''"

definition attachment_evidence_ref :: string where
  "attachment_evidence_ref = ''form-plan:verified-attachment''"

definition verified_attachment_decision :: "answer_decision \<Rightarrow> bool" where
  "verified_attachment_decision d \<longleftrightarrow>
     ad_disposition d = D_RESOLVED \<and> ad_provenance d = P_VERIFIED_ATTACHMENT"

definition exact_attachment_answer :: "plan_policy \<Rightarrow> form_plan \<Rightarrow> form_field \<Rightarrow> answer_decision \<Rightarrow> bool"
  where
  "exact_attachment_answer pol p f d \<longleftrightarrow>
     pp_cv_attachment pol f \<and> ad_value d = Some (A_STR attachment_sentinel)
     \<and> ad_evidence_refs d = [attachment_evidence_ref] \<and> fp_attachment_verified p
     \<and> fp_attached_cv_id p = fp_selected_cv_id p \<and> fp_attached_cv_hash p = fp_selected_cv_hash p"

definition explicitly_confirmed :: "answer_decision \<Rightarrow> bool" where
  "explicitly_confirmed d \<longleftrightarrow>
     ad_evidence_refs d \<noteq> [] \<and> list_all operator_reference (ad_evidence_refs d)"

definition enabled_values :: "form_field \<Rightarrow> string set" where
  "enabled_values f = set (map op_value (filter (\<lambda>op. \<not> op_disabled op) (ff_options f)))"

text \<open>The sensitive-field rules of the decision loop.\<close>

definition check_sensitive ::
  "plan_policy \<Rightarrow> form_field \<Rightarrow> answer_decision \<Rightarrow> plan_error + unit" where
  "check_sensitive pol f d =
     (if \<not> (pp_requires_review pol f \<and> ad_disposition d = D_RESOLVED) then Inr ()
      else if ad_provenance d \<notin> {P_USER_CONFIRMED, P_OPERATOR_APPROVED_REUSABLE}
      then Inl SensitiveUnconfirmed
      else if ad_evidence_refs d = [] then Inl SensitiveNoEvidence
      else if ad_provenance d = P_OPERATOR_APPROVED_REUSABLE \<and> \<not> pp_scoped_sensitive pol f
      then Inl SensitiveUnscopedReuse
      else if ad_provenance d = P_USER_CONFIRMED \<and> \<not> explicitly_confirmed d
      then (let k = pp_canonical_key pol (or_empty (ff_canonical_name f));
                expected = ''profile:user_confirmed:'' @ k
            in if \<not> pp_scoped_sensitive pol f \<or> k = []
                  \<or> list_ex (\<lambda>r. r \<noteq> expected) (ad_evidence_refs d)
               then Inl SensitiveProfileUnscoped else Inr ())
      else Inr ())"

text \<open>The value rules of the decision loop.\<close>

definition check_value ::
  "plan_policy \<Rightarrow> form_field \<Rightarrow> answer_decision \<Rightarrow> plan_error + unit" where
  "check_value pol f d =
     (if ad_disposition d \<noteq> D_RESOLVED then Inr ()
      else case ad_value d of
        None \<Rightarrow> Inr ()
      | Some v \<Rightarrow>
          (case (if verified_attachment_decision d then Inr ()
                 else validate_resolved_field_value (pp_bracket_ok pol) f v) of
             Inl e \<Rightarrow> Inl (BadFieldValue e)
           | Inr _ \<Rightarrow>
               (if ff_type f = FT_SELECT \<or> ff_type f = FT_RADIO
                then (case v of
                        A_STR s \<Rightarrow> if s \<in> enabled_values f then Inr () else Inl OptionNotObserved
                      | _ \<Rightarrow> Inl OptionNotObserved)
                else if ff_type f = FT_MULTI_SELECT
                then (case v of
                        A_TUPLE xs \<Rightarrow>
                          if set xs \<subseteq> enabled_values f then Inr () else Inl OptionsNotObserved
                      | _ \<Rightarrow> Inl MultiNotTuple)
                else Inr ())))"

text \<open>One turn of the decision loop of \<open>validate_plan\<close>.\<close>

definition check_decision ::
  "plan_policy \<Rightarrow> form_plan \<Rightarrow> form_field \<Rightarrow> answer_decision \<Rightarrow> plan_error + unit" where
  "check_decision pol p f d =
     (if ad_disposition d = D_CONFIRMED_BLANK
      then (if allows_confirmed_blank pol f then Inr () else Inl UnsafeBlank)
      else if verified_attachment_decision d \<and> \<not> exact_attachment_answer pol p f d
      then Inl BadAttachmentAnswer
      else if \<not> verified_attachment_decision d \<and> ad_disposition d = D_RESOLVED \<and> ff_type f = FT_FILE
      then Inl FileNeedsAttachment
      else if ad_disposition d = D_RESOLVED \<and> \<not> pp_label_compatible pol f
              \<and> \<not> (ad_provenance d = P_USER_CONFIRMED \<and> explicitly_confirmed d)
      then Inl IncompatibleLabel
      else case check_sensitive pol f d of
             Inl e \<Rightarrow> Inl e
           | Inr _ \<Rightarrow> check_value pol f d)"

fun check_decisions ::
  "plan_policy \<Rightarrow> form_plan \<Rightarrow> answer_decision list \<Rightarrow> plan_error + unit" where
  "check_decisions pol p [] = Inr ()"
| "check_decisions pol p (d # ds) =
     (case field_by_id p (ad_field_id d) of
        None \<Rightarrow> Inl UnknownDecisionField
      | Some f \<Rightarrow>
          (case check_decision pol p f d of Inl e \<Rightarrow> Inl e | Inr _ \<Rightarrow> check_decisions pol p ds))"

definition model_audit :: "form_plan \<Rightarrow> string option list" where
  "model_audit p =
     [fp_llm_prompt_version p, fp_llm_model_provider p, fp_llm_model_name p,
      fp_llm_model_digest p]"

definition acknowledgement_ok :: "form_plan \<Rightarrow> form_disclosure \<Rightarrow> bool" where
  "acknowledgement_ok p d =
     (case fd_acknowledgement_field_id d of
        None \<Rightarrow> True
      | Some i \<Rightarrow>
          (case field_by_id p i of
             None \<Rightarrow> False
           | Some f \<Rightarrow> ff_type f = FT_CONSENT \<or> ff_type f = FT_ATTESTATION))"

definition uses_local_llm :: "form_plan \<Rightarrow> bool" where
  "uses_local_llm p = list_ex (\<lambda>d. ad_provenance d = P_LOCAL_LLM) (fp_decisions p)"

definition qualified_llm_identity :: "plan_policy \<Rightarrow> form_plan \<Rightarrow> bool" where
  "qualified_llm_identity pol p \<longleftrightarrow>
     fp_llm_prompt_version p = Some ''form-resolution-v1''
     \<and> fp_llm_model_provider p = Some ''ollama''
     \<and> fp_llm_model_name p = Some ''qwen2.5:7b''
     \<and> pp_qualified_model pol (or_empty (fp_llm_model_provider p))
          (or_empty (fp_llm_model_name p)) (or_empty (fp_llm_model_digest p))"

definition field_resolved :: "form_plan \<Rightarrow> form_field \<Rightarrow> bool" where
  "field_resolved p f =
     (case decision_by_id p (ff_field_id f) of
        None \<Rightarrow> False | Some d \<Rightarrow> ad_disposition d = D_RESOLVED)"

definition unresolved_required :: "form_plan \<Rightarrow> form_field list" where
  "unresolved_required p =
     filter (\<lambda>f. ff_required f \<and> \<not> field_resolved p f) (fp_fields p)"

text \<open>\<open>FormPlanV1.validate_plan\<close>, in the order of its checks.\<close>

definition validate_plan :: "plan_policy \<Rightarrow> form_plan \<Rightarrow> plan_error + unit" where
  "validate_plan pol p =
     (if fp_expires_at p \<le> fp_created_at p then Inl ExpiryBeforeCreation
      else if fp_expires_at p - fp_created_at p > minutes 30 then Inl LifetimeTooLong
      else if pp_serialized_size pol p > 384 * 1024 then Inl PlanTooLarge
      else if list_ex (\<lambda>x. x \<noteq> None) (model_audit p)
              \<and> \<not> list_all (\<lambda>x. x \<noteq> None) (model_audit p) then Inl PartialModelAudit
      else if \<not> distinct (map ff_field_id (fp_fields p)) then Inl DuplicateFieldIds
      else if \<not> distinct (map fd_disclosure_id (fp_disclosures p)) then Inl DuplicateDisclosureIds
      else if \<not> distinct (map fd_position (fp_disclosures p)) then Inl DuplicateDisclosurePositions
      else if {K_PRIVACY_POLICY, K_NO_PRIVACY_POLICY_NOTICE}
              \<subseteq> set (map fd_kind (fp_disclosures p)) then Inl ContradictoryPolicies
      else if \<not> list_all (acknowledgement_ok p) (fp_disclosures p) then Inl BadAcknowledgement
      else if \<not> distinct (map ad_field_id (fp_decisions p)) then Inl DuplicateDecisionIds
      else if \<not> set (map ad_field_id (fp_decisions p)) \<subseteq> set (map ff_field_id (fp_fields p))
      then Inl UnknownDecisionField
      else if \<not> distinct (fp_blockers p) then Inl DuplicateBlockers
      else case check_decisions pol p (fp_decisions p) of
             Inl e \<Rightarrow> Inl e
           | Inr _ \<Rightarrow>
               (if uses_local_llm p \<noteq> list_all (\<lambda>x. x \<noteq> None) (model_audit p)
                then Inl AuditLlmMismatch
                else if uses_local_llm p \<and> \<not> qualified_llm_identity pol p then Inl UnqualifiedLlm
                else if unresolved_required p \<noteq> []
                        \<and> R_REQUIRED_FIELD_UNKNOWN \<notin> set (fp_blockers p)
                then Inl RequiredUnresolved
                else Inr ()))"

text \<open>
  The canonical locale token: two or three lower-case letters, an optional script and an optional
  region, each after a dash.
\<close>

definition lower_alpha :: "string \<Rightarrow> bool" where
  "lower_alpha s = list_all (\<lambda>c. c \<in> set (take 26 ascii_letters)) s"

definition upper_alpha :: "string \<Rightarrow> bool" where
  "upper_alpha s = list_all (\<lambda>c. c \<in> set (drop 26 ascii_letters)) s"

definition locale_language :: "string \<Rightarrow> bool" where
  "locale_language s \<longleftrightarrow> (length s = 2 \<or> length s = 3) \<and> lower_alpha s"

definition locale_script :: "string \<Rightarrow> bool" where
  "locale_script s \<longleftrightarrow> length s = 4 \<and> upper_alpha (take 1 s) \<and> lower_alpha (drop 1 s)"

definition locale_region :: "string \<Rightarrow> bool" where
  "locale_region s \<longleftrightarrow>
     (length s = 2 \<and> upper_alpha s) \<or> (length s = 3 \<and> list_all is_digit s)"

definition is_canonical_locale :: "string \<Rightarrow> bool" where
  "is_canonical_locale v \<longleftrightarrow>
     length v \<le> 32
     \<and> (case split_on (CHR ''-'') v of
          [l] \<Rightarrow> locale_language l
        | [l, x] \<Rightarrow> locale_language l \<and> (locale_script x \<or> locale_region x)
        | [l, x, y] \<Rightarrow> locale_language l \<and> locale_script x \<and> locale_region y
        | _ \<Rightarrow> False)"

text \<open>The declared field types of the model, on stripped texts.\<close>

definition is_bounded :: "nat \<Rightarrow> string \<Rightarrow> bool" where
  "is_bounded n s \<longleftrightarrow> bounded_text n s = Some s"

definition plan_shape_ok :: "plan_policy \<Rightarrow> form_plan \<Rightarrow> bool" where
  "plan_shape_ok pol p \<longleftrightarrow>
     0 < fp_application_id p \<and> 0 < fp_application_revision p \<and> 0 < fp_profile_version p
     \<and> list_all (is_bounded 500)
          [fp_adapter_name p, fp_adapter_version p, fp_selector_version p, fp_selected_cv_id p,
           fp_attached_cv_id p, fp_locale p, fp_answer_policy_version p]
     \<and> list_all is_sha256
          [fp_form_fingerprint p, fp_selected_cv_hash p, fp_attached_cv_hash p]
     \<and> length (fp_fields p) \<le> 200 \<and> length (fp_disclosures p) \<le> 32
     \<and> length (fp_decisions p) \<le> 200 \<and> length (fp_blockers p) \<le> 32
     \<and> list_all (\<lambda>f. validate_options (pp_normalize pol) f \<and> constraints_valid (ff_constraints f)
                     \<and> 0 \<le> ff_position f \<and> length (ff_options f) \<le> 200) (fp_fields p)
     \<and> list_all (validate_disclosure (pp_sha256 pol)) (fp_disclosures p)
     \<and> list_all (\<lambda>d. validate_decision d \<and> length (ad_evidence_refs d) \<le> 16) (fp_decisions p)
     \<and> is_canonical_locale (fp_locale p)
     \<and> (case fp_llm_model_digest p of
          None \<Rightarrow> True | Some g \<Rightarrow> take 7 g = ''sha256:'' \<and> is_sha256 (drop 7 g))"

definition construct_plan :: "plan_policy \<Rightarrow> form_plan \<Rightarrow> plan_error + unit" where
  "construct_plan pol p =
     (if plan_shape_ok pol p then validate_plan pol p else Inl FieldShapeInvalid)"

section \<open>Readiness, permits and the final action\<close>

text \<open>\<open>None\<close> is the \<open>ValueError\<close> raised for a naive time.\<close>

definition plan_is_expired :: "form_plan \<Rightarrow> datetime \<Rightarrow> bool option" where
  "plan_is_expired p now =
     (case now of Naive t \<Rightarrow> None | Aware t \<Rightarrow> Some (fp_expires_at p \<le> t))"

definition ready_for_permit :: "form_plan \<Rightarrow> bool" where
  "ready_for_permit p \<longleftrightarrow>
     fp_blockers p = [] \<and> fp_attachment_verified p
     \<and> fp_attached_cv_id p = fp_selected_cv_id p \<and> fp_attached_cv_hash p = fp_selected_cv_hash p
     \<and> fp_created_at p \<le> fp_session_verified_at p \<and> fp_session_verified_at p \<le> fp_expires_at p"

definition ready_for_permit_at :: "form_plan \<Rightarrow> datetime \<Rightarrow> bool option" where
  "ready_for_permit_at p now =
     (case now of
        Naive t \<Rightarrow> None
      | Aware t \<Rightarrow>
          Some (ready_for_permit p \<and> fp_created_at p \<le> t \<and> t < fp_expires_at p
                \<and> fp_session_verified_at p \<le> t))"

record domain_permit =
  dp_attempt_id :: int
  dp_job_url_hash :: string
  dp_application_revision :: int
  dp_adapter_name :: string
  dp_adapter_version :: string
  dp_selector_version :: string
  dp_form_fingerprint :: string
  dp_cv_hash :: string
  dp_expires_at :: instant
  dp_nonce :: string

definition permit_binds :: "domain_permit \<Rightarrow> form_plan \<Rightarrow> bool" where
  "permit_binds t p \<longleftrightarrow>
     ready_for_permit p
     \<and> dp_application_revision t = fp_application_revision p
     \<and> dp_adapter_name t = fp_adapter_name p \<and> dp_adapter_version t = fp_adapter_version p
     \<and> dp_selector_version t = fp_selector_version p
     \<and> dp_form_fingerprint t = fp_form_fingerprint p
     \<and> dp_cv_hash t = fp_selected_cv_hash p \<and> dp_expires_at t \<le> fp_expires_at p"

definition action_binds ::
  "prepared_action \<Rightarrow> form_plan \<Rightarrow> domain_permit \<Rightarrow> datetime \<Rightarrow> bool option" where
  "action_binds a p t now =
     (case now of
        Naive n \<Rightarrow> None
      | Aware n \<Rightarrow>
          Some (n < pa_expires_at a \<and> pa_attempt_id a = dp_attempt_id t
            \<and> pa_adapter_name a = fp_adapter_name p \<and> fp_adapter_name p = dp_adapter_name t
            \<and> pa_adapter_version a = fp_adapter_version p
            \<and> fp_adapter_version p = dp_adapter_version t
            \<and> pa_selector_version a = fp_selector_version p
            \<and> fp_selector_version p = dp_selector_version t
            \<and> pa_form_fingerprint a = fp_form_fingerprint p
            \<and> fp_form_fingerprint p = dp_form_fingerprint t
            \<and> pa_attached_cv_hash a = fp_attached_cv_hash p
            \<and> fp_attached_cv_hash p = dp_cv_hash t
            \<and> pa_prepared_at a \<le> n \<and> pa_expires_at a \<le> dp_expires_at t \<and> permit_binds t p))"

section \<open>What a constructed plan guarantees\<close>

lemma find_distinct:
  assumes "distinct (map k xs)" and "x \<in> set xs"
  shows "find (\<lambda>y. k y = k x) xs = Some x"
  using assms by (induction xs) (auto dest: image_eqI)

lemma check_decisions_okD:
  "check_decisions pol p ds = Inr u \<Longrightarrow> d \<in> set ds \<Longrightarrow>
     \<exists>f. field_by_id p (ad_field_id d) = Some f \<and> check_decision pol p f d = Inr ()"
  by (induction ds) (auto split: option.splits sum.splits)

lemma validate_plan_okD:
  assumes "validate_plan pol p = Inr ()"
  shows "fp_created_at p < fp_expires_at p" "fp_expires_at p - fp_created_at p \<le> minutes 30"
    "distinct (map ff_field_id (fp_fields p))" "distinct (map ad_field_id (fp_decisions p))"
    "check_decisions pol p (fp_decisions p) = Inr ()"
    "uses_local_llm p \<Longrightarrow> qualified_llm_identity pol p"
    "unresolved_required p = [] \<or> R_REQUIRED_FIELD_UNKNOWN \<in> set (fp_blockers p)"
  using assms by (auto simp: validate_plan_def split: if_splits sum.splits)

lemma construct_plan_okD:
  assumes "construct_plan pol p = Inr ()"
  shows "plan_shape_ok pol p" "validate_plan pol p = Inr ()"
  using assms by (auto simp: construct_plan_def split: if_splits)

lemma plan_decision_field:
  assumes "validate_plan pol p = Inr ()" and "d \<in> set (fp_decisions p)"
    and "f \<in> set (fp_fields p)" and "ff_field_id f = ad_field_id d"
  shows "check_decision pol p f d = Inr ()"
proof -
  from assms(1,2) obtain g where g: "field_by_id p (ad_field_id d) = Some g"
    and ok: "check_decision pol p g d = Inr ()"
    by (blast dest: validate_plan_okD(5) check_decisions_okD)
  from find_distinct[OF validate_plan_okD(3)[OF assms(1)] assms(3)] assms(4)
  have "field_by_id p (ad_field_id d) = Some f" by (simp add: field_by_id_def)
  with g ok show ?thesis by simp
qed

lemma check_decision_resolvedD:
  assumes "check_decision pol p f d = Inr ()" and "ad_disposition d = D_RESOLVED"
  shows "verified_attachment_decision d \<Longrightarrow> exact_attachment_answer pol p f d"
    "check_sensitive pol f d = Inr ()" "check_value pol f d = Inr ()"
  using assms by (auto simp: check_decision_def split: if_splits sum.splits)

lemma check_sensitive_okD:
  assumes "check_sensitive pol f d = Inr ()" and "pp_requires_review pol f"
    and "ad_disposition d = D_RESOLVED"
  shows "ad_provenance d \<in> {P_USER_CONFIRMED, P_OPERATOR_APPROVED_REUSABLE}"
    "ad_evidence_refs d \<noteq> []"
    "explicitly_confirmed d \<or> pp_scoped_sensitive pol f"
  using assms by (auto simp: check_sensitive_def Let_def split: if_splits)

lemma ready_plan_resolved:
  assumes "validate_plan pol p = Inr ()" and "ready_for_permit p"
    and "f \<in> set (fp_fields p)" and "ff_required f"
  shows "\<exists>d \<in> set (fp_decisions p). ad_field_id d = ff_field_id f \<and> ad_disposition d = D_RESOLVED"
proof -
  from assms(2) have "fp_blockers p = []" by (simp add: ready_for_permit_def)
  with validate_plan_okD(7)[OF assms(1)] have "unresolved_required p = []" by simp
  with assms(3,4) have "field_resolved p f"
    by (auto simp: unresolved_required_def filter_empty_conv)
  then show ?thesis
    by (auto simp: field_resolved_def decision_by_id_def find_Some_iff split: option.splits)
qed


lemma check_value_optionD:
  assumes "check_value pol f d = Inr ()" and "ad_disposition d = D_RESOLVED"
  shows "ff_type f \<in> {FT_SELECT, FT_RADIO} \<Longrightarrow> ad_value d = Some (A_STR s) \<Longrightarrow> s \<in> enabled_values f"
    "ff_type f = FT_MULTI_SELECT \<Longrightarrow> ad_value d = Some (A_TUPLE xs) \<Longrightarrow> set xs \<subseteq> enabled_values f"
    "ad_value d = Some v \<Longrightarrow> \<not> verified_attachment_decision d \<Longrightarrow>
       validate_resolved_field_value (pp_bracket_ok pol) f v = Inr ()"
  using assms by (auto simp: check_value_def split: if_splits sum.splits)

lemma resolved_has_value:
  assumes "plan_shape_ok pol p" and "d \<in> set (fp_decisions p)" and "ad_disposition d = D_RESOLVED"
  obtains v where "ad_value d = Some v" and "\<not> blank_value v"
proof -
  from assms(1,2) have "validate_decision d" by (auto simp: plan_shape_ok_def list_all_iff)
  with assms(3) that show thesis by (auto simp: validate_decision_def split: option.splits)
qed

text \<open>The value an observed option offers: enabled, with that exact submitted value.\<close>

definition offered :: "form_field \<Rightarrow> string \<Rightarrow> bool" where
  "offered f s \<longleftrightarrow> list_ex (\<lambda>op. op_value op = s \<and> \<not> op_disabled op) (ff_options f)"

lemma enabled_values_offered: "s \<in> enabled_values f \<longleftrightarrow> offered f s"
  by (auto simp: enabled_values_def offered_def list_ex_iff)

text \<open>
  The contract of an answer as the adapter types it into its control: what the validator promises
  of a resolved value, written per control type and independently of the order of its checks.
\<close>

definition answer_fits :: "(string \<Rightarrow> bool) \<Rightarrow> form_field \<Rightarrow> answer_value \<Rightarrow> bool" where
  "answer_fits bk f v =
     (case v of
        A_BOOL b \<Rightarrow> ff_type f \<in> boolean_types
      | A_INT n \<Rightarrow> ff_type f = FT_NUMBER
      | A_FLOAT q \<Rightarrow> ff_type f = FT_NUMBER \<and> finite_float q
      | A_TUPLE xs \<Rightarrow> ff_type f = FT_MULTI_SELECT \<and> list_all (offered f) xs
      | A_STR s \<Rightarrow>
          (if ff_type f \<in> {FT_SELECT, FT_RADIO} then offered f s
           else ff_type f \<in> text_types \<and> length s \<le> 2000
                \<and> valid_semantic_text_value bk (ff_type f) s
                \<and> (\<forall>m. fc_min_length (ff_constraints f) = Some m \<longrightarrow> m \<le> int (length s))
                \<and> (\<forall>m. fc_max_length (ff_constraints f) = Some m \<longrightarrow> int (length s) \<le> m)
                \<and> (\<forall>q. fc_pattern (ff_constraints f) = Some q \<longrightarrow>
                        matches_bounded_form_pattern q s)))"

lemma text_value_fits:
  assumes "check_text bk (ff_type f) (ff_constraints f) s = Inr ()" and "ff_type f \<in> text_types"
  shows "answer_fits bk f (A_STR s)"
  using check_text_okD[OF assms(1)] assms(2) by (auto simp: answer_fits_def text_types_def)

lemma number_value_fits:
  assumes "check_number c v = Inr ()" and "ff_type f = FT_NUMBER"
  shows "answer_fits bk f v"
  using check_number_okD[OF assms(1)] assms(2)
  by (cases v) (auto simp: answer_fits_def numeric_value_def split: py_float.splits)

lemma checked_value_fits:
  assumes ok: "check_value pol f d = Inr ()" and res: "ad_disposition d = D_RESOLVED"
    and v: "ad_value d = Some v" and na: "\<not> verified_attachment_decision d"
  shows "answer_fits (pp_bracket_ok pol) f v"
proof -
  note val = check_value_optionD(3)[OF ok res v na]
  consider "ff_type f \<in> boolean_types" | "ff_type f = FT_NUMBER" | "ff_type f \<in> text_types"
    | "ff_type f \<in> {FT_SELECT, FT_RADIO}" | "ff_type f = FT_MULTI_SELECT" | "ff_type f = FT_UNKNOWN"
    by (cases "ff_type f") (auto simp: boolean_types_def text_types_def)
  then show ?thesis
  proof cases
    case 1
    with val show ?thesis
      by (auto simp: validate_resolved_field_value_def answer_fits_def split: answer_value.splits)
  next
    case 2
    with val number_value_fits show ?thesis
      by (auto simp: validate_resolved_field_value_def boolean_types_def)
  next
    case 3
    with val show ?thesis
      by (auto simp: validate_resolved_field_value_def boolean_types_def text_types_def
               intro: text_value_fits split: answer_value.splits)
  next
    case 4
    with val check_value_optionD(1)[OF ok res 4] v show ?thesis
      by (auto simp: validate_resolved_field_value_def boolean_types_def text_types_def
            answer_fits_def enabled_values_offered split: answer_value.splits)
  next
    case 5
    with val check_value_optionD(2)[OF ok res 5] v show ?thesis
      by (auto simp: validate_resolved_field_value_def boolean_types_def text_types_def
            answer_fits_def enabled_values_offered list_all_iff split: answer_value.splits)
  next
    case 6
    with val show ?thesis
      by (auto simp: validate_resolved_field_value_def boolean_types_def text_types_def)
  qed
qed

section \<open>A concrete plan\<close>

text \<open>A plan with a sensitive radio group, a bounded text field and the CV upload.\<close>

definition sample_constraints :: field_constraints where
  "sample_constraints =
     \<lparr>fc_min_length = Some 2, fc_max_length = Some 40, fc_min_value = None, fc_max_value = None,
      fc_pattern = None, fc_accepted_file_types = [], fc_max_file_bytes = None, fc_multiple = False\<rparr>"

definition sample_field :: "string \<Rightarrow> field_type \<Rightarrow> form_option list \<Rightarrow> sensitive_category option \<Rightarrow> form_field"
  where
  "sample_field i t ops c =
     \<lparr>ff_field_id = i, ff_canonical_name = None, ff_label = i, ff_type = t, ff_required = True,
      ff_position = 0, ff_options = ops, ff_constraints = sample_constraints,
      ff_sensitive_category = c\<rparr>"

definition sample_fields :: "form_field list" where
  "sample_fields =
     [sample_field ''visa'' FT_RADIO
        [\<lparr>op_option_id = None, op_value = ''no'', op_label = ''n'', op_disabled = False\<rparr>,
         \<lparr>op_option_id = None, op_value = ''yes'', op_label = ''y'', op_disabled = False\<rparr>]
        (Some SC_SPONSORSHIP),
      sample_field ''name'' FT_TEXT [] None,
      sample_field ''cv'' FT_FILE [] None]"

definition sample_answer :: "string \<Rightarrow> answer_provenance \<Rightarrow> string \<Rightarrow> string list \<Rightarrow> answer_decision" where
  "sample_answer i pr v refs =
     \<lparr>ad_field_id = i, ad_disposition = D_RESOLVED, ad_provenance = pr, ad_value = Some (A_STR v),
      ad_evidence_refs = refs, ad_reason = None\<rparr>"

definition sample_hash :: string where
  "sample_hash = replicate 64 (CHR ''a'')"

definition sample_plan :: form_plan where
  "sample_plan =
     \<lparr>fp_plan_id = ''p1'', fp_application_id = 7, fp_application_revision = 2,
      fp_adapter_name = ''greenhouse'', fp_adapter_version = ''1'', fp_selector_version = ''3'',
      fp_form_fingerprint = sample_hash, fp_selected_cv_id = ''cv1'',
      fp_selected_cv_hash = sample_hash, fp_attached_cv_id = ''cv1'',
      fp_attached_cv_hash = sample_hash, fp_attachment_verified = True, fp_profile_version = 1,
      fp_session_verified_at = 10, fp_created_at = 0, fp_expires_at = minutes 10,
      fp_fields = sample_fields, fp_disclosures = [],
      fp_decisions =
        [sample_answer ''visa'' P_USER_CONFIRMED ''no'' [''operator_confirmation:42''],
         sample_answer ''name'' P_DETERMINISTIC_IDENTITY ''Ada'' [],
         sample_answer ''cv'' P_VERIFIED_ATTACHMENT attachment_sentinel [attachment_evidence_ref]],
      fp_blockers = [], fp_locale = ''en-US'', fp_answer_policy_version = ''1'',
      fp_llm_prompt_version = None, fp_llm_model_provider = None, fp_llm_model_name = None,
      fp_llm_model_digest = None\<rparr>"

definition sample_policy :: plan_policy where
  "sample_policy =
     \<lparr>pp_requires_review = (\<lambda>f. ff_sensitive_category f \<noteq> None), pp_label_compatible = (\<lambda>f. True),
      pp_cv_attachment = (\<lambda>f. ff_type f = FT_FILE), pp_scoped_sensitive = (\<lambda>f. False),
      pp_canonical_key = (\<lambda>s. s), pp_qualified_model = (\<lambda>a b c. False),
      pp_serialized_size = (\<lambda>p. 1000), pp_bracket_ok = (\<lambda>s. False), pp_normalize = py_lower,
      pp_sha256 = (\<lambda>s. sample_hash)\<rparr>"

lemmas sample_defs =
  sample_plan_def sample_policy_def sample_fields_def sample_field_def sample_answer_def
  sample_constraints_def

lemma sample_plan_ok: "construct_plan sample_policy sample_plan = Inr ()"
  by code_simp

lemma sample_visa_field:
  "sample_fields ! 0 \<in> set (fp_fields sample_plan)" "ff_required (sample_fields ! 0)"
  "ff_field_id (sample_fields ! 0) = ''visa''"
  by (simp_all add: sample_defs)

lemma sample_visa_decision:
  "fp_decisions sample_plan ! 0 \<in> set (fp_decisions sample_plan)"
  "ff_field_id (sample_fields ! 0) = ad_field_id (fp_decisions sample_plan ! 0)"
  "pp_requires_review sample_policy (sample_fields ! 0)"
  "ad_disposition (fp_decisions sample_plan ! 0) = D_RESOLVED"
  by (simp_all add: sample_defs)

lemma sample_plan_ready: "ready_for_permit_at sample_plan (Aware 20) = Some True"
  by code_simp


section \<open>Properties\<close>

text \<open>
  C36: a plan that constructs and is ready at some time answers every required field exactly once.
  The answer is resolved and not blank, and it fits the observed control: an offered option, a
  boolean, a finite number or a text within the field's constraints. The one exception is the
  verified attachment, and then the attached CV is the selected one.
\<close>

theorem ready_plan_answers_required:
  assumes "construct_plan pol p = Inr ()" and "ready_for_permit_at p (Aware t) = Some True"
    and "f \<in> set (fp_fields p)" and "ff_required f"
  shows "\<exists>!d. d \<in> set (fp_decisions p) \<and> ad_field_id d = ff_field_id f
     \<and> ad_disposition d = D_RESOLVED
     \<and> (\<exists>v. ad_value d = Some v \<and> \<not> blank_value v
          \<and> (answer_fits (pp_bracket_ok pol) f v
             \<or> exact_attachment_answer pol p f d \<and> fp_attached_cv_hash p = fp_selected_cv_hash p))"
proof -
  note ok = construct_plan_okD[OF assms(1)]
  from assms(2) have "ready_for_permit p" by (simp add: ready_for_permit_at_def)
  from ready_plan_resolved[OF ok(2) this assms(3,4)] obtain d
    where d: "d \<in> set (fp_decisions p)" "ad_field_id d = ff_field_id f"
      "ad_disposition d = D_RESOLVED" by blast
  from resolved_has_value[OF ok(1) d(1,3)] obtain v where v: "ad_value d = Some v" "\<not> blank_value v" .
  note chk = check_decision_resolvedD[OF plan_decision_field[OF ok(2) d(1) assms(3) d(2)[symmetric]] d(3)]
  have fits: "answer_fits (pp_bracket_ok pol) f v \<or>
      exact_attachment_answer pol p f d \<and> fp_attached_cv_hash p = fp_selected_cv_hash p"
    using checked_value_fits[OF chk(3) d(3) v(1)] chk(1)
    by (auto simp: exact_attachment_answer_def)
  have uniq: "d' = d" if "d' \<in> set (fp_decisions p)" "ad_field_id d' = ff_field_id f" for d'
    using validate_plan_okD(4)[OF ok(2)] that d(1,2) by (metis distinct_map inj_onD)
  show ?thesis
  proof (rule ex1I[of _ d])
    show "d \<in> set (fp_decisions p) \<and> ad_field_id d = ff_field_id f \<and> ad_disposition d = D_RESOLVED
      \<and> (\<exists>v. ad_value d = Some v \<and> \<not> blank_value v \<and> (answer_fits (pp_bracket_ok pol) f v
          \<or> exact_attachment_answer pol p f d \<and> fp_attached_cv_hash p = fp_selected_cv_hash p))"
      by (intro conjI d exI[of _ v] v fits)
  qed (erule conjE, erule uniq, erule conjE)
qed

theorem ready_plan_answers_required_witness:
  "\<exists>!d. d \<in> set (fp_decisions sample_plan) \<and> ad_field_id d = ''visa''
     \<and> ad_disposition d = D_RESOLVED
     \<and> (\<exists>v. ad_value d = Some v \<and> \<not> blank_value v
          \<and> (answer_fits (pp_bracket_ok sample_policy) (sample_fields ! 0) v
             \<or> exact_attachment_answer sample_policy sample_plan (sample_fields ! 0) d
               \<and> fp_attached_cv_hash sample_plan = fp_selected_cv_hash sample_plan))"
  using ready_plan_answers_required[OF sample_plan_ok sample_plan_ready sample_visa_field(1,2)]
  by (simp only: sample_visa_field(3))

text \<open>
  a field that needs explicit review is never answered by the language model, by CV evidence
  or by a default. Every resolved answer to it in a constructed plan is user confirmed or an
  operator approved reusable answer, cites evidence, and is either explicitly confirmed by the
  operator in every reference or belongs to a field of a scoped sensitive category.
\<close>

theorem sensitive_answers_confirmed:
  assumes "construct_plan pol p = Inr ()" and "d \<in> set (fp_decisions p)"
    and "f \<in> set (fp_fields p)" and "ff_field_id f = ad_field_id d"
    and "pp_requires_review pol f" and "ad_disposition d = D_RESOLVED"
  shows "ad_provenance d \<in> {P_USER_CONFIRMED, P_OPERATOR_APPROVED_REUSABLE}
     \<and> ad_evidence_refs d \<noteq> []
     \<and> (list_all operator_reference (ad_evidence_refs d) \<or> pp_scoped_sensitive pol f)"
proof -
  note ok = construct_plan_okD(2)[OF assms(1)]
  note chk = check_decision_resolvedD(2)[OF plan_decision_field[OF ok assms(2-4)] assms(6)]
  show ?thesis
    using check_sensitive_okD[OF chk assms(5,6)] by (auto simp: explicitly_confirmed_def)
qed

theorem sensitive_answers_confirmed_witness:
  "list_all operator_reference (ad_evidence_refs (fp_decisions sample_plan ! 0))
   \<or> pp_scoped_sensitive sample_policy (sample_fields ! 0)"
  using sensitive_answers_confirmed[OF sample_plan_ok sample_visa_decision(1)
      sample_visa_field(1) sample_visa_decision(2-4)]
  by (elim conjE)

text \<open>
  answers of the language model appear in a constructed plan only together with the complete
  audit identity of the one qualified local model, and they never carry a file and never answer
  a field that needs review; without such an answer no model identity is recorded at all.
\<close>

theorem llm_answers_are_audited:
  assumes "construct_plan pol p = Inr ()"
  shows "(uses_local_llm p \<longrightarrow> qualified_llm_identity pol p \<and> None \<notin> set (model_audit p))
     \<and> (\<not> uses_local_llm p \<longrightarrow> set (model_audit p) = {None})
     \<and> (\<forall>d \<in> set (fp_decisions p). \<forall>f \<in> set (fp_fields p).
          ff_field_id f = ad_field_id d \<and> ad_provenance d = P_LOCAL_LLM \<longrightarrow>
          ad_disposition d = D_RESOLVED \<and> ff_type f \<noteq> FT_FILE \<and> \<not> pp_requires_review pol f)"
proof (intro conjI ballI impI; (elim conjE)?)
  note ok = construct_plan_okD[OF assms]
  have val: "uses_local_llm p = list_all (\<lambda>x. x \<noteq> None) (model_audit p)"
    "\<not> list_ex (\<lambda>x. x \<noteq> None) (model_audit p) \<or> list_all (\<lambda>x. x \<noteq> None) (model_audit p)"
    using ok(2) by (auto simp: validate_plan_def split: if_splits sum.splits)
  show "qualified_llm_identity pol p" if "uses_local_llm p"
    using validate_plan_okD(6)[OF ok(2) that] .
  show "None \<notin> set (model_audit p)" if "uses_local_llm p" using val(1) that by (auto simp: list_all_iff)
  show "set (model_audit p) = {None}" if "\<not> uses_local_llm p"
    using val that by (auto simp: model_audit_def)
  fix d f assume d: "d \<in> set (fp_decisions p)" and f: "f \<in> set (fp_fields p)"
    and i: "ff_field_id f = ad_field_id d" and llm: "ad_provenance d = P_LOCAL_LLM"
  from ok(1) d have "validate_decision d" by (auto simp: plan_shape_ok_def list_all_iff)
  with llm show res: "ad_disposition d = D_RESOLVED" by (auto simp: validate_decision_def split: if_splits)
  note chk = plan_decision_field[OF ok(2) d f i]
  from chk res llm show "ff_type f \<noteq> FT_FILE"
    by (auto simp: check_decision_def verified_attachment_decision_def split: if_splits)
  from check_sensitive_okD(1)[OF check_decision_resolvedD(2)[OF chk res] _ res] llm
  show "\<not> pp_requires_review pol f" by auto
qed

theorem llm_answers_are_audited_witness: "set (model_audit sample_plan) = {None}"
  using llm_answers_are_audited[OF sample_plan_ok] by (auto simp: uses_local_llm_def sample_defs)

text \<open>
  an action that binds at an aware time is committed with exactly the reviewed artefacts. The
  attached CV is the selected CV of the plan, action, permit and plan agree on adapter, versions and
  form, the permit belongs to the same attempt, and the click falls within the action's window,
  which ends no later than the permit's and the plan's, at most thirty minutes after the plan was
  made. At a naive time the check raises.
\<close>

theorem bound_action_is_reviewed:
  assumes "construct_plan pol p = Inr ()" and "action_binds a p t now = Some True"
  shows "\<exists>n. now = Aware n \<and> pa_prepared_at a \<le> n \<and> n < pa_expires_at a
     \<and> pa_expires_at a \<le> dp_expires_at t \<and> dp_expires_at t \<le> fp_expires_at p
     \<and> n < fp_created_at p + minutes 30
     \<and> fp_attachment_verified p \<and> fp_blockers p = []
     \<and> pa_attached_cv_hash a = fp_selected_cv_hash p \<and> dp_cv_hash t = fp_selected_cv_hash p
     \<and> pa_form_fingerprint a = fp_form_fingerprint p \<and> dp_form_fingerprint t = fp_form_fingerprint p
     \<and> (pa_adapter_name a, pa_adapter_version a, pa_selector_version a)
         = (dp_adapter_name t, dp_adapter_version t, dp_selector_version t)
     \<and> pa_attempt_id a = dp_attempt_id t \<and> dp_application_revision t = fp_application_revision p"
proof -
  obtain n where now: "now = Aware n" using assms(2) by (cases now) (simp_all add: action_binds_def)
  note b = assms(2)[unfolded now action_binds_def, simplified]
  from b have pb: "permit_binds t p" by (elim conjE)
  then have win: "dp_expires_at t \<le> fp_expires_at p" and ready: "ready_for_permit p"
    and cv: "dp_cv_hash t = fp_selected_cv_hash p"
    and rev: "dp_application_revision t = fp_application_revision p"
    by (simp_all add: permit_binds_def)
  have "n < fp_created_at p + minutes 30"
    using b win validate_plan_okD(2)[OF construct_plan_okD(2)[OF assms(1)]] by linarith
  with b now win ready cv rev show ?thesis by (simp add: ready_for_permit_def)
qed

definition sample_permit :: domain_permit where
  "sample_permit =
     \<lparr>dp_attempt_id = 5, dp_job_url_hash = sample_hash, dp_application_revision = 2,
      dp_adapter_name = ''greenhouse'', dp_adapter_version = ''1'', dp_selector_version = ''3'',
      dp_form_fingerprint = sample_hash, dp_cv_hash = sample_hash, dp_expires_at = seconds 300,
      dp_nonce = ''n''\<rparr>"

definition sample_action :: prepared_action where
  "sample_action =
     \<lparr>pa_attempt_id = 5, pa_adapter_name = ''greenhouse'', pa_adapter_version = ''1'',
      pa_selector_version = ''3'', pa_form_fingerprint = sample_hash,
      pa_attached_cv_hash = sample_hash, pa_prepared_at = 15, pa_expires_at = seconds 60,
      pa_action_nonce = sample_hash\<rparr>"

lemma sample_action_binds: "action_binds sample_action sample_plan sample_permit (Aware 20) = Some True"
  by code_simp

theorem bound_action_is_reviewed_witness: "pa_attached_cv_hash sample_action = fp_selected_cv_hash sample_plan"
  using bound_action_is_reviewed[OF sample_plan_ok sample_action_binds]
  by (elim exE conjE)

end
