(* ===== verification/Fit_Decision.thy ===== *)
theory Fit_Decision
  imports Complex_Main Py_Prelude
begin

text \<open>
  The contracts of \<^verbatim>\<open>match/job_fit.py\<close>: the bounded evidence of a fit decision, the thresholds, the
  local qualification and the decision itself, with the validators that run when a value is built.
  Finite floats are the rationals they denote: they are stored and compared, never computed with here.
\<close>

datatype fit_disposition = FIT_EXCLUDED | FIT_NEEDS_REVIEW | FIT_ELIGIBLE

datatype fit_factor =
  FF_ROLE | FF_SKILLS | FF_LOCATION | FF_SENIORITY | FF_EMPLOYMENT | FF_EXPERIENCE
  | FF_LANGUAGE_AUTHORIZATION

datatype fit_result = FR_MATCHED | FR_PARTIAL | FR_UNKNOWN | FR_UNMATCHED | FR_EXCLUDED

record fit_evidence =
  fe_factor :: fit_factor
  fe_result :: fit_result
  fe_points :: rat
  fe_maximum_points :: rat
  fe_reason_codes :: "string list"

record fit_thresholds =
  ft_minimum_fit_score :: rat
  ft_minimum_routing_confidence :: rat
  ft_minimum_routing_margin :: rat

record fit_qualification =
  fq_algorithm_version :: string
  fq_routing_config_digest :: string
  fq_cv_manifest_digest :: string
  fq_dataset_digest :: string
  fq_thresholds :: fit_thresholds
  fq_labeled_cases :: int
  fq_holdout_cases :: int
  fq_holdout_precision :: rat
  fq_holdout_coverage :: rat
  fq_qualified :: bool
  fq_created_at :: instant

record fit_decision =
  fd_job_digest :: string
  fd_profile_version :: "int option"
  fd_routing_config_digest :: string
  fd_cv_manifest_digest :: string
  fd_selected_cv_id :: "string option"
  fd_selected_cv_hash :: "string option"
  fd_routing_confidence :: rat
  fd_routing_margin :: rat
  fd_routing_fallback_reason :: "string option"
  fd_fit_score :: rat
  fd_disposition :: fit_disposition
  fd_quality_eligible :: bool
  fd_hard_exclusions :: "string list"
  fd_uncertainty :: "string list"
  fd_unsupported_required_skills :: "string list"
  fd_evidence :: "fit_evidence list"
  fd_thresholds :: fit_thresholds
  fd_qualification_digest :: "string option"

section \<open>Validators\<close>

definition unit_interval :: "rat \<Rightarrow> bool" where
  "unit_interval x \<longleftrightarrow> 0 \<le> x \<and> x \<le> 1"

definition opt_bounded :: "nat \<Rightarrow> string option \<Rightarrow> bool" where
  "opt_bounded n x = (case x of None \<Rightarrow> True | Some s \<Rightarrow> length s \<le> n)"

definition opt_digest :: "string option \<Rightarrow> bool" where
  "opt_digest x = (case x of None \<Rightarrow> True | Some s \<Rightarrow> is_sha256 s)"

definition fit_evidence_valid :: "fit_evidence \<Rightarrow> bool" where
  "fit_evidence_valid e \<longleftrightarrow>
     0 \<le> fe_points e \<and> fe_points e \<le> 100 \<and> 0 < fe_maximum_points e \<and> fe_maximum_points e \<le> 100
     \<and> length (fe_reason_codes e) \<le> 12 \<and> list_all reason_token (fe_reason_codes e)
     \<and> distinct (fe_reason_codes e)"

definition fit_thresholds_valid :: "fit_thresholds \<Rightarrow> bool" where
  "fit_thresholds_valid t \<longleftrightarrow>
     85 \<le> ft_minimum_fit_score t \<and> ft_minimum_fit_score t \<le> 100
     \<and> unit_interval (ft_minimum_routing_confidence t) \<and> unit_interval (ft_minimum_routing_margin t)"

definition eligibility_is_consistent :: "fit_decision \<Rightarrow> bool" where
  "eligibility_is_consistent f \<longleftrightarrow>
     (fd_selected_cv_hash f \<noteq> None \<longrightarrow> fd_selected_cv_id f \<noteq> None)
     \<and> (if fd_quality_eligible f
        then fd_disposition f = FIT_ELIGIBLE \<and> fd_hard_exclusions f = [] \<and> fd_uncertainty f = []
             \<and> fd_unsupported_required_skills f = [] \<and> fd_routing_fallback_reason f = None
             \<and> fd_selected_cv_id f \<noteq> None \<and> fd_selected_cv_hash f \<noteq> None
             \<and> fd_qualification_digest f \<noteq> None
             \<and> ft_minimum_fit_score (fd_thresholds f) \<le> fd_fit_score f
             \<and> ft_minimum_routing_confidence (fd_thresholds f) \<le> fd_routing_confidence f
             \<and> ft_minimum_routing_margin (fd_thresholds f) \<le> fd_routing_margin f
        else fd_disposition f \<noteq> FIT_ELIGIBLE)"

definition stable_reasons :: "nat \<Rightarrow> string list \<Rightarrow> bool" where
  "stable_reasons n rs \<longleftrightarrow> length rs \<le> n \<and> list_all reason_token rs \<and> distinct rs"

definition fit_decision_valid :: "fit_decision \<Rightarrow> bool" where
  "fit_decision_valid f \<longleftrightarrow>
     is_sha256 (fd_job_digest f) \<and> (case fd_profile_version f of None \<Rightarrow> True | Some v \<Rightarrow> 1 \<le> v)
     \<and> is_sha256 (fd_routing_config_digest f) \<and> is_sha256 (fd_cv_manifest_digest f)
     \<and> opt_bounded 255 (fd_selected_cv_id f) \<and> opt_digest (fd_selected_cv_hash f)
     \<and> unit_interval (fd_routing_confidence f) \<and> unit_interval (fd_routing_margin f)
     \<and> opt_bounded 64 (fd_routing_fallback_reason f) \<and> 0 \<le> fd_fit_score f \<and> fd_fit_score f \<le> 100
     \<and> stable_reasons 20 (fd_hard_exclusions f) \<and> stable_reasons 30 (fd_uncertainty f)
     \<and> length (fd_unsupported_required_skills f) \<le> 100 \<and> length (fd_evidence f) = 7
     \<and> list_all fit_evidence_valid (fd_evidence f) \<and> fit_thresholds_valid (fd_thresholds f)
     \<and> opt_digest (fd_qualification_digest f) \<and> eligibility_is_consistent f"

section \<open>Qualification\<close>

definition fit_algorithm_version :: string where
  "fit_algorithm_version = ''job-fit.v1''"

definition fit_qualification_valid :: "fit_qualification \<Rightarrow> bool" where
  "fit_qualification_valid q \<longleftrightarrow>
     fq_algorithm_version q = fit_algorithm_version \<and> is_sha256 (fq_routing_config_digest q)
     \<and> is_sha256 (fq_cv_manifest_digest q) \<and> is_sha256 (fq_dataset_digest q)
     \<and> fit_thresholds_valid (fq_thresholds q) \<and> 240 \<le> fq_labeled_cases q \<and> 48 \<le> fq_holdout_cases q
     \<and> unit_interval (fq_holdout_precision q) \<and> unit_interval (fq_holdout_coverage q)
     \<and> (fq_qualified q \<longrightarrow> 95 / 100 \<le> fq_holdout_precision q)"

definition qualification_matches :: "fit_qualification \<Rightarrow> string \<Rightarrow> string \<Rightarrow> bool" where
  "qualification_matches q config_digest manifest_digest \<longleftrightarrow>
     fq_qualified q \<and> fq_algorithm_version q = fit_algorithm_version
     \<and> fq_routing_config_digest q = config_digest \<and> fq_cv_manifest_digest q = manifest_digest"

text \<open>What a valid eligible decision says, whoever built it.\<close>

lemma eligible_decision:
  assumes "fit_decision_valid f" and "fd_quality_eligible f"
  shows "85 \<le> fd_fit_score f" "fd_hard_exclusions f = []" "fd_uncertainty f = []"
    "fd_selected_cv_id f \<noteq> None" "fd_selected_cv_hash f \<noteq> None"
  using assms
  by (auto simp: fit_decision_valid_def eligibility_is_consistent_def fit_thresholds_valid_def)

end
