(* ===== verification/Automation_Policy.thy ===== *)
theory Automation_Policy
  imports Fit_Decision
begin

text \<open>
  The signed authority contracts of \<^verbatim>\<open>core/automation_policy.py\<close>: a policy revision, the qualified forms
  it covers and the admission decision made under it, with the validators that run when one is built.
  Signatures and digests are parameters of the service that uses these values.
\<close>

datatype geography = GEO_ISRAEL | GEO_WORLDWIDE_REMOTE | GEO_EMEA_REMOTE

datatype authority_source = LOCAL_OPERATOR | VERCEL_SIGNED_KILL

record form_scope =
  sc_adapter_name :: string
  sc_adapter_version :: string
  sc_selector_version :: string
  sc_form_contract_digest :: string

record auto_policy =
  po_policy_id :: string
  po_revision :: int
  po_role_families :: "string list"
  po_geographies :: "geography list"
  po_minimum_fit_score :: rat
  po_daily_limit :: int
  po_hourly_limit :: int
  po_company_limit :: int
  po_permitted_adapters :: "string list"
  po_qualified_form_contracts :: "form_scope list"
  po_profile_version :: int
  po_routing_config_digest :: string
  po_cv_manifest_digest :: string
  po_fit_qualification_digest :: string
  po_confirmed_answer_revision :: string
  po_activated_at :: instant
  po_expires_at :: instant

record signed_policy =
  sp_key_id :: string
  sp_policy :: auto_policy
  sp_signature :: string

record auto_decision =
  de_policy_id :: string
  de_policy_revision :: int
  de_policy_digest :: string
  de_application_id :: int
  de_application_revision :: int
  de_job_digest :: string
  de_company_digest :: string
  de_fit_decision_digest :: string
  de_form_plan_id :: string
  de_form_fingerprint :: string
  de_form_contract_digest :: string
  de_selected_cv_hash :: string
  de_profile_version :: int
  de_confirmed_answer_revision :: string
  de_adapter_name :: string
  de_adapter_version :: string
  de_selector_version :: string
  de_fit_score :: rat
  de_allowed :: bool
  de_reason_codes :: "string list"
  de_evaluated_at :: instant
  de_authority_expires_at :: "instant option"

section \<open>Validators\<close>

definition hours :: "int \<Rightarrow> int" where
  "hours n = minutes (60 * n)"

definition days :: "int \<Rightarrow> int" where
  "days n = hours (24 * n)"

definition policy_max_days :: int where
  "policy_max_days = 30"

definition selector_is_bounded :: "string \<Rightarrow> bool" where
  "selector_is_bounded =
     bounded_token (\<lambda>c. is_upper c \<or> is_lower c \<or> is_digit c)
       (\<lambda>c. is_upper c \<or> is_lower c \<or> is_digit c \<or> c = CHR ''_'' \<or> c = CHR ''.'' \<or> c = CHR ''-'') 0"

definition form_scope_valid :: "form_scope \<Rightarrow> bool" where
  "form_scope_valid s \<longleftrightarrow>
     safe_token (sc_adapter_name s) \<and> version_token (sc_adapter_version s)
     \<and> length (sc_adapter_version s) \<le> 32 \<and> selector_is_bounded (sc_selector_version s)
     \<and> is_sha256 (sc_form_contract_digest s)"

definition bounded_unique_tokens :: "nat \<Rightarrow> string list \<Rightarrow> bool" where
  "bounded_unique_tokens n xs \<longleftrightarrow> xs \<noteq> [] \<and> length xs \<le> n \<and> distinct xs \<and> list_all safe_token xs"

definition bounded_authority_window :: "auto_policy \<Rightarrow> bool" where
  "bounded_authority_window p \<longleftrightarrow>
     po_activated_at p < po_expires_at p
     \<and> po_expires_at p - po_activated_at p \<le> days policy_max_days
     \<and> po_hourly_limit p \<le> po_daily_limit p
     \<and> list_all (\<lambda>s. sc_adapter_name s \<in> set (po_permitted_adapters p)) (po_qualified_form_contracts p)
     \<and> distinct (po_qualified_form_contracts p)"

definition policy_valid :: "auto_policy \<Rightarrow> bool" where
  "policy_valid p \<longleftrightarrow>
     1 \<le> po_revision p \<and> po_revision p \<le> 2147483647
     \<and> bounded_unique_tokens 64 (po_role_families p)
     \<and> po_geographies p \<noteq> [] \<and> length (po_geographies p) \<le> 3 \<and> distinct (po_geographies p)
     \<and> 85 \<le> po_minimum_fit_score p \<and> po_minimum_fit_score p \<le> 100
     \<and> 1 \<le> po_daily_limit p \<and> po_daily_limit p \<le> 25
     \<and> 1 \<le> po_hourly_limit p \<and> po_hourly_limit p \<le> 5
     \<and> 1 \<le> po_company_limit p \<and> po_company_limit p \<le> 2
     \<and> bounded_unique_tokens 5 (po_permitted_adapters p)
     \<and> po_qualified_form_contracts p \<noteq> [] \<and> length (po_qualified_form_contracts p) \<le> 100
     \<and> list_all form_scope_valid (po_qualified_form_contracts p)
     \<and> 1 \<le> po_profile_version p \<and> is_sha256 (po_routing_config_digest p)
     \<and> is_sha256 (po_cv_manifest_digest p) \<and> is_sha256 (po_fit_qualification_digest p)
     \<and> is_sha256 (po_confirmed_answer_revision p) \<and> bounded_authority_window p"

definition outcome_is_consistent :: "auto_decision \<Rightarrow> bool" where
  "outcome_is_consistent e \<longleftrightarrow>
     (de_allowed e \<longleftrightarrow> de_reason_codes e = [])
     \<and> (case de_authority_expires_at e of
          None \<Rightarrow> \<not> de_allowed e
        | Some t \<Rightarrow> de_allowed e \<and> de_evaluated_at e < t)"

definition decision_valid :: "auto_decision \<Rightarrow> bool" where
  "decision_valid e \<longleftrightarrow>
     1 \<le> de_policy_revision e \<and> is_sha256 (de_policy_digest e) \<and> 1 \<le> de_application_id e
     \<and> 1 \<le> de_application_revision e \<and> is_sha256 (de_job_digest e) \<and> is_sha256 (de_company_digest e)
     \<and> is_sha256 (de_fit_decision_digest e) \<and> is_sha256 (de_form_fingerprint e)
     \<and> is_sha256 (de_form_contract_digest e) \<and> is_sha256 (de_selected_cv_hash e)
     \<and> 1 \<le> de_profile_version e \<and> is_sha256 (de_confirmed_answer_revision e)
     \<and> safe_token (de_adapter_name e) \<and> length (de_adapter_version e) \<le> 32
     \<and> length (de_selector_version e) \<le> 64 \<and> 0 \<le> de_fit_score e \<and> de_fit_score e \<le> 100
     \<and> length (de_reason_codes e) \<le> 32 \<and> distinct (de_reason_codes e)
     \<and> list_all reason_token (de_reason_codes e) \<and> outcome_is_consistent e"

lemma policy_limits:
  assumes "policy_valid p"
  shows "po_daily_limit p \<le> 25" "po_hourly_limit p \<le> 5" "po_company_limit p \<le> 2"
    "85 \<le> po_minimum_fit_score p" "po_expires_at p \<le> po_activated_at p + days 30"
    "list_all (\<lambda>s. sc_adapter_name s \<in> set (po_permitted_adapters p)) (po_qualified_form_contracts p)"
  using assms by (simp_all add: policy_valid_def bounded_authority_window_def policy_max_days_def)

end
