(* ===== verification/Database.thy ===== *)
theory Database
  imports Submission_State Form_Plan Automation_Policy "HOL-Library.AList"
begin

text \<open>
  The rows of \<^verbatim>\<open>db/models.py\<close> that submission depends on, the check and uniqueness constraints the
  schema declares for them, and the transaction discipline: a handler works on a copy of the
  database and \<open>commit_db\<close> keeps it only when the declared constraints hold. A raised exception is a
  \<open>fault\<close>; the session is closed and the database stays as it was.
\<close>

section \<open>Faults\<close>

datatype fault =
  StateFault state_error | PermitFault string | AdmissionFault string | MutationFault string
  | EventFault string | EvidenceBindingMismatch | IntegrityError | MissingRow | TypeFault | ValueFault
  | AttributeFault | HttpFault int | QualificationFault string | PolicyFault string | MultipleResults

definition and_then :: "'e + 'a \<Rightarrow> ('a \<Rightarrow> 'e + 'b) \<Rightarrow> 'e + 'b" where
  "and_then m f = (case m of Inl e \<Rightarrow> Inl e | Inr x \<Rightarrow> f x)"

definition lift_opt :: "'e \<Rightarrow> 'a option \<Rightarrow> 'e + 'a" where
  "lift_opt e x = (case x of None \<Rightarrow> Inl e | Some v \<Rightarrow> Inr v)"

definition ensure :: "bool \<Rightarrow> 'e \<Rightarrow> 'e + unit" where
  "ensure b e = (if b then Inr () else Inl e)"

lemma and_then_Inr [simp]: "and_then (Inr x) f = f x"
  by (simp add: and_then_def)

lemma and_then_Inl [simp]: "and_then (Inl e) f = Inl e"
  by (simp add: and_then_def)

lemma and_then_ok_iff: "and_then m f = Inr y \<longleftrightarrow> (\<exists>x. m = Inr x \<and> f x = Inr y)"
  by (cases m) auto

lemma and_then_okE [guard_elims]:
  assumes "and_then m f = Inr y"
  obtains x where "m = Inr x" and "f x = Inr y"
  using assms by (auto simp: and_then_ok_iff)

lemma lift_opt_ok_iff [simp]: "lift_opt e x = Inr v \<longleftrightarrow> x = Some v"
  by (simp add: lift_opt_def split: option.splits)

lemma ensure_ok_iff [simp]: "ensure b e = Inr u \<longleftrightarrow> b"
  by (simp add: ensure_def)

section \<open>Tables\<close>

text \<open>A table lists its rows by primary key, in the order of insertion.\<close>

type_synonym 'r table = "(int \<times> 'r) list"

definition row :: "'r table \<Rightarrow> int \<Rightarrow> 'r option" where
  "row t i = map_of t i"

definition put_row :: "int \<Rightarrow> 'r \<Rightarrow> 'r table \<Rightarrow> 'r table" where
  "put_row i r t = AList.update i r t"

text \<open>The next value of an autoincrement key.\<close>

definition next_id :: "'r table \<Rightarrow> int" where
  "next_id t = fold max (map fst t) 0 + 1"

lemma row_put [db_simps]: "row (put_row i r t) j = (if j = i then Some r else row t j)"
  by (simp add: row_def put_row_def update_conv')

lemma row_Nil [simp]: "row [] i = None"
  by (simp add: row_def)

lemma put_row_keys: "fst ` set (put_row i r t) = insert i (fst ` set t)"
  by (simp add: put_row_def dom_update)

lemma put_row_distinct: "distinct (map fst t) \<Longrightarrow> distinct (map fst (put_row i r t))"
  by (simp add: put_row_def distinct_update)

lemma row_in_keys: "row t i = Some r \<Longrightarrow> i \<in> fst ` set t"
  by (auto simp: row_def dest: map_of_SomeD intro: rev_image_eqI)

lemma row_in_set: "row t i = Some r \<Longrightarrow> (i, r) \<in> set t"
  by (simp add: row_def map_of_SomeD)

lemma set_row: "distinct (map fst t) \<Longrightarrow> (i, r) \<in> set t \<Longrightarrow> row t i = Some r"
  by (simp add: row_def)

lemma fold_max_start: "a \<le> fold max xs (a :: int)"
proof (induction xs arbitrary: a)
  case (Cons x xs)
  show ?case using Cons.IH[of "max x a"] by simp
qed simp

lemma fold_max_ge: "x \<in> set xs \<Longrightarrow> x \<le> fold max xs (a :: int)"
proof (induction xs arbitrary: a)
  case (Cons y xs)
  show ?case using Cons fold_max_start[of "max y a" xs] by auto
qed simp

lemma next_id_fresh: "row t (next_id t) = None"
proof -
  have "i < next_id t" if "i \<in> set (map fst t)" for i
    using fold_max_ge[of i "map fst t" 0] that by (simp add: next_id_def)
  then show ?thesis by (force simp: row_def map_of_eq_None_iff)
qed

lemma put_fresh:
  assumes "row t k = None"
  shows "put_row k r t = t @ [(k, r)]"
  using assms by (induction t) (auto simp: row_def put_row_def split: if_splits)

lemmas put_next = put_fresh[OF next_id_fresh]

lemma unique_row:
  assumes "distinct (map fst t)" and "(k, r) \<in> set t"
  shows "row t k = Some r"
  using assms by (simp add: row_def)

section \<open>Rows\<close>

datatype authority_kind =
  AK_EXPLICIT_OPERATOR | AK_CONTROL_PLANE | AK_QUALIFIED_AUTOPILOT | AK_QUALIFICATION_CANARY
  | AK_LEGACY

datatype verification_kind = VK_EVIDENCE evidence_type | VK_OPERATOR_CONFIRMED

datatype command_state = CS_PENDING | CS_CLAIMED | CS_COMPLETED | CS_CANCELLED

text \<open>
  A JSON text column stands for what its decoding gives; a text that does not decode to the
  declared shape is \<open>Malformed\<close>.
\<close>

datatype 'a json_column = Encoded 'a | Malformed

text \<open>The descriptive columns of a job.\<close>

record posting =
  jo_title :: string
  jo_company :: "string option"
  jo_location :: "string option"
  jo_employment_type :: "string option"
  jo_seniority :: "string option"
  jo_description :: "string option"
  jo_requirements :: "string option"
  jo_keywords :: "string list json_column option"

record job =
  jb_status :: job_status
  jb_apply_url :: "string option"
  jb_source_url :: string
  jb_terminal_skip_at :: "instant option"
  jb_posting :: posting

record application =
  ap_job_id :: int
  ap_status :: job_status
  ap_approved_at :: "instant option"
  ap_rejected_at :: "instant option"
  ap_rejection_reason :: "string option"
  ap_needs_review_reason :: "string option"
  ap_selected_cv_id :: "string option"
  ap_selected_cv_hash :: "string option"
  ap_profile_version :: "int option"
  ap_job_fit_decision_id :: "int option"
  ap_outcome :: "attempt_outcome option"
  ap_approval_source :: "string option"
  ap_revision :: int
  ap_prepared_revision :: "int option"
  ap_material_eligible :: "bool option"
  ap_material_model_provider :: "string option"
  ap_material_model_name :: "string option"
  ap_material_model_digest :: "string option"
  ap_material_prompt_version :: "string option"

record attempt =
  at_application_id :: int
  at_attempt_number :: int
  at_idempotency_key :: string
  at_submitter_name :: string
  at_status :: submission_status
  at_stage :: attempt_stage
  at_outcome :: "attempt_outcome option"
  at_reason_code :: "string option"
  at_confirmation_id :: "string option"
  at_selected_cv_id :: "string option"
  at_profile_version :: "int option"
  at_started_at :: "instant option"
  at_finished_at :: "instant option"
  at_reconciled_at :: "instant option"
  at_submitted_at :: "instant option"
  at_application_revision :: int
  at_adapter_name :: "string option"
  at_adapter_version :: "string option"
  at_selector_version :: "string option"
  at_form_plan_id :: "int option"
  at_form_plan_fingerprint :: "string option"
  at_requested_cv_id :: "string option"
  at_requested_cv_hash :: "string option"
  at_attached_cv_id :: "string option"
  at_attached_cv_hash :: "string option"
  at_attachment_verified :: bool
  at_final_action_at :: "instant option"
  at_verification_kind :: "verification_kind option"
  at_evidence_digest :: "string option"
  at_runner_release :: "string option"
  at_authority_kind :: authority_kind
  at_policy_decision_id :: "int option"
  at_policy_decision_digest :: "string option"
  at_canary_authorization_id :: "int option"
  at_canary_authorization_digest :: "string option"

record plan_row =
  pl_plan_id :: string
  pl_application_id :: int
  pl_application_revision :: int
  pl_adapter_name :: string
  pl_adapter_version :: string
  pl_selector_version :: string
  pl_fingerprint :: string
  pl_selected_cv_id :: string
  pl_selected_cv_hash :: string
  pl_attached_cv_id :: "string option"
  pl_attached_cv_hash :: "string option"
  pl_attachment_verified :: bool
  pl_profile_version :: "int option"
  pl_fields_json :: "form_field list json_column"
  pl_disclosures_json :: "form_disclosure list json_column"
  pl_decisions_json :: "answer_decision list json_column"
  pl_blockers_json :: "reason_code list json_column"
  pl_locale :: string
  pl_answer_policy_version :: string
  pl_llm_prompt_version :: "string option"
  pl_llm_model_provider :: "string option"
  pl_llm_model_name :: "string option"
  pl_llm_model_digest :: "string option"
  pl_session_verified_at :: "instant option"
  pl_created_at :: instant
  pl_expires_at :: instant
  pl_invalidated_at :: "instant option"
  pl_invalidation_reason :: "string option"

record permit_row =
  pm_nonce_hash :: string
  pm_job_url_hash :: string
  pm_application_revision :: int
  pm_adapter_name :: string
  pm_adapter_version :: string
  pm_selector_version :: string
  pm_form_plan_fingerprint :: string
  pm_cv_hash :: string
  pm_issued_at :: instant
  pm_expires_at :: instant
  pm_consumed_at :: "instant option"
  pm_authority_kind :: authority_kind
  pm_policy_decision_digest :: "string option"
  pm_canary_authorization_digest :: "string option"

record command_row =
  cm_attempt_id :: int
  cm_idempotency_key :: string
  cm_state :: command_state
  cm_available_at :: instant
  cm_claimed_at :: "instant option"
  cm_completed_at :: "instant option"
  cm_claimed_by :: "string option"
  cm_claim_token :: "string option"
  cm_last_error_code :: "string option"

record evidence_row =
  er_attempt_id :: int
  er_type :: evidence_type
  er_digest :: string
  er_employer_application_ref :: "string option"
  er_receipt_ref :: "string option"
  er_portal_record_ref :: "string option"
  er_form_fingerprint :: string
  er_cv_hash :: string
  er_observed_at :: instant

text \<open>
  Metric receipts are keyed by the text the caller passes as \<open>dedup_key\<close>; the model keeps the
  parts of that text. Labels, histograms and rollups follow from the receipts.
\<close>

datatype transition_token =
  TK_AT instant | TK_FINISHED attempt_outcome | TK_REDELIVERY int instant | TK_INITIAL
  | TK_CANCELLATION

datatype metric_key =
  MK_STAGE int attempt_stage transition_token
  | MK_OUTCOME int string "attempt_outcome option" "string option"
  | MK_RETRY int
  | MK_GOVERNOR_DENIAL int

datatype detail_value = DV_BOOL bool | DV_INT int | DV_STR string | DV_NONE

record audit_event =
  ae_application_id :: int
  ae_event_type :: string
  ae_actor :: string
  ae_details :: "(string \<times> detail_value) list"

datatype outbox_state = OS_PENDING | OS_CLAIMED | OS_SENT

datatype remote_evidence_type =
  RE_EMPLOYER_APPLICATION_ID | RE_SCHEMA_VALID_RECEIPT | RE_CANDIDATE_PORTAL_RECORD
  | RE_ATS_VISIBLE_CONFIRMATION

record outbox_event =
  ob_event_ref :: string
  ob_command_ref :: string
  ob_sequence :: int
  ob_cycle :: int
  ob_stage :: attempt_stage
  ob_outcome :: "attempt_outcome option"
  ob_reason_code :: "string option"
  ob_evidence_type :: "remote_evidence_type option"
  ob_evidence_digest :: "string option"
  ob_occurred_at :: instant

record outbox_row =
  ox_event :: outbox_event
  ox_state :: outbox_state
  ox_available_at :: instant
  ox_claimed_at :: "instant option"
  ox_claimed_by :: "string option"
  ox_claim_token :: "string option"
  ox_sent_at :: "instant option"
  ox_delivery_count :: int
  ox_last_error_code :: "string option"

datatype qualification_tier =
  QT_DISABLED | QT_DRY_RUN_ONLY | QT_FIXTURE_QUALIFIED | QT_DRY_RUN_QUALIFIED
  | QT_LIVE_CANARY_QUALIFIED

record qualification_row =
  qr_tier :: qualification_tier
  qr_adapter_name :: string
  qr_adapter_version :: string
  qr_selector_version :: string
  qr_contract_version :: string
  qr_form_fingerprint :: string
  qr_form_contract_digest :: string
  qr_fixture_digest :: string
  qr_application_id :: int
  qr_application_revision :: int
  qr_form_plan_id :: int
  qr_attempt_id :: "int option"
  qr_job_url_hash :: string
  qr_evidence_digest :: string
  qr_runner_release :: string
  qr_qualified_at :: instant
  qr_invalidated_at :: "instant option"
  qr_invalidation_reason :: "string option"

record canary_row =
  cy_authorization_digest :: string
  cy_nonce_hash :: string
  cy_application_id :: int
  cy_application_revision :: int
  cy_form_plan_id :: int
  cy_dry_run_id :: int
  cy_adapter_name :: string
  cy_adapter_version :: string
  cy_selector_version :: string
  cy_contract_version :: string
  cy_form_fingerprint :: string
  cy_form_contract_digest :: string
  cy_selected_cv_hash :: string
  cy_job_url_hash :: string
  cy_runner_release :: string
  cy_issued_at :: instant
  cy_expires_at :: instant
  cy_consumed_at :: "instant option"
  cy_revoked_at :: "instant option"

text \<open>
  The redacted telemetry row of a qualification; its trace is the JSON object of
  \<open>_qualification_trace\<close>, for a live canary with the type of the evidence.
\<close>

record qualification_trace =
  qt_terminal_reason :: string
  qt_selector_version :: string
  qt_form_fingerprint :: string
  qt_field_types :: "field_type list"
  qt_resolver_sources :: "answer_provenance list"
  qt_attachment_verified :: bool
  qt_blocker_codes :: "reason_code list"
  qt_evidence_type :: "string option"

record qualification_run =
  qn_selector_version :: string
  qn_terminal_reason :: string
  qn_trace :: qualification_trace
  qn_adapter_name :: string
  qn_adapter_version :: string
  qn_tier :: qualification_tier
  qn_form_fingerprint :: string
  qn_form_contract_digest :: string
  qn_fixture_digest :: string

section \<open>Rows of the qualified autopilot\<close>

text \<open>A policy revision; \<open>pr_active\<close> says that \<open>active_slot\<close> is 1 and not null.\<close>

record policy_row =
  pr_policy_id :: string
  pr_revision :: int
  pr_payload_json :: "auto_policy json_column"
  pr_payload_digest :: string
  pr_signing_key_id :: string
  pr_signature :: string
  pr_active :: bool
  pr_activated_at :: instant
  pr_expires_at :: instant
  pr_revoked_at :: "instant option"
  pr_revoked_by :: "string option"
  pr_revocation_reason :: "string option"

record decision_row =
  dr_policy_revision_id :: int
  dr_application_id :: int
  dr_application_revision :: int
  dr_fit_decision_id :: int
  dr_form_plan_id :: int
  dr_decision_digest :: string
  dr_policy_digest :: string
  dr_job_digest :: string
  dr_company_digest :: string
  dr_fit_decision_digest :: string
  dr_form_plan_public_id :: string
  dr_form_fingerprint :: string
  dr_form_contract_digest :: string
  dr_selected_cv_hash :: string
  dr_profile_version :: int
  dr_confirmed_answer_revision :: string
  dr_adapter_name :: string
  dr_adapter_version :: string
  dr_selector_version :: string
  dr_fit_score :: rat
  dr_allowed :: bool
  dr_reason_codes_json :: "string list json_column"
  dr_authority_expires_at :: "instant option"
  dr_evaluated_at :: instant

record kill_row =
  kl_revision :: int
  kl_active :: bool
  kl_source :: authority_source
  kl_reason_code :: string
  kl_command_digest :: "string option"
  kl_created_at :: instant

record fit_row =
  fr_job_id :: int
  fr_decision_digest :: string
  fr_job_digest :: string
  fr_profile_version :: "int option"
  fr_routing_config_digest :: string
  fr_cv_manifest_digest :: string
  fr_selected_cv_id :: "string option"
  fr_selected_cv_hash :: "string option"
  fr_routing_confidence :: rat
  fr_routing_margin :: rat
  fr_routing_fallback_reason :: "string option"
  fr_fit_score :: rat
  fr_disposition :: fit_disposition
  fr_quality_eligible :: bool
  fr_hard_exclusions_json :: "string list json_column"
  fr_uncertainty_json :: "string list json_column"
  fr_unsupported_skills_json :: "string list json_column"
  fr_evidence_json :: "fit_evidence list json_column"
  fr_thresholds_json :: "fit_thresholds json_column"
  fr_qualification_digest :: "string option"
  fr_created_at :: instant

record answer_row =
  aw_canonical_field :: string
  aw_field_type :: string
  aw_option_set_hash :: string
  aw_profile_version :: int
  aw_selected_cv_hash :: string
  aw_adapter_name :: string
  aw_adapter_version :: string
  aw_selector_version :: string
  aw_field_contract_fingerprint :: "string option"
  aw_policy_version :: string
  aw_answer_json :: string
  aw_approved_at :: instant
  aw_revoked_at :: "instant option"

text \<open>The tables of the autopilot; of the profile snapshots only the version numbers matter here.\<close>

record automation_tables =
  am_policies :: "policy_row table"
  am_decisions :: "decision_row table"
  am_kills :: "kill_row table"
  am_fits :: "fit_row table"
  am_answers :: "answer_row table"
  am_profiles :: "int list"
  am_runs :: "qualification_run list"

definition no_automation :: automation_tables where
  "no_automation =
     \<lparr>am_policies = [], am_decisions = [], am_kills = [], am_fits = [], am_answers = [], am_profiles = [],
      am_runs = []\<rparr>"

section \<open>The database\<close>

record database =
  db_jobs :: "job table"
  db_applications :: "application table"
  db_attempts :: "attempt table"
  db_plans :: "plan_row table"
  db_permits :: "permit_row table"
  db_commands :: "command_row table"
  db_evidence :: "evidence_row list"
  db_receipts :: "(string \<times> string) list"
  db_outbox :: "outbox_row table"
  db_metrics :: "metric_key list"
  db_events :: "audit_event list"
  db_qualifications :: "qualification_row table"
  db_canaries :: "canary_row table"
  db_automation :: automation_tables

text \<open>
  Permits are keyed by their attempt: \<open>uq_final_submit_permits_attempt_id\<close> allows one per attempt.
  \<open>db_receipts\<close> pairs the client idempotency key of a remote command with its remote reference.
\<close>

definition empty_db :: database where
  "empty_db =
     \<lparr>db_jobs = [], db_applications = [], db_attempts = [], db_plans = [], db_permits = [],
      db_commands = [], db_evidence = [], db_receipts = [], db_outbox = [], db_metrics = [],
      db_events = [], db_qualifications = [], db_canaries = [], db_automation = no_automation\<rparr>"

section \<open>Row updates\<close>

definition set_attempt :: "int \<Rightarrow> attempt \<Rightarrow> database \<Rightarrow> database" where
  "set_attempt i r d = d\<lparr>db_attempts := put_row i r (db_attempts d)\<rparr>"

definition set_command :: "int \<Rightarrow> command_row \<Rightarrow> database \<Rightarrow> database" where
  "set_command i r d = d\<lparr>db_commands := put_row i r (db_commands d)\<rparr>"

definition set_application :: "int \<Rightarrow> application \<Rightarrow> database \<Rightarrow> database" where
  "set_application i r d = d\<lparr>db_applications := put_row i r (db_applications d)\<rparr>"

definition set_job :: "int \<Rightarrow> job \<Rightarrow> database \<Rightarrow> database" where
  "set_job i r d = d\<lparr>db_jobs := put_row i r (db_jobs d)\<rparr>"

definition set_permit :: "int \<Rightarrow> permit_row \<Rightarrow> database \<Rightarrow> database" where
  "set_permit i r d = d\<lparr>db_permits := put_row i r (db_permits d)\<rparr>"

definition set_plan :: "int \<Rightarrow> plan_row \<Rightarrow> database \<Rightarrow> database" where
  "set_plan i r d = d\<lparr>db_plans := put_row i r (db_plans d)\<rparr>"

lemmas set_row_defs =
  set_attempt_def set_command_def set_application_def set_job_def set_permit_def set_plan_def

lemma set_attempt_reads [db_simps]:
  "db_attempts (set_attempt i r d) = put_row i r (db_attempts d)"
  "db_permits (set_attempt i r d) = db_permits d" "db_commands (set_attempt i r d) = db_commands d"
  by (simp_all add: set_attempt_def)

lemma set_command_reads [db_simps]:
  "db_commands (set_command i r d) = put_row i r (db_commands d)"
  "db_permits (set_command i r d) = db_permits d" "db_attempts (set_command i r d) = db_attempts d"
  by (simp_all add: set_command_def)

lemma set_permit_reads [db_simps]:
  "db_permits (set_permit i r d) = put_row i r (db_permits d)"
  "db_commands (set_permit i r d) = db_commands d" "db_attempts (set_permit i r d) = db_attempts d"
  by (simp_all add: set_permit_def)

lemma set_other_reads [db_simps]:
  "db_attempts (set_application i a d) = db_attempts d" "db_permits (set_application i a d) = db_permits d"
  "db_commands (set_application i a d) = db_commands d"
  "db_attempts (set_job i j d) = db_attempts d" "db_permits (set_job i j d) = db_permits d"
  "db_commands (set_job i j d) = db_commands d"
  "db_attempts (set_plan i p d) = db_attempts d" "db_permits (set_plan i p d) = db_permits d"
  "db_commands (set_plan i p d) = db_commands d"
  by (simp_all add: set_application_def set_job_def set_plan_def)

section \<open>Declared constraints\<close>

text \<open>SQL \<open>length(trim(x)) > 0\<close>: \<open>trim\<close> removes blanks only.\<close>

definition sql_nonblank :: "string option \<Rightarrow> bool" where
  "sql_nonblank x = (case x of None \<Rightarrow> False | Some s \<Rightarrow> list_ex (\<lambda>c. c \<noteq> CHR '' '') s)"

text \<open>\<open>_sha256_check_sql\<close>: the length and that nothing is left after removing the hex digits.\<close>

definition sha256_check_sql :: "string \<Rightarrow> bool" where
  "sha256_check_sql s \<longleftrightarrow>
     length s = 64 \<and> fold (\<lambda>c t. filter (\<lambda>x. x \<noteq> c) t) hex_digits s = []"

definition sql_sha256 :: "string option \<Rightarrow> bool" where
  "sql_sha256 x = (case x of None \<Rightarrow> False | Some s \<Rightarrow> sha256_check_sql s)"

definition automation_authority_check ::
  "authority_kind \<Rightarrow> bool \<Rightarrow> bool \<Rightarrow> bool" where
  "automation_authority_check k policy canary =
     (case k of
        AK_QUALIFIED_AUTOPILOT \<Rightarrow> policy \<and> \<not> canary
      | AK_QUALIFICATION_CANARY \<Rightarrow> \<not> policy \<and> canary
      | _ \<Rightarrow> \<not> policy \<and> \<not> canary)"

definition confirmed_evidence_check :: "attempt \<Rightarrow> bool" where
  "confirmed_evidence_check a \<longleftrightarrow>
     at_outcome a \<noteq> Some CONFIRMED_SUBMITTED \<or>
     (at_status a = SS_SUCCESS
      \<and> (case (at_submitted_at a, at_final_action_at a) of (Some s, Some f) \<Rightarrow> f \<le> s | _ \<Rightarrow> False)
      \<and> at_form_plan_id a \<noteq> None \<and> sql_nonblank (at_adapter_name a)
      \<and> sql_nonblank (at_adapter_version a) \<and> sql_nonblank (at_selector_version a)
      \<and> (case at_profile_version a of None \<Rightarrow> False | Some v \<Rightarrow> 0 < v)
      \<and> sql_nonblank (at_runner_release a) \<and> length (or_empty (at_runner_release a)) \<le> 64
      \<and> sql_nonblank (at_requested_cv_id a) \<and> sql_nonblank (at_attached_cv_id a)
      \<and> at_requested_cv_id a = at_attached_cv_id a \<and> at_requested_cv_hash a \<noteq> None
      \<and> at_attachment_verified a \<and> at_requested_cv_hash a = at_attached_cv_hash a
      \<and> sql_sha256 (at_attached_cv_hash a) \<and> sql_sha256 (at_form_plan_fingerprint a)
      \<and> (case at_verification_kind a of Some (VK_EVIDENCE k) \<Rightarrow> True | _ \<Rightarrow> False)
      \<and> sql_sha256 (at_evidence_digest a))"

definition attempt_check :: "attempt \<Rightarrow> bool" where
  "attempt_check a \<longleftrightarrow>
     automation_authority_check (at_authority_kind a) (at_policy_decision_id a \<noteq> None)
       (at_canary_authorization_id a \<noteq> None)
     \<and> automation_authority_check (at_authority_kind a) (at_policy_decision_digest a \<noteq> None)
       (at_canary_authorization_digest a \<noteq> None)
     \<and> (at_stage a = FINISHED \<longleftrightarrow> at_outcome a \<noteq> None)
     \<and> (at_status a = SS_SUCCESS \<longrightarrow>
          at_stage a = FINISHED \<and> at_outcome a \<in> {Some CONFIRMED_SUBMITTED, Some LEGACY_UNVERIFIED})
     \<and> (at_submitted_at a \<noteq> None \<longrightarrow>
          at_stage a = FINISHED \<and> at_outcome a = Some CONFIRMED_SUBMITTED \<and> at_status a = SS_SUCCESS)
     \<and> confirmed_evidence_check a"

definition permit_check :: "permit_row \<Rightarrow> bool" where
  "permit_check m \<longleftrightarrow>
     automation_authority_check (pm_authority_kind m) (pm_policy_decision_digest m \<noteq> None)
       (pm_canary_authorization_digest m \<noteq> None)
     \<and> (pm_policy_decision_digest m = None \<or> sql_sha256 (pm_policy_decision_digest m))
     \<and> (pm_canary_authorization_digest m = None \<or> sql_sha256 (pm_canary_authorization_digest m))"

definition command_check :: "command_row \<Rightarrow> bool" where
  "command_check c =
     (case cm_state c of
        CS_PENDING \<Rightarrow> cm_claimed_at c = None \<and> cm_claimed_by c = None \<and> cm_claim_token c = None
                     \<and> cm_completed_at c = None
      | CS_CLAIMED \<Rightarrow> cm_claimed_at c \<noteq> None \<and> cm_claimed_by c \<noteq> None \<and> cm_claim_token c \<noteq> None
                     \<and> cm_completed_at c = None
      | _ \<Rightarrow> cm_completed_at c \<noteq> None \<and> cm_claimed_at c = None \<and> cm_claimed_by c = None
            \<and> cm_claim_token c = None)"

definition evidence_check :: "evidence_row \<Rightarrow> bool" where
  "evidence_check e \<longleftrightarrow>
     sha256_check_sql (er_digest e) \<and> sha256_check_sql (er_form_fingerprint e)
     \<and> sha256_check_sql (er_cv_hash e)
     \<and> (case er_type e of
          EMPLOYER_APPLICATION_ID \<Rightarrow>
            sql_nonblank (er_employer_application_ref e) \<and> er_receipt_ref e = None
            \<and> er_portal_record_ref e = None
        | API_RECEIPT \<Rightarrow>
            sql_nonblank (er_receipt_ref e) \<and> er_employer_application_ref e = None
            \<and> er_portal_record_ref e = None
        | CANDIDATE_PORTAL_RECORD \<Rightarrow>
            sql_nonblank (er_portal_record_ref e) \<and> er_employer_application_ref e = None
            \<and> er_receipt_ref e = None
        | VISIBLE_POST_CLICK_CONFIRMATION \<Rightarrow>
            er_employer_application_ref e = None \<and> er_receipt_ref e = None
            \<and> er_portal_record_ref e = None)"

definition outbox_check :: "outbox_row \<Rightarrow> bool" where
  "outbox_check r \<longleftrightarrow>
     0 < ob_sequence (ox_event r) \<and> 0 \<le> ob_cycle (ox_event r) \<and> 0 \<le> ox_delivery_count r
     \<and> (case ox_state r of
          OS_PENDING \<Rightarrow> ox_claimed_at r = None \<and> ox_claimed_by r = None \<and> ox_claim_token r = None
                       \<and> ox_sent_at r = None
        | OS_CLAIMED \<Rightarrow> ox_claimed_at r \<noteq> None \<and> ox_claimed_by r \<noteq> None \<and> ox_claim_token r \<noteq> None
                       \<and> ox_sent_at r = None
        | OS_SENT \<Rightarrow> ox_claimed_at r = None \<and> ox_claimed_by r = None \<and> ox_claim_token r = None
                    \<and> ox_sent_at r \<noteq> None)"

text \<open>
  \<open>fk_submissions_exact_form_plan\<close> and \<open>fk_submissions_confirmed_evidence\<close>. A composite foreign
  key with a null column is not checked.
\<close>

definition exact_form_plan_fk :: "database \<Rightarrow> attempt \<Rightarrow> bool" where
  "exact_form_plan_fk d a =
     (case at_form_plan_id a of
        None \<Rightarrow> True
      | Some i \<Rightarrow>
          None \<in> set [at_adapter_name a, at_adapter_version a, at_selector_version a,
             at_form_plan_fingerprint a, at_requested_cv_id a, at_requested_cv_hash a,
             at_attached_cv_id a, at_attached_cv_hash a]
          \<or> at_profile_version a = None
          \<or> (case row (db_plans d) i of
               None \<Rightarrow> False
             | Some p \<Rightarrow>
                 pl_application_id p = at_application_id a
                 \<and> pl_application_revision p = at_application_revision a
                 \<and> Some (pl_adapter_name p) = at_adapter_name a
                 \<and> Some (pl_adapter_version p) = at_adapter_version a
                 \<and> Some (pl_selector_version p) = at_selector_version a
                 \<and> Some (pl_fingerprint p) = at_form_plan_fingerprint a
                 \<and> Some (pl_selected_cv_id p) = at_requested_cv_id a
                 \<and> Some (pl_selected_cv_hash p) = at_requested_cv_hash a
                 \<and> pl_attached_cv_id p = at_attached_cv_id a
                 \<and> pl_attached_cv_hash p = at_attached_cv_hash a
                 \<and> pl_attachment_verified p = at_attachment_verified a
                 \<and> pl_profile_version p = at_profile_version a))"

definition confirmed_evidence_fk :: "database \<Rightarrow> int \<Rightarrow> attempt \<Rightarrow> bool" where
  "confirmed_evidence_fk d i a \<longleftrightarrow>
     at_evidence_digest a = None \<or> at_verification_kind a = None
     \<or> at_form_plan_fingerprint a = None \<or> at_attached_cv_hash a = None
     \<or> list_ex (\<lambda>e. er_attempt_id e = i \<and> Some (er_digest e) = at_evidence_digest a
                   \<and> Some (VK_EVIDENCE (er_type e)) = at_verification_kind a
                   \<and> Some (er_form_fingerprint e) = at_form_plan_fingerprint a
                   \<and> Some (er_cv_hash e) = at_attached_cv_hash a) (db_evidence d)"

definition unfinished :: "attempt \<Rightarrow> bool" where
  "unfinished a \<longleftrightarrow> at_stage a \<noteq> FINISHED"

definition attempts_valid :: "database \<Rightarrow> bool" where
  "attempts_valid d \<longleftrightarrow>
     distinct (map fst (db_attempts d))
     \<and> list_all (\<lambda>(i, a). attempt_check a \<and> row (db_applications d) (at_application_id a) \<noteq> None
                          \<and> exact_form_plan_fk d a \<and> confirmed_evidence_fk d i a) (db_attempts d)
     \<and> distinct (map (at_idempotency_key \<circ> snd) (db_attempts d))
     \<and> distinct (map (\<lambda>(i, a). (at_application_id a, at_attempt_number a)) (db_attempts d))
     \<and> distinct (map (at_application_id \<circ> snd) (filter (unfinished \<circ> snd) (db_attempts d)))
     \<and> distinct (List.map_filter (at_canary_authorization_id \<circ> snd) (db_attempts d))"

definition commands_valid :: "database \<Rightarrow> bool" where
  "commands_valid d \<longleftrightarrow>
     distinct (map fst (db_commands d))
     \<and> list_all (\<lambda>(i, c). command_check c \<and> row (db_attempts d) (cm_attempt_id c) \<noteq> None)
         (db_commands d)
     \<and> distinct (map (cm_attempt_id \<circ> snd) (db_commands d))
     \<and> distinct (map (cm_idempotency_key \<circ> snd) (db_commands d))"

definition other_rows_valid :: "database \<Rightarrow> bool" where
  "other_rows_valid d \<longleftrightarrow>
     distinct (map fst (db_permits d)) \<and> distinct (map fst (db_plans d))
     \<and> distinct (map fst (db_applications d)) \<and> distinct (map fst (db_jobs d))
     \<and> distinct (map fst (db_outbox d))
     \<and> list_all (\<lambda>(i, m). permit_check m \<and> row (db_attempts d) i \<noteq> None) (db_permits d)
     \<and> distinct (map (pm_nonce_hash \<circ> snd) (db_permits d))
     \<and> distinct (map (pl_plan_id \<circ> snd) (db_plans d))
     \<and> distinct (map (ap_job_id \<circ> snd) (db_applications d))
     \<and> list_all (\<lambda>e. evidence_check e \<and> row (db_attempts d) (er_attempt_id e) \<noteq> None)
         (db_evidence d)
     \<and> distinct (map (\<lambda>e. (er_attempt_id e, er_digest e)) (db_evidence d))
     \<and> distinct (map fst (db_receipts d)) \<and> distinct (map snd (db_receipts d))
     \<and> list_all (outbox_check \<circ> snd) (db_outbox d)
     \<and> distinct (map (ob_event_ref \<circ> ox_event \<circ> snd) (db_outbox d))
     \<and> distinct (map (\<lambda>(i, r). (ob_command_ref (ox_event r), ob_sequence (ox_event r))) (db_outbox d))"

text \<open>The constraints of the qualification records.\<close>

definition sql_trim :: "string \<Rightarrow> string" where
  "sql_trim s = rev (dropWhile (\<lambda>c. c = CHR '' '') (rev (dropWhile (\<lambda>c. c = CHR '' '') s)))"

definition trimmed_within :: "nat \<Rightarrow> nat \<Rightarrow> string \<Rightarrow> bool" where
  "trimmed_within a b s \<longleftrightarrow> a \<le> length (sql_trim s) \<and> length (sql_trim s) \<le> b"

definition qualification_check :: "qualification_row \<Rightarrow> bool" where
  "qualification_check q \<longleftrightarrow>
     trimmed_within 1 64 (qr_adapter_name q) \<and> trimmed_within 1 32 (qr_adapter_version q)
     \<and> trimmed_within 1 64 (qr_selector_version q) \<and> trimmed_within 1 32 (qr_contract_version q)
     \<and> trimmed_within 1 64 (qr_runner_release q) \<and> 0 < qr_application_revision q
     \<and> list_all sha256_check_sql [qr_form_fingerprint q, qr_form_contract_digest q, qr_fixture_digest q,
          qr_job_url_hash q, qr_evidence_digest q]
     \<and> (qr_tier q = QT_DRY_RUN_QUALIFIED \<and> qr_attempt_id q = None
        \<or> qr_tier q = QT_LIVE_CANARY_QUALIFIED \<and> qr_attempt_id q \<noteq> None)
     \<and> (case qr_invalidation_reason q of
          None \<Rightarrow> qr_invalidated_at q = None
        | Some r \<Rightarrow> qr_invalidated_at q \<noteq> None \<and> trimmed_within 2 64 r)"

definition observation ::
  "qualification_row \<Rightarrow> qualification_tier \<times> int \<times> int \<times> int \<times> string \<times> string \<times> string \<times> string \<times> string" where
  "observation q =
     (qr_tier q, qr_application_id q, qr_application_revision q, qr_form_plan_id q, qr_adapter_name q,
      qr_adapter_version q, qr_selector_version q, qr_form_fingerprint q, qr_runner_release q)"

definition qualifications_valid :: "qualification_row table \<Rightarrow> bool" where
  "qualifications_valid t \<longleftrightarrow>
     distinct (map fst t) \<and> list_all (qualification_check \<circ> snd) t
     \<and> distinct (map (observation \<circ> snd) t) \<and> distinct (List.map_filter (qr_attempt_id \<circ> snd) t)"

text \<open>The constraints of the autopilot tables.\<close>

definition policy_check :: "policy_row \<Rightarrow> bool" where
  "policy_check r \<longleftrightarrow>
     0 < pr_revision r \<and> pr_activated_at r < pr_expires_at r \<and> sha256_check_sql (pr_payload_digest r)
     \<and> length (pr_signature r) = 86
     \<and> (if pr_active r
        then pr_revoked_at r = None \<and> pr_revoked_by r = None \<and> pr_revocation_reason r = None
        else pr_revoked_at r \<noteq> None \<and> pr_revoked_by r \<noteq> None \<and> pr_revocation_reason r \<noteq> None)"

definition decision_outcome_check :: "decision_row \<Rightarrow> bool" where
  "decision_outcome_check r \<longleftrightarrow>
     (if dr_allowed r
      then dr_reason_codes_json r = Encoded [] \<and> (case dr_authority_expires_at r of
             None \<Rightarrow> False | Some t \<Rightarrow> dr_evaluated_at r < t)
      else dr_reason_codes_json r \<noteq> Encoded [] \<and> dr_authority_expires_at r = None)"

definition decision_check :: "decision_row \<Rightarrow> bool" where
  "decision_check r \<longleftrightarrow>
     0 < dr_application_revision r \<and> 0 < dr_profile_version r \<and> 0 \<le> dr_fit_score r
     \<and> dr_fit_score r \<le> 100
     \<and> list_all sha256_check_sql
         [dr_decision_digest r, dr_policy_digest r, dr_job_digest r, dr_company_digest r,
          dr_fit_decision_digest r, dr_form_fingerprint r, dr_form_contract_digest r,
          dr_selected_cv_hash r, dr_confirmed_answer_revision r]
     \<and> decision_outcome_check r"

definition kill_check :: "kill_row \<Rightarrow> bool" where
  "kill_check r \<longleftrightarrow>
     0 < kl_revision r \<and> sql_nonblank (Some (kl_reason_code r)) \<and> length (kl_reason_code r) \<le> 64
     \<and> (kl_command_digest r = None \<or> sql_sha256 (kl_command_digest r))
     \<and> (kl_source r = VERCEL_SIGNED_KILL \<longrightarrow> kl_active r \<and> kl_command_digest r \<noteq> None)"

definition automation_valid :: "automation_tables \<Rightarrow> bool" where
  "automation_valid m \<longleftrightarrow>
     distinct (map fst (am_policies m)) \<and> list_all (policy_check \<circ> snd) (am_policies m)
     \<and> distinct (map (\<lambda>(i, r). (pr_policy_id r, pr_revision r)) (am_policies m))
     \<and> distinct (map (pr_payload_digest \<circ> snd) (am_policies m))
     \<and> length (filter (pr_active \<circ> snd) (am_policies m)) \<le> 1
     \<and> distinct (map fst (am_decisions m)) \<and> list_all (decision_check \<circ> snd) (am_decisions m)
     \<and> distinct (map (dr_application_id \<circ> snd) (filter (dr_allowed \<circ> snd) (am_decisions m)))
     \<and> distinct (map (\<lambda>(i, r). (dr_application_id r, dr_policy_revision_id r, dr_application_revision r,
                     dr_form_plan_id r, dr_decision_digest r)) (am_decisions m))
     \<and> distinct (map fst (am_kills m)) \<and> list_all (kill_check \<circ> snd) (am_kills m)
     \<and> distinct (map (kl_revision \<circ> snd) (am_kills m))
     \<and> distinct (List.map_filter (kl_command_digest \<circ> snd) (am_kills m))"

definition db_valid :: "database \<Rightarrow> bool" where
  "db_valid d \<longleftrightarrow>
     attempts_valid d \<and> commands_valid d \<and> other_rows_valid d \<and> qualifications_valid (db_qualifications d)
     \<and> automation_valid (db_automation d)"

definition commit_db :: "database \<Rightarrow> fault + database" where
  "commit_db d = (if db_valid d then Inr d else Inl IntegrityError)"

section \<open>What the constraints give\<close>

lemma commit_db_ok [simp]: "commit_db d = Inr d' \<longleftrightarrow> d' = d \<and> db_valid d"
  by (auto simp: commit_db_def)

lemma fold_filter_empty:
  "fold (\<lambda>c t. filter (\<lambda>x. x \<noteq> c) t) cs s = filter (\<lambda>x. x \<notin> set cs) s"
proof (induction cs arbitrary: s)
  case (Cons c cs)
  have "(\<lambda>x. x \<noteq> c \<and> x \<notin> set cs) = (\<lambda>x. x \<notin> set (c # cs))" by auto
  with Cons show ?case by (simp add: conj_commute)
qed simp

lemma sha256_check_sql_iff: "sha256_check_sql s \<longleftrightarrow> is_sha256 s"
  by (auto simp: sha256_check_sql_def is_sha256_def fold_filter_empty filter_empty_conv list_all_iff)

lemma sql_sha256_iff: "sql_sha256 x \<longleftrightarrow> opt_sha256 x"
  by (simp add: sql_sha256_def opt_sha256_def sha256_check_sql_iff split: option.splits)

lemma valid_attempt:
  assumes "db_valid d" and "row (db_attempts d) i = Some a"
  shows "attempt_check a" "exact_form_plan_fk d a" "confirmed_evidence_fk d i a"
    "\<exists>ap. row (db_applications d) (at_application_id a) = Some ap"
  using row_in_set[OF assms(2)] assms(1)
  by (auto simp: db_valid_def attempts_valid_def list_all_iff)

lemma valid_command:
  assumes "db_valid d" and "row (db_commands d) i = Some c"
  shows "command_check c" "\<exists>a. row (db_attempts d) (cm_attempt_id c) = Some a"
  using row_in_set[OF assms(2)] assms(1)
  by (auto simp: db_valid_def commands_valid_def list_all_iff)

lemma distinct_map_eqD: "distinct (map f xs) \<Longrightarrow> x \<in> set xs \<Longrightarrow> y \<in> set xs \<Longrightarrow> f x = f y \<Longrightarrow> x = y"
  by (auto simp: distinct_map dest: inj_onD)

lemma one_unfinished_attempt:
  assumes "db_valid d" and "row (db_attempts d) i = Some a" and "row (db_attempts d) j = Some b"
    and "unfinished a" and "unfinished b" and "at_application_id a = at_application_id b"
  shows "i = j"
proof -
  from assms(1) have "distinct (map (at_application_id \<circ> snd) (filter (unfinished \<circ> snd) (db_attempts d)))"
    by (simp add: db_valid_def attempts_valid_def)
  from distinct_map_eqD[OF this, of "(i, a)" "(j, b)"] assms(4-6)
    row_in_set[OF assms(2)] row_in_set[OF assms(3)]
  show ?thesis by simp
qed

lemma one_command_per_attempt:
  assumes "db_valid d" and "row (db_commands d) i = Some c" and "row (db_commands d) j = Some c'"
    and "cm_attempt_id c = cm_attempt_id c'"
  shows "i = j"
proof -
  from assms(1) have "distinct (map (cm_attempt_id \<circ> snd) (db_commands d))"
    by (simp add: db_valid_def commands_valid_def)
  from distinct_map_eqD[OF this, of "(i, c)" "(j, c')"] assms(4)
    row_in_set[OF assms(2)] row_in_set[OF assms(3)]
  show ?thesis by simp
qed

lemma empty_db_valid: "db_valid empty_db"
  by (simp add: db_valid_def attempts_valid_def commands_valid_def other_rows_valid_def
        qualifications_valid_def automation_valid_def no_automation_def empty_db_def map_filter_simps)

end
