(* ===== verification/Audit_Log.thy ===== *)
theory Audit_Log
  imports Database "HOL-Library.List_Lexorder"
begin

text \<open>
  The append-only side of a transaction: the redacted audit trail of
  \<^verbatim>\<open>core/application_audit.py\<close> and the metric receipts of \<^verbatim>\<open>core/operational_metrics.py\<close>, which count
  each lifecycle event once however often it is recorded.
\<close>

section \<open>Persisted enumeration values\<close>

text \<open>The stored text of a \<open>ReasonCode\<close>, an \<open>AttemptOutcome\<close> and an \<open>AttemptStage\<close>.\<close>

fun reason_value :: "reason_code \<Rightarrow> string" where
  "reason_value R_RUNTIME_NOT_READY = ''RUNTIME_NOT_READY''"
| "reason_value R_BUILD_MISMATCH = ''BUILD_MISMATCH''"
| "reason_value R_ADAPTER_NOT_QUALIFIED = ''ADAPTER_NOT_QUALIFIED''"
| "reason_value R_SESSION_EXPIRED = ''SESSION_EXPIRED''"
| "reason_value R_MFA_REQUIRED = ''MFA_REQUIRED''"
| "reason_value R_CHALLENGE_DETECTED = ''CHALLENGE_DETECTED''"
| "reason_value R_FORM_CHANGED = ''FORM_CHANGED''"
| "reason_value R_FORM_PLAN_INCOMPLETE = ''FORM_PLAN_INCOMPLETE''"
| "reason_value R_REQUIRED_FIELD_UNKNOWN = ''REQUIRED_FIELD_UNKNOWN''"
| "reason_value R_ATTACHMENT_UNVERIFIED = ''ATTACHMENT_UNVERIFIED''"
| "reason_value R_FINAL_ACTION_UNCONFIRMED = ''FINAL_ACTION_UNCONFIRMED''"
| "reason_value R_ALREADY_APPLIED = ''ALREADY_APPLIED''"
| "reason_value R_JOB_CLOSED = ''JOB_CLOSED''"
| "reason_value R_SELECTOR_DRIFT = ''SELECTOR_DRIFT''"
| "reason_value R_STALE_INDETERMINATE = ''STALE_INDETERMINATE''"
| "reason_value R_DRY_RUN_DISCARDED = ''DRY_RUN_DISCARDED''"
| "reason_value R_DRAFT_ONLY = ''DRAFT_ONLY''"
| "reason_value R_PERMIT_MISSING = ''PERMIT_MISSING''"
| "reason_value R_PERMIT_EXPIRED = ''PERMIT_EXPIRED''"
| "reason_value R_PERMIT_REPLAYED = ''PERMIT_REPLAYED''"
| "reason_value R_PERMIT_BINDING_MISMATCH = ''PERMIT_BINDING_MISMATCH''"
| "reason_value R_COMMAND_EXPIRED = ''COMMAND_EXPIRED''"
| "reason_value R_COMMAND_REPLAYED = ''COMMAND_REPLAYED''"
| "reason_value R_GOVERNOR_DENIED = ''GOVERNOR_DENIED''"
| "reason_value R_OPERATOR_CANCELLED = ''OPERATOR_CANCELLED''"
| "reason_value R_EVIDENCE_INVALID = ''EVIDENCE_INVALID''"
| "reason_value R_UNSUPPORTED_CONTROL = ''UNSUPPORTED_CONTROL''"
| "reason_value R_NETWORK_ERROR = ''NETWORK_ERROR''"
| "reason_value R_INTERNAL_ERROR = ''INTERNAL_ERROR''"
| "reason_value R_PROFILE_VERSION_NOT_FOUND = ''PROFILE_VERSION_NOT_FOUND''"
| "reason_value R_PROFILE_SNAPSHOT_INVALID = ''PROFILE_SNAPSHOT_INVALID''"
| "reason_value R_LLM_UNAVAILABLE = ''LLM_UNAVAILABLE''"
| "reason_value R_LLM_MODEL_MISSING = ''LLM_MODEL_MISSING''"
| "reason_value R_LLM_TIMEOUT = ''LLM_TIMEOUT''"
| "reason_value R_LLM_CIRCUIT_OPEN = ''LLM_CIRCUIT_OPEN''"
| "reason_value R_LLM_SCHEMA_INVALID = ''LLM_SCHEMA_INVALID''"
| "reason_value R_UNSUPPORTED_CLAIM = ''UNSUPPORTED_CLAIM''"
| "reason_value R_ANSWER_POLICY_CHANGED = ''ANSWER_POLICY_CHANGED''"

fun outcome_value :: "attempt_outcome \<Rightarrow> string" where
  "outcome_value CONFIRMED_SUBMITTED = ''confirmed_submitted''"
| "outcome_value ALREADY_APPLIED = ''already_applied''"
| "outcome_value NEEDS_REVIEW = ''needs_review''"
| "outcome_value UNKNOWN = ''unknown''"
| "outcome_value FAILED_BEFORE_COMMIT = ''failed_before_commit''"
| "outcome_value DRAFT_ONLY = ''draft_only''"
| "outcome_value OPERATOR_CONFIRMED = ''operator_confirmed''"
| "outcome_value LEGACY_UNVERIFIED = ''legacy_unverified''"

fun stage_value :: "attempt_stage \<Rightarrow> string" where
  "stage_value QUEUED = ''queued''"
| "stage_value INSPECTING = ''inspecting''"
| "stage_value PREPARING = ''preparing''"
| "stage_value READY = ''ready''"
| "stage_value COMMITTING = ''committing''"
| "stage_value VERIFYING = ''verifying''"
| "stage_value FINISHED = ''finished''"

definition opt_text :: "string option \<Rightarrow> detail_value" where
  "opt_text x = (case x of None \<Rightarrow> DV_NONE | Some s \<Rightarrow> DV_STR s)"

definition opt_int :: "int option \<Rightarrow> detail_value" where
  "opt_int x = (case x of None \<Rightarrow> DV_NONE | Some n \<Rightarrow> DV_INT n)"

section \<open>The audit trail\<close>

definition allowed_detail_keys :: "string list" where
  "allowed_detail_keys =
     [''application_revision'', ''approval_source'', ''attempt_number'', ''external_action_queued'',
      ''external_action_started'', ''field_id_hash'', ''form_plan_id'', ''platform'',
      ''profile_version'', ''reason_code'', ''reusable'', ''selected_cv_id'', ''state'']"

definition allowed_actors :: "string list" where
  "allowed_actors =
     [''operator'', ''batch_operator'', ''whatsapp_operator'', ''qualified_autopilot'', ''worker'',
      ''system'']"

fun redacted_event_details :: "(string \<times> detail_value) list \<Rightarrow> (string \<times> detail_value) list" where
  "redacted_event_details [] = []"
| "redacted_event_details ((k, v) # kvs) =
     (if k \<notin> set allowed_detail_keys \<or> v = DV_NONE then redacted_event_details kvs
      else (k, case v of DV_STR s \<Rightarrow> DV_STR (take 128 s) | _ \<Rightarrow> v) # redacted_event_details kvs)"

definition record_application_event ::
  "int \<Rightarrow> string \<Rightarrow> string \<Rightarrow> (string \<times> detail_value) list \<Rightarrow> database \<Rightarrow> database" where
  "record_application_event app ty actor details d =
     d\<lparr>db_events := db_events d @
        [\<lparr>ae_application_id = app, ae_event_type = take 64 ty,
          ae_actor = (if actor \<in> set allowed_actors then actor else ''system''),
          ae_details = sort_key fst (redacted_event_details details)\<rparr>]\<rparr>"

section \<open>Metric receipts\<close>

text \<open>\<open>record_operational_event\<close>: claim the receipt, and count the event only if it was new.\<close>

definition record_operational_event :: "metric_key \<Rightarrow> database \<Rightarrow> database" where
  "record_operational_event k d =
     (if k \<in> set (db_metrics d) then d else d\<lparr>db_metrics := db_metrics d @ [k]\<rparr>)"

definition record_attempt_stage ::
  "int \<Rightarrow> attempt_stage \<Rightarrow> transition_token \<Rightarrow> database \<Rightarrow> database" where
  "record_attempt_stage i s tk d = record_operational_event (MK_STAGE i s tk) d"

definition record_attempt_outcome :: "int \<Rightarrow> attempt \<Rightarrow> string \<Rightarrow> database \<Rightarrow> database" where
  "record_attempt_outcome i a kind d =
     record_operational_event (MK_OUTCOME i kind (at_outcome a) (at_reason_code a)) d"

definition record_retry :: "int \<Rightarrow> attempt \<Rightarrow> database \<Rightarrow> database" where
  "record_retry i a d =
     (if at_attempt_number a \<le> 1 then d else record_operational_event (MK_RETRY i) d)"

definition record_governor_denial :: "int \<Rightarrow> database \<Rightarrow> database" where
  "record_governor_denial i d = record_operational_event (MK_GOVERNOR_DENIAL i) d"

section \<open>Lemmas\<close>

text \<open>Nothing of this touches the rows that decide a submission.\<close>

lemmas log_defs =
  record_application_event_def record_operational_event_def record_attempt_stage_def
  record_attempt_outcome_def record_retry_def record_governor_denial_def

lemma record_event_reads [db_simps]:
  "db_attempts (record_application_event a b c e d) = db_attempts d"
  "db_permits (record_application_event a b c e d) = db_permits d"
  "db_commands (record_application_event a b c e d) = db_commands d"
  "db_applications (record_application_event a b c e d) = db_applications d"
  "db_evidence (record_application_event a b c e d) = db_evidence d"
  by (simp_all add: record_application_event_def)

lemma record_metric_reads [db_simps]:
  "db_attempts (record_operational_event k d) = db_attempts d"
  "db_permits (record_operational_event k d) = db_permits d"
  "db_commands (record_operational_event k d) = db_commands d"
  "db_applications (record_operational_event k d) = db_applications d"
  "db_evidence (record_operational_event k d) = db_evidence d"
  by (simp_all add: record_operational_event_def)

lemma record_attempt_reads [db_simps]:
  "db_attempts (record_attempt_stage i s tk d) = db_attempts d"
  "db_permits (record_attempt_stage i s tk d) = db_permits d"
  "db_commands (record_attempt_stage i s tk d) = db_commands d"
  "db_applications (record_attempt_stage i s tk d) = db_applications d"
  "db_evidence (record_attempt_stage i s tk d) = db_evidence d"
  "db_attempts (record_attempt_outcome i a k d) = db_attempts d"
  "db_permits (record_attempt_outcome i a k d) = db_permits d"
  "db_commands (record_attempt_outcome i a k d) = db_commands d"
  "db_applications (record_attempt_outcome i a k d) = db_applications d"
  "db_evidence (record_attempt_outcome i a k d) = db_evidence d"
  "db_attempts (record_retry i a d) = db_attempts d"
  "db_permits (record_retry i a d) = db_permits d"
  "db_commands (record_retry i a d) = db_commands d"
  "db_attempts (record_governor_denial i d) = db_attempts d"
  "db_permits (record_governor_denial i d) = db_permits d"
  "db_commands (record_governor_denial i d) = db_commands d"
  by (simp_all add: record_attempt_stage_def record_attempt_outcome_def record_retry_def
        record_governor_denial_def record_metric_reads)

lemma redacted_details_bounded:
  "(k, v) \<in> set (redacted_event_details kvs) \<Longrightarrow>
     k \<in> set allowed_detail_keys \<and> v \<noteq> DV_NONE \<and> (\<forall>s. v = DV_STR s \<longrightarrow> length s \<le> 128)"
  by (induction kvs rule: redacted_event_details.induct)
     (auto split: if_splits detail_value.splits)

lemma record_metric_idem:
  "record_operational_event k (record_operational_event k d) = record_operational_event k d"
  by (simp add: record_operational_event_def)

section \<open>Properties\<close>

text \<open>
  The audit trail is redacted by construction. Whatever details and actor a caller passes, the
  stored event has only allow-listed keys, no missing values, texts of at most 128 characters, an
  event type of at most 64 characters and an allow-listed actor, and the earlier trail is kept.
\<close>

theorem audit_event_redacted:
  "\<exists>e. db_events (record_application_event app ty actor details d) = db_events d @ [e]
     \<and> ae_application_id e = app \<and> length (ae_event_type e) \<le> 64 \<and> ae_actor e \<in> set allowed_actors
     \<and> list_all (\<lambda>(k, v). k \<in> set allowed_detail_keys \<and> v \<noteq> DV_NONE
                    \<and> (case v of DV_STR s \<Rightarrow> length s \<le> 128 | _ \<Rightarrow> True)) (ae_details e)"
  by (auto simp: record_application_event_def list_all_iff allowed_actors_def
           dest: redacted_details_bounded split: detail_value.splits)

end
