(* ===== verification/Submit_Permits.thy ===== *)
theory Submit_Permits
  imports Audit_Log
begin

text \<open>
  One-use final-submit permits of \<^verbatim>\<open>core/submit_permits.py\<close>: issue, validate against the attempt and
  the reviewed plan, consume. Permit rows are keyed by their attempt.
\<close>

section \<open>Issue\<close>

text \<open>
  The permit is returned with the bearer nonce; the row stores only the nonce's hash. \<open>sha\<close> is the
  hexadecimal SHA-256 digest and \<open>nonce\<close> what \<open>secrets.token_urlsafe\<close> returned. Times are naive UTC.
\<close>

definition permit_expiry :: "plan_row \<Rightarrow> int \<Rightarrow> instant \<Rightarrow> instant option \<Rightarrow> instant" where
  "permit_expiry p ttl now not_after =
     opt_min (min (pl_expires_at p) (now + seconds (max 1 ttl))) not_after"

definition or_text :: "string option \<Rightarrow> string \<Rightarrow> string" where
  "or_text x y = (if truthy x then or_empty x else y)"

definition new_permit ::
  "(string \<Rightarrow> string) \<Rightarrow> string \<Rightarrow> attempt \<Rightarrow> plan_row \<Rightarrow> string \<Rightarrow> instant \<Rightarrow> instant \<Rightarrow> permit_row" where
  "new_permit sha nonce a p url_hash now expires =
     \<lparr>pm_nonce_hash = sha nonce, pm_job_url_hash = url_hash,
      pm_application_revision = at_application_revision a,
      pm_adapter_name = or_text (at_adapter_name a) (at_submitter_name a),
      pm_adapter_version = or_empty (at_adapter_version a),
      pm_selector_version = or_empty (at_selector_version a),
      pm_form_plan_fingerprint = or_empty (at_form_plan_fingerprint a),
      pm_cv_hash = or_empty (at_attached_cv_hash a), pm_issued_at = now, pm_expires_at = expires,
      pm_consumed_at = None, pm_authority_kind = at_authority_kind a,
      pm_policy_decision_digest = at_policy_decision_digest a,
      pm_canary_authorization_digest = at_canary_authorization_digest a\<rparr>"

definition issue_final_submit_permit ::
  "(string \<Rightarrow> string) \<Rightarrow> string \<Rightarrow> int \<Rightarrow> attempt \<Rightarrow> plan_row \<Rightarrow> string \<Rightarrow> int \<Rightarrow> instant
     \<Rightarrow> instant option \<Rightarrow> database \<Rightarrow> fault + database" where
  "issue_final_submit_permit sha nonce i a p url_hash ttl now not_after d =
     (if \<not> pl_attachment_verified p \<or> \<not> truthy (pl_attached_cv_hash p)
      then Inl (PermitFault ''ATTACHMENT_UNVERIFIED'')
      else let expires = permit_expiry p ttl now not_after in
        if expires \<le> now then Inl (PermitFault ''SUBMIT_PERMIT_EXPIRED'')
        else if row (db_permits d) i \<noteq> None then Inl IntegrityError
        else Inr (set_permit i (new_permit sha nonce a p url_hash now expires) d))"

section \<open>Validate\<close>

text \<open>
  \<open>hmac.compare_digest\<close> on two texts raises \<open>TypeError\<close> when one is not ASCII. The revisions and the
  authority kinds are compared through their decimal and enumeration texts, which are injective.
\<close>

definition is_ascii :: "string \<Rightarrow> bool" where
  "is_ascii s = list_all (\<lambda>c. (of_char c :: nat) < 128) s"

definition compare_digest :: "string \<Rightarrow> string \<Rightarrow> fault + bool" where
  "compare_digest x y = (if is_ascii x \<and> is_ascii y then Inr (x = y) else Inl TypeFault)"

fun check_bindings :: "((fault + bool) \<times> string) list \<Rightarrow> fault + unit" where
  "check_bindings [] = Inr ()"
| "check_bindings ((Inl e, r) # bs) = Inl e"
| "check_bindings ((Inr b, r) # bs) = (if b then check_bindings bs else Inl (PermitFault r))"

definition permit_bindings ::
  "permit_row \<Rightarrow> attempt \<Rightarrow> plan_row \<Rightarrow> string \<Rightarrow> ((fault + bool) \<times> string) list" where
  "permit_bindings m a p url_hash =
     [(compare_digest (pm_job_url_hash m) url_hash, ''JOB_URL_CHANGED''),
      (Inr (pm_application_revision m = at_application_revision a), ''APPLICATION_REVISION_CHANGED''),
      (Inr (pm_application_revision m = pl_application_revision p), ''APPLICATION_REVISION_CHANGED''),
      (compare_digest (pm_adapter_name m) (or_empty (at_adapter_name a)), ''ADAPTER_VERSION_CHANGED''),
      (compare_digest (pm_adapter_name m) (pl_adapter_name p), ''ADAPTER_VERSION_CHANGED''),
      (compare_digest (pm_adapter_version m) (or_empty (at_adapter_version a)), ''ADAPTER_VERSION_CHANGED''),
      (compare_digest (pm_adapter_version m) (pl_adapter_version p), ''ADAPTER_VERSION_CHANGED''),
      (compare_digest (pm_selector_version m) (or_empty (at_selector_version a)), ''SELECTOR_DRIFT''),
      (compare_digest (pm_selector_version m) (pl_selector_version p), ''SELECTOR_DRIFT''),
      (compare_digest (pm_form_plan_fingerprint m) (or_empty (at_form_plan_fingerprint a)), ''FORM_CHANGED''),
      (compare_digest (pm_form_plan_fingerprint m) (pl_fingerprint p), ''FORM_CHANGED''),
      (compare_digest (pm_cv_hash m) (or_empty (at_attached_cv_hash a)), ''ATTACHMENT_CHANGED''),
      (compare_digest (pm_cv_hash m) (or_empty (pl_attached_cv_hash p)), ''ATTACHMENT_CHANGED''),
      (Inr (pm_authority_kind m = at_authority_kind a), ''SUBMISSION_AUTHORITY_CHANGED''),
      (compare_digest (or_empty (pm_policy_decision_digest m)) (or_empty (at_policy_decision_digest a)),
       ''AUTOMATION_POLICY_CHANGED''),
      (compare_digest (or_empty (pm_canary_authorization_digest m))
         (or_empty (at_canary_authorization_digest a)), ''CANARY_AUTHORIZATION_CHANGED'')]"

definition validate_final_submit_permit ::
  "(int \<times> permit_row) option \<Rightarrow> int \<Rightarrow> attempt \<Rightarrow> plan_row \<Rightarrow> string \<Rightarrow> instant \<Rightarrow> fault + unit" where
  "validate_final_submit_permit permit i a p url_hash now =
     (case permit of
        None \<Rightarrow> Inl (PermitFault ''SUBMIT_PERMIT_REQUIRED'')
      | Some (k, m) \<Rightarrow>
          (if k \<noteq> i then Inl (PermitFault ''SUBMIT_PERMIT_REQUIRED'')
           else if pm_consumed_at m \<noteq> None then Inl (PermitFault ''SUBMIT_PERMIT_REPLAYED'')
           else if pm_expires_at m \<le> now then Inl (PermitFault ''SUBMIT_PERMIT_EXPIRED'')
           else and_then (check_bindings (permit_bindings m a p url_hash)) (\<lambda>_.
             if \<not> at_attachment_verified a \<or> \<not> pl_attachment_verified p
             then Inl (PermitFault ''ATTACHMENT_UNVERIFIED'') else Inr ())))"

section \<open>Consume\<close>

definition consume_final_submit_permit :: "permit_row \<Rightarrow> instant \<Rightarrow> fault + permit_row" where
  "consume_final_submit_permit m now =
     (if pm_consumed_at m \<noteq> None then Inl (PermitFault ''SUBMIT_PERMIT_REPLAYED'')
      else Inr (m\<lparr>pm_consumed_at := Some now\<rparr>))"

definition permit_spent :: "permit_row \<Rightarrow> bool" where
  "permit_spent m \<longleftrightarrow> pm_consumed_at m \<noteq> None"

interpretation permit_use: one_use permit_spent consume_final_submit_permit
  by unfold_locales
     (auto simp: permit_spent_def consume_final_submit_permit_def split: if_splits)

section \<open>Lemmas\<close>

lemma check_bindings_ok_iff: "check_bindings bs = Inr () \<longleftrightarrow> (\<forall>(m, r) \<in> set bs. m = Inr True)"
  by (induction bs rule: check_bindings.induct) auto

lemma compare_digest_True [simp]: "compare_digest x y = Inr True \<longleftrightarrow> is_ascii x \<and> x = y"
  by (auto simp: compare_digest_def)

lemma sha256_ascii: "is_sha256 s \<Longrightarrow> is_ascii s"
proof -
  assume "is_sha256 s"
  moreover have "list_all (\<lambda>c. (of_char c :: nat) < 128) hex_digits" by code_simp
  ultimately show ?thesis by (auto simp: is_sha256_def is_ascii_def list_all_iff)
qed

lemma consume_ok:
  assumes "consume_final_submit_permit m now = Inr m'"
  shows "\<not> permit_spent m" "m' = m\<lparr>pm_consumed_at := Some now\<rparr>" "permit_spent m'"
  using assms by (auto simp: consume_final_submit_permit_def permit_spent_def split: if_splits)

lemma validate_permit_okD:
  assumes "validate_final_submit_permit permit i a p url_hash now = Inr ()"
  obtains m where "permit = Some (i, m)" and "\<not> permit_spent m" and "now < pm_expires_at m"
    and "check_bindings (permit_bindings m a p url_hash) = Inr ()"
    and "at_attachment_verified a" and "pl_attachment_verified p"
  using assms
  by (auto simp: validate_final_submit_permit_def permit_spent_def and_then_ok_iff
           split: option.splits if_splits prod.splits)

lemma permit_expiry_bounds:
  "permit_expiry p ttl now not_after \<le> pl_expires_at p"
  "permit_expiry p ttl now not_after \<le> now + seconds (max 1 ttl)"
  "not_after = Some t \<Longrightarrow> permit_expiry p ttl now not_after \<le> t"
proof -
  show "permit_expiry p ttl now not_after \<le> pl_expires_at p"
    "permit_expiry p ttl now not_after \<le> now + seconds (max 1 ttl)"
    using opt_min_le[of "min (pl_expires_at p) (now + seconds (max 1 ttl))" not_after]
    by (simp_all add: permit_expiry_def)
  show "permit_expiry p ttl now not_after \<le> t" if "not_after = Some t"
    using opt_min_le_bound[OF that] by (simp add: permit_expiry_def)
qed

lemma issue_okD:
  assumes "issue_final_submit_permit sha nonce i a p url_hash ttl now not_after d = Inr d'"
  shows "d' = set_permit i (new_permit sha nonce a p url_hash now (permit_expiry p ttl now not_after)) d"
    "now < permit_expiry p ttl now not_after" "row (db_permits d) i = None"
    "pl_attachment_verified p" "truthy (pl_attached_cv_hash p)"
  using assms by (auto simp: issue_final_submit_permit_def Let_def split: if_splits)

text \<open>An attempt that copies the reviewed identity of a plan, as admission creates it.\<close>

definition copies_plan :: "attempt \<Rightarrow> plan_row \<Rightarrow> bool" where
  "copies_plan a p \<longleftrightarrow>
     at_application_revision a = pl_application_revision p
     \<and> at_adapter_name a = Some (pl_adapter_name p) \<and> at_adapter_version a = Some (pl_adapter_version p)
     \<and> at_selector_version a = Some (pl_selector_version p)
     \<and> at_form_plan_fingerprint a = Some (pl_fingerprint p)
     \<and> at_attached_cv_hash a = pl_attached_cv_hash p
     \<and> at_attachment_verified a = pl_attachment_verified p \<and> at_submitter_name a = pl_adapter_name p"

definition ascii_identity :: "attempt \<Rightarrow> plan_row \<Rightarrow> string \<Rightarrow> bool" where
  "ascii_identity a p url_hash \<longleftrightarrow>
     list_all is_ascii
       [url_hash, pl_adapter_name p, pl_adapter_version p, pl_selector_version p, pl_fingerprint p,
        or_empty (pl_attached_cv_hash p), or_empty (at_policy_decision_digest a),
        or_empty (at_canary_authorization_digest a)]"

lemma or_text_same: "or_text (Some x) x = x"
  by (simp add: or_text_def)

lemma new_permit_binds:
  assumes "copies_plan a p" and "ascii_identity a p url_hash"
  shows "check_bindings (permit_bindings (new_permit sha nonce a p url_hash now ex) a p url_hash) = Inr ()"
  using assms
  by (simp add: check_bindings_ok_iff permit_bindings_def new_permit_def copies_plan_def
        ascii_identity_def or_text_same compare_digest_def)

section \<open>A concrete attempt\<close>

definition sample_plan_row :: plan_row where
  "sample_plan_row =
     \<lparr>pl_plan_id = ''12345678-1234-1234-1234-123456789abc'', pl_application_id = 7,
      pl_application_revision = 2, pl_adapter_name = ''greenhouse'', pl_adapter_version = ''1'',
      pl_selector_version = ''3'', pl_fingerprint = sample_hash, pl_selected_cv_id = ''cv1'',
      pl_selected_cv_hash = sample_hash, pl_attached_cv_id = Some ''cv1'',
      pl_attached_cv_hash = Some sample_hash, pl_attachment_verified = True,
      pl_profile_version = Some 1, pl_fields_json = Encoded (fp_fields sample_plan),
      pl_disclosures_json = Encoded [], pl_decisions_json = Encoded (fp_decisions sample_plan),
      pl_blockers_json = Encoded [], pl_locale = ''en-US'', pl_answer_policy_version = ''1'',
      pl_llm_prompt_version = None, pl_llm_model_provider = None, pl_llm_model_name = None,
      pl_llm_model_digest = None, pl_session_verified_at = Some 10, pl_created_at = 0,
      pl_expires_at = minutes 10, pl_invalidated_at = None, pl_invalidation_reason = None\<rparr>"

definition sample_attempt :: attempt where
  "sample_attempt =
     \<lparr>at_application_id = 7, at_attempt_number = 1, at_idempotency_key = ''k'',
      at_submitter_name = ''greenhouse'', at_status = SS_PENDING, at_stage = QUEUED, at_outcome = None,
      at_reason_code = None, at_confirmation_id = None, at_selected_cv_id = Some ''cv1'',
      at_profile_version = Some 1, at_started_at = None, at_finished_at = None,
      at_reconciled_at = None, at_submitted_at = None, at_application_revision = 2,
      at_adapter_name = Some ''greenhouse'', at_adapter_version = Some ''1'',
      at_selector_version = Some ''3'', at_form_plan_id = Some 3,
      at_form_plan_fingerprint = Some sample_hash, at_requested_cv_id = Some ''cv1'',
      at_requested_cv_hash = Some sample_hash, at_attached_cv_id = Some ''cv1'',
      at_attached_cv_hash = Some sample_hash, at_attachment_verified = True,
      at_final_action_at = None, at_verification_kind = None, at_evidence_digest = None,
      at_runner_release = Some ''r1'', at_authority_kind = AK_EXPLICIT_OPERATOR,
      at_policy_decision_id = None, at_policy_decision_digest = None,
      at_canary_authorization_id = None, at_canary_authorization_digest = None\<rparr>"

definition sample_issued :: permit_row where
  "sample_issued = new_permit py_lower ''nonce'' sample_attempt sample_plan_row sample_hash 20 (seconds 60)"

lemma sample_identity:
  "copies_plan sample_attempt sample_plan_row" "ascii_identity sample_attempt sample_plan_row sample_hash"
  by (simp_all add: copies_plan_def ascii_identity_def sample_attempt_def sample_plan_row_def
        sample_hash_def is_ascii_def list_all_iff)

section \<open>Properties\<close>

text \<open>
  a permit that validates for an attempt is that attempt's own, unspent, not expired, and every
  reviewed artefact is unchanged: the job URL, the application revision, adapter, adapter and selector
  versions, form fingerprint and CV agree between permit, attempt and plan, the authority and its
  decision digests agree with the attempt, and both sides have a verified attachment.
\<close>

theorem valid_permit_binds_everything:
  assumes "validate_final_submit_permit permit i a p url_hash now = Inr ()"
  shows "\<exists>m. permit = Some (i, m) \<and> pm_consumed_at m = None \<and> now < pm_expires_at m
     \<and> pm_job_url_hash m = url_hash
     \<and> pm_application_revision m = at_application_revision a
     \<and> pl_application_revision p = at_application_revision a
     \<and> pm_adapter_name m = or_empty (at_adapter_name a) \<and> pl_adapter_name p = or_empty (at_adapter_name a)
     \<and> pm_adapter_version m = or_empty (at_adapter_version a)
     \<and> pl_adapter_version p = or_empty (at_adapter_version a)
     \<and> pm_selector_version m = or_empty (at_selector_version a)
     \<and> pl_selector_version p = or_empty (at_selector_version a)
     \<and> pm_form_plan_fingerprint m = or_empty (at_form_plan_fingerprint a)
     \<and> pl_fingerprint p = or_empty (at_form_plan_fingerprint a)
     \<and> pm_cv_hash m = or_empty (at_attached_cv_hash a)
     \<and> or_empty (pl_attached_cv_hash p) = or_empty (at_attached_cv_hash a)
     \<and> pm_authority_kind m = at_authority_kind a
     \<and> or_empty (pm_policy_decision_digest m) = or_empty (at_policy_decision_digest a)
     \<and> or_empty (pm_canary_authorization_digest m) = or_empty (at_canary_authorization_digest a)
     \<and> at_attachment_verified a \<and> pl_attachment_verified p"
proof -
  from validate_permit_okD[OF assms] obtain m where m: "permit = Some (i, m)" "\<not> permit_spent m"
    "now < pm_expires_at m" "check_bindings (permit_bindings m a p url_hash) = Inr ()"
    "at_attachment_verified a" "pl_attachment_verified p" .
  note b = m(4)[unfolded check_bindings_ok_iff permit_bindings_def, simplified]
  show ?thesis using m(1-3,5,6) b by (intro exI[of _ m]) (auto simp: permit_spent_def)
qed

theorem valid_permit_binds_everything_witness:
  "pm_job_url_hash sample_issued = sample_hash \<and> pm_consumed_at sample_issued = None"
proof -
  have "validate_final_submit_permit (Some (5, sample_issued)) 5 sample_attempt sample_plan_row
     sample_hash 30 = Inr ()"
    using new_permit_binds[OF sample_identity]
    by (simp add: validate_final_submit_permit_def sample_issued_def)
       (simp add: new_permit_def sample_attempt_def sample_plan_row_def seconds_def)
  from valid_permit_binds_everything[OF this] show ?thesis by blast
qed

text \<open>
  C31: a permit is one-use. Presented for consumption at any sequence of times, it is accepted at most
  once, and once spent it never validates again, for whatever attempt, plan and time.
\<close>

theorem permit_accepted_once:
  "fst (one_use.present_all consume_final_submit_permit m ts) \<le> 1
   \<and> (\<forall>m' t. consume_final_submit_permit m t = Inr m' \<longrightarrow>
        (\<forall>k i a p h u. validate_final_submit_permit (Some (k, m')) i a p h u \<noteq> Inr ()))"
  by (intro conjI permit_use.accepted_at_most_once)
     (auto dest!: consume_ok(3) elim: validate_permit_okD)

theorem permit_accepted_once_witness:
  "validate_final_submit_permit (Some (5, sample_issued\<lparr>pm_consumed_at := Some 30\<rparr>)) 5 sample_attempt
     sample_plan_row sample_hash 40 \<noteq> Inr ()"
proof -
  have "consume_final_submit_permit sample_issued 30 = Inr (sample_issued\<lparr>pm_consumed_at := Some 30\<rparr>)"
    by (simp add: consume_final_submit_permit_def new_permit_def sample_issued_def)
  then show ?thesis using permit_accepted_once[of sample_issued] by blast
qed

text \<open>
  C37: issuing is usable and bounded. A permit issued for an attempt that copies its plan expires
  after now, no later than the plan, the requested lifetime and the authority's end; it stores the
  hash of the nonce, and it validates for that attempt and plan at every time before it expires.
\<close>

theorem issued_permit_validates:
  assumes "issue_final_submit_permit sha nonce i a p url_hash ttl now not_after d = Inr d'"
    and "copies_plan a p" and "ascii_identity a p url_hash"
  shows "\<exists>m. row (db_permits d') i = Some m \<and> now < pm_expires_at m
     \<and> pm_expires_at m \<le> pl_expires_at p \<and> pm_expires_at m \<le> now + seconds (max 1 ttl)
     \<and> (\<forall>t. not_after = Some t \<longrightarrow> pm_expires_at m \<le> t) \<and> pm_nonce_hash m = sha nonce
     \<and> (\<forall>t < pm_expires_at m. validate_final_submit_permit (Some (i, m)) i a p url_hash t = Inr ())"
proof -
  let ?m = "new_permit sha nonce a p url_hash now (permit_expiry p ttl now not_after)"
  note ok = issue_okD[OF assms(1)]
  have "row (db_permits d') i = Some ?m" using ok(1) by (simp add: db_simps)
  moreover have "validate_final_submit_permit (Some (i, ?m)) i a p url_hash t = Inr ()"
    if "t < pm_expires_at ?m" for t
    using that ok(4) assms(2) new_permit_binds[OF assms(2,3)]
    by (simp add: validate_final_submit_permit_def) (simp add: new_permit_def copies_plan_def)
  ultimately show ?thesis using ok(2) permit_expiry_bounds[where p = p and ttl = ttl and now = now and not_after = not_after]
    by (intro exI[of _ ?m]) (auto simp: new_permit_def)
qed


theorem issued_permit_validates_witness:
  "\<exists>m. pm_expires_at m \<le> minutes 10 \<and> pm_expires_at m > 20
     \<and> validate_final_submit_permit (Some (5, m)) 5 sample_attempt sample_plan_row sample_hash 20 = Inr ()"
proof -
  have ok: "\<exists>d'. issue_final_submit_permit py_lower ''nonce'' 5 sample_attempt sample_plan_row
     sample_hash 60 20 None empty_db = Inr d'"
    by (simp add: issue_final_submit_permit_def sample_plan_row_def truthy_iff sample_hash_def
          permit_expiry_def opt_min_def minutes_def seconds_def empty_db_def)
  then obtain d' where "issue_final_submit_permit py_lower ''nonce'' 5 sample_attempt
     sample_plan_row sample_hash 60 20 None empty_db = Inr d'" ..
  from issued_permit_validates[OF this sample_identity] obtain m
    where "20 < pm_expires_at m" "pm_expires_at m \<le> pl_expires_at sample_plan_row"
      "\<forall>t < pm_expires_at m. validate_final_submit_permit (Some (5, m)) 5 sample_attempt
         sample_plan_row sample_hash t = Inr ()" by blast
  then show ?thesis by (intro exI[of _ m]) (simp add: sample_plan_row_def)
qed

end
