(* ===== verification/Event_Outbox.thy ===== *)
theory Event_Outbox
  imports Submit_Permits "HOL-Library.Product_Lexorder"
begin

text \<open>
  The durable outbox of \<^verbatim>\<open>worker/control_plane_event_outbox.py\<close>: attempts that came from the hosted
  control plane mirror each transition as a numbered, redacted event; a runner claims due events,
  sends them and returns failed ones for redelivery.
\<close>

section \<open>Events\<close>

definition remote_reason_codes :: "string list" where
  "remote_reason_codes =
     map reason_value
       [R_RUNTIME_NOT_READY, R_BUILD_MISMATCH, R_ADAPTER_NOT_QUALIFIED, R_SESSION_EXPIRED,
        R_MFA_REQUIRED, R_CHALLENGE_DETECTED, R_FORM_CHANGED, R_FORM_PLAN_INCOMPLETE,
        R_REQUIRED_FIELD_UNKNOWN, R_ATTACHMENT_UNVERIFIED, R_FINAL_ACTION_UNCONFIRMED,
        R_ALREADY_APPLIED, R_JOB_CLOSED, R_SELECTOR_DRIFT, R_STALE_INDETERMINATE,
        R_DRY_RUN_DISCARDED, R_DRAFT_ONLY, R_PERMIT_MISSING, R_PERMIT_EXPIRED, R_PERMIT_REPLAYED,
        R_PERMIT_BINDING_MISMATCH, R_COMMAND_EXPIRED, R_COMMAND_REPLAYED, R_GOVERNOR_DENIED,
        R_OPERATOR_CANCELLED, R_EVIDENCE_INVALID, R_UNSUPPORTED_CONTROL, R_NETWORK_ERROR,
        R_INTERNAL_ERROR]"

fun evidence_type_map :: "evidence_type \<Rightarrow> remote_evidence_type" where
  "evidence_type_map EMPLOYER_APPLICATION_ID = RE_EMPLOYER_APPLICATION_ID"
| "evidence_type_map API_RECEIPT = RE_SCHEMA_VALID_RECEIPT"
| "evidence_type_map CANDIDATE_PORTAL_RECORD = RE_CANDIDATE_PORTAL_RECORD"
| "evidence_type_map VISIBLE_POST_CLICK_CONFIRMATION = RE_ATS_VISIBLE_CONFIRMATION"

definition ref_chars :: string where
  "ref_chars = ascii_letters @ ascii_digits @ ''_-''"

definition valid_ref :: "string \<Rightarrow> bool" where
  "valid_ref s \<longleftrightarrow> 16 \<le> length s \<and> length s \<le> 64 \<and> list_all (\<lambda>c. c \<in> set ref_chars) s"

text \<open>
  \<open>RedactedControlPlaneEvent.__post_init__\<close>. Stage, outcome and evidence type are enumerations here,
  so their membership tests hold. The serialised event stays far below the size limit, because
  every text in it is bounded by these checks.
\<close>

definition validate_event :: "outbox_event \<Rightarrow> fault + unit" where
  "validate_event e =
     (if \<not> valid_ref (ob_event_ref e) then Inl (EventFault ''EVENT_REF_INVALID'')
      else if \<not> valid_ref (ob_command_ref e) then Inl (EventFault ''EVENT_COMMAND_REF_INVALID'')
      else if \<not> (1 \<le> ob_sequence e \<and> ob_sequence e \<le> 2147483647) \<or> ob_cycle e < 0
      then Inl (EventFault ''EVENT_SEQUENCE_INVALID'')
      else if (case ob_evidence_digest e of None \<Rightarrow> False | Some g \<Rightarrow> \<not> is_sha256 g)
      then Inl (EventFault ''EVENT_EVIDENCE_DIGEST_INVALID'')
      else if (case ob_reason_code e of None \<Rightarrow> False | Some r \<Rightarrow> r \<notin> set remote_reason_codes)
      then Inl (EventFault ''EVENT_REASON_INVALID'')
      else if (ob_stage e = FINISHED) \<noteq> (ob_outcome e \<noteq> None)
      then Inl (EventFault ''EVENT_TERMINAL_STATE_INVALID'')
      else if (ob_evidence_type e = None) \<noteq> (ob_evidence_digest e = None)
      then Inl (EventFault ''EVENT_EVIDENCE_INCOMPLETE'')
      else if ob_outcome e = Some CONFIRMED_SUBMITTED \<and> ob_evidence_type e = None
      then Inl (EventFault ''EVENT_EVIDENCE_REQUIRED'')
      else if ob_outcome e \<notin> {None, Some CONFIRMED_SUBMITTED} \<and> ob_evidence_type e \<noteq> None
      then Inl (EventFault ''EVENT_EVIDENCE_NOT_ALLOWED'')
      else Inr ())"

text \<open>The wire form leaves out the cycle; digests of wire forms are compared through the forms.\<close>

definition same_wire :: "outbox_event \<Rightarrow> outbox_event \<Rightarrow> bool" where
  "same_wire e f \<longleftrightarrow> e\<lparr>ob_cycle := 0\<rparr> = f\<lparr>ob_cycle := 0\<rparr>"

definition pending_row :: "outbox_event \<Rightarrow> outbox_row" where
  "pending_row e =
     \<lparr>ox_event = e, ox_state = OS_PENDING, ox_available_at = ob_occurred_at e, ox_claimed_at = None,
      ox_claimed_by = None, ox_claim_token = None, ox_sent_at = None, ox_delivery_count = 0,
      ox_last_error_code = None\<rparr>"

definition enqueue_control_plane_event :: "outbox_event \<Rightarrow> database \<Rightarrow> fault + database" where
  "enqueue_control_plane_event e d =
     (case find (\<lambda>(k, r). ob_event_ref (ox_event r) = ob_event_ref e) (db_outbox d) of
        Some (k, r) \<Rightarrow>
          (if same_wire (ox_event r) e then Inr d else Inl (EventFault ''EVENT_ID_CONFLICT''))
      | None \<Rightarrow>
          Inr (d\<lparr>db_outbox := put_row (next_id (db_outbox d)) (pending_row e) (db_outbox d)\<rparr>))"

section \<open>Mirroring a transition\<close>

definition events_of :: "string \<Rightarrow> database \<Rightarrow> outbox_event list" where
  "events_of ref d = filter (\<lambda>e. ob_command_ref e = ref) (map (ox_event \<circ> snd) (db_outbox d))"

text \<open>The event with the highest sequence: \<open>order_by(sequence.desc()).first()\<close>.\<close>

definition later_event :: "outbox_event \<Rightarrow> outbox_event \<Rightarrow> outbox_event" where
  "later_event e f = (if ob_sequence f < ob_sequence e then e else f)"

definition last_event :: "string \<Rightarrow> database \<Rightarrow> outbox_event option" where
  "last_event ref d =
     (case events_of ref d of [] \<Rightarrow> None | e # es \<Rightarrow> Some (fold later_event es e))"

definition remote_reason :: "bool \<Rightarrow> attempt \<Rightarrow> string option" where
  "remote_reason use_reason a =
     (if use_reason \<and> at_outcome a \<noteq> Some CONFIRMED_SUBMITTED \<and> truthy (at_reason_code a)
      then (let r = or_empty (at_reason_code a)
            in Some (if r \<in> set remote_reason_codes then r else ''INTERNAL_ERROR''))
      else None)"

definition remote_evidence ::
  "attempt \<Rightarrow> fault + (remote_evidence_type option \<times> string option)" where
  "remote_evidence a =
     (if at_outcome a = Some CONFIRMED_SUBMITTED
      then (case at_verification_kind a of
              Some (VK_EVIDENCE k) \<Rightarrow>
                (if opt_sha256 (at_evidence_digest a)
                 then Inr (Some (evidence_type_map k), at_evidence_digest a)
                 else Inl (EventFault ''EVENT_EVIDENCE_REQUIRED''))
            | _ \<Rightarrow> Inl (EventFault ''EVENT_EVIDENCE_REQUIRED''))
      else Inr (None, None))"

definition next_sequence :: "outbox_event option \<Rightarrow> attempt \<Rightarrow> fault + (int \<times> int)" where
  "next_sequence prev a =
     (case prev of
        None \<Rightarrow>
          (if at_stage a \<noteq> QUEUED then Inl (EventFault ''EVENT_INITIAL_STAGE_INVALID'') else Inr (1, 0))
      | Some e \<Rightarrow>
          Inr (ob_sequence e + 1,
               ob_cycle e + (if at_stage a = QUEUED \<and> ob_stage e \<in> {INSPECTING, PREPARING, READY}
                             then 1 else 0)))"

definition same_transition ::
  "outbox_event \<Rightarrow> attempt \<Rightarrow> string option \<Rightarrow> remote_evidence_type option \<times> string option \<Rightarrow> bool" where
  "same_transition e a reason ev \<longleftrightarrow>
     ob_stage e = at_stage a \<and> ob_outcome e = at_outcome a \<and> ob_reason_code e = reason
     \<and> (ob_evidence_type e, ob_evidence_digest e) = ev"

text \<open>
  \<open>event_ref\<close> is \<open>transition_event_ref\<close>, the version 5 UUID of a command reference and a sequence.
\<close>

definition mirrored_event ::
  "(string \<Rightarrow> int \<Rightarrow> string) \<Rightarrow> string \<Rightarrow> attempt \<Rightarrow> string option
     \<Rightarrow> remote_evidence_type option \<times> string option \<Rightarrow> int \<times> int \<Rightarrow> instant \<Rightarrow> outbox_event" where
  "mirrored_event event_ref ref a reason ev sc t =
     \<lparr>ob_event_ref = event_ref ref (fst sc), ob_command_ref = ref, ob_sequence = fst sc,
      ob_cycle = snd sc, ob_stage = at_stage a, ob_outcome = at_outcome a, ob_reason_code = reason,
      ob_evidence_type = fst ev, ob_evidence_digest = snd ev, ob_occurred_at = t\<rparr>"

definition enqueue_control_plane_attempt_transition ::
  "(string \<Rightarrow> int \<Rightarrow> string) \<Rightarrow> attempt \<Rightarrow> command_row \<Rightarrow> instant \<Rightarrow> bool \<Rightarrow> database \<Rightarrow> fault + database"
  where
  "enqueue_control_plane_attempt_transition event_ref a c t use_reason d =
     (case map_of (db_receipts d) (cm_idempotency_key c) of
        None \<Rightarrow> Inr d
      | Some ref \<Rightarrow>
          (let reason = remote_reason use_reason a; prev = last_event ref d in
           and_then (remote_evidence a) (\<lambda>ev.
             if (case prev of None \<Rightarrow> False | Some e \<Rightarrow> same_transition e a reason ev) then Inr d
             else and_then (next_sequence prev a) (\<lambda>sc.
               let e = mirrored_event event_ref ref a reason ev sc t in
               and_then (validate_event e) (\<lambda>_. enqueue_control_plane_event e d)))))"

section \<open>Delivery\<close>

definition release_row :: "instant \<Rightarrow> outbox_row \<Rightarrow> outbox_row" where
  "release_row now r =
     r\<lparr>ox_state := OS_PENDING, ox_claimed_at := None, ox_claimed_by := None, ox_claim_token := None,
       ox_available_at := min (ox_available_at r) now,
       ox_last_error_code := Some ''CONTROL_PLANE_CLAIM_EXPIRED''\<rparr>"

definition stale_claim :: "instant \<Rightarrow> outbox_row \<Rightarrow> bool" where
  "stale_claim now r \<longleftrightarrow>
     ox_state r = OS_CLAIMED
     \<and> (case ox_claimed_at r of None \<Rightarrow> False | Some t \<Rightarrow> t \<le> now - seconds 30)"

definition stale_ids :: "instant \<Rightarrow> outbox_row table \<Rightarrow> int list" where
  "stale_ids now t =
     take 100 (map fst (sort_key (\<lambda>(i, r). (the (ox_claimed_at r), i))
        (filter (\<lambda>(i, r). stale_claim now r) t)))"

definition release_stale :: "instant \<Rightarrow> outbox_row table \<Rightarrow> outbox_row table" where
  "release_stale now t =
     (let ids = stale_ids now t
      in map (\<lambda>(i, r). (i, if i \<in> set ids then release_row now r else r)) t)"

definition due_rows :: "instant \<Rightarrow> outbox_row table \<Rightarrow> (int \<times> outbox_row) list" where
  "due_rows now t =
     sort_key (\<lambda>(i, r). (ox_available_at r, i))
       (filter (\<lambda>(i, r). ox_state r = OS_PENDING \<and> ox_available_at r \<le> now) t)"

text \<open>
  \<open>claim_control_plane_event\<close>. Without a due event the caller closes the session and nothing is kept.
\<close>

definition claim_control_plane_event ::
  "string \<Rightarrow> string \<Rightarrow> instant \<Rightarrow> database \<Rightarrow> database \<times> (int \<times> string) option" where
  "claim_control_plane_event runner token now d =
     (let t = release_stale now (db_outbox d) in
      case due_rows now t of
        [] \<Rightarrow> (d, None)
      | (i, r) # rs \<Rightarrow>
          (d\<lparr>db_outbox := put_row i
               (r\<lparr>ox_state := OS_CLAIMED, ox_claimed_at := Some now, ox_claimed_by := Some runner,
                  ox_claim_token := Some token, ox_delivery_count := ox_delivery_count r + 1\<rparr>) t\<rparr>,
           Some (i, token)))"

definition claimed_row :: "database \<Rightarrow> int \<Rightarrow> string \<Rightarrow> fault + outbox_row" where
  "claimed_row d i token =
     (case row (db_outbox d) i of
        None \<Rightarrow> Inl (EventFault ''EVENT_CLAIM_LOST'')
      | Some r \<Rightarrow>
          (if ox_state r = OS_CLAIMED \<and> ox_claim_token r = Some token then Inr r
           else Inl (EventFault ''EVENT_CLAIM_LOST'')))"

text \<open>\<open>deliver_claimed_control_plane_event\<close>; \<open>sent\<close> tells whether the sender returned normally.\<close>

definition deliver_claimed_control_plane_event ::
  "int \<Rightarrow> string \<Rightarrow> bool \<Rightarrow> instant \<Rightarrow> database \<Rightarrow> fault + database" where
  "deliver_claimed_control_plane_event i token sent now d =
     and_then (claimed_row d i token) (\<lambda>r.
       Inr (d\<lparr>db_outbox := put_row i
         (if sent
          then r\<lparr>ox_state := OS_SENT, ox_sent_at := Some now, ox_claimed_at := None,
                 ox_claimed_by := None, ox_claim_token := None, ox_last_error_code := None\<rparr>
          else r\<lparr>ox_state := OS_PENDING, ox_claimed_at := None, ox_claimed_by := None,
                 ox_claim_token := None, ox_available_at := now + seconds 10,
                 ox_last_error_code := Some ''CONTROL_PLANE_DELIVERY_FAILED''\<rparr>)
         (db_outbox d)\<rparr>))"

section \<open>Lemmas\<close>

lemma put_row_fresh: "row t i = None \<Longrightarrow> put_row i r t = t @ [(i, r)]"
  by (induction t) (auto simp: row_def put_row_def split: if_splits)

lemma enqueue_event_cases:
  assumes "enqueue_control_plane_event e d = Inr d'"
  obtains "d' = d"
  | "d' = d\<lparr>db_outbox := db_outbox d @ [(next_id (db_outbox d), pending_row e)]\<rparr>"
  using assms put_row_fresh[OF next_id_fresh, of "db_outbox d" "pending_row e"]
  by (auto simp: enqueue_control_plane_event_def split: option.splits if_splits prod.splits)

lemma enqueue_transition_cases:
  assumes "enqueue_control_plane_attempt_transition event_ref a c t use_reason d = Inr d'"
  obtains "d' = d"
  | ref ev sc e where "map_of (db_receipts d) (cm_idempotency_key c) = Some ref"
      "remote_evidence a = Inr ev" "next_sequence (last_event ref d) a = Inr sc"
      "e = mirrored_event event_ref ref a (remote_reason use_reason a) ev sc t"
      "validate_event e = Inr ()"
      "d' = d\<lparr>db_outbox := db_outbox d @ [(next_id (db_outbox d), pending_row e)]\<rparr>"
proof (cases "d' = d")
  case False
  with assms obtain ref ev sc where f: "map_of (db_receipts d) (cm_idempotency_key c) = Some ref"
    "remote_evidence a = Inr ev" "next_sequence (last_event ref d) a = Inr sc"
    and v: "validate_event (mirrored_event event_ref ref a (remote_reason use_reason a) ev sc t) = Inr ()"
    and q: "enqueue_control_plane_event
              (mirrored_event event_ref ref a (remote_reason use_reason a) ev sc t) d = Inr d'"
    by (auto simp: enqueue_control_plane_attempt_transition_def Let_def
             elim!: and_then_okE split: option.splits if_splits)
  from q False have "d' = d\<lparr>db_outbox := db_outbox d @
      [(next_id (db_outbox d), pending_row (mirrored_event event_ref ref a (remote_reason use_reason a) ev sc t))]\<rparr>"
    by (cases rule: enqueue_event_cases) auto
  with that(2)[OF f refl v] show thesis by blast
qed (use that in blast)

lemma enqueue_transition_reads [db_simps]:
  assumes "enqueue_control_plane_attempt_transition event_ref a c t use_reason d = Inr d'"
  shows "db_attempts d' = db_attempts d" "db_permits d' = db_permits d"
    "db_commands d' = db_commands d" "db_evidence d' = db_evidence d"
    "db_applications d' = db_applications d"
  using assms by (cases rule: enqueue_transition_cases; simp)+

text \<open>The numbering invariant: the events of each command are numbered 1, 2, 3 in order.\<close>

definition sequenced :: "database \<Rightarrow> bool" where
  "sequenced d \<longleftrightarrow>
     (\<forall>ref. map ob_sequence (events_of ref d) = map int [1 ..< Suc (length (events_of ref d))])"

lemma sorted_map_int: "sorted (map int [m ..< n])"
  by (simp add: sorted_map)

lemma fold_later_increasing:
  assumes "sorted (map ob_sequence (e # es))"
  shows "ob_sequence (fold later_event es e) = ob_sequence (last (e # es))"
  using assms
proof (induction es arbitrary: e)
  case (Cons f es)
  have "later_event f e = f \<or> ob_sequence e = ob_sequence f"
    using Cons.prems by (auto simp: later_event_def)
  moreover have "sorted (map ob_sequence (later_event f e # es))"
    using Cons.prems by (auto simp: later_event_def)
  ultimately show ?case using Cons.IH[of "later_event f e"]
    by (auto simp: later_event_def)
qed simp

lemma sequenced_last:
  assumes "sequenced d" and "events_of ref d \<noteq> []"
  shows "\<exists>e. last_event ref d = Some e \<and> ob_sequence e = int (length (events_of ref d))"
proof -
  obtain x xs where ev: "events_of ref d = x # xs" using assms(2) by (cases "events_of ref d") auto
  have seq: "map ob_sequence (x # xs) = map int [1 ..< Suc (length (x # xs))]"
    using assms(1) by (simp add: sequenced_def flip: ev)
  have "sorted (map ob_sequence (x # xs))" unfolding seq by (intro sorted_map_int)
  from fold_later_increasing[OF this] have
    "ob_sequence (fold later_event xs x) = last (map ob_sequence (x # xs))" by (simp add: last_map)
  also have "\<dots> = int (length (x # xs))" unfolding seq by (simp add: last_map)
  finally show ?thesis by (simp add: last_event_def ev)
qed

lemma events_of_append:
  "events_of ref (d\<lparr>db_outbox := db_outbox d @ [(i, pending_row e)]\<rparr>) =
     events_of ref d @ (if ob_command_ref e = ref then [e] else [])"
  by (simp add: events_of_def pending_row_def)

lemma next_sequence_sequenced:
  assumes "sequenced d" and "next_sequence (last_event ref d) a = Inr sc"
  shows "fst sc = int (length (events_of ref d)) + 1"
proof (cases "events_of ref d")
  case Nil
  then have "last_event ref d = None" by (simp add: last_event_def)
  with Nil assms(2) show ?thesis by (auto simp: next_sequence_def split: if_splits)
next
  case (Cons x xs)
  then obtain e where "last_event ref d = Some e" "ob_sequence e = int (length (events_of ref d))"
    using sequenced_last[OF assms(1), of ref] by auto
  with assms(2) show ?thesis by (auto simp: next_sequence_def)
qed

lemma enqueue_transition_sequenced:
  assumes "sequenced d"
    and "enqueue_control_plane_attempt_transition event_ref a c t use_reason d = Inr d'"
  shows "sequenced d'"
  using assms(2)
proof (cases rule: enqueue_transition_cases)
  case (2 ref ev sc e)
  have "fst sc = int (length (events_of ref d)) + 1" using next_sequence_sequenced[OF assms(1) 2(3)] .
  then show ?thesis using assms(1) 2(4) unfolding 2(6) sequenced_def
    by (auto simp: events_of_append mirrored_event_def)
qed (use assms(1) in simp)

text \<open>Claiming and delivery change delivery metadata only.\<close>

definition outbox_events :: "outbox_row table \<Rightarrow> (int \<times> outbox_event) list" where
  "outbox_events t = map (\<lambda>(i, r). (i, ox_event r)) t"

lemma put_row_same_event:
  "row t i = Some r0 \<Longrightarrow> ox_event r = ox_event r0 \<Longrightarrow> outbox_events (put_row i r t) = outbox_events t"
  by (induction t) (auto simp: row_def put_row_def outbox_events_def split: if_splits)

lemma release_stale_events: "outbox_events (release_stale now t) = outbox_events t"
  by (auto simp: release_stale_def outbox_events_def Let_def release_row_def)

lemma release_stale_keys: "map fst (release_stale now t) = map fst t"
  by (simp add: release_stale_def Let_def split_beta comp_def)

lemma release_stale_member:
  "(i, r) \<in> set (release_stale now t) \<Longrightarrow>
     \<exists>r0. (i, r0) \<in> set t \<and> (r = r0 \<or> r = release_row now r0 \<and> stale_claim now r0 \<or> i \<in> set (stale_ids now t))"
  by (auto simp: release_stale_def Let_def split: if_splits)

lemma stale_ids_claimed: "distinct (map fst t) \<Longrightarrow> i \<in> set (stale_ids now t) \<Longrightarrow> row t i = Some r \<Longrightarrow>
    stale_claim now r"
  by (fastforce simp: stale_ids_def dest!: in_set_takeD dest: set_row)

lemma release_stale_row:
  assumes "distinct (map fst t)"
  shows "row (release_stale now t) i =
    map_option (\<lambda>r. if i \<in> set (stale_ids now t) then release_row now r else r) (row t i)"
proof -
  have "map_of (map (\<lambda>(i, r). (i, f i r)) t) i = map_option (f i) (map_of t i)" for f
    by (induction t) auto
  then show ?thesis by (simp add: row_def release_stale_def Let_def)
qed

lemma due_rows_set: "set (due_rows now t) = {(i, r) \<in> set t. ox_state r = OS_PENDING \<and> ox_available_at r \<le> now}"
  by (auto simp: due_rows_def)

lemma claim_cases:
  assumes "claim_control_plane_event runner token now d = (d', res)" and "distinct (map fst (db_outbox d))"
  obtains "d' = d" "res = None" "due_rows now (release_stale now (db_outbox d)) = []"
  | i r where "res = Some (i, token)" "row (release_stale now (db_outbox d)) i = Some r"
      "ox_state r = OS_PENDING" "ox_available_at r \<le> now"
      "d' = d\<lparr>db_outbox := put_row i
               (r\<lparr>ox_state := OS_CLAIMED, ox_claimed_at := Some now, ox_claimed_by := Some runner,
                  ox_claim_token := Some token, ox_delivery_count := ox_delivery_count r + 1\<rparr>)
               (release_stale now (db_outbox d))\<rparr>"
proof (cases "due_rows now (release_stale now (db_outbox d))")
  case Nil
  with assms(1) show thesis by (intro that(1)) (auto simp: claim_control_plane_event_def)
next
  case (Cons x xs)
  obtain i r where x: "x = (i, r)" by force
  from Cons x due_rows_set[of now "release_stale now (db_outbox d)"]
  have m: "(i, r) \<in> set (release_stale now (db_outbox d))" "ox_state r = OS_PENDING" "ox_available_at r \<le> now"
    by auto
  from assms(2) have "distinct (map fst (release_stale now (db_outbox d)))"
    by (simp add: release_stale_keys)
  from set_row[OF this m(1)] m Cons x assms(1) show thesis
    by (intro that(2)[of i r]) (auto simp: claim_control_plane_event_def)
qed

definition sent :: "database \<Rightarrow> int \<Rightarrow> bool" where
  "sent d i \<longleftrightarrow> (case row (db_outbox d) i of None \<Rightarrow> False | Some r \<Rightarrow> ox_state r = OS_SENT)"

lemma sent_iff: "sent d i \<longleftrightarrow> (\<exists>r. row (db_outbox d) i = Some r \<and> ox_state r = OS_SENT)"
  by (simp add: sent_def split: option.splits)

lemma claim_keeps:
  assumes "claim_control_plane_event runner token now d = (d', res)" and "distinct (map fst (db_outbox d))"
  shows "outbox_events (db_outbox d') = outbox_events (db_outbox d)" "sent d j \<Longrightarrow> sent d' j"
proof -
  have st: "\<exists>r. row (release_stale now (db_outbox d)) j = Some r \<and> ox_state r = OS_SENT" if "sent d j"
  proof -
    from that obtain r where r: "row (db_outbox d) j = Some r" "ox_state r = OS_SENT"
      by (auto simp: sent_iff)
    then have "j \<notin> set (stale_ids now (db_outbox d))"
      using stale_ids_claimed[OF assms(2) _ r(1)] by (auto simp: stale_claim_def)
    with r show ?thesis by (simp add: release_stale_row[OF assms(2)])
  qed
  from assms show "outbox_events (db_outbox d') = outbox_events (db_outbox d)"
    by (cases rule: claim_cases) (simp_all add: put_row_same_event release_stale_events)
  from assms show "sent d j \<Longrightarrow> sent d' j"
    by (cases rule: claim_cases) (use st in \<open>auto simp: sent_iff db_simps\<close>)
qed

lemma deliver_keeps:
  assumes "deliver_claimed_control_plane_event i token ok now d = Inr d'"
  shows "outbox_events (db_outbox d') = outbox_events (db_outbox d)" "sent d j \<Longrightarrow> sent d' j"
    "ok \<Longrightarrow> sent d' i"
proof -
  from assms obtain r where r: "row (db_outbox d) i = Some r" "ox_state r = OS_CLAIMED"
    by (auto simp: deliver_claimed_control_plane_event_def claimed_row_def
             elim!: and_then_okE split: option.splits if_splits)
  with assms show "outbox_events (db_outbox d') = outbox_events (db_outbox d)"
    "sent d j \<Longrightarrow> sent d' j" "ok \<Longrightarrow> sent d' i"
    by (auto simp: deliver_claimed_control_plane_event_def claimed_row_def sent_iff db_simps
             intro!: put_row_same_event elim!: and_then_okE split: option.splits if_splits)
qed

section \<open>Properties\<close>

text \<open>
  C39: the outbox numbers the transitions of a remote command without gaps. If the events of every
  command are numbered 1, 2, 3 and so on, then mirroring a transition keeps this, keeps every
  earlier event, and adds at most one event: for the command of the attempt, with the next number,
  in the attempt's stage and outcome, with employer evidence exactly when the submission is confirmed.
\<close>

theorem mirrored_events_are_contiguous:
  assumes "sequenced d" and "enqueue_control_plane_attempt_transition event_ref a c t use_reason d = Inr d'"
  shows "sequenced d'
    \<and> ((\<forall>ref. events_of ref d' = events_of ref d)
       \<or> (\<exists>ref e. map_of (db_receipts d) (cm_idempotency_key c) = Some ref
            \<and> (\<forall>ref'. events_of ref' d' = events_of ref' d @ (if ref' = ref then [e] else []))
            \<and> ob_sequence e = int (length (events_of ref d)) + 1
            \<and> ob_stage e = at_stage a \<and> ob_outcome e = at_outcome a
            \<and> (ob_evidence_digest e \<noteq> None \<longleftrightarrow> at_outcome a = Some CONFIRMED_SUBMITTED)))"
proof (intro conjI)
  show "sequenced d'" using enqueue_transition_sequenced[OF assms] .
  show "(\<forall>ref. events_of ref d' = events_of ref d)
       \<or> (\<exists>ref e. map_of (db_receipts d) (cm_idempotency_key c) = Some ref
            \<and> (\<forall>ref'. events_of ref' d' = events_of ref' d @ (if ref' = ref then [e] else []))
            \<and> ob_sequence e = int (length (events_of ref d)) + 1
            \<and> ob_stage e = at_stage a \<and> ob_outcome e = at_outcome a
            \<and> (ob_evidence_digest e \<noteq> None \<longleftrightarrow> at_outcome a = Some CONFIRMED_SUBMITTED))"
    using assms(2)
  proof (cases rule: enqueue_transition_cases)
    case (2 ref ev sc e)
    have "fst sc = int (length (events_of ref d)) + 1"
      using next_sequence_sequenced[OF assms(1) 2(3)] .
    moreover have "snd ev \<noteq> None \<longleftrightarrow> at_outcome a = Some CONFIRMED_SUBMITTED"
      using 2(2) by (auto simp: remote_evidence_def opt_sha256_def
          split: if_splits option.splits verification_kind.splits)
    ultimately show ?thesis using 2(1,4) unfolding 2(6)
      by (intro disjI2 exI[of _ ref] exI[of _ e]) (auto simp: events_of_append mirrored_event_def)
  qed simp
qed

definition sample_command :: command_row where
  "sample_command =
     \<lparr>cm_attempt_id = 5, cm_idempotency_key = ''k'', cm_state = CS_PENDING, cm_available_at = 20,
      cm_claimed_at = None, cm_completed_at = None, cm_claimed_by = None, cm_claim_token = None,
      cm_last_error_code = None\<rparr>"

definition sample_ref :: string where
  "sample_ref = ''12345678-1234-1234''"

theorem mirrored_events_are_contiguous_witness:
  "\<exists>d'. enqueue_control_plane_attempt_transition (\<lambda>r n. r) sample_attempt sample_command 20 True
     (empty_db\<lparr>db_receipts := [(''k'', sample_ref)]\<rparr>) = Inr d' \<and> sequenced d'
     \<and> length (events_of sample_ref d') = 1"
proof -
  let ?d = "empty_db\<lparr>db_receipts := [(''k'', sample_ref)]\<rparr>"
  have seq: "sequenced ?d" by (simp add: sequenced_def events_of_def empty_db_def)
  let ?e = "mirrored_event (\<lambda>r n. r) sample_ref sample_attempt None (None, None) (1, 0) 20"
  have v: "validate_event ?e = Inr ()" by code_simp
  have "remote_reason True sample_attempt = None" "remote_evidence sample_attempt = Inr (None, None)"
    "next_sequence None sample_attempt = Inr (1, 0)"
    by (simp_all add: remote_reason_def remote_evidence_def next_sequence_def sample_attempt_def truthy_def)
  then have q: "enqueue_control_plane_attempt_transition (\<lambda>r n. r) sample_attempt sample_command 20
      True ?d = Inr (?d\<lparr>db_outbox := [(1, pending_row ?e)]\<rparr>)"
    using v by (simp add: enqueue_control_plane_attempt_transition_def sample_command_def empty_db_def
      last_event_def events_of_def enqueue_control_plane_event_def put_row_def next_id_def)
  have l: "length (events_of sample_ref (?d\<lparr>db_outbox := [(1, pending_row ?e)]\<rparr>)) = 1"
    by (simp add: events_of_def pending_row_def mirrored_event_def)
  from mirrored_events_are_contiguous[OF seq q] q l show ?thesis by blast
qed

text \<open>
  Delivery loses nothing. Claiming and delivering never change, drop, add or reorder events
  and never take back a sent one; a successful delivery marks its event as sent; and as long as a
  due event is pending the next claim returns one, claimed under the caller's token.
\<close>

theorem outbox_delivery_keeps_events:
  assumes "distinct (map fst (db_outbox d))"
  shows "(\<forall>runner token now d' res. claim_control_plane_event runner token now d = (d', res) \<longrightarrow>
            outbox_events (db_outbox d') = outbox_events (db_outbox d)
            \<and> (\<forall>j. sent d j \<longrightarrow> sent d' j)
            \<and> (list_ex (\<lambda>(i, r). ox_state r = OS_PENDING \<and> ox_available_at r \<le> now) (db_outbox d) \<longrightarrow>
                 (\<exists>i r. res = Some (i, token) \<and> row (db_outbox d') i = Some r
                    \<and> ox_state r = OS_CLAIMED \<and> ox_claim_token r = Some token)))
      \<and> (\<forall>i token ok now d'. deliver_claimed_control_plane_event i token ok now d = Inr d' \<longrightarrow>
            outbox_events (db_outbox d') = outbox_events (db_outbox d)
            \<and> (\<forall>j. sent d j \<longrightarrow> sent d' j) \<and> (ok \<longrightarrow> sent d' i))"
proof (intro conjI allI impI)
  fix runner token now d' res assume c: "claim_control_plane_event runner token now d = (d', res)"
  show "outbox_events (db_outbox d') = outbox_events (db_outbox d)" using claim_keeps(1)[OF c assms] .
  show "sent d' j" if "sent d j" for j using claim_keeps(2)[OF c assms that] .
  assume "list_ex (\<lambda>(i, r). ox_state r = OS_PENDING \<and> ox_available_at r \<le> now) (db_outbox d)"
  then obtain i r where ir: "(i, r) \<in> set (db_outbox d)" "ox_state r = OS_PENDING" "ox_available_at r \<le> now"
    by (auto simp: list_ex_iff)
  have "i \<notin> set (stale_ids now (db_outbox d))"
    using stale_ids_claimed[OF assms _ set_row[OF assms ir(1)]] ir(2) by (auto simp: stale_claim_def)
  then have "(i, r) \<in> set (release_stale now (db_outbox d))"
    using ir(1) by (force simp: release_stale_def Let_def)
  with ir have ne: "due_rows now (release_stale now (db_outbox d)) \<noteq> []"
    by (auto simp: due_rows_set simp flip: set_empty)
  from c assms show "\<exists>i r. res = Some (i, token) \<and> row (db_outbox d') i = Some r
      \<and> ox_state r = OS_CLAIMED \<and> ox_claim_token r = Some token"
  proof (cases rule: claim_cases)
    case 1
    with ne show ?thesis by simp
  next
    case (2 i r)
    then show ?thesis by (simp add: db_simps)
  qed
next
  fix i token ok now d' assume v: "deliver_claimed_control_plane_event i token ok now d = Inr d'"
  show "outbox_events (db_outbox d') = outbox_events (db_outbox d)" using deliver_keeps(1)[OF v] .
  show "sent d' j" if "sent d j" for j using deliver_keeps(2)[OF v that] .
  show "sent d' i" if ok using deliver_keeps(3)[OF v that] .
qed

definition sample_outbox :: database where
  "sample_outbox = empty_db\<lparr>db_outbox := [(1, pending_row (mirrored_event (\<lambda>r n. r) sample_ref
     sample_attempt None (None, None) (1, 0) 20))]\<rparr>"

theorem outbox_delivery_keeps_events_witness:
  "\<exists>i. snd (claim_control_plane_event ''r'' ''t'' 25 sample_outbox) = Some (i, ''t'')"
proof -
  have "list_ex (\<lambda>(i, r). ox_state r = OS_PENDING \<and> ox_available_at r \<le> 25) (db_outbox sample_outbox)"
    by (simp add: sample_outbox_def pending_row_def mirrored_event_def)
  moreover have "distinct (map fst (db_outbox sample_outbox))" by (simp add: sample_outbox_def)
  ultimately show ?thesis
    using outbox_delivery_keeps_events[of sample_outbox, THEN conjunct1, rule_format,
        OF _ prod.collapse[symmetric]] by blast
qed

end
