(* ===== verification/Application_Mutations.thy ===== *)
theory Application_Mutations
  imports Event_Outbox
begin

text \<open>
  Application revisions and the fail-closed mutation protocol: \<^verbatim>\<open>core/application_revision.py\<close>,
  \<^verbatim>\<open>core/application_state.py\<close> and \<^verbatim>\<open>core/application_mutations.py\<close>. A writer locks the application,
  inspects every attempt, and only then changes content, preparation or lifecycle status.
\<close>

section \<open>Revisions and preparation\<close>

definition application_revision :: "application \<Rightarrow> int" where
  "application_revision a = max 1 (if ap_revision a = 0 then 1 else ap_revision a)"

definition preparation_is_current :: "application \<Rightarrow> bool" where
  "preparation_is_current a \<longleftrightarrow>
     ap_approved_at a \<noteq> None \<and> ap_prepared_revision a \<noteq> None
     \<and> ap_prepared_revision a = Some (application_revision a)"

definition invalidate_form_plans :: "int \<Rightarrow> string \<Rightarrow> instant \<Rightarrow> database \<Rightarrow> database" where
  "invalidate_form_plans app reason now d =
     d\<lparr>db_plans :=
         map (\<lambda>(i, p). (i, if pl_application_id p = app \<and> pl_invalidated_at p = None
                           then p\<lparr>pl_invalidated_at := Some now,
                                  pl_invalidation_reason := Some (take 64 reason)\<rparr>
                           else p)) (db_plans d)\<rparr>"

definition bumped :: "application \<Rightarrow> application" where
  "bumped a =
     a\<lparr>ap_revision := application_revision a + 1, ap_prepared_revision := None,
       ap_approved_at := None, ap_approval_source := None, ap_job_fit_decision_id := None\<rparr>"

definition bump_application_revision ::
  "int \<Rightarrow> application \<Rightarrow> string \<Rightarrow> instant \<Rightarrow> database \<Rightarrow> database" where
  "bump_application_revision app a reason now d =
     invalidate_form_plans app reason now (set_application app (bumped a) d)"

definition mark_application_prepared :: "application \<Rightarrow> application" where
  "mark_application_prepared a =
     a\<lparr>ap_revision := application_revision a, ap_prepared_revision := Some (application_revision a)\<rparr>"

fun job_status_value :: "job_status \<Rightarrow> string" where
  "job_status_value JS_EXTRACTED = ''extracted''"
| "job_status_value JS_SCORED = ''scored''"
| "job_status_value JS_SKIPPED = ''skipped''"
| "job_status_value JS_DRAFT = ''draft''"
| "job_status_value JS_APPROVED = ''approved''"
| "job_status_value JS_SUBMITTED = ''submitted''"
| "job_status_value JS_FAILED = ''failed''"
| "job_status_value JS_NEEDS_REVIEW = ''needs_review''"

definition application_semantic_status :: "application \<Rightarrow> string" where
  "application_semantic_status a =
     (if ap_status a \<in> {JS_APPROVED, JS_DRAFT} \<and> ap_approved_at a \<noteq> None
         \<and> ap_prepared_revision a = Some (ap_revision a)
      then ''prepared'' else job_status_value (ap_status a))"

definition reviewable_applications :: "database \<Rightarrow> (int \<times> application) list" where
  "reviewable_applications d =
     filter (\<lambda>(i, a). ap_status a = JS_DRAFT
        \<and> (ap_approved_at a = None \<or> ap_prepared_revision a = None
           \<or> ap_prepared_revision a \<noteq> Some (ap_revision a))) (db_applications d)"

definition prepared_applications :: "database \<Rightarrow> (int \<times> application) list" where
  "prepared_applications d =
     filter (\<lambda>(i, a). ap_status a \<in> {JS_APPROVED, JS_DRAFT} \<and> ap_approved_at a \<noteq> None
        \<and> ap_prepared_revision a \<noteq> None \<and> ap_prepared_revision a = Some (ap_revision a))
       (db_applications d)"

section \<open>Locking\<close>

datatype mutation_intent = MI_CONTENT | MI_PREPARE | MI_TERMINAL

datatype lock_point = LP_IMMUTABLE | LP_ATTEMPT | LP_COMMAND | LP_PERMIT | LP_APPLICATION

record locked_mutation =
  lm_application_id :: int
  lm_job_id :: "int option"
  lm_attempt_id :: "int option"
  lm_command_id :: "int option"
  lm_permit_id :: "int option"
  lm_intent :: mutation_intent

definition immutable_outcomes :: "attempt_outcome list" where
  "immutable_outcomes =
     [CONFIRMED_SUBMITTED, ALREADY_APPLIED, UNKNOWN, OPERATOR_CONFIRMED, LEGACY_UNVERIFIED]"

definition immutable_attempt :: "attempt \<Rightarrow> bool" where
  "immutable_attempt a \<longleftrightarrow>
     (case at_outcome a of None \<Rightarrow> False | Some k \<Rightarrow> k \<in> set immutable_outcomes)
     \<or> at_status a \<in> {SS_SUCCESS, SS_UNKNOWN}"

definition attempts_of :: "int \<Rightarrow> database \<Rightarrow> (int \<times> attempt) list" where
  "attempts_of app d = filter (\<lambda>(i, a). at_application_id a = app) (db_attempts d)"

text \<open>\<open>order_by(attempt_number.desc(), id.desc()).first()\<close>.\<close>

definition first_by_number :: "(int \<times> attempt) list \<Rightarrow> (int \<times> attempt) option" where
  "first_by_number xs =
     (case sort_key (\<lambda>(i, a). (- at_attempt_number a, - i)) xs of [] \<Rightarrow> None | x # ys \<Rightarrow> Some x)"

definition latest_attempt :: "int \<Rightarrow> database \<Rightarrow> (int \<times> attempt) option" where
  "latest_attempt app d = first_by_number (attempts_of app d)"

text \<open>
  \<open>_lock_related_row\<close>: a row that another transaction holds makes the \<open>NOWAIT\<close> lock fail. \<open>busy\<close>
  says at which lock that happens.
\<close>

definition lock_related_row :: "(lock_point \<Rightarrow> bool) \<Rightarrow> lock_point \<Rightarrow> 'a option \<Rightarrow> fault + 'a option" where
  "lock_related_row busy k x =
     (if x \<noteq> None \<and> busy k then Inl (MutationFault ''SUBMISSION_LIFECYCLE_BUSY'') else Inr x)"

definition command_of :: "int \<Rightarrow> database \<Rightarrow> (int \<times> command_row) option" where
  "command_of i d = find (\<lambda>(k, c). cm_attempt_id c = i) (db_commands d)"

definition permit_used :: "int \<Rightarrow> database \<Rightarrow> bool" where
  "permit_used i d = (case row (db_permits d) i of None \<Rightarrow> False | Some m \<Rightarrow> permit_spent m)"

text \<open>The checks on the latest attempt, when it is not finished.\<close>

definition check_active_attempt ::
  "mutation_intent \<Rightarrow> int \<Rightarrow> attempt \<Rightarrow> (int \<times> command_row) option \<Rightarrow> database \<Rightarrow> fault + unit" where
  "check_active_attempt intent i a cmd d =
     (if at_stage a = FINISHED then Inr ()
      else if crossed (at_stage a) \<or> at_final_action_at a \<noteq> None \<or> permit_used i d
      then Inl (MutationFault ''FINAL_ACTION_INDETERMINATE'')
      else if \<not> precommit (at_stage a) then Inl (MutationFault ''SUBMISSION_STATE_INVALID'')
      else if (case cmd of None \<Rightarrow> False
               | Some (k, c) \<Rightarrow> cm_state c \<in> {CS_COMPLETED, CS_CANCELLED})
      then Inl (MutationFault ''SUBMISSION_STATE_INVALID'')
      else if intent \<noteq> MI_TERMINAL then Inl (MutationFault ''SUBMISSION_ALREADY_ACTIVE'')
      else Inr ())"

definition immutable_reason :: "attempt \<Rightarrow> string" where
  "immutable_reason a =
     (if at_outcome a = Some UNKNOWN \<or> at_status a = SS_UNKNOWN
      then ''SUBMISSION_OUTCOME_UNKNOWN'' else ''SUBMISSION_OUTCOME_IMMUTABLE'')"

definition job_in :: "database \<Rightarrow> application \<Rightarrow> (int \<times> job) option" where
  "job_in d a = map_option (Pair (ap_job_id a)) (row (db_jobs d) (ap_job_id a))"

definition job_has_status :: "job_status \<Rightarrow> (int \<times> job) option \<Rightarrow> bool" where
  "job_has_status s j = (case j of None \<Rightarrow> False | Some (k, r) \<Rightarrow> jb_status r = s)"

text \<open>
  \<open>lock_application_for_mutation\<close> for an application found by its id or by its job: first the related
  rows are locked, app first, then the status and the latest attempt are inspected.
\<close>

definition refuse_immutable :: "(int \<times> attempt) option \<Rightarrow> fault + unit" where
  "refuse_immutable im =
     (case im of None \<Rightarrow> Inr () | Some (k, x) \<Rightarrow> Inl (MutationFault (immutable_reason x)))"

definition active_attempt :: "(int \<times> attempt) option \<Rightarrow> int option" where
  "active_attempt latest =
     (case latest of None \<Rightarrow> None | Some (i, x) \<Rightarrow> if unfinished x then Some i else None)"

definition lock_related_rows ::
  "(lock_point \<Rightarrow> bool) \<Rightarrow> int \<Rightarrow> database
     \<Rightarrow> fault + (int \<times> attempt) option \<times> (int \<times> command_row) option \<times> (int \<times> permit_row) option" where
  "lock_related_rows busy app d =
     and_then (lock_related_row busy LP_IMMUTABLE
                 (first_by_number (filter (immutable_attempt \<circ> snd) (attempts_of app d)))) (\<lambda>im.
     and_then (refuse_immutable im) (\<lambda>_.
     and_then (lock_related_row busy LP_ATTEMPT (latest_attempt app d)) (\<lambda>latest.
     and_then (lock_related_row busy LP_COMMAND
                 (Option.bind (active_attempt latest) (\<lambda>i. command_of i d))) (\<lambda>cmd.
     and_then (lock_related_row busy LP_PERMIT
                 (Option.bind (active_attempt latest)
                    (\<lambda>i. map_option (Pair i) (row (db_permits d) i)))) (\<lambda>perm.
       Inr (latest, cmd, perm))))))"

definition check_terminal_status ::
  "mutation_intent \<Rightarrow> application \<Rightarrow> (int \<times> job) option \<Rightarrow> fault + unit" where
  "check_terminal_status intent a job =
     (if ap_status a = JS_SUBMITTED \<or> job_has_status JS_SUBMITTED job
      then Inl (MutationFault ''APPLICATION_TERMINAL'')
      else if intent \<noteq> MI_TERMINAL \<and> (ap_status a = JS_SKIPPED \<or> job_has_status JS_SKIPPED job)
      then Inl (MutationFault ''APPLICATION_TERMINAL'')
      else Inr ())"

definition check_latest_attempt ::
  "mutation_intent \<Rightarrow> (int \<times> attempt) option \<Rightarrow> (int \<times> command_row) option \<Rightarrow> database \<Rightarrow> fault + unit"
  where
  "check_latest_attempt intent latest cmd d =
     (case latest of None \<Rightarrow> Inr () | Some (i, x) \<Rightarrow> check_active_attempt intent i x cmd d)"

definition revision_expected :: "int option \<Rightarrow> application \<Rightarrow> bool" where
  "revision_expected expected a =
     (case expected of None \<Rightarrow> True
      | Some r \<Rightarrow> (if ap_revision a = 0 then 1 else ap_revision a) = r)"

definition lock_application_for_mutation ::
  "(lock_point \<Rightarrow> bool) \<Rightarrow> int \<Rightarrow> mutation_intent \<Rightarrow> int option \<Rightarrow> database
     \<Rightarrow> fault + locked_mutation" where
  "lock_application_for_mutation busy app intent expected d =
     and_then (lift_opt (MutationFault ''APPLICATION_NOT_FOUND'') (row (db_applications d) app)) (\<lambda>a.
     and_then (ensure (revision_expected expected a) (MutationFault ''APPLICATION_REVISION_CHANGED'')) (\<lambda>_.
     and_then (lock_related_rows busy app d) (\<lambda>(latest, cmd, perm).
     and_then (check_terminal_status intent a (job_in d a)) (\<lambda>_.
     and_then (check_latest_attempt intent latest cmd d) (\<lambda>_.
       Inr \<lparr>lm_application_id = app, lm_job_id = map_option fst (job_in d a),
            lm_attempt_id = map_option fst latest, lm_command_id = map_option fst cmd,
            lm_permit_id = map_option fst perm, lm_intent = intent\<rparr>)))))"

definition application_of_job :: "int \<Rightarrow> database \<Rightarrow> (int \<times> application) option" where
  "application_of_job j d = find (\<lambda>(i, a). ap_job_id a = j) (db_applications d)"

text \<open>
  \<open>lock_job_without_application_for_mutation\<close>. In one serial transaction the second look for an
  application finds what the first one found.
\<close>

definition lock_job_without_application_for_mutation ::
  "(lock_point \<Rightarrow> bool) \<Rightarrow> int \<Rightarrow> mutation_intent \<Rightarrow> database \<Rightarrow> fault + job" where
  "lock_job_without_application_for_mutation busy j intent d =
     (case application_of_job j d of
        Some (i, a) \<Rightarrow>
          and_then (lock_application_for_mutation busy i MI_CONTENT None d) (\<lambda>_.
            Inl (MutationFault ''APPLICATION_CREATED_DURING_MUTATION''))
      | None \<Rightarrow>
          and_then (lift_opt (MutationFault ''JOB_NOT_FOUND'') (row (db_jobs d) j)) (\<lambda>r.
            if jb_status r = JS_SUBMITTED \<or> (intent \<noteq> MI_TERMINAL \<and> jb_status r = JS_SKIPPED)
            then Inl (MutationFault ''JOB_TERMINAL'') else Inr r))"

section \<open>Prepare and skip\<close>

definition set_job_opt :: "(job \<Rightarrow> job) \<Rightarrow> int option \<Rightarrow> database \<Rightarrow> database" where
  "set_job_opt f j d =
     (case j of None \<Rightarrow> d
      | Some k \<Rightarrow> (case row (db_jobs d) k of None \<Rightarrow> d | Some r \<Rightarrow> set_job k (f r) d))"

definition mark_locked_application_prepared ::
  "locked_mutation \<Rightarrow> string \<Rightarrow> string \<Rightarrow> instant \<Rightarrow> string \<Rightarrow> job_status set \<Rightarrow> database
     \<Rightarrow> fault + database \<times> bool" where
  "mark_locked_application_prepared lm actor src now event allowed d =
     (if lm_intent lm \<noteq> MI_PREPARE then Inl ValueFault
      else and_then (lift_opt MissingRow (row (db_applications d) (lm_application_id lm))) (\<lambda>a.
        if ap_status a \<notin> allowed then Inl (MutationFault ''APPLICATION_NOT_REVIEWABLE'')
        else if preparation_is_current a then Inr (d, False)
        else let a' = mark_application_prepared (a\<lparr>ap_status := JS_DRAFT, ap_approved_at := Some now,
                        ap_approval_source := Some src\<rparr>);
                 d1 = set_job_opt (\<lambda>j. j\<lparr>jb_status := JS_DRAFT\<rparr>) (lm_job_id lm)
                        (set_application (lm_application_id lm) a' d)
             in Inr (record_application_event (lm_application_id lm) event actor
                  [(''approval_source'', DV_STR src),
                   (''selected_cv_id'', opt_text (ap_selected_cv_id a)),
                   (''profile_version'', opt_int (ap_profile_version a)),
                   (''state'', DV_STR ''prepared''), (''external_action_queued'', DV_BOOL False)] d1,
                True)))"

definition mark_job_terminally_skipped :: "instant \<Rightarrow> job \<Rightarrow> job" where
  "mark_job_terminally_skipped now j = j\<lparr>jb_status := JS_SKIPPED, jb_terminal_skip_at := Some now\<rparr>"

definition cancelled_attempt :: "string \<Rightarrow> instant \<Rightarrow> attempt \<Rightarrow> attempt" where
  "cancelled_attempt reason now a =
     a\<lparr>at_stage := FINISHED, at_outcome := Some FAILED_BEFORE_COMMIT, at_status := SS_FAILED,
       at_reason_code := Some (take 64 reason), at_finished_at := Some now, at_submitted_at := None\<rparr>"

definition cancelled_command :: "string \<Rightarrow> instant \<Rightarrow> command_row \<Rightarrow> command_row" where
  "cancelled_command reason now c =
     c\<lparr>cm_state := CS_CANCELLED, cm_completed_at := Some now, cm_claimed_at := None,
       cm_claimed_by := None, cm_claim_token := None, cm_last_error_code := Some (take 64 reason)\<rparr>"

definition set_command_opt :: "(command_row \<Rightarrow> command_row) \<Rightarrow> int option \<Rightarrow> database \<Rightarrow> database" where
  "set_command_opt f k d =
     (case k of None \<Rightarrow> d
      | Some i \<Rightarrow> (case row (db_commands d) i of None \<Rightarrow> d | Some c \<Rightarrow> set_command i (f c) d))"

definition locked_permit_used :: "locked_mutation \<Rightarrow> database \<Rightarrow> bool" where
  "locked_permit_used lm d =
     (case lm_permit_id lm of None \<Rightarrow> False | Some i \<Rightarrow> permit_used i d)"

text \<open>
  The cancellation part of \<open>transition_locked_application_to_skipped\<close>: the database and whether an
  attempt was cancelled.
\<close>

definition cancel_attempt ::
  "locked_mutation \<Rightarrow> string \<Rightarrow> string \<Rightarrow> instant \<Rightarrow> int \<Rightarrow> attempt \<Rightarrow> database \<Rightarrow> database" where
  "cancel_attempt lm actor reason now i a d =
     (let a' = cancelled_attempt reason now a;
          d1 = set_attempt i a' (record_attempt_stage i FINISHED TK_CANCELLATION d);
          d2 = record_attempt_outcome i a' ''operator_cancellation'' d1;
          d3 = set_command_opt (cancelled_command reason now) (lm_command_id lm) d2
      in record_application_event (lm_application_id lm) ''submission_attempt_cancelled'' actor
           [(''attempt_number'', DV_INT (at_attempt_number a)), (''reason_code'', DV_STR reason),
            (''state'', DV_STR ''failed_before_commit'')] d3)"

definition cancel_active_attempt ::
  "locked_mutation \<Rightarrow> string \<Rightarrow> string \<Rightarrow> instant \<Rightarrow> database \<Rightarrow> fault + database \<times> bool" where
  "cancel_active_attempt lm actor reason now d =
     (case lm_attempt_id lm of
        None \<Rightarrow> Inr (d, False)
      | Some i \<Rightarrow>
          (case row (db_attempts d) i of
             None \<Rightarrow> Inl MissingRow
           | Some a \<Rightarrow>
               (if at_stage a = FINISHED then Inr (d, False)
                else if \<not> precommit (at_stage a) \<or> at_final_action_at a \<noteq> None
                        \<or> locked_permit_used lm d
                then Inl (MutationFault ''FINAL_ACTION_INDETERMINATE'')
                else Inr (cancel_attempt lm actor reason now i a d, True))))"

definition skip_application ::
  "locked_mutation \<Rightarrow> string \<Rightarrow> string \<Rightarrow> string \<Rightarrow> string \<Rightarrow> instant \<Rightarrow> application \<Rightarrow> database \<Rightarrow> database"
  where
  "skip_application lm actor reason rejection event now a d =
     (let d2 = bump_application_revision (lm_application_id lm) a reason now d;
          a' = (bumped a)\<lparr>ap_status := JS_SKIPPED, ap_rejected_at := Some now,
                 ap_rejection_reason := Some rejection\<rparr>;
          d3 = set_job_opt (mark_job_terminally_skipped now) (lm_job_id lm)
                 (set_application (lm_application_id lm) a' d2)
      in record_application_event (lm_application_id lm) event actor
           [(''reason_code'', DV_STR reason), (''state'', DV_STR ''skipped'')] d3)"

definition already_skipped :: "application \<Rightarrow> job option \<Rightarrow> bool" where
  "already_skipped a job \<longleftrightarrow>
     ap_status a = JS_SKIPPED \<and> (case job of None \<Rightarrow> True | Some j \<Rightarrow> jb_status j = JS_SKIPPED)"

definition backfill_terminal_skip :: "locked_mutation \<Rightarrow> instant \<Rightarrow> job option \<Rightarrow> database \<Rightarrow> database" where
  "backfill_terminal_skip lm now job d =
     (if (case job of None \<Rightarrow> False | Some j \<Rightarrow> jb_terminal_skip_at j = None)
      then set_job_opt (mark_job_terminally_skipped now) (lm_job_id lm) d else d)"

definition transition_locked_application_to_skipped ::
  "locked_mutation \<Rightarrow> string \<Rightarrow> string \<Rightarrow> string \<Rightarrow> string \<Rightarrow> instant \<Rightarrow> database \<Rightarrow> fault + database \<times> bool"
  where
  "transition_locked_application_to_skipped lm actor reason rejection event now d =
     (if lm_intent lm \<noteq> MI_TERMINAL then Inl ValueFault
      else and_then (cancel_active_attempt lm actor reason now d) (\<lambda>(d1, cancelled).
        case row (db_applications d1) (lm_application_id lm) of
          None \<Rightarrow> Inl MissingRow
        | Some a \<Rightarrow>
            (let job = Option.bind (lm_job_id lm) (row (db_jobs d1)) in
             if already_skipped a job \<and> \<not> cancelled
             then Inr (backfill_terminal_skip lm now job d1, False)
             else Inr (skip_application lm actor reason rejection event now a d1, True))))"

section \<open>Lemmas\<close>

lemma sort_key_Nil_iff: "sort_key f xs = [] \<longleftrightarrow> xs = []"
  by (metis length_0_conv length_sort)

lemma first_by_number_None: "first_by_number xs = None \<longleftrightarrow> xs = []"
  by (simp add: first_by_number_def sort_key_Nil_iff split: list.splits)
     (metis sort_key_Nil_iff list.distinct(1))

lemma first_by_number_Nil [simp]: "first_by_number [] = None"
  by (simp add: first_by_number_None)

lemma first_by_number_mem: "first_by_number xs = Some x \<Longrightarrow> x \<in> set xs"
  by (auto simp: first_by_number_def split: list.splits)
     (metis list.set_intros(1) set_sort)

lemma lock_related_ok [simp]: "lock_related_row busy k x = Inr y \<longleftrightarrow> y = x \<and> (x = None \<or> \<not> busy k)"
  by (auto simp: lock_related_row_def)

lemma attempts_of_set: "(i, a) \<in> set (attempts_of app d) \<longleftrightarrow> (i, a) \<in> set (db_attempts d) \<and> at_application_id a = app"
  by (auto simp: attempts_of_def)

lemma find_Some_cond: "find P xs = Some x \<Longrightarrow> P x \<and> x \<in> set xs"
  by (induction xs) (auto split: if_splits)

text \<open>What a granted lock has checked.\<close>

lemma lock_related_rows_ok:
  assumes "lock_related_rows busy app d = Inr (latest, cmd, perm)"
  shows "\<forall>(i, x) \<in> set (attempts_of app d). \<not> immutable_attempt x" "latest = latest_attempt app d"
    "cmd = Option.bind (active_attempt latest) (\<lambda>i. command_of i d)"
    "perm = Option.bind (active_attempt latest) (\<lambda>i. map_option (Pair i) (row (db_permits d) i))"
proof -
  from assms have im: "first_by_number (filter (immutable_attempt \<circ> snd) (attempts_of app d)) = None"
    and rest: "latest = latest_attempt app d"
      "cmd = Option.bind (active_attempt latest) (\<lambda>i. command_of i d)"
      "perm = Option.bind (active_attempt latest) (\<lambda>i. map_option (Pair i) (row (db_permits d) i))"
    by (auto simp: lock_related_rows_def refuse_immutable_def elim!: and_then_okE split: option.splits)
  then show "\<forall>(i, x) \<in> set (attempts_of app d). \<not> immutable_attempt x"
    by (auto simp: first_by_number_None filter_empty_conv)
  show "latest = latest_attempt app d"
    "cmd = Option.bind (active_attempt latest) (\<lambda>i. command_of i d)"
    "perm = Option.bind (active_attempt latest) (\<lambda>i. map_option (Pair i) (row (db_permits d) i))"
    by (fact rest)+
qed

lemma lock_grantedE:
  assumes "lock_application_for_mutation busy app intent expected d = Inr lm"
  obtains a latest cmd perm where "row (db_applications d) app = Some a"
    "lock_related_rows busy app d = Inr (latest, cmd, perm)"
    "check_terminal_status intent a (job_in d a) = Inr ()" "check_latest_attempt intent latest cmd d = Inr ()"
    "lm = \<lparr>lm_application_id = app, lm_job_id = map_option fst (job_in d a),
            lm_attempt_id = map_option fst latest, lm_command_id = map_option fst cmd,
            lm_permit_id = map_option fst perm, lm_intent = intent\<rparr>"
  using assms unfolding lock_application_for_mutation_def
  by (elim and_then_okE) (auto split: prod.splits elim!: and_then_okE)

lemma latest_member:
  assumes "latest_attempt app d = Some (i, x)"
  shows "(i, x) \<in> set (db_attempts d)" "at_application_id x = app"
  using first_by_number_mem[of "attempts_of app d" "(i, x)"] assms
  by (auto simp: latest_attempt_def attempts_of_set)

lemma invalidate_plans_reads [db_simps]:
  "db_attempts (invalidate_form_plans app reason now d) = db_attempts d"
  "db_permits (invalidate_form_plans app reason now d) = db_permits d"
  "db_commands (invalidate_form_plans app reason now d) = db_commands d"
  "db_applications (invalidate_form_plans app reason now d) = db_applications d"
  by (simp_all add: invalidate_form_plans_def)

lemma set_job_opt_reads [db_simps]:
  "db_attempts (set_job_opt f j d) = db_attempts d" "db_permits (set_job_opt f j d) = db_permits d"
  "db_commands (set_job_opt f j d) = db_commands d" "db_applications (set_job_opt f j d) = db_applications d"
  "db_plans (set_job_opt f j d) = db_plans d" "db_evidence (set_job_opt f j d) = db_evidence d"
  by (auto simp: set_job_opt_def set_job_def split: option.splits)

lemma set_command_opt_reads [db_simps]:
  "db_attempts (set_command_opt f j d) = db_attempts d" "db_permits (set_command_opt f j d) = db_permits d"
  "db_applications (set_command_opt f j d) = db_applications d"
  by (auto simp: set_command_opt_def set_command_def split: option.splits)

lemma bump_reads [db_simps]:
  "db_attempts (bump_application_revision app a reason now d) = db_attempts d"
  "db_permits (bump_application_revision app a reason now d) = db_permits d"
  "db_commands (bump_application_revision app a reason now d) = db_commands d"
  by (simp_all add: bump_application_revision_def db_simps)

lemma application_revision_pos: "1 \<le> application_revision a"
  by (simp add: application_revision_def)

lemma bumped_not_prepared: "\<not> preparation_is_current (bumped a)"
  by (simp add: preparation_is_current_def bumped_def)

lemma prepared_is_current:
  "preparation_is_current (mark_application_prepared a) \<longleftrightarrow> ap_approved_at a \<noteq> None"
  by (auto simp: preparation_is_current_def mark_application_prepared_def application_revision_def max_def)

lemma bump_invalidates:
  "filter (\<lambda>(i, p). pl_application_id p = app \<and> pl_invalidated_at p = None)
     (db_plans (bump_application_revision app a reason now d)) = []"
  by (auto simp: bump_application_revision_def invalidate_form_plans_def filter_empty_conv
           split: if_splits)

lemma cancel_attempt_reads [db_simps]:
  "db_attempts (cancel_attempt lm actor reason now i a d) =
     put_row i (cancelled_attempt reason now a) (db_attempts d)"
  "db_permits (cancel_attempt lm actor reason now i a d) = db_permits d"
  "db_applications (cancel_attempt lm actor reason now i a d) = db_applications d"
  by (simp_all add: cancel_attempt_def Let_def db_simps) (simp add: set_attempt_def db_simps)

lemma backfill_reads [db_simps]:
  "db_attempts (backfill_terminal_skip lm now job d) = db_attempts d"
  "db_permits (backfill_terminal_skip lm now job d) = db_permits d"
  "db_commands (backfill_terminal_skip lm now job d) = db_commands d"
  "db_applications (backfill_terminal_skip lm now job d) = db_applications d"
  by (simp_all add: backfill_terminal_skip_def db_simps)

lemma skip_application_reads [db_simps]:
  "db_attempts (skip_application lm actor reason rejection event now a d) = db_attempts d"
  "db_permits (skip_application lm actor reason rejection event now a d) = db_permits d"
  "db_commands (skip_application lm actor reason rejection event now a d) = db_commands d"
  by (simp_all add: skip_application_def Let_def db_simps)

lemma skip_application_row:
  "row (db_applications (skip_application lm actor reason rejection event now a d)) (lm_application_id lm)
     = Some ((bumped a)\<lparr>ap_status := JS_SKIPPED, ap_rejected_at := Some now,
                ap_rejection_reason := Some rejection\<rparr>)"
  by (simp add: skip_application_def Let_def db_simps) (simp add: set_application_def db_simps)

lemma skip_application_invalidates:
  "filter (\<lambda>(i, p). pl_application_id p = lm_application_id lm \<and> pl_invalidated_at p = None)
     (db_plans (skip_application lm actor reason rejection event now a d)) = []"
proof -
  have "db_plans (skip_application lm actor reason rejection event now a d) =
     db_plans (bump_application_revision (lm_application_id lm) a reason now d)"
    by (simp add: skip_application_def Let_def record_application_event_def db_simps)
       (simp add: set_application_def)
  then show ?thesis by (simp add: bump_invalidates)
qed

text \<open>The cancellation touches one precommit attempt whose permit is unspent, or nothing.\<close>

lemma cancel_active_cases:
  assumes "cancel_active_attempt lm actor reason now d = Inr (d1, b)"
  obtains "d1 = d" "\<not> b"
  | i a where "b" "lm_attempt_id lm = Some i" "row (db_attempts d) i = Some a" "precommit (at_stage a)"
      "at_final_action_at a = None" "\<not> locked_permit_used lm d"
      "d1 = cancel_attempt lm actor reason now i a d"
proof (cases "lm_attempt_id lm")
  case None
  with assms that(1) show thesis by (simp add: cancel_active_attempt_def)
next
  case (Some i)
  with assms obtain a where a: "row (db_attempts d) i = Some a"
    by (auto simp: cancel_active_attempt_def split: option.splits)
  show thesis
  proof (cases "at_stage a = FINISHED")
    case True
    with assms Some a that(1) show thesis by (simp add: cancel_active_attempt_def)
  next
    case False
    with assms Some a that(2)[OF _ Some a] show thesis
      by (simp add: cancel_active_attempt_def split: if_splits)
  qed
qed

lemma skip_cases:
  assumes "transition_locked_application_to_skipped lm actor reason rejection event now d = Inr (d', b)"
  obtains d1 a job where "cancel_active_attempt lm actor reason now d = Inr (d1, False)"
      "row (db_applications d1) (lm_application_id lm) = Some a" "ap_status a = JS_SKIPPED" "\<not> b"
      "d' = backfill_terminal_skip lm now job d1"
  | d1 c a where "cancel_active_attempt lm actor reason now d = Inr (d1, c)" "b"
      "row (db_applications d1) (lm_application_id lm) = Some a"
      "d' = skip_application lm actor reason rejection event now a d1"
  using assms
  by (auto simp: transition_locked_application_to_skipped_def Let_def already_skipped_def
           elim!: and_then_okE split: if_splits option.splits)

text \<open>A granted lock on an application with an active attempt holds that attempt's command and permit.\<close>

lemma locked_active:
  assumes "lock_application_for_mutation busy app intent expected d = Inr lm" and "db_valid d"
    and "lm_attempt_id lm = Some i" and "row (db_attempts d) i = Some a" and "precommit (at_stage a)"
  shows "lm_command_id lm = map_option fst (command_of i d)"
    and "lm_permit_id lm = map_option (\<lambda>m. i) (row (db_permits d) i)"
    and "\<not> locked_permit_used lm d \<Longrightarrow> \<not> permit_used i d"
proof -
  from lock_grantedE[OF assms(1)] obtain a0 latest cmd perm
    where rel: "lock_related_rows busy app d = Inr (latest, cmd, perm)"
      and lm: "lm = \<lparr>lm_application_id = app, lm_job_id = map_option fst (job_in d a0),
            lm_attempt_id = map_option fst latest, lm_command_id = map_option fst cmd,
            lm_permit_id = map_option fst perm, lm_intent = intent\<rparr>" .
  note rows = lock_related_rows_ok[OF rel]
  have keys: "distinct (map fst (db_attempts d))"
    using assms(2) by (simp add: db_valid_def attempts_valid_def)
  from assms(3) lm obtain x where x: "latest = Some (i, x)" by auto
  from latest_member[of app d i x] x rows(2) have "(i, x) \<in> set (db_attempts d)" by simp
  from set_row[OF keys this] assms(4) have "x = a" by simp
  with assms(5) x have act: "active_attempt latest = Some i"
    by (auto simp: active_attempt_def unfinished_def precommit_def)
  show "lm_command_id lm = map_option fst (command_of i d)" using rows(3) act lm by simp
  show p: "lm_permit_id lm = map_option (\<lambda>m. i) (row (db_permits d) i)"
    using rows(4) act lm by (simp add: option.map_comp o_def)
  show "\<not> permit_used i d" if "\<not> locked_permit_used lm d"
    using p that by (auto simp: locked_permit_used_def permit_used_def split: option.splits)
qed

section \<open>A concrete database\<close>

definition sample_posting :: posting where
  "sample_posting =
     \<lparr>jo_title = ''Engineer'', jo_company = Some ''Acme'', jo_location = Some ''Tel Aviv, Israel'',
      jo_employment_type = None, jo_seniority = None, jo_description = None, jo_requirements = None,
      jo_keywords = None\<rparr>"

definition sample_job :: job where
  "sample_job =
     \<lparr>jb_status = JS_DRAFT, jb_apply_url = Some ''https://boards.example/1'', jb_source_url = [],
      jb_terminal_skip_at = None, jb_posting = sample_posting\<rparr>"

definition sample_application :: application where
  "sample_application =
     \<lparr>ap_job_id = 1, ap_status = JS_DRAFT, ap_approved_at = Some 5, ap_rejected_at = None,
      ap_rejection_reason = None, ap_needs_review_reason = None, ap_selected_cv_id = Some ''cv1'',
      ap_selected_cv_hash = Some sample_hash, ap_profile_version = Some 1,
      ap_job_fit_decision_id = None, ap_outcome = None, ap_approval_source = Some ''manual_prepare'',
      ap_revision = 2, ap_prepared_revision = Some 2, ap_material_eligible = Some True,
      ap_material_model_provider = Some ''ollama'', ap_material_model_name = Some ''qwen2.5:7b'',
      ap_material_model_digest = Some ''sha256:1'', ap_material_prompt_version = Some ''v1''\<rparr>"

definition sample_db :: database where
  "sample_db =
     empty_db\<lparr>db_jobs := [(1, sample_job)], db_applications := [(7, sample_application)],
       db_attempts := [(5, sample_attempt)], db_plans := [(3, sample_plan_row)],
       db_permits := [(5, sample_issued)], db_commands := [(9, sample_command)]\<rparr>"

lemma sample_db_valid: "db_valid sample_db"
  by code_simp

section \<open>Properties\<close>


definition idle_db :: database where
  "idle_db = sample_db\<lparr>db_attempts := [], db_permits := [], db_commands := []\<rparr>"


text \<open>
  C33: skipping an application under its terminal lock cancels work only before the commit boundary.
  Permits are untouched; every attempt is unchanged except at most one, which was in a precommit stage
  with no final action and no spent permit and is now finished as failed before commit; the
  application ends skipped, and when anything changed its preparation is revoked and all its form
  plans are invalidated.
\<close>

theorem skip_never_touches_committed_work:
  assumes "lock_application_for_mutation busy app MI_TERMINAL expected d = Inr lm"
    and "transition_locked_application_to_skipped lm actor reason rejection event now d = Inr (d', b)"
    and "db_valid d"
  shows "db_permits d' = db_permits d
    \<and> (\<forall>j. row (db_attempts d') j = row (db_attempts d) j
         \<or> (\<exists>a. row (db_attempts d) j = Some a \<and> precommit (at_stage a) \<and> at_final_action_at a = None
               \<and> \<not> permit_used j d
               \<and> row (db_attempts d') j = Some (cancelled_attempt reason now a)))
    \<and> (\<exists>a. row (db_applications d') app = Some a \<and> ap_status a = JS_SKIPPED
         \<and> (b \<longrightarrow> \<not> preparation_is_current a
              \<and> filter (\<lambda>(i, p). pl_application_id p = app \<and> pl_invalidated_at p = None) (db_plans d') = []))"
proof -
  note unused = locked_active(3)[OF assms(1,3)]
  have att: "db_permits d1 = db_permits d \<and> (\<forall>j. row (db_attempts d1) j = row (db_attempts d) j
         \<or> (\<exists>a. row (db_attempts d) j = Some a \<and> precommit (at_stage a) \<and> at_final_action_at a = None
               \<and> \<not> permit_used j d
               \<and> row (db_attempts d1) j = Some (cancelled_attempt reason now a)))"
    if "cancel_active_attempt lm actor reason now d = Inr (d1, c)" for d1 c
    using that
  proof (cases rule: cancel_active_cases)
    case (2 i a)
    with unused[OF 2(2-4)] 2(6) show ?thesis by (simp add: db_simps)
  qed simp
  have app: "lm_application_id lm = app" using assms(1) by (auto elim: lock_grantedE)
  from assms(2) show ?thesis
  proof (cases rule: skip_cases)
    case (1 d1 a job)
    with att[OF 1(1)] app show ?thesis by (simp add: db_simps)
  next
    case (2 d1 c a)
    have "\<not> preparation_is_current ((bumped a)\<lparr>ap_status := JS_SKIPPED, ap_rejected_at := Some now,
        ap_rejection_reason := Some rejection\<rparr>)"
      by (simp add: preparation_is_current_def bumped_def)
    with att[OF 2(1)] app skip_application_row[of lm actor reason rejection event now a d1]
      skip_application_invalidates[of lm actor reason rejection event now a d1]
    show ?thesis unfolding 2(4) by (simp add: db_simps)
  qed
qed

theorem skip_never_touches_committed_work_witness:
  "\<exists>d' b a. transition_locked_application_to_skipped
     \<lparr>lm_application_id = 7, lm_job_id = Some 1, lm_attempt_id = Some 5, lm_command_id = Some 9,
      lm_permit_id = Some 5, lm_intent = MI_TERMINAL\<rparr>
     ''operator'' ''OPERATOR_CANCELLED'' ''no'' ''application_rejected'' 30 sample_db = Inr (d', b)
   \<and> db_permits d' = db_permits sample_db
   \<and> row (db_applications d') 7 = Some a \<and> ap_status a = JS_SKIPPED"
proof -
  let ?lm = "\<lparr>lm_application_id = 7, lm_job_id = Some 1, lm_attempt_id = Some 5,
     lm_command_id = Some 9, lm_permit_id = Some 5, lm_intent = MI_TERMINAL\<rparr>"
  let ?t = "transition_locked_application_to_skipped ?lm ''operator'' ''OPERATOR_CANCELLED'' ''no''
      ''application_rejected'' 30 sample_db"
  have lock: "lock_application_for_mutation (\<lambda>k. False) 7 MI_TERMINAL None sample_db = Inr ?lm"
    by code_simp
  have "\<not> isl ?t" by code_simp
  then obtain d' b where t: "?t = Inr (d', b)" by (metis old.prod.exhaust sum.collapse(2))
  from skip_never_touches_committed_work[OF lock t sample_db_valid] t show ?thesis
    by (elim conjE exE) (intro exI conjI)
qed

text \<open>
  The three readings of "prepared" agree. For a draft or approved application with a positive
  revision, the query for prepared applications, the public status and the worker's own check select
  the same rows, and the review queue holds exactly the drafts that are not prepared.
\<close>

theorem prepared_readings_agree:
  assumes "(i, a) \<in> set (db_applications d)" and "ap_status a \<in> {JS_DRAFT, JS_APPROVED}"
    and "1 \<le> ap_revision a"
  shows "((i, a) \<in> set (prepared_applications d) \<longleftrightarrow> preparation_is_current a)
     \<and> (application_semantic_status a = ''prepared'' \<longleftrightarrow> preparation_is_current a)
     \<and> ((i, a) \<in> set (reviewable_applications d) \<longleftrightarrow> ap_status a = JS_DRAFT \<and> \<not> preparation_is_current a)"
  using assms
  by (auto simp: prepared_applications_def preparation_is_current_def application_revision_def
      application_semantic_status_def reviewable_applications_def max_def)

theorem prepared_readings_agree_witness:
  "(7, sample_application) \<in> set (prepared_applications sample_db)"
proof -
  have "(7, sample_application) \<in> set (db_applications sample_db)" by (simp add: sample_db_def)
  moreover have "ap_status sample_application \<in> {JS_DRAFT, JS_APPROVED}" "1 \<le> ap_revision sample_application"
    "preparation_is_current sample_application"
    by (simp_all add: sample_application_def preparation_is_current_def application_revision_def)
  ultimately show ?thesis using prepared_readings_agree by blast
qed

text \<open>
  Changing private content revokes every earlier review. After a bump the application row has a
  strictly higher revision of at least two, is not prepared, and no plan of the application is still
  valid; plans of other applications, attempts, permits and commands are unchanged.
\<close>

theorem bump_revokes_review:
  "row (db_applications (bump_application_revision app a reason now d)) app = Some (bumped a)
   \<and> application_revision a < ap_revision (bumped a) \<and> 2 \<le> ap_revision (bumped a)
   \<and> \<not> preparation_is_current (bumped a)
   \<and> filter (\<lambda>(i, p). pl_application_id p = app \<and> pl_invalidated_at p = None)
        (db_plans (bump_application_revision app a reason now d)) = []
   \<and> filter (\<lambda>(i, p). pl_application_id p \<noteq> app) (db_plans (bump_application_revision app a reason now d))
       = filter (\<lambda>(i, p). pl_application_id p \<noteq> app) (db_plans d)
   \<and> db_attempts (bump_application_revision app a reason now d) = db_attempts d
   \<and> db_permits (bump_application_revision app a reason now d) = db_permits d
   \<and> db_commands (bump_application_revision app a reason now d) = db_commands d"
proof -
  have other: "filter (\<lambda>(i, p). pl_application_id p \<noteq> app)
      (map (\<lambda>(i, p). (i, if pl_application_id p = app \<and> pl_invalidated_at p = None
          then p\<lparr>pl_invalidated_at := Some now, pl_invalidation_reason := Some (take 64 reason)\<rparr> else p)) ps)
      = filter (\<lambda>(i, p). pl_application_id p \<noteq> app) ps" for ps
    by (induction ps) (auto split: if_splits)
  show ?thesis
    using bump_invalidates[of app a reason now d] application_revision_pos[of a] bumped_not_prepared[of a]
    by (simp add: db_simps) (simp add: bump_application_revision_def invalidate_form_plans_def
        set_application_def db_simps other, simp add: bumped_def)
qed

end
