(* ===== verification/Plan_Store.thy ===== *)
theory Plan_Store
  imports Application_Mutations
begin

text \<open>
  Persisted plans and permits as the domain sees them: \<open>_load_domain_plan\<close> and \<open>_load_domain_permit\<close>
  of \<^verbatim>\<open>worker/submission_commands.py\<close>, and \<open>reconstruct_persisted_form_plan\<close> of
  \<^verbatim>\<open>core/submission_service.py\<close>. Loading validates every stored value again.
\<close>

section \<open>The text of a UUID\<close>

text \<open>
  \<open>str(UUID(s))\<close> of the standard library: the prefixes \<open>urn:\<close> and \<open>uuid:\<close>, outer braces and
  all dashes are dropped, the remaining 32 characters are read in base 16 and printed back in the
  canonical grouping. The accepted digits are those of \<open>int(s, 16)\<close>, where single underscores between
  digits are skipped.
\<close>

fun drop_all :: "nat \<Rightarrow> string \<Rightarrow> string \<Rightarrow> string" where
  "drop_all 0 pat s = s"
| "drop_all (Suc n) pat [] = []"
| "drop_all (Suc n) pat (c # cs) =
     (if prefix pat (c # cs) then drop_all n pat (drop (length pat) (c # cs))
      else c # drop_all n pat cs)"

definition replace_all :: "string \<Rightarrow> string \<Rightarrow> string" where
  "replace_all pat s = drop_all (Suc (length s)) pat s"

definition strip_braces :: "string \<Rightarrow> string" where
  "strip_braces s =
     (let drop_b = dropWhile (\<lambda>c. c = CHR ''{'' \<or> c = CHR ''}'')
      in rev (drop_b (rev (drop_b s))))"

definition hex_value :: "char \<Rightarrow> nat option" where
  "hex_value c =
     (let n = (of_char c :: nat) in
      if 48 \<le> n \<and> n \<le> 57 then Some (n - 48)
      else if 97 \<le> n \<and> n \<le> 102 then Some (n - 87)
      else if 65 \<le> n \<and> n \<le> 70 then Some (n - 55) else None)"

fun hex_run :: "int \<Rightarrow> string \<Rightarrow> int option" where
  "hex_run acc [] = Some acc"
| "hex_run acc (c # cs) =
     (case hex_value c of
        Some v \<Rightarrow> hex_run (16 * acc + int v) cs
      | None \<Rightarrow>
          (if c = CHR ''_'' then
             (case cs of [] \<Rightarrow> None
              | d # ds \<Rightarrow>
                  (case hex_value d of None \<Rightarrow> None | Some v \<Rightarrow> hex_run (16 * acc + int v) ds))
           else None))"

definition hex_body :: "string \<Rightarrow> int option" where
  "hex_body s =
     (case s of [] \<Rightarrow> None
      | c # cs \<Rightarrow> (case hex_value c of None \<Rightarrow> None | Some v \<Rightarrow> hex_run (int v) cs))"

definition int_base16 :: "string \<Rightarrow> int option" where
  "int_base16 s =
     (let t = strip s;
          neg = (take 1 t = ''-'');
          u = (if take 1 t = ''-'' \<or> take 1 t = ''+'' then drop 1 t else t);
          b = (if py_lower (take 2 u) = ''0x'' then (if take 1 (drop 2 u) = ''_'' then drop 3 u else drop 2 u)
               else u)
      in map_option (\<lambda>v. if neg then - v else v) (hex_body b))"

definition hex_char :: "int \<Rightarrow> char" where
  "hex_char n = hex_digits ! nat n"

fun hex_text :: "nat \<Rightarrow> int \<Rightarrow> string" where
  "hex_text 0 n = []"
| "hex_text (Suc k) n = hex_text k (n div 16) @ [hex_char (n mod 16)]"

definition uuid_text :: "string \<Rightarrow> string option" where
  "uuid_text s =
     (let h = filter (\<lambda>c. c \<noteq> CHR ''-'')
                (strip_braces (replace_all ''uuid:'' (replace_all ''urn:'' s)))
      in if length h \<noteq> 32 then None
         else case int_base16 h of
                None \<Rightarrow> None
              | Some v \<Rightarrow>
                  (if v < 0 then None
                   else let t = hex_text 32 v in
                     Some (take 8 t @ ''-'' @ take 4 (drop 8 t) @ ''-'' @ take 4 (drop 12 t) @ ''-''
                           @ take 4 (drop 16 t) @ ''-'' @ drop 20 t)))"

section \<open>Loading\<close>

definition decode_json :: "'a json_column \<Rightarrow> fault + 'a" where
  "decode_json c = (case c of Encoded x \<Rightarrow> Inr x | Malformed \<Rightarrow> Inl ValueFault)"

text \<open>The plan whose columns have been read; bounded texts are stripped by their declared type.\<close>

definition plan_of_row ::
  "plan_row \<Rightarrow> string \<Rightarrow> string \<Rightarrow> string \<Rightarrow> int \<Rightarrow> instant \<Rightarrow> form_field list \<Rightarrow> form_disclosure list
     \<Rightarrow> answer_decision list \<Rightarrow> reason_code list \<Rightarrow> string \<Rightarrow> string \<Rightarrow> form_plan" where
  "plan_of_row r pid cv cvh pv session fs ds as bs loc apv =
     \<lparr>fp_plan_id = pid, fp_application_id = pl_application_id r,
      fp_application_revision = pl_application_revision r,
      fp_adapter_name = strip (pl_adapter_name r), fp_adapter_version = strip (pl_adapter_version r),
      fp_selector_version = strip (pl_selector_version r), fp_form_fingerprint = pl_fingerprint r,
      fp_selected_cv_id = strip (pl_selected_cv_id r), fp_selected_cv_hash = pl_selected_cv_hash r,
      fp_attached_cv_id = strip cv, fp_attached_cv_hash = cvh,
      fp_attachment_verified = pl_attachment_verified r, fp_profile_version = pv,
      fp_session_verified_at = session, fp_created_at = pl_created_at r,
      fp_expires_at = pl_expires_at r, fp_fields = fs, fp_disclosures = ds, fp_decisions = as,
      fp_blockers = bs, fp_locale = strip loc, fp_answer_policy_version = strip apv,
      fp_llm_prompt_version = map_option strip (pl_llm_prompt_version r),
      fp_llm_model_provider = map_option strip (pl_llm_model_provider r),
      fp_llm_model_name = map_option strip (pl_llm_model_name r),
      fp_llm_model_digest = pl_llm_model_digest r\<rparr>"

definition checked_plan :: "plan_policy \<Rightarrow> form_plan \<Rightarrow> fault + form_plan" where
  "checked_plan pol p = (case construct_plan pol p of Inl e \<Rightarrow> Inl ValueFault | Inr u \<Rightarrow> Inr p)"

text \<open>
  \<open>_load_domain_plan\<close>. A missing session time has no \<open>tzinfo\<close> and raises \<open>AttributeError\<close>; every
  other invalid column is a \<open>ValueError\<close>.
\<close>

definition load_domain_plan :: "plan_policy \<Rightarrow> plan_row \<Rightarrow> fault + form_plan" where
  "load_domain_plan pol r =
     and_then (lift_opt ValueFault (uuid_text (pl_plan_id r))) (\<lambda>pid.
     and_then (lift_opt AttributeFault (pl_session_verified_at r)) (\<lambda>session.
     and_then (decode_json (pl_fields_json r)) (\<lambda>fs.
     and_then (decode_json (pl_disclosures_json r)) (\<lambda>ds.
     and_then (decode_json (pl_decisions_json r)) (\<lambda>as.
     and_then (decode_json (pl_blockers_json r)) (\<lambda>bs.
     and_then (lift_opt ValueFault (pl_attached_cv_id r)) (\<lambda>cv.
     and_then (lift_opt ValueFault (pl_attached_cv_hash r)) (\<lambda>cvh.
     and_then (lift_opt ValueFault (pl_profile_version r)) (\<lambda>pv.
       checked_plan pol (plan_of_row r pid cv cvh pv session fs ds as bs (pl_locale r)
         (pl_answer_policy_version r)))))))))))"

definition permit_of_row :: "int \<Rightarrow> permit_row \<Rightarrow> domain_permit" where
  "permit_of_row i m =
     \<lparr>dp_attempt_id = i, dp_job_url_hash = pm_job_url_hash m,
      dp_application_revision = pm_application_revision m,
      dp_adapter_name = strip (pm_adapter_name m), dp_adapter_version = strip (pm_adapter_version m),
      dp_selector_version = strip (pm_selector_version m),
      dp_form_fingerprint = pm_form_plan_fingerprint m, dp_cv_hash = pm_cv_hash m,
      dp_expires_at = pm_expires_at m, dp_nonce = strip (pm_nonce_hash m)\<rparr>"

definition domain_permit_ok :: "domain_permit \<Rightarrow> bool" where
  "domain_permit_ok t \<longleftrightarrow>
     0 < dp_attempt_id t \<and> 0 < dp_application_revision t
     \<and> list_all is_sha256 [dp_job_url_hash t, dp_form_fingerprint t, dp_cv_hash t]
     \<and> list_all (is_bounded 500)
         [dp_adapter_name t, dp_adapter_version t, dp_selector_version t, dp_nonce t]"

definition load_domain_permit :: "int \<Rightarrow> permit_row \<Rightarrow> fault + domain_permit" where
  "load_domain_permit i m =
     (let t = permit_of_row i m in if domain_permit_ok t then Inr t else Inl ValueFault)"

text \<open>
  \<open>reconstruct_persisted_form_plan\<close>: any failure is the one admission error, and the stored
  identifier must be the canonical text.
\<close>

definition or_default :: "string \<Rightarrow> string \<Rightarrow> string" where
  "or_default s dflt = (if s = [] then dflt else s)"

definition reconstruct_persisted_form_plan :: "plan_policy \<Rightarrow> plan_row \<Rightarrow> fault + form_plan" where
  "reconstruct_persisted_form_plan pol r =
     (case load_domain_plan pol
        (r\<lparr>pl_locale := or_default (pl_locale r) ''en'',
           pl_answer_policy_version := or_default (pl_answer_policy_version r) ''answer-policy-v1''\<rparr>) of
        Inl e \<Rightarrow> Inl (AdmissionFault ''FORM_PLAN_BLOCKED'')
      | Inr p \<Rightarrow>
          (if fp_plan_id p \<noteq> pl_plan_id r then Inl (AdmissionFault ''FORM_PLAN_BLOCKED'') else Inr p))"

section \<open>Lemmas\<close>

lemma load_domain_plan_ok:
  assumes "load_domain_plan pol r = Inr p"
  shows "construct_plan pol p = Inr ()" "fp_application_id p = pl_application_id r"
    "fp_application_revision p = pl_application_revision r" "fp_expires_at p = pl_expires_at r"
    "fp_created_at p = pl_created_at r" "fp_form_fingerprint p = pl_fingerprint r"
    "fp_selected_cv_hash p = pl_selected_cv_hash r" "pl_attached_cv_hash r = Some (fp_attached_cv_hash p)"
    "fp_attachment_verified p = pl_attachment_verified r"
    "pl_session_verified_at r = Some (fp_session_verified_at p)"
    "pl_profile_version r = Some (fp_profile_version p)"
proof -
  from assms obtain pid cv cvh pv session fs ds as bs
    where c: "checked_plan pol (plan_of_row r pid cv cvh pv session fs ds as bs (pl_locale r)
        (pl_answer_policy_version r)) = Inr p"
      and cvh: "pl_attached_cv_hash r = Some cvh" and s: "pl_session_verified_at r = Some session"
      and pv: "pl_profile_version r = Some pv"
    unfolding load_domain_plan_def by (elim and_then_okE) simp
  from c have p: "p = plan_of_row r pid cv cvh pv session fs ds as bs (pl_locale r)
        (pl_answer_policy_version r)" and ok: "construct_plan pol p = Inr ()"
    by (auto simp: checked_plan_def split: sum.splits)
  show "construct_plan pol p = Inr ()" by (fact ok)
  show "fp_application_id p = pl_application_id r"
    "fp_application_revision p = pl_application_revision r" "fp_expires_at p = pl_expires_at r"
    "fp_created_at p = pl_created_at r" "fp_form_fingerprint p = pl_fingerprint r"
    "fp_selected_cv_hash p = pl_selected_cv_hash r" "pl_attached_cv_hash r = Some (fp_attached_cv_hash p)"
    "fp_attachment_verified p = pl_attachment_verified r"
    "pl_session_verified_at r = Some (fp_session_verified_at p)"
    "pl_profile_version r = Some (fp_profile_version p)"
    by (simp_all add: p plan_of_row_def cvh s pv)
qed

lemma load_domain_permit_ok:
  assumes "load_domain_permit i m = Inr t"
  shows "t = permit_of_row i m" "domain_permit_ok t"
  using assms by (auto simp: load_domain_permit_def Let_def split: if_splits)

end
