(* ===== verification/Adapter_Authority.thy ===== *)
theory Adapter_Authority
  imports Plan_Store
begin

text \<open>
  Which adapter may act on a form. The first part is the committed registry of \<open>submitters/platforms.py\<close>
  with its URL detection; the second part is the one-use authority for a qualification canary of
  \<open>core/adapter_qualification_service.py\<close>: minting, validation against every binding, and consumption.
\<close>

section \<open>The registry\<close>

record adapter_descriptor =
  ad_platform :: string
  ad_adapter_version :: string
  ad_selector_version :: string
  ad_transport :: string
  ad_authentication_mode :: string
  ad_supported_controls :: "string list"
  ad_qualification :: qualification_tier
  ad_qualified_form_scope :: "string list"
  ad_domains :: "string list"
  ad_execution_contract_version :: "string option"
  ad_allow_subdomains :: bool

definition two_phase_contract :: string where
  "two_phase_contract = ''two-phase-v2''"

definition allows_live_submission :: "adapter_descriptor \<Rightarrow> bool" where
  "allows_live_submission a \<longleftrightarrow> ad_qualification a = QT_LIVE_CANARY_QUALIFIED"

definition allows_final_execution :: "adapter_descriptor \<Rightarrow> bool" where
  "allows_final_execution a \<longleftrightarrow>
     allows_live_submission a \<and> ad_execution_contract_version a = Some two_phase_contract
     \<and> ad_qualified_form_scope a \<noteq> []"

definition qualifies_form_fingerprint :: "string \<Rightarrow> adapter_descriptor \<Rightarrow> bool" where
  "qualifies_form_fingerprint fp a \<longleftrightarrow> strip fp \<noteq> [] \<and> strip fp \<in> set (ad_qualified_form_scope a)"

definition common_controls :: "string list" where
  "common_controls = [''text'', ''textarea'', ''select'', ''radio'', ''checkbox'', ''file'']"

definition greenhouse_controls :: "string list" where
  "greenhouse_controls =
     [''text'', ''textarea'', ''select'', ''multi_select'', ''radio'', ''checkbox'', ''date'', ''number'',
      ''email'', ''phone'', ''url'', ''file'', ''consent'', ''attestation'']"

text \<open>The fields in which the entries of the registry differ.\<close>

definition browser_adapter ::
  "string \<Rightarrow> string \<Rightarrow> string \<Rightarrow> string \<Rightarrow> string list \<Rightarrow> string list \<Rightarrow> bool \<Rightarrow> adapter_descriptor" where
  "browser_adapter name ver sel auth controls domains subdomains =
     \<lparr>ad_platform = name, ad_adapter_version = ver, ad_selector_version = sel, ad_transport = ''browser'',
      ad_authentication_mode = auth, ad_supported_controls = controls,
      ad_qualification = QT_FIXTURE_QUALIFIED, ad_qualified_form_scope = [], ad_domains = domains,
      ad_execution_contract_version = Some two_phase_contract, ad_allow_subdomains = subdomains\<rparr>"

definition disabled_adapter ::
  "string \<Rightarrow> string \<Rightarrow> string \<Rightarrow> string \<Rightarrow> string \<Rightarrow> string list \<Rightarrow> adapter_descriptor" where
  "disabled_adapter name ver sel transport auth domains =
     \<lparr>ad_platform = name, ad_adapter_version = ver, ad_selector_version = sel, ad_transport = transport,
      ad_authentication_mode = auth, ad_supported_controls = common_controls,
      ad_qualification = QT_DISABLED, ad_qualified_form_scope = [], ad_domains = domains,
      ad_execution_contract_version = None, ad_allow_subdomains = True\<rparr>"

definition registered_adapters :: "adapter_descriptor list" where
  "registered_adapters =
     [browser_adapter ''workday'' ''2.0.3'' ''workday-candidate-v2.4'' ''persistent_profile''
        common_controls [''myworkdayjobs.com'', ''myworkday.com'', ''workday.com''] True,
      browser_adapter ''greenhouse'' ''1.0.0'' ''greenhouse-candidate-v9'' ''public_candidate_flow''
        greenhouse_controls
        [''boards.greenhouse.io'', ''job-boards.greenhouse.io'', ''greenhouse-hosted.com''] True,
      browser_adapter ''lever'' ''1.0.0'' ''lever-candidate-v5'' ''public_candidate_flow''
        common_controls [''jobs.lever.co'', ''jobs.eu.lever.co''] False,
      browser_adapter ''ashby'' ''1.0.0'' ''ashby-candidate-v1'' ''public_candidate_flow''
        greenhouse_controls [''jobs.ashbyhq.com''] True,
      disabled_adapter ''workable'' ''0.1.0'' ''legacy-v1'' ''legacy_hybrid'' ''public_candidate_flow''
        [''apply.workable.com'', ''workable.com''],
      browser_adapter ''smartrecruiters'' ''1.0.0'' ''smartrecruiters-candidate-v1''
        ''public_candidate_flow'' greenhouse_controls [''jobs.smartrecruiters.com''] False,
      disabled_adapter ''jobvite'' ''0.1.0'' ''legacy-v1'' ''legacy_hybrid'' ''public_candidate_flow''
        [''jobs.jobvite.com'', ''jobvite.com''],
      disabled_adapter ''icims'' ''0.1.0'' ''legacy-v1'' ''browser'' ''public_candidate_flow''
        [''icims.com''],
      disabled_adapter ''comeet'' ''0.1.0'' ''legacy-v1'' ''browser'' ''public_candidate_flow''
        [''comeet.com'', ''comeet.co''],
      disabled_adapter ''linkedin'' ''2.0.0'' ''linkedin-easy-apply-v1'' ''browser''
        ''persistent_profile'' [''linkedin.com''],
      disabled_adapter ''indeed'' ''0.1.0'' ''legacy-v1'' ''browser'' ''persistent_profile''
        [''indeed.com'']]"

section \<open>Detection\<close>

text \<open>
  What detection and validation read from elsewhere: the hostname of a URL (\<open>None\<close> when \<open>urlparse\<close>
  raises), the three dedicated URL predicates, the digest of the committed fixtures of an adapter and
  of the form contract of a plan, the hash of a normalised URL (\<open>None\<close> where the computation raises),
  and \<open>stable_digest\<close> on the payload of an authorisation and on a qualification trace. \<open>qe_runtime\<close> is the
  release of this process and whether its source is unchanged.
\<close>

record adapter_env =
  qe_hostname :: "string \<Rightarrow> string option option"
  qe_greenhouse :: "string \<Rightarrow> bool"
  qe_ashby :: "string \<Rightarrow> bool"
  qe_smartrecruiters :: "string \<Rightarrow> bool"
  qe_fixture_digest :: "adapter_descriptor \<Rightarrow> string option"
  qe_contract_digest :: "plan_row \<Rightarrow> string option"
  qe_url_hash :: "string \<Rightarrow> string option"
  qe_stable_digest :: "canary_row \<Rightarrow> string"
  qe_policy :: plan_policy
  qe_trace_digest :: "qualification_trace \<Rightarrow> string"
  qe_runtime :: "string \<times> bool"

definition matches_domain :: "string \<Rightarrow> bool \<Rightarrow> string \<Rightarrow> bool" where
  "matches_domain hostname allow_subdomains domain \<longleftrightarrow>
     hostname = domain \<or> (allow_subdomains \<and> suffix (''.'' @ domain) hostname)"

definition clean_hostname :: "string option \<Rightarrow> string" where
  "clean_hostname h = rev (dropWhile (\<lambda>c. c = CHR ''.'') (rev (py_lower (or_empty h))))"

definition by_identity :: "string set" where
  "by_identity = {''greenhouse'', ''ashby'', ''smartrecruiters''}"

definition detect_platform :: "adapter_env \<Rightarrow> string \<Rightarrow> string" where
  "detect_platform env url =
     (let u = strip url in
      if qe_greenhouse env u then ''greenhouse''
      else if qe_ashby env u then ''ashby''
      else if qe_smartrecruiters env u then ''smartrecruiters''
      else case qe_hostname env u of
             None \<Rightarrow> ''unknown''
           | Some h \<Rightarrow>
               (let hostname = clean_hostname h in
                case find (\<lambda>a. ad_platform a \<notin> by_identity
                             \<and> list_ex (matches_domain hostname (ad_allow_subdomains a)) (ad_domains a))
                       registered_adapters of
                  Some a \<Rightarrow> ad_platform a
                | None \<Rightarrow> if hostname \<noteq> [] then ''generic_portal'' else ''unknown''))"

definition adapter_for_platform :: "string \<Rightarrow> adapter_descriptor option" where
  "adapter_for_platform platform =
     find (\<lambda>a. ad_platform a = py_lower (strip platform)) registered_adapters"

definition adapter_for_url :: "adapter_env \<Rightarrow> string \<Rightarrow> adapter_descriptor option" where
  "adapter_for_url env url = adapter_for_platform (detect_platform env url)"

section \<open>Canary authority\<close>

definition descriptor_matches_plan :: "adapter_descriptor \<Rightarrow> plan_row \<Rightarrow> bool" where
  "descriptor_matches_plan a p \<longleftrightarrow>
     ad_platform a = pl_adapter_name p \<and> ad_adapter_version a = pl_adapter_version p
     \<and> ad_selector_version a = pl_selector_version p
     \<and> ad_execution_contract_version a = Some two_phase_contract \<and> ad_transport a = ''browser''"

definition canary_active :: "int \<Rightarrow> instant \<Rightarrow> canary_row \<Rightarrow> bool" where
  "canary_active app t c \<longleftrightarrow>
     cy_application_id c = app \<and> cy_consumed_at c = None \<and> cy_revoked_at c = None \<and> t < cy_expires_at c"

text \<open>The dry run a canary rests on; \<open>one_or_none\<close> raises when there are several.\<close>

definition dry_run_matches ::
  "int \<Rightarrow> application \<Rightarrow> int \<Rightarrow> plan_row \<Rightarrow> adapter_descriptor \<Rightarrow> string \<Rightarrow> string \<Rightarrow> string \<Rightarrow> string
     \<Rightarrow> qualification_row \<Rightarrow> bool" where
  "dry_run_matches app ap pid p a fixture contract url_hash release q \<longleftrightarrow>
     qr_tier q = QT_DRY_RUN_QUALIFIED \<and> qr_adapter_name q = ad_platform a
     \<and> qr_adapter_version q = ad_adapter_version a \<and> qr_selector_version q = ad_selector_version a
     \<and> Some (qr_contract_version q) = ad_execution_contract_version a
     \<and> qr_fixture_digest q = fixture \<and> qr_runner_release q = release \<and> qr_invalidated_at q = None
     \<and> qr_application_id q = app \<and> qr_application_revision q = ap_revision ap
     \<and> qr_form_plan_id q = pid \<and> qr_form_fingerprint q = pl_fingerprint p
     \<and> qr_form_contract_digest q = contract \<and> qr_job_url_hash q = url_hash"

definition one_or_none :: "'a list \<Rightarrow> fault + 'a option" where
  "one_or_none xs = (case xs of [] \<Rightarrow> Inr None | [x] \<Rightarrow> Inr (Some x) | _ \<Rightarrow> Inl MultipleResults)"

lemma one_or_none_ok:
  "one_or_none xs = Inr (Some x) \<longleftrightarrow> xs = [x]"
  "one_or_none xs = Inr None \<longleftrightarrow> xs = []"
  by (auto simp: one_or_none_def split: list.splits)

lemma filter_single:
  assumes "filter P xs = [x]"
  shows "x \<in> set xs \<and> P x"
proof -
  have "x \<in> set (filter P xs)" by (simp add: assms)
  then show ?thesis by simp
qed


text \<open>
  \<open>_authorization_payload\<close>: every column of the row but its digest and the times of consumption and
  revocation.
\<close>

definition authorization_payload :: "canary_row \<Rightarrow> canary_row" where
  "authorization_payload c =
     c\<lparr>cy_authorization_digest := [], cy_consumed_at := None, cy_revoked_at := None\<rparr>"

definition canary_digest :: "adapter_env \<Rightarrow> canary_row \<Rightarrow> string" where
  "canary_digest env c = qe_stable_digest env (authorization_payload c)"

definition new_canary ::
  "adapter_env \<Rightarrow> int \<Rightarrow> application \<Rightarrow> int \<Rightarrow> plan_row \<Rightarrow> adapter_descriptor \<Rightarrow> int \<Rightarrow> string \<Rightarrow> string
     \<Rightarrow> string \<Rightarrow> string \<Rightarrow> instant \<Rightarrow> instant \<Rightarrow> canary_row" where
  "new_canary env app ap pid p a dry nonce_hash contract url_hash release now expires =
     (let c = \<lparr>cy_authorization_digest = replicate 64 CHR ''0'', cy_nonce_hash = nonce_hash,
               cy_application_id = app, cy_application_revision = ap_revision ap, cy_form_plan_id = pid,
               cy_dry_run_id = dry, cy_adapter_name = ad_platform a,
               cy_adapter_version = ad_adapter_version a, cy_selector_version = ad_selector_version a,
               cy_contract_version = or_empty (ad_execution_contract_version a),
               cy_form_fingerprint = pl_fingerprint p, cy_form_contract_digest = contract,
               cy_selected_cv_hash = pl_selected_cv_hash p, cy_job_url_hash = url_hash,
               cy_runner_release = release, cy_issued_at = now, cy_expires_at = expires,
               cy_consumed_at = None, cy_revoked_at = None\<rparr>
      in c\<lparr>cy_authorization_digest := canary_digest env c\<rparr>)"

text \<open>The three computations of one \<open>try\<close> block.\<close>

definition plan_readings ::
  "adapter_env \<Rightarrow> adapter_descriptor \<Rightarrow> string \<Rightarrow> plan_row \<Rightarrow> fault + string \<times> string \<times> string" where
  "plan_readings env a url p =
     lift_opt (QualificationFault ''FORM_PLAN_BLOCKED'')
       (case (qe_fixture_digest env a, qe_url_hash env url, qe_contract_digest env p) of
          (Some f, Some u, Some c) \<Rightarrow> Some (f, u, c) | _ \<Rightarrow> None)"

definition plan_adapter :: "adapter_env \<Rightarrow> string \<Rightarrow> plan_row \<Rightarrow> fault + adapter_descriptor" where
  "plan_adapter env url p =
     (case adapter_for_url env url of
        Some a \<Rightarrow>
          (if descriptor_matches_plan a p then Inr a
           else Inl (QualificationFault ''ADAPTER_VERSION_CHANGED''))
      | None \<Rightarrow> Inl (QualificationFault ''ADAPTER_VERSION_CHANGED''))"

definition mint_qualification_canary_authorization ::
  "adapter_env \<Rightarrow> string \<Rightarrow> int \<Rightarrow> application \<Rightarrow> int \<Rightarrow> plan_row \<Rightarrow> string \<Rightarrow> string \<Rightarrow> instant
     \<Rightarrow> database \<Rightarrow> fault + database \<times> int" where
  "mint_qualification_canary_authorization env nonce_hash app ap pid p url release now d =
     and_then (plan_adapter env url p) (\<lambda>a.
     and_then (plan_readings env a url p) (\<lambda>(fixture, url_hash, contract).
     and_then (case reconstruct_persisted_form_plan (qe_policy env) p of
                 Inl e \<Rightarrow> Inl (QualificationFault ''FORM_PLAN_BLOCKED'') | Inr dp \<Rightarrow> Inr dp) (\<lambda>dp.
     and_then (ensure (app = pl_application_id p \<and> ap_revision ap = pl_application_revision p
                  \<and> pl_invalidated_at p = None \<and> ready_for_permit_at dp (Aware now) = Some True
                  \<and> ap_selected_cv_hash ap = Some (pl_selected_cv_hash p))
                (QualificationFault ''FORM_PLAN_BLOCKED'')) (\<lambda>_.
     and_then (one_or_none (filter (\<lambda>(k, q). dry_run_matches app ap pid p a fixture contract url_hash release q)
                  (db_qualifications d))) (\<lambda>found.
     and_then (lift_opt (QualificationFault ''REAL_URL_DRY_RUN_REQUIRED'') found) (\<lambda>(dry, q).
     and_then (ensure (release \<noteq> [] \<and> length release \<le> 64) (QualificationFault ''BUILD_MISMATCH'')) (\<lambda>_.
     and_then (ensure (\<not> list_ex (\<lambda>(k, c). canary_active app now c) (db_canaries d))
                (QualificationFault ''CANARY_AUTHORIZATION_ACTIVE'')) (\<lambda>_.
       let expires = min (pl_expires_at p) (now + minutes 5); k = next_id (db_canaries d) in
       if expires \<le> now then Inl (QualificationFault ''CANARY_AUTHORIZATION_EXPIRED'')
       else Inr (d\<lparr>db_canaries := put_row k (new_canary env app ap pid p a dry nonce_hash contract url_hash
                       release now expires) (db_canaries d)\<rparr>, k)))))))))"

text \<open>\<open>any(not compare_digest(...))\<close> over the bindings, in order; the revisions and keys are numbers.\<close>

fun all_match :: "(fault + bool) list \<Rightarrow> fault + bool" where
  "all_match [] = Inr True"
| "all_match (Inl e # bs) = Inl e"
| "all_match (Inr b # bs) = (if b then all_match bs else Inr False)"

definition py_str :: "string option \<Rightarrow> string" where
  "py_str x = (case x of None \<Rightarrow> ''None'' | Some t \<Rightarrow> t)"

definition canary_bindings ::
  "canary_row \<Rightarrow> int \<Rightarrow> application \<Rightarrow> int \<Rightarrow> plan_row \<Rightarrow> adapter_descriptor \<Rightarrow> string \<Rightarrow> string \<Rightarrow> string
     \<Rightarrow> (fault + bool) list" where
  "canary_bindings c app ap pid p a contract url_hash release =
     [Inr (cy_application_id c = app), Inr (cy_application_revision c = ap_revision ap),
      Inr (cy_application_revision c = pl_application_revision p), Inr (cy_form_plan_id c = pid),
      compare_digest (cy_adapter_name c) (ad_platform a),
      compare_digest (cy_adapter_name c) (pl_adapter_name p),
      compare_digest (cy_adapter_version c) (ad_adapter_version a),
      compare_digest (cy_adapter_version c) (pl_adapter_version p),
      compare_digest (cy_selector_version c) (ad_selector_version a),
      compare_digest (cy_selector_version c) (pl_selector_version p),
      compare_digest (cy_contract_version c) (py_str (ad_execution_contract_version a)),
      compare_digest (cy_form_fingerprint c) (pl_fingerprint p),
      compare_digest (cy_form_contract_digest c) contract,
      compare_digest (cy_selected_cv_hash c) (pl_selected_cv_hash p),
      compare_digest (cy_selected_cv_hash c) (py_str (ap_selected_cv_hash ap)),
      compare_digest (cy_job_url_hash c) url_hash, compare_digest (cy_runner_release c) release]"

definition dry_run_current :: "int \<Rightarrow> string \<Rightarrow> string \<Rightarrow> qualification_row option \<Rightarrow> bool" where
  "dry_run_current pid fixture contract q =
     (case q of None \<Rightarrow> False
      | Some r \<Rightarrow> qr_invalidated_at r = None \<and> qr_tier r = QT_DRY_RUN_QUALIFIED
                  \<and> qr_fixture_digest r = fixture \<and> qr_form_plan_id r = pid
                  \<and> qr_form_contract_digest r = contract)"

definition canary_times :: "canary_row \<Rightarrow> bool \<Rightarrow> instant \<Rightarrow> fault + unit" where
  "canary_times c consumed now =
     (if now < cy_issued_at c then Inl (QualificationFault ''CANARY_AUTHORIZATION_NOT_YET_VALID'')
      else if cy_revoked_at c \<noteq> None \<or> cy_expires_at c \<le> now
      then Inl (QualificationFault ''CANARY_AUTHORIZATION_EXPIRED'')
      else if (cy_consumed_at c \<noteq> None) \<noteq> consumed
      then Inl (QualificationFault (if cy_consumed_at c \<noteq> None then ''CANARY_AUTHORIZATION_REPLAYED''
                                   else ''CANARY_NOT_CONSUMED''))
      else Inr ())"

definition validate_qualification_canary_authorization ::
  "adapter_env \<Rightarrow> int \<Rightarrow> string \<Rightarrow> int \<Rightarrow> application \<Rightarrow> int \<Rightarrow> plan_row \<Rightarrow> string \<Rightarrow> string \<Rightarrow> bool
     \<Rightarrow> instant \<Rightarrow> database \<Rightarrow> fault + canary_row" where
  "validate_qualification_canary_authorization env k digest app ap pid p url release consumed now d =
     and_then (lift_opt (QualificationFault ''CANARY_AUTHORIZATION_REQUIRED'')
        (case row (db_canaries d) k of None \<Rightarrow> None
         | Some c \<Rightarrow> if cy_authorization_digest c = digest then Some c else None)) (\<lambda>c.
     and_then (compare_digest (canary_digest env c) (cy_authorization_digest c)) (\<lambda>same.
     and_then (ensure same (QualificationFault ''CANARY_AUTHORIZATION_CHANGED'')) (\<lambda>_.
     and_then (canary_times c consumed now) (\<lambda>_.
     and_then (plan_adapter env url p) (\<lambda>a.
     and_then (plan_readings env a url p) (\<lambda>(fixture, url_hash, contract).
     and_then (all_match (canary_bindings c app ap pid p a contract url_hash release)) (\<lambda>bound.
     and_then (ensure bound (QualificationFault ''CANARY_AUTHORIZATION_CHANGED'')) (\<lambda>_.
     and_then (ensure (dry_run_current pid fixture contract (row (db_qualifications d) (cy_dry_run_id c)))
                (QualificationFault ''REAL_URL_DRY_RUN_REQUIRED'')) (\<lambda>_.
       Inr c)))))))))"

definition consume_qualification_canary_authorization :: "canary_row \<Rightarrow> instant \<Rightarrow> fault + canary_row" where
  "consume_qualification_canary_authorization c now =
     (if cy_consumed_at c \<noteq> None then Inl (QualificationFault ''CANARY_AUTHORIZATION_REPLAYED'')
      else Inr (c\<lparr>cy_consumed_at := Some now\<rparr>))"

definition canary_spent :: "canary_row \<Rightarrow> bool" where
  "canary_spent c \<longleftrightarrow> cy_consumed_at c \<noteq> None"

interpretation canary_use: one_use canary_spent consume_qualification_canary_authorization
  by unfold_locales
     (auto simp: canary_spent_def consume_qualification_canary_authorization_def split: if_splits)

definition descriptor_for_validated_canary ::
  "adapter_env \<Rightarrow> canary_row \<Rightarrow> string \<Rightarrow> plan_row \<Rightarrow> adapter_descriptor option" where
  "descriptor_for_validated_canary env c url p =
     (case adapter_for_url env url of
        None \<Rightarrow> None
      | Some a \<Rightarrow>
          (if \<not> descriptor_matches_plan a p \<or> cy_adapter_name c \<noteq> ad_platform a
              \<or> cy_adapter_version c \<noteq> ad_adapter_version a \<or> cy_selector_version c \<noteq> ad_selector_version a
              \<or> Some (cy_contract_version c) \<noteq> ad_execution_contract_version a
              \<or> cy_form_fingerprint c \<noteq> pl_fingerprint p
           then None
           else Some (a\<lparr>ad_qualification := QT_LIVE_CANARY_QUALIFIED,
                        ad_qualified_form_scope := [pl_fingerprint p]\<rparr>)))"

section \<open>Lemmas\<close>

lemma registry_not_live: "a \<in> set registered_adapters \<Longrightarrow> \<not> allows_final_execution a"
  by (auto simp: registered_adapters_def allows_final_execution_def browser_adapter_def disabled_adapter_def)

lemma registry_platform_clean:
  "a \<in> set registered_adapters \<Longrightarrow> py_lower (strip (ad_platform a)) = ad_platform a"
proof -
  have "list_all (\<lambda>a. py_lower (strip (ad_platform a)) = ad_platform a) registered_adapters" by code_simp
  then show "a \<in> set registered_adapters \<Longrightarrow> py_lower (strip (ad_platform a)) = ad_platform a"
    by (simp add: list_all_iff)
qed

lemma adapter_for_platform_Some:
  "adapter_for_platform n = Some a \<Longrightarrow> a \<in> set registered_adapters \<and> ad_platform a = py_lower (strip n)"
  by (auto simp: adapter_for_platform_def find_Some_iff)

lemma detected_clean: "py_lower (strip (detect_platform env u)) = detect_platform env u"
proof -
  have fixed: "py_lower (strip ''greenhouse'') = ''greenhouse''" "py_lower (strip ''ashby'') = ''ashby''"
    "py_lower (strip ''smartrecruiters'') = ''smartrecruiters''" "py_lower (strip ''unknown'') = ''unknown''"
    "py_lower (strip ''generic_portal'') = ''generic_portal''"
    by code_simp+
  show ?thesis
    by (auto simp: detect_platform_def Let_def fixed find_Some_iff registry_platform_clean
             split: option.splits)
qed

lemma all_match_True: "all_match bs = Inr True \<longleftrightarrow> (\<forall>b \<in> set bs. b = Inr True)"
  by (induction bs rule: all_match.induct) auto

lemma plan_adapter_ok:
  "plan_adapter env u p = Inr a \<Longrightarrow> adapter_for_url env u = Some a \<and> descriptor_matches_plan a p"
  by (auto simp: plan_adapter_def split: option.splits if_splits)

lemma new_canary_digest:
  "canary_digest env (new_canary env app ap pid p a dry nonce contract uh release now e) =
     cy_authorization_digest (new_canary env app ap pid p a dry nonce contract uh release now e)"
  by (simp add: new_canary_def Let_def canary_digest_def authorization_payload_def)

lemma canary_validatedE:
  assumes "validate_qualification_canary_authorization env k digest app ap pid p u release consumed now d = Inr c"
  obtains a fixture url_hash contract where "row (db_canaries d) k = Some c"
    "cy_authorization_digest c = digest" "canary_digest env c = digest" "canary_times c consumed now = Inr ()"
    "adapter_for_url env u = Some a" "descriptor_matches_plan a p"
    "plan_readings env a u p = Inr (fixture, url_hash, contract)"
    "all_match (canary_bindings c app ap pid p a contract url_hash release) = Inr True"
    "dry_run_current pid fixture contract (row (db_qualifications d) (cy_dry_run_id c))"
  using assms unfolding validate_qualification_canary_authorization_def
  by (elim and_then_okE)
     (auto simp: lift_opt_def ensure_def compare_digest_def dest!: plan_adapter_ok
           elim!: and_then_okE split: option.splits if_splits)

lemma canary_okD:
  assumes "canary_times c consumed now = Inr ()"
  shows "cy_issued_at c \<le> now" "now < cy_expires_at c" "cy_revoked_at c = None"
    "cy_consumed_at c \<noteq> None \<longleftrightarrow> consumed"
  using assms by (auto simp: canary_times_def split: if_splits)

text \<open>The texts a canary row is compared by.\<close>

definition ascii_canary :: "canary_row \<Rightarrow> bool" where
  "ascii_canary c \<longleftrightarrow>
     list_all is_ascii
       [cy_authorization_digest c, cy_adapter_name c, cy_adapter_version c, cy_selector_version c,
        cy_contract_version c, cy_form_fingerprint c, cy_form_contract_digest c, cy_selected_cv_hash c,
        cy_job_url_hash c, cy_runner_release c]"

lemma mintE:
  assumes "mint_qualification_canary_authorization env nonce app ap pid p u release now d = Inr (d', k)"
  obtains a fixture url_hash contract dry q where "adapter_for_url env u = Some a"
    "descriptor_matches_plan a p" "plan_readings env a u p = Inr (fixture, url_hash, contract)"
    "app = pl_application_id p" "ap_revision ap = pl_application_revision p" "pl_invalidated_at p = None"
    "ap_selected_cv_hash ap = Some (pl_selected_cv_hash p)" "(dry, q) \<in> set (db_qualifications d)"
    "dry_run_matches app ap pid p a fixture contract url_hash release q"
    "\<not> list_ex (\<lambda>(k, c). canary_active app now c) (db_canaries d)"
    "k = next_id (db_canaries d)" "now < min (pl_expires_at p) (now + minutes 5)"
    "d' = d\<lparr>db_canaries := put_row k (new_canary env app ap pid p a dry nonce contract url_hash
           release now (min (pl_expires_at p) (now + minutes 5))) (db_canaries d)\<rparr>"
proof -
  have one: "x \<in> set xs" if "one_or_none xs = Inr (Some x)" for x :: "int \<times> qualification_row" and xs
    using that by (simp add: one_or_none_ok)
  from assms show thesis
    unfolding mint_qualification_canary_authorization_def
    by (elim and_then_okE)
       (auto simp: lift_opt_def ensure_def Let_def elim!: and_then_okE dest!: plan_adapter_ok one
             split: option.splits if_splits intro!: that)
qed

lemma new_canary_matches:
  assumes "descriptor_matches_plan a p" and "ap_revision ap = pl_application_revision p"
    and "ap_selected_cv_hash ap = Some (pl_selected_cv_hash p)"
    and "ascii_canary (new_canary env app ap pid p a dry nonce contract url_hash release now e)"
  shows "all_match (canary_bindings (new_canary env app ap pid p a dry nonce contract url_hash release now e)
     app ap pid p a contract url_hash release) = Inr True"
  unfolding all_match_True canary_bindings_def using assms
  by (simp add: new_canary_def Let_def
        descriptor_matches_plan_def ascii_canary_def py_str_def two_phase_contract_def or_empty_def)

section \<open>Properties\<close>

text \<open>
  An adapter in the code base is never by itself allowed to press a final button. Whatever URL
  detection resolves to is an entry of the committed registry for the detected platform, and no entry
  of that registry allows final execution.
\<close>

theorem registry_never_executes:
  "case adapter_for_url env u of
     None \<Rightarrow> True
   | Some a \<Rightarrow> a \<in> set registered_adapters \<and> ad_platform a = detect_platform env u
               \<and> \<not> allows_final_execution a \<and> (\<forall>fp. \<not> qualifies_form_fingerprint fp a)"
proof (cases "adapter_for_url env u")
  case (Some a)
  from adapter_for_platform_Some[OF Some[unfolded adapter_for_url_def]]
  have a: "a \<in> set registered_adapters" "ad_platform a = detect_platform env u" by (simp_all add: detected_clean)
  from a(1) have "ad_qualified_form_scope a = []"
    by (auto simp: registered_adapters_def browser_adapter_def disabled_adapter_def)
  with Some a registry_not_live[OF a(1)] show ?thesis by (simp add: qualifies_form_fingerprint_def)
qed simp

text \<open>
  C38: a canary authorisation that validates elevates one adapter for one form. The row is inside its
  lifetime, not revoked and not yet consumed, its digest matches its contents, it names exactly this
  application revision, plan and CV and rests on a current dry run of the same plan; the descriptor
  it yields allows final execution and qualifies the plan's fingerprint and no other.
\<close>

theorem canary_authorises_one_form:
  assumes "validate_qualification_canary_authorization env k digest app ap pid p u release False now d = Inr c"
    and "descriptor_for_validated_canary env c u p = Some a" and "pl_fingerprint p \<noteq> []"
  shows "row (db_canaries d) k = Some c \<and> canary_digest env c = digest
    \<and> cy_issued_at c \<le> now \<and> now < cy_expires_at c \<and> cy_revoked_at c = None \<and> \<not> canary_spent c
    \<and> cy_application_id c = app \<and> cy_application_revision c = ap_revision ap \<and> cy_form_plan_id c = pid
    \<and> cy_selected_cv_hash c = py_str (ap_selected_cv_hash ap) \<and> cy_runner_release c = release
    \<and> (\<exists>q. row (db_qualifications d) (cy_dry_run_id c) = Some q \<and> qr_tier q = QT_DRY_RUN_QUALIFIED
           \<and> qr_invalidated_at q = None \<and> qr_form_plan_id q = pid)
    \<and> allows_final_execution a \<and> ad_platform a = pl_adapter_name p
    \<and> (\<forall>fp. qualifies_form_fingerprint fp a \<longleftrightarrow> strip fp = pl_fingerprint p)"
proof -
  from assms(1) obtain a0 fixture uh contract where c: "row (db_canaries d) k = Some c"
    "canary_digest env c = digest" "canary_times c False now = Inr ()"
    and b: "all_match (canary_bindings c app ap pid p a0 contract uh release) = Inr True"
    and q: "dry_run_current pid fixture contract (row (db_qualifications d) (cy_dry_run_id c))"
    by (elim canary_validatedE)
  have b': "cy_application_id c = app" "cy_application_revision c = ap_revision ap" "cy_form_plan_id c = pid"
    "cy_selected_cv_hash c = py_str (ap_selected_cv_hash ap)" "cy_runner_release c = release"
    using b unfolding all_match_True canary_bindings_def by (simp_all, metis)
  from q have q': "\<exists>q. row (db_qualifications d) (cy_dry_run_id c) = Some q \<and> qr_tier q = QT_DRY_RUN_QUALIFIED
       \<and> qr_invalidated_at q = None \<and> qr_form_plan_id q = pid"
    by (auto simp: dry_run_current_def split: option.splits)
  from assms(2) have a: "allows_final_execution a" "ad_platform a = pl_adapter_name p"
    "ad_qualified_form_scope a = [pl_fingerprint p]"
    by (auto simp: descriptor_for_validated_canary_def descriptor_matches_plan_def allows_final_execution_def
          allows_live_submission_def split: option.splits if_splits)
  have "qualifies_form_fingerprint fp a \<longleftrightarrow> strip fp = pl_fingerprint p" for fp
    using a(3) assms(3) by (auto simp: qualifies_form_fingerprint_def)
  with c canary_okD[OF c(3)] b' q' a(1,2) show ?thesis by (simp add: canary_spent_def)
qed

text \<open>
  Minting is usable, short-lived and exclusive. It requires that no other authorisation of the
  application is active, and the row it creates validates, unconsumed, for the same application, plan,
  URL and release at every time from issue until it expires, at most five minutes later and no later
  than the plan.
\<close>

theorem minted_canary_validates:
  assumes "mint_qualification_canary_authorization env nonce app ap pid p u release now d = Inr (d', k)"
    and "\<forall>c. row (db_canaries d') k = Some c \<longrightarrow> ascii_canary c"
    and "distinct (map fst (db_qualifications d))"
  shows "\<exists>c. row (db_canaries d') k = Some c \<and> now < cy_expires_at c
     \<and> cy_expires_at c \<le> now + minutes 5 \<and> cy_expires_at c \<le> pl_expires_at p
     \<and> row (db_canaries d) k = None \<and> (\<forall>(j, x) \<in> set (db_canaries d). \<not> canary_active app now x)
     \<and> (\<forall>t. now \<le> t \<and> t < cy_expires_at c \<longrightarrow>
           validate_qualification_canary_authorization env k (cy_authorization_digest c) app ap pid p u
             release False t d' = Inr c)"
proof -
  from assms(1) obtain a fixture uh contract dry q where m: "adapter_for_url env u = Some a"
    "descriptor_matches_plan a p" "plan_readings env a u p = Inr (fixture, uh, contract)"
    "ap_revision ap = pl_application_revision p" "ap_selected_cv_hash ap = Some (pl_selected_cv_hash p)"
    "(dry, q) \<in> set (db_qualifications d)" "dry_run_matches app ap pid p a fixture contract uh release q"
    "\<not> list_ex (\<lambda>(k, c). canary_active app now c) (db_canaries d)"
    "k = next_id (db_canaries d)" "now < min (pl_expires_at p) (now + minutes 5)"
    and d': "d' = d\<lparr>db_canaries := put_row k (new_canary env app ap pid p a dry nonce contract uh
           release now (min (pl_expires_at p) (now + minutes 5))) (db_canaries d)\<rparr>"
    by (elim mintE)
  let ?c = "new_canary env app ap pid p a dry nonce contract uh release now
    (min (pl_expires_at p) (now + minutes 5))"
  have c: "row (db_canaries d') k = Some ?c" by (simp add: d' db_simps)
  with assms(2) have asc: "ascii_canary ?c" by blast
  have dig: "is_ascii (cy_authorization_digest ?c)" using asc by (simp add: ascii_canary_def)
  have dry: "dry_run_current pid fixture contract (row (db_qualifications d') (cy_dry_run_id ?c))"
    using set_row[OF assms(3) m(6)] m(7)
    by (simp add: d' new_canary_def Let_def dry_run_current_def dry_run_matches_def)
  have ad: "plan_adapter env u p = Inr a" using m(1,2) by (simp add: plan_adapter_def)
  have "validate_qualification_canary_authorization env k (cy_authorization_digest ?c) app ap pid p u
      release False t d' = Inr ?c" if "now \<le> t" "t < cy_expires_at ?c" for t
  proof -
    have "canary_times ?c False t = Inr ()" using that by (simp add: canary_times_def new_canary_def Let_def not_le)
    with c dig dry ad m(3) new_canary_matches[OF m(2,4,5) asc] show ?thesis
      by (simp add: validate_qualification_canary_authorization_def lift_opt_def ensure_def
            new_canary_digest compare_digest_def)
  qed
  with c m(8-10) show ?thesis
    by (intro exI[of _ ?c]) (auto simp: new_canary_def Let_def next_id_fresh list_ex_iff)
qed

section \<open>A concrete canary\<close>

definition sample_adapter_env :: adapter_env where
  "sample_adapter_env =
     \<lparr>qe_hostname = (\<lambda>u. Some (Some ''boards.greenhouse.io'')), qe_greenhouse = (\<lambda>u. True),
      qe_ashby = (\<lambda>u. False), qe_smartrecruiters = (\<lambda>u. False),
      qe_fixture_digest = (\<lambda>a. Some sample_hash), qe_contract_digest = (\<lambda>p. Some sample_hash),
      qe_url_hash = (\<lambda>u. Some sample_hash), qe_stable_digest = (\<lambda>c. sample_hash),
      qe_policy = sample_policy, qe_trace_digest = (\<lambda>t. sample_hash), qe_runtime = (''r1'', True)\<rparr>"

definition canary_plan :: plan_row where
  "canary_plan = sample_plan_row\<lparr>pl_adapter_version := ''1.0.0'',
     pl_selector_version := ''greenhouse-candidate-v9''\<rparr>"

definition sample_dry_run :: qualification_row where
  "sample_dry_run =
     \<lparr>qr_tier = QT_DRY_RUN_QUALIFIED, qr_adapter_name = ''greenhouse'', qr_adapter_version = ''1.0.0'',
      qr_selector_version = ''greenhouse-candidate-v9'', qr_contract_version = two_phase_contract,
      qr_form_fingerprint = sample_hash, qr_form_contract_digest = sample_hash,
      qr_fixture_digest = sample_hash, qr_application_id = 7, qr_application_revision = 2,
      qr_form_plan_id = 3, qr_attempt_id = None, qr_job_url_hash = sample_hash,
      qr_evidence_digest = sample_hash, qr_runner_release = ''r1'',
      qr_qualified_at = 1, qr_invalidated_at = None, qr_invalidation_reason = None\<rparr>"

definition canary_db :: database where
  "canary_db = sample_db\<lparr>db_plans := [(3, canary_plan)], db_qualifications := [(1, sample_dry_run)]\<rparr>"

definition sample_canary :: canary_row where
  "sample_canary = new_canary sample_adapter_env 7 sample_application 3 canary_plan
     (the (adapter_for_url sample_adapter_env [])) 1 sample_hash sample_hash sample_hash ''r1'' 20 (minutes 5 + 20)"

lemma sample_mint:
  "mint_qualification_canary_authorization sample_adapter_env sample_hash 7 sample_application 3 canary_plan
     ''u'' ''r1'' 20 canary_db = Inr (canary_db\<lparr>db_canaries := [(1, sample_canary)]\<rparr>, 1)"
  by code_simp

lemma sample_canary_ascii: "ascii_canary sample_canary"
  by code_simp

theorem minted_canary_validates_witness:
  "validate_qualification_canary_authorization sample_adapter_env 1 (cy_authorization_digest sample_canary) 7
     sample_application 3 canary_plan ''u'' ''r1'' False 30 (canary_db\<lparr>db_canaries := [(1, sample_canary)]\<rparr>)
     = Inr sample_canary"
proof -
  let ?d = "canary_db\<lparr>db_canaries := [(1, sample_canary)]\<rparr>"
  have r: "row (db_canaries ?d) 1 = Some sample_canary" by (simp add: row_def)
  have d: "distinct (map fst (db_qualifications canary_db))" by (simp add: canary_db_def)
  have "\<forall>c. row (db_canaries ?d) 1 = Some c \<longrightarrow> ascii_canary c" using r sample_canary_ascii by simp
  from minted_canary_validates[OF sample_mint this d] r have
    "\<forall>t. 20 \<le> t \<and> t < cy_expires_at sample_canary \<longrightarrow>
        validate_qualification_canary_authorization sample_adapter_env 1 (cy_authorization_digest sample_canary) 7
          sample_application 3 canary_plan ''u'' ''r1'' False t ?d = Inr sample_canary" by auto
  moreover have "cy_expires_at sample_canary = minutes 5 + 20" by (simp add: sample_canary_def new_canary_def Let_def)
  ultimately show ?thesis by (simp add: minutes_def seconds_def)
qed

lemma sample_validated:
  "validate_qualification_canary_authorization sample_adapter_env 1 (cy_authorization_digest sample_canary) 7
     sample_application 3 canary_plan ''u'' ''r1'' False 30 (canary_db\<lparr>db_canaries := [(1, sample_canary)]\<rparr>)
     = Inr sample_canary"
  by code_simp

theorem canary_authorises_one_form_witness:
  "\<exists>a. descriptor_for_validated_canary sample_adapter_env sample_canary ''u'' canary_plan = Some a
     \<and> allows_final_execution a \<and> \<not> qualifies_form_fingerprint ''other'' a"
proof -
  have "descriptor_for_validated_canary sample_adapter_env sample_canary ''u'' canary_plan \<noteq> None"
    by code_simp
  then obtain a where a: "descriptor_for_validated_canary sample_adapter_env sample_canary ''u'' canary_plan = Some a" by blast
  have fp: "pl_fingerprint canary_plan \<noteq> []" by code_simp
  have "strip ''other'' \<noteq> pl_fingerprint canary_plan" by code_simp
  with canary_authorises_one_form[OF sample_validated a fp] a show ?thesis by blast
qed

end
