(* ===== verification/Adapter_Qualification.thy ===== *)
theory Adapter_Qualification
  imports Adapter_Authority
begin

text \<open>
  The qualification records of \<^verbatim>\<open>core/adapter_qualification_service.py\<close>: what a dry run and a confirmed
  canary record, which descriptor the current records support, and the invalidation of records whose
  build, adapter or fixtures have changed.
\<close>

section \<open>Readings\<close>

definition current_runner_release :: "adapter_env \<Rightarrow> string option" where
  "current_runner_release env =
     (case qe_runtime env of (r, current) \<Rightarrow>
        if r \<in> {[], ''unknown'', ''unavailable''} \<or> 64 < length r \<or> \<not> current then None else Some r)"

definition report_stems :: "string list" where
  "report_stems = [''workday'', ''greenhouse'', ''lever'', ''ashby'', ''smartrecruiters'']"

definition current_fixture_digest :: "adapter_env \<Rightarrow> adapter_descriptor \<Rightarrow> fault + string" where
  "current_fixture_digest env a =
     (if ad_platform a \<notin> set report_stems then Inl (QualificationFault ''ADAPTER_NOT_QUALIFIED'')
      else lift_opt (QualificationFault ''FIXTURE_EVIDENCE_CHANGED'') (qe_fixture_digest env a))"

definition fixture_evidence_digest :: "adapter_env \<Rightarrow> string \<Rightarrow> fault + string" where
  "fixture_evidence_digest env name =
     (case adapter_for_platform name of
        None \<Rightarrow> Inl (QualificationFault ''ADAPTER_NOT_QUALIFIED'')
      | Some a \<Rightarrow> current_fixture_digest env a)"

text \<open>The filter of \<open>_qualification_query\<close>.\<close>

definition qualification_query ::
  "adapter_descriptor \<Rightarrow> string \<Rightarrow> string \<Rightarrow> qualification_tier option \<Rightarrow> qualification_row \<Rightarrow> bool" where
  "qualification_query a fixture release tier q \<longleftrightarrow>
     qr_adapter_name q = ad_platform a \<and> qr_adapter_version q = ad_adapter_version a
     \<and> qr_selector_version q = ad_selector_version a
     \<and> Some (qr_contract_version q) = ad_execution_contract_version a \<and> qr_fixture_digest q = fixture
     \<and> qr_runner_release q = release \<and> qr_invalidated_at q = None
     \<and> (case tier of None \<Rightarrow> True | Some t \<Rightarrow> qr_tier q = t)"

definition qualification_records ::
  "adapter_descriptor \<Rightarrow> string \<Rightarrow> string \<Rightarrow> qualification_tier option \<Rightarrow> database \<Rightarrow> (int \<times> qualification_row) list"
where
  "qualification_records a fixture release tier d =
     filter (\<lambda>(k, q). qualification_query a fixture release tier q) (db_qualifications d)"

section \<open>Recording\<close>

definition qualification_trace_of :: "string \<Rightarrow> form_plan \<Rightarrow> qualification_trace" where
  "qualification_trace_of reason dp =
     \<lparr>qt_terminal_reason = reason, qt_selector_version = fp_selector_version dp,
      qt_form_fingerprint = fp_form_fingerprint dp, qt_field_types = map ff_type (fp_fields dp),
      qt_resolver_sources = map ad_provenance (fp_decisions dp),
      qt_attachment_verified = fp_attachment_verified dp, qt_blocker_codes = fp_blockers dp,
      qt_evidence_type = None\<rparr>"

definition flush_qualifications :: "database \<Rightarrow> fault + database" where
  "flush_qualifications d =
     (if qualifications_valid (db_qualifications d) then Inr d else Inl IntegrityError)"

definition add_qualification :: "qualification_row \<Rightarrow> qualification_trace \<Rightarrow> database \<Rightarrow> fault + database \<times> int" where
  "add_qualification q trace d =
     (let k = next_id (db_qualifications d);
          run = \<lparr>qn_selector_version = qr_selector_version q, qn_terminal_reason = qt_terminal_reason trace,
                 qn_trace = trace, qn_adapter_name = qr_adapter_name q, qn_adapter_version = qr_adapter_version q,
                 qn_tier = qr_tier q, qn_form_fingerprint = qr_form_fingerprint q,
                 qn_form_contract_digest = qr_form_contract_digest q, qn_fixture_digest = qr_fixture_digest q\<rparr>;
          m = db_automation d
      in and_then (flush_qualifications
           (d\<lparr>db_qualifications := put_row k q (db_qualifications d),
              db_automation := m\<lparr>am_runs := am_runs m @ [run]\<rparr>\<rparr>)) (\<lambda>d'. Inr (d', k)))"

definition dry_run_row ::
  "adapter_env \<Rightarrow> int \<Rightarrow> application \<Rightarrow> int \<Rightarrow> plan_row \<Rightarrow> adapter_descriptor \<Rightarrow> string \<Rightarrow> string \<Rightarrow> string
     \<Rightarrow> string \<Rightarrow> string \<Rightarrow> instant \<Rightarrow> qualification_row" where
  "dry_run_row env app ap pid p a fixture contract url_hash evidence release now =
     \<lparr>qr_tier = QT_DRY_RUN_QUALIFIED, qr_adapter_name = ad_platform a,
      qr_adapter_version = ad_adapter_version a, qr_selector_version = ad_selector_version a,
      qr_contract_version = or_empty (ad_execution_contract_version a),
      qr_form_fingerprint = pl_fingerprint p, qr_form_contract_digest = contract,
      qr_fixture_digest = fixture, qr_application_id = app, qr_application_revision = ap_revision ap,
      qr_form_plan_id = pid, qr_attempt_id = None, qr_job_url_hash = url_hash,
      qr_evidence_digest = evidence, qr_runner_release = release, qr_qualified_at = now,
      qr_invalidated_at = None, qr_invalidation_reason = None\<rparr>"

definition blocked_plan :: "'a option \<Rightarrow> fault + 'a" where
  "blocked_plan x = lift_opt (QualificationFault ''FORM_PLAN_BLOCKED'') x"

definition record_dry_run_qualification ::
  "adapter_env \<Rightarrow> int \<Rightarrow> application \<Rightarrow> int \<Rightarrow> plan_row \<Rightarrow> string \<Rightarrow> string \<Rightarrow> instant
     \<Rightarrow> database \<Rightarrow> fault + database \<times> int" where
  "record_dry_run_qualification env app ap pid p url release now d =
     and_then (plan_adapter env url p) (\<lambda>a.
     and_then (current_fixture_digest env a) (\<lambda>fixture.
     and_then (blocked_plan (qe_url_hash env url)) (\<lambda>url_hash.
     and_then (case reconstruct_persisted_form_plan (qe_policy env) p of
                 Inl e \<Rightarrow> Inl (QualificationFault ''FORM_PLAN_BLOCKED'') | Inr dp \<Rightarrow> Inr dp) (\<lambda>dp.
     and_then (blocked_plan (qe_contract_digest env p)) (\<lambda>contract.
     and_then (ensure (app = pl_application_id p \<and> ap_revision ap = pl_application_revision p
                  \<and> pl_invalidated_at p = None \<and> ready_for_permit_at dp (Aware now) = Some True)
                (QualificationFault ''FORM_PLAN_BLOCKED'')) (\<lambda>_.
     and_then (ensure (release \<noteq> [] \<and> length release \<le> 64) (QualificationFault ''BUILD_MISMATCH'')) (\<lambda>_.
     and_then (one_or_none (filter (\<lambda>(k, q). qr_application_id q = app
                    \<and> qr_application_revision q = ap_revision ap \<and> qr_form_plan_id q = pid
                    \<and> qr_form_fingerprint q = pl_fingerprint p)
                 (qualification_records a fixture release (Some QT_DRY_RUN_QUALIFIED) d))) (\<lambda>existing.
       case existing of
         Some (k, q) \<Rightarrow> Inr (d, k)
       | None \<Rightarrow>
           (let trace = qualification_trace_of ''DRY_RUN_QUALIFIED'' dp in
            add_qualification (dry_run_row env app ap pid p a fixture contract url_hash
              (qe_trace_digest env trace) release now) trace d)))))))))"

section \<open>Effective descriptors\<close>

definition elevated :: "qualification_tier \<Rightarrow> string list \<Rightarrow> adapter_descriptor \<Rightarrow> adapter_descriptor" where
  "elevated tier scope a = a\<lparr>ad_qualification := tier, ad_qualified_form_scope := scope\<rparr>"

definition newest_first :: "(int \<times> qualification_row) list \<Rightarrow> (int \<times> qualification_row) list" where
  "newest_first rs = sort_key (\<lambda>(k, q). - qr_qualified_at q) rs"

definition ok_or_none :: "'e + 'a \<Rightarrow> 'a option" where
  "ok_or_none x = (case x of Inl e \<Rightarrow> None | Inr v \<Rightarrow> Some v)"

definition effective_inspection_descriptor ::
  "adapter_env \<Rightarrow> string \<Rightarrow> database \<Rightarrow> adapter_descriptor option" where
  "effective_inspection_descriptor env url d =
     Option.bind (adapter_for_url env url) (\<lambda>a.
     Option.bind (ok_or_none (current_fixture_digest env a)) (\<lambda>fixture.
     Option.bind (current_runner_release env) (\<lambda>release.
       let rs = newest_first (qualification_records a fixture release None d) in
       if rs = [] then None
       else Some (elevated (if list_ex (\<lambda>(k, q). qr_tier q = QT_LIVE_CANARY_QUALIFIED) rs
                            then QT_LIVE_CANARY_QUALIFIED else QT_DRY_RUN_QUALIFIED)
                    (fromkeys (map (qr_form_fingerprint \<circ> snd) rs)) a))))"

definition live_records ::
  "adapter_descriptor \<Rightarrow> string \<Rightarrow> string \<Rightarrow> string \<Rightarrow> database \<Rightarrow> (int \<times> qualification_row) list" where
  "live_records a fixture release contract d =
     filter (\<lambda>(k, q). qr_form_contract_digest q = contract)
       (qualification_records a fixture release (Some QT_LIVE_CANARY_QUALIFIED) d)"

definition effective_live_descriptor_for_plan ::
  "adapter_env \<Rightarrow> string \<Rightarrow> plan_row \<Rightarrow> database \<Rightarrow> adapter_descriptor option" where
  "effective_live_descriptor_for_plan env url p d =
     Option.bind (ok_or_none (plan_adapter env url p)) (\<lambda>a.
     Option.bind (ok_or_none (current_fixture_digest env a)) (\<lambda>fixture.
     Option.bind (qe_contract_digest env p) (\<lambda>contract.
     Option.bind (current_runner_release env) (\<lambda>release.
       if live_records a fixture release contract d = [] then None
       else Some (elevated QT_LIVE_CANARY_QUALIFIED [pl_fingerprint p] a)))))"

definition scope_has_live_qualification ::
  "adapter_env \<Rightarrow> string \<Rightarrow> string \<Rightarrow> string \<Rightarrow> string \<Rightarrow> database \<Rightarrow> bool" where
  "scope_has_live_qualification env name adapter_version selector_version contract d =
     (case adapter_for_platform name of
        None \<Rightarrow> False
      | Some a \<Rightarrow>
          (if ad_adapter_version a \<noteq> adapter_version \<or> ad_selector_version a \<noteq> selector_version
              \<or> ad_execution_contract_version a \<noteq> Some two_phase_contract then False
           else case (ok_or_none (current_fixture_digest env a), current_runner_release env) of
                  (Some fixture, Some release) \<Rightarrow> live_records a fixture release contract d \<noteq> []
                | _ \<Rightarrow> False))"

definition effective_descriptor :: "adapter_env \<Rightarrow> string \<Rightarrow> database \<Rightarrow> adapter_descriptor \<Rightarrow> adapter_descriptor" where
  "effective_descriptor env release d a =
     (case ok_or_none (current_fixture_digest env a) of
        None \<Rightarrow> a
      | Some fixture \<Rightarrow>
          (let rs = qualification_records a fixture release None d;
               live = fromkeys (map (qr_form_fingerprint \<circ> snd)
                        (filter (\<lambda>(k, q). qr_tier q = QT_LIVE_CANARY_QUALIFIED) rs));
               inspected = fromkeys (map (qr_form_fingerprint \<circ> snd) rs)
           in if live \<noteq> [] then elevated QT_LIVE_CANARY_QUALIFIED live a
              else if inspected \<noteq> [] then elevated QT_DRY_RUN_QUALIFIED inspected a else a))"

definition effective_registered_descriptors :: "adapter_env \<Rightarrow> database \<Rightarrow> adapter_descriptor list" where
  "effective_registered_descriptors env d =
     (case current_runner_release env of
        None \<Rightarrow> registered_adapters
      | Some release \<Rightarrow> map (effective_descriptor env release d) registered_adapters)"

definition effective_canary_descriptor ::
  "adapter_env \<Rightarrow> attempt \<Rightarrow> application \<Rightarrow> int \<Rightarrow> plan_row \<Rightarrow> string \<Rightarrow> string \<Rightarrow> instant \<Rightarrow> database
     \<Rightarrow> fault + (canary_row \<times> adapter_descriptor) option" where
  "effective_canary_descriptor env a ap pid p url release now d =
     (case (at_authority_kind a, at_canary_authorization_id a, at_canary_authorization_digest a) of
        (AK_QUALIFICATION_CANARY, Some k, Some g) \<Rightarrow>
          (case validate_qualification_canary_authorization env k g (at_application_id a) ap pid p url release
                  True now d of
             Inl (QualificationFault r) \<Rightarrow> Inr None
           | Inl e \<Rightarrow> Inl e
           | Inr c \<Rightarrow> Inr (map_option (Pair c) (descriptor_for_validated_canary env c url p)))
      | _ \<Rightarrow> Inr None)"

section \<open>Promotion of a confirmed canary\<close>

definition employer_confirmed :: "attempt \<Rightarrow> bool" where
  "employer_confirmed a \<longleftrightarrow>
     at_stage a = FINISHED \<and> at_outcome a = Some CONFIRMED_SUBMITTED \<and> at_status a = SS_SUCCESS
     \<and> at_submitted_at a \<noteq> None \<and> at_final_action_at a \<noteq> None
     \<and> (case at_verification_kind a of Some (VK_EVIDENCE k) \<Rightarrow> True | _ \<Rightarrow> False)
     \<and> at_evidence_digest a \<noteq> None"

definition confirmed_in_order :: "attempt \<Rightarrow> instant \<Rightarrow> bool" where
  "confirmed_in_order a now =
     (case (at_final_action_at a, at_submitted_at a) of (Some f, Some s) \<Rightarrow> f \<le> s \<and> s \<le> now | _ \<Rightarrow> False)"

definition canary_evidence :: "int \<Rightarrow> attempt \<Rightarrow> plan_row \<Rightarrow> string \<Rightarrow> evidence_row \<Rightarrow> bool" where
  "canary_evidence i a p digest e \<longleftrightarrow>
     er_attempt_id e = i \<and> er_digest e = digest \<and> Some (VK_EVIDENCE (er_type e)) = at_verification_kind a
     \<and> er_form_fingerprint e = pl_fingerprint p \<and> Some (er_cv_hash e) = pl_attached_cv_hash p"

fun verification_text :: "verification_kind \<Rightarrow> string" where
  "verification_text (VK_EVIDENCE EMPLOYER_APPLICATION_ID) = ''employer_application_id''"
| "verification_text (VK_EVIDENCE API_RECEIPT) = ''api_receipt''"
| "verification_text (VK_EVIDENCE CANDIDATE_PORTAL_RECORD) = ''candidate_portal_record''"
| "verification_text (VK_EVIDENCE VISIBLE_POST_CLICK_CONFIRMATION) = ''visible_post_click_confirmation''"
| "verification_text VK_OPERATOR_CONFIRMED = ''operator_confirmed''"

definition live_row ::
  "int \<Rightarrow> attempt \<Rightarrow> int \<Rightarrow> plan_row \<Rightarrow> adapter_descriptor \<Rightarrow> canary_row \<Rightarrow> string \<Rightarrow> string \<Rightarrow> string \<Rightarrow> string
     \<Rightarrow> instant \<Rightarrow> qualification_row" where
  "live_row i a pid p ad c fixture contract evidence release now =
     \<lparr>qr_tier = QT_LIVE_CANARY_QUALIFIED, qr_adapter_name = ad_platform ad,
      qr_adapter_version = ad_adapter_version ad, qr_selector_version = ad_selector_version ad,
      qr_contract_version = or_empty (ad_execution_contract_version ad),
      qr_form_fingerprint = pl_fingerprint p, qr_form_contract_digest = contract,
      qr_fixture_digest = fixture, qr_application_id = at_application_id a,
      qr_application_revision = at_application_revision a, qr_form_plan_id = pid, qr_attempt_id = Some i,
      qr_job_url_hash = cy_job_url_hash c, qr_evidence_digest = evidence, qr_runner_release = release,
      qr_qualified_at = now, qr_invalidated_at = None, qr_invalidation_reason = None\<rparr>"

definition job_url_of :: "database \<Rightarrow> application \<Rightarrow> string" where
  "job_url_of d ap =
     (case row (db_jobs d) (ap_job_id ap) of None \<Rightarrow> []
      | Some j \<Rightarrow> or_text (jb_apply_url j) (jb_source_url j))"

text \<open>The checks of \<open>record_live_canary_confirmation\<close> up to the lookup of an existing record.\<close>

definition confirmed_canary ::
  "adapter_env \<Rightarrow> int \<Rightarrow> attempt \<Rightarrow> int \<Rightarrow> plan_row \<Rightarrow> string \<Rightarrow> string \<Rightarrow> instant \<Rightarrow> database
     \<Rightarrow> fault + canary_row \<times> adapter_descriptor \<times> string \<times> string" where
  "confirmed_canary env i a pid p evidence release now d =
     and_then (ensure (is_sha256 evidence) (QualificationFault ''EVIDENCE_INVALID'')) (\<lambda>_.
     and_then (ensure (employer_confirmed a) (QualificationFault ''EMPLOYER_EVIDENCE_REQUIRED'')) (\<lambda>_.
     and_then (compare_digest (or_empty (at_evidence_digest a)) evidence) (\<lambda>same.
     and_then (ensure (same \<and> confirmed_in_order a now) (QualificationFault ''EMPLOYER_EVIDENCE_REQUIRED'')) (\<lambda>_.
     and_then (ensure (list_ex (canary_evidence i a p evidence) (db_evidence d))
                (QualificationFault ''EMPLOYER_EVIDENCE_REQUIRED'')) (\<lambda>_.
     and_then (lift_opt AttributeFault (row (db_applications d) (at_application_id a))) (\<lambda>ap.
     and_then (effective_canary_descriptor env a ap pid p (job_url_of d ap) release now d) (\<lambda>found.
     and_then (lift_opt (QualificationFault ''CANARY_AUTHORIZATION_CHANGED'') found) (\<lambda>(c, ad).
     and_then (current_fixture_digest env ad) (\<lambda>fixture.
     and_then (lift_opt (PolicyFault ''FORM_PLAN_BLOCKED'') (qe_contract_digest env p)) (\<lambda>contract.
       Inr (c, ad, fixture, contract)))))))))))"

definition live_trace :: "attempt \<Rightarrow> form_plan \<Rightarrow> qualification_trace" where
  "live_trace a dp =
     (qualification_trace_of ''LIVE_CANARY_CONFIRMED'' dp)\<lparr>qt_evidence_type :=
        Some (take 64 (case at_verification_kind a of None \<Rightarrow> ''unknown'' | Some v \<Rightarrow> verification_text v))\<rparr>"

definition record_live_canary_confirmation ::
  "adapter_env \<Rightarrow> int \<Rightarrow> attempt \<Rightarrow> int \<Rightarrow> plan_row \<Rightarrow> string \<Rightarrow> string \<Rightarrow> instant \<Rightarrow> database
     \<Rightarrow> fault + database \<times> int" where
  "record_live_canary_confirmation env i a pid p evidence release now d =
     and_then (confirmed_canary env i a pid p evidence release now d) (\<lambda>(c, ad, fixture, contract).
     and_then (one_or_none (filter (\<lambda>(k, q). qr_attempt_id q = Some i) (db_qualifications d))) (\<lambda>existing.
       case existing of
         Some (k, q) \<Rightarrow> Inr (d, k)
       | None \<Rightarrow>
           and_then (reconstruct_persisted_form_plan (qe_policy env) p) (\<lambda>dp.
             add_qualification (live_row i a pid p ad c fixture contract evidence release now)
               (live_trace a dp) d)))"

lemma add_qualificationE:
  assumes "add_qualification q trace d = Inr (d', k)"
  obtains runs where "k = next_id (db_qualifications d)" "qualifications_valid (db_qualifications d')"
    "d' = d\<lparr>db_qualifications := put_row k q (db_qualifications d),
              db_automation := (db_automation d)\<lparr>am_runs := runs\<rparr>\<rparr>"
  using assms by (auto simp: add_qualification_def flush_qualifications_def Let_def split: if_splits elim!: and_then_okE)

lemma confirmed_canaryD:
  assumes "confirmed_canary env i a pid p evidence release now d = Inr (c, ad, fixture, contract)"
  shows "employer_confirmed a" "confirmed_in_order a now" "at_evidence_digest a = Some evidence"
    "list_ex (canary_evidence i a p evidence) (db_evidence d)"
    "\<exists>ap. row (db_applications d) (at_application_id a) = Some ap
       \<and> effective_canary_descriptor env a ap pid p (job_url_of d ap) release now d = Inr (Some (c, ad))"
    "current_fixture_digest env ad = Inr fixture" "qe_contract_digest env p = Some contract"
proof -
  from assms have g: "employer_confirmed a" "compare_digest (or_empty (at_evidence_digest a)) evidence = Inr True"
    "confirmed_in_order a now" "list_ex (canary_evidence i a p evidence) (db_evidence d)"
    "\<exists>ap. row (db_applications d) (at_application_id a) = Some ap
       \<and> effective_canary_descriptor env a ap pid p (job_url_of d ap) release now d = Inr (Some (c, ad))"
    "current_fixture_digest env ad = Inr fixture" "qe_contract_digest env p = Some contract"
    unfolding confirmed_canary_def and_then_ok_iff by (auto simp: split_def and_then_ok_iff)
  then show "employer_confirmed a" "confirmed_in_order a now"
    "list_ex (canary_evidence i a p evidence) (db_evidence d)"
    "\<exists>ap. row (db_applications d) (at_application_id a) = Some ap
       \<and> effective_canary_descriptor env a ap pid p (job_url_of d ap) release now d = Inr (Some (c, ad))"
    "current_fixture_digest env ad = Inr fixture" "qe_contract_digest env p = Some contract"
    by blast+
  from g(1,2) show "at_evidence_digest a = Some evidence"
    by (auto simp: employer_confirmed_def compare_digest_def split: if_splits)
qed

lemma record_liveE:
  assumes "record_live_canary_confirmation env i a pid p evidence release now d = Inr (d', k)"
  obtains (existing) q where "d' = d" "(k, q) \<in> set (db_qualifications d)" "qr_attempt_id q = Some i"
  | (added) c ad fixture contract trace
    where "confirmed_canary env i a pid p evidence release now d = Inr (c, ad, fixture, contract)"
      "add_qualification (live_row i a pid p ad c fixture contract evidence release now) trace d = Inr (d', k)"
proof -
  from assms obtain c ad fixture contract found
    where c: "confirmed_canary env i a pid p evidence release now d = Inr (c, ad, fixture, contract)"
      and f: "one_or_none (filter (\<lambda>(k, q). qr_attempt_id q = Some i) (db_qualifications d)) = Inr found"
      and r: "(case found of Some (k, q) \<Rightarrow> Inr (d, k)
         | None \<Rightarrow> and_then (reconstruct_persisted_form_plan (qe_policy env) p) (\<lambda>dp.
             add_qualification (live_row i a pid p ad c fixture contract evidence release now)
               (live_trace a dp) d)) = Inr (d', k)"
    unfolding record_live_canary_confirmation_def
    by (elim and_then_okE, split prod.splits) (auto elim!: and_then_okE)
  show thesis
  proof (cases found)
    case None
    with r obtain dp where "add_qualification (live_row i a pid p ad c fixture contract evidence release now)
        (live_trace a dp) d = Inr (d', k)" by (auto simp: and_then_ok_iff)
    with c show thesis by (rule added)
  next
    case (Some x)
    with f have "[x] = filter (\<lambda>(k, q). qr_attempt_id q = Some i) (db_qualifications d)"
      by (simp add: one_or_none_ok)
    then have "x \<in> set (db_qualifications d) \<and> (case x of (k, q) \<Rightarrow> qr_attempt_id q = Some i)"
      by (intro filter_single) simp
    with Some r show thesis by (cases x) (auto intro: existing)
  qed
qed

section \<open>Invalidation\<close>

definition stale_reason :: "adapter_env \<Rightarrow> qualification_row \<Rightarrow> fault + string option" where
  "stale_reason env q =
     (case current_runner_release env of
        None \<Rightarrow> Inr (Some ''BUILD_MISMATCH'')
      | Some release \<Rightarrow>
          and_then (compare_digest (qr_runner_release q) release) (\<lambda>same.
            if \<not> same then Inr (Some ''BUILD_MISMATCH'')
            else case adapter_for_platform (qr_adapter_name q) of
                   None \<Rightarrow> Inr (Some ''ADAPTER_VERSION_CHANGED'')
                 | Some a \<Rightarrow>
                     (if ad_adapter_version a \<noteq> qr_adapter_version q
                         \<or> ad_selector_version a \<noteq> qr_selector_version q
                         \<or> ad_execution_contract_version a \<noteq> Some (qr_contract_version q)
                      then Inr (Some ''ADAPTER_VERSION_CHANGED'')
                      else case current_fixture_digest env a of
                             Inl e \<Rightarrow> Inr (Some ''FIXTURE_EVIDENCE_CHANGED'')
                           | Inr fixture \<Rightarrow>
                               and_then (compare_digest fixture (qr_fixture_digest q)) (\<lambda>b.
                                 Inr (if b then None else Some ''FIXTURE_EVIDENCE_CHANGED'')))))"

fun invalidate_rows ::
  "adapter_env \<Rightarrow> instant \<Rightarrow> qualification_row table \<Rightarrow> fault + qualification_row table \<times> int" where
  "invalidate_rows env now [] = Inr ([], 0)"
| "invalidate_rows env now ((k, q) # rs) =
     and_then (if qr_invalidated_at q \<noteq> None then Inr None else stale_reason env q) (\<lambda>reason.
     and_then (invalidate_rows env now rs) (\<lambda>(rs', n).
       case reason of
         None \<Rightarrow> Inr ((k, q) # rs', n)
       | Some r \<Rightarrow> Inr ((k, q\<lparr>qr_invalidated_at := Some now, qr_invalidation_reason := Some r\<rparr>) # rs', n + 1)))"

definition invalidate_stale_qualification_records ::
  "adapter_env \<Rightarrow> instant \<Rightarrow> database \<Rightarrow> fault + database \<times> int" where
  "invalidate_stale_qualification_records env now d =
     and_then (invalidate_rows env now (db_qualifications d)) (\<lambda>(rs, n).
       Inr (d\<lparr>db_qualifications := rs\<rparr>, n))"

section \<open>What unlocks a live adapter\<close>

text \<open>The operations that change qualification records, with every environment and at every time.\<close>

inductive qualification_step :: "adapter_env \<Rightarrow> database \<Rightarrow> database \<Rightarrow> bool" where
  dry_run: "record_dry_run_qualification env app ap pid p url release now d = Inr (d', k) \<Longrightarrow> qualification_step env d d'"
| live: "record_live_canary_confirmation env i a pid p evidence release now d = Inr (d', k) \<Longrightarrow> qualification_step env d d'"
| invalidate: "invalidate_stale_qualification_records env now d = Inr (d', n) \<Longrightarrow> qualification_step env d d'"

lemma newly_liveE:
  assumes "effective_live_descriptor_for_plan env url p d' = Some a" and "effective_live_descriptor_for_plan env url p d = None"
  obtains b fixture release contract where "live_records b fixture release contract d' \<noteq> []"
    "live_records b fixture release contract d = []"
proof -
  from assms(1) obtain b fixture release contract where
    c: "ok_or_none (plan_adapter env url p) = Some b" "ok_or_none (current_fixture_digest env b) = Some fixture"
      "qe_contract_digest env p = Some contract" "current_runner_release env = Some release"
    and l: "live_records b fixture release contract d' \<noteq> []"
    unfolding effective_live_descriptor_for_plan_def by (auto split: bind_splits if_splits)
  from assms(2) c have "live_records b fixture release contract d = []"
    by (simp add: effective_live_descriptor_for_plan_def split: if_splits)
  with l show thesis by (rule that)
qed

lemma add_other_tier:
  assumes "add_qualification q trace d = Inr (d', k)" and "qr_tier q \<noteq> QT_LIVE_CANARY_QUALIFIED"
  shows "live_records b fixture release contract d' = live_records b fixture release contract d"
  using assms(1)
proof (rule add_qualificationE)
  fix runs
  assume "k = next_id (db_qualifications d)"
    "d' = d\<lparr>db_qualifications := put_row k q (db_qualifications d), db_automation := (db_automation d)\<lparr>am_runs := runs\<rparr>\<rparr>"
  with assms(2) show ?thesis
    by (simp add: live_records_def qualification_records_def put_next qualification_query_def)
qed

lemma dry_run_never_live:
  assumes "record_dry_run_qualification env app ap pid p url release now d = Inr (d', k)"
  shows "live_records b fixture release' contract d' = live_records b fixture release' contract d"
proof -
  from assms have "d' = d \<or> (\<exists>q trace. qr_tier q = QT_DRY_RUN_QUALIFIED \<and> add_qualification q trace d = Inr (d', k))"
    unfolding record_dry_run_qualification_def Let_def
    by (elim and_then_okE) (force simp: dry_run_row_def split: option.splits prod.splits)
  then show ?thesis by (auto dest: add_other_tier)
qed

lemma invalidated_rows:
  assumes "invalidate_rows env now rs = Inr (rs', n)" and "(k, q) \<in> set rs'" and "qr_invalidated_at q = None"
  shows "(k, q) \<in> set rs"
  using assms
proof (induction rs arbitrary: rs' n)
  case (Cons x rs)
  obtain j y where x: "x = (j, y)" by (cases x)
  from Cons.prems(1)[unfolded x invalidate_rows.simps] obtain reason ys m where
    ys: "invalidate_rows env now rs = Inr (ys, m)"
    and r: "(case reason of None \<Rightarrow> Inr ((j, y) # ys, m)
       | Some r \<Rightarrow> Inr ((j, y\<lparr>qr_invalidated_at := Some now, qr_invalidation_reason := Some r\<rparr>) # ys, m + 1)) = (Inr (rs', n) :: fault + _)"
    by (elim and_then_okE) (auto split: prod.splits)
  from r Cons.prems(2,3) Cons.IH[OF ys] show ?case by (auto simp: x split: option.splits)
qed simp

lemma invalidation_never_live:
  assumes "invalidate_stale_qualification_records env now d = Inr (d', n)"
    and "live_records b fixture release contract d' \<noteq> []"
  shows "live_records b fixture release contract d \<noteq> []"
proof -
  from assms(1) obtain rs where "invalidate_rows env now (db_qualifications d) = Inr (rs, n)"
      "d' = d\<lparr>db_qualifications := rs\<rparr>"
    unfolding invalidate_stale_qualification_records_def by (elim and_then_okE) (auto split: prod.splits)
  with assms(2) show ?thesis
    by (auto simp: live_records_def qualification_records_def filter_empty_conv qualification_query_def
        dest!: invalidated_rows)
qed

section \<open>A concrete confirmation\<close>

definition canary_attempt :: attempt where
  "canary_attempt = sample_attempt\<lparr>at_stage := FINISHED, at_outcome := Some CONFIRMED_SUBMITTED, at_status := SS_SUCCESS,
     at_submitted_at := Some 40, at_final_action_at := Some 35, at_verification_kind := Some (VK_EVIDENCE API_RECEIPT),
     at_evidence_digest := Some sample_hash, at_authority_kind := AK_QUALIFICATION_CANARY,
     at_canary_authorization_id := Some 1, at_canary_authorization_digest := Some sample_hash\<rparr>"

definition canary_confirmed_db :: database where
  "canary_confirmed_db = canary_db\<lparr>db_attempts := [(5, canary_attempt)],
     db_canaries := [(1, sample_canary\<lparr>cy_consumed_at := Some 30\<rparr>)],
     db_evidence := [\<lparr>er_attempt_id = 5, er_type = API_RECEIPT, er_digest = sample_hash, er_employer_application_ref = None, er_receipt_ref = Some ''R-1'', er_portal_record_ref = None,
       er_form_fingerprint = sample_hash, er_cv_hash = sample_hash, er_observed_at = 40\<rparr>]\<rparr>"

definition promoted_db :: database where
  "promoted_db = (case record_live_canary_confirmation sample_adapter_env 5 canary_attempt 3 canary_plan sample_hash ''r1''
     45 canary_confirmed_db of Inl e \<Rightarrow> empty_db | Inr (d, k) \<Rightarrow> d)"

lemma canary_promotes:
  "record_live_canary_confirmation sample_adapter_env 5 canary_attempt 3 canary_plan sample_hash ''r1'' 45
     canary_confirmed_db = Inr (promoted_db, 2)"
  by code_simp

section \<open>Properties\<close>

text \<open>
  C19: only an employer's confirmation of a canary unlocks live submission. If a form had no live
  descriptor before an operation on the qualification records and has one after it, the operation recorded
  a canary attempt that finished as confirmed, with the evidence row of that attempt in the database and a
  consumed authorisation that validates for its form; recording a dry run or invalidating stale records
  never does.
\<close>

theorem live_needs_confirmed_canary:
  assumes "qualification_step env d d'"
    and "effective_live_descriptor_for_plan env url plan d = None"
    and "effective_live_descriptor_for_plan env url plan d' = Some ad"
  shows "\<exists>i a pid p evidence release now k c b ap.
    record_live_canary_confirmation env i a pid p evidence release now d = Inr (d', k)
    \<and> employer_confirmed a \<and> at_evidence_digest a = Some evidence
    \<and> list_ex (canary_evidence i a p evidence) (db_evidence d)
    \<and> row (db_applications d) (at_application_id a) = Some ap
    \<and> effective_canary_descriptor env a ap pid p (job_url_of d ap) release now d = Inr (Some (c, b))"
proof -
  obtain b fixture release contract where l: "live_records b fixture release contract d' \<noteq> []"
      "live_records b fixture release contract d = []" by (rule newly_liveE[OF assms(3,2)])
  from assms(1) show ?thesis
  proof (cases rule: qualification_step.cases)
    case (live i a pid p evidence release' now k)
    then show ?thesis
    proof (cases rule: record_liveE)
      case (added c ad' fx ct trace)
      show ?thesis using live confirmed_canaryD[OF added(1)] by blast
    qed (use l in simp)
  next
    case (dry_run app ap pid p url' release' now k)
    with l dry_run_never_live[OF dry_run] show ?thesis by simp
  next
    case (invalidate now n)
    from invalidation_never_live[OF invalidate l(1)] l(2) show ?thesis by simp
  qed
qed

theorem live_needs_confirmed_canary_witness:
  "\<exists>a. employer_confirmed a \<and> effective_live_descriptor_for_plan sample_adapter_env ''u'' canary_plan promoted_db \<noteq> None"
proof -
  have "effective_live_descriptor_for_plan sample_adapter_env ''u'' canary_plan canary_confirmed_db = None" by code_simp
  moreover have live: "effective_live_descriptor_for_plan sample_adapter_env ''u'' canary_plan promoted_db \<noteq> None" by code_simp
  then obtain ad where "effective_live_descriptor_for_plan sample_adapter_env ''u'' canary_plan promoted_db = Some ad" by blast
  ultimately show ?thesis
    using live_needs_confirmed_canary[OF qualification_step.live[OF canary_promotes]] live by blast
qed

end
