(* ===== verification/Policy_Service.thy ===== *)
theory Policy_Service
  imports Adapter_Qualification
begin

text \<open>
  The service of \<^verbatim>\<open>core/automation_policy_service.py\<close>: activation and revocation of signed policy
  revisions, the kill switch, the evaluation of one application under the active policy, and the check
  of a decision before a permit is issued and at the commit boundary. Where both sides are hexadecimal
  digests that the code has computed or validated, \<open>hmac.compare_digest\<close> is equality.
\<close>

section \<open>Environment\<close>

record job_data =
  jd_title :: string
  jd_company :: string
  jd_location :: string
  jd_employment_type :: string
  jd_seniority :: string
  jd_description :: string
  jd_requirements :: string
  jd_apply_url :: string
  jd_source_url :: string
  jd_keywords :: "string list"

text \<open>
  The private files a policy is bound to: whether the routing configuration exists, what loading it
  gives (the configured CVs, its digest and the digest of the CV files; \<open>None\<close> when loading raises) and
  the fit qualification (\<open>None\<close> when it cannot be read).
\<close>

record artifact_files =
  af_routing_is_file :: bool
  af_routing :: "(string list \<times> string \<times> string) option"
  af_qualification :: "fit_qualification option"

record artifact_bindings =
  ab_role_families :: "string list"
  ab_routing_config_digest :: string
  ab_cv_manifest_digest :: string
  ab_fit_qualification_digest :: string

text \<open>
  A time zone: the wall clock of an instant and the instant of a wall clock, both counted in
  microseconds, days beginning at multiples of a day.
\<close>

record zone =
  zn_local :: "instant \<Rightarrow> int"
  zn_instant :: "int \<Rightarrow> instant"

text \<open>
  What the service reads from elsewhere: the signing identity (the reason it cannot be loaded, or its
  key), the signature scheme, the digests, the private files and their immutable snapshot (whether it can
  be made, whether it is intact, its identity, and whether it holds a CV with a given hash), and the zone
  of the active hours.
\<close>

record policy_env =
  pe_adapter :: adapter_env
  pe_identity :: "string + string"
  pe_sign :: "auto_policy \<Rightarrow> string"
  pe_verify :: "auto_policy \<Rightarrow> string \<Rightarrow> bool"
  pe_policy_digest :: "auto_policy \<Rightarrow> string"
  pe_decision_digest :: "auto_decision \<Rightarrow> string"
  pe_fit_digest :: "fit_decision \<Rightarrow> string"
  pe_qualification_digest :: "fit_qualification \<Rightarrow> string"
  pe_answer_digest :: "int \<Rightarrow> (int \<times> answer_row) list \<Rightarrow> string"
  pe_job_digest :: "job_data \<Rightarrow> string"
  pe_sha256 :: "string \<Rightarrow> string"
  pe_files :: artifact_files
  pe_snapshot_made :: "auto_policy \<Rightarrow> bool"
  pe_snapshot_ok :: "auto_policy \<Rightarrow> bool"
  pe_snapshot_id :: "auto_policy \<Rightarrow> string"
  pe_snapshot_cv :: "auto_policy \<Rightarrow> string \<Rightarrow> string \<Rightarrow> bool"
  pe_zone :: zone

text \<open>\<open>AutomationPolicyError\<close> bounds its reason.\<close>

definition policy_error :: "string \<Rightarrow> fault" where
  "policy_error r = PolicyFault (if reason_token r then r else ''AUTOMATION_POLICY_INVALID'')"

abbreviation refuse :: "string \<Rightarrow> fault + 'a" where
  "refuse r \<equiv> Inl (policy_error r)"

abbreviation demand :: "bool \<Rightarrow> string \<Rightarrow> fault + unit" where
  "demand b r \<equiv> ensure b (policy_error r)"

definition set_automation :: "(automation_tables \<Rightarrow> automation_tables) \<Rightarrow> database \<Rightarrow> database" where
  "set_automation f d = d\<lparr>db_automation := f (db_automation d)\<rparr>"

definition flush_automation :: "database \<Rightarrow> fault + database" where
  "flush_automation d = (if automation_valid (db_automation d) then Inr d else Inl IntegrityError)"

section \<open>Digests and bindings\<close>

definition company_identity_digest :: "policy_env \<Rightarrow> string \<Rightarrow> string" where
  "company_identity_digest env company = pe_sha256 env (join_words (split_words [] (casefold company)))"

definition answer_manifest :: "policy_env \<Rightarrow> int \<Rightarrow> database \<Rightarrow> (int \<times> answer_row) list" where
  "answer_manifest env v d =
     map (\<lambda>(k, r). (k, r\<lparr>aw_answer_json := pe_sha256 env (aw_answer_json r)\<rparr>))
       (sort_key fst (filter (\<lambda>(k, r). aw_profile_version r = v \<and> aw_revoked_at r = None)
          (am_answers (db_automation d))))"

definition confirmed_answer_revision :: "policy_env \<Rightarrow> int \<Rightarrow> database \<Rightarrow> string" where
  "confirmed_answer_revision env v d = pe_answer_digest env v (answer_manifest env v d)"

definition latest_profile_version :: "database \<Rightarrow> int option" where
  "latest_profile_version d =
     (case am_profiles (db_automation d) of [] \<Rightarrow> None | v # vs \<Rightarrow> Some (fold max vs v))"

definition current_artifact_bindings :: "policy_env \<Rightarrow> fault + artifact_bindings" where
  "current_artifact_bindings env =
     (let files = pe_files env in
      if \<not> af_routing_is_file files then refuse ''CV_ROUTING_CONFIG_MISSING''
      else case af_routing files of
             None \<Rightarrow> refuse ''CV_ROUTING_CONFIG_INVALID''
           | Some (roles, config_digest, manifest_digest) \<Rightarrow>
               (case af_qualification files of
                  None \<Rightarrow> refuse ''FIT_QUALIFICATION_MISSING_OR_MISMATCHED''
                | Some q \<Rightarrow>
                    (if \<not> fit_qualification_valid q \<or> \<not> qualification_matches q config_digest manifest_digest
                     then refuse ''FIT_QUALIFICATION_MISSING_OR_MISMATCHED''
                     else if \<not> fq_qualified q \<or> fq_holdout_precision q < 95 / 100
                     then refuse ''FIT_QUALIFICATION_NOT_PASSED''
                     else Inr \<lparr>ab_role_families = roles, ab_routing_config_digest = config_digest,
                                ab_cv_manifest_digest = manifest_digest,
                                ab_fit_qualification_digest = pe_qualification_digest env q\<rparr>)))"

definition require_current_artifact_bindings :: "policy_env \<Rightarrow> auto_policy \<Rightarrow> fault + unit" where
  "require_current_artifact_bindings env p =
     (case current_artifact_bindings env of
        Inl e \<Rightarrow> refuse ''FIT_QUALIFICATION_CHANGED''
      | Inr b \<Rightarrow>
          demand (ab_routing_config_digest b = po_routing_config_digest p
                  \<and> ab_cv_manifest_digest b = po_cv_manifest_digest p
                  \<and> ab_fit_qualification_digest b = po_fit_qualification_digest p
                  \<and> pe_snapshot_ok env p) ''FIT_QUALIFICATION_CHANGED'')"

section \<open>Policy revisions\<close>

definition signature_text :: "string \<Rightarrow> bool" where
  "signature_text s \<longleftrightarrow>
     length s = 86
     \<and> list_all (\<lambda>c. is_upper c \<or> is_lower c \<or> is_digit c \<or> c = CHR ''_'' \<or> c = CHR ''-'') s"

definition policy_from_record :: "policy_env \<Rightarrow> policy_row \<Rightarrow> fault + signed_policy" where
  "policy_from_record env r =
     (case (pr_payload_json r, uuid_text (pr_signing_key_id r)) of
        (Encoded p, Some key) \<Rightarrow>
          (if \<not> policy_valid p \<or> \<not> signature_text (pr_signature r) then refuse ''AUTOMATION_POLICY_INVALID''
           else if pe_policy_digest env p \<noteq> pr_payload_digest r \<or> po_policy_id p \<noteq> pr_policy_id r
                   \<or> po_revision p \<noteq> pr_revision r \<or> po_activated_at p \<noteq> pr_activated_at r
                   \<or> po_expires_at p \<noteq> pr_expires_at r
           then refuse ''AUTOMATION_POLICY_BINDING_MISMATCH''
           else Inr \<lparr>sp_key_id = key, sp_policy = p, sp_signature = pr_signature r\<rparr>)
      | _ \<Rightarrow> refuse ''AUTOMATION_POLICY_INVALID'')"

definition signing_identity :: "policy_env \<Rightarrow> fault + string" where
  "signing_identity env = (case pe_identity env of Inl e \<Rightarrow> refuse e | Inr k \<Rightarrow> Inr k)"

definition verified_policy :: "policy_env \<Rightarrow> policy_row \<Rightarrow> fault + signed_policy" where
  "verified_policy env r =
     and_then (signing_identity env) (\<lambda>k.
     and_then (policy_from_record env r) (\<lambda>s.
     and_then (demand (k = sp_key_id s) ''AUTOMATION_POLICY_SIGNING_KEY_CHANGED'') (\<lambda>_.
     and_then (demand (pe_verify env (sp_policy s) (sp_signature s)) ''AUTOMATION_POLICY_SIGNATURE_INVALID'') (\<lambda>_.
       Inr s))))"

definition active_policy_record :: "database \<Rightarrow> fault + (int \<times> policy_row) option" where
  "active_policy_record d = one_or_none (filter (pr_active \<circ> snd) (am_policies (db_automation d)))"

definition current_signed_policy ::
  "policy_env \<Rightarrow> instant \<Rightarrow> database \<Rightarrow> fault + (int \<times> auto_policy) option" where
  "current_signed_policy env now d =
     and_then (active_policy_record d) (\<lambda>found.
       case found of
         None \<Rightarrow> Inr None
       | Some (k, r) \<Rightarrow>
           (if pr_revoked_at r \<noteq> None then Inr None
            else and_then (verified_policy env r) (\<lambda>s.
                   Inr (if po_expires_at (sp_policy s) \<le> now then None else Some (k, sp_policy s)))))"

definition verified_policy_for_decision :: "policy_env \<Rightarrow> decision_row \<Rightarrow> database \<Rightarrow> fault + auto_policy" where
  "verified_policy_for_decision env r d =
     (case row (am_policies (db_automation d)) (dr_policy_revision_id r) of
        None \<Rightarrow> refuse ''AUTOMATION_DECISION_BINDING_MISMATCH''
      | Some pr \<Rightarrow>
          and_then (verified_policy env pr) (\<lambda>s.
          and_then (demand (pe_policy_digest env (sp_policy s) = dr_policy_digest r)
                     ''AUTOMATION_DECISION_BINDING_MISMATCH'') (\<lambda>_. Inr (sp_policy s))))"

definition scope_has_live_canary :: "policy_env \<Rightarrow> database \<Rightarrow> form_scope \<Rightarrow> bool" where
  "scope_has_live_canary env d s =
     scope_has_live_qualification (pe_adapter env) (sc_adapter_name s) (sc_adapter_version s)
       (sc_selector_version s) (sc_form_contract_digest s) d"

section \<open>Activation and revocation\<close>

record activation =
  av_role_families :: "string list"
  av_geographies :: "geography list"
  av_permitted_adapters :: "string list"
  av_qualified_form_contracts :: "form_scope list"
  av_minimum_fit_score :: rat
  av_daily_limit :: int
  av_hourly_limit :: int
  av_company_limit :: int
  av_expires_in_days :: int

definition superseded :: "instant \<Rightarrow> policy_row \<Rightarrow> policy_row" where
  "superseded now r =
     r\<lparr>pr_active := False, pr_revoked_at := Some now, pr_revoked_by := Some ''local_operator'',
       pr_revocation_reason := Some ''AUTOMATION_POLICY_SUPERSEDED''\<rparr>"

definition next_policy_revision :: "database \<Rightarrow> int" where
  "next_policy_revision d = fold max (map (pr_revision \<circ> snd) (am_policies (db_automation d))) 0 + 1"

definition new_policy ::
  "policy_env \<Rightarrow> activation \<Rightarrow> string \<Rightarrow> int \<Rightarrow> artifact_bindings \<Rightarrow> instant \<Rightarrow> database \<Rightarrow> auto_policy" where
  "new_policy env av policy_id version b now d =
     \<lparr>po_policy_id = policy_id, po_revision = next_policy_revision d,
      po_role_families = fromkeys (av_role_families av), po_geographies = fromkeys (av_geographies av),
      po_minimum_fit_score = av_minimum_fit_score av, po_daily_limit = av_daily_limit av,
      po_hourly_limit = av_hourly_limit av, po_company_limit = av_company_limit av,
      po_permitted_adapters = fromkeys (av_permitted_adapters av),
      po_qualified_form_contracts = av_qualified_form_contracts av, po_profile_version = version,
      po_routing_config_digest = ab_routing_config_digest b,
      po_cv_manifest_digest = ab_cv_manifest_digest b,
      po_fit_qualification_digest = ab_fit_qualification_digest b,
      po_confirmed_answer_revision = confirmed_answer_revision env version d, po_activated_at = now,
      po_expires_at = now + days (av_expires_in_days av)\<rparr>"

definition new_policy_row :: "policy_env \<Rightarrow> string \<Rightarrow> auto_policy \<Rightarrow> policy_row" where
  "new_policy_row env key p =
     \<lparr>pr_policy_id = po_policy_id p, pr_revision = po_revision p, pr_payload_json = Encoded p,
      pr_payload_digest = pe_policy_digest env p, pr_signing_key_id = key, pr_signature = pe_sign env p,
      pr_active = True, pr_activated_at = po_activated_at p, pr_expires_at = po_expires_at p,
      pr_revoked_at = None, pr_revoked_by = None, pr_revocation_reason = None\<rparr>"

definition supersede :: "(int \<times> policy_row) option \<Rightarrow> instant \<Rightarrow> policy_row table \<Rightarrow> policy_row table" where
  "supersede current now t = (case current of None \<Rightarrow> t | Some (k, r) \<Rightarrow> put_row k (superseded now r) t)"

definition activate_auto_submit_policy ::
  "policy_env \<Rightarrow> activation \<Rightarrow> string \<Rightarrow> instant \<Rightarrow> database \<Rightarrow> fault + database \<times> int" where
  "activate_auto_submit_policy env av policy_id now d =
     and_then (demand (1 \<le> av_expires_in_days av \<and> av_expires_in_days av \<le> 30)
                ''AUTOMATION_POLICY_EXPIRY_INVALID'') (\<lambda>_.
     and_then (signing_identity env) (\<lambda>key.
     and_then (lift_opt (policy_error ''PROFILE_VERSION_MISSING'') (latest_profile_version d)) (\<lambda>version.
     and_then (current_artifact_bindings env) (\<lambda>b.
     and_then (demand (av_role_families av \<noteq> [] \<and> set (av_role_families av) \<subseteq> set (ab_role_families b))
                ''AUTOMATION_POLICY_ROLE_SCOPE_INVALID'') (\<lambda>_.
     and_then (demand (av_permitted_adapters av \<noteq> []
                  \<and> list_all (\<lambda>n. adapter_for_platform n \<noteq> None) (av_permitted_adapters av))
                ''AUTOMATION_POLICY_ADAPTER_SCOPE_INVALID'') (\<lambda>_.
     and_then (demand (av_qualified_form_contracts av \<noteq> []) ''AUTOMATION_POLICY_FORM_SCOPE_REQUIRED'') (\<lambda>_.
     and_then (demand (list_all (\<lambda>s. sc_adapter_name s \<in> set (av_permitted_adapters av))
                  (av_qualified_form_contracts av)) ''AUTOMATION_POLICY_FORM_SCOPE_INVALID'') (\<lambda>_.
     and_then (demand (list_all (scope_has_live_canary env d) (av_qualified_form_contracts av))
                ''AUTOMATION_POLICY_FORM_SCOPE_NOT_QUALIFIED'') (\<lambda>_.
     and_then (active_policy_record d) (\<lambda>current.
       let p = new_policy env av policy_id version b now d in
       and_then (demand (policy_valid p) ''AUTOMATION_POLICY_INVALID'') (\<lambda>_.
       and_then (demand (pe_snapshot_made env p) ''FIT_QUALIFICATION_CHANGED'') (\<lambda>_.
         let k = next_id (am_policies (db_automation d));
             d1 = set_automation (\<lambda>m. m\<lparr>am_policies :=
                    put_row k (new_policy_row env key p) (supersede current now (am_policies m))\<rparr>) d
         in if automation_valid (db_automation d1) then Inr (d1, k)
            else refuse ''AUTOMATION_POLICY_CONFLICT''))))))))))))"

definition revoke_auto_submit_policy :: "string \<Rightarrow> instant \<Rightarrow> database \<Rightarrow> fault + database \<times> int" where
  "revoke_auto_submit_policy reason now d =
     and_then (demand (reason_token reason) ''AUTOMATION_POLICY_REVOCATION_INVALID'') (\<lambda>_.
     and_then (active_policy_record d) (\<lambda>found.
     and_then (lift_opt (policy_error ''AUTOMATION_POLICY_NOT_ACTIVE'') found) (\<lambda>(k, r).
     and_then (flush_automation (set_automation (\<lambda>m. m\<lparr>am_policies := put_row k
          (r\<lparr>pr_active := False, pr_revoked_at := Some now, pr_revoked_by := Some ''local_operator'',
             pr_revocation_reason := Some reason\<rparr>) (am_policies m)\<rparr>) d)) (\<lambda>d1. Inr (d1, k)))))"

section \<open>The kill switch\<close>

definition latest_kill_switch_event :: "database \<Rightarrow> (int \<times> kill_row) option" where
  "latest_kill_switch_event d =
     (case sort_key (\<lambda>(k, r). - kl_revision r) (am_kills (db_automation d)) of [] \<Rightarrow> None | x # xs \<Rightarrow> Some x)"

definition kill_switch_active :: "database \<Rightarrow> bool" where
  "kill_switch_active d =
     (case latest_kill_switch_event d of None \<Rightarrow> False | Some (k, r) \<Rightarrow> kl_active r)"

definition kill_replay :: "string option \<Rightarrow> database \<Rightarrow> fault + (int \<times> kill_row) option" where
  "kill_replay digest d =
     (if digest = None then Inr None
      else one_or_none (filter (\<lambda>(k, r). kl_command_digest r = digest) (am_kills (db_automation d))))"

definition new_kill_row ::
  "bool \<Rightarrow> authority_source \<Rightarrow> string \<Rightarrow> string option \<Rightarrow> instant \<Rightarrow> database \<Rightarrow> kill_row" where
  "new_kill_row active source reason digest now d =
     \<lparr>kl_revision = (case latest_kill_switch_event d of None \<Rightarrow> 1 | Some (k, r) \<Rightarrow> kl_revision r + 1),
      kl_active = active, kl_source = source, kl_reason_code = reason, kl_command_digest = digest,
      kl_created_at = now\<rparr>"

definition append_kill :: "kill_row \<Rightarrow> database \<Rightarrow> fault + database \<times> int \<times> bool" where
  "append_kill r d =
     (let n = next_id (am_kills (db_automation d)) in
      and_then (flush_automation (set_automation (\<lambda>m. m\<lparr>am_kills := put_row n r (am_kills m)\<rparr>) d))
        (\<lambda>d1. Inr (d1, n, False)))"

definition set_automation_kill_switch ::
  "bool \<Rightarrow> authority_source \<Rightarrow> string \<Rightarrow> string option \<Rightarrow> instant \<Rightarrow> database \<Rightarrow> fault + database \<times> int \<times> bool" where
  "set_automation_kill_switch active source reason digest now d =
     and_then (demand (reason_token reason) ''KILL_SWITCH_REASON_INVALID'') (\<lambda>_.
     and_then (demand (source \<noteq> VERCEL_SIGNED_KILL \<or> active \<and> digest \<noteq> None) ''REMOTE_KILL_CAN_ONLY_ACTIVATE'') (\<lambda>_.
     and_then (demand (digest = None \<or> opt_sha256 digest) ''KILL_SWITCH_COMMAND_INVALID'') (\<lambda>_.
     and_then (kill_replay digest d) (\<lambda>replay.
       case replay of
         Some (k, r) \<Rightarrow>
           (if kl_active r \<noteq> active \<or> kl_source r \<noteq> source then refuse ''KILL_SWITCH_COMMAND_CONFLICT''
            else Inr (d, k, True))
       | None \<Rightarrow>
           (case latest_kill_switch_event d of
              Some (k, r) \<Rightarrow>
                (if kl_active r = active \<and> digest = None then Inr (d, k, True)
                 else append_kill (new_kill_row active source reason digest now d) d)
            | None \<Rightarrow> append_kill (new_kill_row active source reason digest now d) d)))))"

end
