(* ===== verification/Policy_Evaluation.thy ===== *)
theory Policy_Evaluation
  imports Policy_Service
begin

text \<open>
  The second half of \<^verbatim>\<open>core/automation_policy_service.py\<close>: active hours, usage limits, the gate before an
  inspection, the evaluation that reserves authority for one application, and the check of a reserved
  decision. \<^verbatim>\<open>match/job_fit_store.py\<close> supplies the fit decision of a job.
\<close>

section \<open>Fit decisions of a job\<close>

definition new_fit_row :: "int \<Rightarrow> string \<Rightarrow> fit_decision \<Rightarrow> instant \<Rightarrow> fit_row" where
  "new_fit_row job digest f now =
     \<lparr>fr_job_id = job, fr_decision_digest = digest, fr_job_digest = fd_job_digest f,
      fr_profile_version = fd_profile_version f, fr_routing_config_digest = fd_routing_config_digest f,
      fr_cv_manifest_digest = fd_cv_manifest_digest f, fr_selected_cv_id = fd_selected_cv_id f,
      fr_selected_cv_hash = fd_selected_cv_hash f, fr_routing_confidence = fd_routing_confidence f,
      fr_routing_margin = fd_routing_margin f, fr_routing_fallback_reason = fd_routing_fallback_reason f,
      fr_fit_score = fd_fit_score f, fr_disposition = fd_disposition f,
      fr_quality_eligible = fd_quality_eligible f,
      fr_hard_exclusions_json = Encoded (fd_hard_exclusions f),
      fr_uncertainty_json = Encoded (fd_uncertainty f),
      fr_unsupported_skills_json = Encoded (fd_unsupported_required_skills f),
      fr_evidence_json = Encoded (fd_evidence f), fr_thresholds_json = Encoded (fd_thresholds f),
      fr_qualification_digest = fd_qualification_digest f, fr_created_at = now\<rparr>"

definition fit_from_record :: "fit_row \<Rightarrow> fault + fit_decision" where
  "fit_from_record r =
     (case (fr_hard_exclusions_json r, fr_uncertainty_json r, fr_unsupported_skills_json r, fr_evidence_json r,
            fr_thresholds_json r) of
        (Encoded hard, Encoded uncertain, Encoded skills, Encoded evidence, Encoded thresholds) \<Rightarrow>
          (let f = \<lparr>fd_job_digest = fr_job_digest r, fd_profile_version = fr_profile_version r,
                    fd_routing_config_digest = fr_routing_config_digest r,
                    fd_cv_manifest_digest = fr_cv_manifest_digest r,
                    fd_selected_cv_id = fr_selected_cv_id r, fd_selected_cv_hash = fr_selected_cv_hash r,
                    fd_routing_confidence = fr_routing_confidence r, fd_routing_margin = fr_routing_margin r,
                    fd_routing_fallback_reason = fr_routing_fallback_reason r, fd_fit_score = fr_fit_score r,
                    fd_disposition = fr_disposition r, fd_quality_eligible = fr_quality_eligible r,
                    fd_hard_exclusions = hard, fd_uncertainty = uncertain,
                    fd_unsupported_required_skills = skills, fd_evidence = evidence,
                    fd_thresholds = thresholds, fd_qualification_digest = fr_qualification_digest r\<rparr>
           in if fit_decision_valid f then Inr f else Inl ValueFault)
      | _ \<Rightarrow> Inl ValueFault)"

definition persist_job_fit_decision ::
  "(fit_decision \<Rightarrow> string) \<Rightarrow> int \<Rightarrow> fit_decision \<Rightarrow> instant \<Rightarrow> database \<Rightarrow> fault + database \<times> int" where
  "persist_job_fit_decision digest job f now d =
     and_then (one_or_none (filter (\<lambda>(k, r). fr_job_id r = job \<and> fr_decision_digest r = digest f)
        (am_fits (db_automation d)))) (\<lambda>existing.
       case existing of
         Some (k, r) \<Rightarrow>
           and_then (fit_from_record r) (\<lambda>g. if g \<noteq> f then Inl ValueFault else Inr (d, k))
       | None \<Rightarrow>
           (let k = next_id (am_fits (db_automation d)) in
            Inr (set_automation (\<lambda>m. m\<lparr>am_fits := put_row k (new_fit_row job (digest f) f now) (am_fits m)\<rparr>) d, k)))"

definition latest_job_fit_decision :: "int \<Rightarrow> database \<Rightarrow> fault + (int \<times> fit_decision) option" where
  "latest_job_fit_decision job d =
     (case sort_key (\<lambda>(k, r). (- fr_created_at r, - k))
             (filter (\<lambda>(k, r). fr_job_id r = job) (am_fits (db_automation d))) of
        [] \<Rightarrow> Inr None
      | (k, r) # rs \<Rightarrow> and_then (fit_from_record r) (\<lambda>f. Inr (Some (k, f))))"

section \<open>Hours, places and limits\<close>

definition day_length :: int where
  "day_length = days 1"

definition local_midnight :: "zone \<Rightarrow> instant \<Rightarrow> int" where
  "local_midnight z now = zn_local z now - zn_local z now mod day_length"

text \<open>Aware times of one zone are compared by their wall clocks.\<close>

definition active_hours_deadline :: "zone \<Rightarrow> instant \<Rightarrow> bool \<times> instant" where
  "active_hours_deadline z now =
     (let m = local_midnight z now; l = zn_local z now
      in (m + hours 8 \<le> l \<and> l < m + hours 21, zn_instant z (m + hours 21)))"

definition parse_required_skills :: "string list json_column option \<Rightarrow> string list" where
  "parse_required_skills x = (case x of Some (Encoded ks) \<Rightarrow> ks | _ \<Rightarrow> [])"

definition application_job_data :: "application \<Rightarrow> database \<Rightarrow> fault + job_data" where
  "application_job_data ap d =
     (case row (db_jobs d) (ap_job_id ap) of
        None \<Rightarrow> refuse ''JOB_NOT_FOUND''
      | Some j \<Rightarrow>
          (let p = jb_posting j in
           Inr \<lparr>jd_title = jo_title p, jd_company = or_empty (jo_company p),
                jd_location = or_empty (jo_location p), jd_employment_type = or_empty (jo_employment_type p),
                jd_seniority = or_empty (jo_seniority p), jd_description = or_empty (jo_description p),
                jd_requirements = or_empty (jo_requirements p), jd_apply_url = or_empty (jb_apply_url j),
                jd_source_url = jb_source_url j, jd_keywords = parse_required_skills (jo_keywords p)\<rparr>))"

text \<open>\<open>job_content_digest\<close> covers the descriptive fields and not the URLs.\<close>

definition job_content_digest :: "policy_env \<Rightarrow> job_data \<Rightarrow> string" where
  "job_content_digest env j = pe_job_digest env (j\<lparr>jd_apply_url := [], jd_source_url := []\<rparr>)"

definition job_target :: "job_data \<Rightarrow> string" where
  "job_target j = (if jd_apply_url j \<noteq> [] then jd_apply_url j else jd_source_url j)"

text \<open>The Hebrew name among the tokens of Israel does not occur in texts below 256.\<close>

definition geography_allowed :: "auto_policy \<Rightarrow> job_data \<Rightarrow> bool" where
  "geography_allowed p j =
     (let location = join_words (split_words [] (casefold (jd_location j)));
          mentions = (\<lambda>tokens. list_ex (\<lambda>t. contains t location) tokens)
      in if mentions [''israel'', ''tel aviv'', ''jerusalem''] then GEO_ISRAEL \<in> set (po_geographies p)
         else if mentions [''worldwide'', ''global'', ''anywhere'']
         then GEO_WORLDWIDE_REMOTE \<in> set (po_geographies p)
         else if mentions [''emea'', ''middle east''] then GEO_EMEA_REMOTE \<in> set (po_geographies p)
         else False)"

definition scope_matches :: "plan_row \<Rightarrow> string \<Rightarrow> form_scope \<Rightarrow> bool" where
  "scope_matches p contract s \<longleftrightarrow>
     sc_adapter_name s = pl_adapter_name p \<and> sc_adapter_version s = pl_adapter_version p
     \<and> sc_selector_version s = pl_selector_version p \<and> sc_form_contract_digest s = contract"

definition counted :: "(decision_row \<Rightarrow> bool) \<Rightarrow> database \<Rightarrow> int" where
  "counted c d =
     int (length (filter (\<lambda>(k, r). dr_allowed r \<and> c r) (am_decisions (db_automation d))))"

definition usage_counts :: "zone \<Rightarrow> string \<Rightarrow> instant \<Rightarrow> database \<Rightarrow> int \<times> int \<times> int" where
  "usage_counts z company now d =
     (counted (\<lambda>r. zn_instant z (local_midnight z now) \<le> dr_evaluated_at r) d,
      counted (\<lambda>r. now - hours 1 \<le> dr_evaluated_at r) d,
      counted (\<lambda>r. dr_company_digest r = company \<and> now - days 14 \<le> dr_evaluated_at r
                   \<and> dr_evaluated_at r \<le> now) d)"

section \<open>The gate before an inspection\<close>

definition fit_record_of :: "application \<Rightarrow> database \<Rightarrow> fault + int \<times> fit_row" where
  "fit_record_of ap d =
     (case ap_job_fit_decision_id ap of
        None \<Rightarrow> refuse ''FIT_DECISION_REQUIRED''
      | Some k \<Rightarrow>
          (case row (am_fits (db_automation d)) k of
             None \<Rightarrow> refuse ''FIT_DECISION_REQUIRED''
           | Some r \<Rightarrow> if fr_job_id r \<noteq> ap_job_id ap then refuse ''FIT_DECISION_REQUIRED'' else Inr (k, r)))"

definition inspection_scope :: "policy_env \<Rightarrow> auto_policy \<Rightarrow> adapter_descriptor \<Rightarrow> database \<Rightarrow> bool" where
  "inspection_scope env p a d \<longleftrightarrow>
     ad_platform a \<in> set (po_permitted_adapters p)
     \<and> list_ex (scope_has_live_canary env d)
         (filter (\<lambda>s. sc_adapter_name s = ad_platform a \<and> sc_adapter_version s = ad_adapter_version a
                      \<and> sc_selector_version s = ad_selector_version a) (po_qualified_form_contracts p))"

definition validate_automation_inspection_candidate ::
  "policy_env \<Rightarrow> int \<Rightarrow> instant \<Rightarrow> database \<Rightarrow> fault + unit" where
  "validate_automation_inspection_candidate env app now d =
     and_then (current_signed_policy env now d) (\<lambda>active.
     and_then (lift_opt (policy_error ''AUTOMATION_POLICY_NOT_ACTIVE'') active) (\<lambda>(prid, p).
     and_then (demand (latest_profile_version d = Some (po_profile_version p)) ''PROFILE_VERSION_CHANGED'') (\<lambda>_.
     and_then (require_current_artifact_bindings env p) (\<lambda>_.
     and_then (demand (\<not> kill_switch_active d) ''KILL_SWITCH_ACTIVE'') (\<lambda>_.
     and_then (demand (fst (active_hours_deadline (pe_zone env) now)) ''OUTSIDE_ACTIVE_HOURS'') (\<lambda>_.
     and_then (lift_opt (policy_error ''APPLICATION_NOT_FOUND'') (row (db_applications d) app)) (\<lambda>ap.
     and_then (demand (ap_status ap = JS_DRAFT) ''APPLICATION_NOT_ELIGIBLE'') (\<lambda>_.
     and_then (demand (ap_material_eligible ap = Some True \<and> \<not> truthy (ap_needs_review_reason ap))
                ''MATERIAL_NOT_ELIGIBLE'') (\<lambda>_.
     and_then (fit_record_of ap d) (\<lambda>(fid, fr).
     and_then (fit_from_record fr) (\<lambda>f.
     and_then (application_job_data ap d) (\<lambda>j.
     and_then (demand (fd_quality_eligible f \<and> po_minimum_fit_score p \<le> fd_fit_score f)
                ''FIT_DECISION_NOT_ELIGIBLE'') (\<lambda>_.
     and_then (demand (fd_selected_cv_id f \<in> Some ` set (po_role_families p)) ''ROLE_FAMILY_NOT_PERMITTED'') (\<lambda>_.
     and_then (demand (geography_allowed p j) ''GEOGRAPHY_NOT_PERMITTED'') (\<lambda>_.
     and_then (demand (fd_job_digest f = job_content_digest env j) ''JOB_CHANGED'') (\<lambda>_.
     and_then (demand (ap_profile_version ap = Some (po_profile_version p)
                  \<and> fd_profile_version f = Some (po_profile_version p)) ''PROFILE_VERSION_CHANGED'') (\<lambda>_.
     and_then (demand (fd_routing_config_digest f = po_routing_config_digest p
                  \<and> fd_cv_manifest_digest f = po_cv_manifest_digest p
                  \<and> fd_qualification_digest f = Some (po_fit_qualification_digest p))
                ''FIT_QUALIFICATION_CHANGED'') (\<lambda>_.
     and_then (demand (confirmed_answer_revision env (po_profile_version p) d = po_confirmed_answer_revision p)
                ''CONFIRMED_ANSWERS_CHANGED'') (\<lambda>_.
     and_then (case (ap_selected_cv_hash ap, fd_selected_cv_hash f) of
                 (Some x, Some y) \<Rightarrow> and_then (compare_digest x y) (\<lambda>b. demand b ''ATTACHMENT_UNVERIFIED'')
               | _ \<Rightarrow> refuse ''ATTACHMENT_UNVERIFIED'') (\<lambda>_.
       case adapter_for_url (pe_adapter env) (job_target j) of
         None \<Rightarrow> refuse ''ADAPTER_NOT_QUALIFIED''
       | Some a \<Rightarrow> demand (inspection_scope env p a d) ''ADAPTER_NOT_QUALIFIED''))))))))))))))))))))"

section \<open>Decisions and their rows\<close>

definition decision_from_record :: "decision_row \<Rightarrow> database \<Rightarrow> fault + auto_decision" where
  "decision_from_record r d =
     (case dr_reason_codes_json r of
        Malformed \<Rightarrow> refuse ''AUTOMATION_DECISION_INVALID''
      | Encoded reasons \<Rightarrow>
          and_then (lift_opt AttributeFault (row (am_policies (db_automation d)) (dr_policy_revision_id r))) (\<lambda>pr.
            case (uuid_text (pr_policy_id pr), uuid_text (dr_form_plan_public_id r)) of
              (Some policy_id, Some plan_id) \<Rightarrow>
                (let e = \<lparr>de_policy_id = policy_id, de_policy_revision = pr_revision pr,
                          de_policy_digest = dr_policy_digest r, de_application_id = dr_application_id r,
                          de_application_revision = dr_application_revision r,
                          de_job_digest = dr_job_digest r, de_company_digest = dr_company_digest r,
                          de_fit_decision_digest = dr_fit_decision_digest r, de_form_plan_id = plan_id,
                          de_form_fingerprint = dr_form_fingerprint r,
                          de_form_contract_digest = dr_form_contract_digest r,
                          de_selected_cv_hash = dr_selected_cv_hash r,
                          de_profile_version = dr_profile_version r,
                          de_confirmed_answer_revision = dr_confirmed_answer_revision r,
                          de_adapter_name = dr_adapter_name r, de_adapter_version = dr_adapter_version r,
                          de_selector_version = dr_selector_version r, de_fit_score = dr_fit_score r,
                          de_allowed = dr_allowed r, de_reason_codes = reasons,
                          de_evaluated_at = dr_evaluated_at r,
                          de_authority_expires_at = dr_authority_expires_at r\<rparr>
                 in if decision_valid e then Inr e else refuse ''AUTOMATION_DECISION_INVALID'')
            | _ \<Rightarrow> refuse ''AUTOMATION_DECISION_INVALID''))"

definition new_decision_row :: "policy_env \<Rightarrow> int \<Rightarrow> int \<Rightarrow> int \<Rightarrow> auto_decision \<Rightarrow> decision_row" where
  "new_decision_row env prid fid pid e =
     \<lparr>dr_policy_revision_id = prid, dr_application_id = de_application_id e,
      dr_application_revision = de_application_revision e, dr_fit_decision_id = fid, dr_form_plan_id = pid,
      dr_decision_digest = pe_decision_digest env e, dr_policy_digest = de_policy_digest e,
      dr_job_digest = de_job_digest e, dr_company_digest = de_company_digest e,
      dr_fit_decision_digest = de_fit_decision_digest e, dr_form_plan_public_id = de_form_plan_id e,
      dr_form_fingerprint = de_form_fingerprint e, dr_form_contract_digest = de_form_contract_digest e,
      dr_selected_cv_hash = de_selected_cv_hash e, dr_profile_version = de_profile_version e,
      dr_confirmed_answer_revision = de_confirmed_answer_revision e, dr_adapter_name = de_adapter_name e,
      dr_adapter_version = de_adapter_version e, dr_selector_version = de_selector_version e,
      dr_fit_score = de_fit_score e, dr_allowed = de_allowed e,
      dr_reason_codes_json = Encoded (de_reason_codes e),
      dr_authority_expires_at = de_authority_expires_at e, dr_evaluated_at = de_evaluated_at e\<rparr>"

definition persist_decision ::
  "policy_env \<Rightarrow> int \<Rightarrow> int \<Rightarrow> int \<Rightarrow> auto_decision \<Rightarrow> database \<Rightarrow> fault + database \<times> int" where
  "persist_decision env prid fid pid e d =
     and_then (one_or_none (filter (\<lambda>(k, r). dr_application_id r = de_application_id e
          \<and> dr_policy_revision_id r = prid \<and> dr_application_revision r = de_application_revision e
          \<and> dr_form_plan_id r = pid \<and> dr_decision_digest r = pe_decision_digest env e)
        (am_decisions (db_automation d)))) (\<lambda>existing.
       case existing of
         Some (k, r) \<Rightarrow>
           and_then (decision_from_record r d) (\<lambda>e'.
             if e' \<noteq> e then refuse ''AUTOMATION_DECISION_DIGEST_CONFLICT'' else Inr (d, k))
       | None \<Rightarrow>
           (let k = next_id (am_decisions (db_automation d)) in
            and_then (flush_automation (set_automation (\<lambda>m. m\<lparr>am_decisions :=
                put_row k (new_decision_row env prid fid pid e) (am_decisions m)\<rparr>) d)) (\<lambda>d1. Inr (d1, k))))"

section \<open>Evaluation\<close>

definition retryable_denials :: "string list" where
  "retryable_denials =
     [''KILL_SWITCH_ACTIVE'', ''OUTSIDE_ACTIVE_HOURS'', ''AUTOMATION_DAILY_LIMIT_REACHED'',
      ''AUTOMATION_HOURLY_LIMIT_REACHED'', ''AUTOMATION_COMPANY_LIMIT_REACHED'']"

text \<open>The attachment check; its last comparison but one raises on texts that are not ASCII.\<close>

definition attachment_unverified :: "application \<Rightarrow> plan_row \<Rightarrow> fit_decision \<Rightarrow> fault + bool" where
  "attachment_unverified ap p f =
     (let h = or_empty (ap_selected_cv_hash ap) in
      if h = [] \<or> fd_selected_cv_hash f = None \<or> pl_selected_cv_hash p \<noteq> h
         \<or> pl_attached_cv_hash p \<noteq> Some h then Inr True
      else and_then (compare_digest (or_empty (fd_selected_cv_hash f)) h) (\<lambda>same.
             Inr (\<not> same \<or> \<not> pl_attachment_verified p)))"

definition adapter_mismatch :: "policy_env \<Rightarrow> auto_policy \<Rightarrow> plan_row \<Rightarrow> job_data \<Rightarrow> bool" where
  "adapter_mismatch env p plan j =
     (case adapter_for_url (pe_adapter env) (job_target j) of
        None \<Rightarrow> True
      | Some a \<Rightarrow> ad_platform a \<notin> set (po_permitted_adapters p) \<or> ad_platform a \<noteq> pl_adapter_name plan
                  \<or> ad_adapter_version a \<noteq> pl_adapter_version plan
                  \<or> ad_selector_version a \<noteq> pl_selector_version plan)"

definition scope_unqualified :: "policy_env \<Rightarrow> auto_policy \<Rightarrow> plan_row \<Rightarrow> string \<Rightarrow> database \<Rightarrow> bool" where
  "scope_unqualified env p plan contract d =
     (case find (scope_matches plan contract) (po_qualified_form_contracts p) of
        None \<Rightarrow> True
      | Some s \<Rightarrow> \<not> scope_has_live_canary env d s)"

text \<open>The checks in the order in which the code appends their reasons, each with whether it applies.\<close>

definition denial_checks ::
  "policy_env \<Rightarrow> auto_policy \<Rightarrow> application \<Rightarrow> plan_row \<Rightarrow> fit_decision \<Rightarrow> job_data \<Rightarrow> string \<Rightarrow> bool \<Rightarrow> bool
     \<Rightarrow> instant \<Rightarrow> database \<Rightarrow> (string \<times> bool) list" where
  "denial_checks env p ap plan f j contract unattached changed now d =
     (let v = po_profile_version p;
          (daily, hourly, company) =
            usage_counts (pe_zone env) (company_identity_digest env (jd_company j)) now d
      in [(''KILL_SWITCH_ACTIVE'', kill_switch_active d),
          (''OUTSIDE_ACTIVE_HOURS'', \<not> fst (active_hours_deadline (pe_zone env) now)),
          (''APPLICATION_NOT_ELIGIBLE'', ap_status ap \<noteq> JS_DRAFT),
          (''MATERIAL_NOT_ELIGIBLE'', ap_material_eligible ap \<noteq> Some True),
          (''FIT_DECISION_NOT_ELIGIBLE'', \<not> fd_quality_eligible f),
          (''FIT_SCORE_BELOW_POLICY'', fd_fit_score f < po_minimum_fit_score p),
          (''ROLE_FAMILY_NOT_PERMITTED'', fd_selected_cv_id f \<notin> Some ` set (po_role_families p)),
          (''GEOGRAPHY_NOT_PERMITTED'', \<not> geography_allowed p j),
          (''JOB_CHANGED'', fd_job_digest f \<noteq> job_content_digest env j),
          (''PROFILE_VERSION_CHANGED'', latest_profile_version d \<noteq> Some v \<or> fd_profile_version f \<noteq> Some v
             \<or> ap_profile_version ap \<noteq> Some v \<or> pl_profile_version plan \<noteq> Some v),
          (''FIT_QUALIFICATION_CHANGED'', fd_routing_config_digest f \<noteq> po_routing_config_digest p
             \<or> fd_cv_manifest_digest f \<noteq> po_cv_manifest_digest p
             \<or> fd_qualification_digest f \<noteq> Some (po_fit_qualification_digest p) \<or> changed),
          (''CONFIRMED_ANSWERS_CHANGED'', confirmed_answer_revision env v d \<noteq> po_confirmed_answer_revision p),
          (''ATTACHMENT_UNVERIFIED'', unattached),
          (''FORM_CHANGED'', pl_invalidated_at plan \<noteq> None \<or> pl_expires_at plan \<le> now
             \<or> pl_application_revision plan \<noteq> ap_revision ap),
          (''FORM_PLAN_BLOCKED'', pl_blockers_json plan \<noteq> Encoded []),
          (''ADAPTER_NOT_QUALIFIED'', adapter_mismatch env p plan j),
          (''FORM_CONTRACT_NOT_QUALIFIED'', scope_unqualified env p plan contract d),
          (''AUTOMATION_DAILY_LIMIT_REACHED'', po_daily_limit p \<le> daily),
          (''AUTOMATION_HOURLY_LIMIT_REACHED'', po_hourly_limit p \<le> hourly),
          (''AUTOMATION_COMPANY_LIMIT_REACHED'', po_company_limit p \<le> company)])"

definition denial_reasons :: "(string \<times> bool) list \<Rightarrow> string list" where
  "denial_reasons cs = fromkeys (map fst (filter snd cs))"

definition zero_digest :: string where
  "zero_digest = replicate 64 CHR ''0''"

definition new_decision ::
  "policy_env \<Rightarrow> auto_policy \<Rightarrow> int \<Rightarrow> application \<Rightarrow> plan_row \<Rightarrow> fit_decision \<Rightarrow> job_data \<Rightarrow> string \<Rightarrow> string
     \<Rightarrow> string list \<Rightarrow> instant \<Rightarrow> database \<Rightarrow> auto_decision" where
  "new_decision env p app ap plan f j contract plan_id reasons now d =
     \<lparr>de_policy_id = po_policy_id p, de_policy_revision = po_revision p,
      de_policy_digest = pe_policy_digest env p, de_application_id = app,
      de_application_revision = ap_revision ap, de_job_digest = fd_job_digest f,
      de_company_digest = company_identity_digest env (jd_company j),
      de_fit_decision_digest = pe_fit_digest env f, de_form_plan_id = plan_id,
      de_form_fingerprint = pl_fingerprint plan, de_form_contract_digest = contract,
      de_selected_cv_hash = or_text (ap_selected_cv_hash ap) zero_digest,
      de_profile_version = po_profile_version p,
      de_confirmed_answer_revision = confirmed_answer_revision env (po_profile_version p) d,
      de_adapter_name = pl_adapter_name plan, de_adapter_version = pl_adapter_version plan,
      de_selector_version = pl_selector_version plan, de_fit_score = fd_fit_score f,
      de_allowed = (reasons = []), de_reason_codes = reasons, de_evaluated_at = now,
      de_authority_expires_at =
        (if reasons = []
         then Some (min (po_expires_at p) (min (snd (active_hours_deadline (pe_zone env) now)) (now + minutes 5)))
         else None)\<rparr>"

definition decided_application :: "string list \<Rightarrow> instant \<Rightarrow> application \<Rightarrow> application" where
  "decided_application reasons now ap =
     (if reasons = []
      then mark_application_prepared (ap\<lparr>ap_approved_at := Some now,
             ap_approval_source := Some ''qualified_autopilot_policy''\<rparr>)
      else ap\<lparr>ap_needs_review_reason :=
             (case filter (\<lambda>r. r \<notin> set retryable_denials) reasons of [] \<Rightarrow> None | r # rs \<Rightarrow> Some r)\<rparr>)"

text \<open>The allowed decision an application already has.\<close>

definition existing_allowed :: "int \<Rightarrow> database \<Rightarrow> fault + (int \<times> decision_row) option" where
  "existing_allowed app d =
     one_or_none (filter (\<lambda>(k, r). dr_application_id r = app \<and> dr_allowed r) (am_decisions (db_automation d)))"

definition reuse_decision ::
  "int \<times> decision_row \<Rightarrow> int \<Rightarrow> application \<Rightarrow> int \<Rightarrow> auto_policy \<Rightarrow> bool \<Rightarrow> database \<Rightarrow> fault + database \<times> int" where
  "reuse_decision kr prid ap pid p changed d =
     (case kr of (k, r) \<Rightarrow>
        if dr_policy_revision_id r = prid \<and> dr_application_revision r = ap_revision ap \<and> dr_form_plan_id r = pid
        then if latest_profile_version d \<noteq> Some (po_profile_version p) then refuse ''PROFILE_VERSION_CHANGED''
             else if changed then refuse ''FIT_QUALIFICATION_CHANGED'' else Inr (d, k)
        else refuse ''AUTOMATION_AUTHORITY_ALREADY_RESERVED'')"

definition decide ::
  "policy_env \<Rightarrow> int \<Rightarrow> auto_policy \<Rightarrow> int \<Rightarrow> application \<Rightarrow> int \<Rightarrow> plan_row \<Rightarrow> int \<Rightarrow> fit_row \<Rightarrow> bool \<Rightarrow> instant
     \<Rightarrow> database \<Rightarrow> fault + database \<times> int" where
  "decide env prid p app ap pid plan fid fr changed now d =
     and_then (fit_from_record fr) (\<lambda>f.
     and_then (application_job_data ap d) (\<lambda>j.
     and_then (lift_opt (policy_error ''FORM_PLAN_BLOCKED'') (qe_contract_digest (pe_adapter env) plan)) (\<lambda>contract.
     and_then (attachment_unverified ap plan f) (\<lambda>unattached.
     let reasons = denial_reasons (denial_checks env p ap plan f j contract unattached changed now d) in
     and_then (lift_opt ValueFault (uuid_text (pl_plan_id plan))) (\<lambda>plan_id.
     let e = new_decision env p app ap plan f j contract plan_id reasons now d in
     and_then (ensure (decision_valid e) ValueFault) (\<lambda>_.
     and_then (persist_decision env prid fid pid e d) (\<lambda>(d1, k).
       Inr (set_application app (decided_application reasons now ap) d1, k))))))))"

definition evaluate_auto_submit_policy ::
  "policy_env \<Rightarrow> int \<Rightarrow> int \<Rightarrow> instant \<Rightarrow> database \<Rightarrow> fault + database \<times> int" where
  "evaluate_auto_submit_policy env app pid now d =
     and_then (lift_opt (policy_error ''APPLICATION_NOT_FOUND'') (row (db_applications d) app)) (\<lambda>ap.
     and_then (case row (db_plans d) pid of
                 None \<Rightarrow> refuse ''FORM_PLAN_NOT_FOUND''
               | Some plan \<Rightarrow> if pl_application_id plan \<noteq> app then refuse ''FORM_PLAN_NOT_FOUND'' else Inr plan) (\<lambda>plan.
     and_then (fit_record_of ap d) (\<lambda>(fid, fr).
     and_then (current_signed_policy env now d) (\<lambda>active.
     and_then (lift_opt (policy_error ''AUTOMATION_POLICY_NOT_ACTIVE'') active) (\<lambda>(prid, p).
     let changed = (require_current_artifact_bindings env p \<noteq> Inr ()) in
     and_then (existing_allowed app d) (\<lambda>existing.
       case existing of
         Some kr \<Rightarrow> reuse_decision kr prid ap pid p changed d
       | None \<Rightarrow> decide env prid p app ap pid plan fid fr changed now d))))))"

section \<open>The check of a decision\<close>

fun first_broken :: "((fault + bool) \<times> string) list \<Rightarrow> fault + unit" where
  "first_broken [] = Inr ()"
| "first_broken ((b, r) # bs) = and_then b (\<lambda>ok. if ok then first_broken bs else refuse r)"

definition decision_bindings ::
  "policy_env \<Rightarrow> auto_decision \<Rightarrow> application \<Rightarrow> plan_row \<Rightarrow> fit_decision \<Rightarrow> string \<Rightarrow> string
     \<Rightarrow> ((fault + bool) \<times> string) list" where
  "decision_bindings env e ap plan f contract answers =
     [(Inr (ap_revision ap = de_application_revision e), ''APPLICATION_REVISION_CHANGED''),
      (Inr (ap_profile_version ap = Some (de_profile_version e)), ''PROFILE_VERSION_CHANGED''),
      (compare_digest (or_empty (ap_selected_cv_hash ap)) (de_selected_cv_hash e), ''ATTACHMENT_CHANGED''),
      (compare_digest (pe_fit_digest env f) (de_fit_decision_digest e), ''FIT_DECISION_CHANGED''),
      (compare_digest (pl_plan_id plan) (de_form_plan_id e), ''FORM_CHANGED''),
      (compare_digest (pl_fingerprint plan) (de_form_fingerprint e), ''FORM_CHANGED''),
      (compare_digest contract (de_form_contract_digest e), ''FORM_CHANGED''),
      (compare_digest answers (de_confirmed_answer_revision e), ''CONFIRMED_ANSWERS_CHANGED''),
      (compare_digest (pl_adapter_name plan) (de_adapter_name e), ''ADAPTER_VERSION_CHANGED''),
      (compare_digest (pl_adapter_version plan) (de_adapter_version e), ''ADAPTER_VERSION_CHANGED''),
      (compare_digest (pl_selector_version plan) (de_selector_version e), ''SELECTOR_DRIFT'')]"

definition decision_live :: "auto_decision \<Rightarrow> instant \<Rightarrow> fault + unit" where
  "decision_live e now =
     and_then (demand (de_allowed e) ''AUTOMATION_DECISION_DENIED'') (\<lambda>_.
       demand (case de_authority_expires_at e of None \<Rightarrow> False | Some t \<Rightarrow> now < t)
         ''AUTOMATION_AUTHORITY_EXPIRED'')"

definition validate_current_automation_decision ::
  "policy_env \<Rightarrow> int option \<Rightarrow> instant \<Rightarrow> database \<Rightarrow> fault + auto_decision" where
  "validate_current_automation_decision env k now d =
     and_then (lift_opt (policy_error ''AUTOMATION_DECISION_REQUIRED'')
                 (Option.bind k (row (am_decisions (db_automation d))))) (\<lambda>r.
     and_then (decision_from_record r d) (\<lambda>e.
     and_then (decision_live e now) (\<lambda>_.
     and_then (current_signed_policy env now d) (\<lambda>active.
     and_then (lift_opt (policy_error ''AUTOMATION_POLICY_NOT_ACTIVE'') active) (\<lambda>(prid, p).
     and_then (demand (latest_profile_version d = Some (po_profile_version p)) ''PROFILE_VERSION_CHANGED'') (\<lambda>_.
     and_then (require_current_artifact_bindings env p) (\<lambda>_.
     and_then (demand (prid = dr_policy_revision_id r \<and> pe_policy_digest env p = de_policy_digest e
                  \<and> po_policy_id p = de_policy_id e \<and> po_revision p = de_policy_revision e)
                ''AUTOMATION_POLICY_CHANGED'') (\<lambda>_.
     and_then (demand (\<not> kill_switch_active d) ''KILL_SWITCH_ACTIVE'') (\<lambda>_.
     and_then (demand (fst (active_hours_deadline (pe_zone env) now)) ''OUTSIDE_ACTIVE_HOURS'') (\<lambda>_.
     and_then (lift_opt (policy_error ''AUTOMATION_DECISION_BINDING_MISMATCH'')
                 (row (db_plans d) (dr_form_plan_id r))) (\<lambda>plan.
     and_then (lift_opt (policy_error ''AUTOMATION_DECISION_BINDING_MISMATCH'')
                 (row (am_fits (db_automation d)) (dr_fit_decision_id r))) (\<lambda>fr.
     and_then (fit_from_record fr) (\<lambda>f.
     and_then (lift_opt AttributeFault (row (db_applications d) (dr_application_id r))) (\<lambda>ap.
     and_then (lift_opt (policy_error ''FORM_PLAN_BLOCKED'') (qe_contract_digest (pe_adapter env) plan)) (\<lambda>contract.
     and_then (first_broken (decision_bindings env e ap plan f contract
                 (confirmed_answer_revision env (po_profile_version p) d))) (\<lambda>_.
     and_then (demand (pl_invalidated_at plan = None \<and> now < pl_expires_at plan) ''FORM_CHANGED'') (\<lambda>_.
     and_then (demand (\<not> scope_unqualified env p plan (de_form_contract_digest e) d) ''ADAPTER_NOT_QUALIFIED'') (\<lambda>_.
       Inr e))))))))))))))))))"

section \<open>Usage report\<close>

record usage_status =
  us_active :: bool
  us_reason_code :: "string option"
  us_kill_switch_active :: bool
  us_daily_remaining :: int
  us_hourly_remaining :: int

definition fault_code :: "fault \<Rightarrow> string option" where
  "fault_code e = (case e of PolicyFault r \<Rightarrow> Some r | _ \<Rightarrow> None)"

definition policy_usage_status :: "policy_env \<Rightarrow> instant \<Rightarrow> database \<Rightarrow> fault + usage_status" where
  "policy_usage_status env now d =
     (let kill = kill_switch_active d;
          inactive = (\<lambda>reason. \<lparr>us_active = False, us_reason_code = reason, us_kill_switch_active = kill,
                               us_daily_remaining = 0, us_hourly_remaining = 0\<rparr>) in
      and_then (active_policy_record d) (\<lambda>found.
        case found of
          None \<Rightarrow> Inr (inactive (Some ''AUTOMATION_POLICY_NOT_ACTIVE''))
        | Some (k, r) \<Rightarrow>
            (case verified_policy env r of
               Inl e \<Rightarrow> Inr (inactive (fault_code e))
             | Inr s \<Rightarrow>
                 (let p = sp_policy s; v = po_profile_version p;
                      profile_changed = latest_profile_version d \<noteq> Some v;
                      artifacts_changed = require_current_artifact_bindings env p \<noteq> Inr ();
                      answers_changed = confirmed_answer_revision env v d \<noteq> po_confirmed_answer_revision p;
                      (daily, hourly, company) = usage_counts (pe_zone env) zero_digest now d;
                      expired = po_expires_at p \<le> now
                  in Inr \<lparr>us_active = \<not> expired \<and> \<not> profile_changed \<and> \<not> artifacts_changed
                            \<and> \<not> answers_changed \<and> \<not> kill,
                          us_reason_code =
                            (if kill then Some ''KILL_SWITCH_ACTIVE''
                             else if expired then Some ''AUTOMATION_POLICY_EXPIRED''
                             else if profile_changed then Some ''PROFILE_VERSION_CHANGED''
                             else if artifacts_changed then Some ''FIT_QUALIFICATION_CHANGED''
                             else if answers_changed then Some ''CONFIRMED_ANSWERS_CHANGED'' else None),
                          us_kill_switch_active = kill,
                          us_daily_remaining = max 0 (po_daily_limit p - daily),
                          us_hourly_remaining = max 0 (po_hourly_limit p - hourly)\<rparr>))))"

section \<open>A concrete environment\<close>

text \<open>A zone without offset, one routed CV and digests that are all the sample digest.\<close>

definition sample_fit_qualification :: fit_qualification where
  "sample_fit_qualification =
     \<lparr>fq_algorithm_version = fit_algorithm_version, fq_routing_config_digest = sample_hash,
      fq_cv_manifest_digest = sample_hash, fq_dataset_digest = sample_hash,
      fq_thresholds = \<lparr>ft_minimum_fit_score = 85, ft_minimum_routing_confidence = 1 / 2,
                        ft_minimum_routing_margin = 0\<rparr>,
      fq_labeled_cases = 240, fq_holdout_cases = 48, fq_holdout_precision = 1, fq_holdout_coverage = 1,
      fq_qualified = True, fq_created_at = 0\<rparr>"

definition sample_key :: string where
  "sample_key = ''00000000-0000-4000-8000-000000000001''"

definition sample_policy_env :: policy_env where
  "sample_policy_env =
     \<lparr>pe_adapter = sample_adapter_env, pe_identity = Inr sample_key,
      pe_sign = (\<lambda>p. replicate 86 CHR ''s''), pe_verify = (\<lambda>p s. s = replicate 86 CHR ''s''),
      pe_policy_digest = (\<lambda>p. sample_hash), pe_decision_digest = (\<lambda>e. sample_hash),
      pe_fit_digest = (\<lambda>f. sample_hash), pe_qualification_digest = (\<lambda>q. sample_hash),
      pe_answer_digest = (\<lambda>v rs. sample_hash), pe_job_digest = (\<lambda>j. sample_hash),
      pe_sha256 = (\<lambda>s. sample_hash),
      pe_files = \<lparr>af_routing_is_file = True, af_routing = Some ([''cv1''], sample_hash, sample_hash),
                   af_qualification = Some sample_fit_qualification\<rparr>,
      pe_snapshot_made = (\<lambda>p. True), pe_snapshot_ok = (\<lambda>p. True), pe_snapshot_id = (\<lambda>p. sample_hash),
      pe_snapshot_cv = (\<lambda>p c h. True),
      pe_zone = \<lparr>zn_local = (\<lambda>t. t), zn_instant = (\<lambda>l. l)\<rparr>\<rparr>"

end
