(* ===== verification/Py_Float.thy ===== *)
theory Py_Float
  imports Field_Values
begin

text \<open>
  Binary64 arithmetic on the rationals the floats denote: every operation rounds its exact result to the
  nearest float, ties to even. The numbers the scoring computes with stay far from overflow and underflow,
  so exponents are unbounded here. \<open>round(x, 4)\<close> rounds the exact value to four decimals, ties to even, and
  returns the nearest float; \<open>sum\<close> of floats is the compensated sum CPython has used since 3.12.
\<close>

section \<open>Rounding\<close>

definition round_half_even :: "rat \<Rightarrow> int" where
  "round_half_even x =
     (let n = \<lfloor>x\<rfloor>; r = x - of_int n
      in if r < 1 / 2 then n else if 1 / 2 < r then n + 1 else if even n then n else n + 1)"

definition pow2 :: "int \<Rightarrow> rat" where
  "pow2 k = (if 0 \<le> k then 2 ^ nat k else 1 / 2 ^ nat (- k))"

text \<open>The exponent of the binade a positive number lies in.\<close>

definition binade :: "rat \<Rightarrow> int" where
  "binade x =
     (let (p, q) = quotient_of x; k = int (bit_length p) - int (bit_length q)
      in if pow2 k \<le> x then k else k - 1)"

definition binary64 :: "rat \<Rightarrow> rat" where
  "binary64 x =
     (if x = 0 then 0
      else let e = binade \<bar>x\<bar> - 52 in of_int (round_half_even (x / pow2 e)) * pow2 e)"

definition round4 :: "rat \<Rightarrow> rat" where
  "round4 x = binary64 (of_int (round_half_even (x * 10000)) / 10000)"

text \<open>One step of the compensated sum: the running sum and the error collected so far.\<close>

definition add_compensated :: "rat \<Rightarrow> rat \<times> rat \<Rightarrow> rat \<times> rat" where
  "add_compensated x s =
     (case s of (hi, lo) \<Rightarrow>
        let t = binary64 (hi + x);
            c = (if \<bar>x\<bar> \<le> \<bar>hi\<bar> then binary64 (binary64 (hi - t) + x) else binary64 (binary64 (x - t) + hi))
        in (t, binary64 (lo + c)))"

definition py_sum :: "rat list \<Rightarrow> rat" where
  "py_sum xs =
     (case xs of
        [] \<Rightarrow> 0
      | x # ys \<Rightarrow> (case fold add_compensated ys (x, 0) of (hi, lo) \<Rightarrow>
                     if lo = 0 then hi else binary64 (hi + lo)))"

section \<open>Error bounds\<close>

lemma round_half_even_error: "\<bar>of_int (round_half_even x) - x\<bar> \<le> 1 / 2"
proof -
  have "of_int \<lfloor>x\<rfloor> \<le> x" "x < of_int \<lfloor>x\<rfloor> + 1" by linarith+
  then show ?thesis by (auto simp: round_half_even_def Let_def abs_le_iff)
qed

lemma bit_length_pos: "0 < n \<Longrightarrow> 0 < bit_length n"
  by (subst bit_length.simps) simp

lemma bit_length_bounds:
  assumes "0 < n"
  shows "2 ^ (bit_length n - 1) \<le> n \<and> n < 2 ^ bit_length n"
  using assms
proof (induction n rule: bit_length.induct)
  case (1 n)
  have b: "bit_length n = Suc (bit_length (n div 2))" using 1(2) by (subst bit_length.simps) simp
  show ?case
  proof (cases "n = 1")
    case True
    then show ?thesis by (simp add: bit_length.simps)
  next
    case False
    with 1(2) have d: "0 < n div 2" by simp
    from 1(1)[OF _ d] 1(2) have h: "2 ^ (bit_length (n div 2) - 1) \<le> n div 2" "n div 2 < 2 ^ bit_length (n div 2)" by auto
    obtain k where k: "bit_length (n div 2) = Suc k" using bit_length_pos[OF d] by (cases "bit_length (n div 2)") auto
    have "n = 2 * (n div 2) + n mod 2" "0 \<le> n mod 2" "n mod 2 < 2" by simp_all
    then have "2 * 2 ^ k \<le> n" "n < 4 * 2 ^ k" using h[unfolded k diff_Suc_1 power_Suc] by linarith+
    then show ?thesis by (simp add: b k)
  qed
qed

lemma pow2_add: "pow2 (a + int b) = pow2 a * 2 ^ b"
proof (cases "0 \<le> a")
  case True
  then show ?thesis by (simp add: pow2_def nat_add_distrib power_add)
next
  case False
  then obtain n where a: "a = - int n" "0 < n" by (metis linorder_not_le neg_0_less_iff_less of_nat_0_less_iff minus_minus zero_less_imp_eq_int)
  show ?thesis
  proof (cases "b < n")
    case True
    then have "(2::rat) ^ n = 2 ^ (n - b) * 2 ^ b" by (simp add: power_add[symmetric])
    moreover have "nat (- (a + int b)) = n - b" "\<not> 0 \<le> a + int b" using a True by auto
    ultimately show ?thesis using a by (simp add: pow2_def)
  next
    case False
    then have "(2::rat) ^ b = 2 ^ (b - n) * 2 ^ n" by (simp add: power_add[symmetric])
    moreover have "nat (a + int b) = b - n" "0 \<le> a + int b" using a False by auto
    ultimately show ?thesis using a by (simp add: pow2_def)
  qed
qed

lemma pow2_pos: "0 < pow2 k"
  by (simp add: pow2_def)

lemma pow2_diff: "pow2 (int a - int b) = 2 ^ a / 2 ^ b"
proof (cases "b \<le> a")
  case True
  then have "nat (int a - int b) = a - b" by simp
  with True show ?thesis by (simp add: pow2_def power_diff)
next
  case False
  then have "nat (- (int a - int b)) = b - a" "\<not> 0 \<le> int a - int b" by auto
  moreover have "(2::rat) ^ b = 2 ^ a * 2 ^ (b - a)" using False by (simp add: power_add[symmetric])
  ultimately show ?thesis by (simp add: pow2_def)
qed

lemma binade_le:
  assumes "0 < x"
  shows "pow2 (binade x) \<le> x"
proof -
  obtain p q where pq: "quotient_of x = (p, q)" by fastforce
  then have x: "x = of_int p / of_int q" "0 < q" by (rule quotient_of_div, rule quotient_of_denom_pos)
  with assms have p: "0 < p" by (simp add: zero_less_divide_iff)
  have b: "2 ^ (bit_length p - 1) \<le> p" "q < 2 ^ bit_length q"
    using bit_length_bounds[OF p] bit_length_bounds[OF x(2)] by auto
  then have "(2::rat) ^ (bit_length p - 1) \<le> of_int p" "of_int q \<le> (2::rat) ^ bit_length q"
    by (metis of_int_le_iff of_int_numeral of_int_power, metis less_imp_le of_int_le_iff of_int_numeral of_int_power)
  then have "(2::rat) ^ (bit_length p - 1) / 2 ^ bit_length q \<le> of_int p / of_int q"
    using x(2) p by (intro frac_le) auto
  then have "pow2 (int (bit_length p - 1) - int (bit_length q)) \<le> x" unfolding pow2_diff x(1) .
  moreover have "int (bit_length p) - int (bit_length q) - 1 = int (bit_length p - 1) - int (bit_length q)"
    using bit_length_pos[OF p] by simp
  ultimately have "pow2 (int (bit_length p) - int (bit_length q) - 1) \<le> x" by metis
  then show ?thesis by (simp add: binade_def pq Let_def)
qed

lemma binary64_error: "\<bar>binary64 x - x\<bar> \<le> \<bar>x\<bar> / 2 ^ 52"
proof (cases "x = 0")
  case False
  let ?e = "binade \<bar>x\<bar> - 52"
  have "pow2 (?e + int 52) = pow2 ?e * 2 ^ 52" by (rule pow2_add)
  then have "pow2 ?e * 2 ^ 52 \<le> \<bar>x\<bar>" using binade_le[of "\<bar>x\<bar>"] False by simp
  then have e: "pow2 ?e \<le> \<bar>x\<bar> / 2 ^ 52" by (simp add: pos_le_divide_eq)
  have "binary64 x - x = (of_int (round_half_even (x / pow2 ?e)) - x / pow2 ?e) * pow2 ?e"
    using False pow2_pos[of ?e] by (simp add: binary64_def Let_def left_diff_distrib)
  then have "\<bar>binary64 x - x\<bar> = \<bar>of_int (round_half_even (x / pow2 ?e)) - x / pow2 ?e\<bar> * pow2 ?e"
    using pow2_pos[of ?e] by (simp add: abs_mult)
  also have "\<dots> \<le> 1 / 2 * pow2 ?e"
    by (rule mult_right_mono[OF round_half_even_error]) (simp add: pow2_pos less_imp_le)
  also have "\<dots> \<le> \<bar>x\<bar> / 2 ^ 52" using e pow2_pos[of ?e] by simp
  finally show ?thesis .
qed (simp add: binary64_def)

text \<open>Below a thousand the error of one operation is far below a billionth.\<close>

lemma binary64_near:
  assumes "\<bar>x\<bar> \<le> 1000"
  shows "\<bar>binary64 x - x\<bar> \<le> 1 / 1000000000"
proof -
  have "\<bar>x\<bar> / 2 ^ 52 \<le> 1000 / 2 ^ 52" using assms by (simp add: divide_right_mono)
  also have "\<dots> \<le> (1 :: rat) / 1000000000" by simp
  finally show ?thesis using binary64_error[of x] by linarith
qed

lemma binary64_nonneg: "0 \<le> x \<Longrightarrow> 0 \<le> binary64 x"
proof -
  assume x: "0 \<le> x"
  have "x / 2 ^ 52 \<le> x" using x by (simp add: divide_le_eq)
  with binary64_error[of x] abs_of_nonneg[OF x] show ?thesis by linarith
qed

lemma round_half_even_nonneg: "- (1 / 2) < x \<Longrightarrow> 0 \<le> round_half_even x"
proof -
  assume "- (1 / 2) < x"
  with round_half_even_error[of x] have "(- 1 :: rat) < of_int (round_half_even x)" by linarith
  then show ?thesis by linarith
qed

lemma round4_nonneg:
  assumes "- (1 / 30000) \<le> x"
  shows "0 \<le> round4 x"
  unfolding round4_def using assms by (intro binary64_nonneg divide_nonneg_nonneg) (auto intro!: round_half_even_nonneg)

lemma round4_le:
  assumes "x \<le> of_int c + 1 / 30000" and "0 \<le> c" and "c \<le> 1000" and "- (1 / 30000) \<le> x"
    and "binary64 (of_int c) = of_int c"
  shows "round4 x \<le> of_int c"
proof -
  let ?n = "round_half_even (x * 10000)"
  have n: "?n \<le> c * 10000"
  proof -
    have "of_int ?n \<le> x * 10000 + 1 / 2" using round_half_even_error[of "x * 10000"] by linarith
    then have "(of_int ?n :: rat) < of_int (c * 10000) + 1" using assms(1) by simp
    then show ?thesis by linarith
  qed
  have pos: "0 \<le> ?n" using assms(4) by (intro round_half_even_nonneg) simp
  show ?thesis
  proof (cases "?n = c * 10000")
    case True
    then show ?thesis using assms(5) by (simp add: round4_def)
  next
    case False
    with n have "?n + 1 \<le> c * 10000" by simp
    then have "(of_int (?n + 1) :: rat) \<le> of_int (c * 10000)" by (subst of_int_le_iff)
    then have y: "of_int ?n / 10000 \<le> (of_int c :: rat) - 1 / 10000" by simp
    moreover have "0 \<le> (of_int ?n :: rat) / 10000" using pos by simp
    moreover have "(of_int c :: rat) \<le> 1000" using assms(3) by simp
    ultimately have "\<bar>of_int ?n / 10000 :: rat\<bar> \<le> 1000" by (simp add: abs_le_iff)
    from binary64_near[OF this] y show ?thesis unfolding round4_def by linarith
  qed
qed

text \<open>
  The compensated sum of up to eight numbers between 0 and 100 stays within a millionth of the exact sum.
\<close>

lemma add_compensated_near:
  assumes s: "\<bar>hi - exact\<bar> \<le> of_nat k / 1000000000" "\<bar>lo\<bar> \<le> of_nat k * 5 / 1000000000"
    and b: "0 \<le> x" "x \<le> 100" "0 \<le> exact" "exact \<le> 700" "k \<le> 8"
    and add: "add_compensated x (hi, lo) = (hi', lo')"
  shows "\<bar>hi' - (exact + x)\<bar> \<le> of_nat (Suc k) / 1000000000 \<and> \<bar>lo'\<bar> \<le> of_nat (Suc k) * 5 / 1000000000"
proof -
  let ?t = "binary64 (hi + x)"
  let ?c = "if \<bar>x\<bar> \<le> \<bar>hi\<bar> then binary64 (binary64 (hi - ?t) + x) else binary64 (binary64 (x - ?t) + hi)"
  have k: "of_nat k / 1000000000 \<le> (8 / 1000000000 :: rat)" using b(5) by (simp add: divide_right_mono)
  have hi: "\<bar>hi + x\<bar> \<le> 1000" "\<bar>hi\<bar> \<le> 900" using s(1) b k by linarith+
  have t: "\<bar>?t - (hi + x)\<bar> \<le> 1 / 1000000000" by (rule binary64_near[OF hi(1)])
  have d1: "\<bar>binary64 (hi - ?t) - (hi - ?t)\<bar> \<le> 1 / 1000000000" using t b hi by (intro binary64_near) linarith
  have d2: "\<bar>binary64 (x - ?t) - (x - ?t)\<bar> \<le> 1 / 1000000000" using t b hi by (intro binary64_near) linarith
  have d3: "\<bar>binary64 (binary64 (hi - ?t) + x) - (binary64 (hi - ?t) + x)\<bar> \<le> 1 / 1000000000"
    using t d1 b hi by (intro binary64_near) linarith
  have d4: "\<bar>binary64 (binary64 (x - ?t) + hi) - (binary64 (x - ?t) + hi)\<bar> \<le> 1 / 1000000000"
    using t d2 b hi by (intro binary64_near) linarith
  have c: "\<bar>?c\<bar> \<le> 3 / 1000000000" 
  proof (cases "\<bar>x\<bar> \<le> \<bar>hi\<bar>")
    case True
    then have "?c = binary64 (binary64 (hi - ?t) + x)" by simp
    with t d1 d3 show ?thesis by linarith
  next
    case False
    then have "?c = binary64 (binary64 (x - ?t) + hi)" by simp
    with t d2 d4 show ?thesis by linarith
  qed
  define e where "e = ?c"
  have c: "\<bar>e\<bar> \<le> 3 / 1000000000" using c by (simp only: e_def)
  have lo: "\<bar>binary64 (lo + e) - (lo + e)\<bar> \<le> 1 / 1000000000" using s(2) c k by (intro binary64_near) linarith
  have e': "hi' = ?t" "lo' = binary64 (lo + e)" using add by (simp_all add: add_compensated_def Let_def e_def)
  have n: "of_nat (Suc k) / 1000000000 = of_nat k / 1000000000 + (1 :: rat) / 1000000000"
    "of_nat (Suc k) * 5 / 1000000000 = of_nat k * 5 / 1000000000 + (5 :: rat) / 1000000000" by (simp_all add: field_simps)
  have "\<bar>hi' - (exact + x)\<bar> \<le> of_nat (Suc k) / 1000000000" unfolding e'(1) n(1) using s(1) t by linarith
  moreover have "\<bar>lo'\<bar> \<le> of_nat (Suc k) * 5 / 1000000000" unfolding e'(2) n(2) using s(2) c lo by linarith
  ultimately show ?thesis ..
qed

lemma fold_compensated_near:
  assumes "\<bar>hi - exact\<bar> \<le> of_nat k / 1000000000" "\<bar>lo\<bar> \<le> of_nat k * 5 / 1000000000" "0 \<le> exact" "exact \<le> 100 * of_nat k"
    "k + length xs \<le> 7" "list_all (\<lambda>x. 0 \<le> x \<and> x \<le> 100) xs" "fold add_compensated xs (hi, lo) = (hi', lo')"
  shows "\<bar>hi' - (exact + sum_list xs)\<bar> \<le> of_nat (k + length xs) / 1000000000
    \<and> \<bar>lo'\<bar> \<le> of_nat (k + length xs) * 5 / 1000000000"
  using assms
proof (induction xs arbitrary: hi lo exact k)
  case (Cons x xs)
  obtain h l where a: "add_compensated x (hi, lo) = (h, l)" by fastforce
  have "(of_nat k :: rat) \<le> of_nat 7" using Cons.prems(5) by (intro of_nat_mono) simp
  then have t: "exact \<le> 700" using Cons.prems(4) by simp
  have n: "\<bar>h - (exact + x)\<bar> \<le> of_nat (Suc k) / 1000000000" "\<bar>l\<bar> \<le> of_nat (Suc k) * 5 / 1000000000"
    using add_compensated_near[OF Cons.prems(1,2) _ _ Cons.prems(3) t _ a] Cons.prems(5,6) by auto
  have "fold add_compensated xs (h, l) = (hi', lo')" using Cons.prems(7) a by simp
  from Cons.IH[OF n _ _ _ _ this] Cons.prems(3-6) show ?case by (simp add: add.assoc)
qed simp

lemma py_sum_near:
  assumes "length xs \<le> 7" and "list_all (\<lambda>x. 0 \<le> x \<and> x \<le> 100) xs"
  shows "\<bar>py_sum xs - sum_list xs\<bar> \<le> 1 / 1000000"
proof (cases xs)
  case (Cons x ys)
  obtain hi lo where f: "fold add_compensated ys (x, 0) = (hi, lo)" by fastforce
  have n: "\<bar>hi - (x + sum_list ys)\<bar> \<le> of_nat (1 + length ys) / 1000000000" "\<bar>lo\<bar> \<le> of_nat (1 + length ys) * 5 / 1000000000"
    using fold_compensated_near[of x x 1 0 ys hi lo] f assms by (auto simp: Cons)
  have l: "(of_nat (1 + length ys) :: rat) \<le> of_nat 7" using assms(1) by (intro of_nat_mono) (simp add: Cons)
  have s: "\<bar>hi - (x + sum_list ys)\<bar> \<le> 7 / 1000000000" "\<bar>lo\<bar> \<le> 35 / 1000000000" using n l by (simp_all add: field_simps)
  have "0 \<le> sum_list ys" "sum_list ys \<le> 100 * of_nat (length ys)"
    using assms(2) unfolding Cons by (induction ys) (auto simp: distrib_left)
  moreover have "x \<le> 100" "0 \<le> x" using assms(2) by (simp_all add: Cons)
  moreover have "(of_nat (length ys) :: rat) \<le> 6" using l by simp
  ultimately have "\<bar>hi + lo\<bar> \<le> 1000" using s by linarith
  note near = binary64_near[OF this]
  have "py_sum xs = (if lo = 0 then hi else binary64 (hi + lo))" by (simp add: py_sum_def Cons f)
  moreover have "\<bar>hi - (x + sum_list ys)\<bar> \<le> 1 / 1000000" "\<bar>binary64 (hi + lo) - (x + sum_list ys)\<bar> \<le> 1 / 1000000"
    using s near by linarith+
  ultimately show ?thesis by (auto simp: Cons)
qed (simp add: py_sum_def)

end
