(* ===== verification/Job_Text.thy ===== *)
theory Job_Text
  imports Py_Prelude "HOL-Library.List_Lexorder"
begin

text \<open>
  How \<^verbatim>\<open>match/job_fit.py\<close> reads a posting: normalisation of text, terms, routing tokens and the years of
  experience a text asks for. Texts are below code point 256, so the Hebrew terms of the source never occur
  in them and are left out; a word character is a letter, a digit or number sign, or an underscore.
\<close>

section \<open>Words\<close>

definition is_word :: "char \<Rightarrow> bool" where
  "is_word c =
     (let n = (of_char c :: nat)
      in (48 \<le> n \<and> n \<le> 57) \<or> (65 \<le> n \<and> n \<le> 90) \<or> (97 \<le> n \<and> n \<le> 122) \<or> n = 95 \<or> n = 170
         \<or> n \<in> {178, 179, 181, 185, 186, 188, 189, 190} \<or> (192 \<le> n \<and> n \<noteq> 215 \<and> n \<noteq> 247))"

definition is_token_char :: "char \<Rightarrow> bool" where
  "is_token_char c \<longleftrightarrow> is_word c \<or> c = CHR ''+'' \<or> c = CHR ''#'' \<or> c = CHR ''.''"

text \<open>The maximal runs of token characters.\<close>

definition token_runs :: "string \<Rightarrow> string list" where
  "token_runs s = split_words [] (map (\<lambda>c. if is_token_char c then c else CHR '' '') s)"

definition normalized :: "string \<Rightarrow> string" where
  "normalized s = join_words (token_runs (casefold s))"

definition contains_term :: "string \<Rightarrow> string \<Rightarrow> bool" where
  "contains_term text term \<longleftrightarrow>
     normalized term \<noteq> [] \<and> contains ('' '' @ normalized term @ '' '') ('' '' @ normalized text @ '' '')"

definition contains_any :: "string \<Rightarrow> string list \<Rightarrow> bool" where
  "contains_any text terms = list_ex (contains_term text) terms"

definition ordered_unique :: "string list \<Rightarrow> string list" where
  "ordered_unique values = fromkeys (filter (\<lambda>v. v \<noteq> []) (map normalized values))"

definition strip_char :: "char \<Rightarrow> string \<Rightarrow> string" where
  "strip_char c s = rev (dropWhile (\<lambda>x. x = c) (rev (dropWhile (\<lambda>x. x = c) s)))"

text \<open>A set of tokens is kept as a list without repetitions.\<close>

definition routing_tokens :: "string \<Rightarrow> string list" where
  "routing_tokens s =
     fromkeys (filter (\<lambda>w. 2 \<le> length w) (map (strip_char CHR ''_'') (token_runs (casefold s))))"

section \<open>Years of experience\<close>

text \<open>
  The two regular expressions of \<open>_required_years\<close>, read as \<open>re\<close> does. A position is the character before
  it and the text after it, and a part of a pattern gives the positions where it can end, in the order in
  which backtracking tries them.
\<close>

type_synonym position = "char option \<times> string"

definition advance_by :: "nat \<Rightarrow> position \<Rightarrow> position" where
  "advance_by n x = (case x of (p, s) \<Rightarrow> (if n = 0 then p else Some (s ! (n - 1)), drop n s))"

definition word_boundary :: "position \<Rightarrow> bool" where
  "word_boundary x =
     (case x of (p, s) \<Rightarrow>
        (case p of None \<Rightarrow> False | Some c \<Rightarrow> is_word c) \<noteq> (case s of [] \<Rightarrow> False | c # cs \<Rightarrow> is_word c))"

definition at_boundary :: "position \<Rightarrow> position list" where
  "at_boundary x = (if word_boundary x then [x] else [])"

definition literally :: "string \<Rightarrow> position \<Rightarrow> position list" where
  "literally w x = (if prefix w (snd x) then [advance_by (length w) x] else [])"

definition one_of :: "string list \<Rightarrow> position \<Rightarrow> position list" where
  "one_of ws x = concat (map (\<lambda>w. literally w x) ws)"

definition spaces :: "position \<Rightarrow> position list" where
  "spaces x = map (\<lambda>n. advance_by n x) (rev [0..<Suc (length (takeWhile is_space (snd x)))])"

definition digit_number :: "char \<Rightarrow> int" where
  "digit_number c = of_char c - 48"

definition one_or_two_digits :: "position \<Rightarrow> (int \<times> position) list" where
  "one_or_two_digits x =
     (case takeWhile is_digit (snd x) of
        [] \<Rightarrow> []
      | [a] \<Rightarrow> [(digit_number a, advance_by 1 x)]
      | a # b # cs \<Rightarrow> [(10 * digit_number a + digit_number b, advance_by 2 x), (digit_number a, advance_by 1 x)])"

definition optional_plus :: "position \<Rightarrow> position list" where
  "optional_plus x = literally ''+'' x @ [x]"

definition then_each :: "'a list \<Rightarrow> ('a \<Rightarrow> 'b list) \<Rightarrow> 'b list" where
  "then_each xs f = concat (map f xs)"

definition year_units :: "string list" where
  "year_units = [''years'', ''year'', ''yrs'', ''yr'']"

text \<open>\<open>\b(\d{1,2})\s*(?:-|to)\s*\d{1,2}\s*(?:years?|yrs?)\b\<close>: the lower bounds of the matches at a position.\<close>

definition year_range_at :: "position \<Rightarrow> int list" where
  "year_range_at x =
     then_each (at_boundary x) (\<lambda>x1. then_each (one_or_two_digits x1) (\<lambda>(n, x2).
     then_each (spaces x2) (\<lambda>x3. then_each (one_of [''-'', ''to''] x3) (\<lambda>x4. then_each (spaces x4) (\<lambda>x5.
     then_each (one_or_two_digits x5) (\<lambda>(m, x6). then_each (spaces x6) (\<lambda>x7.
     then_each (one_of year_units x7) (\<lambda>x8. then_each (at_boundary x8) (\<lambda>x9. [n])))))))))"

text \<open>\<open>\b(\d{1,2})\s*\+?\s*(?:years?|yrs?)\b\<close>: the numbers, and where the matches end.\<close>

definition years_at :: "position \<Rightarrow> (int \<times> position) list" where
  "years_at x =
     then_each (at_boundary x) (\<lambda>x1. then_each (one_or_two_digits x1) (\<lambda>(n, x2).
     then_each (spaces x2) (\<lambda>x3. then_each (optional_plus x3) (\<lambda>x4. then_each (spaces x4) (\<lambda>x5.
     then_each (one_of year_units x5) (\<lambda>x6. then_each (at_boundary x6) (\<lambda>x7. [(n, x7)])))))))"

fun search_range :: "char option \<Rightarrow> string \<Rightarrow> int option" where
  "search_range p [] = None"
| "search_range p (c # cs) =
     (case year_range_at (p, c # cs) of n # ns \<Rightarrow> Some n | [] \<Rightarrow> search_range (Some c) cs)"

text \<open>\<open>re.finditer\<close>: the search goes on where the last match ended, so each step takes a character.\<close>

fun find_years :: "nat \<Rightarrow> position \<Rightarrow> int list" where
  "find_years 0 x = []"
| "find_years (Suc fuel) x =
     (if snd x = [] then []
      else case years_at x of
             (n, y) # ys \<Rightarrow> n # find_years fuel y
           | [] \<Rightarrow> find_years fuel (advance_by 1 x))"

definition required_years :: "string \<Rightarrow> int option" where
  "required_years s =
     (case search_range None (casefold s) of
        Some n \<Rightarrow> Some n
      | None \<Rightarrow>
          (let text = normalized s in
           case find_years (length text) (None, text) of [] \<Rightarrow> None | n # ns \<Rightarrow> Some (fold max ns n)))"

end
