(* ===== verification/Cv_Routing.thy ===== *)
theory Cv_Routing
  imports Policy_Evaluation Py_Float Job_Text "HOL-Library.Multiset"
begin

text \<open>
  Which CV a posting is answered with: the configuration and the router of \<^verbatim>\<open>profile/cv_routing.py\<close>, and the
  calibrated router of \<^verbatim>\<open>match/job_fit.py\<close>, which also reports the runner-up and the margin. Confidences are
  floats; a set of tokens is a list without repetitions.
\<close>

section \<open>Configuration\<close>

record cv_definition =
  cd_id :: string
  cd_file :: string
  cd_title_terms :: "string list"
  cd_skills :: "string list"
  cd_seniority :: "string list"

record routing_override =
  ro_cv_id :: string
  ro_title_contains :: "string list"
  ro_description_contains :: "string list"
  ro_seniority :: "string list"

record cv_routing_config =
  rc_cvs :: "cv_definition list"
  rc_overrides :: "routing_override list"
  rc_minimum_confidence :: rat
  rc_fallback_cv_id :: "string option"

definition config_references :: "cv_routing_config \<Rightarrow> string list" where
  "config_references cfg =
     map ro_cv_id (rc_overrides cfg)
     @ (if truthy (rc_fallback_cv_id cfg) then [or_empty (rc_fallback_cv_id cfg)] else [])"

definition references_exist :: "cv_routing_config \<Rightarrow> bool" where
  "references_exist cfg \<longleftrightarrow>
     unit_interval (rc_minimum_confidence cfg)
     \<and> list_all (\<lambda>r. r \<in> set (map cd_id (rc_cvs cfg))) (config_references cfg)
     \<and> distinct (map cd_id (rc_cvs cfg))"

definition configured_cv :: "cv_routing_config \<Rightarrow> string \<Rightarrow> cv_definition option" where
  "configured_cv cfg k = List.find (\<lambda>cv. cd_id cv = k) (rc_cvs cfg)"

text \<open>An override applies when each of its non-empty conditions holds.\<close>

definition override_applies ::
  "(string \<Rightarrow> string) \<Rightarrow> string \<Rightarrow> string \<Rightarrow> string \<Rightarrow> routing_override \<Rightarrow> bool" where
  "override_applies fold_case title description seniority r \<longleftrightarrow>
     (ro_title_contains r = [] \<or> list_ex (\<lambda>t. contains (fold_case t) title) (ro_title_contains r))
     \<and> (ro_description_contains r = []
        \<or> list_ex (\<lambda>t. contains (fold_case t) description) (ro_description_contains r))
     \<and> (ro_seniority r = [] \<or> seniority \<in> set (map fold_case (ro_seniority r)))"

section \<open>Scores\<close>

definition comma_separated :: "string list \<Rightarrow> string" where
  "comma_separated ws = (case ws of [] \<Rightarrow> [] | w # vs \<Rightarrow> w @ concat (map (\<lambda>v. '','' @ v) vs))"

definition hits :: "string list \<Rightarrow> string list \<Rightarrow> string list" where
  "hits xs ys = sort (filter (\<lambda>x. x \<in> set ys) xs)"

definition coverage :: "nat \<Rightarrow> nat \<Rightarrow> rat" where
  "coverage found wanted = min (binary64 (of_nat found / of_nat (max wanted 1))) 1"

text \<open>\<open>round(0.5 * title + 0.4 * skills + 0.1 * seniority, 4)\<close>.\<close>

definition weighted_confidence :: "rat \<Rightarrow> rat \<Rightarrow> bool \<Rightarrow> rat" where
  "weighted_confidence title skills seniority =
     round4 (binary64 (binary64 (binary64 (1 / 2 * title) + binary64 (binary64 (4 / 10) * skills))
                       + (if seniority then binary64 (1 / 10) else 0)))"

definition match_evidence :: "string list \<Rightarrow> string list \<Rightarrow> bool \<Rightarrow> string \<Rightarrow> string list" where
  "match_evidence title_hits skill_hits seniority_hit seniority =
     (if title_hits \<noteq> [] then [''title:'' @ comma_separated title_hits] else [])
     @ (if skill_hits \<noteq> [] then [''skills:'' @ comma_separated skill_hits] else [])
     @ (if seniority_hit then [''seniority:'' @ seniority] else [])"

record ranked_cv =
  rk_confidence :: rat
  rk_cv :: cv_definition
  rk_evidence :: "string list"

text \<open>
  The score of one CV, from the tokens of the posting's title, the tokens its description and required
  skills mention, the required tokens, and the tokenizer and case folding of the router.
\<close>

definition rank_cv ::
  "(string \<Rightarrow> string list) \<Rightarrow> (string \<Rightarrow> string) \<Rightarrow> string list \<Rightarrow> string list \<Rightarrow> string list \<Rightarrow> string
   \<Rightarrow> cv_definition \<Rightarrow> ranked_cv" where
  "rank_cv tokens fold_case title_tokens mentioned required seniority cv =
     (let cv_title = tokens (join_words (cd_title_terms cv));
          cv_skill = tokens (join_words (cd_skills cv));
          title_hits = hits title_tokens cv_title;
          skill_hits = hits mentioned cv_skill;
          seniority_hit = (seniority \<noteq> [] \<and> seniority \<in> set (map fold_case (cd_seniority cv)));
          wanted = (if required \<noteq> [] then length required else length cv_skill)
      in \<lparr>rk_confidence = weighted_confidence (coverage (length title_hits) (length cv_title))
                             (coverage (length skill_hits) wanted) seniority_hit,
          rk_cv = cv, rk_evidence = match_evidence title_hits skill_hits seniority_hit seniority\<rparr>)"

section \<open>The router of applications\<close>

record routing_job =
  rj_title :: string
  rj_description :: string
  rj_seniority :: string
  rj_required_skills :: "string list"

record routing_decision =
  rd_selected_cv_id :: "string option"
  rd_selected_file :: "string option"
  rd_confidence :: rat
  rd_matched_evidence :: "string list"
  rd_fallback_reason :: "string option"
  rd_overridden :: bool

definition ascii_token_char :: "char \<Rightarrow> bool" where
  "ascii_token_char c \<longleftrightarrow> is_lower c \<or> is_digit c \<or> c = CHR ''+'' \<or> c = CHR ''#'' \<or> c = CHR ''.''"

text \<open>\<open>[a-z0-9+#.]{2,}\<close>: the maximal runs of at least two characters.\<close>

definition ascii_tokens :: "string \<Rightarrow> string list" where
  "ascii_tokens s =
     fromkeys (filter (\<lambda>w. 2 \<le> length w)
       (split_words [] (map (\<lambda>c. if ascii_token_char c then c else CHR '' '') (py_lower s))))"

text \<open>\<open>max(ranked)\<close>: the highest confidence, and of those the greatest identifier; identifiers are unique.\<close>

definition best_ranked :: "ranked_cv list \<Rightarrow> ranked_cv option" where
  "best_ranked rs =
     (case rev (sort_key (\<lambda>r. (rk_confidence r, cd_id (rk_cv r))) rs) of [] \<Rightarrow> None | r # _ \<Rightarrow> Some r)"

definition route_cv :: "routing_job \<Rightarrow> cv_routing_config \<Rightarrow> fault + routing_decision" where
  "route_cv job cfg =
     (let title = py_lower (rj_title job); description = py_lower (rj_description job);
          seniority = py_lower (rj_seniority job)
      in case List.find (override_applies py_lower title description seniority) (rc_overrides cfg) of
           Some r \<Rightarrow>
             and_then (lift_opt ValueFault (configured_cv cfg (ro_cv_id r))) (\<lambda>cv.
             Inr \<lparr>rd_selected_cv_id = Some (cd_id cv), rd_selected_file = Some (cd_file cv), rd_confidence = 1,
                  rd_matched_evidence = [''ordered_override''], rd_fallback_reason = None, rd_overridden = True\<rparr>)
         | None \<Rightarrow>
             (let required = fromkeys (map py_lower (rj_required_skills job));
                  mentioned = fromkeys (ascii_tokens (rj_description job) @ required);
                  best = best_ranked (map (rank_cv ascii_tokens py_lower (ascii_tokens (rj_title job)) mentioned
                                             required seniority) (rc_cvs cfg));
                  confidence = (case best of None \<Rightarrow> 0 | Some r \<Rightarrow> rk_confidence r);
                  evidence = (case best of None \<Rightarrow> [] | Some r \<Rightarrow> rk_evidence r)
              in if best \<noteq> None \<and> rc_minimum_confidence cfg \<le> confidence
                 then Inr \<lparr>rd_selected_cv_id = Some (cd_id (rk_cv (the best))),
                           rd_selected_file = Some (cd_file (rk_cv (the best))), rd_confidence = confidence,
                           rd_matched_evidence = evidence, rd_fallback_reason = None, rd_overridden = False\<rparr>
                 else if truthy (rc_fallback_cv_id cfg)
                 then and_then (lift_opt ValueFault (configured_cv cfg (or_empty (rc_fallback_cv_id cfg)))) (\<lambda>cv.
                      Inr \<lparr>rd_selected_cv_id = Some (cd_id cv), rd_selected_file = Some (cd_file cv),
                           rd_confidence = confidence, rd_matched_evidence = evidence,
                           rd_fallback_reason = Some ''confidence_below_threshold'', rd_overridden = False\<rparr>)
                 else Inr \<lparr>rd_selected_cv_id = None, rd_selected_file = None, rd_confidence = confidence,
                           rd_matched_evidence = evidence,
                           rd_fallback_reason = Some ''abstained_low_confidence'', rd_overridden = False\<rparr>))"

section \<open>The calibrated router\<close>

record calibrated_routing =
  cr_selected_cv_id :: "string option"
  cr_selected_file :: "string option"
  cr_confidence :: rat
  cr_matched_evidence :: "string list"
  cr_fallback_reason :: "string option"
  cr_overridden :: bool
  cr_second_best_cv_id :: "string option"
  cr_second_best_confidence :: rat
  cr_confidence_margin :: rat

definition calibrated_routing_valid :: "calibrated_routing \<Rightarrow> bool" where
  "calibrated_routing_valid r \<longleftrightarrow>
     opt_bounded 255 (cr_selected_cv_id r) \<and> opt_bounded 1024 (cr_selected_file r)
     \<and> unit_interval (cr_confidence r) \<and> length (cr_matched_evidence r) \<le> 20
     \<and> opt_bounded 64 (cr_fallback_reason r) \<and> opt_bounded 255 (cr_second_best_cv_id r)
     \<and> unit_interval (cr_second_best_confidence r) \<and> unit_interval (cr_confidence_margin r)"

definition checked_routing :: "calibrated_routing \<Rightarrow> fault + calibrated_routing" where
  "checked_routing r = (if calibrated_routing_valid r then Inr r else Inl ValueFault)"

definition posting_description :: "job_data \<Rightarrow> string" where
  "posting_description job = casefold (jd_description job @ '' '' @ jd_requirements job)"

definition calibrated_rank :: "job_data \<Rightarrow> string list \<Rightarrow> cv_definition \<Rightarrow> ranked_cv" where
  "calibrated_rank job required_skills =
     (let required = routing_tokens (join_words required_skills);
          mentioned = fromkeys (routing_tokens (posting_description job) @ required)
      in rank_cv routing_tokens casefold (routing_tokens (jd_title job)) mentioned required
           (casefold (jd_seniority job)))"

definition rank_cvs :: "job_data \<Rightarrow> string list \<Rightarrow> cv_routing_config \<Rightarrow> ranked_cv list" where
  "rank_cvs job required_skills cfg =
     sort_key (\<lambda>r. (- rk_confidence r, casefold (cd_id (rk_cv r))))
       (map (calibrated_rank job required_skills) (rc_cvs cfg))"

text \<open>What the ranking says before a CV is chosen, and the choice.\<close>

definition ranking_summary :: "ranked_cv list \<Rightarrow> calibrated_routing" where
  "ranking_summary ranked =
     (let confidence = (case ranked of [] \<Rightarrow> 0 | r # rs \<Rightarrow> rk_confidence r);
          second_confidence = (case ranked of r # s # rs \<Rightarrow> rk_confidence s | _ \<Rightarrow> 0)
      in \<lparr>cr_selected_cv_id = None, cr_selected_file = None, cr_confidence = confidence,
          cr_matched_evidence = (case ranked of [] \<Rightarrow> [] | r # rs \<Rightarrow> rk_evidence r),
          cr_fallback_reason = None, cr_overridden = False,
          cr_second_best_cv_id = (case ranked of r # s # rs \<Rightarrow> Some (cd_id (rk_cv s)) | _ \<Rightarrow> None),
          cr_second_best_confidence = second_confidence,
          cr_confidence_margin = round4 (max 0 (binary64 (confidence - second_confidence)))\<rparr>)"

definition choosing :: "cv_definition \<Rightarrow> string option \<Rightarrow> calibrated_routing \<Rightarrow> calibrated_routing" where
  "choosing cv reason r =
     r\<lparr>cr_selected_cv_id := Some (cd_id cv), cr_selected_file := Some (cd_file cv), cr_fallback_reason := reason\<rparr>"

definition decide_ranked :: "cv_routing_config \<Rightarrow> ranked_cv list \<Rightarrow> fault + calibrated_routing" where
  "decide_ranked cfg ranked =
     (let summary = ranking_summary ranked
      in if ranked \<noteq> [] \<and> rc_minimum_confidence cfg \<le> cr_confidence summary
         then checked_routing (choosing (rk_cv (hd ranked)) None summary)
         else if truthy (rc_fallback_cv_id cfg)
         then and_then (lift_opt ValueFault (configured_cv cfg (or_empty (rc_fallback_cv_id cfg)))) (\<lambda>cv.
              checked_routing (choosing cv (Some ''confidence_below_threshold'') summary))
         else checked_routing (summary\<lparr>cr_fallback_reason := Some ''abstained_low_confidence''\<rparr>))"

definition route_cv_calibrated ::
  "job_data \<Rightarrow> string list \<Rightarrow> cv_routing_config \<Rightarrow> fault + calibrated_routing" where
  "route_cv_calibrated job required_skills cfg =
     (case List.find (override_applies casefold (casefold (jd_title job)) (posting_description job)
             (casefold (jd_seniority job))) (rc_overrides cfg) of
        Some r \<Rightarrow>
          and_then (lift_opt ValueFault (configured_cv cfg (ro_cv_id r))) (\<lambda>cv.
          checked_routing \<lparr>cr_selected_cv_id = Some (cd_id cv), cr_selected_file = Some (cd_file cv),
            cr_confidence = 1, cr_matched_evidence = [''ordered_override''], cr_fallback_reason = None,
            cr_overridden = True, cr_second_best_cv_id = None, cr_second_best_confidence = 0,
            cr_confidence_margin = 1\<rparr>)
      | None \<Rightarrow> decide_ranked cfg (rank_cvs job required_skills cfg))"

section \<open>Bounds of the scores\<close>

lemma coverage_unit: "0 \<le> coverage found wanted \<and> coverage found wanted \<le> 1"
  by (auto simp: coverage_def intro: binary64_nonneg)

lemma binary64_one [simp]: "binary64 1 = 1"
  by code_simp

lemma binary64_upto:
  assumes "0 \<le> x" and "x \<le> c" and "c \<le> 1000"
  shows "binary64 x \<le> c + 1 / 1000000000"
  using binary64_near[of x] assms by linarith

lemma weighted_confidence_unit:
  assumes "0 \<le> t" "t \<le> 1" "0 \<le> s" "s \<le> 1"
  shows "unit_interval (weighted_confidence t s b)"
proof -
  let ?a = "binary64 (1 / 2 * t)" and ?w = "binary64 (4 / 10)" and ?c = "if b then binary64 (1 / 10) else 0"
  let ?m = "binary64 (?w * s)"
  have a: "0 \<le> ?a" "?a \<le> 1 / 2 + 1 / 1000000000"
    using assms binary64_nonneg[of "1 / 2 * t"] binary64_upto[of "1 / 2 * t" "1 / 2"] by linarith+
  have w: "0 \<le> ?w" "?w \<le> 4 / 10 + 1 / 1000000000"
    using binary64_nonneg[of "4 / 10"] binary64_upto[of "4 / 10" "4 / 10"] by linarith+
  have "?w * s \<le> ?w * 1" using w assms by (intro mult_left_mono) auto
  then have m: "0 \<le> ?m" "?m \<le> 4 / 10 + 2 / 1000000000"
    using w assms binary64_upto[of "?w * s" "4 / 10 + 1 / 1000000000"] by (auto intro!: binary64_nonneg)
  have c: "0 \<le> ?c" "?c \<le> 1 / 10 + 1 / 1000000000"
    using binary64_nonneg[of "1 / 10"] binary64_upto[of "1 / 10" "1 / 10"] by (auto split: if_splits)
  have am: "0 \<le> binary64 (?a + ?m)" "binary64 (?a + ?m) \<le> 9 / 10 + 4 / 1000000000"
    using a m binary64_upto[of "?a + ?m" "9 / 10 + 3 / 1000000000"] by (auto intro!: binary64_nonneg)
  have "0 \<le> binary64 (binary64 (?a + ?m) + ?c)" "binary64 (binary64 (?a + ?m) + ?c) \<le> 1 + 6 / 1000000000"
    using am c binary64_upto[of "binary64 (?a + ?m) + ?c" "1 + 5 / 1000000000"] by (auto intro!: binary64_nonneg)
  then show ?thesis
    unfolding weighted_confidence_def unit_interval_def
    using round4_le[of _ 1] round4_nonneg by auto
qed

lemma rank_cv_unit: "unit_interval (rk_confidence (rank_cv tokens fold_case ts ms rs sen cv))"
  by (simp add: rank_cv_def Let_def weighted_confidence_unit coverage_unit)

lemma margin_unit:
  assumes "unit_interval c" and "unit_interval d"
  shows "unit_interval (round4 (max 0 (binary64 (c - d))))"
proof -
  have "\<bar>binary64 (c - d) - (c - d)\<bar> \<le> 1 / 1000000000"
    using assms by (intro binary64_near) (auto simp: unit_interval_def)
  then have "max 0 (binary64 (c - d)) \<le> 1 + 1 / 30000"
    using assms unfolding unit_interval_def by linarith
  then show ?thesis using round4_le[of "max 0 (binary64 (c - d))" 1] round4_nonneg[of "max 0 (binary64 (c - d))"]
    by (simp add: unit_interval_def)
qed

lemma unit_interval_ends [simp]: "unit_interval 0" "unit_interval 1"
  by (simp_all add: unit_interval_def)

lemma confidence_margin_unit: "unit_interval c \<Longrightarrow> unit_interval (round4 (max 0 (binary64 c)))"
  using margin_unit[of c 0] by (simp add: unit_interval_def)

section \<open>The calibrated router always decides\<close>

definition bounded_cvs :: "cv_routing_config \<Rightarrow> bool" where
  "bounded_cvs cfg = list_all (\<lambda>cv. length (cd_id cv) \<le> 255 \<and> length (cd_file cv) \<le> 1024) (rc_cvs cfg)"

definition ranking_ok :: "cv_routing_config \<Rightarrow> ranked_cv list \<Rightarrow> bool" where
  "ranking_ok cfg ranked =
     list_all (\<lambda>r. unit_interval (rk_confidence r) \<and> rk_cv r \<in> set (rc_cvs cfg) \<and> length (rk_evidence r) \<le> 3) ranked"

lemma configured_cvD: "configured_cv cfg k = Some cv \<Longrightarrow> cv \<in> set (rc_cvs cfg) \<and> cd_id cv = k"
  by (auto simp: configured_cv_def find_Some_iff)

lemma configured_reference:
  assumes "references_exist cfg" and "k \<in> set (config_references cfg)"
  obtains cv where "configured_cv cfg k = Some cv" and "cv \<in> set (rc_cvs cfg)"
proof -
  have "k \<in> cd_id ` set (rc_cvs cfg)" using assms by (auto simp: references_exist_def list_all_iff)
  then have "configured_cv cfg k \<noteq> None" by (auto simp: configured_cv_def find_None_iff)
  then show thesis using configured_cvD that by blast
qed

lemma bounded_cvsD:
  assumes "bounded_cvs cfg" and "cv \<in> set (rc_cvs cfg)"
  shows "length (cd_id cv) \<le> 255" "length (cd_file cv) \<le> 1024"
  using assms by (auto simp: bounded_cvs_def list_all_iff)

lemma rank_cvs_ok: "ranking_ok cfg (rank_cvs job required cfg)"
  by (simp add: ranking_ok_def rank_cvs_def calibrated_rank_def Let_def list_all_iff rank_cv_unit)
    (simp add: rank_cv_def Let_def match_evidence_def)

lemma checked_routing_ok: "calibrated_routing_valid r \<Longrightarrow> \<exists>q. checked_routing r = Inr q \<and> calibrated_routing_valid q"
  by (simp add: checked_routing_def)

lemma summary_valid:
  assumes "bounded_cvs cfg" and "ranking_ok cfg ranked"
  shows "calibrated_routing_valid (ranking_summary ranked)"
proof -
  note bounds = bounded_cvsD[OF assms(1)]
  show ?thesis
  proof (cases ranked rule: remdups_adj.cases)
    case 1
    then show ?thesis by (simp add: ranking_summary_def Let_def calibrated_routing_valid_def opt_bounded_def confidence_margin_unit)
  next
    case (2 r)
    then show ?thesis using assms(2)
      by (simp add: ranking_ok_def ranking_summary_def Let_def calibrated_routing_valid_def opt_bounded_def confidence_margin_unit)
  next
    case (3 r s rs)
    then show ?thesis using assms(2) bounds[of "rk_cv s"]
      by (simp add: ranking_ok_def ranking_summary_def Let_def calibrated_routing_valid_def opt_bounded_def margin_unit)
  qed
qed

lemma choosing_valid:
  assumes "calibrated_routing_valid r" and "bounded_cvs cfg" and "cv \<in> set (rc_cvs cfg)" and "opt_bounded 64 reason"
  shows "calibrated_routing_valid (choosing cv reason r)"
  using assms bounded_cvsD[OF assms(2,3)]
  by (simp add: choosing_def calibrated_routing_valid_def opt_bounded_def)

lemma decide_ranked_ok:
  assumes cfg: "references_exist cfg" "bounded_cvs cfg" and ranked: "ranking_ok cfg ranked"
  shows "\<exists>r. decide_ranked cfg ranked = Inr r \<and> calibrated_routing_valid r"
proof -
  note summary = summary_valid[OF cfg(2) ranked]
  consider "ranked \<noteq> [] \<and> rc_minimum_confidence cfg \<le> cr_confidence (ranking_summary ranked)"
    | "\<not> (ranked \<noteq> [] \<and> rc_minimum_confidence cfg \<le> cr_confidence (ranking_summary ranked))"
      "truthy (rc_fallback_cv_id cfg)"
    | "\<not> (ranked \<noteq> [] \<and> rc_minimum_confidence cfg \<le> cr_confidence (ranking_summary ranked))"
      "\<not> truthy (rc_fallback_cv_id cfg)"
    by blast
  then show ?thesis
  proof cases
    case 1
    then have "rk_cv (hd ranked) \<in> set (rc_cvs cfg)"
      using ranked by (cases ranked) (auto simp: ranking_ok_def)
    then show ?thesis using 1 checked_routing_ok[OF choosing_valid[OF summary cfg(2)]]
      by (simp add: decide_ranked_def Let_def opt_bounded_def)
  next
    case 2
    then have "or_empty (rc_fallback_cv_id cfg) \<in> set (config_references cfg)"
      by (simp add: config_references_def)
    then obtain cv where cv: "configured_cv cfg (or_empty (rc_fallback_cv_id cfg)) = Some cv" "cv \<in> set (rc_cvs cfg)"
      using configured_reference[OF cfg(1)] by blast
    have "opt_bounded 64 (Some ''confidence_below_threshold'')" by (simp add: opt_bounded_def)
    from checked_routing_ok[OF choosing_valid[OF summary cfg(2) cv(2) this]] show ?thesis
      using 2 cv(1) by (auto simp: decide_ranked_def Let_def lift_opt_def)
  next
    case 3
    then show ?thesis using summary
      by (auto simp: decide_ranked_def Let_def intro!: checked_routing_ok)
        (simp_all add: calibrated_routing_valid_def opt_bounded_def)
  qed
qed

lemma override_referenced: "r \<in> set (rc_overrides cfg) \<Longrightarrow> ro_cv_id r \<in> set (config_references cfg)"
  by (simp add: config_references_def)

lemma route_cv_calibrated_ok:
  assumes cfg: "references_exist cfg" "bounded_cvs cfg"
  shows "\<exists>r. route_cv_calibrated job required cfg = Inr r \<and> calibrated_routing_valid r"
proof (cases "List.find (override_applies casefold (casefold (jd_title job)) (posting_description job)
             (casefold (jd_seniority job))) (rc_overrides cfg)")
  case None
  then show ?thesis using decide_ranked_ok[OF cfg rank_cvs_ok] by (simp add: route_cv_calibrated_def)
next
  case (Some r)
  then have "r \<in> set (rc_overrides cfg)" by (auto simp: find_Some_iff)
  then obtain cv where "configured_cv cfg (ro_cv_id r) = Some cv" "cv \<in> set (rc_cvs cfg)"
    using configured_reference[OF cfg(1) override_referenced] by blast
  then show ?thesis using Some bounded_cvsD[OF cfg(2)]
    by (auto simp: route_cv_calibrated_def lift_opt_def checked_routing_def calibrated_routing_valid_def
        opt_bounded_def)
qed

section \<open>The order of the configured CVs does not matter\<close>

lemma sort_key_reordered:
  assumes "mset xs = mset ys" and "inj_on f (set xs)"
  shows "sort_key f xs = sort_key f ys"
  by (rule sort_key_inj_key_eq) (use assms in simp_all)

lemma rk_cv_rank_cv [simp]: "rk_cv (rank_cv tokens fold_case ts ms rs sen cv) = cv"
  by (simp add: rank_cv_def Let_def)

lemma rk_cv_calibrated [simp]: "rk_cv (calibrated_rank job required cv) = cv"
  by (simp add: calibrated_rank_def Let_def)

lemma configured_cv_reordered:
  assumes "mset cvs = mset (rc_cvs cfg)" and "distinct (map cd_id (rc_cvs cfg))"
  shows "configured_cv (cfg\<lparr>rc_cvs := cvs\<rparr>) k = configured_cv cfg k"
proof -
  let ?cfg = "cfg\<lparr>rc_cvs := cvs\<rparr>"
  have sets: "set (rc_cvs ?cfg) = set (rc_cvs cfg)" using mset_eq_setD[OF assms(1)] by simp
  have inj: "inj_on cd_id (set (rc_cvs cfg))" using assms(2) by (simp add: distinct_map)
  have same: "cv = cv'" if "configured_cv cfg k = Some cv" "configured_cv ?cfg k = Some cv'" for cv cv'
    using configured_cvD[OF that(1)] configured_cvD[OF that(2)] inj_onD[OF inj, of cv cv'] sets by simp
  have none: "configured_cv ?cfg k = None \<longleftrightarrow> configured_cv cfg k = None"
    by (simp only: configured_cv_def find_None_iff sets)
  show ?thesis
  proof (cases "configured_cv cfg k")
    case None
    then show ?thesis using none by simp
  next
    case (Some cv)
    then obtain cv' where "configured_cv ?cfg k = Some cv'" using none by (cases "configured_cv ?cfg k") simp_all
    then show ?thesis using same[OF Some] Some by simp
  qed
qed

lemma ranked_reordered:
  assumes "mset cvs = mset (rc_cvs cfg)" and "distinct (map (g \<circ> cd_id) (rc_cvs cfg))" and "\<And>cv. rk_cv (f cv) = cv"
  shows "sort_key (\<lambda>r. (h r, g (cd_id (rk_cv r)))) (map f cvs) = sort_key (\<lambda>r. (h r, g (cd_id (rk_cv r)))) (map f (rc_cvs cfg))"
proof (rule sort_key_reordered)
  show "mset (map f cvs) = mset (map f (rc_cvs cfg))" using assms(1) by simp
  have "set cvs = set (rc_cvs cfg)" using assms(1) by (rule mset_eq_setD)
  then show "inj_on (\<lambda>r. (h r, g (cd_id (rk_cv r)))) (set (map f cvs))"
    using assms(2) by (auto simp: inj_on_def distinct_map assms(3))
qed

text \<open>
  Routing does not depend on the order in which the CVs are configured. For a configuration whose
  references exist and whose identifiers differ up to case, both routers give the same decision, with the
  same evidence, runner-up and margin, after any reordering of the CVs.
\<close>

theorem routing_ignores_configured_order:
  assumes "references_exist cfg" and "distinct (map (casefold \<circ> cd_id) (rc_cvs cfg))" and "mset cvs = mset (rc_cvs cfg)"
  shows "route_cv_calibrated job required (cfg\<lparr>rc_cvs := cvs\<rparr>) = route_cv_calibrated job required cfg
    \<and> route_cv rj (cfg\<lparr>rc_cvs := cvs\<rparr>) = route_cv rj cfg"
proof -
  have ids: "distinct (map cd_id (rc_cvs cfg))" using assms(1) by (simp add: references_exist_def)
  note cv = configured_cv_reordered[OF assms(3) ids]
  have "rank_cvs job required (cfg\<lparr>rc_cvs := cvs\<rparr>) = rank_cvs job required cfg"
    using ranked_reordered[OF assms(3,2), of "calibrated_rank job required" "\<lambda>r. - rk_confidence r"]
    by (simp add: rank_cvs_def)
  then have calibrated: "route_cv_calibrated job required (cfg\<lparr>rc_cvs := cvs\<rparr>) = route_cv_calibrated job required cfg"
    by (simp add: route_cv_calibrated_def decide_ranked_def Let_def cv split: option.split)
  have "best_ranked (map (rank_cv tokens py_lower ts ms rs sen) cvs)
    = best_ranked (map (rank_cv tokens py_lower ts ms rs sen) (rc_cvs cfg))" for tokens ts ms rs sen
    using ranked_reordered[OF assms(3), of id "rank_cv tokens py_lower ts ms rs sen" rk_confidence] ids
    by (simp add: best_ranked_def)
  then have "route_cv rj (cfg\<lparr>rc_cvs := cvs\<rparr>) = route_cv rj cfg"
    by (simp add: route_cv_def Let_def cv split: option.split)
  with calibrated show ?thesis ..
qed

section \<open>The best CV is chosen\<close>

lemma rank_order:
  assumes "rank_cvs job required cfg = xs @ r # rs" and "s \<in> set rs"
  shows "rk_confidence s \<le> rk_confidence r"
proof -
  have "sorted (map (\<lambda>r. (- rk_confidence r, casefold (cd_id (rk_cv r)))) (rank_cvs job required cfg))"
    by (simp add: rank_cvs_def)
  then have "(- rk_confidence r, casefold (cd_id (rk_cv r))) \<le> (- rk_confidence s, casefold (cd_id (rk_cv s)))"
    using assms by (auto simp: sorted_append)
  then show ?thesis by (auto simp: less_eq_prod_def)
qed

lemma rank_cvs_members: "set (rank_cvs job required cfg) = calibrated_rank job required ` set (rc_cvs cfg)"
  by (simp add: rank_cvs_def)

lemma chosen_without_fallback:
  assumes "decide_ranked cfg ranked = Inr r" and "cr_fallback_reason r = None"
  obtains top rest where "ranked = top # rest" and "r = choosing (rk_cv top) None (ranking_summary ranked)"
proof -
  have "ranked \<noteq> [] \<and> r = choosing (rk_cv (hd ranked)) None (ranking_summary ranked)"
    using assms by (auto simp: decide_ranked_def Let_def checked_routing_def choosing_def lift_opt_def
        split: if_splits option.splits)
  then show thesis using that by (cases ranked) auto
qed


section \<open>A sample configuration\<close>

definition go_posting :: job_data where
  "go_posting =
     \<lparr>jd_title = ''Go'', jd_company = [], jd_location = [], jd_employment_type = [], jd_seniority = [],
      jd_description = [], jd_requirements = [], jd_apply_url = [], jd_source_url = [], jd_keywords = []\<rparr>"

definition go_cv :: cv_definition where
  "go_cv = \<lparr>cd_id = ''b'', cd_file = ''b.pdf'', cd_title_terms = [''go''], cd_skills = [], cd_seniority = []\<rparr>"

definition qa_cv :: cv_definition where
  "qa_cv = \<lparr>cd_id = ''a'', cd_file = ''a.pdf'', cd_title_terms = [''qa''], cd_skills = [], cd_seniority = []\<rparr>"

definition go_routing :: cv_routing_config where
  "go_routing = \<lparr>rc_cvs = [qa_cv, go_cv], rc_overrides = [], rc_minimum_confidence = 1 / 4, rc_fallback_cv_id = None\<rparr>"

definition go_choice :: calibrated_routing where
  "go_choice =
     \<lparr>cr_selected_cv_id = Some ''b'', cr_selected_file = Some ''b.pdf'', cr_confidence = 1 / 2,
      cr_matched_evidence = [''title:go''], cr_fallback_reason = None, cr_overridden = False,
      cr_second_best_cv_id = Some ''a'', cr_second_best_confidence = 0, cr_confidence_margin = 1 / 2\<rparr>"

lemma go_routing_fine:
  "references_exist go_routing" "distinct (map (casefold \<circ> cd_id) (rc_cvs go_routing))" "bounded_cvs go_routing"
  by code_simp+

lemma go_routed: "route_cv_calibrated go_posting [] go_routing = Inr go_choice"
  by code_simp

theorem routing_ignores_configured_order_witness:
  "route_cv_calibrated go_posting [] (go_routing\<lparr>rc_cvs := [go_cv, qa_cv]\<rparr>) = Inr go_choice"
proof -
  have "mset [go_cv, qa_cv] = mset (rc_cvs go_routing)" by (simp add: go_routing_def)
  from routing_ignores_configured_order[OF go_routing_fine(1,2) this, of go_posting "[]"] show ?thesis
    by (simp add: go_routed)
qed


end
