(* ===== verification/Job_Fit.thy ===== *)
theory Job_Fit
  imports Cv_Routing "HOL-Library.AList"
begin

text \<open>
  The fit evaluation of \<^verbatim>\<open>match/job_fit.py\<close> and its assembly in \<^verbatim>\<open>match/job_fit_runtime.py\<close>: seven scored
  factors with their exclusions and uncertainties, the decision they add up to, and the review decision
  that stands in when the evaluation cannot run. The part of \<^verbatim>\<open>profile/models.py\<close> that the evaluation reads
  is the candidate's preferences and evidence. Digests and the detector of injected instructions are
  arguments: the results hold for every choice of them that the hypotheses allow.
\<close>

section \<open>The candidate\<close>

type_synonym facts = "(string \<times> string) list"

record evidence =
  ev_user_confirmed :: facts
  ev_cv_extracted_by_artifact :: "(string \<times> facts) list"

record user_profile =
  up_remote_ok :: bool
  up_hybrid_ok :: bool
  up_onsite_ok :: bool
  up_blacklist_companies :: "string list"
  up_evidence :: evidence

text \<open>
  \<open>canonical_fact_key\<close>: every run of characters outside \<open>a-z0-9\<close> becomes one underscore, and underscores at
  the ends go, which leaves the runs inside \<open>a-z0-9\<close> separated by single underscores.
\<close>

definition key_runs :: "string \<Rightarrow> string list" where
  "key_runs s = split_words [] (map (\<lambda>c. if is_lower c \<or> is_digit c then c else CHR '' '') s)"

definition canonical_fact_key :: "string \<Rightarrow> string" where
  "canonical_fact_key s =
     (case key_runs (py_lower (strip s)) of [] \<Rightarrow> [] | w # vs \<Rightarrow> w @ concat (map (\<lambda>v. ''_'' @ v) vs))"

text \<open>The canonical facts: blank keys and values are dropped, and two values for one key are an error.\<close>

fun normalize_facts :: "facts \<Rightarrow> facts \<Rightarrow> fault + facts" where
  "normalize_facts done [] = Inr done"
| "normalize_facts done ((k, v) # rest) =
     (let canonical = canonical_fact_key k; clean = strip v in
      if canonical = [] \<or> clean = [] then normalize_facts done rest
      else case map_of done canonical of
             None \<Rightarrow> normalize_facts (done @ [(canonical, clean)]) rest
           | Some w \<Rightarrow> if w \<noteq> clean then Inl ValueFault else normalize_facts done rest)"

fun normalize_artifact_facts :: "(string \<times> facts) list \<Rightarrow> (string \<times> facts) list \<Rightarrow> fault + (string \<times> facts) list" where
  "normalize_artifact_facts done [] = Inr done"
| "normalize_artifact_facts done ((h, fs) # rest) =
     (let digest = casefold (strip h) in
      if \<not> is_sha256 digest then Inl ValueFault
      else and_then (normalize_facts [] fs) (\<lambda>clean.
             normalize_artifact_facts (AList.update digest clean done) rest))"

definition normalize_keys :: "evidence \<Rightarrow> fault + evidence" where
  "normalize_keys e =
     and_then (normalize_facts [] (ev_user_confirmed e)) (\<lambda>confirmed.
     and_then (normalize_artifact_facts [] (ev_cv_extracted_by_artifact e)) (\<lambda>extracted.
     Inr \<lparr>ev_user_confirmed = confirmed, ev_cv_extracted_by_artifact = extracted\<rparr>))"

definition confirmed_fact :: "evidence \<Rightarrow> string \<Rightarrow> string option" where
  "confirmed_fact e k =
     (let v = strip (or_empty (map_of (ev_user_confirmed e) (canonical_fact_key k)))
      in if v = [] then None else Some v)"

definition facts_for_cv :: "evidence \<Rightarrow> string \<Rightarrow> facts" where
  "facts_for_cv e pdf_sha256 =
     (let digest = casefold (strip pdf_sha256) in
      if is_sha256 digest
      then (case map_of (ev_cv_extracted_by_artifact e) digest of None \<Rightarrow> [] | Some fs \<Rightarrow> fs)
      else [])"

section \<open>Required skills\<close>

definition tech_skill_vocabulary :: "string list" where
  "tech_skill_vocabulary =
     [''python'', ''java'', ''javascript'', ''typescript'', ''react'', ''angular'', ''vue'', ''node.js'', ''go'',
      ''golang'', ''rust'', ''c'', ''c++'', ''c#'', ''.net'', ''spring'', ''django'', ''fastapi'', ''sql'',
      ''postgresql'', ''mysql'', ''mongodb'', ''redis'', ''kafka'', ''spark'', ''airflow'', ''pandas'',
      ''pytorch'', ''tensorflow'', ''scikit-learn'', ''kubernetes'', ''docker'', ''terraform'', ''ansible'',
      ''jenkins'', ''aws'', ''azure'', ''gcp'', ''linux'', ''selenium'', ''playwright'', ''rtos'', ''5g'',
      ''sctp'', ''git'']"

definition skill_vocabulary :: "cv_routing_config \<Rightarrow> string list" where
  "skill_vocabulary cfg = ordered_unique (concat (map cd_skills (rc_cvs cfg)) @ tech_skill_vocabulary)"

definition required_skills :: "job_data \<Rightarrow> cv_routing_config \<Rightarrow> string list" where
  "required_skills job cfg =
     (let vocabulary = skill_vocabulary cfg;
          explicit = ordered_unique (jd_keywords job);
          explicit_known = filter (\<lambda>s. list_ex (\<lambda>i. s = i \<or> contains_term i s) explicit) vocabulary;
          source_text = (if strip (jd_requirements job) \<noteq> [] then strip (jd_requirements job)
                         else jd_description job);
          textual = filter (contains_term source_text) vocabulary
      in ordered_unique (explicit_known @ textual))"

section \<open>Factors\<close>

text \<open>A factor is its evidence, the hard exclusions and the uncertainties it raises.\<close>

type_synonym factor = "fit_evidence \<times> string list \<times> string list"

definition fit_evidence_of :: "fit_factor \<Rightarrow> rat \<Rightarrow> fit_result \<Rightarrow> rat \<Rightarrow> string list \<Rightarrow> fit_evidence" where
  "fit_evidence_of f maximum result points reasons =
     \<lparr>fe_factor = f, fe_result = result, fe_points = points, fe_maximum_points = maximum,
      fe_reason_codes = reasons\<rparr>"

definition excluded_by :: "fit_factor \<Rightarrow> rat \<Rightarrow> string \<Rightarrow> factor" where
  "excluded_by f maximum reason = (fit_evidence_of f maximum FR_EXCLUDED 0 [reason], [reason], [])"

definition uncertain_by :: "fit_factor \<Rightarrow> rat \<Rightarrow> fit_result \<Rightarrow> string \<Rightarrow> factor" where
  "uncertain_by f maximum result reason = (fit_evidence_of f maximum result (maximum / 2) [reason], [], [reason])"

definition matched_by :: "fit_factor \<Rightarrow> rat \<Rightarrow> string \<Rightarrow> factor" where
  "matched_by f maximum reason = (fit_evidence_of f maximum FR_MATCHED maximum [reason], [], [])"

definition israel_terms :: "string list" where
  "israel_terms =
     [''israel'', ''tel aviv'', ''jerusalem'', ''haifa'', ''herzliya'', ''petah tikva'', ''beer sheva'',
      ''beersheba'']"

definition remote_terms :: "string list" where
  "remote_terms = [''remote'', ''work from home'']"

definition remote_allowed_regions :: "string list" where
  "remote_allowed_regions =
     [''worldwide'', ''anywhere'', ''global remote'', ''remote global'', ''emea'', ''middle east'', ''israel'']"

definition remote_incompatible_regions :: "string list" where
  "remote_incompatible_regions =
     [''us'', ''us only'', ''usa'', ''usa only'', ''united states'', ''united states only'', ''canada'',
      ''canada only'', ''uk'', ''uk only'', ''eu'', ''eu only'', ''europe'', ''europe only'', ''apac'',
      ''apac only'', ''americas'', ''americas only'']"

definition location_factor :: "job_data \<Rightarrow> user_profile \<Rightarrow> factor" where
  "location_factor job profile =
     (let place = normalized (jd_location job);
          scope_text = normalized (jd_location job @ '' '' @ jd_description job @ '' '' @ jd_requirements job);
          remote_scope_text = normalized (jd_location job @ '' '' @ jd_description job)
      in if contains_any scope_text remote_terms
         then if contains_any remote_scope_text remote_incompatible_regions
              then excluded_by FF_LOCATION 20 ''REMOTE_REGION_INCOMPATIBLE''
              else if contains_any remote_scope_text remote_allowed_regions
              then if \<not> up_remote_ok profile then excluded_by FF_LOCATION 20 ''REMOTE_WORK_NOT_PERMITTED''
                   else matched_by FF_LOCATION 20 ''REMOTE_REGION_ISRAEL_COMPATIBLE''
              else uncertain_by FF_LOCATION 20 FR_UNKNOWN ''REMOTE_REGION_UNSPECIFIED''
         else if contains_any place israel_terms
         then if (if contains_term scope_text ''hybrid'' then up_hybrid_ok profile else up_onsite_ok profile)
              then matched_by FF_LOCATION 20 ''ISRAEL_LOCATION_MATCH''
              else excluded_by FF_LOCATION 20 ''WORKPLACE_MODE_NOT_PERMITTED''
         else if place = [] then uncertain_by FF_LOCATION 20 FR_UNKNOWN ''LOCATION_ELIGIBILITY_UNKNOWN''
         else excluded_by FF_LOCATION 20 ''FOREIGN_ONSITE_ROLE'')"

definition seniority_groups :: "(string \<times> string list) list" where
  "seniority_groups =
     [(''internship'', [''intern'', ''internship'', ''student'']),
      (''junior'', [''junior'', ''entry level'', ''graduate'']),
      (''lead'', [''principal'', ''staff'', ''lead'', ''architect'']),
      (''director'', [''director'', ''head of'', ''vp'']),
      (''senior'', [''senior'', ''sr'']),
      (''mid'', [''mid'', ''middle'', ''intermediate''])]"

definition seniority_of :: "string \<Rightarrow> string option" where
  "seniority_of s =
     map_option fst (List.find (\<lambda>(g, terms). contains_any (normalized s) terms) seniority_groups)"

definition supported_seniority :: "cv_definition \<Rightarrow> string list" where
  "supported_seniority cv =
     map (\<lambda>s. case seniority_of s of None \<Rightarrow> normalized s | Some g \<Rightarrow> g) (cd_seniority cv)"

definition seniority_factor :: "job_data \<Rightarrow> cv_definition option \<Rightarrow> factor" where
  "seniority_factor job selected =
     (case seniority_of (jd_seniority job @ '' '' @ jd_title job) of
        None \<Rightarrow> uncertain_by FF_SENIORITY 10 FR_UNKNOWN ''SENIORITY_UNKNOWN''
      | Some observed \<Rightarrow>
          (case selected of
             None \<Rightarrow> excluded_by FF_SENIORITY 10 ''SENIORITY_OUT_OF_SCOPE''
           | Some cv \<Rightarrow>
               if observed \<notin> set (supported_seniority cv)
               then excluded_by FF_SENIORITY 10 ''SENIORITY_OUT_OF_SCOPE''
               else matched_by FF_SENIORITY 10 ''SENIORITY_MATCH''))"

definition employment_factor :: "job_data \<Rightarrow> cv_definition option \<Rightarrow> factor" where
  "employment_factor job selected =
     (let employment = normalized (jd_employment_type job @ '' '' @ jd_title job);
          selected_scope = normalized (case selected of
             None \<Rightarrow> [] | Some cv \<Rightarrow> join_words (cd_title_terms cv @ [cd_id cv]))
      in if contains_any employment [''intern'', ''internship'']
         then if contains_any selected_scope [''intern'', ''student'']
              then matched_by FF_EMPLOYMENT 5 ''INTERNSHIP_ROUTE_MATCH''
              else excluded_by FF_EMPLOYMENT 5 ''EMPLOYMENT_TYPE_OUT_OF_SCOPE''
         else if contains_any employment [''full time'', ''fulltime'']
         then matched_by FF_EMPLOYMENT 5 ''FULL_TIME_MATCH''
         else if normalized (jd_employment_type job) = []
         then uncertain_by FF_EMPLOYMENT 5 FR_UNKNOWN ''EMPLOYMENT_TYPE_UNKNOWN''
         else uncertain_by FF_EMPLOYMENT 5 FR_PARTIAL ''EMPLOYMENT_TYPE_REVIEW_REQUIRED'')"

text \<open>\<open>" ".join(filter(None, values))\<close>.\<close>

definition join_present :: "string option list \<Rightarrow> string" where
  "join_present xs = join_words (map or_empty (filter truthy xs))"

definition candidate_experience :: "user_profile \<Rightarrow> string option \<Rightarrow> string" where
  "candidate_experience profile selected_hash =
     (let confirmed = or_empty (confirmed_fact (up_evidence profile) ''years_experience'') in
      if confirmed = [] \<and> truthy selected_hash
      then (let fs = facts_for_cv (up_evidence profile) (or_empty selected_hash)
            in join_present [map_of fs ''relevant_experience'', map_of fs ''technical_summary''])
      else confirmed)"

definition experience_factor :: "job_data \<Rightarrow> user_profile \<Rightarrow> string option \<Rightarrow> factor" where
  "experience_factor job profile selected_hash =
     (case required_years (jd_requirements job @ '' '' @ jd_description job) of
        None \<Rightarrow> matched_by FF_EXPERIENCE 3 ''EXPERIENCE_NOT_EXPLICITLY_CONSTRAINED''
      | Some required \<Rightarrow>
          (case required_years (candidate_experience profile selected_hash) of
             None \<Rightarrow> uncertain_by FF_EXPERIENCE 3 FR_UNKNOWN ''EXPERIENCE_EVIDENCE_MISSING''
           | Some candidate \<Rightarrow>
               if candidate < required then excluded_by FF_EXPERIENCE 3 ''EXPERIENCE_REQUIREMENT_UNMET''
               else matched_by FF_EXPERIENCE 3 ''EXPERIENCE_REQUIREMENT_MET''))"

definition negative_fact :: "string \<Rightarrow> bool" where
  "negative_fact v \<longleftrightarrow>
     normalized v \<in> {''no'', ''false'', ''not authorized'', ''none''} \<or> prefix ''not '' (normalized v)"

definition positive_fact :: "string \<Rightarrow> bool" where
  "positive_fact v \<longleftrightarrow>
     normalized v \<noteq> [] \<and> \<not> negative_fact v
     \<and> (normalized v \<in> {''yes'', ''true'', ''authorized'', ''eligible''} \<or> contains ''israel'' (normalized v))"

definition mentions_any :: "string list \<Rightarrow> string \<Rightarrow> bool" where
  "mentions_any phrases text = list_ex (\<lambda>p. contains p text) phrases"

definition language_required :: "string \<Rightarrow> string option" where
  "language_required text =
     (if mentions_any [''fluent hebrew'', ''hebrew required'', ''native hebrew''] text then Some ''hebrew''
      else if mentions_any [''fluent english'', ''english required'', ''native english''] text then Some ''english''
      else None)"

text \<open>The exclusions and uncertainties of one requirement on a confirmed fact.\<close>

definition confirmed_text :: "facts \<Rightarrow> string \<Rightarrow> string" where
  "confirmed_text confirmed k = strip (or_empty (map_of confirmed k))"

definition language_gap :: "facts \<Rightarrow> string \<Rightarrow> string list" where
  "language_gap confirmed text =
     (case language_required text of
        None \<Rightarrow> []
      | Some language \<Rightarrow>
          if contains_term (normalized (join_present [map_of confirmed ''languages'', map_of confirmed ''primary_language'']))
               language
          then [] else [''LANGUAGE_EVIDENCE_MISSING''])"

definition authorization_gap :: "facts \<Rightarrow> string \<Rightarrow> string list \<times> string list" where
  "authorization_gap confirmed text =
     (let fact = confirmed_text confirmed ''work_authorization'' in
      if \<not> mentions_any [''authorized to work'', ''work authorization'', ''right to work''] text then ([], [])
      else if fact = [] then ([], [''AUTHORIZATION_EVIDENCE_MISSING''])
      else if negative_fact fact then ([''AUTHORIZATION_REQUIREMENT_UNMET''], [])
      else if \<not> positive_fact fact then ([], [''AUTHORIZATION_EVIDENCE_AMBIGUOUS''])
      else ([], []))"

definition sponsorship_gap :: "facts \<Rightarrow> string \<Rightarrow> string list \<times> string list" where
  "sponsorship_gap confirmed text =
     (let fact = confirmed_text confirmed ''visa_sponsorship'' in
      if \<not> mentions_any [''no sponsorship'', ''cannot sponsor'', ''without sponsorship''] text then ([], [])
      else if fact = [] then ([], [''SPONSORSHIP_EVIDENCE_MISSING''])
      else if positive_fact fact then ([''SPONSORSHIP_REQUIREMENT_UNMET''], [])
      else if \<not> negative_fact fact then ([], [''SPONSORSHIP_EVIDENCE_AMBIGUOUS''])
      else ([], []))"

definition clearance_gap :: "facts \<Rightarrow> string \<Rightarrow> string list \<times> string list" where
  "clearance_gap confirmed text =
     (let fact = confirmed_text confirmed ''security_clearance'' in
      if \<not> contains ''security clearance'' text then ([], [])
      else if fact = [] then ([], [''CLEARANCE_EVIDENCE_MISSING''])
      else if negative_fact fact then ([''CLEARANCE_REQUIREMENT_UNMET''], [])
      else ([], []))"

definition language_authorization_factor :: "job_data \<Rightarrow> user_profile \<Rightarrow> factor" where
  "language_authorization_factor job profile =
     (let text = normalized (jd_requirements job @ '' '' @ jd_description job);
          confirmed = ev_user_confirmed (up_evidence profile);
          gaps = [authorization_gap confirmed text, sponsorship_gap confirmed text, clearance_gap confirmed text];
          hard = concat (map fst gaps);
          uncertain = language_gap confirmed text @ concat (map snd gaps);
          evidence = fit_evidence_of FF_LANGUAGE_AUTHORIZATION 2
      in if hard \<noteq> [] then (evidence FR_EXCLUDED 0 (fromkeys (hard @ uncertain)), hard, uncertain)
         else if uncertain \<noteq> [] then (evidence FR_UNKNOWN 1 (fromkeys (hard @ uncertain)), hard, uncertain)
         else (evidence FR_MATCHED 2 [''LANGUAGE_AUTHORIZATION_COMPATIBLE''], hard, uncertain))"

section \<open>Every factor is well formed\<close>

lemma all_factor_codes:
  "list_all reason_token
     [''AUTHORIZATION_EVIDENCE_AMBIGUOUS'', ''AUTHORIZATION_EVIDENCE_MISSING'', ''AUTHORIZATION_REQUIREMENT_UNMET'',
      ''CLEARANCE_EVIDENCE_MISSING'', ''CLEARANCE_REQUIREMENT_UNMET'', ''EMPLOYMENT_TYPE_OUT_OF_SCOPE'',
      ''EMPLOYMENT_TYPE_REVIEW_REQUIRED'', ''EMPLOYMENT_TYPE_UNKNOWN'', ''EXPERIENCE_EVIDENCE_MISSING'',
      ''EXPERIENCE_NOT_EXPLICITLY_CONSTRAINED'', ''EXPERIENCE_REQUIREMENT_MET'', ''EXPERIENCE_REQUIREMENT_UNMET'',
      ''FOREIGN_ONSITE_ROLE'', ''FULL_TIME_MATCH'', ''INTERNSHIP_ROUTE_MATCH'',
      ''ISRAEL_LOCATION_MATCH'', ''LANGUAGE_AUTHORIZATION_COMPATIBLE'', ''LANGUAGE_EVIDENCE_MISSING'',
      ''LOCATION_ELIGIBILITY_UNKNOWN'', ''REMOTE_REGION_INCOMPATIBLE'', ''REMOTE_REGION_ISRAEL_COMPATIBLE'',
      ''REMOTE_REGION_UNSPECIFIED'', ''REMOTE_WORK_NOT_PERMITTED'', ''SENIORITY_MATCH'',
      ''SENIORITY_OUT_OF_SCOPE'', ''SENIORITY_UNKNOWN'', ''SPONSORSHIP_EVIDENCE_AMBIGUOUS'',
      ''SPONSORSHIP_EVIDENCE_MISSING'', ''SPONSORSHIP_REQUIREMENT_UNMET'', ''WORKPLACE_MODE_NOT_PERMITTED'']"
  by code_simp

lemmas factor_codes [simp] = all_factor_codes[unfolded list.pred_inject]

text \<open>
  The evidence is valid, scores at most the maximum, and raises at most \<open>a\<close> exclusions and \<open>b\<close>
  uncertainties, all of them bounded tokens.
\<close>

definition factor_ok :: "rat \<Rightarrow> nat \<Rightarrow> nat \<Rightarrow> factor \<Rightarrow> bool" where
  "factor_ok maximum a b = (\<lambda>(e, hard, uncertain).
     fit_evidence_valid e \<and> fe_points e \<le> maximum \<and> list_all reason_token hard \<and> list_all reason_token uncertain
     \<and> length hard \<le> a \<and> length uncertain \<le> b)"

lemma simple_factor_ok:
  assumes "0 < m" "m \<le> 100" "reason_token x"
  shows "1 \<le> a \<Longrightarrow> factor_ok m a b (excluded_by f m x)" "1 \<le> b \<Longrightarrow> factor_ok m a b (uncertain_by f m res x)"
    "factor_ok m a b (matched_by f m x)"
  using assms
  by (simp_all add: factor_ok_def excluded_by_def uncertain_by_def matched_by_def fit_evidence_of_def
      fit_evidence_valid_def)

lemma location_factor_ok: "factor_ok 20 1 1 (location_factor job profile)"
  by (simp add: location_factor_def Let_def simple_factor_ok)

lemma seniority_factor_ok: "factor_ok 10 1 1 (seniority_factor job selected)"
  by (simp add: seniority_factor_def simple_factor_ok split: option.split)

lemma employment_factor_ok: "factor_ok 5 1 1 (employment_factor job selected)"
  by (simp add: employment_factor_def Let_def simple_factor_ok)

lemma experience_factor_ok: "factor_ok 3 1 1 (experience_factor job profile h)"
  by (simp add: experience_factor_def simple_factor_ok split: option.split)

lemma length_fromkeys_le: "length (fromkeys xs) \<le> length xs"
  using length_remdups_leq[of "rev xs"] by (simp add: fromkeys_def)

lemma gap_ok:
  "list_all reason_token (language_gap confirmed text) \<and> length (language_gap confirmed text) \<le> 1"
  "list_all reason_token (fst (authorization_gap confirmed text)) \<and> length (fst (authorization_gap confirmed text)) \<le> 1"
  "list_all reason_token (snd (authorization_gap confirmed text)) \<and> length (snd (authorization_gap confirmed text)) \<le> 1"
  "list_all reason_token (fst (sponsorship_gap confirmed text)) \<and> length (fst (sponsorship_gap confirmed text)) \<le> 1"
  "list_all reason_token (snd (sponsorship_gap confirmed text)) \<and> length (snd (sponsorship_gap confirmed text)) \<le> 1"
  "list_all reason_token (fst (clearance_gap confirmed text)) \<and> length (fst (clearance_gap confirmed text)) \<le> 1"
  "list_all reason_token (snd (clearance_gap confirmed text)) \<and> length (snd (clearance_gap confirmed text)) \<le> 1"
  by (simp_all add: language_gap_def authorization_gap_def sponsorship_gap_def clearance_gap_def Let_def
      split: option.split)

lemma collected_factor_ok:
  assumes "list_all reason_token hard" "list_all reason_token uncertain" "length hard \<le> 3" "length uncertain \<le> 4"
    and "0 \<le> p" "p \<le> 2"
  shows "factor_ok 2 3 4 (fit_evidence_of f 2 res p (fromkeys (hard @ uncertain)), hard, uncertain)"
  using assms length_fromkeys_le[of "hard @ uncertain"]
  by (simp add: factor_ok_def fit_evidence_of_def fit_evidence_valid_def list_all_iff ball_Un)

lemma language_authorization_factor_ok: "factor_ok 2 3 4 (language_authorization_factor job profile)"
proof -
  let ?t = "normalized (jd_requirements job @ '' '' @ jd_description job)"
  let ?c = "ev_user_confirmed (up_evidence profile)"
  let ?gaps = "[authorization_gap ?c ?t, sponsorship_gap ?c ?t, clearance_gap ?c ?t]"
  define hard where "hard = concat (map fst ?gaps)"
  define uncertain where "uncertain = language_gap ?c ?t @ concat (map snd ?gaps)"
  note gaps = gap_ok[of ?c ?t]
  have "list_all reason_token hard" "list_all reason_token uncertain" "length hard \<le> 3" "length uncertain \<le> 4"
    using gaps by (simp_all add: hard_def uncertain_def)
  note collected = collected_factor_ok[OF this]
  have "language_authorization_factor job profile =
     (let evidence = fit_evidence_of FF_LANGUAGE_AUTHORIZATION 2
      in if hard \<noteq> [] then (evidence FR_EXCLUDED 0 (fromkeys (hard @ uncertain)), hard, uncertain)
         else if uncertain \<noteq> [] then (evidence FR_UNKNOWN 1 (fromkeys (hard @ uncertain)), hard, uncertain)
         else (evidence FR_MATCHED 2 [''LANGUAGE_AUTHORIZATION_COMPATIBLE''], hard, uncertain))"
    by (simp add: language_authorization_factor_def hard_def uncertain_def Let_def)
  moreover have "factor_ok 2 3 4 (fit_evidence_of FF_LANGUAGE_AUTHORIZATION 2 FR_MATCHED 2
      [''LANGUAGE_AUTHORIZATION_COMPATIBLE''], [], [])"
    by (simp add: factor_ok_def fit_evidence_of_def fit_evidence_valid_def)
  ultimately show ?thesis
    using collected[of 0 FF_LANGUAGE_AUTHORIZATION FR_EXCLUDED] collected[of 1 FF_LANGUAGE_AUTHORIZATION FR_UNKNOWN]
    by (simp add: Let_def split: if_splits)
qed

end
