(* ===== verification/Fit_Evaluation.thy ===== *)
theory Fit_Evaluation
  imports Job_Fit
begin

text \<open>
  The fit decision of a posting: the role and skill factors, the sum of all seven, and the disposition,
  with \<^verbatim>\<open>match/job_fit_runtime.py\<close>, which stands in a review decision when a private file is missing or
  unreadable. The theorems show that the evaluation always builds a decision its own validators accept.
\<close>

section \<open>Evaluation\<close>

text \<open>
  \<open>stable_digest\<close> of the payloads the evaluation binds, and the detector of injected instructions.
  A posting's digest covers its title, company, location, employment type, seniority, description,
  requirements and keywords.
\<close>

record fit_env =
  fn_config_digest :: "cv_routing_config \<Rightarrow> string"
  fn_manifest_digest :: "(string \<times> string) list \<Rightarrow> string"
  fn_job_digest :: "string list \<times> string list \<Rightarrow> string"
  fn_qualification_digest :: "fit_qualification \<Rightarrow> string"
  fn_prompt_injection :: "string \<Rightarrow> bool"

text \<open>The CV files that were verified: the SHA-256 of each configured CV, by its identifier.\<close>

type_synonym artifacts = "(string \<times> string) list"

definition cv_manifest_digest :: "fit_env \<Rightarrow> artifacts \<Rightarrow> string" where
  "cv_manifest_digest env arts = fn_manifest_digest env (sort_key (\<lambda>a. a) arts)"

definition evaluated_job_digest :: "fit_env \<Rightarrow> job_data \<Rightarrow> string" where
  "evaluated_job_digest env job =
     fn_job_digest env ([jd_title job, jd_company job, jd_location job, jd_employment_type job, jd_seniority job,
       jd_description job, jd_requirements job], jd_keywords job)"

definition default_thresholds :: fit_thresholds where
  "default_thresholds =
     \<lparr>ft_minimum_fit_score = 85, ft_minimum_routing_confidence = binary64 (55 / 100),
      ft_minimum_routing_margin = binary64 (8 / 100)\<rparr>"

definition bound_qualification ::
  "fit_env \<Rightarrow> cv_routing_config \<Rightarrow> artifacts \<Rightarrow> fit_qualification option \<Rightarrow> fit_qualification option" where
  "bound_qualification env cfg arts qualification =
     (case qualification of
        None \<Rightarrow> None
      | Some q \<Rightarrow>
          if qualification_matches q (fn_config_digest env cfg) (cv_manifest_digest env arts) then Some q else None)"

definition role_reasons :: "fit_thresholds \<Rightarrow> calibrated_routing \<Rightarrow> string option \<Rightarrow> string list" where
  "role_reasons thresholds routing selected_hash =
     (if cr_selected_cv_id routing = None then [''ROUTING_ABSTAINED''] else [])
     @ (if cr_fallback_reason routing \<noteq> None then [''ROUTING_FALLBACK_NOT_AUTOPILOT_ELIGIBLE''] else [])
     @ (if cr_confidence routing < ft_minimum_routing_confidence thresholds
        then [''ROUTING_CONFIDENCE_BELOW_THRESHOLD''] else [])
     @ (if cr_confidence_margin routing < ft_minimum_routing_margin thresholds
        then [''ROUTING_MARGIN_BELOW_THRESHOLD''] else [])
     @ (if selected_hash = None then [''CV_ARTIFACT_UNVERIFIED''] else [])"

definition role_factor :: "fit_thresholds \<Rightarrow> calibrated_routing \<Rightarrow> string option \<Rightarrow> factor" where
  "role_factor thresholds routing selected_hash =
     (let reasons = role_reasons thresholds routing selected_hash;
          points = round4 (binary64 (35 * cr_confidence routing))
      in (fit_evidence_of FF_ROLE 35 (if reasons \<noteq> [] then FR_PARTIAL else FR_MATCHED) points
            (fromkeys (if reasons = [] then [''ROUTING_EVIDENCE_MATCH''] else reasons)), [], reasons))"

definition unsupported_skills :: "string list \<Rightarrow> cv_definition option \<Rightarrow> string list" where
  "unsupported_skills required selected =
     (let supported = (case selected of None \<Rightarrow> [] | Some cv \<Rightarrow> map normalized (cd_skills cv))
      in filter (\<lambda>s. s \<notin> set supported) required)"

definition skills_factor :: "string list \<Rightarrow> string list \<Rightarrow> factor" where
  "skills_factor required unsupported =
     (if required = [] then uncertain_by FF_SKILLS 25 FR_UNKNOWN ''REQUIRED_SKILLS_UNKNOWN''
      else let supported_count = length required - length unsupported;
               points = round4 (binary64 (binary64 (25 * of_nat supported_count) / of_nat (length required)))
           in if unsupported \<noteq> []
              then (fit_evidence_of FF_SKILLS 25 (if supported_count \<noteq> 0 then FR_PARTIAL else FR_UNMATCHED) points
                      [''REQUIRED_SKILLS_UNSUPPORTED''], [], [''REQUIRED_SKILLS_UNSUPPORTED''])
              else (fit_evidence_of FF_SKILLS 25 FR_MATCHED points [''REQUIRED_SKILLS_SUPPORTED''], [], []))"

definition blacklisted :: "user_profile \<Rightarrow> job_data \<Rightarrow> bool" where
  "blacklisted profile job \<longleftrightarrow>
     list_ex (\<lambda>b. strip b \<noteq> [] \<and> strip (jd_company job) \<noteq> []
                  \<and> (contains (casefold b) (casefold (jd_company job))
                     \<or> contains (casefold (jd_company job)) (casefold b)))
       (up_blacklist_companies profile)"

definition fit_factors ::
  "job_data \<Rightarrow> user_profile \<Rightarrow> cv_routing_config \<Rightarrow> fit_thresholds \<Rightarrow> calibrated_routing \<Rightarrow> string option
   \<Rightarrow> string list \<Rightarrow> factor list" where
  "fit_factors job profile cfg thresholds routing selected_hash required =
     (let selected = Option.bind (cr_selected_cv_id routing) (configured_cv cfg)
      in [role_factor thresholds routing selected_hash,
          skills_factor required (unsupported_skills required selected),
          location_factor job profile, seniority_factor job selected, employment_factor job selected,
          experience_factor job profile selected_hash, language_authorization_factor job profile])"

definition fit_disposition_of :: "string list \<Rightarrow> string list \<Rightarrow> string list \<Rightarrow> fit_disposition" where
  "fit_disposition_of hard uncertain unsupported =
     (if hard \<noteq> [] then FIT_EXCLUDED
      else if uncertain \<noteq> [] \<or> unsupported \<noteq> [] then FIT_NEEDS_REVIEW else FIT_ELIGIBLE)"

definition checked_fit :: "fit_decision \<Rightarrow> fault + fit_decision" where
  "checked_fit f = (if fit_decision_valid f then Inr f else Inl ValueFault)"

text \<open>
  The hard exclusions, the uncertainties, the score and the uncertainty a low score adds, and the decision
  they make together.
\<close>

definition fit_hard :: "user_profile \<Rightarrow> job_data \<Rightarrow> factor list \<Rightarrow> string list" where
  "fit_hard profile job factors =
     fromkeys (concat (map (\<lambda>(e, h, u). h) factors)
       @ (if blacklisted profile job then [''BLACKLISTED_COMPANY''] else []))"

definition fit_uncertain ::
  "fit_env \<Rightarrow> job_data \<Rightarrow> int option \<Rightarrow> fit_qualification option \<Rightarrow> factor list \<Rightarrow> string list" where
  "fit_uncertain env job version bound factors =
     (let text = jd_title job @ '' '' @ jd_description job @ '' '' @ jd_requirements job
      in fromkeys (concat (map (\<lambda>(e, h, u). u) factors)
           @ (if fn_prompt_injection env text then [''PROMPT_INJECTION_DETECTED''] else [])
           @ (if version = None then [''PROFILE_VERSION_MISSING''] else [])
           @ (if bound = None then [''FIT_QUALIFICATION_MISSING_OR_MISMATCHED''] else [])))"

definition fit_score_of :: "factor list \<Rightarrow> rat" where
  "fit_score_of factors = round4 (py_sum (map (fe_points \<circ> fst) factors))"

definition with_low_score :: "fit_thresholds \<Rightarrow> rat \<Rightarrow> string list \<Rightarrow> string list" where
  "with_low_score thresholds score uncertain =
     (if score < ft_minimum_fit_score thresholds
      then fromkeys (uncertain @ [''FIT_SCORE_BELOW_THRESHOLD'']) else uncertain)"

definition bound_thresholds :: "fit_qualification option \<Rightarrow> fit_thresholds" where
  "bound_thresholds bound = (case bound of None \<Rightarrow> default_thresholds | Some q \<Rightarrow> fq_thresholds q)"

definition assemble_fit ::
  "fit_env \<Rightarrow> job_data \<Rightarrow> user_profile \<Rightarrow> int option \<Rightarrow> cv_routing_config \<Rightarrow> artifacts
   \<Rightarrow> fit_qualification option \<Rightarrow> calibrated_routing \<Rightarrow> fit_decision" where
  "assemble_fit env job profile version cfg arts bound routing =
     (let thresholds = bound_thresholds bound;
          required = required_skills job cfg;
          selected_hash = map_of arts (or_empty (cr_selected_cv_id routing));
          unsupported = unsupported_skills required (Option.bind (cr_selected_cv_id routing) (configured_cv cfg));
          factors = fit_factors job profile cfg thresholds routing selected_hash required;
          hard = fit_hard profile job factors;
          score = fit_score_of factors;
          uncertainty = with_low_score thresholds score (fit_uncertain env job version bound factors);
          disposition = fit_disposition_of hard uncertainty unsupported
      in \<lparr>fd_job_digest = evaluated_job_digest env job, fd_profile_version = version,
          fd_routing_config_digest = fn_config_digest env cfg,
          fd_cv_manifest_digest = cv_manifest_digest env arts,
          fd_selected_cv_id = cr_selected_cv_id routing, fd_selected_cv_hash = selected_hash,
          fd_routing_confidence = cr_confidence routing, fd_routing_margin = cr_confidence_margin routing,
          fd_routing_fallback_reason = cr_fallback_reason routing, fd_fit_score = score,
          fd_disposition = disposition, fd_quality_eligible = (disposition = FIT_ELIGIBLE),
          fd_hard_exclusions = hard, fd_uncertainty = uncertainty, fd_unsupported_required_skills = unsupported,
          fd_evidence = map fst factors, fd_thresholds = thresholds,
          fd_qualification_digest = map_option (fn_qualification_digest env) bound\<rparr>)"

definition evaluate_job_fit ::
  "fit_env \<Rightarrow> job_data \<Rightarrow> user_profile \<Rightarrow> int option \<Rightarrow> cv_routing_config \<Rightarrow> artifacts
   \<Rightarrow> fit_qualification option \<Rightarrow> fault + fit_decision" where
  "evaluate_job_fit env job profile version cfg arts qualification =
     and_then (route_cv_calibrated job (required_skills job cfg) cfg) (\<lambda>routing.
     checked_fit (assemble_fit env job profile version cfg arts
       (bound_qualification env cfg arts qualification) routing))"

section \<open>When the evaluation cannot run\<close>

definition unavailable_evidence :: "string \<Rightarrow> fit_evidence list" where
  "unavailable_evidence reason =
     map (\<lambda>(f, m). fit_evidence_of f m FR_UNKNOWN 0 [reason])
       [(FF_ROLE, 35), (FF_SKILLS, 25), (FF_LOCATION, 20), (FF_SENIORITY, 10), (FF_EMPLOYMENT, 5),
        (FF_EXPERIENCE, 3), (FF_LANGUAGE_AUTHORIZATION, 2)]"

definition unavailable_job_fit_decision ::
  "fit_env \<Rightarrow> job_data \<Rightarrow> int option \<Rightarrow> string \<Rightarrow> fault + fit_decision" where
  "unavailable_job_fit_decision env job version reason_code =
     (let reason = (if reason_token reason_code then reason_code else ''FIT_EVALUATION_UNAVAILABLE'')
      in checked_fit
         \<lparr>fd_job_digest = evaluated_job_digest env job, fd_profile_version = version,
          fd_routing_config_digest = replicate 64 CHR ''0'', fd_cv_manifest_digest = replicate 64 CHR ''0'',
          fd_selected_cv_id = None, fd_selected_cv_hash = None, fd_routing_confidence = 0, fd_routing_margin = 0,
          fd_routing_fallback_reason = None, fd_fit_score = 0, fd_disposition = FIT_NEEDS_REVIEW,
          fd_quality_eligible = False, fd_hard_exclusions = [],
          fd_uncertainty = [reason, ''FIT_SCORE_BELOW_THRESHOLD''], fd_unsupported_required_skills = [],
          fd_evidence = unavailable_evidence reason, fd_thresholds = default_thresholds,
          fd_qualification_digest = None\<rparr>)"

text \<open>
  What the private files hold: a file is missing, unreadable or invalid, or loads to a value. For the file
  name of a CV, \<open>ff_pdf\<close> is the SHA-256 of the readable file inside the CV directory, if there is one.
\<close>

datatype 'a private_file = Missing | Unreadable | Loaded 'a

record fit_files =
  ff_routing :: "cv_routing_config private_file"
  ff_pdf :: "string \<Rightarrow> string option"
  ff_qualification :: "fit_qualification private_file"

text \<open>The verified artifacts of the configured CVs; \<open>SelectedCVArtifact\<close> refuses an empty or long identifier.\<close>

fun load_configured_cv_artifacts :: "(string \<Rightarrow> string option) \<Rightarrow> cv_definition list \<Rightarrow> fault + artifacts" where
  "load_configured_cv_artifacts pdf [] = Inr []"
| "load_configured_cv_artifacts pdf (cv # cvs) =
     (case pdf (cd_file cv) of
        None \<Rightarrow> load_configured_cv_artifacts pdf cvs
      | Some sha \<Rightarrow>
          if cd_id cv = [] \<or> 200 < length (cd_id cv) then Inl ValueFault
          else and_then (load_configured_cv_artifacts pdf cvs) (\<lambda>arts. Inr ((cd_id cv, sha) # arts)))"

definition evaluate_configured_job_fit ::
  "fit_env \<Rightarrow> fit_files \<Rightarrow> job_data \<Rightarrow> user_profile \<Rightarrow> int option \<Rightarrow> fault + fit_decision" where
  "evaluate_configured_job_fit env files job profile version =
     (case ff_routing files of
        Missing \<Rightarrow> unavailable_job_fit_decision env job version ''FIT_ROUTING_CONFIG_MISSING''
      | Unreadable \<Rightarrow> unavailable_job_fit_decision env job version ''FIT_ROUTING_CONFIG_INVALID''
      | Loaded cfg \<Rightarrow>
          if \<not> references_exist cfg
          then unavailable_job_fit_decision env job version ''FIT_ROUTING_CONFIG_INVALID''
          else
            and_then (load_configured_cv_artifacts (ff_pdf files) (rc_cvs cfg)) (\<lambda>arts.
            let evaluate = (\<lambda>q. case evaluate_job_fit env job profile version cfg arts q of
                                  Inl e \<Rightarrow> unavailable_job_fit_decision env job version ''FIT_EVALUATION_UNAVAILABLE''
                                | Inr f \<Rightarrow> Inr f)
            in case ff_qualification files of
                 Missing \<Rightarrow> evaluate None
               | Unreadable \<Rightarrow> unavailable_job_fit_decision env job version ''FIT_QUALIFICATION_INVALID''
               | Loaded q \<Rightarrow>
                   if fit_qualification_valid q then evaluate (Some q)
                   else unavailable_job_fit_decision env job version ''FIT_QUALIFICATION_INVALID''))"

section \<open>Every evaluation is a valid decision\<close>

lemma all_evaluation_codes:
  "list_all reason_token
     [''ROUTING_ABSTAINED'', ''ROUTING_FALLBACK_NOT_AUTOPILOT_ELIGIBLE'', ''ROUTING_CONFIDENCE_BELOW_THRESHOLD'',
      ''ROUTING_MARGIN_BELOW_THRESHOLD'', ''CV_ARTIFACT_UNVERIFIED'', ''ROUTING_EVIDENCE_MATCH'',
      ''REQUIRED_SKILLS_UNKNOWN'', ''REQUIRED_SKILLS_UNSUPPORTED'', ''REQUIRED_SKILLS_SUPPORTED'',
      ''BLACKLISTED_COMPANY'', ''PROMPT_INJECTION_DETECTED'', ''PROFILE_VERSION_MISSING'',
      ''FIT_QUALIFICATION_MISSING_OR_MISMATCHED'', ''FIT_SCORE_BELOW_THRESHOLD'', ''FIT_EVALUATION_UNAVAILABLE'',
      ''FIT_ROUTING_CONFIG_MISSING'', ''FIT_ROUTING_CONFIG_INVALID'', ''FIT_QUALIFICATION_INVALID'']"
  by code_simp

lemmas evaluation_codes [simp] = all_evaluation_codes[unfolded list.pred_inject]

lemma binary64_points [simp]: "binary64 35 = 35" "binary64 25 = 25" "binary64 100 = 100"
  by code_simp+

lemma rounded_points:
  assumes "0 \<le> x" "x \<le> of_int c + 1 / 1000000000" "0 \<le> c" "c \<le> 100" "binary64 (of_int c) = of_int c"
  shows "0 \<le> round4 (binary64 x) \<and> round4 (binary64 x) \<le> of_int c"
proof -
  have c: "(of_int c :: rat) \<le> 100" using assms(4) by simp
  have "0 \<le> binary64 x" "binary64 x \<le> of_int c + 2 / 1000000000"
    using assms c binary64_nonneg[of x] binary64_upto[of x "of_int c + 1 / 1000000000"] by simp_all
  then show ?thesis using round4_le[of "binary64 x" c] round4_nonneg[of "binary64 x"] assms by simp
qed

lemma role_reasons_ok:
  "list_all reason_token (role_reasons t r h)" "length (role_reasons t r h) \<le> 5"
  by (simp_all add: role_reasons_def)

lemma role_factor_ok:
  assumes "calibrated_routing_valid r"
  shows "factor_ok 35 0 5 (role_factor t r h)"
proof -
  have "0 \<le> 35 * cr_confidence r" "35 * cr_confidence r \<le> of_int 35 + 1 / 1000000000"
    using assms by (auto simp: calibrated_routing_valid_def unit_interval_def)
  then have "0 \<le> round4 (binary64 (35 * cr_confidence r)) \<and> round4 (binary64 (35 * cr_confidence r)) \<le> of_int 35"
    by (rule rounded_points) simp_all
  then show ?thesis
    using role_reasons_ok[of t r h] length_fromkeys_le[of "role_reasons t r h"]
    by (simp add: role_factor_def Let_def factor_ok_def fit_evidence_of_def fit_evidence_valid_def list_all_iff)
qed

lemma binary64_over:
  assumes "0 \<le> x"
  shows "binary64 x \<le> x + x / 4503599627370496"
proof -
  have "binary64 x - x \<le> \<bar>x\<bar> / 2 ^ 52" by (rule order_trans[OF abs_ge_self binary64_error])
  then show ?thesis using assms by simp
qed

lemma skills_factor_ok: "factor_ok 25 0 1 (skills_factor required unsupported)"
proof (cases "required = []")
  case True
  then show ?thesis by (simp add: skills_factor_def simple_factor_ok)
next
  case False
  let ?s = "of_nat (length required - length unsupported) :: rat" and ?n = "of_nat (length required) :: rat"
  let ?x = "binary64 (25 * ?s) / ?n"
  have n: "0 < ?n" using False by simp
  have s: "0 \<le> ?s" "?s \<le> ?n" by simp_all
  have "binary64 (25 * ?s) \<le> 25 * ?s + 25 * ?s / 4503599627370496"
    using binary64_over[of "25 * ?s"] s(1) by simp
  also have "\<dots> \<le> 25 * ?n + 1 / 1000000000 * ?n" using s by linarith
  finally have "?x \<le> of_int 25 + 1 / 1000000000" using n by (simp add: divide_le_eq algebra_simps)
  moreover have "0 \<le> ?x" using s n by (simp add: binary64_nonneg)
  ultimately have "0 \<le> round4 (binary64 ?x) \<and> round4 (binary64 ?x) \<le> of_int 25"
    by (intro rounded_points) simp_all
  then show ?thesis using False
    by (cases "unsupported = []")
      (simp_all add: skills_factor_def Let_def factor_ok_def fit_evidence_of_def fit_evidence_valid_def)
qed

text \<open>What the seven factors add up to.\<close>

lemma py_sum_percent:
  assumes "length xs \<le> 7" and "list_all (\<lambda>x. 0 \<le> x \<and> x \<le> 100) xs" and "sum_list xs \<le> 100"
  shows "0 \<le> round4 (py_sum xs) \<and> round4 (py_sum xs) \<le> 100"
proof -
  have "0 \<le> sum_list xs" using assms(2) by (intro sum_list_nonneg) (simp add: list_all_iff)
  then have "- (1 / 30000) \<le> py_sum xs" "py_sum xs \<le> 100 + 1 / 30000"
    using py_sum_near[OF assms(1,2)] assms(3) by linarith+
  then show ?thesis using round4_le[of "py_sum xs" 100] round4_nonneg[of "py_sum xs"] by simp
qed

lemma fit_factors_ok:
  assumes "calibrated_routing_valid r"
  shows "list_all2 (\<lambda>(m, a, b). factor_ok m a b)
    [(35, 0, 5), (25, 0, 1), (20, 1, 1), (10, 1, 1), (5, 1, 1), (3, 1, 1), (2, 3, 4)]
    (fit_factors job profile cfg t r h required)"
  using role_factor_ok[OF assms] skills_factor_ok location_factor_ok seniority_factor_ok employment_factor_ok
    experience_factor_ok language_authorization_factor_ok
  by (simp add: fit_factors_def Let_def)

lemma factor_okD:
  assumes "factor_ok m a b f"
  shows "fit_evidence_valid (fst f)" "0 \<le> fe_points (fst f)" "fe_points (fst f) \<le> m" "fe_points (fst f) \<le> 100"
    "list_all reason_token (fst (snd f))" "list_all reason_token (snd (snd f))"
    "length (fst (snd f)) \<le> a" "length (snd (snd f)) \<le> b"
  using assms by (auto simp: factor_ok_def fit_evidence_valid_def split: prod.splits)

lemma factors_valid:
  assumes "calibrated_routing_valid r"
    and factors: "fs = fit_factors job profile cfg t r h required"
  shows "length fs = 7" "list_all fit_evidence_valid (map fst fs)"
    "0 \<le> round4 (py_sum (map (fe_points \<circ> fst) fs))" "round4 (py_sum (map (fe_points \<circ> fst) fs)) \<le> 100"
    "list_all reason_token (concat (map (\<lambda>(e, h, u). h) fs))" "length (concat (map (\<lambda>(e, h, u). h) fs)) \<le> 7"
    "list_all reason_token (concat (map (\<lambda>(e, h, u). u) fs))" "length (concat (map (\<lambda>(e, h, u). u) fs)) \<le> 14"
proof -
  obtain f1 f2 f3 f4 f5 f6 f7 where fs: "fs = [f1, f2, f3, f4, f5, f6, f7]"
    by (simp add: factors fit_factors_def Let_def)
  have ok: "factor_ok 35 0 5 f1" "factor_ok 25 0 1 f2" "factor_ok 20 1 1 f3" "factor_ok 10 1 1 f4"
    "factor_ok 5 1 1 f5" "factor_ok 3 1 1 f6" "factor_ok 2 3 4 f7"
    using fit_factors_ok[OF assms(1), of job profile cfg t h required] by (simp_all add: fs factors[symmetric])
  note fine = ok[THEN factor_okD(1)] ok[THEN factor_okD(2)] ok[THEN factor_okD(3)] ok[THEN factor_okD(4)]
  note codes = ok[THEN factor_okD(5)] ok[THEN factor_okD(6)] ok[THEN factor_okD(7)] ok[THEN factor_okD(8)]
  show "length fs = 7" "list_all fit_evidence_valid (map fst fs)" by (simp_all add: fs fine)
  have "list_all (\<lambda>x. 0 \<le> x \<and> x \<le> 100) (map (fe_points \<circ> fst) fs)" by (simp add: fs fine)
  moreover have "sum_list (map (fe_points \<circ> fst) fs) \<le> 100" using fine by (simp add: fs)
  ultimately show "0 \<le> round4 (py_sum (map (fe_points \<circ> fst) fs))" "round4 (py_sum (map (fe_points \<circ> fst) fs)) \<le> 100"
    using py_sum_percent[of "map (fe_points \<circ> fst) fs"] by (simp_all add: fs)
  show "list_all reason_token (concat (map (\<lambda>(e, h, u). h) fs))" "list_all reason_token (concat (map (\<lambda>(e, h, u). u) fs))"
    using codes by (simp_all add: fs case_prod_unfold)
  show "length (concat (map (\<lambda>(e, h, u). h) fs)) \<le> 7" "length (concat (map (\<lambda>(e, h, u). u) fs)) \<le> 14"
    using codes by (simp_all add: fs case_prod_unfold)
qed

lemma stable_reasons_fromkeys:
  "list_all reason_token xs \<Longrightarrow> length xs \<le> n \<Longrightarrow> stable_reasons n (fromkeys xs)"
  using length_fromkeys_le[of xs] by (simp add: stable_reasons_def list_all_iff)

lemma reasons_stable:
  assumes "calibrated_routing_valid r" and fs: "fs = fit_factors job profile cfg t r h required"
  shows "stable_reasons 20 (fit_hard profile job fs)"
    and "stable_reasons 30 (with_low_score t s (fit_uncertain env job version bound fs))"
proof -
  note ok = factors_valid[OF assms]
  show "stable_reasons 20 (fit_hard profile job fs)"
    unfolding fit_hard_def by (rule stable_reasons_fromkeys) (use ok(5,6) in simp_all)
  have u: "stable_reasons 17 (fit_uncertain env job version bound fs)"
    unfolding fit_uncertain_def Let_def by (rule stable_reasons_fromkeys) (use ok(7,8) in simp_all)
  then have "stable_reasons 30 (fit_uncertain env job version bound fs)"
    "stable_reasons 30 (fromkeys (fit_uncertain env job version bound fs @ [''FIT_SCORE_BELOW_THRESHOLD'']))"
    by (simp add: stable_reasons_def, intro stable_reasons_fromkeys) (simp_all add: stable_reasons_def)
  then show "stable_reasons 30 (with_low_score t s (fit_uncertain env job version bound fs))"
    by (simp add: with_low_score_def)
qed

text \<open>No uncertainty means that the routing passed its gates, the score too, and a qualification is bound.\<close>

lemma no_uncertainty:
  assumes "with_low_score t s (fit_uncertain env job version bound (fit_factors job profile cfg t r h required)) = []"
  shows "role_reasons t r h = []" "bound \<noteq> None" "version \<noteq> None" "ft_minimum_fit_score t \<le> s"
    "\<not> fn_prompt_injection env (jd_title job @ '' '' @ jd_description job @ '' '' @ jd_requirements job)"
proof -
  let ?fs = "fit_factors job profile cfg t r h required"
  let ?text = "jd_title job @ '' '' @ jd_description job @ '' '' @ jd_requirements job"
  show "ft_minimum_fit_score t \<le> s" using assms by (simp add: with_low_score_def split: if_splits)
  have "fit_uncertain env job version bound ?fs = []"
    using assms by (simp add: with_low_score_def split: if_splits)
  then have parts: "concat (map (\<lambda>(e, h, u). u) ?fs) = []"
    "(if fn_prompt_injection env ?text then [''PROMPT_INJECTION_DETECTED''] else []) = []"
    "(if version = None then [''PROFILE_VERSION_MISSING''] else []) = []"
    "(if bound = None then [''FIT_QUALIFICATION_MISSING_OR_MISMATCHED''] else []) = []"
    unfolding fit_uncertain_def Let_def fromkeys_Nil_iff append_is_Nil_conv by iprover+
  show "\<not> fn_prompt_injection env ?text" "version \<noteq> None" "bound \<noteq> None"
    using parts(2-4) by (simp_all only: split: if_splits) simp_all
  have "role_factor t r h \<in> set ?fs" by (simp add: fit_factors_def Let_def)
  then have "snd (snd (role_factor t r h)) = []" using parts(1) by (simp add: case_prod_unfold concat_eq_Nil_conv)
  then show "role_reasons t r h = []" by (simp add: role_factor_def Let_def)
qed

lemma no_role_reason:
  assumes "role_reasons t r h = []"
  shows "cr_selected_cv_id r \<noteq> None" "cr_fallback_reason r = None" "h \<noteq> None"
    "ft_minimum_routing_confidence t \<le> cr_confidence r" "ft_minimum_routing_margin t \<le> cr_confidence_margin r"
  using assms by (auto simp: role_reasons_def split: if_splits)

text \<open>\<open>stable_digest\<close> is a SHA-256 in hexadecimal.\<close>

definition digests_ok :: "fit_env \<Rightarrow> bool" where
  "digests_ok env \<longleftrightarrow>
     (\<forall>x. is_sha256 (fn_config_digest env x)) \<and> (\<forall>x. is_sha256 (fn_manifest_digest env x))
     \<and> (\<forall>x. is_sha256 (fn_job_digest env x)) \<and> (\<forall>x. is_sha256 (fn_qualification_digest env x))"

definition version_ok :: "int option \<Rightarrow> bool" where
  "version_ok version = (case version of None \<Rightarrow> True | Some v \<Rightarrow> 1 \<le> v)"

definition artifacts_ok :: "artifacts \<Rightarrow> bool" where
  "artifacts_ok arts = list_all (\<lambda>(k, sha). k \<noteq> [] \<and> is_sha256 sha) arts"

lemma default_thresholds_valid: "fit_thresholds_valid default_thresholds"
  by code_simp

lemma bound_qualificationD:
  assumes "bound_qualification env cfg arts qualification = Some q"
  shows "qualification = Some q" "fq_qualified q"
  using assms by (auto simp: bound_qualification_def qualification_matches_def split: option.splits if_splits)

lemma bound_thresholds_valid:
  assumes "case qualification of None \<Rightarrow> True | Some q \<Rightarrow> fit_qualification_valid q"
  shows "fit_thresholds_valid (bound_thresholds (bound_qualification env cfg arts qualification))"
  using assms default_thresholds_valid bound_qualificationD(1)
  by (cases "bound_qualification env cfg arts qualification")
    (fastforce simp: bound_thresholds_def fit_qualification_valid_def)+

lemma artifacts_okD:
  assumes "artifacts_ok arts" and "map_of arts k = Some sha"
  shows "k \<noteq> []" "is_sha256 sha"
  using assms map_of_SomeD[OF assms(2)] by (auto simp: artifacts_ok_def list_all_iff)

lemma assemble_fit_consistent:
  assumes "artifacts_ok arts"
  shows "eligibility_is_consistent (assemble_fit env job profile version cfg arts bound r)"
proof -
  let ?t = "bound_thresholds bound" and ?h = "map_of arts (or_empty (cr_selected_cv_id r))"
  let ?fs = "fit_factors job profile cfg ?t r ?h (required_skills job cfg)"
  let ?f = "assemble_fit env job profile version cfg arts bound r"
  have hash: "cr_selected_cv_id r \<noteq> None" if "?h = Some sha" for sha
    using artifacts_okD(1)[OF assms that] by (cases "cr_selected_cv_id r") simp_all
  show ?thesis
  proof (cases "fd_quality_eligible ?f")
    case True
    then have clear: "fit_hard profile job ?fs = []" "fd_unsupported_required_skills ?f = []"
      "with_low_score ?t (fit_score_of ?fs) (fit_uncertain env job version bound ?fs) = []"
      by (auto simp: assemble_fit_def Let_def fit_disposition_of_def split: if_splits)
    note gates = no_uncertainty[OF clear(3)]
    show ?thesis using True clear gates(2,4) no_role_reason[OF gates(1)]
      by (simp add: eligibility_is_consistent_def assemble_fit_def Let_def)
  next
    case False
    then have "fd_disposition ?f \<noteq> FIT_ELIGIBLE" by (simp add: assemble_fit_def Let_def)
    then show ?thesis using False hash
      by (auto simp: eligibility_is_consistent_def assemble_fit_def Let_def)
  qed
qed

lemma ordered_unique_of:
  "set (ordered_unique xs) \<subseteq> normalized ` set xs" "distinct (ordered_unique xs)"
  by (auto simp: ordered_unique_def)

lemma length_required_skills: "length (required_skills job cfg) \<le> length (skill_vocabulary cfg)"
proof -
  obtain P Q where rs: "required_skills job cfg = ordered_unique (filter P (skill_vocabulary cfg) @ filter Q (skill_vocabulary cfg))"
    unfolding required_skills_def Let_def by blast
  have "length (required_skills job cfg) = card (set (required_skills job cfg))"
    by (simp only: rs distinct_card[OF ordered_unique_of(2)])
  also have "\<dots> \<le> card (normalized ` set (skill_vocabulary cfg))"
    unfolding rs by (rule card_mono) (use ordered_unique_of(1)[of "filter P (skill_vocabulary cfg) @ filter Q (skill_vocabulary cfg)"] in auto)
  also have "\<dots> \<le> length (skill_vocabulary cfg)"
    by (rule order_trans[OF card_image_le card_length]) simp
  finally show ?thesis .
qed

lemma assemble_fit_valid:
  assumes "calibrated_routing_valid r" and "digests_ok env" and "version_ok version" and arts: "artifacts_ok arts"
    and "fit_thresholds_valid (bound_thresholds bound)" and "length (required_skills job cfg) \<le> 100"
  shows "fit_decision_valid (assemble_fit env job profile version cfg arts bound r)"
proof -
  let ?t = "bound_thresholds bound" and ?h = "map_of arts (or_empty (cr_selected_cv_id r))"
  let ?fs = "fit_factors job profile cfg ?t r ?h (required_skills job cfg)"
  let ?f = "assemble_fit env job profile version cfg arts bound r"
  have fields: "fd_hard_exclusions ?f = fit_hard profile job ?fs" "fd_fit_score ?f = fit_score_of ?fs"
    "fd_uncertainty ?f = with_low_score ?t (fit_score_of ?fs) (fit_uncertain env job version bound ?fs)"
    "fd_evidence ?f = map fst ?fs"
    by (simp_all add: assemble_fit_def Let_def)
  note factors = factors_valid[OF assms(1), of ?fs job profile cfg ?t ?h "required_skills job cfg", OF refl]
  have stable: "stable_reasons 20 (fit_hard profile job ?fs)"
    "stable_reasons 30 (with_low_score ?t (fit_score_of ?fs) (fit_uncertain env job version bound ?fs))"
    by (rule reasons_stable[OF assms(1) refl])+
  have "opt_digest ?h" using artifacts_okD(2)[OF arts] by (simp add: opt_digest_def split: option.split)
  moreover have "length (unsupported_skills (required_skills job cfg) sel) \<le> 100" for sel
    using assms(6) by (simp add: unsupported_skills_def Let_def le_trans[OF length_filter_le])
  ultimately show ?thesis
    unfolding fit_decision_valid_def fields
    using assms(1-3,5) factors stable assemble_fit_consistent[OF arts]
    by (simp add: fit_score_of_def)
      (auto simp: assemble_fit_def Let_def digests_ok_def version_ok_def calibrated_routing_valid_def
        cv_manifest_digest_def evaluated_job_digest_def opt_digest_def split: option.split)
qed

lemma eligible_iff_clear:
  "fd_quality_eligible (assemble_fit env job profile version cfg arts bound r) \<longleftrightarrow>
     fd_hard_exclusions (assemble_fit env job profile version cfg arts bound r) = []
     \<and> fd_uncertainty (assemble_fit env job profile version cfg arts bound r) = []
     \<and> fd_unsupported_required_skills (assemble_fit env job profile version cfg arts bound r) = []"
  by (simp add: assemble_fit_def Let_def fit_disposition_of_def)

text \<open>
  C21: A fit evaluation always builds a decision that its own validators accept. For a configuration whose
  references exist, with bounded identifiers and file names and at most a hundred known skills, verified
  artifacts, a valid qualification if there is one and a positive profile version if there is one, the
  evaluation of any posting for any profile returns: every score is in its range after floating-point
  rounding, every reason is a bounded token without repetitions, and the decision is eligible exactly when
  nothing excludes the posting, nothing is uncertain and no required skill is unsupported.
\<close>

theorem evaluation_is_well_typed:
  assumes "digests_ok env" and cfg: "references_exist cfg" "bounded_cvs cfg" "length (skill_vocabulary cfg) \<le> 100"
    and "artifacts_ok arts" and "version_ok version"
    and qualification: "case qualification of None \<Rightarrow> True | Some q \<Rightarrow> fit_qualification_valid q"
  shows "\<exists>f. evaluate_job_fit env job profile version cfg arts qualification = Inr f \<and> fit_decision_valid f
    \<and> (fd_quality_eligible f \<longleftrightarrow>
         fd_hard_exclusions f = [] \<and> fd_uncertainty f = [] \<and> fd_unsupported_required_skills f = [])"
proof -
  obtain r where r: "route_cv_calibrated job (required_skills job cfg) cfg = Inr r" "calibrated_routing_valid r"
    using route_cv_calibrated_ok[OF cfg(1,2)] by blast
  have "length (required_skills job cfg) \<le> 100" using length_required_skills cfg(3) by (rule order_trans)
  then have "fit_decision_valid (assemble_fit env job profile version cfg arts
      (bound_qualification env cfg arts qualification) r)"
    using assemble_fit_valid[OF r(2) assms(1,6,5) bound_thresholds_valid[OF qualification]] by blast
  then show ?thesis using r(1) eligible_iff_clear by (simp add: evaluate_job_fit_def checked_fit_def)
qed

section \<open>A sample evaluation\<close>

definition sample_fit_env :: fit_env where
  "sample_fit_env =
     \<lparr>fn_config_digest = (\<lambda>_. zero_digest), fn_manifest_digest = (\<lambda>_. zero_digest), fn_job_digest = (\<lambda>_. zero_digest),
      fn_qualification_digest = (\<lambda>_. zero_digest), fn_prompt_injection = contains ''ignore previous instructions''\<rparr>"

definition sample_profile :: user_profile where
  "sample_profile =
     \<lparr>up_remote_ok = True, up_hybrid_ok = True, up_onsite_ok = True, up_blacklist_companies = [],
      up_evidence = \<lparr>ev_user_confirmed = [], ev_cv_extracted_by_artifact = []\<rparr>\<rparr>"

lemma sample_fit_fine:
  "is_sha256 zero_digest" "digests_ok sample_fit_env" "version_ok (Some 1)" "artifacts_ok [(''b'', zero_digest)]"
proof -
  show "is_sha256 zero_digest" by code_simp
  then show "digests_ok sample_fit_env" "version_ok (Some 1)" "artifacts_ok [(''b'', zero_digest)]"
    by (simp_all add: digests_ok_def sample_fit_env_def version_ok_def artifacts_ok_def)
qed

lemma length_ordered_unique: "length (ordered_unique xs) \<le> length xs"
proof -
  have "length (ordered_unique xs) \<le> length (filter (\<lambda>v. v \<noteq> []) (map normalized xs))"
    by (simp only: ordered_unique_def length_fromkeys_le)
  also have "\<dots> \<le> length (map normalized xs)" by (rule length_filter_le)
  finally show ?thesis by simp
qed

lemma go_vocabulary: "length (skill_vocabulary go_routing) \<le> 100"
proof -
  have "length (skill_vocabulary go_routing) \<le> length tech_skill_vocabulary"
    using length_ordered_unique[of tech_skill_vocabulary]
    by (simp add: skill_vocabulary_def go_routing_def go_cv_def qa_cv_def)
  also have "\<dots> \<le> 100" by (simp add: tech_skill_vocabulary_def)
  finally show ?thesis .
qed

theorem evaluation_is_well_typed_witness:
  "\<exists>f. evaluate_job_fit sample_fit_env go_posting sample_profile (Some 1) go_routing [(''b'', zero_digest)] None = Inr f
    \<and> fit_decision_valid f"
  using evaluation_is_well_typed[OF sample_fit_fine(2) go_routing_fine(1,3) go_vocabulary sample_fit_fine(4,3),
      of None go_posting sample_profile] by auto

end
