(* ===== verification/Fit_Runtime.thy ===== *)
theory Fit_Runtime
  imports Fit_Evaluation
begin

text \<open>
  The configured evaluation of \<^verbatim>\<open>match/job_fit_runtime.py\<close> fails closed: whatever the private files hold, it
  returns a valid decision, and an eligible one only from a loaded configuration, a verified CV and a
  matching qualification.
\<close>

lemma unavailable_ok:
  assumes "digests_ok env" and "version_ok version" and "reason \<noteq> ''FIT_SCORE_BELOW_THRESHOLD''"
  shows "\<exists>f. unavailable_job_fit_decision env job version reason = Inr f \<and> fit_decision_valid f \<and> \<not> fd_quality_eligible f"
proof -
  let ?r = "if reason_token reason then reason else ''FIT_EVALUATION_UNAVAILABLE''"
  have zeros: "is_sha256 (replicate 64 CHR ''0'')" by code_simp
  have token: "reason_token ?r" by simp
  then have evidence: "list_all fit_evidence_valid (unavailable_evidence ?r)" "length (unavailable_evidence ?r) = 7"
    by (simp_all add: unavailable_evidence_def fit_evidence_valid_def fit_evidence_of_def)
  have "stable_reasons 30 [?r, ''FIT_SCORE_BELOW_THRESHOLD'']"
    using token assms(3) by (simp add: stable_reasons_def)
  moreover have "stable_reasons 20 []" by (simp add: stable_reasons_def)
  ultimately show ?thesis
    using assms(1,2) zeros evidence default_thresholds_valid
    by (simp add: unavailable_job_fit_decision_def Let_def checked_fit_def fit_decision_valid_def digests_ok_def
        version_ok_def evaluated_job_digest_def opt_bounded_def opt_digest_def eligibility_is_consistent_def
        unit_interval_def)
qed

lemma load_artifacts_ok:
  assumes "list_all (\<lambda>cv. cd_id cv \<noteq> [] \<and> length (cd_id cv) \<le> 200) cvs" and "\<And>x sha. pdf x = Some sha \<Longrightarrow> is_sha256 sha"
  shows "\<exists>arts. load_configured_cv_artifacts pdf cvs = Inr arts \<and> artifacts_ok arts
    \<and> (\<forall>(k, sha) \<in> set arts. \<exists>cv \<in> set cvs. cd_id cv = k \<and> pdf (cd_file cv) = Some sha)"
  using assms
proof (induction cvs)
  case Nil
  then show ?case by (simp add: artifacts_ok_def)
next
  case (Cons cv cvs)
  then obtain arts where "load_configured_cv_artifacts pdf cvs = Inr arts" "artifacts_ok arts"
    "\<forall>(k, sha) \<in> set arts. \<exists>cv \<in> set cvs. cd_id cv = k \<and> pdf (cd_file cv) = Some sha"
    by auto
  then show ?case using Cons.prems
    by (cases "pdf (cd_file cv)") (fastforce simp: artifacts_ok_def)+
qed

text \<open>What an eligible evaluation has established.\<close>

lemma eligible_evaluation:
  assumes "evaluate_job_fit env job profile version cfg arts qualification = Inr f" and "fd_quality_eligible f"
  obtains r :: calibrated_routing and q where "fd_selected_cv_id f = cr_selected_cv_id r" and "cr_selected_cv_id r \<noteq> None"
    and "fd_selected_cv_hash f = map_of arts (or_empty (cr_selected_cv_id r))" and "fd_selected_cv_hash f \<noteq> None"
    and "qualification = Some q" and "fq_qualified q"
    and "fd_thresholds f = fq_thresholds q" and "fd_profile_version f \<noteq> None"
    and "\<not> fn_prompt_injection env (jd_title job @ '' '' @ jd_description job @ '' '' @ jd_requirements job)"
    and "unsupported_skills (required_skills job cfg) (Option.bind (cr_selected_cv_id r) (configured_cv cfg)) = []"
    and "fd_profile_version f = version"
proof -
  let ?b = "bound_qualification env cfg arts qualification"
  obtain r where r: "f = assemble_fit env job profile version cfg arts ?b r"
    using assms(1) by (auto simp: evaluate_job_fit_def checked_fit_def and_then_ok_iff split: if_splits)
  let ?t = "bound_thresholds ?b" and ?h = "map_of arts (or_empty (cr_selected_cv_id r))"
  let ?fs = "fit_factors job profile cfg ?t r ?h (required_skills job cfg)"
  have clear: "with_low_score ?t (fit_score_of ?fs) (fit_uncertain env job version ?b ?fs) = []"
    "unsupported_skills (required_skills job cfg) (Option.bind (cr_selected_cv_id r) (configured_cv cfg)) = []"
    using assms(2) eligible_iff_clear unfolding r by (simp_all add: assemble_fit_def Let_def fit_disposition_of_def)
  note gates = no_uncertainty[OF clear(1)] and role = no_role_reason[OF no_uncertainty(1)[OF clear(1)]]
  obtain q where q: "?b = Some q" using gates(2) by blast
  have fields: "fd_selected_cv_id f = cr_selected_cv_id r" "fd_selected_cv_hash f = ?h" "fd_thresholds f = ?t"
    "fd_profile_version f = version" by (simp_all add: r assemble_fit_def Let_def)
  show thesis
    by (rule that[of r q]) (use fields q bound_qualificationD[OF q] gates role clear in \<open>simp_all add: bound_thresholds_def\<close>)
qed

lemma supported_by_configured:
  assumes "unsupported_skills required (Option.bind (Some k) (configured_cv cfg)) = []" and "configured_cv cfg k = Some cv"
  shows "set required \<subseteq> normalized ` set (cd_skills cv)"
  using assms by (auto simp: unsupported_skills_def Let_def filter_empty_conv)

definition loaded_cvs :: "fit_files \<Rightarrow> cv_definition list" where
  "loaded_cvs files = (case ff_routing files of Loaded cfg \<Rightarrow> rc_cvs cfg | _ \<Rightarrow> [])"

text \<open>What the files and the profile must hold for an eligible decision.\<close>

definition fit_established :: "fit_env \<Rightarrow> fit_files \<Rightarrow> job_data \<Rightarrow> fit_decision \<Rightarrow> bool" where
  "fit_established env files job f \<longleftrightarrow>
     (\<exists>cfg cv q. ff_routing files = Loaded cfg \<and> references_exist cfg \<and> configured_cv cfg (cd_id cv) = Some cv
        \<and> fd_selected_cv_id f = Some (cd_id cv) \<and> fd_selected_cv_hash f = ff_pdf files (cd_file cv)
        \<and> set (required_skills job cfg) \<subseteq> normalized ` set (cd_skills cv)
        \<and> ff_qualification files = Loaded q \<and> fit_qualification_valid q \<and> fq_qualified q
        \<and> fd_thresholds f = fq_thresholds q)
     \<and> fd_profile_version f \<noteq> None
     \<and> \<not> fn_prompt_injection env (jd_title job @ '' '' @ jd_description job @ '' '' @ jd_requirements job)"

lemma configured_cv_member:
  assumes "references_exist cfg" and "cv \<in> set (rc_cvs cfg)"
  shows "configured_cv cfg (cd_id cv) = Some cv"
proof -
  have "configured_cv cfg (cd_id cv) \<noteq> None" using assms(2) by (auto simp: configured_cv_def find_None_iff)
  then obtain cv' where "configured_cv cfg (cd_id cv) = Some cv'" by blast
  moreover have "inj_on cd_id (set (rc_cvs cfg))" using assms(1) by (simp add: references_exist_def distinct_map)
  ultimately show ?thesis using configured_cvD[of cfg "cd_id cv" cv'] assms(2) by (auto dest: inj_onD)
qed

lemma eligible_configured_evaluation:
  assumes cfg: "ff_routing files = Loaded cfg" "references_exist cfg"
    and arts: "\<forall>(k, sha) \<in> set arts. \<exists>cv \<in> set (rc_cvs cfg). cd_id cv = k \<and> ff_pdf files (cd_file cv) = Some sha"
    and qual: "case qualification of None \<Rightarrow> True | Some q \<Rightarrow> fit_qualification_valid q \<and> ff_qualification files = Loaded q"
    and eval: "evaluate_job_fit env job profile version cfg arts qualification = Inr f" and "fd_quality_eligible f"
  shows "fit_established env files job f"
proof -
  obtain r :: calibrated_routing and q where
    r: "fd_selected_cv_id f = cr_selected_cv_id r" "cr_selected_cv_id r \<noteq> None"
      "fd_selected_cv_hash f = map_of arts (or_empty (cr_selected_cv_id r))" "fd_selected_cv_hash f \<noteq> None"
      "unsupported_skills (required_skills job cfg) (Option.bind (cr_selected_cv_id r) (configured_cv cfg)) = []"
    and q: "qualification = Some q" "fq_qualified q" "fd_thresholds f = fq_thresholds q"
    and rest: "fd_profile_version f \<noteq> None"
      "\<not> fn_prompt_injection env (jd_title job @ '' '' @ jd_description job @ '' '' @ jd_requirements job)"
    by (rule eligible_evaluation[OF eval \<open>fd_quality_eligible f\<close>]) blast
  obtain k sha where k: "cr_selected_cv_id r = Some k" "map_of arts k = Some sha" using r(2-4) by auto
  then obtain cv where cv: "cv \<in> set (rc_cvs cfg)" "cd_id cv = k" "ff_pdf files (cd_file cv) = Some sha"
    using arts map_of_SomeD[OF k(2)] by blast
  have found: "configured_cv cfg k = Some cv"
    using configured_cv_member[OF cfg(2) cv(1)] cv(2) by simp
  have "set (required_skills job cfg) \<subseteq> normalized ` set (cd_skills cv)"
    by (rule supported_by_configured[OF _ found]) (use r(5) k(1) in simp)
  then show ?thesis
    unfolding fit_established_def
    using cfg found cv k r(1,3) q qual rest by (intro conjI exI[of _ cfg] exI[of _ cv] exI[of _ q]) simp_all
qed

text \<open>A decision the runtime may return.\<close>

definition fails_closed :: "fit_env \<Rightarrow> fit_files \<Rightarrow> job_data \<Rightarrow> fault + fit_decision \<Rightarrow> bool" where
  "fails_closed env files job result \<longleftrightarrow>
     (\<exists>f. result = Inr f \<and> fit_decision_valid f
        \<and> (fd_quality_eligible f \<longrightarrow> fit_established env files job f \<and> 85 \<le> fd_fit_score f))"

lemma review_fails_closed:
  assumes "digests_ok env" and "version_ok version" and "reason \<noteq> ''FIT_SCORE_BELOW_THRESHOLD''"
  shows "fails_closed env files job (unavailable_job_fit_decision env job version reason)"
  using unavailable_ok[OF assms] by (auto simp: fails_closed_def)

lemma evaluation_fails_closed:
  assumes "digests_ok env" and "version_ok version"
    and cfg: "ff_routing files = Loaded cfg" "references_exist cfg"
    and arts: "\<forall>(k, sha) \<in> set arts. \<exists>cv \<in> set (rc_cvs cfg). cd_id cv = k \<and> ff_pdf files (cd_file cv) = Some sha"
    and qual: "case qualification of None \<Rightarrow> True | Some q \<Rightarrow> fit_qualification_valid q \<and> ff_qualification files = Loaded q"
  shows "fails_closed env files job
    (case evaluate_job_fit env job profile version cfg arts qualification of
       Inl e \<Rightarrow> unavailable_job_fit_decision env job version ''FIT_EVALUATION_UNAVAILABLE'' | Inr f \<Rightarrow> Inr f)"
proof (cases "evaluate_job_fit env job profile version cfg arts qualification")
  case (Inl e)
  then show ?thesis using review_fails_closed[OF assms(1,2)] by simp
next
  case (Inr f)
  then have "fit_decision_valid f"
    by (auto simp: evaluate_job_fit_def checked_fit_def and_then_ok_iff split: if_splits)
  then show ?thesis using Inr eligible_configured_evaluation[OF cfg arts qual Inr] eligible_decision(1)
    by (auto simp: fails_closed_def)
qed


section \<open>A sample of the private files\<close>

definition sample_fit_files :: fit_files where
  "sample_fit_files =
     \<lparr>ff_routing = Loaded go_routing, ff_pdf = (\<lambda>x. if x = ''b.pdf'' then Some zero_digest else None),
      ff_qualification = Missing\<rparr>"


end
