(* ===== verification/Review_Grants.thy ===== *)
theory Review_Grants
  imports Adapter_Qualification
begin

text \<open>
  The local authority behind the review grants of the hosted control plane,
  \<^verbatim>\<open>core/control_plane_review_permits.py\<close>: minting a grant for a reviewed application, validating every private
  binding of it, spending it once, and the two deliveries of a grant to the control plane, its redacted
  projection and the tombstone of its revocation. The tables live beside the database of the submission core.
\<close>

section \<open>Tables\<close>

text \<open>
  The columns of a delivery: \<open>projection_*\<close> with \<open>projected_at\<close>, and \<open>revocation_*\<close> with
  \<open>revocation_sent_at\<close>. \<open>DL_DONE\<close> is \<open>projected\<close> or \<open>delivered\<close>.
\<close>

datatype delivery_state = DL_NONE | DL_PENDING | DL_CLAIMED | DL_DONE | DL_EXPIRED

record delivery =
  dl_state :: delivery_state
  dl_available_at :: "instant option"
  dl_claimed_at :: "instant option"
  dl_claimed_by :: "string option"
  dl_claim_token :: "string option"
  dl_attempts :: int
  dl_done_at :: "instant option"
  dl_error :: "string option"

record grant_row =
  gw_grant_ref :: string
  gw_application_id :: int
  gw_application_ref_id :: int
  gw_form_plan_id :: int
  gw_application_revision :: int
  gw_job_url_hash :: string
  gw_form_plan_fingerprint :: string
  gw_cv_hash :: string
  gw_adapter_name :: string
  gw_adapter_version :: string
  gw_selector_version :: string
  gw_runner_release :: string
  gw_issued_at :: instant
  gw_expires_at :: instant
  gw_revoked_at :: "instant option"
  gw_consumed_at :: "instant option"
  gw_consumed_command_ref :: "string option"
  gw_projection :: delivery
  gw_revocation :: delivery

record application_ref =
  rf_application_id :: int
  rf_remote_ref :: string

record receipt_row =
  rw_remote_command_ref :: string
  rw_remote_attempt_ref :: string
  rw_review_grant_id :: int
  rw_delivery_nonce_hash :: string
  rw_envelope_digest :: string
  rw_client_idempotency_key :: string
  rw_accepted_at :: instant

record local_db =
  lc_db :: database
  lc_refs :: "application_ref table"
  lc_grants :: "grant_row table"
  lc_receipts :: "receipt_row table"

text \<open>The constraints that the schema declares for them.\<close>

definition unclaimed :: "delivery \<Rightarrow> bool" where
  "unclaimed x \<longleftrightarrow> dl_claimed_at x = None \<and> dl_claimed_by x = None \<and> dl_claim_token x = None"

definition fully_claimed :: "delivery \<Rightarrow> bool" where
  "fully_claimed x \<longleftrightarrow> dl_claimed_at x \<noteq> None \<and> dl_claimed_by x \<noteq> None \<and> dl_claim_token x \<noteq> None"

definition projection_check :: "delivery \<Rightarrow> bool" where
  "projection_check x \<longleftrightarrow>
     0 \<le> dl_attempts x \<and> dl_available_at x \<noteq> None
     \<and> (case dl_state x of
          DL_PENDING \<Rightarrow> unclaimed x \<and> dl_done_at x = None
        | DL_CLAIMED \<Rightarrow> fully_claimed x \<and> dl_done_at x = None
        | DL_DONE \<Rightarrow> unclaimed x \<and> dl_done_at x \<noteq> None
        | _ \<Rightarrow> False)"

definition revocation_check :: "delivery \<Rightarrow> bool" where
  "revocation_check x \<longleftrightarrow>
     0 \<le> dl_attempts x
     \<and> (case dl_state x of
          DL_NONE \<Rightarrow> dl_available_at x = None \<and> unclaimed x \<and> dl_done_at x = None
        | DL_PENDING \<Rightarrow> dl_available_at x \<noteq> None \<and> unclaimed x \<and> dl_done_at x = None
        | DL_CLAIMED \<Rightarrow> dl_available_at x \<noteq> None \<and> fully_claimed x \<and> dl_done_at x = None
        | DL_DONE \<Rightarrow> dl_available_at x \<noteq> None \<and> unclaimed x \<and> dl_done_at x \<noteq> None
        | DL_EXPIRED \<Rightarrow> dl_available_at x \<noteq> None \<and> unclaimed x \<and> dl_done_at x = None)"

definition grant_check :: "grant_row \<Rightarrow> bool" where
  "grant_check g \<longleftrightarrow>
     32 \<le> length (gw_grant_ref g) \<and> length (gw_grant_ref g) \<le> 64 \<and> 0 < gw_application_revision g
     \<and> trimmed_within 1 64 (gw_adapter_name g) \<and> trimmed_within 1 32 (gw_adapter_version g)
     \<and> trimmed_within 1 64 (gw_selector_version g) \<and> trimmed_within 1 64 (gw_runner_release g)
     \<and> list_all sha256_check_sql [gw_job_url_hash g, gw_form_plan_fingerprint g, gw_cv_hash g]
     \<and> gw_issued_at g < gw_expires_at g
     \<and> (case gw_consumed_command_ref g of
          None \<Rightarrow> gw_consumed_at g = None
        | Some r \<Rightarrow> gw_consumed_at g \<noteq> None \<and> trimmed_within 1 64 r)
     \<and> projection_check (gw_projection g) \<and> revocation_check (gw_revocation g)"

definition receipt_check :: "receipt_row \<Rightarrow> bool" where
  "receipt_check r \<longleftrightarrow>
     16 \<le> length (rw_remote_command_ref r) \<and> length (rw_remote_command_ref r) \<le> 64
     \<and> 32 \<le> length (rw_remote_attempt_ref r) \<and> length (rw_remote_attempt_ref r) \<le> 64
     \<and> 16 \<le> length (rw_client_idempotency_key r) \<and> length (rw_client_idempotency_key r) \<le> 128
     \<and> sha256_check_sql (rw_delivery_nonce_hash r) \<and> sha256_check_sql (rw_envelope_digest r)"

definition local_valid :: "local_db \<Rightarrow> bool" where
  "local_valid l \<longleftrightarrow>
     db_valid (lc_db l)
     \<and> distinct (map fst (lc_refs l)) \<and> distinct (map (rf_application_id \<circ> snd) (lc_refs l))
     \<and> distinct (map (rf_remote_ref \<circ> snd) (lc_refs l))
     \<and> list_all (\<lambda>(i, r). 32 \<le> length (rf_remote_ref r) \<and> length (rf_remote_ref r) \<le> 64
          \<and> row (db_applications (lc_db l)) (rf_application_id r) \<noteq> None) (lc_refs l)
     \<and> distinct (map fst (lc_grants l)) \<and> distinct (map (gw_grant_ref \<circ> snd) (lc_grants l))
     \<and> list_all (\<lambda>(i, g). grant_check g \<and> row (lc_refs l) (gw_application_ref_id g) \<noteq> None
          \<and> row (db_applications (lc_db l)) (gw_application_id g) \<noteq> None
          \<and> row (db_plans (lc_db l)) (gw_form_plan_id g) \<noteq> None) (lc_grants l)
     \<and> distinct (map fst (lc_receipts l)) \<and> distinct (map (rw_remote_command_ref \<circ> snd) (lc_receipts l))
     \<and> distinct (map (rw_remote_attempt_ref \<circ> snd) (lc_receipts l))
     \<and> distinct (map (rw_review_grant_id \<circ> snd) (lc_receipts l))
     \<and> distinct (map (rw_client_idempotency_key \<circ> snd) (lc_receipts l))
     \<and> distinct (map (rw_delivery_nonce_hash \<circ> snd) (lc_receipts l))
     \<and> list_all (\<lambda>(i, r). receipt_check r \<and> row (lc_grants l) (rw_review_grant_id r) \<noteq> None) (lc_receipts l)"

text \<open>A rejection by this module or by the runner, or an error of the submission core.\<close>

datatype runner_fault = GrantFault string | RunnerFault string | CoreFault fault

definition core :: "fault + 'a \<Rightarrow> runner_fault + 'a" where
  "core m = (case m of Inl e \<Rightarrow> Inl (CoreFault e) | Inr x \<Rightarrow> Inr x)"

abbreviation grant_error :: "string \<Rightarrow> runner_fault + 'a" where
  "grant_error r \<equiv> Inl (GrantFault r)"

abbreviation need :: "bool \<Rightarrow> string \<Rightarrow> runner_fault + unit" where
  "need b r \<equiv> ensure b (GrantFault r)"

definition commit_local :: "local_db \<Rightarrow> runner_fault + local_db" where
  "commit_local l = (if local_valid l then Inr l else Inl (CoreFault IntegrityError))"

definition put_grant :: "int \<Rightarrow> grant_row \<Rightarrow> local_db \<Rightarrow> local_db" where
  "put_grant k g l = l\<lparr>lc_grants := put_row k g (lc_grants l)\<rparr>"

section \<open>Projections\<close>

record grant_projection =
  pj_remote_application_ref :: string
  pj_review_grant_ref :: string
  pj_application_revision :: int
  pj_adapter_name :: string
  pj_adapter_version :: string
  pj_selector_version :: string
  pj_form_fingerprint_digest :: string
  pj_runner_release :: string
  pj_issued_at :: instant
  pj_expires_at :: instant

record revocation_projection =
  vj_remote_application_ref :: string
  vj_review_grant_ref :: string
  vj_application_revision :: int
  vj_adapter_name :: string
  vj_adapter_version :: string
  vj_form_fingerprint_digest :: string
  vj_reviewed_at :: instant
  vj_grant_expires_at :: instant
  vj_revoked_at :: instant

definition remote_ref_of :: "local_db \<Rightarrow> grant_row \<Rightarrow> runner_fault + string" where
  "remote_ref_of l g =
     (case row (lc_refs l) (gw_application_ref_id g) of
        None \<Rightarrow> Inl (CoreFault AttributeFault) | Some r \<Rightarrow> Inr (rf_remote_ref r))"

definition projection_of :: "local_db \<Rightarrow> grant_row \<Rightarrow> runner_fault + grant_projection" where
  "projection_of l g =
     and_then (remote_ref_of l g) (\<lambda>ref.
     Inr \<lparr>pj_remote_application_ref = ref, pj_review_grant_ref = gw_grant_ref g,
          pj_application_revision = gw_application_revision g, pj_adapter_name = gw_adapter_name g,
          pj_adapter_version = gw_adapter_version g, pj_selector_version = gw_selector_version g,
          pj_form_fingerprint_digest = gw_form_plan_fingerprint g, pj_runner_release = gw_runner_release g,
          pj_issued_at = gw_issued_at g, pj_expires_at = gw_expires_at g\<rparr>)"

definition revocation_projection_of :: "local_db \<Rightarrow> grant_row \<Rightarrow> runner_fault + revocation_projection" where
  "revocation_projection_of l g =
     (case gw_revoked_at g of
        None \<Rightarrow> grant_error ''REVIEW_GRANT_NOT_REVOKED''
      | Some t \<Rightarrow>
          and_then (remote_ref_of l g) (\<lambda>ref.
          Inr \<lparr>vj_remote_application_ref = ref, vj_review_grant_ref = gw_grant_ref g,
               vj_application_revision = gw_application_revision g, vj_adapter_name = gw_adapter_name g,
               vj_adapter_version = gw_adapter_version g, vj_form_fingerprint_digest = gw_form_plan_fingerprint g,
               vj_reviewed_at = gw_issued_at g, vj_grant_expires_at = gw_expires_at g, vj_revoked_at = t\<rparr>))"

section \<open>Minting\<close>

definition max_review_grant_ttl :: int where
  "max_review_grant_ttl = 300"

text \<open>\<open>url_hash(normalize_url(url))\<close> is a parameter; \<open>None\<close> when it raises.\<close>

record grant_env =
  ge_policy :: plan_policy
  ge_url_hash :: "string \<Rightarrow> string option"

text \<open>
  \<open>_current_plan\<close>. The stored plan belongs to the application, is not invalidated, can be reconstructed, has
  not expired and is ready.
\<close>

definition as_grant_error :: "fault + 'a \<Rightarrow> runner_fault + 'a" where
  "as_grant_error m =
     (case m of
        Inl (AdmissionFault r) \<Rightarrow> grant_error r
      | Inl ValueFault \<Rightarrow> grant_error ''FORM_PLAN_BLOCKED''
      | Inl e \<Rightarrow> Inl (CoreFault e)
      | Inr x \<Rightarrow> Inr x)"

definition current_plan :: "grant_env \<Rightarrow> int \<Rightarrow> int \<Rightarrow> instant \<Rightarrow> database \<Rightarrow> runner_fault + plan_row" where
  "current_plan env app pid now d =
     (case row (db_plans d) pid of
        None \<Rightarrow> grant_error ''FORM_PLAN_NOT_FOUND''
      | Some p \<Rightarrow>
          and_then (need (pl_application_id p = app) ''FORM_PLAN_NOT_FOUND'') (\<lambda>_.
          and_then (need (pl_invalidated_at p = None) ''FORM_CHANGED'') (\<lambda>_.
          and_then (as_grant_error (reconstruct_persisted_form_plan (ge_policy env) p)) (\<lambda>dp.
          and_then (need (plan_is_expired dp (Aware now) \<noteq> Some True) ''FORM_PLAN_EXPIRED'') (\<lambda>_.
          and_then (need (ready_for_permit_at dp (Aware now) = Some True)
                     (if pl_attachment_verified p then ''FORM_PLAN_BLOCKED'' else ''ATTACHMENT_UNVERIFIED'')) (\<lambda>_.
          Inr p))))))"

definition job_hash :: "grant_env \<Rightarrow> database \<Rightarrow> application \<Rightarrow> runner_fault + string" where
  "job_hash env d ap = lift_opt (GrantFault ''JOB_URL_INVALID'') (ge_url_hash env (job_url_of d ap))"

definition ensure_application_ref :: "string \<Rightarrow> int \<Rightarrow> local_db \<Rightarrow> local_db \<times> int" where
  "ensure_application_ref fresh app l =
     (case find (\<lambda>(k, r). rf_application_id r = app) (lc_refs l) of
        Some (k, r) \<Rightarrow> (l, k)
      | None \<Rightarrow>
          (let k = next_id (lc_refs l)
           in (l\<lparr>lc_refs := put_row k \<lparr>rf_application_id = app, rf_remote_ref = fresh\<rparr> (lc_refs l)\<rparr>, k)))"

definition grant_live :: "grant_row \<Rightarrow> bool" where
  "grant_live g \<longleftrightarrow> gw_consumed_at g = None \<and> gw_revoked_at g = None"

definition supersede_grant :: "instant \<Rightarrow> grant_row \<Rightarrow> grant_row" where
  "supersede_grant now g =
     g\<lparr>gw_revoked_at := Some now,
       gw_revocation := (gw_revocation g)\<lparr>dl_available_at := Some now,
         dl_state := (if now < gw_expires_at g then DL_PENDING else DL_EXPIRED)\<rparr>\<rparr>"

definition supersede_grants :: "int \<Rightarrow> instant \<Rightarrow> grant_row table \<Rightarrow> grant_row table" where
  "supersede_grants app now t =
     map (\<lambda>(k, g). (k, if gw_application_id g = app \<and> grant_live g then supersede_grant now g else g)) t"

definition no_delivery :: delivery where
  "no_delivery =
     \<lparr>dl_state = DL_NONE, dl_available_at = None, dl_claimed_at = None, dl_claimed_by = None,
      dl_claim_token = None, dl_attempts = 0, dl_done_at = None, dl_error = None\<rparr>"

definition minted_grant ::
  "string \<Rightarrow> int \<Rightarrow> application \<Rightarrow> int \<Rightarrow> int \<Rightarrow> plan_row \<Rightarrow> string \<Rightarrow> string \<Rightarrow> instant \<Rightarrow> instant \<Rightarrow> grant_row" where
  "minted_grant ref app ap ref_id pid p url_hash release now expires =
     \<lparr>gw_grant_ref = ref, gw_application_id = app, gw_application_ref_id = ref_id, gw_form_plan_id = pid,
      gw_application_revision = ap_revision ap, gw_job_url_hash = url_hash,
      gw_form_plan_fingerprint = pl_fingerprint p, gw_cv_hash = or_empty (pl_attached_cv_hash p),
      gw_adapter_name = pl_adapter_name p, gw_adapter_version = pl_adapter_version p,
      gw_selector_version = pl_selector_version p, gw_runner_release = release, gw_issued_at = now,
      gw_expires_at = expires, gw_revoked_at = None, gw_consumed_at = None, gw_consumed_command_ref = None,
      gw_projection = no_delivery\<lparr>dl_state := DL_PENDING, dl_available_at := Some now\<rparr>,
      gw_revocation = no_delivery\<rparr>"

definition mint_bindings :: "application \<Rightarrow> plan_row \<Rightarrow> bool" where
  "mint_bindings ap p \<longleftrightarrow>
     pl_application_revision p = ap_revision ap \<and> ap_selected_cv_id ap = Some (pl_selected_cv_id p)
     \<and> ap_selected_cv_hash ap = Some (pl_selected_cv_hash p) \<and> pl_profile_version p = ap_profile_version ap
     \<and> truthy (pl_attached_cv_hash p) \<and> pl_attachment_verified p"

text \<open>\<open>fresh\<close> are the two references that may be drawn: of the application and of the grant.\<close>

definition mint_control_plane_review_grant ::
  "grant_env \<Rightarrow> string \<times> string \<Rightarrow> int \<Rightarrow> int \<Rightarrow> string \<Rightarrow> int \<Rightarrow> instant \<Rightarrow> local_db
   \<Rightarrow> runner_fault + local_db \<times> grant_projection" where
  "mint_control_plane_review_grant env fresh app pid runner_release ttl now l =
     (let d = lc_db l; release = strip runner_release in
      and_then (need (1 \<le> ttl \<and> ttl \<le> max_review_grant_ttl) ''REVIEW_GRANT_TTL_INVALID'') (\<lambda>_.
      and_then (need (1 \<le> length release \<and> length release \<le> 64) ''RUNTIME_NOT_READY'') (\<lambda>_.
      and_then (lift_opt (GrantFault ''APPLICATION_NOT_FOUND'') (row (db_applications d) app)) (\<lambda>ap.
      and_then (need (ap_status ap = JS_DRAFT \<and> preparation_is_current ap) ''APPLICATION_REVIEW_REQUIRED'') (\<lambda>_.
      and_then (current_plan env app pid now d) (\<lambda>p.
      and_then (need (mint_bindings ap p) ''FORM_CHANGED'') (\<lambda>_.
      and_then (if pl_attached_cv_id p \<noteq> Some (pl_selected_cv_id p) then grant_error ''ATTACHMENT_UNVERIFIED''
                else core (compare_digest (or_empty (pl_attached_cv_hash p)) (pl_selected_cv_hash p))) (\<lambda>same.
      and_then (need same ''ATTACHMENT_UNVERIFIED'') (\<lambda>_.
      case ensure_application_ref (fst fresh) app l of (l1, ref_id) \<Rightarrow>
      let l2 = l1\<lparr>lc_grants := supersede_grants app now (lc_grants l1)\<rparr>;
          expires = min (pl_expires_at p) (now + seconds ttl) in
      and_then (need (now < expires) ''FORM_PLAN_EXPIRED'') (\<lambda>_.
      and_then (job_hash env d ap) (\<lambda>h.
      let g = minted_grant (snd fresh) app ap ref_id pid p h release now expires in
      and_then (commit_local (put_grant (next_id (lc_grants l2)) g l2)) (\<lambda>l3.
      and_then (projection_of l3 g) (\<lambda>proj. Inr (l3, proj))))))))))))))"

section \<open>Validation and consumption\<close>

fun check_digests :: "((fault + bool) \<times> string) list \<Rightarrow> runner_fault + unit" where
  "check_digests [] = Inr ()"
| "check_digests ((Inl e, r) # bs) = Inl (CoreFault e)"
| "check_digests ((Inr b, r) # bs) = (if b then check_digests bs else grant_error r)"

text \<open>Revisions are compared through their decimal texts, which are injective.\<close>

definition grant_bindings :: "grant_row \<Rightarrow> application \<Rightarrow> plan_row \<Rightarrow> string \<Rightarrow> ((fault + bool) \<times> string) list" where
  "grant_bindings g ap p h =
     [(Inr (gw_application_revision g = ap_revision ap), ''APPLICATION_REVISION_CHANGED''),
      (Inr (gw_application_revision g = pl_application_revision p), ''APPLICATION_REVISION_CHANGED''),
      (compare_digest (gw_job_url_hash g) h, ''JOB_URL_CHANGED''),
      (compare_digest (gw_form_plan_fingerprint g) (pl_fingerprint p), ''FORM_CHANGED''),
      (compare_digest (gw_cv_hash g) (or_empty (ap_selected_cv_hash ap)), ''CV_SELECTION_CHANGED''),
      (compare_digest (gw_cv_hash g) (pl_selected_cv_hash p), ''CV_SELECTION_CHANGED''),
      (compare_digest (gw_cv_hash g) (or_empty (pl_attached_cv_hash p)), ''ATTACHMENT_CHANGED''),
      (compare_digest (gw_adapter_name g) (pl_adapter_name p), ''ADAPTER_VERSION_CHANGED''),
      (compare_digest (gw_adapter_version g) (pl_adapter_version p), ''ADAPTER_VERSION_CHANGED''),
      (compare_digest (gw_selector_version g) (pl_selector_version p), ''SELECTOR_DRIFT'')]"

definition validate_control_plane_review_grant ::
  "grant_env \<Rightarrow> string \<Rightarrow> string \<Rightarrow> string \<Rightarrow> instant \<Rightarrow> local_db \<Rightarrow> runner_fault + int \<times> grant_row" where
  "validate_control_plane_review_grant env grant_ref application_ref runner_release now l =
     (let d = lc_db l in
      and_then (lift_opt (GrantFault ''REVIEW_GRANT_NOT_FOUND'')
                  (find (\<lambda>(k, g). gw_grant_ref g = grant_ref) (lc_grants l))) (\<lambda>(k, g).
      and_then (lift_opt (GrantFault ''APPLICATION_NOT_FOUND'') (row (db_applications d) (gw_application_id g))) (\<lambda>ap.
      and_then (need (gw_revoked_at g = None) ''REVIEW_GRANT_REVOKED'') (\<lambda>_.
      and_then (need (gw_consumed_at g = None) ''REVIEW_GRANT_REPLAYED'') (\<lambda>_.
      and_then (need (now < gw_expires_at g) ''REVIEW_GRANT_EXPIRED'') (\<lambda>_.
      and_then (remote_ref_of l g) (\<lambda>ref.
      and_then (check_digests [(compare_digest ref application_ref, ''REMOTE_APPLICATION_CHANGED''),
                               (compare_digest (gw_runner_release g) runner_release, ''BUILD_MISMATCH'')]) (\<lambda>_.
      and_then (need (ap_status ap = JS_DRAFT \<and> preparation_is_current ap) ''APPLICATION_REVIEW_REQUIRED'') (\<lambda>_.
      and_then (current_plan env (gw_application_id g) (gw_form_plan_id g) now d) (\<lambda>p.
      and_then (job_hash env d ap) (\<lambda>h.
      and_then (check_digests (grant_bindings g ap p h)) (\<lambda>_.
      and_then (need (pl_attachment_verified p \<and> pl_attached_cv_id p = Some (pl_selected_cv_id p))
                  ''ATTACHMENT_UNVERIFIED'') (\<lambda>_.
      Inr (k, g))))))))))))))"

definition consume_control_plane_review_grant :: "string \<Rightarrow> grant_row \<Rightarrow> instant \<Rightarrow> runner_fault + grant_row" where
  "consume_control_plane_review_grant command_ref g now =
     (let ref = strip command_ref in
      and_then (need (gw_consumed_at g = None) ''REVIEW_GRANT_REPLAYED'') (\<lambda>_.
      and_then (need (16 \<le> length ref \<and> length ref \<le> 64) ''REMOTE_COMMAND_INVALID'') (\<lambda>_.
      Inr (g\<lparr>gw_consumed_at := Some now, gw_consumed_command_ref := Some ref\<rparr>))))"

definition grant_spent :: "grant_row \<Rightarrow> bool" where
  "grant_spent g \<longleftrightarrow> gw_consumed_at g \<noteq> None"

interpretation grant_use: one_use grant_spent "consume_control_plane_review_grant ref"
  by unfold_locales
     (auto simp: grant_spent_def consume_control_plane_review_grant_def Let_def ensure_def split: if_splits)

section \<open>Delivery\<close>

text \<open>
  Both deliveries run through the same stages. A claim older than thirty seconds is taken back, at most
  twenty-five at a time in table order; a claim carries a drawn token; a failed delivery is retried after ten
  seconds.
\<close>

definition projection_claim_ttl :: int where
  "projection_claim_ttl = 30"

definition free_delivery :: "delivery \<Rightarrow> delivery" where
  "free_delivery x = x\<lparr>dl_claimed_at := None, dl_claimed_by := None, dl_claim_token := None\<rparr>"

definition stale_delivery :: "instant \<Rightarrow> delivery \<Rightarrow> bool" where
  "stale_delivery now x \<longleftrightarrow>
     dl_state x = DL_CLAIMED \<and> dl_done_at x = None
     \<and> (case dl_claimed_at x of None \<Rightarrow> False | Some t \<Rightarrow> t < now - seconds projection_claim_ttl)"

definition retake :: "string \<Rightarrow> instant \<Rightarrow> delivery \<Rightarrow> delivery" where
  "retake reason now x =
     (free_delivery x)\<lparr>dl_state := DL_PENDING, dl_available_at := Some now, dl_error := Some reason\<rparr>"

definition claim_delivery :: "string \<Rightarrow> string \<Rightarrow> instant \<Rightarrow> delivery \<Rightarrow> delivery" where
  "claim_delivery runner token now x =
     x\<lparr>dl_state := DL_CLAIMED, dl_claimed_at := Some now, dl_claimed_by := Some runner,
       dl_claim_token := Some token, dl_attempts := dl_attempts x + 1\<rparr>"

definition complete_delivery :: "instant \<Rightarrow> delivery \<Rightarrow> delivery" where
  "complete_delivery now x =
     (free_delivery x)\<lparr>dl_state := DL_DONE, dl_done_at := Some now, dl_error := None\<rparr>"

definition retry_delivery :: "delivery_state \<Rightarrow> string \<Rightarrow> instant \<Rightarrow> delivery \<Rightarrow> delivery" where
  "retry_delivery st reason now x =
     (free_delivery x)\<lparr>dl_state := st, dl_available_at := Some (now + seconds 10), dl_error := Some reason\<rparr>"

text \<open>
  The session does not flush before a query, so every query of a call selects rows by what was stored before
  it: a claim that has just been taken back can be claimed by the next call.
\<close>

definition first_ids :: "nat \<Rightarrow> (grant_row \<Rightarrow> bool) \<Rightarrow> local_db \<Rightarrow> int list" where
  "first_ids n P l = take n (map fst (filter (P \<circ> snd) (lc_grants l)))"

definition update_grants :: "int list \<Rightarrow> (grant_row \<Rightarrow> grant_row) \<Rightarrow> local_db \<Rightarrow> local_db" where
  "update_grants ks f l = l\<lparr>lc_grants := map (\<lambda>(k, g). (k, if k \<in> set ks then f g else g)) (lc_grants l)\<rparr>"

definition upper_char :: "char \<Rightarrow> bool" where
  "upper_char c = (let n = (of_char c :: nat) in (65 \<le> n \<and> n \<le> 90) \<or> (192 \<le> n \<and> n \<le> 222 \<and> n \<noteq> 215))"

definition digit_char :: "char \<Rightarrow> bool" where
  "digit_char c = (let n = (of_char c :: nat) in (48 \<le> n \<and> n \<le> 57) \<or> n \<in> {178, 179, 185})"

definition delivery_reason :: "string \<Rightarrow> string" where
  "delivery_reason reason =
     (let r = take 64 reason in
      if r = [] \<or> \<not> list_all (\<lambda>c. c = CHR ''_'' \<or> upper_char c \<or> digit_char c) r
      then ''CONTROL_PLANE_DELIVERY_FAILED'' else r)"

definition claimed_grant ::
  "(grant_row \<Rightarrow> delivery) \<Rightarrow> string \<Rightarrow> int \<Rightarrow> string \<Rightarrow> local_db \<Rightarrow> runner_fault + grant_row" where
  "claimed_grant sel lost k token l =
     and_then (lift_opt (GrantFault lost) (row (lc_grants l) k)) (\<lambda>g.
     and_then (need (dl_state (sel g) = DL_CLAIMED \<and> dl_claim_token (sel g) = Some token) lost) (\<lambda>_. Inr g))"

definition on_projection :: "(delivery \<Rightarrow> delivery) \<Rightarrow> grant_row \<Rightarrow> grant_row" where
  "on_projection f g = g\<lparr>gw_projection := f (gw_projection g)\<rparr>"

definition on_revocation :: "(delivery \<Rightarrow> delivery) \<Rightarrow> grant_row \<Rightarrow> grant_row" where
  "on_revocation f g = g\<lparr>gw_revocation := f (gw_revocation g)\<rparr>"

definition available_by :: "instant \<Rightarrow> delivery \<Rightarrow> bool" where
  "available_by now x \<longleftrightarrow> (case dl_available_at x of None \<Rightarrow> False | Some t \<Rightarrow> t \<le> now)"

definition due_order :: "(grant_row \<Rightarrow> delivery) \<Rightarrow> int \<times> grant_row \<Rightarrow> instant \<times> int" where
  "due_order sel = (\<lambda>(k, g). (the (dl_available_at (sel g)), k))"

definition runner_name :: "string \<Rightarrow> runner_fault + string" where
  "runner_name runner =
     and_then (need (1 \<le> length (strip runner) \<and> length (strip runner) \<le> 64) ''RUNNER_ID_INVALID'')
       (\<lambda>_. Inr (strip runner))"

subsection \<open>The projection of a grant\<close>

definition revocation_pending :: "instant \<Rightarrow> local_db \<Rightarrow> bool" where
  "revocation_pending now l \<longleftrightarrow>
     list_ex (\<lambda>(k, g). dl_state (gw_revocation g) \<in> {DL_PENDING, DL_CLAIMED} \<and> now < gw_expires_at g) (lc_grants l)"

definition projectable :: "instant \<Rightarrow> grant_row \<Rightarrow> bool" where
  "projectable now g \<longleftrightarrow>
     dl_state (gw_projection g) = DL_PENDING \<and> available_by now (gw_projection g)
     \<and> now < gw_expires_at g \<and> grant_live g"

definition claim_next ::
  "(grant_row \<Rightarrow> delivery) \<Rightarrow> (grant_row \<Rightarrow> bool) \<Rightarrow> (grant_row \<Rightarrow> grant_row) \<Rightarrow> string \<Rightarrow> local_db
     \<Rightarrow> local_db \<Rightarrow> runner_fault + local_db \<times> (int \<times> string) option" where
  "claim_next sel due claim token stored l =
     (case sort_key (due_order sel) (filter (due \<circ> snd) (lc_grants stored)) of
        [] \<Rightarrow> and_then (commit_local l) (\<lambda>l'. Inr (l', None))
      | (k, g) # rest \<Rightarrow> and_then (commit_local (update_grants [k] claim l)) (\<lambda>l'. Inr (l', Some (k, token))))"

definition claim_review_grant_projection ::
  "string \<Rightarrow> string \<Rightarrow> instant \<Rightarrow> local_db \<Rightarrow> runner_fault + local_db \<times> (int \<times> string) option" where
  "claim_review_grant_projection runner token now l =
     and_then (runner_name runner) (\<lambda>name.
     if revocation_pending now l then and_then (commit_local l) (\<lambda>l'. Inr (l', None))
     else claim_next gw_projection (projectable now) (on_projection (claim_delivery name token now)) token l
            (update_grants (first_ids 25 (stale_delivery now \<circ> gw_projection) l)
               (on_projection (retake ''PROJECTION_CLAIM_STALE'' now)) l))"

definition load_claimed_review_grant_projection ::
  "grant_env \<Rightarrow> int \<Rightarrow> string \<Rightarrow> string \<Rightarrow> instant \<Rightarrow> local_db \<Rightarrow> runner_fault + grant_projection" where
  "load_claimed_review_grant_projection env k token runner_release now l =
     and_then (claimed_grant gw_projection ''PROJECTION_CLAIM_LOST'' k token l) (\<lambda>g.
     and_then (remote_ref_of l g) (\<lambda>ref.
     and_then (validate_control_plane_review_grant env (gw_grant_ref g) ref runner_release now l) (\<lambda>(j, h).
     and_then (if j \<noteq> k \<or> dl_state (gw_projection h) \<noteq> DL_CLAIMED then grant_error ''PROJECTION_CLAIM_LOST''
               else core (compare_digest (or_empty (dl_claim_token (gw_projection h))) token)) (\<lambda>same.
     and_then (need same ''PROJECTION_CLAIM_LOST'') (\<lambda>_. projection_of l h)))))"

definition mark_review_grant_projected ::
  "int \<Rightarrow> string \<Rightarrow> instant \<Rightarrow> local_db \<Rightarrow> runner_fault + local_db" where
  "mark_review_grant_projected k token now l =
     and_then (claimed_grant gw_projection ''PROJECTION_CLAIM_LOST'' k token l) (\<lambda>g.
     commit_local (put_grant k (on_projection (complete_delivery now) g) l))"

definition release_review_grant_projection ::
  "int \<Rightarrow> string \<Rightarrow> string \<Rightarrow> instant \<Rightarrow> local_db \<Rightarrow> runner_fault + local_db" where
  "release_review_grant_projection k token reason now l =
     and_then (claimed_grant gw_projection ''PROJECTION_CLAIM_LOST'' k token l) (\<lambda>g.
     commit_local (put_grant k (on_projection (retry_delivery DL_PENDING (delivery_reason reason) now) g) l))"

subsection \<open>The tombstone of a revocation\<close>

definition revocable :: "instant \<Rightarrow> grant_row \<Rightarrow> bool" where
  "revocable now g \<longleftrightarrow>
     dl_state (gw_revocation g) = DL_PENDING \<and> available_by now (gw_revocation g)
     \<and> now < gw_expires_at g \<and> gw_revoked_at g \<noteq> None \<and> gw_consumed_at g = None"

definition expire_delivery :: "delivery \<Rightarrow> delivery" where
  "expire_delivery x = x\<lparr>dl_state := DL_EXPIRED, dl_error := Some ''REVIEW_GRANT_EXPIRED''\<rparr>"

definition claim_review_grant_revocation ::
  "string \<Rightarrow> string \<Rightarrow> instant \<Rightarrow> local_db \<Rightarrow> runner_fault + local_db \<times> (int \<times> string) option" where
  "claim_review_grant_revocation runner token now l =
     and_then (runner_name runner) (\<lambda>name.
       claim_next gw_revocation (revocable now) (on_revocation (claim_delivery name token now)) token l
         (update_grants
            (first_ids 25 (\<lambda>g. dl_state (gw_revocation g) = DL_PENDING \<and> gw_expires_at g \<le> now) l)
            (on_revocation expire_delivery)
            (update_grants (first_ids 25 (stale_delivery now \<circ> gw_revocation) l)
               (on_revocation (retake ''REVOCATION_CLAIM_STALE'' now)) l)))"

definition load_claimed_review_grant_revocation ::
  "int \<Rightarrow> string \<Rightarrow> instant \<Rightarrow> local_db \<Rightarrow> runner_fault + revocation_projection" where
  "load_claimed_review_grant_revocation k token now l =
     and_then (claimed_grant gw_revocation ''REVOCATION_CLAIM_LOST'' k token l) (\<lambda>g.
     and_then (need (gw_revoked_at g \<noteq> None) ''REVIEW_GRANT_NOT_REVOKED'') (\<lambda>_.
     and_then (need (gw_consumed_at g = None) ''REVIEW_GRANT_REPLAYED'') (\<lambda>_.
     and_then (need (now < gw_expires_at g) ''REVIEW_GRANT_EXPIRED'') (\<lambda>_. revocation_projection_of l g))))"

definition mark_review_grant_revocation_delivered ::
  "int \<Rightarrow> string \<Rightarrow> instant \<Rightarrow> local_db \<Rightarrow> runner_fault + local_db" where
  "mark_review_grant_revocation_delivered k token now l =
     and_then (claimed_grant gw_revocation ''REVOCATION_CLAIM_LOST'' k token l) (\<lambda>g.
     commit_local (put_grant k (on_revocation (complete_delivery now) g) l))"

definition release_review_grant_revocation ::
  "int \<Rightarrow> string \<Rightarrow> string \<Rightarrow> instant \<Rightarrow> local_db \<Rightarrow> runner_fault + local_db" where
  "release_review_grant_revocation k token reason now l =
     and_then (claimed_grant gw_revocation ''REVOCATION_CLAIM_LOST'' k token l) (\<lambda>g.
     commit_local (put_grant k
       (on_revocation (retry_delivery (if gw_expires_at g \<le> now then DL_EXPIRED else DL_PENDING)
          (delivery_reason reason) now) g) l))"

section \<open>What a validated grant proves\<close>

lemma core_ok [simp]: "core m = Inr x \<longleftrightarrow> m = Inr x"
  by (cases m) (simp_all add: core_def)

lemma commit_local_ok [simp]: "commit_local l = Inr l' \<longleftrightarrow> l' = l \<and> local_valid l"
  by (auto simp: commit_local_def)

lemma check_digests_ok: "check_digests bs = Inr u \<longleftrightarrow> (\<forall>(m, r) \<in> set bs. m = Inr True)"
  by (induction bs rule: check_digests.induct) auto

declare check_digests.simps [simp del]

lemma current_plan_ok:
  assumes "current_plan env app pid now d = Inr p"
  shows "row (db_plans d) pid = Some p" "pl_application_id p = app" "pl_invalidated_at p = None"
    "\<exists>dp. reconstruct_persisted_form_plan (ge_policy env) p = Inr dp \<and> ready_for_permit_at dp (Aware now) = Some True"
proof -
  from assms obtain q where q: "row (db_plans d) pid = Some q"
    by (auto simp: current_plan_def split: option.splits)
  from assms[unfolded current_plan_def q option.case] obtain dp
    where "pl_application_id q = app" "pl_invalidated_at q = None"
      and dp: "as_grant_error (reconstruct_persisted_form_plan (ge_policy env) q) = Inr dp"
      and "ready_for_permit_at dp (Aware now) = Some True" "q = p"
    by (elim and_then_okE) simp
  moreover from dp have "reconstruct_persisted_form_plan (ge_policy env) q = Inr dp"
    by (auto simp: as_grant_error_def split: sum.splits fault.splits)
  ultimately show "row (db_plans d) pid = Some p" "pl_application_id p = app" "pl_invalidated_at p = None"
    "\<exists>dp. reconstruct_persisted_form_plan (ge_policy env) p = Inr dp \<and> ready_for_permit_at dp (Aware now) = Some True"
    using q by auto
qed

lemma valid_grants:
  assumes "local_valid l"
  shows "distinct (map fst (lc_grants l))" "distinct (map (gw_grant_ref \<circ> snd) (lc_grants l))" "db_valid (lc_db l)"
    "distinct (map (rw_review_grant_id \<circ> snd) (lc_receipts l))"
    "distinct (map (rw_remote_command_ref \<circ> snd) (lc_receipts l))"
  using assms by (simp_all add: local_valid_def)

lemma grant_by_ref:
  assumes "local_valid l" and "row (lc_grants l) k = Some g"
    and "find (\<lambda>(k, g). gw_grant_ref g = gw_grant_ref g0) (lc_grants l) = Some (j, h)" and "gw_grant_ref g = gw_grant_ref g0"
  shows "j = k" "h = g"
proof -
  from find_Some_cond[OF assms(3)] have "(j, h) \<in> set (lc_grants l)" "gw_grant_ref h = gw_grant_ref g0" by auto
  with distinct_map_eqD[OF valid_grants(2)[OF assms(1)], of "(j, h)" "(k, g)"] row_in_set[OF assms(2)] assms(4)
  show "j = k" "h = g" by simp_all
qed

text \<open>A grant that the current application and plan still bear out.\<close>

definition grant_current :: "grant_env \<Rightarrow> instant \<Rightarrow> local_db \<Rightarrow> grant_row \<Rightarrow> bool" where
  "grant_current env now l g \<longleftrightarrow>
     grant_live g \<and> now < gw_expires_at g
     \<and> (\<exists>ap p dp. row (db_applications (lc_db l)) (gw_application_id g) = Some ap
          \<and> ap_status ap = JS_DRAFT \<and> preparation_is_current ap \<and> ap_revision ap = gw_application_revision g
          \<and> ap_selected_cv_hash ap = Some (gw_cv_hash g)
          \<and> row (db_plans (lc_db l)) (gw_form_plan_id g) = Some p \<and> pl_application_id p = gw_application_id g
          \<and> pl_application_revision p = gw_application_revision g \<and> pl_invalidated_at p = None
          \<and> reconstruct_persisted_form_plan (ge_policy env) p = Inr dp \<and> ready_for_permit_at dp (Aware now) = Some True
          \<and> pl_fingerprint p = gw_form_plan_fingerprint g \<and> pl_adapter_name p = gw_adapter_name g
          \<and> pl_adapter_version p = gw_adapter_version g \<and> pl_selector_version p = gw_selector_version g
          \<and> pl_selected_cv_hash p = gw_cv_hash g \<and> pl_attached_cv_hash p = Some (gw_cv_hash g)
          \<and> pl_attachment_verified p \<and> ge_url_hash env (job_url_of (lc_db l) ap) = Some (gw_job_url_hash g))"

lemma hash_present: "or_empty x = h \<Longrightarrow> h \<noteq> [] \<Longrightarrow> x = Some h"
  by (cases x) (simp_all add: or_empty_def)

lemma valid_grant_hashes:
  assumes "local_valid l" and "(k, g) \<in> set (lc_grants l)"
  shows "gw_cv_hash g \<noteq> []"
  using assms by (auto simp: local_valid_def grant_check_def list_all_iff sha256_check_sql_def)

lemma grant_bindings_ok:
  assumes "check_digests (grant_bindings g ap p h) = Inr ()"
  shows "ap_revision ap = gw_application_revision g" "pl_application_revision p = gw_application_revision g"
    "h = gw_job_url_hash g" "pl_fingerprint p = gw_form_plan_fingerprint g"
    "or_empty (ap_selected_cv_hash ap) = gw_cv_hash g" "pl_selected_cv_hash p = gw_cv_hash g"
    "or_empty (pl_attached_cv_hash p) = gw_cv_hash g" "pl_adapter_name p = gw_adapter_name g"
    "pl_adapter_version p = gw_adapter_version g" "pl_selector_version p = gw_selector_version g"
  using assms by (simp add: check_digests_ok grant_bindings_def; elim conjE; simp)+

lemma validate_grant_parts:
  assumes "validate_control_plane_review_grant env ref app_ref release now l = Inr (k, g)"
  obtains ap p where "find (\<lambda>(k, g). gw_grant_ref g = ref) (lc_grants l) = Some (k, g)"
    "row (db_applications (lc_db l)) (gw_application_id g) = Some ap" "grant_live g" "now < gw_expires_at g"
    "remote_ref_of l g = Inr app_ref" "gw_runner_release g = release"
    "ap_status ap = JS_DRAFT" "preparation_is_current ap"
    "current_plan env (gw_application_id g) (gw_form_plan_id g) now (lc_db l) = Inr p"
    "check_digests (grant_bindings g ap p (gw_job_url_hash g)) = Inr ()"
    "ge_url_hash env (job_url_of (lc_db l) ap) = Some (gw_job_url_hash g)" "pl_attachment_verified p"
proof -
  from assms obtain k0 g0 where
    f: "find (\<lambda>(k, g). gw_grant_ref g = ref) (lc_grants l) = Some (k0, g0)"
    by (auto simp: validate_control_plane_review_grant_def Let_def elim!: and_then_okE)
  have l0: "lift_opt (GrantFault ''REVIEW_GRANT_NOT_FOUND'') (Some (k0, g0)) = Inr (k0, g0)"
    by (simp add: lift_opt_def)
  from assms[unfolded validate_control_plane_review_grant_def Let_def f l0 and_then_Inr prod.case]
  obtain ap p h r where ok:
    "row (db_applications (lc_db l)) (gw_application_id g0) = Some ap" "gw_revoked_at g0 = None" "gw_consumed_at g0 = None"
    "now < gw_expires_at g0" "remote_ref_of l g0 = Inr r"
    "check_digests [(compare_digest r app_ref, ''REMOTE_APPLICATION_CHANGED''),
                    (compare_digest (gw_runner_release g0) release, ''BUILD_MISMATCH'')] = Inr ()"
    "ap_status ap = JS_DRAFT" "preparation_is_current ap"
    "current_plan env (gw_application_id g0) (gw_form_plan_id g0) now (lc_db l) = Inr p"
    "job_hash env (lc_db l) ap = Inr h" "check_digests (grant_bindings g0 ap p h) = Inr ()"
    "pl_attachment_verified p" and eq: "k0 = k" "g0 = g"
    by (elim and_then_okE) simp
  from ok(6) have r: "r = app_ref" "gw_runner_release g0 = release" by (simp_all add: check_digests_ok)
  from ok(10) grant_bindings_ok(3)[OF ok(11)]
  have h: "h = gw_job_url_hash g" "ge_url_hash env (job_url_of (lc_db l) ap) = Some (gw_job_url_hash g)"
    by (simp_all add: job_hash_def eq)
  show thesis
    using that[of ap p] f ok h r by (simp add: eq grant_live_def)
qed

lemma validate_grant_ok:
  assumes "validate_control_plane_review_grant env ref app_ref release now l = Inr (k, g)"
  shows "find (\<lambda>(k, g). gw_grant_ref g = ref) (lc_grants l) = Some (k, g)"
    "(k, g) \<in> set (lc_grants l)" "gw_grant_ref g = ref" "remote_ref_of l g = Inr app_ref"
    "gw_runner_release g = release" "grant_live g" "now < gw_expires_at g"
  using assms by (elim validate_grant_parts; auto dest: find_Some_cond)+

lemma validate_grant_current:
  assumes "validate_control_plane_review_grant env ref app_ref release now l = Inr (k, g)" and "local_valid l"
  shows "grant_current env now l g"
  using assms(1)
proof (rule validate_grant_parts)
  fix ap p
  assume ok: "row (db_applications (lc_db l)) (gw_application_id g) = Some ap" "grant_live g" "now < gw_expires_at g"
    "ap_status ap = JS_DRAFT" "preparation_is_current ap"
    "current_plan env (gw_application_id g) (gw_form_plan_id g) now (lc_db l) = Inr p"
    "check_digests (grant_bindings g ap p (gw_job_url_hash g)) = Inr ()"
    "ge_url_hash env (job_url_of (lc_db l) ap) = Some (gw_job_url_hash g)" "pl_attachment_verified p"
  note ne = valid_grant_hashes[OF assms(2) validate_grant_ok(2)[OF assms(1)]] and b = grant_bindings_ok[OF ok(7)]
    and cp = current_plan_ok[OF ok(6)]
  from cp(4) obtain dp where "reconstruct_persisted_form_plan (ge_policy env) p = Inr dp"
    "ready_for_permit_at dp (Aware now) = Some True" by blast
  then show ?thesis
    unfolding grant_current_def
    using ok cp(1-3) b hash_present[OF b(5) ne] hash_present[OF b(7) ne]
    by (intro conjI exI[of _ ap] exI[of _ p] exI[of _ dp]) simp_all
qed

section \<open>Grants only move forward\<close>

text \<open>A spent grant stays spent by the same command, and a revoked one stays revoked.\<close>

definition grant_follows :: "grant_row \<Rightarrow> grant_row \<Rightarrow> bool" where
  "grant_follows g h \<longleftrightarrow>
     gw_grant_ref h = gw_grant_ref g \<and> gw_application_id h = gw_application_id g
     \<and> gw_application_revision h = gw_application_revision g \<and> gw_expires_at h = gw_expires_at g
     \<and> (gw_consumed_at g \<noteq> None \<longrightarrow>
          gw_consumed_at h = gw_consumed_at g \<and> gw_consumed_command_ref h = gw_consumed_command_ref g)
     \<and> (gw_revoked_at g \<noteq> None \<longrightarrow> gw_revoked_at h = gw_revoked_at g)"

definition grants_advance :: "local_db \<Rightarrow> local_db \<Rightarrow> bool" where
  "grants_advance l l' \<longleftrightarrow>
     (\<forall>k g. row (lc_grants l) k = Some g \<longrightarrow> (\<exists>h. row (lc_grants l') k = Some h \<and> grant_follows g h))"

lemma grant_follows_refl [simp]: "grant_follows g g"
  by (simp add: grant_follows_def)

lemma grant_follows_trans: "grant_follows g h \<Longrightarrow> grant_follows h i \<Longrightarrow> grant_follows g i"
  by (simp add: grant_follows_def)

lemma grants_advance_trans: "grants_advance l m \<Longrightarrow> grants_advance m n \<Longrightarrow> grants_advance l n"
  unfolding grants_advance_def by (meson grant_follows_trans)

lemma grants_advance_same: "lc_grants l' = lc_grants l \<Longrightarrow> grants_advance l l'"
  by (simp add: grants_advance_def)

lemma advance_by_map:
  assumes "\<And>k g. row (lc_grants l') k = map_option (f k) (row (lc_grants l) k)" and "\<And>k g. grant_follows g (f k g)"
  shows "grants_advance l l'"
  using assms by (simp add: grants_advance_def)

lemma advance_by_put:
  assumes "row (lc_grants l) k = None \<or> (\<exists>g. row (lc_grants l) k = Some g \<and> grant_follows g h)"
    and "lc_grants l' = put_row k h (lc_grants l)"
  shows "grants_advance l l'"
  using assms by (auto simp: grants_advance_def db_simps)

lemma row_map_values: "row (map (\<lambda>(k, g). (k, f k g)) t) i = map_option (f i) (row t i)"
  by (induction t) (auto simp: row_def)

lemma update_grants_row [simp]:
  "row (lc_grants (update_grants ks f l)) k = map_option (\<lambda>g. if k \<in> set ks then f g else g) (row (lc_grants l) k)"
  unfolding update_grants_def
  by (simp add: row_map_values[where f = "\<lambda>k g. if k \<in> set ks then f g else g"])

lemma update_grants_reads [simp]:
  "lc_db (update_grants ks f l) = lc_db l" "lc_refs (update_grants ks f l) = lc_refs l"
  "lc_receipts (update_grants ks f l) = lc_receipts l"
  by (simp_all add: update_grants_def)

lemma put_grant_reads [simp]:
  "lc_db (put_grant k g l) = lc_db l" "lc_refs (put_grant k g l) = lc_refs l"
  "lc_receipts (put_grant k g l) = lc_receipts l" "lc_grants (put_grant k g l) = put_row k g (lc_grants l)"
  by (simp_all add: put_grant_def)

lemma delivery_follows [simp]: "grant_follows g (on_projection f g)" "grant_follows g (on_revocation f g)"
  by (simp_all add: grant_follows_def on_projection_def on_revocation_def)

lemma update_grants_advance: "(\<And>g. grant_follows g (f g)) \<Longrightarrow> grants_advance l (update_grants ks f l)"
  by (rule advance_by_map[where f = "\<lambda>k g. if k \<in> set ks then f g else g"]) simp_all

text \<open>A call leaves the submission core, the references and the receipts alone and moves grants forward.\<close>

definition delivers :: "local_db \<Rightarrow> local_db \<Rightarrow> bool" where
  "delivers l l' \<longleftrightarrow>
     lc_db l' = lc_db l \<and> lc_refs l' = lc_refs l \<and> lc_receipts l' = lc_receipts l \<and> grants_advance l l'
     \<and> local_valid l'"

lemma claim_next_delivers:
  assumes "claim_next sel due claim token stored l = Inr (l', r)" and "\<And>g. grant_follows g (claim g)"
    and "grants_advance stored l" and "lc_db l = lc_db stored" "lc_refs l = lc_refs stored" "lc_receipts l = lc_receipts stored"
  shows "delivers stored l'"
proof -
  have "l' = l \<or> (\<exists>k. l' = update_grants [k] claim l)" "local_valid l'"
    using assms(1) by (auto simp: claim_next_def elim!: and_then_okE split: list.splits prod.splits)
  moreover have "grants_advance l (update_grants [k] claim l)" for k
    by (intro update_grants_advance assms(2))
  ultimately show ?thesis
    using assms(3-6) grants_advance_trans[OF assms(3)] by (auto simp: delivers_def)
qed

lemma retake_advances:
  "grants_advance l (update_grants ks (on_projection f) l)" "grants_advance l (update_grants ks (on_revocation f) l)"
  "grants_advance l (update_grants ks (on_revocation f) (update_grants js (on_revocation h) l))"
  by (simp_all add: update_grants_advance grants_advance_trans[OF update_grants_advance update_grants_advance])

lemma claim_projection_cases:
  assumes "claim_review_grant_projection runner token now l = Inr (l', r)"
  obtains "l' = l" "r = None" "local_valid l"
  | name where "runner_name runner = Inr name" "\<not> revocation_pending now l"
      "claim_next gw_projection (projectable now) (on_projection (claim_delivery name token now)) token l
            (update_grants (first_ids 25 (stale_delivery now \<circ> gw_projection) l)
               (on_projection (retake ''PROJECTION_CLAIM_STALE'' now)) l) = Inr (l', r)"
  using assms by (auto simp: claim_review_grant_projection_def elim!: and_then_okE split: if_splits)

lemma claim_projection_delivers:
  assumes "claim_review_grant_projection runner token now l = Inr (l', r)"
  shows "delivers l l'"
  using assms
proof (cases rule: claim_projection_cases)
  case 1
  then show ?thesis by (simp add: delivers_def grants_advance_same)
next
  case (2 name)
  from 2(3) show ?thesis by (rule claim_next_delivers) (simp_all add: retake_advances)
qed

lemma claim_revocation_delivers:
  assumes "claim_review_grant_revocation runner token now l = Inr (l', r)"
  shows "delivers l l'"
proof -
  from assms obtain name where "claim_next gw_revocation (revocable now) (on_revocation (claim_delivery name token now)) token l
         (update_grants
            (first_ids 25 (\<lambda>g. dl_state (gw_revocation g) = DL_PENDING \<and> gw_expires_at g \<le> now) l)
            (on_revocation expire_delivery)
            (update_grants (first_ids 25 (stale_delivery now \<circ> gw_revocation) l)
               (on_revocation (retake ''REVOCATION_CLAIM_STALE'' now)) l)) = Inr (l', r)"
    by (auto simp: claim_review_grant_revocation_def elim!: and_then_okE)
  then show ?thesis
    by (rule claim_next_delivers) (simp_all add: retake_advances)
qed

lemma claimed_grant_row: "claimed_grant sel lost k token l = Inr g \<Longrightarrow> row (lc_grants l) k = Some g"
  by (auto simp: claimed_grant_def elim!: and_then_okE)

lemma settle_delivers:
  assumes "and_then (claimed_grant sel lost k token l) (\<lambda>g. commit_local (put_grant k (f g) l)) = Inr l'"
    and "\<And>g. grant_follows g (f g)"
  shows "delivers l l'"
proof -
  from assms(1) obtain g where "claimed_grant sel lost k token l = Inr g" "l' = put_grant k (f g) l" "local_valid l'"
    by (auto elim!: and_then_okE)
  then show ?thesis
    using assms(2)[of g] advance_by_put[of l k "f g" l'] claimed_grant_row[of sel lost k token l g]
    by (auto simp: delivers_def)
qed

lemma deliveries_deliver:
  "mark_review_grant_projected k token now l = Inr l' \<Longrightarrow> delivers l l'"
  "release_review_grant_projection k token reason now l = Inr l' \<Longrightarrow> delivers l l'"
  "mark_review_grant_revocation_delivered k token now l = Inr l' \<Longrightarrow> delivers l l'"
  "release_review_grant_revocation k token reason now l = Inr l' \<Longrightarrow> delivers l l'"
  unfolding mark_review_grant_projected_def release_review_grant_projection_def
    mark_review_grant_revocation_delivered_def release_review_grant_revocation_def
  by (erule settle_delivers, simp)+

lemma supersede_grant_follows: "grant_live g \<Longrightarrow> grant_follows g (supersede_grant now g)"
  by (simp add: grant_follows_def grant_live_def supersede_grant_def)

lemma ensure_ref_reads:
  assumes "ensure_application_ref fresh app l = (l', k)"
  shows "lc_db l' = lc_db l" "lc_grants l' = lc_grants l" "lc_receipts l' = lc_receipts l"
  using assms by (auto simp: ensure_application_ref_def Let_def split: option.splits prod.splits)

lemma mint_advances:
  assumes "mint_control_plane_review_grant env fresh app pid release ttl now l = Inr (l', pj)"
  shows "lc_db l' = lc_db l" "lc_receipts l' = lc_receipts l" "grants_advance l l'" "local_valid l'"
proof -
  obtain l1 k where r: "ensure_application_ref (fst fresh) app l = (l1, k)" by fastforce
  let ?l2 = "l1\<lparr>lc_grants := supersede_grants app now (lc_grants l1)\<rparr>"
  from assms obtain g where l': "l' = put_grant (next_id (lc_grants ?l2)) g ?l2" and v: "local_valid l'"
    unfolding mint_control_plane_review_grant_def Let_def r prod.case
    by (elim and_then_okE) (simp only: commit_local_ok prod.inject sum.inject, metis)
  note rd = ensure_ref_reads[OF r]
  have a: "grants_advance l ?l2"
    using row_map_values[where f = "\<lambda>k g. if gw_application_id g = app \<and> grant_live g then supersede_grant now g else g" and t = "lc_grants l"]
    by (intro advance_by_map[where f = "\<lambda>k g. if gw_application_id g = app \<and> grant_live g then supersede_grant now g else g"])
       (simp_all add: supersede_grants_def rd supersede_grant_follows)
  have "grants_advance ?l2 l'"
    by (rule advance_by_put[where k = "next_id (lc_grants ?l2)" and h = g]) (simp_all add: l' next_id_fresh)
  with a show "grants_advance l l'" by (rule grants_advance_trans)
  show "lc_db l' = lc_db l" "lc_receipts l' = lc_receipts l" "local_valid l'"
    using v rd by (simp_all add: l')
qed

end
