(* ===== verification/Control_Protocol.thy ===== *)
theory Control_Protocol
  imports Event_Outbox
begin

text \<open>
  The signed messages between the private runner and the hosted control plane: the envelopes and
  payloads of \<^verbatim>\<open>control_plane/job_control_plane/protocol.py\<close> with their validators, and the verification
  of an envelope in \<open>crypto.py\<close>. Identifiers are UUID texts. Ed25519 itself is the parameter
  \<open>signature_ok\<close> of the verification.
\<close>

section \<open>Envelopes\<close>

datatype envelope_purpose =
  EP_HEARTBEAT
  | EP_REVIEW_GRANT
  | EP_REVIEW_GRANT_REVOCATION
  | EP_COMMAND_POLL
  | EP_COMMAND_ACK
  | EP_EVENT
  | EP_CONTROL_COMMAND
  | EP_CONTROL_KILL_COMMAND

definition control_audience :: string where
  "control_audience = ''job-apply-control-plane''"

definition runner_audience :: string where
  "runner_audience = ''job-apply-private-runner''"

record envelope =
  en_key_id :: string
  en_purpose :: envelope_purpose
  en_audience :: string
  en_issued_at :: instant
  en_expires_at :: instant
  en_nonce :: string
  en_signature :: string

section \<open>Payloads\<close>

datatype policy_state = PO_INACTIVE | PO_ACTIVE | PO_BLOCKED

record policy_summary =
  ps_state :: policy_state
  ps_revision :: int
  ps_expires_at :: "instant option"
  ps_daily_remaining :: int
  ps_hourly_remaining :: int
  ps_kill_switch_active :: bool

definition bounded_counter :: "int \<Rightarrow> bool" where
  "bounded_counter n \<longleftrightarrow> 0 \<le> n \<and> n \<le> 2147483647"

definition policy_summary_valid :: "policy_summary \<Rightarrow> bool" where
  "policy_summary_valid p \<longleftrightarrow>
     bounded_counter (ps_revision p)
     \<and> 0 \<le> ps_daily_remaining p \<and> ps_daily_remaining p \<le> 25
     \<and> 0 \<le> ps_hourly_remaining p \<and> ps_hourly_remaining p \<le> 5
     \<and> (ps_state p = PO_ACTIVE \<longrightarrow> ps_expires_at p \<noteq> None)
     \<and> (ps_kill_switch_active p \<longrightarrow> ps_state p = PO_BLOCKED)"

datatype source_health = SH_HEALTHY | SH_DEGRADED | SH_DISABLED | SH_UNKNOWN

record source_summary =
  so_source :: string
  so_status :: source_health
  so_enabled_count :: int
  so_source_count :: int

definition source_summary_valid :: "source_summary \<Rightarrow> bool" where
  "source_summary_valid s \<longleftrightarrow>
     bounded_counter (so_enabled_count s) \<and> bounded_counter (so_source_count s)
     \<and> so_enabled_count s \<le> so_source_count s"

record adapter_summary =
  as_adapter :: string
  as_qualification_tier :: qualification_tier
  as_final_execution_enabled :: bool
  as_scope_count :: int

definition adapter_summary_valid :: "adapter_summary \<Rightarrow> bool" where
  "adapter_summary_valid a \<longleftrightarrow>
     bounded_counter (as_scope_count a)
     \<and> (as_final_execution_enabled a \<longrightarrow> as_qualification_tier a = QT_LIVE_CANARY_QUALIFIED \<and> 1 \<le> as_scope_count a)"

datatype runner_status = RS_READY | RS_DEGRADED | RS_DRAINING

text \<open>The pipeline counters appear only as a whole: \<open>hb_pipeline\<close> lists their seven values.\<close>

record heartbeat_payload =
  hb_boot_id :: string
  hb_release_digest :: string
  hb_status :: runner_status
  hb_pipeline :: "int list option"
  hb_policy :: "policy_summary option"
  hb_sources :: "source_summary list"
  hb_adapters :: "adapter_summary list"
  hb_operations_digest :: "string option"

fun text_less :: "string \<Rightarrow> string \<Rightarrow> bool" where
  "text_less xs [] = False"
| "text_less [] (y # ys) = True"
| "text_less (x # xs) (y # ys) =
     (of_char x < (of_char y :: nat) \<or> (x = y \<and> text_less xs ys))"

text \<open>\<open>codes == tuple(sorted(set(codes)))\<close>: strictly ascending.\<close>

definition unique_sorted :: "string list \<Rightarrow> bool" where
  "unique_sorted xs \<longleftrightarrow> sorted_wrt text_less xs"

definition heartbeat_valid :: "(heartbeat_payload \<Rightarrow> string) \<Rightarrow> heartbeat_payload \<Rightarrow> bool" where
  "heartbeat_valid digest h \<longleftrightarrow>
     length (hb_sources h) \<le> 9 \<and> length (hb_adapters h) \<le> 5
     \<and> list_all source_summary_valid (hb_sources h) \<and> list_all adapter_summary_valid (hb_adapters h)
     \<and> (case hb_policy h of None \<Rightarrow> True | Some p \<Rightarrow> policy_summary_valid p)
     \<and> (case hb_pipeline h of None \<Rightarrow> True | Some cs \<Rightarrow> length cs = 7 \<and> list_all bounded_counter cs)
     \<and> (hb_pipeline h = None \<and> hb_policy h = None \<and> hb_sources h = [] \<and> hb_adapters h = []
          \<and> hb_operations_digest h = None
        \<or> hb_pipeline h \<noteq> None \<and> hb_policy h \<noteq> None
          \<and> hb_operations_digest h = Some (digest h)
          \<and> unique_sorted (map so_source (hb_sources h)) \<and> unique_sorted (map as_adapter (hb_adapters h)))"

record grant_payload =
  gp_grant_id :: string
  gp_application_ref :: string
  gp_application_revision :: int
  gp_adapter :: string
  gp_adapter_version :: string
  gp_form_fingerprint_digest :: string
  gp_reviewed_at :: instant

record revocation_payload =
  rp_grant :: grant_payload
  rp_grant_expires_at :: instant
  rp_revoked_at :: instant

definition revocation_valid :: "revocation_payload \<Rightarrow> bool" where
  "revocation_valid r \<longleftrightarrow>
     gp_reviewed_at (rp_grant r) \<le> rp_revoked_at r \<and> rp_revoked_at r < rp_grant_expires_at r"

datatype ack_status = ACK_RECEIVED | ACK_REJECTED

text \<open>
  A runner event has the fields of the outbox event it was queued as, without the cycle, which stays
  on the runner.
\<close>

definition runner_event_valid :: "outbox_event \<Rightarrow> bool" where
  "runner_event_valid p \<longleftrightarrow>
     1 \<le> ob_sequence p \<and> ob_sequence p \<le> 2147483647
     \<and> (ob_stage p = FINISHED \<longleftrightarrow> ob_outcome p \<noteq> None)
     \<and> (ob_evidence_type p = None \<longleftrightarrow> ob_evidence_digest p = None)
     \<and> (ob_outcome p = Some CONFIRMED_SUBMITTED \<longrightarrow> ob_evidence_type p \<noteq> None \<and> ob_reason_code p = None)
     \<and> (ob_outcome p \<noteq> Some CONFIRMED_SUBMITTED \<longrightarrow> ob_evidence_type p = None)"

datatype runner_payload =
  P_HEARTBEAT heartbeat_payload
  | P_GRANT grant_payload
  | P_REVOCATION revocation_payload
  | P_POLL string
  | P_ACK string ack_status
  | P_EVENT outbox_event

section \<open>Verification\<close>

definition max_envelope_ttl :: int where
  "max_envelope_ttl = minutes 5"

definition max_clock_skew :: int where
  "max_clock_skew = seconds 30"

text \<open>The reason of a \<open>ProtocolVerificationError\<close>, or \<open>None\<close>.\<close>

definition verify_envelope ::
  "bool \<Rightarrow> envelope_purpose \<Rightarrow> string \<Rightarrow> instant \<Rightarrow> envelope \<Rightarrow> string option" where
  "verify_envelope signature_ok purpose audience now en =
     (if en_purpose en \<noteq> purpose then Some ''purpose mismatch''
      else if en_audience en \<noteq> audience then Some ''audience mismatch''
      else if now + max_clock_skew < en_issued_at en then Some ''issued-at is in the future''
      else if en_expires_at en \<le> en_issued_at en then Some ''invalid expiry ordering''
      else if max_envelope_ttl < en_expires_at en - en_issued_at en
      then Some ''envelope lifetime exceeds five minutes''
      else if en_expires_at en \<le> now then Some ''envelope expired''
      else if en_signature en = [] then Some ''signature missing''
      else if \<not> signature_ok then Some ''signature invalid'' else None)"

lemma verify_envelopeD:
  assumes "verify_envelope ok purpose audience now en = None"
  shows "ok" "en_purpose en = purpose" "en_audience en = audience" "now < en_expires_at en"
    "en_expires_at en \<le> en_issued_at en + max_envelope_ttl" "en_issued_at en \<le> now + max_clock_skew"
  using assms by (auto simp: verify_envelope_def split: if_splits)

end
