(* ===== verification/Submission_Commands.thy ===== *)
theory Submission_Commands
  imports Policy_Evaluation
begin

text \<open>
  The worker of \<^verbatim>\<open>worker/submission_commands.py\<close>: claiming a durable command, the fenced steps up to
  the commit boundary, the one irreversible action, and the recovery of stale claims. Each database
  transaction is one function on the database; clock readings, the executor's replies, the governor's
  answer and the random claim token are arguments.
\<close>

section \<open>The environment\<close>

text \<open>
  What the worker asks of other parts: the plan policy, the UUID of a mirrored event, the release of
  this process, the hash of the normalised job URL (\<open>None\<close> when normalising raises), and the environment
  of the automation policy and the adapter qualification.
\<close>

record worker_env =
  we_policy :: plan_policy
  we_event_ref :: "string \<Rightarrow> int \<Rightarrow> string"
  we_release :: string
  we_url_hash :: "string \<Rightarrow> string option"
  we_automation :: policy_env

datatype exec_result = Skipped | Superseded | Done attempt_outcome

definition lift_state :: "state_error + 'a \<Rightarrow> fault + 'a" where
  "lift_state m = (case m of Inl e \<Rightarrow> Inl (StateFault e) | Inr x \<Rightarrow> Inr x)"

section \<open>Stages and outcomes of an attempt\<close>

definition staged :: "attempt_stage \<Rightarrow> submission_status \<Rightarrow> attempt \<Rightarrow> attempt" where
  "staged target st a = a\<lparr>at_stage := target, at_outcome := None, at_status := st\<rparr>"

definition set_stage :: "int \<Rightarrow> attempt_stage \<Rightarrow> instant \<Rightarrow> database \<Rightarrow> fault + database" where
  "set_stage i target t d =
     and_then (lift_opt MissingRow (row (db_attempts d) i)) (\<lambda>a.
     and_then (lift_state (require_transition (at_stage a) target None)) (\<lambda>_.
     and_then (lift_state (project_legacy_status target None)) (\<lambda>st.
       Inr (record_attempt_stage i target (TK_AT t) (set_attempt i (staged target st a) d)))))"

definition confirmed_evidence_is_post_action :: "attempt \<Rightarrow> submission_evidence \<Rightarrow> instant \<Rightarrow> bool" where
  "confirmed_evidence_is_post_action a e observed_by =
     (case at_final_action_at a of
        None \<Rightarrow> False
      | Some f \<Rightarrow> f \<le> as_instant (ev_observed_at e)
                 \<and> as_instant (ev_observed_at e) \<le> observed_by + seconds 5)"

definition confirmed_evidence_is_valid ::
  "int \<Rightarrow> attempt \<Rightarrow> submission_evidence \<Rightarrow> instant \<Rightarrow> bool" where
  "confirmed_evidence_is_valid i a e observed_by \<longleftrightarrow>
     ev_attempt_id e = i \<and> Some (ev_form_fingerprint e) = at_form_plan_fingerprint a
     \<and> Some (ev_attached_cv_hash e) = at_attached_cv_hash a
     \<and> confirmed_evidence_is_post_action a e observed_by"

definition confirmation_id :: "submission_evidence \<Rightarrow> string" where
  "confirmation_id e =
     or_text (ev_employer_application_id e) (or_text (ev_api_receipt_id e)
       (or_text (ev_candidate_portal_reference e) (ev_digest e)))"

definition evidence_row_of :: "int \<Rightarrow> submission_evidence \<Rightarrow> evidence_row" where
  "evidence_row_of i e =
     \<lparr>er_attempt_id = i, er_type = ev_type e, er_digest = ev_digest e,
      er_employer_application_ref = ev_employer_application_id e,
      er_receipt_ref = ev_api_receipt_id e, er_portal_record_ref = ev_candidate_portal_reference e,
      er_form_fingerprint = ev_form_fingerprint e, er_cv_hash = ev_attached_cv_hash e,
      er_observed_at = as_instant (ev_observed_at e)\<rparr>"

fun outcome_reason :: "commit_outcome \<Rightarrow> string" where
  "outcome_reason (ConfirmedSubmittedOutcome e) = ''EMPLOYER_VERIFIED''"
| "outcome_reason (AlreadyAppliedOutcome r e) = reason_value r"
| "outcome_reason (NeedsReviewOutcome r fs) = reason_value r"
| "outcome_reason (UnknownOutcome r) = reason_value r"
| "outcome_reason (FailedBeforeCommitOutcome r) = reason_value r"
| "outcome_reason (DraftOnlyOutcome r) = reason_value r"

text \<open>The attempt, application and job rows after \<open>_finish_attempt\<close>.\<close>

definition finished_attempt :: "commit_outcome \<Rightarrow> instant \<Rightarrow> attempt \<Rightarrow> attempt" where
  "finished_attempt oc now a =
     (let b = a\<lparr>at_stage := FINISHED, at_outcome := Some (outcome_kind oc),
                at_status := legacy_terminal_projection (outcome_kind oc),
                at_finished_at := Some now, at_reason_code := Some (outcome_reason oc)\<rparr>
      in case oc of
           ConfirmedSubmittedOutcome e \<Rightarrow>
             b\<lparr>at_verification_kind := Some (VK_EVIDENCE (ev_type e)),
               at_evidence_digest := Some (ev_digest e),
               at_confirmation_id := Some (confirmation_id e), at_submitted_at := Some now\<rparr>
         | _ \<Rightarrow> b\<lparr>at_submitted_at := None\<rparr>)"

fun outcome_job_status :: "commit_outcome \<Rightarrow> job_status" where
  "outcome_job_status (ConfirmedSubmittedOutcome e) = JS_SUBMITTED"
| "outcome_job_status (AlreadyAppliedOutcome r e) = JS_SUBMITTED"
| "outcome_job_status (NeedsReviewOutcome r fs) = JS_NEEDS_REVIEW"
| "outcome_job_status (UnknownOutcome r) = JS_NEEDS_REVIEW"
| "outcome_job_status (FailedBeforeCommitOutcome r) = JS_FAILED"
| "outcome_job_status (DraftOnlyOutcome r) = JS_DRAFT"

definition finished_application :: "commit_outcome \<Rightarrow> application \<Rightarrow> application" where
  "finished_application oc ap =
     (let b = ap\<lparr>ap_prepared_revision := None, ap_approved_at := None, ap_approval_source := None,
                 ap_status := outcome_job_status oc\<rparr>
      in case oc of
           AlreadyAppliedOutcome r e \<Rightarrow> b\<lparr>ap_outcome := Some ALREADY_APPLIED\<rparr>
         | NeedsReviewOutcome r fs \<Rightarrow> b\<lparr>ap_needs_review_reason := Some (reason_value r)\<rparr>
         | UnknownOutcome r \<Rightarrow> b\<lparr>ap_needs_review_reason := Some (reason_value r)\<rparr>
         | FailedBeforeCommitOutcome r \<Rightarrow> b\<lparr>ap_needs_review_reason := Some (reason_value r)\<rparr>
         | _ \<Rightarrow> b)"

definition completed_command :: "instant \<Rightarrow> string \<Rightarrow> command_row \<Rightarrow> command_row" where
  "completed_command now reason c =
     c\<lparr>cm_state := CS_COMPLETED, cm_completed_at := Some now, cm_claimed_at := None,
       cm_claimed_by := None, cm_claim_token := None, cm_last_error_code := Some reason\<rparr>"

text \<open>A form that changed invalidates its plan, so that the operator has to review again.\<close>

definition invalidate_drifted_plan ::
  "commit_outcome \<Rightarrow> attempt \<Rightarrow> instant \<Rightarrow> database \<Rightarrow> database" where
  "invalidate_drifted_plan oc a now d =
     (case oc of
        FailedBeforeCommitOutcome r \<Rightarrow>
          (if r = R_FORM_CHANGED \<or> r = R_SELECTOR_DRIFT then
             (case at_form_plan_id a of None \<Rightarrow> d
              | Some k \<Rightarrow>
                  (case row (db_plans d) k of None \<Rightarrow> d
                   | Some p \<Rightarrow>
                       (if pl_invalidated_at p = None
                        then set_plan k (p\<lparr>pl_invalidated_at := Some now,
                               pl_invalidation_reason := Some (reason_value r)\<rparr>) d
                        else d)))
           else d)
      | _ \<Rightarrow> d)"

definition add_evidence :: "int \<Rightarrow> commit_outcome \<Rightarrow> database \<Rightarrow> database" where
  "add_evidence i oc d =
     (case oc of
        ConfirmedSubmittedOutcome e \<Rightarrow> d\<lparr>db_evidence := db_evidence d @ [evidence_row_of i e]\<rparr>
      | _ \<Rightarrow> d)"

definition evidence_accepted :: "int \<Rightarrow> attempt \<Rightarrow> commit_outcome \<Rightarrow> instant \<Rightarrow> bool" where
  "evidence_accepted i a oc now =
     (case oc of
        ConfirmedSubmittedOutcome e \<Rightarrow> confirmed_evidence_is_valid i a e now
      | _ \<Rightarrow> True)"

text \<open>The row changes of \<open>_finish_attempt\<close>, in its order, before the outbox event.\<close>

definition finish_rows ::
  "int \<Rightarrow> attempt \<Rightarrow> int \<Rightarrow> command_row \<Rightarrow> application \<Rightarrow> commit_outcome \<Rightarrow> instant \<Rightarrow> database \<Rightarrow> database"
  where
  "finish_rows i a cid c ap oc now d =
     (let d1 = record_attempt_stage i FINISHED (TK_FINISHED (outcome_kind oc)) d;
          d2 = invalidate_drifted_plan oc a now d1;
          a' = finished_attempt oc now a;
          d3 = set_attempt i a' (add_evidence i oc d2);
          d4 = set_application (at_application_id a) (finished_application oc ap) d3;
          d5 = set_job_opt (\<lambda>j. j\<lparr>jb_status := outcome_job_status oc\<rparr>) (Some (ap_job_id ap)) d4;
          d6 = record_attempt_outcome i a' ''terminal'' d5;
          d7 = set_command cid (completed_command now (outcome_reason oc) c) d6
      in record_application_event (at_application_id a) ''submission_attempt_finished'' ''worker''
           [(''attempt_number'', DV_INT (at_attempt_number a)),
            (''platform'', opt_text (at_adapter_name a)),
            (''reason_code'', DV_STR (outcome_reason oc)),
            (''selected_cv_id'', opt_text (at_selected_cv_id a)),
            (''profile_version'', opt_int (at_profile_version a)),
            (''state'', DV_STR (outcome_value (outcome_kind oc)))] d7)"

definition finish_attempt ::
  "worker_env \<Rightarrow> int \<Rightarrow> int \<Rightarrow> commit_outcome \<Rightarrow> instant \<Rightarrow> database \<Rightarrow> fault + database" where
  "finish_attempt env i cid oc now d =
     and_then (lift_opt MissingRow (row (db_attempts d) i)) (\<lambda>a.
     and_then (lift_opt MissingRow (row (db_commands d) cid)) (\<lambda>c.
     and_then (lift_opt MissingRow (row (db_applications d) (at_application_id a))) (\<lambda>ap.
     and_then (lift_state (require_transition (at_stage a) FINISHED (Some (Plain (outcome_kind oc))))) (\<lambda>_.
     and_then (ensure (evidence_accepted i a oc now) EvidenceBindingMismatch) (\<lambda>_.
       enqueue_control_plane_attempt_transition (we_event_ref env) (finished_attempt oc now a)
         (completed_command now (outcome_reason oc) c) now True
         (finish_rows i a cid c ap oc now d))))))"

section \<open>Claiming\<close>

definition claim_candidates :: "int option \<Rightarrow> instant \<Rightarrow> database \<Rightarrow> (int \<times> command_row) list" where
  "claim_candidates wanted now d =
     take 50 (sort_key (\<lambda>(k, c). (cm_available_at c, k))
       (filter (\<lambda>(k, c). cm_state c = CS_PENDING \<and> cm_available_at c \<le> now
          \<and> row (db_attempts d) (cm_attempt_id c) \<noteq> None
          \<and> (case wanted of None \<Rightarrow> True | Some w \<Rightarrow> k = w)) (db_commands d)))"

definition application_of_command :: "command_row \<Rightarrow> database \<Rightarrow> int option" where
  "application_of_command c d = map_option at_application_id (row (db_attempts d) (cm_attempt_id c))"

text \<open>\<open>locked app\<close> says that another transaction holds the row of the application: \<open>SKIP LOCKED\<close>.\<close>

definition pick_candidate ::
  "(int \<Rightarrow> bool) \<Rightarrow> int option \<Rightarrow> instant \<Rightarrow> database \<Rightarrow> (int \<times> command_row) option" where
  "pick_candidate locked wanted now d =
     find (\<lambda>(k, c). case application_of_command c d of None \<Rightarrow> False
                    | Some app \<Rightarrow> \<not> locked app \<and> row (db_applications d) app \<noteq> None)
       (claim_candidates wanted now d)"

definition release_matches :: "worker_env \<Rightarrow> bool \<Rightarrow> attempt \<Rightarrow> bool" where
  "release_matches env source_current a \<longleftrightarrow>
     or_empty (at_runner_release a) \<notin> {[], ''unknown'', ''unavailable''}
     \<and> we_release env \<notin> {''unknown'', ''unavailable''}
     \<and> or_empty (at_runner_release a) = we_release env \<and> source_current"

definition claimed_command :: "instant \<Rightarrow> string \<Rightarrow> string \<Rightarrow> command_row \<Rightarrow> command_row" where
  "claimed_command now runner token c =
     c\<lparr>cm_state := CS_CLAIMED, cm_claimed_at := Some now, cm_claimed_by := Some (take 128 runner),
       cm_claim_token := Some token\<rparr>"

definition claim_rows ::
  "worker_env \<Rightarrow> int \<Rightarrow> command_row \<Rightarrow> attempt \<Rightarrow> string \<Rightarrow> string \<Rightarrow> instant \<Rightarrow> database \<Rightarrow> fault + database"
  where
  "claim_rows env k c a runner token now d =
     (let c' = claimed_command now runner token c;
          d1 = set_attempt (cm_attempt_id c) (a\<lparr>at_started_at := Some now\<rparr>) (set_command k c' d)
      in and_then (set_stage (cm_attempt_id c) INSPECTING now d1) (\<lambda>d2.
         and_then (lift_opt MissingRow (row (db_attempts d2) (cm_attempt_id c))) (\<lambda>a'.
           enqueue_control_plane_attempt_transition (we_event_ref env) a' c' now True d2)))"

definition invalid_command :: "instant \<Rightarrow> command_row \<Rightarrow> command_row" where
  "invalid_command now c =
     c\<lparr>cm_state := CS_CANCELLED, cm_last_error_code := Some ''COMMAND_STATE_INVALID'',
       cm_completed_at := Some now\<rparr>"

definition claim_submission_command ::
  "worker_env \<Rightarrow> (int \<Rightarrow> bool) \<Rightarrow> int option \<Rightarrow> string \<Rightarrow> string \<Rightarrow> bool \<Rightarrow> instant \<Rightarrow> database
     \<Rightarrow> fault + database \<times> int option" where
  "claim_submission_command env locked wanted runner token source_current now d =
     (case pick_candidate locked wanted now d of
        None \<Rightarrow> Inr (d, None)
      | Some (k, c) \<Rightarrow>
          (case row (db_attempts d) (cm_attempt_id c) of
             None \<Rightarrow> Inl MissingRow
           | Some a \<Rightarrow>
               (if at_stage a \<noteq> QUEUED
                then and_then (commit_db (set_command k (invalid_command now c) d)) (\<lambda>d'. Inr (d', None))
                else if \<not> release_matches env source_current a
                then and_then (finish_attempt env (cm_attempt_id c) k
                       (FailedBeforeCommitOutcome R_BUILD_MISMATCH) now d) (\<lambda>d1.
                     and_then (commit_db d1) (\<lambda>d'. Inr (d', None)))
                else and_then (claim_rows env k c a runner token now d) (\<lambda>d1.
                     and_then (commit_db d1) (\<lambda>d'. Inr (d', Some k))))))"

section \<open>Fenced steps before the boundary\<close>

text \<open>\<open>_lock_claimed_context\<close>: the attempt of a command that is still claimed under this token.\<close>

definition lock_claimed_context :: "int \<Rightarrow> string \<Rightarrow> database \<Rightarrow> (int \<times> attempt \<times> application) option" where
  "lock_claimed_context cid token d =
     (case row (db_commands d) cid of
        None \<Rightarrow> None
      | Some c \<Rightarrow>
          (if cm_state c \<noteq> CS_CLAIMED \<or> cm_claim_token c \<noteq> Some token then None
           else case row (db_attempts d) (cm_attempt_id c) of
                  None \<Rightarrow> None
                | Some a \<Rightarrow> map_option (\<lambda>ap. (cm_attempt_id c, a, ap))
                              (row (db_applications d) (at_application_id a))))"

definition finish_and_commit ::
  "worker_env \<Rightarrow> int \<Rightarrow> int \<Rightarrow> commit_outcome \<Rightarrow> instant \<Rightarrow> database \<Rightarrow> fault + database \<times> exec_result" where
  "finish_and_commit env i cid oc now d =
     and_then (finish_attempt env i cid oc now d) (\<lambda>d1.
     and_then (commit_db d1) (\<lambda>d'. Inr (d', Done (outcome_kind oc))))"

definition finish_claimed_before_commit ::
  "worker_env \<Rightarrow> int \<Rightarrow> string \<Rightarrow> reason_code \<Rightarrow> instant \<Rightarrow> database \<Rightarrow> fault + database \<times> exec_result" where
  "finish_claimed_before_commit env cid token reason now d =
     (case lock_claimed_context cid token d of
        None \<Rightarrow> Inr (d, Superseded)
      | Some (i, a, ap) \<Rightarrow>
          (if at_stage a \<notin> {INSPECTING, PREPARING, READY} then Inr (d, Superseded)
           else finish_and_commit env i cid (FailedBeforeCommitOutcome reason) now d))"

definition draft_and_current :: "database \<Rightarrow> application \<Rightarrow> attempt \<Rightarrow> bool" where
  "draft_and_current d ap a \<longleftrightarrow>
     ap_status ap = JS_DRAFT
     \<and> (case row (db_jobs d) (ap_job_id ap) of None \<Rightarrow> False | Some j \<Rightarrow> jb_status j = JS_DRAFT)
     \<and> preparation_is_current ap \<and> ap_revision ap = at_application_revision a"

text \<open>Move an attempt to an unfinished stage and mirror the transition.\<close>

definition advance ::
  "worker_env \<Rightarrow> int \<Rightarrow> int \<Rightarrow> attempt_stage \<Rightarrow> instant \<Rightarrow> database \<Rightarrow> fault + database" where
  "advance env i cid target t d =
     and_then (set_stage i target t d) (\<lambda>d1.
     and_then (lift_opt MissingRow (row (db_attempts d1) i)) (\<lambda>a.
     and_then (lift_opt MissingRow (row (db_commands d1) cid)) (\<lambda>c.
       enqueue_control_plane_attempt_transition (we_event_ref env) a c t True d1)))"

definition enter_claimed_preflight ::
  "worker_env \<Rightarrow> int \<Rightarrow> string \<Rightarrow> instant \<Rightarrow> database \<Rightarrow> fault + database \<times> bool" where
  "enter_claimed_preflight env cid token t d =
     (case lock_claimed_context cid token d of
        None \<Rightarrow> Inr (d, False)
      | Some (i, a, ap) \<Rightarrow>
          (if \<not> draft_and_current d ap a \<or> at_stage a \<noteq> INSPECTING then Inr (d, False)
           else and_then (advance env i cid PREPARING t d) (\<lambda>d1.
                and_then (commit_db d1) (\<lambda>d'. Inr (d', True)))))"

definition plan_of_attempt :: "database \<Rightarrow> attempt \<Rightarrow> plan_row option" where
  "plan_of_attempt d a = Option.bind (at_form_plan_id a) (row (db_plans d))"

definition renew_claim :: "int \<Rightarrow> instant \<Rightarrow> database \<Rightarrow> database" where
  "renew_claim cid t d = set_command_opt (\<lambda>c. c\<lparr>cm_claimed_at := Some t\<rparr>) (Some cid) d"

datatype ready_result = RR_READY | RR_SUPERSEDED | RR_INVALID

text \<open>\<open>action.binds(...)\<close> on the stored plan and permit; a caught exception counts as not bound.\<close>

definition stored_binding ::
  "worker_env \<Rightarrow> int \<Rightarrow> plan_row \<Rightarrow> permit_row \<Rightarrow> prepared_action \<Rightarrow> instant \<Rightarrow> fault + bool" where
  "stored_binding env i p m act now =
     and_then (load_domain_plan (we_policy env) p) (\<lambda>dp.
     and_then (load_domain_permit i m) (\<lambda>dm.
       Inr (action_binds act dp dm (Aware now) = Some True)))"

fun caught :: "fault \<Rightarrow> bool" where
  "caught (PermitFault r) = True"
| "caught ValueFault = True"
| "caught TypeFault = True"
| "caught e = False"

definition mark_claimed_attempt_ready ::
  "worker_env \<Rightarrow> int \<Rightarrow> string \<Rightarrow> prepared_action \<Rightarrow> instant \<Rightarrow> database \<Rightarrow> fault + database \<times> ready_result"
  where
  "mark_claimed_attempt_ready env cid token act now d =
     (case lock_claimed_context cid token d of
        None \<Rightarrow> Inr (d, RR_SUPERSEDED)
      | Some (i, a, ap) \<Rightarrow>
          (if at_stage a \<noteq> PREPARING then Inr (d, RR_SUPERSEDED)
           else if \<not> draft_and_current d ap a then Inr (d, RR_INVALID)
           else case (plan_of_attempt d a, row (db_permits d) i) of
                  (Some p, Some m) \<Rightarrow>
                    (case stored_binding env i p m act now of
                       Inl e \<Rightarrow> if caught e then Inr (d, RR_INVALID) else Inl e
                     | Inr False \<Rightarrow> Inr (d, RR_INVALID)
                     | Inr True \<Rightarrow>
                         and_then (advance env i cid READY now d) (\<lambda>d1.
                         and_then (commit_db (renew_claim cid now d1)) (\<lambda>d'. Inr (d', RR_READY))))
                | _ \<Rightarrow> Inr (d, RR_INVALID)))"

section \<open>The commit boundary\<close>

definition permit_reason_map :: "string \<Rightarrow> reason_code" where
  "permit_reason_map r =
     (case map_of
        [(''SUBMIT_PERMIT_REQUIRED'', R_PERMIT_MISSING), (''SUBMIT_PERMIT_EXPIRED'', R_PERMIT_EXPIRED),
         (''SUBMIT_PERMIT_REPLAYED'', R_PERMIT_REPLAYED),
         (''JOB_URL_CHANGED'', R_PERMIT_BINDING_MISMATCH),
         (''APPLICATION_REVISION_CHANGED'', R_PERMIT_BINDING_MISMATCH),
         (''ADAPTER_VERSION_CHANGED'', R_PERMIT_BINDING_MISMATCH),
         (''SELECTOR_DRIFT'', R_SELECTOR_DRIFT), (''FORM_CHANGED'', R_FORM_CHANGED),
         (''ATTACHMENT_CHANGED'', R_ATTACHMENT_UNVERIFIED),
         (''ATTACHMENT_UNVERIFIED'', R_ATTACHMENT_UNVERIFIED),
         (''SUBMISSION_AUTHORITY_CHANGED'', R_PERMIT_BINDING_MISMATCH),
         (''AUTOMATION_POLICY_CHANGED'', R_PERMIT_BINDING_MISMATCH),
         (''PERMIT_BINDING_MISMATCH'', R_PERMIT_BINDING_MISMATCH),
         (''GOVERNOR_DENIED'', R_GOVERNOR_DENIED)] r of
        None \<Rightarrow> R_FORM_CHANGED | Some x \<Rightarrow> x)"

text \<open>\<open>_PERMIT_REASON_MAP.get(getattr(exc, "reason_code", "FORM_CHANGED"), FORM_CHANGED)\<close>.\<close>

fun fault_reason :: "fault \<Rightarrow> reason_code" where
  "fault_reason (PermitFault r) = permit_reason_map r"
| "fault_reason e = permit_reason_map ''FORM_CHANGED''"

text \<open>The reason of a denial; a fault other than the one the service raises passes through.\<close>

definition canary_denial :: "fault + canary_row \<Rightarrow> fault + reason_code option" where
  "canary_denial x =
     (case x of
        Inl (QualificationFault r) \<Rightarrow> Inr (Some R_PERMIT_BINDING_MISMATCH)
      | Inl e \<Rightarrow> Inl e
      | Inr c \<Rightarrow> Inr None)"

definition decision_denial :: "fault + auto_decision \<Rightarrow> fault + reason_code option" where
  "decision_denial x =
     (case x of
        Inl (PolicyFault r) \<Rightarrow>
          Inr (Some (if r \<in> {''KILL_SWITCH_ACTIVE'', ''OUTSIDE_ACTIVE_HOURS''} then R_GOVERNOR_DENIED
                     else R_PERMIT_BINDING_MISMATCH))
      | Inl e \<Rightarrow> Inl e
      | Inr c \<Rightarrow> Inr None)"

definition attempt_decision :: "attempt \<Rightarrow> database \<Rightarrow> (int \<times> decision_row) option" where
  "attempt_decision a d =
     Option.bind (at_policy_decision_id a) (\<lambda>k. map_option (Pair k) (row (am_decisions (db_automation d)) k))"

definition validate_attempt_automation_authority ::
  "worker_env \<Rightarrow> attempt \<Rightarrow> application \<Rightarrow> instant \<Rightarrow> database \<Rightarrow> fault + reason_code option" where
  "validate_attempt_automation_authority env a ap now d =
     (case at_authority_kind a of
        AK_QUALIFICATION_CANARY \<Rightarrow>
          (case (at_form_plan_id a, plan_of_attempt d a, at_canary_authorization_id a,
                 at_canary_authorization_digest a) of
             (Some pid, Some p, Some k, Some g) \<Rightarrow>
               (if job_url_of d ap = [] then Inr (Some R_PERMIT_BINDING_MISMATCH)
                else canary_denial (validate_qualification_canary_authorization
                       (pe_adapter (we_automation env)) k g (at_application_id a) ap pid p (job_url_of d ap)
                       (or_empty (at_runner_release a)) True now d))
           | _ \<Rightarrow> Inr (Some R_PERMIT_BINDING_MISMATCH))
      | AK_QUALIFIED_AUTOPILOT \<Rightarrow>
          (case attempt_decision a d of
             None \<Rightarrow> Inr (Some R_PERMIT_BINDING_MISMATCH)
           | Some (k, r) \<Rightarrow>
               (if at_policy_decision_digest a \<noteq> Some (dr_decision_digest r)
                then Inr (Some R_PERMIT_BINDING_MISMATCH)
                else decision_denial
                       (validate_current_automation_decision (we_automation env) (Some k) now d)))
      | _ \<Rightarrow> Inr None)"

definition policy_changed :: "fault + 'a \<Rightarrow> fault + 'a" where
  "policy_changed x =
     (case x of Inl (PolicyFault r) \<Rightarrow> Inl (PermitFault ''AUTOMATION_POLICY_CHANGED'') | _ \<Rightarrow> x)"

definition require_attempt_artifact_snapshot ::
  "worker_env \<Rightarrow> attempt \<Rightarrow> string option \<Rightarrow> database \<Rightarrow> fault + unit" where
  "require_attempt_artifact_snapshot env a snapshot d =
     (if at_authority_kind a \<noteq> AK_QUALIFIED_AUTOPILOT then Inr ()
      else case (attempt_decision a d, snapshot) of
             (Some (k, r), Some s) \<Rightarrow>
               and_then (policy_changed (verified_policy_for_decision (we_automation env) r d)) (\<lambda>p.
               and_then (compare_digest s (pe_snapshot_id (we_automation env) p)) (\<lambda>same.
                 ensure (same \<and> pe_snapshot_cv (we_automation env) p
                           (or_text (at_requested_cv_id a) (or_empty (at_selected_cv_id a)))
                           (or_empty (at_requested_cv_hash a)))
                   (PermitFault ''AUTOMATION_POLICY_CHANGED'')))
           | _ \<Rightarrow> Inl (PermitFault ''AUTOMATION_POLICY_CHANGED''))"

text \<open>
  The guarded block that the boundary runs before and after the governor: the reason of an automation
  denial, or the fault of a failed check.
\<close>

definition boundary_checks ::
  "worker_env \<Rightarrow> int \<Rightarrow> attempt \<Rightarrow> application \<Rightarrow> plan_row \<Rightarrow> permit_row \<Rightarrow> form_plan \<Rightarrow> domain_permit
     \<Rightarrow> string \<Rightarrow> prepared_action \<Rightarrow> string option \<Rightarrow> instant \<Rightarrow> database \<Rightarrow> fault + unit" where
  "boundary_checks env i a ap p m dp dm url_hash act snapshot t d =
     and_then (validate_attempt_automation_authority env a ap t d) (\<lambda>denial.
       case denial of
         Some r \<Rightarrow> Inl (PermitFault (reason_value r))
       | None \<Rightarrow>
           and_then (require_attempt_artifact_snapshot env a snapshot d) (\<lambda>_.
           and_then (validate_final_submit_permit (Some (i, m)) i a p url_hash t) (\<lambda>_.
           ensure (action_binds act dp dm (Aware t) = Some True) (PermitFault ''FORM_CHANGED''))))"

definition note_denial :: "int \<Rightarrow> fault \<Rightarrow> database \<Rightarrow> database" where
  "note_denial i e d =
     (if e = PermitFault (reason_value R_GOVERNOR_DENIED) then record_governor_denial i d else d)"

datatype boundary_result = BR_LOST | BR_REJECTED | BR_ENTERED

text \<open>Finish as failed before commit, keep the result and report the rejection.\<close>

definition reject_at_boundary ::
  "worker_env \<Rightarrow> int \<Rightarrow> int \<Rightarrow> reason_code \<Rightarrow> instant \<Rightarrow> database \<Rightarrow> fault + database \<times> boundary_result" where
  "reject_at_boundary env i cid reason t d =
     and_then (finish_and_commit env i cid (FailedBeforeCommitOutcome reason) t d) (\<lambda>(d', r).
       Inr (d', BR_REJECTED))"

definition crossed_attempt :: "instant \<Rightarrow> attempt \<Rightarrow> attempt" where
  "crossed_attempt t a = a\<lparr>at_final_action_at := Some t\<rparr>"

text \<open>The transaction that crosses: stage, mirror, final action time, spent permit, renewed claim.\<close>

definition cross_boundary ::
  "worker_env \<Rightarrow> int \<Rightarrow> int \<Rightarrow> permit_row \<Rightarrow> instant \<Rightarrow> database \<Rightarrow> fault + database" where
  "cross_boundary env i cid m t d =
     and_then (advance env i cid COMMITTING t d) (\<lambda>d1.
     and_then (lift_opt MissingRow (row (db_attempts d1) i)) (\<lambda>a1.
     and_then (consume_final_submit_permit m t) (\<lambda>m'.
       commit_db (renew_claim cid t (set_permit i m' (set_attempt i (crossed_attempt t a1) d1))))))"

definition boundary_open :: "database \<Rightarrow> application \<Rightarrow> attempt \<Rightarrow> bool" where
  "boundary_open d ap a \<longleftrightarrow>
     draft_and_current d ap a \<and> at_stage a = READY
     \<and> (case plan_of_attempt d a of None \<Rightarrow> False | Some p \<Rightarrow> pl_invalidated_at p = None)"

text \<open>
  Readings of the boundary: two clock values, two checks that the source is current, and the
  governor's answer (\<open>False\<close> also when it raises).
\<close>

record boundary_readings =
  br_validation_at :: instant
  br_commit_at :: instant
  br_source_before :: bool
  br_source_after :: bool
  br_gate :: bool

definition after_governor ::
  "worker_env \<Rightarrow> int \<Rightarrow> int \<Rightarrow> attempt \<Rightarrow> application \<Rightarrow> plan_row \<Rightarrow> permit_row \<Rightarrow> form_plan \<Rightarrow> domain_permit
     \<Rightarrow> string \<Rightarrow> prepared_action \<Rightarrow> string option \<Rightarrow> boundary_readings \<Rightarrow> database
     \<Rightarrow> fault + database \<times> boundary_result" where
  "after_governor env i cid a ap p m dp dm url_hash act snapshot br d =
     (let t = br_commit_at br in
      if \<not> br_source_after br then reject_at_boundary env i cid R_BUILD_MISMATCH t d
      else case boundary_checks env i a ap p m dp dm url_hash act snapshot t d of
             Inl e \<Rightarrow>
               (if caught e
                then reject_at_boundary env i cid (fault_reason e) t (note_denial i e d)
                else Inl e)
           | Inr u \<Rightarrow> and_then (cross_boundary env i cid m t d) (\<lambda>d'. Inr (d', BR_ENTERED)))"

definition enter_commit_boundary ::
  "worker_env \<Rightarrow> int \<Rightarrow> string \<Rightarrow> string \<Rightarrow> prepared_action \<Rightarrow> string option \<Rightarrow> boundary_readings \<Rightarrow> database
     \<Rightarrow> fault + database \<times> boundary_result" where
  "enter_commit_boundary env cid token url_hash act snapshot br d =
     (case lock_claimed_context cid token d of
        None \<Rightarrow> Inr (d, BR_LOST)
      | Some (i, a, ap) \<Rightarrow>
          (let t = br_validation_at br in
           if \<not> br_source_before br then reject_at_boundary env i cid R_BUILD_MISMATCH t d
           else if \<not> boundary_open d ap a then Inr (d, BR_LOST)
           else case (plan_of_attempt d a, row (db_permits d) i) of
                  (Some p, Some m) \<Rightarrow>
                    (case and_then (load_domain_plan (we_policy env) p) (\<lambda>dp.
                          and_then (load_domain_permit i m) (\<lambda>dm.
                          and_then (boundary_checks env i a ap p m dp dm url_hash act snapshot t d)
                            (\<lambda>_. Inr (dp, dm)))) of
                       Inl e \<Rightarrow>
                         (if caught e
                          then reject_at_boundary env i cid (fault_reason e) t (note_denial i e d)
                          else Inl e)
                     | Inr (dp, dm) \<Rightarrow>
                         (if \<not> br_gate br
                          then reject_at_boundary env i cid R_GOVERNOR_DENIED t (record_governor_denial i d)
                          else after_governor env i cid a ap p m dp dm url_hash act snapshot br d))
                | _ \<Rightarrow> Inr (d, BR_LOST)))"

section \<open>The irreversible action\<close>

text \<open>
  After the boundary the worker takes the row locks again, checks that the attempt is committing and
  its permit spent, and then calls the adapter once. \<open>reply\<close> is what the adapter returned, \<open>None\<close> when
  it raised. The result says whether the adapter was called, and the database if the final commit
  succeeded.
\<close>

definition commit_ready :: "database \<Rightarrow> int \<Rightarrow> attempt \<Rightarrow> bool" where
  "commit_ready d i a \<longleftrightarrow>
     at_stage a = COMMITTING \<and> at_final_action_at a \<noteq> None \<and> permit_used i d"

definition settle_outcome ::
  "int \<Rightarrow> attempt \<Rightarrow> adapter_value option \<Rightarrow> instant \<Rightarrow> commit_outcome" where
  "settle_outcome i a reply finished_at =
     (case Option.bind reply parse_commit_outcome of
        None \<Rightarrow> UnknownOutcome R_INTERNAL_ERROR
      | Some (ConfirmedSubmittedOutcome e) \<Rightarrow>
          (if confirmed_evidence_is_valid i a e finished_at then ConfirmedSubmittedOutcome e
           else UnknownOutcome R_EVIDENCE_INVALID)
      | Some (UnknownOutcome r) \<Rightarrow> UnknownOutcome r
      | Some oc \<Rightarrow> UnknownOutcome R_FINAL_ACTION_UNCONFIRMED)"

text \<open>
  A confirmed canary is promoted to a live qualification in a savepoint; a failure there is logged and
  never undoes the confirmed outcome.
\<close>

definition promote_canary :: "worker_env \<Rightarrow> int \<Rightarrow> instant \<Rightarrow> database \<Rightarrow> database" where
  "promote_canary env i t d =
     (case row (db_attempts d) i of
        None \<Rightarrow> d
      | Some a \<Rightarrow>
          (if at_authority_kind a \<noteq> AK_QUALIFICATION_CANARY then d
           else case (at_form_plan_id a, plan_of_attempt d a) of
                  (Some pid, Some p) \<Rightarrow>
                    (case record_live_canary_confirmation (pe_adapter (we_automation env)) i a pid p
                            (or_empty (at_evidence_digest a)) (or_empty (at_runner_release a)) t d of
                       Inl e \<Rightarrow> d
                     | Inr (d', k) \<Rightarrow> d')
                | _ \<Rightarrow> d))"

definition settle_attempt ::
  "worker_env \<Rightarrow> int \<Rightarrow> int \<Rightarrow> commit_outcome \<Rightarrow> instant \<Rightarrow> database \<Rightarrow> fault + database \<times> exec_result" where
  "settle_attempt env i cid oc t d =
     and_then (case oc of ConfirmedSubmittedOutcome e \<Rightarrow> advance env i cid VERIFYING t d | _ \<Rightarrow> Inr d) (\<lambda>d1.
     and_then (finish_attempt env i cid oc t d1) (\<lambda>d2.
     and_then (commit_db (case oc of ConfirmedSubmittedOutcome e \<Rightarrow> promote_canary env i t d2 | _ \<Rightarrow> d2))
       (\<lambda>d'. Inr (d', Done (outcome_kind oc)))))"

definition perform_commit ::
  "worker_env \<Rightarrow> int \<Rightarrow> string \<Rightarrow> form_plan \<Rightarrow> domain_permit \<Rightarrow> prepared_action \<Rightarrow> instant
     \<Rightarrow> adapter_value option \<Rightarrow> instant \<Rightarrow> database \<Rightarrow> bool \<times> (fault + database \<times> exec_result)" where
  "perform_commit env cid token dp dm act started_at reply finished_at d =
     (case lock_claimed_context cid token d of
        None \<Rightarrow> (False, Inr (d, Superseded))
      | Some (i, a, ap) \<Rightarrow>
          (if \<not> commit_ready d i a then (False, Inr (d, Superseded))
           else if action_binds act dp dm (Aware started_at) \<noteq> Some True
           then (False, finish_and_commit env i cid (UnknownOutcome R_FINAL_ACTION_UNCONFIRMED)
                          started_at d)
           else (True, settle_attempt env i cid (settle_outcome i a reply finished_at) finished_at d)))"

section \<open>Recovery of stale claims\<close>

definition requeued_attempt :: "attempt \<Rightarrow> attempt" where
  "requeued_attempt a =
     a\<lparr>at_stage := QUEUED, at_outcome := None, at_status := SS_PENDING, at_started_at := None\<rparr>"

definition requeued_command :: "command_row \<Rightarrow> command_row" where
  "requeued_command c =
     c\<lparr>cm_state := CS_PENDING, cm_claimed_at := None, cm_claimed_by := None, cm_claim_token := None,
       cm_last_error_code := Some ''SAFE_PRECOMMIT_REDELIVERY''\<rparr>"

definition stale_command :: "instant \<Rightarrow> command_row \<Rightarrow> bool" where
  "stale_command cutoff c \<longleftrightarrow>
     cm_state c = CS_CLAIMED \<and> (case cm_claimed_at c of None \<Rightarrow> False | Some t \<Rightarrow> t < cutoff)"

definition requeue_rows ::
  "worker_env \<Rightarrow> int \<Rightarrow> attempt \<Rightarrow> int \<Rightarrow> command_row \<Rightarrow> instant \<Rightarrow> database \<Rightarrow> fault + database" where
  "requeue_rows env i a cid c now d =
     enqueue_control_plane_attempt_transition (we_event_ref env) (requeued_attempt a) (requeued_command c)
       now True
       (record_attempt_stage i QUEUED (TK_REDELIVERY cid now)
          (set_attempt i (requeued_attempt a) (set_command cid (requeued_command c) d)))"

text \<open>One turn of the loop of \<open>reconcile_stale_submission_commands\<close>, and whether it acted.\<close>

definition reconcile_one ::
  "worker_env \<Rightarrow> (int \<Rightarrow> bool) \<Rightarrow> instant \<Rightarrow> instant \<Rightarrow> int \<Rightarrow> database \<Rightarrow> fault + database \<times> bool" where
  "reconcile_one env locked cutoff now cid d =
     (case row (db_commands d) cid of
        None \<Rightarrow> Inr (d, False)
      | Some c \<Rightarrow>
          (if \<not> stale_command cutoff c then Inr (d, False)
           else case row (db_attempts d) (cm_attempt_id c) of
                  None \<Rightarrow> Inl MissingRow
                | Some a \<Rightarrow>
                    (if locked (at_application_id a) then Inr (d, False)
                     else if crossed (at_stage a) \<or> permit_used (cm_attempt_id c) d
                     then and_then (finish_attempt env (cm_attempt_id c) cid
                            (UnknownOutcome R_STALE_INDETERMINATE) now d) (\<lambda>d'. Inr (d', True))
                     else and_then (requeue_rows env (cm_attempt_id c) a cid c now d)
                            (\<lambda>d'. Inr (d', True)))))"

fun reconcile_all ::
  "worker_env \<Rightarrow> (int \<Rightarrow> bool) \<Rightarrow> instant \<Rightarrow> instant \<Rightarrow> int list \<Rightarrow> database \<Rightarrow> fault + database \<times> nat" where
  "reconcile_all env locked cutoff now [] d = Inr (d, 0)"
| "reconcile_all env locked cutoff now (cid # cids) d =
     and_then (reconcile_one env locked cutoff now cid d) (\<lambda>(d1, b).
     and_then (reconcile_all env locked cutoff now cids d1) (\<lambda>(d2, n).
       Inr (d2, if b then Suc n else n)))"

definition stale_candidates :: "instant \<Rightarrow> database \<Rightarrow> int list" where
  "stale_candidates cutoff d =
     map fst (sort_key (\<lambda>(k, c). (the (cm_claimed_at c), k))
       (filter (\<lambda>(k, c). stale_command cutoff c \<and> row (db_attempts d) (cm_attempt_id c) \<noteq> None)
          (db_commands d)))"

definition reconcile_stale_submission_commands ::
  "worker_env \<Rightarrow> (int \<Rightarrow> bool) \<Rightarrow> int \<Rightarrow> instant \<Rightarrow> database \<Rightarrow> fault + database \<times> nat" where
  "reconcile_stale_submission_commands env locked ttl now d =
     (let cutoff = now - seconds (max 1 ttl) in
      and_then (reconcile_all env locked cutoff now (stale_candidates cutoff d) d) (\<lambda>(d1, n).
      and_then (commit_db d1) (\<lambda>d'. Inr (d', n))))"

section \<open>One execution\<close>

text \<open>
  Everything one execution reads from outside the database: clock values, the live-mode switches,
  whether an executor was resolved and takes a context, the resolved CV artifact (\<open>None\<close> when
  resolving raises, otherwise the snapshot it came from), the event loop, the replies of the adapter
  (\<open>None\<close> when it raised), and the readings of the boundary.
\<close>

record exec_inputs =
  xi_started_at :: instant
  xi_live :: bool
  xi_executor :: bool
  xi_takes_context :: bool
  xi_artifact :: "string option option"
  xi_artifact_at :: instant
  xi_preparing_at :: instant
  xi_loop_opened :: bool
  xi_loop_at :: instant
  xi_preflight :: "adapter_value option"
  xi_preflight_at :: instant
  xi_ready_at :: instant
  xi_invalid_at :: instant
  xi_boundary :: boundary_readings
  xi_click_at :: instant
  xi_reply :: "adapter_value option"
  xi_settled_at :: instant

record exec_context =
  ec_command :: int
  ec_token :: string
  ec_plan :: form_plan
  ec_permit :: domain_permit
  ec_url_hash :: string
  ec_snapshot :: "string option"

text \<open>\<open>domain_permit.binds(domain_plan)\<close> after the permit has been validated against the rows.\<close>

definition admit_execution ::
  "worker_env \<Rightarrow> int \<Rightarrow> attempt \<Rightarrow> application \<Rightarrow> plan_row \<Rightarrow> permit_row \<Rightarrow> instant \<Rightarrow> database
     \<Rightarrow> fault + form_plan \<times> domain_permit \<times> string" where
  "admit_execution env i a ap p m t d =
     and_then (lift_opt ValueFault (we_url_hash env (job_url_of d ap))) (\<lambda>h.
     and_then (validate_final_submit_permit (Some (i, m)) i a p h t) (\<lambda>_.
     and_then (load_domain_plan (we_policy env) p) (\<lambda>dp.
     and_then (load_domain_permit i m) (\<lambda>dm.
     and_then (ensure (permit_binds dm dp) (PermitFault ''FORM_CHANGED'')) (\<lambda>_.
       Inr (dp, dm, h))))))"

text \<open>The selected CV that an executor with a context receives; \<open>None\<close> is the caught exception.\<close>

definition resolve_cv :: "exec_inputs \<Rightarrow> application \<Rightarrow> form_plan \<Rightarrow> string option option" where
  "resolve_cv xi ap dp =
     (if \<not> xi_takes_context xi then Some None
      else let cv = strip (or_empty (ap_selected_cv_id ap)) in
        if cv = [] \<or> cv \<noteq> fp_selected_cv_id dp then None else xi_artifact xi)"

text \<open>The checks of \<open>execute_claimed_submission_command\<close> before it enters preflight.\<close>

definition begin_execution ::
  "worker_env \<Rightarrow> exec_inputs \<Rightarrow> int \<Rightarrow> database \<Rightarrow> fault + database \<times> (exec_result + exec_context)" where
  "begin_execution env xi cid d =
     (let t = xi_started_at xi;
          stop = (\<lambda>token reason at_time.
            and_then (finish_claimed_before_commit env cid token reason at_time d)
              (\<lambda>(d', r). Inr (d', Inl r)))
      in case row (db_commands d) cid of
           None \<Rightarrow> Inr (d, Inl Skipped)
         | Some c \<Rightarrow>
             (let token = or_empty (cm_claim_token c); i = cm_attempt_id c in
              if cm_state c \<noteq> CS_CLAIMED \<or> token = [] then Inr (d, Inl Skipped)
              else case row (db_attempts d) i of
                None \<Rightarrow> Inl MissingRow
              | Some a \<Rightarrow>
              (case row (db_applications d) (at_application_id a) of
                None \<Rightarrow> Inl MissingRow
              | Some ap \<Rightarrow>
                (if \<not> xi_live xi then stop token R_RUNTIME_NOT_READY t
                 else case (plan_of_attempt d a, row (db_permits d) i, row (db_jobs d) (ap_job_id ap)) of
                   (Some p, Some m, Some j) \<Rightarrow>
                     (if \<not> draft_and_current d ap a then stop token R_FORM_CHANGED t
                      else case admit_execution env i a ap p m t d of
                        Inl e \<Rightarrow> if caught e then stop token (fault_reason e) t else Inl e
                      | Inr (dp, dm, h) \<Rightarrow>
                          (if \<not> xi_executor xi then stop token R_ADAPTER_NOT_QUALIFIED t
                           else case resolve_cv xi ap dp of
                             None \<Rightarrow> stop token R_ATTACHMENT_UNVERIFIED (xi_artifact_at xi)
                           | Some snap \<Rightarrow>
                               Inr (d, Inr \<lparr>ec_command = cid, ec_token = token, ec_plan = dp,
                                            ec_permit = dm, ec_url_hash = h, ec_snapshot = snap\<rparr>)))
                 | _ \<Rightarrow> stop token R_PERMIT_MISSING t))))"

text \<open>What follows the adapter's preflight reply: a finished attempt, or one that is ready.\<close>

definition settle_preflight :: "adapter_value option \<Rightarrow> preflight_outcome" where
  "settle_preflight reply =
     (case Option.bind reply parse_preflight_outcome of
        None \<Rightarrow> PreflightFinished (FailedBeforeCommitOutcome R_INTERNAL_ERROR)
      | Some oc \<Rightarrow> oc)"

definition after_preflight ::
  "worker_env \<Rightarrow> exec_context \<Rightarrow> adapter_value option \<Rightarrow> instant \<Rightarrow> instant \<Rightarrow> instant \<Rightarrow> database
     \<Rightarrow> fault + database \<times> (exec_result + prepared_action)" where
  "after_preflight env ec reply finish_at ready_at invalid_at d =
     (case settle_preflight reply of
        PreflightFinished oc \<Rightarrow>
          (case lock_claimed_context (ec_command ec) (ec_token ec) d of
             None \<Rightarrow> Inr (d, Inl Superseded)
           | Some (i, a, ap) \<Rightarrow>
               and_then (finish_and_commit env i (ec_command ec) oc finish_at d)
                 (\<lambda>(d', r). Inr (d', Inl r)))
      | PreparedFinalAction act \<Rightarrow>
          and_then (mark_claimed_attempt_ready env (ec_command ec) (ec_token ec) act ready_at d)
            (\<lambda>(d', r). case r of
               RR_READY \<Rightarrow> Inr (d', Inr act)
             | RR_SUPERSEDED \<Rightarrow> Inr (d', Inl Superseded)
             | RR_INVALID \<Rightarrow>
                 and_then (finish_claimed_before_commit env (ec_command ec) (ec_token ec)
                    R_FORM_CHANGED invalid_at d') (\<lambda>(d2, r2). Inr (d2, Inl r2))))"

text \<open>
  \<open>execute_claimed_submission_command\<close> run without interleaving: whether the adapter's commit was
  called, and the result. The steps are the transactions above.
\<close>

definition execute_from_ready ::
  "worker_env \<Rightarrow> exec_inputs \<Rightarrow> exec_context \<Rightarrow> prepared_action \<Rightarrow> database
     \<Rightarrow> bool \<times> (fault + database \<times> exec_result)" where
  "execute_from_ready env xi ec act d =
     (case enter_commit_boundary env (ec_command ec) (ec_token ec) (ec_url_hash ec) act
             (ec_snapshot ec) (xi_boundary xi) d of
        Inl e \<Rightarrow> (False, Inl e)
      | Inr (d', BR_LOST) \<Rightarrow> (False, Inr (d', Superseded))
      | Inr (d', BR_REJECTED) \<Rightarrow> (False, Inr (d', Done FAILED_BEFORE_COMMIT))
      | Inr (d', BR_ENTERED) \<Rightarrow>
          perform_commit env (ec_command ec) (ec_token ec) (ec_plan ec) (ec_permit ec) act
            (xi_click_at xi) (xi_reply xi) (xi_settled_at xi) d')"

definition execute_from_preflight ::
  "worker_env \<Rightarrow> exec_inputs \<Rightarrow> exec_context \<Rightarrow> database \<Rightarrow> bool \<times> (fault + database \<times> exec_result)" where
  "execute_from_preflight env xi ec d =
     (if \<not> xi_loop_opened xi
      then (False, finish_claimed_before_commit env (ec_command ec) (ec_token ec) R_INTERNAL_ERROR
                     (xi_loop_at xi) d)
      else case after_preflight env ec (xi_preflight xi) (xi_preflight_at xi) (xi_ready_at xi)
                  (xi_invalid_at xi) d of
             Inl e \<Rightarrow> (False, Inl e)
           | Inr (d', Inl r) \<Rightarrow> (False, Inr (d', r))
           | Inr (d', Inr act) \<Rightarrow> execute_from_ready env xi ec act d')"

definition execute_claimed_submission_command ::
  "worker_env \<Rightarrow> exec_inputs \<Rightarrow> int \<Rightarrow> database \<Rightarrow> bool \<times> (fault + database \<times> exec_result)" where
  "execute_claimed_submission_command env xi cid d =
     (case begin_execution env xi cid d of
        Inl e \<Rightarrow> (False, Inl e)
      | Inr (d1, Inl r) \<Rightarrow> (False, Inr (d1, r))
      | Inr (d1, Inr ec) \<Rightarrow>
          (case enter_claimed_preflight env cid (ec_token ec) (xi_preparing_at xi) d1 of
             Inl e \<Rightarrow> (False, Inl e)
           | Inr (d2, False) \<Rightarrow> (False, Inr (d2, Superseded))
           | Inr (d2, True) \<Rightarrow> execute_from_preflight env xi ec d2))"

section \<open>A concrete run\<close>

definition sample_env :: worker_env where
  "sample_env =
     \<lparr>we_policy = sample_policy, we_event_ref = (\<lambda>r n. r), we_release = ''r1'',
      we_url_hash = (\<lambda>u. Some sample_hash), we_automation = sample_policy_env\<rparr>"

definition sample_evidence :: submission_evidence where
  "sample_evidence =
     \<lparr>ev_attempt_id = 5, ev_type = API_RECEIPT, ev_employer_application_id = None,
      ev_api_receipt_id = Some ''R-1'', ev_candidate_portal_reference = None,
      ev_form_fingerprint = sample_hash, ev_attached_cv_hash = sample_hash,
      ev_observed_at = Aware 36, ev_digest = sample_hash\<rparr>"

definition sample_inputs :: exec_inputs where
  "sample_inputs =
     \<lparr>xi_started_at = 25, xi_live = True, xi_executor = True, xi_takes_context = True,
      xi_artifact = Some None, xi_artifact_at = 26, xi_preparing_at = 27, xi_loop_opened = True,
      xi_loop_at = 28, xi_preflight = Some (V_PREPARED sample_action), xi_preflight_at = 29,
      xi_ready_at = 30, xi_invalid_at = 31,
      xi_boundary = \<lparr>br_validation_at = 32, br_commit_at = 33, br_source_before = True,
                     br_source_after = True, br_gate = True\<rparr>,
      xi_click_at = 34, xi_reply = Some (V_CONFIRMED sample_evidence), xi_settled_at = 37\<rparr>"

definition sample_start :: database where
  "sample_start = sample_db\<lparr>db_permits := [(5, sample_issued\<lparr>pm_nonce_hash := sample_hash\<rparr>)]\<rparr>"

end
