(* ===== verification/Attempt_Lives.thy ===== *)
theory Attempt_Lives
  imports Submission_Commands
begin

text \<open>
  The abstract lifecycle of attempts and the proof that the worker implements it. \<open>lives\<close> reads from
  the database what matters of each attempt: its application, stage and outcome, whether its permit is
  spent and whether its command is claimed. \<open>life_step\<close> is the specification, with one rule per
  transaction the system may commit, and the lemmas show that each handler is such a step.
\<close>

section \<open>The specification\<close>

record life =
  lf_application :: int
  lf_stage :: attempt_stage
  lf_outcome :: "attempt_outcome option"
  lf_used :: bool
  lf_claimed :: bool

type_synonym lives = "int \<Rightarrow> life option"

definition alive :: "life \<Rightarrow> bool" where
  "alive x \<longleftrightarrow> lf_stage x \<noteq> FINISHED \<or> (lf_used x \<and> lf_outcome x \<noteq> Some FAILED_BEFORE_COMMIT)"

definition admissible :: "int \<Rightarrow> lives \<Rightarrow> bool" where
  "admissible app v \<longleftrightarrow>
     (\<forall>j x. v j = Some x \<and> lf_application x = app \<longrightarrow>
        lf_stage x = FINISHED \<and> lf_outcome x \<notin> Some ` set immutable_outcomes)"

inductive life_step :: "lives \<Rightarrow> lives \<Rightarrow> bool" where
  ls_admit: "v i = None \<Longrightarrow> admissible app v \<Longrightarrow>
     life_step v (v(i \<mapsto> \<lparr>lf_application = app, lf_stage = QUEUED, lf_outcome = None, lf_used = False,
                        lf_claimed = False\<rparr>))"
| ls_claim: "v i = Some x \<Longrightarrow> lf_stage x = QUEUED \<Longrightarrow>
     life_step v (v(i \<mapsto> x\<lparr>lf_stage := INSPECTING, lf_outcome := None, lf_claimed := True\<rparr>))"
| ls_advance: "v i = Some x \<Longrightarrow> can_transition (lf_stage x) t None \<Longrightarrow> t \<noteq> COMMITTING \<Longrightarrow>
     lf_stage x \<noteq> QUEUED \<Longrightarrow>
     life_step v (v(i \<mapsto> x\<lparr>lf_stage := t, lf_outcome := None\<rparr>))"
| ls_cross: "v i = Some x \<Longrightarrow> lf_stage x = READY \<Longrightarrow> \<not> lf_used x \<Longrightarrow>
     life_step v (v(i \<mapsto> x\<lparr>lf_stage := COMMITTING, lf_outcome := None, lf_used := True\<rparr>))"
| ls_finish: "v i = Some x \<Longrightarrow> can_transition (lf_stage x) FINISHED (Some (Plain k)) \<Longrightarrow>
     life_step v (v(i \<mapsto> x\<lparr>lf_stage := FINISHED, lf_outcome := Some k, lf_claimed := False\<rparr>))"
| ls_requeue: "v i = Some x \<Longrightarrow> lf_claimed x \<Longrightarrow> \<not> lf_used x \<Longrightarrow> \<not> crossed (lf_stage x) \<Longrightarrow>
     life_step v (v(i \<mapsto> x\<lparr>lf_stage := QUEUED, lf_outcome := None, lf_claimed := False\<rparr>))"
| ls_operator: "v i = Some x \<Longrightarrow> lf_stage x = FINISHED \<Longrightarrow> lf_outcome x = Some UNKNOWN \<Longrightarrow>
     k = OPERATOR_CONFIRMED \<or> k = FAILED_BEFORE_COMMIT \<Longrightarrow>
     life_step v (v(i \<mapsto> x\<lparr>lf_outcome := Some k\<rparr>))"

inductive_cases life_stepE: "life_step v v'"

section \<open>Its invariant\<close>

definition life_ok :: "life \<Rightarrow> bool" where
  "life_ok x \<longleftrightarrow>
     (lf_stage x \<noteq> FINISHED \<longrightarrow> (lf_used x \<longleftrightarrow> crossed (lf_stage x)) \<and> lf_outcome x = None)
     \<and> (lf_stage x = FINISHED \<and> \<not> lf_used x \<longrightarrow>
          lf_outcome x \<in> Some ` {ALREADY_APPLIED, NEEDS_REVIEW, FAILED_BEFORE_COMMIT, DRAFT_ONLY})
     \<and> (lf_stage x = FINISHED \<and> lf_used x \<longrightarrow>
          lf_outcome x \<in> Some ` {CONFIRMED_SUBMITTED, UNKNOWN, OPERATOR_CONFIRMED, FAILED_BEFORE_COMMIT})
     \<and> (lf_claimed x \<longrightarrow> lf_stage x \<noteq> QUEUED \<and> lf_stage x \<noteq> FINISHED)"

definition lives_ok :: "lives \<Rightarrow> bool" where
  "lives_ok v \<longleftrightarrow>
     (\<forall>i x. v i = Some x \<longrightarrow> life_ok x)
     \<and> (\<forall>i j x y. v i = Some x \<and> v j = Some y \<and> i \<noteq> j \<and> lf_application x = lf_application y \<longrightarrow>
          \<not> (alive x \<and> alive y))"

lemma lives_okD: "lives_ok v \<Longrightarrow> v i = Some x \<Longrightarrow> life_ok x"
  by (simp add: lives_ok_def)

lemma one_alive:
  "lives_ok v \<Longrightarrow> v i = Some x \<Longrightarrow> v j = Some y \<Longrightarrow> lf_application x = lf_application y \<Longrightarrow>
     alive x \<Longrightarrow> alive y \<Longrightarrow> i = j"
  unfolding lives_ok_def by blast

text \<open>A change of one attempt keeps the invariant if the new life is fine and no more alive.\<close>

lemma lives_ok_update:
  assumes "lives_ok v" and "v i = Some x" and "life_ok y" and "lf_application y = lf_application x"
    and "alive y \<Longrightarrow> alive x"
  shows "lives_ok (v(i \<mapsto> y))"
  using assms by (auto simp: lives_ok_def)

lemma life_ok_dead:
  "life_ok x \<Longrightarrow> lf_stage x = FINISHED \<Longrightarrow> lf_outcome x \<notin> Some ` set immutable_outcomes \<Longrightarrow> \<not> alive x"
  by (auto simp: life_ok_def alive_def immutable_outcomes_def)

lemma life_ok_advance:
  assumes "life_ok x" and "can_transition (lf_stage x) t None" and "t \<noteq> COMMITTING" and "lf_stage x \<noteq> QUEUED"
  shows "life_ok (x\<lparr>lf_stage := t, lf_outcome := None\<rparr>)"
  using assms
  by (cases "lf_stage x"; cases t)
     (auto simp: life_ok_def can_transition_def crossed_def split: if_splits)

lemma life_ok_finish:
  assumes "life_ok x" and "can_transition (lf_stage x) FINISHED (Some (Plain k))"
  shows "life_ok (x\<lparr>lf_stage := FINISHED, lf_outcome := Some k, lf_claimed := False\<rparr>)"
  using assms
  by (cases "lf_stage x") (auto simp: life_ok_def stage_simps crossed_def)

lemma can_transition_unfinished_source: "can_transition s t oc \<Longrightarrow> s \<noteq> FINISHED"
  by (auto simp: can_transition_def)

lemma life_step_ok:
  assumes "lives_ok v" and "life_step v v'"
  shows "lives_ok v'"
  using assms(2)
proof cases
  case (ls_admit i app)
  let ?n = "\<lparr>lf_application = app, lf_stage = QUEUED, lf_outcome = None, lf_used = False, lf_claimed = False\<rparr>"
  have "\<not> alive x" if "v j = Some x" "lf_application x = app" for j x
    using life_ok_dead[OF lives_okD[OF assms(1) that(1)]] ls_admit(3) that by (auto simp: admissible_def)
  moreover have "life_ok ?n" by (simp add: life_ok_def crossed_def)
  ultimately show ?thesis using assms(1) unfolding ls_admit(1) by (auto simp: lives_ok_def)
next
  case (ls_claim i x)
  then show ?thesis using lives_okD[OF assms(1) ls_claim(2)] unfolding ls_claim(1)
    by (intro lives_ok_update[OF assms(1) ls_claim(2)]) (auto simp: life_ok_def alive_def crossed_def)
next
  case (ls_advance i x t)
  then show ?thesis using life_ok_advance[OF lives_okD[OF assms(1) ls_advance(2)] ls_advance(3-5)]
    unfolding ls_advance(1)
    by (intro lives_ok_update[OF assms(1) ls_advance(2)])
       (auto simp: alive_def dest: can_transition_unfinished_source)
next
  case (ls_cross i x)
  then show ?thesis using lives_okD[OF assms(1) ls_cross(2)] unfolding ls_cross(1)
    by (intro lives_ok_update[OF assms(1) ls_cross(2)]) (auto simp: life_ok_def alive_def crossed_def)
next
  case (ls_finish i x k)
  then show ?thesis using life_ok_finish[OF lives_okD[OF assms(1) ls_finish(2)] ls_finish(3)]
    unfolding ls_finish(1)
    by (intro lives_ok_update[OF assms(1) ls_finish(2)])
       (auto simp: alive_def dest: can_transition_unfinished_source)
next
  case (ls_requeue i x)
  then show ?thesis using lives_okD[OF assms(1) ls_requeue(2)] unfolding ls_requeue(1)
    by (intro lives_ok_update[OF assms(1) ls_requeue(2)]) (auto simp: life_ok_def alive_def crossed_def)
next
  case (ls_operator i x k)
  then show ?thesis using lives_okD[OF assms(1) ls_operator(2)] unfolding ls_operator(1)
    by (intro lives_ok_update[OF assms(1) ls_operator(2)]) (auto simp: life_ok_def alive_def)
qed

interpretation life: invariant_system "\<lambda>v. v = Map.empty" life_step lives_ok
  by unfold_locales (simp_all add: life_step_ok, simp add: lives_ok_def)

section \<open>Lives of a database\<close>

definition claimed_in :: "database \<Rightarrow> int \<Rightarrow> bool" where
  "claimed_in d i \<longleftrightarrow>
     (\<exists>k c. row (db_commands d) k = Some c \<and> cm_attempt_id c = i \<and> cm_state c = CS_CLAIMED)"

definition lives_of :: "database \<Rightarrow> lives" where
  "lives_of d i =
     map_option (\<lambda>a. \<lparr>lf_application = at_application_id a, lf_stage = at_stage a,
                       lf_outcome = at_outcome a, lf_used = permit_used i d,
                       lf_claimed = claimed_in d i\<rparr>) (row (db_attempts d) i)"

definition cmds_unique :: "database \<Rightarrow> bool" where
  "cmds_unique d \<longleftrightarrow>
     (\<forall>k k' c c'. row (db_commands d) k = Some c \<and> row (db_commands d) k' = Some c'
        \<and> cm_attempt_id c = cm_attempt_id c' \<longrightarrow> k = k')"

definition cmds_stable :: "database \<Rightarrow> database \<Rightarrow> bool" where
  "cmds_stable d d' \<longleftrightarrow>
     (\<forall>k c. row (db_commands d) k = Some c \<longrightarrow>
        (\<exists>c'. row (db_commands d') k = Some c' \<and> cm_attempt_id c' = cm_attempt_id c))"

lemma valid_cmds_unique: "db_valid d \<Longrightarrow> cmds_unique d"
  by (auto simp: cmds_unique_def intro: one_command_per_attempt)

lemma cmds_stable_refl [simp]: "cmds_stable d d"
  by (simp add: cmds_stable_def)

lemma cmds_stable_trans: "cmds_stable d e \<Longrightarrow> cmds_stable e f \<Longrightarrow> cmds_stable d f"
  by (fastforce simp: cmds_stable_def)

text \<open>Databases with the same attempts, permits and commands have the same lives.\<close>

definition same_core :: "database \<Rightarrow> database \<Rightarrow> bool" where
  "same_core d e \<longleftrightarrow>
     db_attempts e = db_attempts d \<and> db_permits e = db_permits d \<and> db_commands e = db_commands d"

lemma same_core_lives: "same_core d e \<Longrightarrow> lives_of e = lives_of d"
  by (auto simp: same_core_def lives_of_def permit_used_def claimed_in_def)

lemma same_core_unique: "same_core d e \<Longrightarrow> cmds_unique e = cmds_unique d"
  by (simp add: same_core_def cmds_unique_def)

lemma same_core_stable: "same_core d e \<Longrightarrow> cmds_stable d e"
  by (simp add: same_core_def cmds_stable_def)

text \<open>
  An unfinished attempt never has the status of an unknown one; this is what keeps it out of reach of
  the operator's reconciliation.
\<close>

definition calm :: "attempt \<Rightarrow> bool" where
  "calm a \<longleftrightarrow> (at_stage a \<noteq> FINISHED \<longrightarrow> at_status a \<noteq> SS_UNKNOWN)"

definition all_calm :: "database \<Rightarrow> bool" where
  "all_calm d \<longleftrightarrow> (\<forall>i a. row (db_attempts d) i = Some a \<longrightarrow> calm a)"

lemma same_core_calm: "same_core d e \<Longrightarrow> all_calm e = all_calm d"
  by (simp add: same_core_def all_calm_def)

text \<open>
  The footprint of a handler: attempt \<open>i\<close> with its command \<open>cid\<close> and perhaps its permit, and nothing
  else.
\<close>

definition touches ::
  "int \<Rightarrow> int \<Rightarrow> attempt \<Rightarrow> command_row \<Rightarrow> bool \<Rightarrow> database \<Rightarrow> database \<Rightarrow> bool" where
  "touches i cid a' c' used d d' \<longleftrightarrow>
     (\<exists>a c. row (db_attempts d) i = Some a \<and> row (db_commands d) cid = Some c
        \<and> cm_attempt_id c = i \<and> cm_attempt_id c' = i \<and> at_application_id a' = at_application_id a
        \<and> (calm a \<longrightarrow> calm a'))
     \<and> (\<forall>j. row (db_attempts d') j = (if j = i then Some a' else row (db_attempts d) j))
     \<and> (\<forall>k. row (db_commands d') k = (if k = cid then Some c' else row (db_commands d) k))
     \<and> (\<forall>j. permit_used j d' = (if j = i then used else permit_used j d))"

lemma touchesI:
  assumes "row (db_attempts d) i = Some a" and "row (db_commands d) cid = Some c"
    and "cm_attempt_id c = i" and "cm_attempt_id c' = i" and "at_application_id a' = at_application_id a"
    and "calm a \<Longrightarrow> calm a'"
    and "\<And>j. row (db_attempts d') j = (if j = i then Some a' else row (db_attempts d) j)"
    and "\<And>k. row (db_commands d') k = (if k = cid then Some c' else row (db_commands d) k)"
    and "\<And>j. permit_used j d' = (if j = i then used else permit_used j d)"
  shows "touches i cid a' c' used d d'"
  unfolding touches_def using assms by blast

lemma touches_calm: "touches i cid a' c' used d d' \<Longrightarrow> all_calm d \<Longrightarrow> all_calm d'"
  by (auto simp: touches_def all_calm_def split: if_splits)

lemma touches_lives:
  assumes "touches i cid a' c' used d d'" and "cmds_unique d"
  shows "lives_of d' = (lives_of d)(i \<mapsto>
     \<lparr>lf_application = at_application_id a', lf_stage = at_stage a', lf_outcome = at_outcome a',
      lf_used = used, lf_claimed = (cm_state c' = CS_CLAIMED)\<rparr>)"
    and "cmds_unique d'" and "cmds_stable d d'"
proof -
  from assms(1) obtain a c where ac: "row (db_attempts d) i = Some a" "row (db_commands d) cid = Some c"
    "cm_attempt_id c = i" "cm_attempt_id c' = i" "at_application_id a' = at_application_id a"
    and att: "row (db_attempts d') j = (if j = i then Some a' else row (db_attempts d) j)"
    and cmd: "row (db_commands d') k = (if k = cid then Some c' else row (db_commands d) k)"
    and prm: "permit_used j d' = (if j = i then used else permit_used j d)" for j k
    by (auto simp: touches_def)
  have other: "claimed_in d' j \<longleftrightarrow> claimed_in d j" if "j \<noteq> i" for j
  proof
    show "claimed_in d j" if "claimed_in d' j"
      using that \<open>j \<noteq> i\<close> ac by (auto simp: claimed_in_def cmd split: if_splits)
    assume "claimed_in d j"
    then obtain k ck where k: "row (db_commands d) k = Some ck" "cm_attempt_id ck = j"
      "cm_state ck = CS_CLAIMED" by (auto simp: claimed_in_def)
    with that ac have "k \<noteq> cid" by auto
    with k show "claimed_in d' j" unfolding claimed_in_def by (intro exI[of _ k] exI[of _ ck]) (simp add: cmd)
  qed
  have self: "claimed_in d' i \<longleftrightarrow> cm_state c' = CS_CLAIMED"
    using assms(2) ac by (auto simp: claimed_in_def cmd cmds_unique_def split: if_splits)
  show "lives_of d' = (lives_of d)(i \<mapsto>
     \<lparr>lf_application = at_application_id a', lf_stage = at_stage a', lf_outcome = at_outcome a',
      lf_used = used, lf_claimed = (cm_state c' = CS_CLAIMED)\<rparr>)"
    by (rule ext) (simp add: lives_of_def att prm other self)
  show "cmds_unique d'" using assms(2) ac by (auto simp: cmds_unique_def cmd)
  show "cmds_stable d d'" using ac by (auto simp: cmds_stable_def cmd)
qed

section \<open>Quiet steps\<close>

text \<open>
  Three situations need a cause outside the database: a confirmed submission, the verifying stage,
  and an attempt that crossed the boundary but counts as failed before it, which only an operator can
  declare. A quiet change creates none of them.
\<close>

definition confirmed_life :: "life \<Rightarrow> bool" where
  "confirmed_life x \<longleftrightarrow> lf_outcome x = Some CONFIRMED_SUBMITTED"

definition verifying_life :: "life \<Rightarrow> bool" where
  "verifying_life x \<longleftrightarrow> lf_stage x = VERIFYING"

definition denied_life :: "life \<Rightarrow> bool" where
  "denied_life x \<longleftrightarrow> lf_used x \<and> lf_stage x = FINISHED \<and> lf_outcome x = Some FAILED_BEFORE_COMMIT"

lemmas notable_defs = confirmed_life_def verifying_life_def denied_life_def

definition had :: "(life \<Rightarrow> bool) \<Rightarrow> lives \<Rightarrow> int \<Rightarrow> bool" where
  "had P v i \<longleftrightarrow> (\<exists>x. v i = Some x \<and> P x)"

definition quiet :: "lives \<Rightarrow> lives \<Rightarrow> bool" where
  "quiet v v' \<longleftrightarrow>
     (\<forall>i. (had confirmed_life v' i \<longrightarrow> had confirmed_life v i)
        \<and> (had verifying_life v' i \<longrightarrow> had verifying_life v i)
        \<and> (had denied_life v' i \<longrightarrow> had denied_life v i))"

lemma quiet_refl [simp]: "quiet v v"
  by (simp add: quiet_def)

lemma quiet_trans: "quiet u v \<Longrightarrow> quiet v w \<Longrightarrow> quiet u w"
  by (simp add: quiet_def)

lemma quiet_update:
  "\<not> confirmed_life y \<Longrightarrow> \<not> verifying_life y \<Longrightarrow> \<not> denied_life y \<Longrightarrow> quiet v (v(i \<mapsto> y))"
  by (auto simp: quiet_def had_def)

lemma had_update_other: "j \<noteq> i \<Longrightarrow> had P (v(i \<mapsto> y)) j = had P v j"
  by (simp add: had_def)

lemma life_step_grows:
  assumes "life_step v v'" and "v i = Some x"
  shows "\<exists>y. v' i = Some y \<and> lf_application y = lf_application x \<and> (lf_used x \<longrightarrow> lf_used y)"
  using assms by cases auto

lemma life_steps_grow:
  assumes "life_step\<^sup>*\<^sup>* v v'" and "v i = Some x"
  shows "\<exists>y. v' i = Some y \<and> lf_application y = lf_application x \<and> (lf_used x \<longrightarrow> lf_used y)"
  using assms
proof (induction rule: rtranclp_induct)
  case (step u w)
  then obtain y where "u i = Some y" "lf_application y = lf_application x" "lf_used x \<longrightarrow> lf_used y" by auto
  with life_step_grows[OF step(2)] show ?case by metis
qed simp

text \<open>What a handler has to show.\<close>

definition refines :: "database \<Rightarrow> database \<Rightarrow> bool" where
  "refines d d' \<longleftrightarrow>
     quiet (lives_of d) (lives_of d') \<and> life_step\<^sup>*\<^sup>* (lives_of d) (lives_of d')
     \<and> cmds_stable d d' \<and> cmds_unique d' \<and> (all_calm d \<longrightarrow> all_calm d')"

lemma refines_trans: "refines d e \<Longrightarrow> refines e f \<Longrightarrow> refines d f"
  unfolding refines_def by (blast intro: quiet_trans rtranclp_trans cmds_stable_trans)

lemma refines_same: "cmds_unique d \<Longrightarrow> same_core d e \<Longrightarrow> refines d e"
  by (simp add: refines_def same_core_lives same_core_unique same_core_stable same_core_calm)

lemma refines_refl: "cmds_unique d \<Longrightarrow> refines d d"
  by (simp add: refines_same same_core_def)

lemma refines_ok: "refines d e \<Longrightarrow> lives_ok (lives_of d) \<Longrightarrow> lives_ok (lives_of e)"
  unfolding refines_def using life.steps_inv by blast

lemma lives_of_Some: "row (db_attempts d) i = Some a \<Longrightarrow> lives_of d i =
    Some \<lparr>lf_application = at_application_id a, lf_stage = at_stage a, lf_outcome = at_outcome a,
          lf_used = permit_used i d, lf_claimed = claimed_in d i\<rparr>"
  by (simp add: lives_of_def)

lemma claimed_in_command:
  assumes "cmds_unique d" and "row (db_commands d) cid = Some c"
  shows "claimed_in d (cm_attempt_id c) \<longleftrightarrow> cm_state c = CS_CLAIMED"
proof
  assume "claimed_in d (cm_attempt_id c)"
  then obtain k c' where k: "row (db_commands d) k = Some c'" "cm_attempt_id c' = cm_attempt_id c"
    "cm_state c' = CS_CLAIMED" by (auto simp: claimed_in_def)
  with assms have "k = cid" unfolding cmds_unique_def by blast
  with k assms(2) show "cm_state c = CS_CLAIMED" by simp
qed (use assms(2) in \<open>auto simp: claimed_in_def\<close>)

section \<open>Row reads of the worker's handlers\<close>

lemma same_core_refl [simp]: "same_core d d"
  by (simp add: same_core_def)

lemma same_core_trans: "same_core d e \<Longrightarrow> same_core e f \<Longrightarrow> same_core d f"
  by (simp add: same_core_def)

lemma enqueue_same_core:
  "enqueue_control_plane_attempt_transition event_ref a c t use_reason d = Inr d' \<Longrightarrow> same_core d d'"
  by (simp add: same_core_def db_simps)

lemma invalidate_drifted_same_core: "same_core d (invalidate_drifted_plan oc a now d)"
  by (simp add: invalidate_drifted_plan_def same_core_def set_plan_def
      split: commit_outcome.splits option.splits)

lemma add_evidence_reads [db_simps]:
  "db_attempts (add_evidence i oc d) = db_attempts d" "db_permits (add_evidence i oc d) = db_permits d"
  "db_commands (add_evidence i oc d) = db_commands d"
  by (simp_all add: add_evidence_def split: commit_outcome.splits)

lemma finish_rows_reads [db_simps]:
  "db_attempts (finish_rows i a cid c ap oc now d) = put_row i (finished_attempt oc now a) (db_attempts d)"
  "db_permits (finish_rows i a cid c ap oc now d) = db_permits d"
  "db_commands (finish_rows i a cid c ap oc now d) =
     put_row cid (completed_command now (outcome_reason oc) c) (db_commands d)"
  using invalidate_drifted_same_core[of "record_attempt_stage i FINISHED (TK_FINISHED (outcome_kind oc)) d"
      oc a now]
  by (simp_all add: finish_rows_def Let_def db_simps same_core_def)

lemma permit_used_cong: "db_permits e = db_permits d \<Longrightarrow> permit_used j e = permit_used j d"
  by (simp add: permit_used_def)

lemma lift_state_ok [simp]: "lift_state m = Inr x \<longleftrightarrow> m = Inr x"
  by (cases m) (simp_all add: lift_state_def)

lemma finished_attempt_reads:
  "at_stage (finished_attempt oc now a) = FINISHED"
  "at_outcome (finished_attempt oc now a) = Some (outcome_kind oc)"
  "at_application_id (finished_attempt oc now a) = at_application_id a"
  by (simp_all add: finished_attempt_def Let_def split: commit_outcome.splits)

lemma finish_attempt_touches:
  assumes "finish_attempt env i cid oc now d = Inr d'" and "row (db_commands d) cid = Some c"
    and "cm_attempt_id c = i"
  obtains a where "row (db_attempts d) i = Some a"
    "can_transition (at_stage a) FINISHED (Some (Plain (outcome_kind oc)))"
    "evidence_accepted i a oc now"
    "touches i cid (finished_attempt oc now a) (completed_command now (outcome_reason oc) c)
       (permit_used i d) d d'"
proof -
  from assms(1,2) obtain a ap where a: "row (db_attempts d) i = Some a"
    and t: "can_transition (at_stage a) FINISHED (Some (Plain (outcome_kind oc)))"
    and ev: "evidence_accepted i a oc now"
    and q: "enqueue_control_plane_attempt_transition (we_event_ref env) (finished_attempt oc now a)
         (completed_command now (outcome_reason oc) c) now True (finish_rows i a cid c ap oc now d) = Inr d'"
    unfolding finish_attempt_def by (elim and_then_okE) simp
  have core: "db_attempts d' = put_row i (finished_attempt oc now a) (db_attempts d)"
    "db_permits d' = db_permits d"
    "db_commands d' = put_row cid (completed_command now (outcome_reason oc) c) (db_commands d)"
    using enqueue_same_core[OF q] by (simp_all add: same_core_def db_simps)
  have "touches i cid (finished_attempt oc now a) (completed_command now (outcome_reason oc) c)
       (permit_used i d) d d'"
    by (intro touchesI[OF a assms(2,3)])
       (simp_all add: core db_simps permit_used_def completed_command_def assms(3) calm_def
          finished_attempt_reads)
  from that[OF a t ev this] show thesis .
qed

lemma set_stage_ok:
  assumes "set_stage i target t d = Inr d'"
  obtains a st where "row (db_attempts d) i = Some a" "can_transition (at_stage a) target None"
    "db_attempts d' = put_row i (staged target st a) (db_attempts d)" "db_permits d' = db_permits d"
    "db_commands d' = db_commands d" "st \<noteq> SS_UNKNOWN"
proof -
  from assms obtain a where r: "row (db_attempts d) i = Some a"
    by (cases "row (db_attempts d) i") (simp_all add: set_stage_def lift_opt_def)
  with assms have t: "can_transition (at_stage a) target None"
    by (simp add: set_stage_def lift_opt_def require_transition_def lift_state_def split: if_splits)
  note a = r t
  from assms r t obtain st where st: "project_legacy_status target None = Inr st"
    and d': "d' = record_attempt_stage i target (TK_AT t) (set_attempt i (staged target st a) d)"
    by (cases "project_legacy_status target None")
       (auto simp: set_stage_def lift_opt_def require_transition_def lift_state_def)
  from st have "st \<noteq> SS_UNKNOWN" by (auto simp: project_legacy_status_def split: if_splits)
  then show thesis by (intro that[OF a]) (simp_all add: d' db_simps)
qed

lemma advance_touches:
  assumes "advance env i cid target t d = Inr d'" and "row (db_commands d) cid = Some c"
    and "cm_attempt_id c = i"
  obtains a st where "row (db_attempts d) i = Some a" "can_transition (at_stage a) target None"
    "row (db_attempts d') i = Some (staged target st a)"
    "touches i cid (staged target st a) c (permit_used i d) d d'" "db_permits d' = db_permits d"
    "row (db_commands d') cid = Some c" "st \<noteq> SS_UNKNOWN"
proof -
  from assms(1) obtain d1 a1 c1 where s: "set_stage i target t d = Inr d1"
    and q: "enqueue_control_plane_attempt_transition (we_event_ref env) a1 c1 t True d1 = Inr d'"
    unfolding advance_def by (elim and_then_okE)
  from s obtain a st where a: "row (db_attempts d) i = Some a" "can_transition (at_stage a) target None"
    and d1: "db_attempts d1 = put_row i (staged target st a) (db_attempts d)" "db_permits d1 = db_permits d"
      "db_commands d1 = db_commands d" and st: "st \<noteq> SS_UNKNOWN"
    by (rule set_stage_ok)
  have core: "db_attempts d' = put_row i (staged target st a) (db_attempts d)"
    "db_permits d' = db_permits d" "db_commands d' = db_commands d"
    using enqueue_same_core[OF q] d1 by (simp_all add: same_core_def)
  have "touches i cid (staged target st a) c (permit_used i d) d d'"
    by (rule touchesI[OF a(1) assms(2,3,3)])
       (simp_all add: core db_simps permit_used_def staged_def assms(2) calm_def st)
  with that[OF a] core assms(2) st show thesis by (simp add: db_simps)
qed

section \<open>The worker refines the specification\<close>

lemma refines_touch:
  assumes "touches i cid a' c' used d d'" and "cmds_unique d"
    and "y = \<lparr>lf_application = at_application_id a', lf_stage = at_stage a', lf_outcome = at_outcome a',
              lf_used = used, lf_claimed = (cm_state c' = CS_CLAIMED)\<rparr>"
    and "life_step (lives_of d) ((lives_of d)(i \<mapsto> y))"
    and "\<not> confirmed_life y" "\<not> verifying_life y" "\<not> denied_life y"
  shows "refines d d'"
  using touches_lives[OF assms(1,2)] assms(3,4) quiet_update[OF assms(5-7)] touches_calm[OF assms(1)]
  by (auto simp: refines_def)

lemma refines_finish:
  assumes "finish_attempt env i cid oc now d = Inr d'" and "row (db_commands d) cid = Some c"
    and "cm_attempt_id c = i" and "cmds_unique d" and "lives_ok (lives_of d)"
    and "outcome_kind oc \<noteq> CONFIRMED_SUBMITTED"
  shows "refines d d'"
proof -
  from assms(1-3) obtain a where a: "row (db_attempts d) i = Some a"
    and t: "can_transition (at_stage a) FINISHED (Some (Plain (outcome_kind oc)))"
    and touch: "touches i cid (finished_attempt oc now a) (completed_command now (outcome_reason oc) c)
       (permit_used i d) d d'"
    by (rule finish_attempt_touches)
  note x = lives_of_Some[OF a]
  let ?y = "\<lparr>lf_application = at_application_id a, lf_stage = FINISHED, lf_outcome = Some (outcome_kind oc),
      lf_used = permit_used i d, lf_claimed = False\<rparr>"
  have step: "life_step (lives_of d) ((lives_of d)(i \<mapsto> ?y))"
    using life_step.ls_finish[where v = "lives_of d" and i = i and k = "outcome_kind oc", OF x] t by simp
  have "life_ok ?y" using life_step_ok[OF assms(5) step] lives_okD[of "(lives_of d)(i \<mapsto> ?y)" i] by simp
  moreover have "\<not> (permit_used i d \<and> outcome_kind oc = FAILED_BEFORE_COMMIT)"
    using lives_okD[OF assms(5) x] t
    by (cases "at_stage a") (auto simp: life_ok_def crossed_def stage_simps can_transition_def)
  ultimately show ?thesis
    by (intro refines_touch[OF touch assms(4) _ step])
       (auto simp: finished_attempt_reads completed_command_def notable_defs assms(6))
qed

lemma refines_advance:
  assumes "advance env i cid target t d = Inr d'" and "row (db_commands d) cid = Some c"
    and "cm_attempt_id c = i" and "cm_state c = CS_CLAIMED" and "cmds_unique d"
    and "lives_ok (lives_of d)" and "target \<noteq> COMMITTING" and "target \<noteq> VERIFYING"
  shows "refines d d'"
proof -
  from assms(1-3) obtain a st where a: "row (db_attempts d) i = Some a"
    "can_transition (at_stage a) target None"
    "touches i cid (staged target st a) c (permit_used i d) d d'"
    by (rule advance_touches)
  note x = lives_of_Some[OF a(1)]
  have cl: "claimed_in d i" using claimed_in_command[OF assms(5,2)] assms(3,4) by simp
  with lives_okD[OF assms(6) x] have q: "at_stage a \<noteq> QUEUED" by (simp add: life_ok_def)
  let ?y = "\<lparr>lf_application = at_application_id a, lf_stage = target, lf_outcome = None,
      lf_used = permit_used i d, lf_claimed = True\<rparr>"
  have step: "life_step (lives_of d) ((lives_of d)(i \<mapsto> ?y))"
    using life_step.ls_advance[where v = "lives_of d" and i = i and t = target, OF x] a(2) assms(7) q cl by simp
  show ?thesis
    by (intro refines_touch[OF a(3) assms(5) _ step]) (simp_all add: staged_def notable_defs assms(4,8))
qed

text \<open>A claimed context names the command's own attempt.\<close>

lemma claimed_context:
  assumes "lock_claimed_context cid token d = Some (i, a, ap)"
  obtains c where "row (db_commands d) cid = Some c" "cm_state c = CS_CLAIMED" "cm_attempt_id c = i"
    "row (db_attempts d) i = Some a" "row (db_applications d) (at_application_id a) = Some ap"
  using assms by (auto simp: lock_claimed_context_def split: option.splits if_splits)

lemma refines_finish_and_commit:
  assumes "finish_and_commit env i cid oc now d = Inr (d', r)" and "row (db_commands d) cid = Some c"
    and "cm_attempt_id c = i" and "cmds_unique d" and "lives_ok (lives_of d)"
    and "outcome_kind oc \<noteq> CONFIRMED_SUBMITTED"
  shows "refines d d' \<and> db_valid d'"
proof -
  from assms(1) have "finish_attempt env i cid oc now d = Inr d'" and "db_valid d'"
    by (auto simp: finish_and_commit_def elim!: and_then_okE)
  with refines_finish[OF _ assms(2-6)] show ?thesis by blast
qed

lemma refines_finish_claimed:
  assumes "finish_claimed_before_commit env cid token reason now d = Inr (d', r)"
    and "db_valid d" and "lives_ok (lives_of d)"
  shows "refines d d' \<and> db_valid d'"
proof (cases "lock_claimed_context cid token d")
  case None
  with assms show ?thesis by (auto simp: finish_claimed_before_commit_def refines_refl valid_cmds_unique)
next
  case (Some x)
  obtain i a ap where x: "x = (i, a, ap)" by (cases x)
  from Some x obtain c where c: "row (db_commands d) cid = Some c" "cm_attempt_id c = i"
    by (auto elim: claimed_context)
  from assms(1) Some x consider "d' = d"
    | "finish_and_commit env i cid (FailedBeforeCommitOutcome reason) now d = Inr (d', r)"
    by (auto simp: finish_claimed_before_commit_def split: if_splits)
  then show ?thesis
    by cases (use assms c refines_finish_and_commit[OF _ c valid_cmds_unique[OF assms(2)] assms(3)] in
        \<open>simp_all add: refines_refl valid_cmds_unique\<close>)
qed

lemma refines_claim_rows:
  assumes "claim_rows env k c a runner token now d = Inr d'" and "row (db_commands d) k = Some c"
    and "row (db_attempts d) (cm_attempt_id c) = Some a" and "at_stage a = QUEUED"
    and "cmds_unique d" and "lives_ok (lives_of d)"
  shows "refines d d'"
proof -
  let ?i = "cm_attempt_id c" and ?c' = "claimed_command now runner token c"
    and ?a1 = "a\<lparr>at_started_at := Some now\<rparr>"
  let ?d1 = "set_attempt ?i ?a1 (set_command k ?c' d)"
  from assms(1) obtain d2 a2 where s: "set_stage ?i INSPECTING now ?d1 = Inr d2"
    and q: "enqueue_control_plane_attempt_transition (we_event_ref env) a2 ?c' now True d2 = Inr d'"
    unfolding claim_rows_def Let_def by (elim and_then_okE)
  from s obtain a3 st where a3: "row (db_attempts ?d1) ?i = Some a3"
    and d2: "db_attempts d2 = put_row ?i (staged INSPECTING st a3) (db_attempts ?d1)"
      "db_permits d2 = db_permits ?d1" "db_commands d2 = db_commands ?d1" and st: "st \<noteq> SS_UNKNOWN"
    by (rule set_stage_ok)
  have "a3 = ?a1" using a3 by (simp add: db_simps)
  with d2 enqueue_same_core[OF q] have touch:
    "touches ?i k (staged INSPECTING st ?a1) ?c' (permit_used ?i d) d d'"
    by (intro touchesI[OF assms(3,2) refl])
       (simp_all add: same_core_def db_simps permit_used_def staged_def claimed_command_def calm_def st)
  note x = lives_of_Some[OF assms(3)]
  let ?y = "\<lparr>lf_application = at_application_id a, lf_stage = INSPECTING, lf_outcome = None,
      lf_used = permit_used ?i d, lf_claimed = True\<rparr>"
  have step: "life_step (lives_of d) ((lives_of d)(?i \<mapsto> ?y))"
    using life_step.ls_claim[where v = "lives_of d" and i = ?i, OF x] assms(4) by simp
  show ?thesis
    by (intro refines_touch[OF touch assms(5) _ step]) (simp_all add: staged_def claimed_command_def notable_defs)
qed

lemma refines_requeue:
  assumes "requeue_rows env i a cid c now d = Inr d'" and "row (db_commands d) cid = Some c"
    and "cm_attempt_id c = i" and "cm_state c = CS_CLAIMED" and "row (db_attempts d) i = Some a"
    and "\<not> crossed (at_stage a)" and "\<not> permit_used i d" and "cmds_unique d"
  shows "refines d d'"
proof -
  from enqueue_same_core[OF assms(1)[unfolded requeue_rows_def]]
  have touch: "touches i cid (requeued_attempt a) (requeued_command c) False d d'"
    by (intro touchesI[OF assms(5,2,3)])
       (simp_all add: same_core_def db_simps requeued_attempt_def requeued_command_def assms(3) calm_def
          permit_used_def[of _ d'] assms(7) flip: permit_used_def[of _ d])
  note x = lives_of_Some[OF assms(5)]
  let ?y = "\<lparr>lf_application = at_application_id a, lf_stage = QUEUED, lf_outcome = None,
      lf_used = False, lf_claimed = False\<rparr>"
  have "claimed_in d i" using claimed_in_command[OF assms(8,2)] assms(3,4) by simp
  then have step: "life_step (lives_of d) ((lives_of d)(i \<mapsto> ?y))"
    using life_step.ls_requeue[where v = "lives_of d" and i = i, OF x] assms(6,7) by simp
  show ?thesis
    by (intro refines_touch[OF touch assms(8) _ step])
       (simp_all add: requeued_attempt_def requeued_command_def notable_defs)
qed

lemma pick_candidate_member:
  assumes "pick_candidate locked wanted now d = Some (k, c)" and "db_valid d"
  shows "row (db_commands d) k = Some c" "cm_state c = CS_PENDING"
proof -
  have "(k, c) \<in> set (db_commands d) \<and> cm_state c = CS_PENDING"
    using find_Some_cond[OF assms(1)[unfolded pick_candidate_def]]
    by (auto simp: claim_candidates_def dest!: in_set_takeD)
  with assms(2) show "row (db_commands d) k = Some c" "cm_state c = CS_PENDING"
    by (auto simp: db_valid_def commands_valid_def intro: set_row)
qed

lemma refines_invalid_command:
  assumes "row (db_commands d) k = Some c" and "cm_state c = CS_PENDING" and "cmds_unique d"
    and "row (db_attempts d) (cm_attempt_id c) = Some a"
  shows "refines d (set_command k (invalid_command now c) d)"
proof -
  have touch: "touches (cm_attempt_id c) k a (invalid_command now c) (permit_used (cm_attempt_id c) d) d
      (set_command k (invalid_command now c) d)"
    by (intro touchesI[OF assms(4,1) refl])
       (simp_all add: invalid_command_def db_simps permit_used_def assms(4))
  have "\<not> claimed_in d (cm_attempt_id c)" using claimed_in_command[OF assms(3,1)] assms(2) by simp
  then have "lives_of (set_command k (invalid_command now c) d) = lives_of d"
    unfolding touches_lives(1)[OF touch assms(3)]
    by (intro ext) (simp add: lives_of_def invalid_command_def assms(4))
  with touches_lives(2,3)[OF touch assms(3)] touches_calm[OF touch] show ?thesis by (simp add: refines_def)
qed

lemma refines_claim:
  assumes "claim_submission_command env locked wanted runner token source_current now d = Inr (d', r)"
    and "db_valid d" and "lives_ok (lives_of d)"
  shows "refines d d' \<and> db_valid d'"
proof (cases "pick_candidate locked wanted now d")
  case None
  with assms show ?thesis by (simp add: claim_submission_command_def refines_refl valid_cmds_unique)
next
  case (Some kc)
  obtain k c where kc: "kc = (k, c)" by force
  note mem = pick_candidate_member[OF Some[unfolded kc] assms(2)]
  note uniq = valid_cmds_unique[OF assms(2)]
  from valid_command(2)[OF assms(2) mem(1)] obtain a where a: "row (db_attempts d) (cm_attempt_id c) = Some a" ..
  from assms(1) Some kc a consider
    "d' = set_command k (invalid_command now c) d" "db_valid d'"
  | "at_stage a = QUEUED" "finish_attempt env (cm_attempt_id c) k (FailedBeforeCommitOutcome R_BUILD_MISMATCH)
       now d = Inr d'" "db_valid d'"
  | "at_stage a = QUEUED" "claim_rows env k c a runner token now d = Inr d'" "db_valid d'"
    by (auto simp: claim_submission_command_def elim!: and_then_okE split: if_splits)
  then show ?thesis
    by cases (use refines_invalid_command[OF mem uniq a] refines_finish[OF _ mem(1) refl uniq assms(3)]
        refines_claim_rows[OF _ mem(1) a _ uniq assms(3)] in simp_all)
qed

lemma refines_enter_preflight:
  assumes "enter_claimed_preflight env cid token t d = Inr (d', b)" and "db_valid d" and "lives_ok (lives_of d)"
  shows "refines d d' \<and> db_valid d'"
proof -
  note uniq = valid_cmds_unique[OF assms(2)]
  from assms(1) consider "d' = d"
    | i a ap where "lock_claimed_context cid token d = Some (i, a, ap)" "advance env i cid PREPARING t d = Inr d'"
        "db_valid d'"
    by (auto simp: enter_claimed_preflight_def elim!: and_then_okE split: option.splits if_splits)
  then show ?thesis
  proof cases
    case 2
    from 2(1) obtain c where "row (db_commands d) cid = Some c" "cm_state c = CS_CLAIMED"
      "cm_attempt_id c = i" by (rule claimed_context)
    with refines_advance[OF 2(2) _ _ _ uniq assms(3)] 2(3) show ?thesis by simp
  qed (use assms(2) uniq in \<open>simp add: refines_refl\<close>)
qed

lemma renew_claim_touches:
  assumes "row (db_commands d) cid = Some c" and "row (db_attempts d) (cm_attempt_id c) = Some a"
  shows "touches (cm_attempt_id c) cid a (c\<lparr>cm_claimed_at := Some t\<rparr>)
    (permit_used (cm_attempt_id c) d) d (renew_claim cid t d)"
  by (intro touchesI[OF assms(2,1) refl])
     (simp_all add: renew_claim_def set_command_opt_def assms db_simps permit_used_def)

lemma renew_claim_lives:
  assumes "row (db_commands d) cid = Some c" and "row (db_attempts d) (cm_attempt_id c) = Some a"
    and "cmds_unique d"
  shows "lives_of (renew_claim cid t d) = lives_of d" "cmds_unique (renew_claim cid t d)"
    "cmds_stable d (renew_claim cid t d)"
proof -
  note tl = touches_lives[OF renew_claim_touches[OF assms(1,2)] assms(3)]
  show "lives_of (renew_claim cid t d) = lives_of d"
    unfolding tl(1) using claimed_in_command[OF assms(3,1)]
    by (intro ext) (simp add: lives_of_def assms(2))
  show "cmds_unique (renew_claim cid t d)" "cmds_stable d (renew_claim cid t d)" by (fact tl)+
qed

lemma refines_renew:
  assumes "row (db_commands d) cid = Some c" and "row (db_attempts d) (cm_attempt_id c) = Some a"
    and "cmds_unique d"
  shows "refines d (renew_claim cid t d)"
  using renew_claim_lives[OF assms] touches_calm[OF renew_claim_touches[OF assms(1,2)]]
  by (simp add: refines_def)

lemma refines_mark_ready:
  assumes "mark_claimed_attempt_ready env cid token act now d = Inr (d', r)" and "db_valid d"
    and "lives_ok (lives_of d)"
  shows "refines d d' \<and> db_valid d'"
proof -
  note uniq = valid_cmds_unique[OF assms(2)]
  from assms(1) consider "d' = d"
    | i a ap d1 where "lock_claimed_context cid token d = Some (i, a, ap)"
        "advance env i cid READY now d = Inr d1" "d' = renew_claim cid now d1" "db_valid d'"
    by (auto simp: mark_claimed_attempt_ready_def elim!: and_then_okE
             split: option.splits if_splits sum.splits bool.splits)
  then show ?thesis
  proof cases
    case (2 i a ap d1)
    from 2(1) obtain c where c: "row (db_commands d) cid = Some c" "cm_state c = CS_CLAIMED"
      "cm_attempt_id c = i" by (rule claimed_context)
    have r1: "refines d d1" using refines_advance[OF 2(2) c(1,3,2) uniq assms(3)] by simp
    from 2(2) c(1,3) obtain a' where a': "row (db_attempts d1) i = Some a'" "row (db_commands d1) cid = Some c"
      by (rule advance_touches)
    have "refines d1 (renew_claim cid now d1)"
      using refines_renew[OF a'(2)] a'(1) c(3) r1 by (simp add: refines_def)
    with refines_trans[OF r1] 2(3,4) show ?thesis by simp
  qed (use assms(2) uniq in \<open>simp add: refines_refl\<close>)
qed

lemma refines_reconcile_one:
  assumes "reconcile_one env locked cutoff now cid d = Inr (d', b)" and "cmds_unique d"
    and "lives_ok (lives_of d)"
  shows "refines d d'"
proof (cases "row (db_commands d) cid")
  case None
  with assms show ?thesis by (simp add: reconcile_one_def refines_refl)
next
  case (Some c)
  from assms(1) Some consider "d' = d"
    | "finish_attempt env (cm_attempt_id c) cid (UnknownOutcome R_STALE_INDETERMINATE) now d = Inr d'"
    | a where "stale_command cutoff c" "row (db_attempts d) (cm_attempt_id c) = Some a"
        "\<not> crossed (at_stage a)" "\<not> permit_used (cm_attempt_id c) d"
        "requeue_rows env (cm_attempt_id c) a cid c now d = Inr d'"
    by (auto simp: reconcile_one_def elim!: and_then_okE split: option.splits if_splits)
  then show ?thesis
  proof cases
    case 1
    with assms(2) show ?thesis by (simp add: refines_refl)
  next
    case 2
    with refines_finish[OF 2 Some refl assms(2,3)] show ?thesis by simp
  next
    case (3 a)
    then have "cm_state c = CS_CLAIMED" by (simp add: stale_command_def)
    from refines_requeue[OF 3(5) Some refl this 3(2-4) assms(2)] show ?thesis .
  qed
qed

lemma refines_reconcile_all:
  "reconcile_all env locked cutoff now cids d = Inr (d', n) \<Longrightarrow> cmds_unique d \<Longrightarrow> lives_ok (lives_of d) \<Longrightarrow>
     refines d d'"
proof (induction cids arbitrary: d d' n)
  case (Cons cid cids)
  from Cons.prems(1) obtain d1 b m where one: "reconcile_one env locked cutoff now cid d = Inr (d1, b)"
    and rest: "reconcile_all env locked cutoff now cids d1 = Inr (d', m)"
    by (auto elim!: and_then_okE)
  from refines_reconcile_one[OF one Cons.prems(2,3)] have r: "refines d d1" .
  with Cons.IH[OF rest] Cons.prems(3) refines_ok show ?case
    by (meson refines_def refines_trans)
qed (simp add: refines_refl)

lemma refines_reconcile_stale:
  assumes "reconcile_stale_submission_commands env locked ttl now d = Inr (d', n)" and "db_valid d"
    and "lives_ok (lives_of d)"
  shows "refines d d' \<and> db_valid d'"
proof -
  from assms(1) have "reconcile_all env locked (now - seconds (max 1 ttl)) now
      (stale_candidates (now - seconds (max 1 ttl)) d) d = Inr (d', n)" and "db_valid d'"
    by (auto simp: reconcile_stale_submission_commands_def Let_def elim!: and_then_okE)
  with refines_reconcile_all valid_cmds_unique[OF assms(2)] assms(3) show ?thesis by blast
qed

section \<open>Crossing the boundary\<close>

lemma note_denial_same_core: "same_core d (note_denial i e d)"
  by (simp add: note_denial_def same_core_def db_simps)

lemma denial_same_core: "same_core d (record_governor_denial i d)"
  by (simp add: same_core_def db_simps)

lemma refines_reject:
  assumes "reject_at_boundary env i cid reason t e = Inr (d', r)" and "same_core d e"
    and "row (db_commands d) cid = Some c" and "cm_attempt_id c = i" and "cmds_unique d"
    and "lives_ok (lives_of d)"
  shows "refines d d' \<and> db_valid d' \<and> r = BR_REJECTED"
proof -
  from assms(1) obtain r' where f: "finish_and_commit env i cid (FailedBeforeCommitOutcome reason) t e = Inr (d', r')"
    and r: "r = BR_REJECTED" by (auto simp: reject_at_boundary_def elim!: and_then_okE)
  have e: "row (db_commands e) cid = Some c" using assms(2,3) by (simp add: same_core_def)
  have "refines e d' \<and> db_valid d'"
    using refines_finish_and_commit[OF f e assms(4)] assms(2,5,6)
    by (simp add: same_core_unique same_core_lives)
  with refines_same[OF assms(5,2)] refines_trans r show ?thesis by blast
qed

lemma cross_boundary_lives:
  assumes "cross_boundary env i cid m t d = Inr d'" and "row (db_commands d) cid = Some c"
    and "cm_attempt_id c = i" and "cm_state c = CS_CLAIMED" and "row (db_permits d) i = Some m"
    and "row (db_attempts d) i = Some a" and "at_stage a = READY" and "cmds_unique d"
  shows "refines d d'" "db_valid d'" "\<not> permit_used i d" "permit_used i d'"
    "row (db_attempts d') i \<noteq> None"
proof -
  from assms(1) obtain d1 a1 m' where adv: "advance env i cid COMMITTING t d = Inr d1"
    and a1: "row (db_attempts d1) i = Some a1" and con: "consume_final_submit_permit m t = Inr m'"
    and d': "d' = renew_claim cid t (set_permit i m' (set_attempt i (crossed_attempt t a1) d1))"
    and v: "db_valid d'"
    unfolding cross_boundary_def by (elim and_then_okE) auto
  let ?d2 = "set_permit i m' (set_attempt i (crossed_attempt t a1) d1)"
  from adv assms(2,3) obtain a0 st where a0: "row (db_attempts d) i = Some a0"
    "row (db_attempts d1) i = Some (staged COMMITTING st a0)"
    "touches i cid (staged COMMITTING st a0) c (permit_used i d) d d1" "db_permits d1 = db_permits d"
    "row (db_commands d1) cid = Some c" and st: "st \<noteq> SS_UNKNOWN"
    by (rule advance_touches)
  have a1': "a1 = staged COMMITTING st a" using a0(1,2) a1 assms(6) by simp
  show unused: "\<not> permit_used i d" using consume_ok(1)[OF con] assms(5) by (simp add: permit_used_def)
  have rows: "row (db_attempts ?d2) j = (if j = i then Some (crossed_attempt t a1) else row (db_attempts d) j)"
    "row (db_commands ?d2) k = row (db_commands d) k"
    "permit_used j ?d2 = (if j = i then True else permit_used j d)" for j k
  proof -
    from a0(3) have t: "row (db_attempts d1) j = (if j = i then Some (staged COMMITTING st a0) else row (db_attempts d) j)"
      "row (db_commands d1) k = (if k = cid then Some c else row (db_commands d) k)"
      by (simp_all only: touches_def)
    show "row (db_attempts ?d2) j = (if j = i then Some (crossed_attempt t a1) else row (db_attempts d) j)"
      by (simp add: db_simps t)
    show "row (db_commands ?d2) k = row (db_commands d) k" using assms(2) by (simp add: db_simps t)
    show "permit_used j ?d2 = (if j = i then True else permit_used j d)"
      using consume_ok(3)[OF con] by (simp add: db_simps permit_used_def a0(4))
  qed
  have touch: "touches i cid (crossed_attempt t a1) c True d ?d2"
    by (rule touchesI[OF assms(6,2,3,3)])
       (simp_all only: rows, use st in \<open>simp_all add: assms(2) crossed_attempt_def a1' staged_def calm_def\<close>)
  note x = lives_of_Some[OF assms(6)]
  let ?y = "\<lparr>lf_application = at_application_id a, lf_stage = COMMITTING, lf_outcome = None,
      lf_used = True, lf_claimed = True\<rparr>"
  have "claimed_in d i" using claimed_in_command[OF assms(8,2)] assms(3,4) by simp
  then have step: "life_step (lives_of d) ((lives_of d)(i \<mapsto> ?y))"
    using life_step.ls_cross[where v = "lives_of d" and i = i, OF x] assms(7) unused by simp
  have r: "refines d ?d2"
    by (intro refines_touch[OF touch assms(8) _ step])
       (simp_all add: crossed_attempt_def a1' staged_def assms(4) notable_defs)
  have cmd2: "row (db_commands ?d2) cid = Some c" using rows(2) assms(2) by simp
  have att2: "row (db_attempts ?d2) (cm_attempt_id c) = Some (crossed_attempt t a1)"
    using rows(1) assms(3) by simp
  have u2: "cmds_unique ?d2" using r by (simp add: refines_def)
  show "refines d d'" unfolding d' using refines_trans[OF r refines_renew[OF cmd2 att2 u2]] .
  show "db_valid d'" by (fact v)
  show "permit_used i d'" using rows(3)[of i] unfolding d'
    by (simp add: renew_claim_def permit_used_def db_simps)
  show "row (db_attempts d') i \<noteq> None" using rows(1)[of i] unfolding d'
    by (simp add: renew_claim_def db_simps)
qed

text \<open>
  The boundary either leaves the lives alone, finishes the attempt before commit, or spends an unspent
  permit.
\<close>

definition enters :: "int \<Rightarrow> database \<Rightarrow> database \<Rightarrow> bool" where
  "enters cid d d' \<longleftrightarrow>
     (\<exists>c. row (db_commands d) cid = Some c \<and> \<not> permit_used (cm_attempt_id c) d
          \<and> permit_used (cm_attempt_id c) d' \<and> row (db_attempts d) (cm_attempt_id c) \<noteq> None)"

lemma after_governor_refines:
  assumes "after_governor env i cid a ap p m dp dm url_hash act snapshot br d = Inr (d', r)"
    and "row (db_commands d) cid = Some c" and "cm_attempt_id c = i" and "cm_state c = CS_CLAIMED"
    and "row (db_permits d) i = Some m" and "row (db_attempts d) i = Some a" and "at_stage a = READY"
    and "cmds_unique d" and "lives_ok (lives_of d)"
  shows "refines d d' \<and> db_valid d' \<and> (r = BR_ENTERED \<longrightarrow> enters cid d d')"
proof -
  from assms(1) consider
    "reject_at_boundary env i cid R_BUILD_MISMATCH (br_commit_at br) d = Inr (d', r)"
  | e where "reject_at_boundary env i cid (fault_reason e) (br_commit_at br) (note_denial i e d) = Inr (d', r)"
  | "cross_boundary env i cid m (br_commit_at br) d = Inr d'"
    by (auto simp: after_governor_def Let_def elim!: and_then_okE split: if_splits sum.splits)
  then show ?thesis
  proof cases
    case 1
    from refines_reject[OF 1 same_core_refl assms(2,3,8,9)] show ?thesis by simp
  next
    case (2 e)
    from refines_reject[OF 2 note_denial_same_core assms(2,3,8,9)] show ?thesis by simp
  next
    case 3
    from cross_boundary_lives[OF 3 assms(2-8)] assms(2,3,6) show ?thesis by (auto simp: enters_def)
  qed
qed

lemma boundary_cases:
  assumes "enter_commit_boundary env cid token url_hash act snapshot br d = Inr (d', r)"
    and "lock_claimed_context cid token d = Some (i, a, ap)"
  obtains "reject_at_boundary env i cid R_BUILD_MISMATCH (br_validation_at br) d = Inr (d', r)"
  | "d' = d" "r = BR_LOST"
  | e where "reject_at_boundary env i cid (fault_reason e) (br_validation_at br) (note_denial i e d) = Inr (d', r)"
  | "reject_at_boundary env i cid R_GOVERNOR_DENIED (br_validation_at br) (record_governor_denial i d) = Inr (d', r)"
  | p m dp dm where "row (db_permits d) i = Some m" "boundary_open d ap a"
      "after_governor env i cid a ap p m dp dm url_hash act snapshot br d = Inr (d', r)"
proof -
  note b = assms(1)[unfolded enter_commit_boundary_def assms(2) option.case prod.case Let_def]
  show thesis
  proof (cases "br_source_before br")
    case False
    with b that(1) show ?thesis by simp
  next
    case src: True
    show ?thesis
    proof (cases "boundary_open d ap a \<and> plan_of_attempt d a \<noteq> None \<and> row (db_permits d) i \<noteq> None")
      case False
      then have "d' = d \<and> r = BR_LOST"
        using b src by (cases "boundary_open d ap a"; cases "plan_of_attempt d a"; cases "row (db_permits d) i") simp_all
      with that(2) show ?thesis by simp
    next
      case True
      then obtain p m where pm: "plan_of_attempt d a = Some p" "row (db_permits d) i = Some m"
        and op: "boundary_open d ap a" by auto
      let ?chk = "and_then (load_domain_plan (we_policy env) p) (\<lambda>dp. and_then (load_domain_permit i m) (\<lambda>dm.
          and_then (boundary_checks env i a ap p m dp dm url_hash act snapshot (br_validation_at br) d)
            (\<lambda>_. Inr (dp, dm))))"
      from b src pm op have b': "(case ?chk of
          Inl e \<Rightarrow> if caught e
            then reject_at_boundary env i cid (fault_reason e) (br_validation_at br) (note_denial i e d) else Inl e
        | Inr (dp, dm) \<Rightarrow> if \<not> br_gate br
            then reject_at_boundary env i cid R_GOVERNOR_DENIED (br_validation_at br) (record_governor_denial i d)
            else after_governor env i cid a ap p m dp dm url_hash act snapshot br d) = Inr (d', r)"
        by (simp only: option.case prod.case if_True if_False not_not simp_thms)
      show ?thesis
      proof (cases ?chk)
        case (Inl e)
        with b' have "reject_at_boundary env i cid (fault_reason e) (br_validation_at br) (note_denial i e d) = Inr (d', r)"
          by (simp only: sum.case split: if_splits) simp
        then show ?thesis by (rule that(3))
      next
        case (Inr y)
        obtain dp dm where y: "y = (dp, dm)" by (cases y)
        show ?thesis
        proof (cases "br_gate br")
          case True
          with b' Inr y have "after_governor env i cid a ap p m dp dm url_hash act snapshot br d = Inr (d', r)"
            by (simp only: sum.case prod.case if_False not_True_eq_False)
          from that(5)[OF pm(2) op this] show ?thesis .
        next
          case False
          with b' Inr y that(4) show ?thesis
            by (simp only: sum.case prod.case if_True not_False_eq_True)
        qed
      qed
    qed
  qed
qed

lemma refines_boundary:
  assumes "enter_commit_boundary env cid token url_hash act snapshot br d = Inr (d', r)"
    and "db_valid d" and "lives_ok (lives_of d)"
  shows "refines d d' \<and> db_valid d' \<and> (r = BR_ENTERED \<longrightarrow> enters cid d d')"
proof (cases "lock_claimed_context cid token d")
  case None
  with assms show ?thesis by (auto simp: enter_commit_boundary_def refines_refl valid_cmds_unique)
next
  case (Some x)
  obtain i a ap where x: "x = (i, a, ap)" by (cases x)
  from Some x obtain c where c: "row (db_commands d) cid = Some c" "cm_state c = CS_CLAIMED"
    "cm_attempt_id c = i" "row (db_attempts d) i = Some a" by (auto elim: claimed_context)
  note uniq = valid_cmds_unique[OF assms(2)]
  let ?t = "br_validation_at br"
  consider
    "reject_at_boundary env i cid R_BUILD_MISMATCH ?t d = Inr (d', r)"
  | "d' = d" "r = BR_LOST"
  | e where "reject_at_boundary env i cid (fault_reason e) ?t (note_denial i e d) = Inr (d', r)"
  | "reject_at_boundary env i cid R_GOVERNOR_DENIED ?t (record_governor_denial i d) = Inr (d', r)"
  | p m dp dm where "row (db_permits d) i = Some m" "boundary_open d ap a"
      "after_governor env i cid a ap p m dp dm url_hash act snapshot br d = Inr (d', r)"
    by (rule boundary_cases[OF assms(1) Some[unfolded x]])
  then show ?thesis
  proof cases
    case 1
    from refines_reject[OF 1 same_core_refl c(1,3) uniq assms(3)] show ?thesis by simp
  next
    case 2
    with assms(2) uniq show ?thesis by (simp add: refines_refl)
  next
    case (3 e)
    from refines_reject[OF 3 note_denial_same_core c(1,3) uniq assms(3)] show ?thesis by simp
  next
    case 4
    from refines_reject[OF 4 denial_same_core c(1,3) uniq assms(3)] show ?thesis by simp
  next
    case (5 p m dp dm)
    from 5(2) have "at_stage a = READY" by (simp add: boundary_open_def)
    from after_governor_refines[OF 5(3) c(1,3,2) 5(1) c(4) this uniq assms(3)] show ?thesis .
  qed
qed

section \<open>The irreversible action\<close>

text \<open>
  The commit step as the rest of the system sees it: the attempt of the command, whose permit is
  spent, may become confirmed, and nothing else of note happens.
\<close>

definition commits :: "int \<Rightarrow> bool \<Rightarrow> database \<Rightarrow> database \<Rightarrow> bool" where
  "commits i clicked d d' \<longleftrightarrow>
     life_step\<^sup>*\<^sup>* (lives_of d) (lives_of d') \<and> cmds_stable d d' \<and> cmds_unique d'
     \<and> (all_calm d \<longrightarrow> all_calm d') \<and> (\<forall>j. (had confirmed_life (lives_of d') j \<longrightarrow>
               had confirmed_life (lives_of d) j \<or> (clicked \<and> j = i))
          \<and> (had verifying_life (lives_of d') j \<longrightarrow> had verifying_life (lives_of d) j)
          \<and> (had denied_life (lives_of d') j \<longrightarrow> had denied_life (lives_of d) j))"

lemma refines_commits: "refines d d' \<Longrightarrow> commits i clicked d d'"
  by (auto simp: refines_def commits_def quiet_def)

lemma settle_outcome_kind:
  "outcome_kind (settle_outcome i a reply t) \<in> {CONFIRMED_SUBMITTED, UNKNOWN}"
  by (auto simp: settle_outcome_def split: option.splits commit_outcome.splits)

lemma record_live_same_core:
  "record_live_canary_confirmation env i a pid p g release t d = Inr (d', k) \<Longrightarrow> same_core d d'"
  by (erule record_liveE) (auto simp: same_core_def elim!: add_qualificationE)

lemma promote_same_core: "same_core d (promote_canary env i t d)"
  by (auto simp: promote_canary_def intro: same_core_refl record_live_same_core
        split: option.splits sum.splits)

lemma touches_same_core: "touches i cid a c used d e \<Longrightarrow> same_core e f \<Longrightarrow> touches i cid a c used d f"
  unfolding touches_def same_core_def by (simp add: permit_used_def)

lemma settle_confirmed_commits:
  assumes "settle_attempt env i cid (ConfirmedSubmittedOutcome e) t d = Inr (d', r)"
    and "row (db_commands d) cid = Some c" and "cm_attempt_id c = i" and "cm_state c = CS_CLAIMED"
    and "cmds_unique d" and "lives_ok (lives_of d)" and "row (db_attempts d) i = Some a"
    and "at_stage a = COMMITTING"
  shows "commits i True d d' \<and> db_valid d'"
proof -
  from assms(1) obtain d1 d2 where adv: "advance env i cid VERIFYING t d = Inr d1"
    and fin: "finish_attempt env i cid (ConfirmedSubmittedOutcome e) t d1 = Inr d2"
    and pr: "d' = promote_canary env i t d2" and v: "db_valid d'"
    by (auto simp: settle_attempt_def elim!: and_then_okE)
  from adv assms(2,3) obtain a0 st where a0: "row (db_attempts d) i = Some a0"
    "can_transition (at_stage a0) VERIFYING None"
    "row (db_attempts d1) i = Some (staged VERIFYING st a0)"
    "touches i cid (staged VERIFYING st a0) c (permit_used i d) d d1" "db_permits d1 = db_permits d"
    "row (db_commands d1) cid = Some c"
    by (rule advance_touches)
  note t1 = touches_lives[OF a0(4) assms(5)]
  from fin a0(6) assms(3) obtain a1 where a1: "row (db_attempts d1) i = Some a1"
    "can_transition (at_stage a1) FINISHED (Some (Plain (outcome_kind (ConfirmedSubmittedOutcome e))))"
    "touches i cid (finished_attempt (ConfirmedSubmittedOutcome e) t a1)
       (completed_command t (outcome_reason (ConfirmedSubmittedOutcome e)) c) (permit_used i d1) d1 d2"
    by (rule finish_attempt_touches)
  note t3 = touches_same_core[OF a1(3) promote_same_core[of d2 env i t], folded pr]
  note t2 = touches_lives[OF t3 t1(2)]
  note x = lives_of_Some[OF a0(1)]
  have cl: "claimed_in d i" using claimed_in_command[OF assms(5,2)] assms(3,4) by simp
  have s1: "life_step (lives_of d) (lives_of d1)"
    using life_step.ls_advance[where v = "lives_of d" and i = i and t = VERIFYING, OF x] a0 cl assms(4,7,8)
    by (simp add: t1(1) staged_def)
  have l1: "lives_of d1 i = Some \<lparr>lf_application = at_application_id a0, lf_stage = VERIFYING,
      lf_outcome = None, lf_used = permit_used i d, lf_claimed = True\<rparr>"
    by (simp add: t1(1) staged_def assms(4))
  have u1: "permit_used i d1 = permit_used i d" using a0(5) by (rule permit_used_cong)
  have "a1 = staged VERIFYING st a0" using a1(1) a0(3) by simp
  then have l2: "lives_of d' = (lives_of d1)(i \<mapsto> \<lparr>lf_application = at_application_id a0, lf_stage = FINISHED,
      lf_outcome = Some CONFIRMED_SUBMITTED, lf_used = permit_used i d, lf_claimed = False\<rparr>)"
    unfolding t2(1) by (simp add: finished_attempt_reads completed_command_def staged_def u1)
  have s2: "life_step (lives_of d1) (lives_of d')"
    using life_step.ls_finish[where v = "lives_of d1" and i = i and k = CONFIRMED_SUBMITTED, OF l1]
    by (simp add: l2 stage_simps)
  have other: "lives_of d' j = lives_of d j" if "j \<noteq> i" for j using that by (simp add: l2 t1(1))
  have self: "lives_of d' i = Some \<lparr>lf_application = at_application_id a0, lf_stage = FINISHED,
      lf_outcome = Some CONFIRMED_SUBMITTED, lf_used = permit_used i d, lf_claimed = False\<rparr>"
    by (simp add: l2)
  have "had P (lives_of d') j = had P (lives_of d) j" if "j \<noteq> i" for P j
    using other[OF that] by (simp add: had_def)
  moreover have "\<not> had verifying_life (lives_of d') i" "\<not> had denied_life (lives_of d') i"
    using self by (simp_all add: had_def notable_defs)
  moreover have "life_step\<^sup>*\<^sup>* (lives_of d) (lives_of d')" using s1 s2 by auto
  ultimately show ?thesis using v cmds_stable_trans[OF t1(3) t2(3)] t2(2) touches_calm[OF a0(4)] touches_calm[OF t3]
    unfolding commits_def by (metis (full_types))
qed

lemma perform_commit_commits:
  assumes "perform_commit env cid token dp dm act started reply finished d = (clicked, Inr (d', r))"
    and "db_valid d" and "lives_ok (lives_of d)"
  shows "db_valid d' \<and> ((\<not> clicked \<and> refines d d')
     \<or> (\<exists>c. row (db_commands d) cid = Some c \<and> permit_used (cm_attempt_id c) d
           \<and> row (db_attempts d) (cm_attempt_id c) \<noteq> None \<and> commits (cm_attempt_id c) clicked d d'))"
proof (cases "lock_claimed_context cid token d")
  case None
  with assms show ?thesis by (auto simp: perform_commit_def refines_refl valid_cmds_unique)
next
  case (Some x)
  obtain i a ap where x: "x = (i, a, ap)" by (cases x)
  from Some x obtain c where c: "row (db_commands d) cid = Some c" "cm_state c = CS_CLAIMED"
    "cm_attempt_id c = i" "row (db_attempts d) i = Some a" by (auto elim: claimed_context)
  note uniq = valid_cmds_unique[OF assms(2)]
  from assms(1) Some x consider "\<not> clicked" "d' = d"
    | "\<not> clicked" "finish_and_commit env i cid (UnknownOutcome R_FINAL_ACTION_UNCONFIRMED) started d = Inr (d', r)"
    | "clicked" "commit_ready d i a"
        "settle_attempt env i cid (settle_outcome i a reply finished) finished d = Inr (d', r)"
    by (auto simp: perform_commit_def split: if_splits)
  then show ?thesis
  proof cases
    case 1
    with assms(2) uniq show ?thesis by (simp add: refines_refl)
  next
    case 2
    from refines_finish_and_commit[OF 2(2) c(1,3) uniq assms(3)] 2(1) show ?thesis by simp
  next
    case 3
    have "commits i True d d' \<and> db_valid d'"
    proof (cases "\<exists>e. settle_outcome i a reply finished = ConfirmedSubmittedOutcome e")
      case True
      then obtain e where e: "settle_outcome i a reply finished = ConfirmedSubmittedOutcome e" ..
      have st: "at_stage a = COMMITTING" using 3(2) by (simp add: commit_ready_def)
      from settle_confirmed_commits[OF 3(3)[unfolded e] c(1,3,2) uniq assms(3) c(4) st] show ?thesis .
    next
      case False
      with settle_outcome_kind[of i a reply finished]
      obtain r0 where u: "settle_outcome i a reply finished = UnknownOutcome r0"
        by (cases "settle_outcome i a reply finished") auto
      from 3(3) have "finish_and_commit env i cid (UnknownOutcome r0) finished d = Inr (d', r)"
        by (simp add: settle_attempt_def finish_and_commit_def u)
      from refines_finish_and_commit[OF this c(1,3) uniq assms(3)] refines_commits show ?thesis by simp
    qed
    with 3(1,2) c(1,3,4) show ?thesis by (auto simp: commit_ready_def)
  qed
qed

section \<open>One execution\<close>

lemma begin_execution_cases:
  assumes "begin_execution env xi cid d = Inr (d', r)"
  obtains "d' = d"
  | token reason t er where "finish_claimed_before_commit env cid token reason t d = Inr (d', er)" "r = Inl er"
  using assms
  by (simp add: begin_execution_def Let_def
        split: option.splits if_splits sum.splits prod.splits)
     (auto elim!: and_then_okE)

lemma refines_begin_execution:
  assumes "begin_execution env xi cid d = Inr (d', r)" and "db_valid d" and "lives_ok (lives_of d)"
  shows "refines d d' \<and> db_valid d'"
  using assms(1)
proof (cases rule: begin_execution_cases)
  case 1
  with assms(2) show ?thesis by (simp add: refines_refl valid_cmds_unique)
next
  case (2 token reason t er)
  from refines_finish_claimed[OF 2(1) assms(2,3)] show ?thesis .
qed

lemma settle_preflight_kind:
  "settle_preflight reply = PreflightFinished oc \<Longrightarrow> outcome_kind oc \<noteq> CONFIRMED_SUBMITTED"
  by (cases reply) (auto simp: settle_preflight_def dest: parse_preflight_kind split: option.splits)

lemma refines_after_preflight:
  assumes "after_preflight env ec reply t1 t2 t3 d = Inr (d', r)" and "db_valid d" and "lives_ok (lives_of d)"
  shows "refines d d' \<and> db_valid d'"
proof (cases "settle_preflight reply")
  case (PreflightFinished oc)
  show ?thesis
  proof (cases "lock_claimed_context (ec_command ec) (ec_token ec) d")
    case None
    with PreflightFinished assms show ?thesis
      by (simp add: after_preflight_def refines_refl valid_cmds_unique)
  next
    case (Some x)
    obtain i a ap where x: "x = (i, a, ap)" by (cases x)
    from Some x obtain c where c: "row (db_commands d) (ec_command ec) = Some c" "cm_attempt_id c = i"
      by (auto elim: claimed_context)
    from assms(1) PreflightFinished Some x obtain r'
      where "finish_and_commit env i (ec_command ec) oc t1 d = Inr (d', r')"
      by (auto simp: after_preflight_def elim!: and_then_okE)
    from refines_finish_and_commit[OF this c valid_cmds_unique[OF assms(2)] assms(3)
        settle_preflight_kind[OF PreflightFinished]]
    show ?thesis .
  qed
next
  case (PreparedFinalAction act)
  with assms(1) obtain d1 rr where m: "mark_claimed_attempt_ready env (ec_command ec) (ec_token ec) act t2 d = Inr (d1, rr)"
    and k: "(case rr of RR_READY \<Rightarrow> Inr (d1, Inr act) | RR_SUPERSEDED \<Rightarrow> Inr (d1, Inl Superseded)
       | RR_INVALID \<Rightarrow> and_then (finish_claimed_before_commit env (ec_command ec) (ec_token ec)
            R_FORM_CHANGED t3 d1) (\<lambda>(d2, r2). Inr (d2, Inl r2))) = Inr (d', r)"
    by (auto simp: after_preflight_def elim!: and_then_okE)
  from refines_mark_ready[OF m assms(2,3)] have r1: "refines d d1" "db_valid d1" by simp_all
  from k consider "d' = d1"
    | r2 where "finish_claimed_before_commit env (ec_command ec) (ec_token ec) R_FORM_CHANGED t3 d1 = Inr (d', r2)"
    by (cases rr) (auto elim!: and_then_okE)
  then show ?thesis
  proof cases
    case 1
    with r1 show ?thesis by simp
  next
    case (2 r2)
    from refines_finish_claimed[OF 2 r1(2) refines_ok[OF r1(1) assms(3)]] refines_trans[OF r1(1)]
    show ?thesis by blast
  qed
qed

end
