(* ===== verification/Operator_Actions.thy ===== *)
theory Operator_Actions
  imports Attempt_Lives
begin

text \<open>
  The operator's two interventions on attempts. Skipping an application cancels an attempt that has not
  reached the commit boundary (\<open>core/application_mutations.py\<close>), and reconciliation settles an attempt
  whose result is unknown by what the operator saw at the employer (\<open>_reconcile_attempt\<close> of
  \<open>api/routes/applications.py\<close>). Both are steps of the attempt lifecycle.
\<close>

section \<open>Reconciliation\<close>

definition reconciliable :: "attempt \<Rightarrow> bool" where
  "reconciliable a \<longleftrightarrow>
     at_outcome a \<in> {Some UNKNOWN, Some LEGACY_UNVERIFIED}
     \<or> (at_outcome a = None \<and> at_status a = SS_UNKNOWN)"

text \<open>
  The attempt after the verdict. The free text of the reconciliation (note, source, reference) has no
  column in the model.
\<close>

definition reconciled_attempt :: "bool \<Rightarrow> instant \<Rightarrow> attempt \<Rightarrow> attempt" where
  "reconciled_attempt submitted now a =
     a\<lparr>at_reconciled_at := Some now, at_finished_at := Some now, at_stage := FINISHED,
       at_submitted_at := None, at_verification_kind := Some VK_OPERATOR_CONFIRMED,
       at_status := (if submitted then SS_UNKNOWN else SS_FAILED),
       at_outcome := Some (if submitted then OPERATOR_CONFIRMED else FAILED_BEFORE_COMMIT),
       at_reason_code := Some (if submitted then ''OPERATOR_CONFIRMED_SUBMITTED''
                               else ''RECONCILED_NOT_SUBMITTED'')\<rparr>"

definition has_outcome_in :: "int \<Rightarrow> attempt_outcome list \<Rightarrow> database \<Rightarrow> bool" where
  "has_outcome_in app os d =
     list_ex (\<lambda>(j, a). at_application_id a = app \<and> list_ex (\<lambda>k. at_outcome a = Some k) os) (db_attempts d)"

definition reconciled_application :: "bool \<Rightarrow> bool \<Rightarrow> application \<Rightarrow> application" where
  "reconciled_application unresolved terminal ap =
     (let b = ap\<lparr>ap_prepared_revision := None, ap_approved_at := None, ap_approval_source := None\<rparr>
      in if unresolved
         then b\<lparr>ap_status := JS_NEEDS_REVIEW, ap_needs_review_reason := Some ''STALE_INDETERMINATE''\<rparr>
         else if terminal then b\<lparr>ap_status := JS_SUBMITTED, ap_needs_review_reason := None\<rparr>
         else b\<lparr>ap_status := JS_DRAFT, ap_needs_review_reason := None\<rparr>)"

definition reconcile_rows ::
  "int \<Rightarrow> bool \<Rightarrow> instant \<Rightarrow> attempt \<Rightarrow> application \<Rightarrow> database \<Rightarrow> database" where
  "reconcile_rows i submitted now a ap d =
     (let a' = reconciled_attempt submitted now a;
          app = at_application_id a;
          d1 = record_attempt_outcome i a' ''operator_reconciliation'' (set_attempt i a' d);
          ap' = reconciled_application
                  (has_outcome_in app [UNKNOWN, LEGACY_UNVERIFIED] d1)
                  (has_outcome_in app [CONFIRMED_SUBMITTED, ALREADY_APPLIED, OPERATOR_CONFIRMED] d1) ap;
          d2 = set_job_opt (\<lambda>j. j\<lparr>jb_status := ap_status ap'\<rparr>) (Some (ap_job_id ap))
                 (set_application app ap' d1)
      in record_application_event app ''submission_reconciled'' ''operator''
           [(''attempt_number'', DV_INT (at_attempt_number a)),
            (''reason_code'', opt_text (at_reason_code a')),
            (''verification_kind'', DV_STR ''operator_confirmed''),
            (''state'', DV_STR (if submitted then ''unknown'' else ''failed''))] d2)"

definition reconcile_attempt ::
  "worker_env \<Rightarrow> int \<Rightarrow> string \<Rightarrow> instant \<Rightarrow> database \<Rightarrow> fault + database" where
  "reconcile_attempt env i verdict now d =
     and_then (lift_opt (HttpFault 404) (row (db_attempts d) i)) (\<lambda>a.
     and_then (lift_opt (HttpFault 404) (row (db_applications d) (at_application_id a))) (\<lambda>ap.
     and_then (ensure (reconciliable a) (HttpFault 409)) (\<lambda>_.
     and_then (ensure (verdict \<in> {''confirmed_submitted'', ''confirmed_not_submitted''}) (HttpFault 422)) (\<lambda>_.
       let submitted = (verdict = ''confirmed_submitted'');
           d1 = reconcile_rows i submitted now a ap d
       in and_then (case command_of i d1 of
                      None \<Rightarrow> Inr d1
                    | Some (k, c) \<Rightarrow>
                        enqueue_control_plane_attempt_transition (we_event_ref env)
                          (reconciled_attempt submitted now a) c now False d1)
            commit_db))))"

text \<open>The attempt the deprecated endpoint of an application reconciles: its latest one.\<close>

definition lock_reconciliation_attempt :: "int \<Rightarrow> database \<Rightarrow> int option" where
  "lock_reconciliation_attempt app d =
     (case row (db_applications d) app of
        None \<Rightarrow> None
      | Some ap \<Rightarrow> map_option fst (latest_attempt app d))"

section \<open>Rejection\<close>

definition reject_application ::
  "(lock_point \<Rightarrow> bool) \<Rightarrow> int \<Rightarrow> string \<Rightarrow> instant \<Rightarrow> database \<Rightarrow> fault + database" where
  "reject_application busy app reason now d =
     and_then (lock_application_for_mutation busy app MI_TERMINAL None d) (\<lambda>lm.
     and_then (transition_locked_application_to_skipped lm ''operator'' ''OPERATOR_CANCELLED'' reason
                 ''application_rejected'' now d) (\<lambda>(d', changed). commit_db d'))"

section \<open>Both are steps of the lifecycle\<close>

text \<open>A change of attempt \<open>i\<close> that leaves every command as it is.\<close>

lemma attempt_change_lives:
  assumes "row (db_attempts d) i = Some a" and "db_commands d' = db_commands d"
    and "db_permits d' = db_permits d"
    and "\<And>j. row (db_attempts d') j = (if j = i then Some a' else row (db_attempts d) j)"
    and "at_application_id a' = at_application_id a"
  shows "lives_of d' = (lives_of d)(i \<mapsto> \<lparr>lf_application = at_application_id a, lf_stage = at_stage a',
     lf_outcome = at_outcome a', lf_used = permit_used i d, lf_claimed = claimed_in d i\<rparr>)"
  using assms by (intro ext) (simp add: lives_of_def permit_used_def claimed_in_def)

lemma reconcile_rows_reads:
  "db_attempts (reconcile_rows i s now a ap d) = put_row i (reconciled_attempt s now a) (db_attempts d)"
  "db_commands (reconcile_rows i s now a ap d) = db_commands d"
  "db_permits (reconcile_rows i s now a ap d) = db_permits d"
  by (simp_all add: reconcile_rows_def Let_def db_simps)

lemma reconcile_attemptE:
  assumes "reconcile_attempt env i verdict now d = Inr d'"
  obtains a ap s where "row (db_attempts d) i = Some a"
    "row (db_applications d) (at_application_id a) = Some ap" "reconciliable a" "db_valid d'"
    "s \<longleftrightarrow> verdict = ''confirmed_submitted''" "s \<or> verdict = ''confirmed_not_submitted''" "same_core (reconcile_rows i s now a ap d) d'"
proof -
  from assms obtain a ap d2 where a: "row (db_attempts d) i = Some a"
      "row (db_applications d) (at_application_id a) = Some ap" "reconciliable a"
    and vd: "verdict = ''confirmed_submitted'' \<or> verdict = ''confirmed_not_submitted''"
    and q: "(case command_of i (reconcile_rows i (verdict = ''confirmed_submitted'') now a ap d) of
         None \<Rightarrow> Inr (reconcile_rows i (verdict = ''confirmed_submitted'') now a ap d)
       | Some (k, c) \<Rightarrow> enqueue_control_plane_attempt_transition (we_event_ref env)
           (reconciled_attempt (verdict = ''confirmed_submitted'') now a) c now False
           (reconcile_rows i (verdict = ''confirmed_submitted'') now a ap d)) = Inr d2"
    and c: "commit_db d2 = Inr d'"
    unfolding reconcile_attempt_def Let_def by (elim and_then_okE) auto
  have "same_core (reconcile_rows i (verdict = ''confirmed_submitted'') now a ap d) d2"
    using q enqueue_same_core by (auto split: option.splits)
  with that[OF a _ refl vd] c show thesis by (auto simp: commit_db_def split: if_splits)
qed

text \<open>
  Reconciliation of attempt \<open>i\<close> as the rest of the system sees it; it is the only transaction that can
  take back a spent attempt, and only on the verdict \<open>denied\<close>.
\<close>

definition settles :: "int \<Rightarrow> bool \<Rightarrow> database \<Rightarrow> database \<Rightarrow> bool" where
  "settles i denied d d' \<longleftrightarrow>
     life_step\<^sup>*\<^sup>* (lives_of d) (lives_of d') \<and> cmds_stable d d' \<and> cmds_unique d'
     \<and> (all_calm d \<longrightarrow> all_calm d') \<and> (\<forall>j.
          (had confirmed_life (lives_of d') j \<longrightarrow> had confirmed_life (lives_of d) j)
          \<and> (had verifying_life (lives_of d') j \<longrightarrow> had verifying_life (lives_of d) j)
          \<and> (had denied_life (lives_of d') j \<longrightarrow> had denied_life (lives_of d) j \<or> (denied \<and> j = i)))"

lemma reconcile_settles:
  assumes "reconcile_attempt env i verdict now d = Inr d'" and "db_valid d" and "lives_ok (lives_of d)"
    and "all_calm d"
  shows "settles i (verdict = ''confirmed_not_submitted'') d d' \<and> db_valid d'"
proof -
  from assms(1) obtain a ap s where a: "row (db_attempts d) i = Some a" "reconciliable a"
    and v: "db_valid d'" and vd: "s \<or> verdict = ''confirmed_not_submitted''"
    and core: "same_core (reconcile_rows i s now a ap d) d'"
    by (rule reconcile_attemptE)
  have rows: "row (db_attempts d') j = (if j = i then Some (reconciled_attempt s now a) else row (db_attempts d) j)"
    "db_commands d' = db_commands d" "db_permits d' = db_permits d" for j
    using core by (simp_all add: same_core_def reconcile_rows_reads db_simps)
  note x = lives_of_Some[OF a(1)]
  have ok: "life_ok (the (lives_of d i))" using lives_okD[OF assms(3) x] x by simp
  have fin: "at_stage a = FINISHED" "at_outcome a = Some UNKNOWN"
  proof -
    have c: "calm a" using assms(4) a(1) by (auto simp: all_calm_def)
    have st: "at_stage a = FINISHED \<longleftrightarrow> at_outcome a \<noteq> None"
      using valid_attempt[OF assms(2) a(1)] by (simp add: attempt_check_def)
    with c a(2) show f: "at_stage a = FINISHED" by (auto simp: reconciliable_def calm_def)
    with a(2) st have "at_outcome a \<in> {Some UNKNOWN, Some LEGACY_UNVERIFIED}"
      by (auto simp: reconciliable_def)
    with ok f x show "at_outcome a = Some UNKNOWN" by (auto simp: life_ok_def)
  qed
  let ?k = "if s then OPERATOR_CONFIRMED else FAILED_BEFORE_COMMIT"
  have l: "lives_of d' = (lives_of d)(i \<mapsto> \<lparr>lf_application = at_application_id a, lf_stage = FINISHED,
     lf_outcome = Some ?k, lf_used = permit_used i d, lf_claimed = claimed_in d i\<rparr>)"
    using attempt_change_lives[OF a(1) rows(2,3,1)] by (simp add: reconciled_attempt_def)
  have "life_step (lives_of d) (lives_of d')"
    using life_step.ls_operator[where v = "lives_of d" and i = i and k = ?k, OF x] fin
    by (simp add: l)
  moreover have "cmds_stable d d'" "cmds_unique d'"
    using rows(2) valid_cmds_unique[OF v] by (simp_all add: cmds_stable_def)
  moreover have "all_calm d'" using assms(4) rows(1)
    by (simp add: all_calm_def calm_def reconciled_attempt_def)
  moreover have "had P (lives_of d') j = had P (lives_of d) j" if "j \<noteq> i" for P j
    using that by (simp add: l had_def)
  moreover have "\<not> had confirmed_life (lives_of d') i" "\<not> had verifying_life (lives_of d') i"
    by (simp_all add: l had_def notable_defs)
  moreover have "\<not> had denied_life (lives_of d') i" if s
    using that by (simp add: l had_def notable_defs)
  ultimately show ?thesis using v vd unfolding settles_def by (metis (full_types) r_into_rtranclp)
qed

text \<open>The command a cancellation closes is the attempt's own.\<close>

lemma cancel_lives:
  assumes "row (db_attempts d) i = Some a" and "cmds_unique d" and "precommit (at_stage a)"
    and "\<not> permit_used i d"
    and "lm_command_id lm = map_option fst (command_of i d)" and "distinct (map fst (db_commands d))"
  shows "refines d (cancel_attempt lm actor reason now i a d)" (is "refines d ?d'")
proof (cases "command_of i d")
  case None
  then have none: "\<not> claimed_in d i"
    by (auto simp: command_of_def claimed_in_def find_None_iff dest: row_in_set)
  have rows: "row (db_attempts ?d') j = (if j = i then Some (cancelled_attempt reason now a) else row (db_attempts d) j)"
    "db_commands ?d' = db_commands d" "db_permits ?d' = db_permits d" for j
    using assms(5) None by (simp_all add: db_simps) (simp add: cancel_attempt_def Let_def db_simps set_command_opt_def)
  note x = lives_of_Some[OF assms(1)]
  have l: "lives_of ?d' = (lives_of d)(i \<mapsto> \<lparr>lf_application = at_application_id a, lf_stage = FINISHED,
     lf_outcome = Some FAILED_BEFORE_COMMIT, lf_used = False, lf_claimed = False\<rparr>)"
    using attempt_change_lives[OF assms(1) rows(2,3,1)] none assms(4) by (simp add: cancelled_attempt_def)
  have step: "life_step (lives_of d) (lives_of ?d')"
    using life_step.ls_finish[where v = "lives_of d" and i = i and k = FAILED_BEFORE_COMMIT, OF x] assms(3,4) none
    by (cases "at_stage a") (simp_all add: l precommit_def stage_simps)
  have "quiet (lives_of d) (lives_of ?d')" unfolding l by (rule quiet_update) (simp_all add: notable_defs)
  moreover have "cmds_stable d ?d'" "cmds_unique ?d'"
    using rows(2) assms(2) by (simp_all add: cmds_stable_def cmds_unique_def)
  moreover have "all_calm d \<longrightarrow> all_calm ?d'" using rows(1)
    by (simp add: all_calm_def calm_def cancelled_attempt_def)
  ultimately show ?thesis using step by (simp add: refines_def r_into_rtranclp)
next
  case (Some kc)
  obtain k c where kc: "kc = (k, c)" by (cases kc)
  from Some kc have "(k, c) \<in> set (db_commands d)" and c: "cm_attempt_id c = i"
    by (auto simp: command_of_def dest: find_Some_cond)
  with assms(6) have rc: "row (db_commands d) k = Some c" by (intro set_row)
  have touch: "touches i k (cancelled_attempt reason now a) (cancelled_command reason now c) False d ?d'"
    using assms(4,5) Some kc
    by (intro touchesI[OF assms(1) rc c])
       (simp_all add: cancelled_command_def cancelled_attempt_def c calm_def db_simps permit_used_def,
        simp add: cancel_attempt_def Let_def db_simps set_command_opt_def rc cancelled_command_def)
  note x = lives_of_Some[OF assms(1)]
  let ?y = "\<lparr>lf_application = at_application_id a, lf_stage = FINISHED,
     lf_outcome = Some FAILED_BEFORE_COMMIT, lf_used = False, lf_claimed = False\<rparr>"
  have step: "life_step (lives_of d) ((lives_of d)(i \<mapsto> ?y))"
    using life_step.ls_finish[where v = "lives_of d" and i = i and k = FAILED_BEFORE_COMMIT, OF x] assms(3,4)
    by (cases "at_stage a") (simp_all add: precommit_def stage_simps)
  show ?thesis
    by (intro refines_touch[OF touch assms(2) _ step])
       (simp_all add: cancelled_attempt_def cancelled_command_def notable_defs)
qed

text \<open>Rejecting an application is a step of the lifecycle that spends nothing and confirms nothing.\<close>

lemma skip_same_core:
  "same_core d1 (skip_application lm actor reason rejection event now a d1)"
  "same_core d1 (backfill_terminal_skip lm now job d1)"
  by (simp_all add: same_core_def db_simps)

lemma refines_reject_application:
  assumes "reject_application busy app reason now d = Inr d'" and "db_valid d"
  shows "refines d d' \<and> db_valid d'"
proof -
  from assms(1) obtain lm b
    where lock: "lock_application_for_mutation busy app MI_TERMINAL None d = Inr lm"
      and skip: "transition_locked_application_to_skipped lm ''operator'' ''OPERATOR_CANCELLED'' reason
        ''application_rejected'' now d = Inr (d', b)" and v: "db_valid d'"
    unfolding reject_application_def by (elim and_then_okE) (auto split: if_splits)
  note uniq = valid_cmds_unique[OF assms(2)]
  have keys: "distinct (map fst (db_commands d))" using assms(2) by (simp add: db_valid_def commands_valid_def)
  have r1: "refines d d1" if "cancel_active_attempt lm ''operator'' ''OPERATOR_CANCELLED'' now d = Inr (d1, c)" for d1 c
    using that
  proof (cases rule: cancel_active_cases)
    case 1
    with uniq show ?thesis by (simp add: refines_refl)
  next
    case (2 i a)
    note act = locked_active[OF lock assms(2) 2(2-4)]
    show ?thesis unfolding 2(7) by (rule cancel_lives[OF 2(3) uniq 2(4) act(3)[OF 2(6)] act(1) keys])
  qed
  from skip show ?thesis
  proof (cases rule: skip_cases)
    case (1 d1 a job)
    have u: "cmds_unique d1" using r1[OF 1(1)] by (simp add: refines_def)
    show ?thesis using refines_trans[OF r1[OF 1(1)] refines_same[OF u skip_same_core(2)]] v 1(5) by blast
  next
    case (2 d1 c a)
    have u: "cmds_unique d1" using r1[OF 2(1)] by (simp add: refines_def)
    show ?thesis using refines_trans[OF r1[OF 2(1)] refines_same[OF u skip_same_core(1)]] v 2(4) by blast
  qed
qed

end
