(* ===== verification/Submission_Service.thy ===== *)
theory Submission_Service
  imports Operator_Actions Adapter_Authority
begin

text \<open>
  Admission of final-submit commands (\<open>core/submission_service.py\<close>): the checks on client release,
  runtime, plan, model, adapter and authority, the transaction that creates an attempt with its permit
  and command, idempotent replay, and the batch entry point.
\<close>

section \<open>Requests and readings\<close>

record client_release =
  cr_build_sha :: string
  cr_ui_asset_digest :: string
  cr_source_digest :: string
  cr_protocol_version :: string
  cr_boot_id :: string

record submission_request =
  rq_application_id :: int
  rq_idempotency_key :: string
  rq_application_revision :: int
  rq_form_plan_id :: string
  rq_client_release :: client_release
  rq_authority_expires_at :: "instant option"
  rq_authority_kind :: string
  rq_policy_decision_id :: "int option"
  rq_canary_authorization_id :: "int option"

record created_command =
  cc_application_id :: int
  cc_attempt_id :: int
  cc_command_id :: int
  cc_replayed :: bool

text \<open>
  The part of the capabilities report that admission reads. A section that is not a mapping is \<open>None\<close>;
  the lists hold the textual entries of the reported lists.
\<close>

record runtime_caps =
  rc_release :: "(client_release \<times> string) option"
  rc_submission :: "(bool \<times> string list) option"
  rc_automation :: "(bool \<times> string list) option"
  rc_llm :: "(bool \<times> string option \<times> string option \<times> bool \<times> string) option"

text \<open>
  What admission reads from other services: the qualification of a local model, SHA-256, the check of a
  profile snapshot (the reason it is refused), the descriptor resolver the caller may pass, the portal
  session, the environment of automation policy and adapter qualification, the permit lifetime and a
  nonce per attempt.
\<close>

record admission_env =
  sv_policy :: plan_policy
  sv_automation :: policy_env
  sv_model_qualified :: "string option \<Rightarrow> string option \<Rightarrow> bool \<Rightarrow> string option \<Rightarrow> bool"
  sv_sha256 :: "string \<Rightarrow> string"
  sv_profile_error :: "int \<Rightarrow> string option"
  sv_descriptor_resolver :: "(string \<Rightarrow> adapter_descriptor option) option"
  sv_session_ready :: "string \<Rightarrow> adapter_descriptor \<Rightarrow> bool"
  sv_permit_ttl :: int
  sv_nonce :: "int \<Rightarrow> string"
  sv_operator_auth :: bool
  sv_serialized :: bool

abbreviation sv_adapter :: "admission_env \<Rightarrow> adapter_env" where
  "sv_adapter env \<equiv> pe_adapter (sv_automation env)"

abbreviation reject :: "string \<Rightarrow> fault + 'a" where
  "reject r \<equiv> Inl (AdmissionFault r)"

abbreviation require :: "bool \<Rightarrow> string \<Rightarrow> fault + unit" where
  "require b r \<equiv> ensure b (AdmissionFault r)"

section \<open>Runtime and release\<close>

definition release_digest_input :: "client_release \<Rightarrow> string" where
  "release_digest_input r =
     cr_build_sha r @ [char_of (0 :: nat)] @ cr_source_digest r @ [char_of (0 :: nat)]
     @ cr_protocol_version r @ [char_of (0 :: nat)]"

definition runtime_release :: "admission_env \<Rightarrow> runtime_caps \<Rightarrow> string" where
  "runtime_release env caps =
     (case rc_release caps of
        None \<Rightarrow> ''unknown''
      | Some (r, release_id) \<Rightarrow>
          (let v = (if release_id = [] then ''unknown'' else release_id) in
           if v \<noteq> sv_sha256 env (release_digest_input r) then ''unknown'' else take 64 v))"

definition alnum_char :: "char \<Rightarrow> bool" where
  "alnum_char c =
     (let n = (of_char c :: nat)
      in (48 \<le> n \<and> n \<le> 57) \<or> (65 \<le> n \<and> n \<le> 90) \<or> (97 \<le> n \<and> n \<le> 122)
         \<or> n \<in> {170, 178, 179, 181, 185, 186, 188, 189, 190}
         \<or> (192 \<le> n \<and> n \<noteq> 215 \<and> n \<noteq> 247))"

definition py_isalnum :: "string \<Rightarrow> bool" where
  "py_isalnum s \<longleftrightarrow> s \<noteq> [] \<and> list_all alnum_char s"

definition bounded_reason :: "string \<Rightarrow> bool" where
  "bounded_reason s \<longleftrightarrow> 1 \<le> length s \<and> length s \<le> 64"

definition only_adapter_missing :: "string list \<Rightarrow> bool" where
  "only_adapter_missing rs \<longleftrightarrow> rs \<noteq> [] \<and> list_all (\<lambda>r. r = ''ADAPTER_NOT_QUALIFIED'') rs"

definition first_or :: "string \<Rightarrow> string list \<Rightarrow> string" where
  "first_or dflt rs = (case rs of [] \<Rightarrow> dflt | r # rs' \<Rightarrow> r)"

definition require_submission :: "bool \<Rightarrow> runtime_caps \<Rightarrow> fault + unit" where
  "require_submission bootstrap caps =
     (let (allowed, reasons) = (case rc_submission caps of None \<Rightarrow> (False, []) | Some x \<Rightarrow> x) in
      if allowed \<or> (bootstrap \<and> only_adapter_missing reasons) then Inr ()
      else reject (first_or ''RUNTIME_NOT_READY'' (filter bounded_reason reasons)))"

definition require_automation :: "bool \<Rightarrow> runtime_caps \<Rightarrow> fault + unit" where
  "require_automation bootstrap caps =
     (let (ready, reasons) = (case rc_automation caps of None \<Rightarrow> (False, []) | Some x \<Rightarrow> x);
          bounded = filter (\<lambda>r. bounded_reason r \<and> py_isalnum (filter (\<lambda>c. c \<noteq> CHR ''_'') r)) reasons in
      if ready \<or> (bootstrap \<and> only_adapter_missing bounded) then Inr ()
      else reject (first_or ''AUTOMATION_SUBMISSION_NOT_READY'' bounded))"

definition require_runtime :: "admission_env \<Rightarrow> runtime_caps \<Rightarrow> string \<Rightarrow> fault + string" where
  "require_runtime env caps kind =
     (let bootstrap = (kind = ''qualification_canary'') in
      and_then (require_submission bootstrap caps) (\<lambda>_.
      and_then (require_automation bootstrap caps) (\<lambda>_.
      let r = runtime_release env caps in
      and_then (require (r \<notin> {''unknown'', ''unavailable''}) ''RUNTIME_NOT_READY'') (\<lambda>_. Inr r))))"

definition require_matching_client_release :: "runtime_caps \<Rightarrow> client_release \<Rightarrow> fault + unit" where
  "require_matching_client_release caps c =
     (case rc_release caps of
        None \<Rightarrow> reject ''RUNTIME_NOT_READY''
      | Some (r, release_id) \<Rightarrow>
          (if cr_protocol_version c = [] \<or> cr_protocol_version c \<noteq> cr_protocol_version r
           then reject ''PROTOCOL_MISMATCH''
           else if list_ex (\<lambda>f. f c = [] \<or> f c \<noteq> f r)
                     [cr_build_sha, cr_ui_asset_digest, cr_source_digest, cr_boot_id]
           then reject ''BUILD_MISMATCH''
           else Inr ()))"

section \<open>Replay\<close>

fun authority_text :: "authority_kind \<Rightarrow> string" where
  "authority_text AK_EXPLICIT_OPERATOR = ''explicit_operator''"
| "authority_text AK_CONTROL_PLANE = ''control_plane''"
| "authority_text AK_QUALIFIED_AUTOPILOT = ''qualified_autopilot''"
| "authority_text AK_QUALIFICATION_CANARY = ''qualification_canary''"
| "authority_text AK_LEGACY = ''legacy''"

definition same_request :: "submission_request \<Rightarrow> attempt \<Rightarrow> database \<Rightarrow> bool" where
  "same_request rq a d \<longleftrightarrow>
     at_application_id a = rq_application_id rq
     \<and> at_application_revision a = rq_application_revision rq
     \<and> map_option pl_plan_id (plan_of_attempt d a) = Some (rq_form_plan_id rq)
     \<and> authority_text (at_authority_kind a) = rq_authority_kind rq
     \<and> at_policy_decision_id a = rq_policy_decision_id rq
     \<and> at_canary_authorization_id a = rq_canary_authorization_id rq"

definition find_replay :: "submission_request \<Rightarrow> database \<Rightarrow> fault + created_command option" where
  "find_replay rq d =
     (case find (\<lambda>(k, c). cm_idempotency_key c = rq_idempotency_key rq) (db_commands d) of
        None \<Rightarrow> Inr None
      | Some (k, c) \<Rightarrow>
          and_then (lift_opt MissingRow (row (db_attempts d) (cm_attempt_id c))) (\<lambda>a.
            if \<not> same_request rq a d then reject ''IDEMPOTENCY_KEY_CONFLICT''
            else Inr (Some \<lparr>cc_application_id = at_application_id a, cc_attempt_id = cm_attempt_id c,
                            cc_command_id = k, cc_replayed = True\<rparr>)))"

section \<open>The reviewed application\<close>

definition check_application :: "submission_request \<Rightarrow> application \<Rightarrow> fault + unit" where
  "check_application rq ap =
     and_then (require (rq_application_revision rq = ap_revision ap) ''APPLICATION_REVISION_CHANGED'') (\<lambda>_.
     and_then (require (ap_status ap = JS_DRAFT) ''APPLICATION_NOT_ELIGIBLE'') (\<lambda>_.
       require (preparation_is_current ap) ''APPLICATION_REVIEW_REQUIRED''))"

definition check_history :: "int \<Rightarrow> application \<Rightarrow> database \<Rightarrow> fault + unit" where
  "check_history app ap d =
     and_then (require (\<not> has_outcome_in app immutable_outcomes d) ''APPLICATION_NOT_ELIGIBLE'') (\<lambda>_.
     and_then (case latest_attempt app d of
                 None \<Rightarrow> Inr ()
               | Some (j, x) \<Rightarrow>
                   (if at_stage x \<noteq> FINISHED then Inr ()
                    else if at_outcome x \<in> {Some FAILED_BEFORE_COMMIT, Some DRAFT_ONLY}
                    then require (ap_approval_source ap = Some ''retry_prepare'') ''RETRY_PREPARATION_REQUIRED''
                    else reject ''APPLICATION_NOT_ELIGIBLE'')) (\<lambda>_.
       require (\<not> list_ex (unfinished \<circ> snd) (attempts_of app d)) ''SUBMISSION_ALREADY_ACTIVE''))"

section \<open>The reviewed plan\<close>

definition answer_policy_version :: string where
  "answer_policy_version = ''answer-policy-v1''"

definition is_qualified_material_identity ::
  "admission_env \<Rightarrow> string option \<Rightarrow> string option \<Rightarrow> bool \<Rightarrow> string option \<Rightarrow> string option \<Rightarrow> bool" where
  "is_qualified_material_identity env provider model is_local digest prompt \<longleftrightarrow>
     sv_model_qualified env provider model is_local digest \<and> prompt = Some ''application-materials-v1''"

definition check_plan_row :: "int \<Rightarrow> plan_row option \<Rightarrow> fault + plan_row" where
  "check_plan_row app plan =
     (case plan of
        None \<Rightarrow> reject ''FORM_PLAN_NOT_FOUND''
      | Some p \<Rightarrow>
          and_then (require (pl_application_id p = app) ''FORM_PLAN_NOT_FOUND'') (\<lambda>_.
          and_then (require (pl_invalidated_at p = None) ''FORM_CHANGED'') (\<lambda>_.
          and_then (require (case pl_profile_version p of None \<Rightarrow> False | Some v \<Rightarrow> 1 \<le> v)
                      ''PROFILE_VERSION_CHANGED'') (\<lambda>_.
          and_then (require (pl_session_verified_at p \<noteq> None) ''SESSION_EXPIRED'') (\<lambda>_.
          and_then (require (truthy (pl_attached_cv_id p) \<and> truthy (pl_attached_cv_hash p)
                             \<and> pl_attachment_verified p) ''ATTACHMENT_UNVERIFIED'') (\<lambda>_.
            Inr p))))))"

definition check_material :: "admission_env \<Rightarrow> application \<Rightarrow> form_plan \<Rightarrow> fault + unit" where
  "check_material env ap dp =
     and_then (require (ap_material_eligible ap = Some True) ''MATERIAL_NOT_ELIGIBLE'') (\<lambda>_.
     and_then (require (is_qualified_material_identity env (ap_material_model_provider ap)
                  (ap_material_model_name ap) True (ap_material_model_digest ap)
                  (ap_material_prompt_version ap)) ''MATERIAL_MODEL_NOT_QUALIFIED'') (\<lambda>_.
       require (truthy (ap_selected_cv_hash ap) \<and> ap_selected_cv_hash ap = Some (fp_selected_cv_hash dp))
         ''ATTACHMENT_CHANGED''))"

definition check_plan_times :: "submission_request \<Rightarrow> form_plan \<Rightarrow> instant \<Rightarrow> fault + unit" where
  "check_plan_times rq dp now =
     and_then (require (case rq_authority_expires_at rq of None \<Rightarrow> True | Some t \<Rightarrow> now < t) ''COMMAND_EXPIRED'') (\<lambda>_.
     and_then (require (plan_is_expired dp (Aware now) \<noteq> Some True) ''FORM_PLAN_EXPIRED'') (\<lambda>_.
     and_then (require (fp_created_at dp \<le> now) ''FORM_PLAN_BLOCKED'') (\<lambda>_.
       require (fp_session_verified_at dp \<le> now) ''SESSION_EXPIRED'')))"

definition check_plan_binding ::
  "submission_request \<Rightarrow> application \<Rightarrow> plan_row \<Rightarrow> form_plan \<Rightarrow> fault + unit" where
  "check_plan_binding rq ap p dp =
     and_then (require (fp_plan_id dp = rq_form_plan_id rq) ''FORM_PLAN_NOT_FOUND'') (\<lambda>_.
     and_then (require (pl_application_revision p = rq_application_revision rq)
                 ''APPLICATION_REVISION_CHANGED'') (\<lambda>_.
     and_then (require (pl_application_revision p = ap_revision ap) ''APPLICATION_REVISION_CHANGED'') (\<lambda>_.
     and_then (require (ap_selected_cv_id ap = Some (pl_selected_cv_id p)) ''CV_SELECTION_CHANGED'') (\<lambda>_.
       require (ap_profile_version ap = pl_profile_version p) ''PROFILE_VERSION_CHANGED''))))"

text \<open>
  The last block of \<open>_validate_plan\<close>. Its checks after \<open>ready_for_permit_at\<close> repeat what that method
  has established.
\<close>

definition check_plan_ready :: "form_plan \<Rightarrow> instant \<Rightarrow> fault + unit" where
  "check_plan_ready dp now =
     and_then (require (fp_blockers dp = []) ''FORM_PLAN_BLOCKED'') (\<lambda>_.
     and_then (require (fp_created_at dp \<le> fp_session_verified_at dp
                        \<and> fp_session_verified_at dp \<le> fp_expires_at dp) ''SESSION_EXPIRED'') (\<lambda>_.
     and_then (if ready_for_permit_at dp (Aware now) = Some True then Inr ()
               else if \<not> fp_attachment_verified dp \<or> fp_attached_cv_id dp \<noteq> fp_selected_cv_id dp
                       \<or> fp_attached_cv_hash dp \<noteq> fp_selected_cv_hash dp
               then reject ''ATTACHMENT_UNVERIFIED'' else reject ''FORM_PLAN_BLOCKED'') (\<lambda>_.
       require (fp_attachment_verified dp \<and> fp_attached_cv_id dp \<noteq> [] \<and> fp_attached_cv_hash dp \<noteq> []
                \<and> fp_attached_cv_id dp = fp_selected_cv_id dp
                \<and> fp_attached_cv_hash dp = fp_selected_cv_hash dp) ''ATTACHMENT_UNVERIFIED'')))"

definition validate_admission_plan ::
  "admission_env \<Rightarrow> int \<Rightarrow> application \<Rightarrow> plan_row option \<Rightarrow> submission_request \<Rightarrow> instant
     \<Rightarrow> fault + plan_row \<times> form_plan" where
  "validate_admission_plan env app ap plan rq now =
     and_then (check_plan_row app plan) (\<lambda>p.
     and_then (reconstruct_persisted_form_plan (sv_policy env) p) (\<lambda>dp.
     and_then (require (fp_answer_policy_version dp = answer_policy_version) ''ANSWER_POLICY_CHANGED'') (\<lambda>_.
     and_then (check_material env ap dp) (\<lambda>_.
     and_then (check_plan_times rq dp now) (\<lambda>_.
     and_then (check_plan_binding rq ap p dp) (\<lambda>_.
     and_then (check_plan_ready dp now) (\<lambda>_. Inr (p, dp))))))))"

definition require_model_binding :: "admission_env \<Rightarrow> application \<Rightarrow> form_plan \<Rightarrow> runtime_caps \<Rightarrow> fault + unit" where
  "require_model_binding env ap dp caps =
     (case rc_llm caps of
        None \<Rightarrow> reject ''RUNTIME_NOT_READY''
      | Some (ready, provider, model, is_local, digest) \<Rightarrow>
          (if \<not> ready \<or> \<not> sv_model_qualified env provider model is_local (Some digest)
           then reject ''RUNTIME_NOT_READY''
           else if (ap_material_model_provider ap, ap_material_model_name ap, ap_material_model_digest ap)
                   \<noteq> (Some ''ollama'', Some ''qwen2.5:7b'', Some digest)
           then reject ''LLM_MODEL_CHANGED''
           else if uses_local_llm dp
                   \<and> (fp_llm_prompt_version dp \<noteq> Some ''form-resolution-v1''
                      \<or> fp_llm_model_provider dp \<noteq> Some ''ollama''
                      \<or> fp_llm_model_name dp \<noteq> Some ''qwen2.5:7b''
                      \<or> fp_llm_model_digest dp \<noteq> Some digest)
           then reject ''LLM_MODEL_CHANGED'' else Inr ()))"

definition validate_adapter :: "adapter_descriptor option \<Rightarrow> plan_row \<Rightarrow> fault + adapter_descriptor" where
  "validate_adapter descriptor p =
     (case descriptor of
        None \<Rightarrow> reject ''ADAPTER_NOT_QUALIFIED''
      | Some a \<Rightarrow>
          (if ad_platform a \<noteq> pl_adapter_name p \<or> ad_adapter_version a \<noteq> pl_adapter_version p
              \<or> ad_selector_version a \<noteq> pl_selector_version p
           then reject ''ADAPTER_VERSION_CHANGED''
           else if \<not> allows_final_execution a then reject ''ADAPTER_NOT_QUALIFIED''
           else if \<not> qualifies_form_fingerprint (pl_fingerprint p) a then reject ''FORM_CHANGED''
           else Inr a))"

section \<open>Authority\<close>

record admission_authority =
  au_kind :: authority_kind
  au_decision :: "(int \<times> decision_row) option"
  au_canary :: "(int \<times> canary_row) option"
  au_expires_at :: "instant option"

definition min_expiry :: "instant \<Rightarrow> instant option \<Rightarrow> instant" where
  "min_expiry t requested = (case requested of None \<Rightarrow> t | Some r \<Rightarrow> min t r)"

text \<open>A qualification or policy error becomes an admission rejection with the same reason.\<close>

definition as_admission :: "fault + 'a \<Rightarrow> fault + 'a" where
  "as_admission m =
     (case m of Inl (QualificationFault r) \<Rightarrow> reject r | _ \<Rightarrow> m)"

definition as_policy_admission :: "fault + 'a \<Rightarrow> fault + 'a" where
  "as_policy_admission m = (case m of Inl (PolicyFault r) \<Rightarrow> reject r | _ \<Rightarrow> m)"

definition canary_authority ::
  "admission_env \<Rightarrow> submission_request \<Rightarrow> int \<Rightarrow> application \<Rightarrow> int \<Rightarrow> plan_row \<Rightarrow> string \<Rightarrow> string \<Rightarrow> instant
     \<Rightarrow> database \<Rightarrow> fault + admission_authority" where
  "canary_authority env rq app ap pid p url release now d =
     (case (rq_policy_decision_id rq, rq_canary_authorization_id rq) of
        (None, Some k) \<Rightarrow>
          and_then (lift_opt (AdmissionFault ''CANARY_AUTHORIZATION_REQUIRED'') (row (db_canaries d) k)) (\<lambda>c0.
          and_then (as_admission (validate_qualification_canary_authorization (sv_adapter env) k
                      (cy_authorization_digest c0) app ap pid p url release False now d)) (\<lambda>c.
            Inr \<lparr>au_kind = AK_QUALIFICATION_CANARY, au_decision = None, au_canary = Some (k, c),
                 au_expires_at = Some (min_expiry (cy_expires_at c) (rq_authority_expires_at rq))\<rparr>))
      | _ \<Rightarrow> reject ''SUBMISSION_AUTHORITY_INVALID'')"

definition decision_authority ::
  "admission_env \<Rightarrow> submission_request \<Rightarrow> int \<Rightarrow> application \<Rightarrow> int \<Rightarrow> plan_row \<Rightarrow> instant
     \<Rightarrow> database \<Rightarrow> fault + admission_authority" where
  "decision_authority env rq app ap pid p now d =
     and_then (lift_opt (AdmissionFault ''AUTOMATION_DECISION_REQUIRED'') (rq_policy_decision_id rq)) (\<lambda>k.
     and_then (lift_opt (AdmissionFault ''AUTOMATION_DECISION_REQUIRED'')
                 (row (am_decisions (db_automation d)) k)) (\<lambda>r.
     and_then (as_policy_admission
                 (validate_current_automation_decision (sv_automation env) (Some k) now d)) (\<lambda>e.
     and_then (require (dr_application_id r = app \<and> dr_application_revision r = ap_revision ap
                  \<and> dr_form_plan_id r = pid \<and> de_form_plan_id e = pl_plan_id p)
                ''AUTOMATION_DECISION_BINDING_MISMATCH'') (\<lambda>_.
     and_then (lift_opt (AdmissionFault ''AUTOMATION_AUTHORITY_EXPIRED'') (dr_authority_expires_at r)) (\<lambda>t.
       Inr \<lparr>au_kind = AK_QUALIFIED_AUTOPILOT, au_decision = Some (k, r), au_canary = None,
            au_expires_at = Some (min_expiry t (rq_authority_expires_at rq))\<rparr>)))))"

definition validate_automation_authority ::
  "admission_env \<Rightarrow> submission_request \<Rightarrow> int \<Rightarrow> application \<Rightarrow> int \<Rightarrow> plan_row \<Rightarrow> string \<Rightarrow> string \<Rightarrow> instant
     \<Rightarrow> database \<Rightarrow> fault + admission_authority" where
  "validate_automation_authority env rq app ap pid p url release now d =
     (if rq_authority_kind rq \<notin> {''explicit_operator'', ''control_plane'', ''qualified_autopilot'',
                                  ''qualification_canary''}
      then reject ''SUBMISSION_AUTHORITY_INVALID''
      else if rq_authority_kind rq = ''qualification_canary''
      then canary_authority env rq app ap pid p url release now d
      else if rq_canary_authorization_id rq \<noteq> None then reject ''SUBMISSION_AUTHORITY_INVALID''
      else if rq_authority_kind rq = ''qualified_autopilot''
      then decision_authority env rq app ap pid p now d
      else if rq_policy_decision_id rq \<noteq> None then reject ''SUBMISSION_AUTHORITY_INVALID''
      else Inr \<lparr>au_kind = (if rq_authority_kind rq = ''explicit_operator'' then AK_EXPLICIT_OPERATOR
                            else AK_CONTROL_PLANE),
                au_decision = None, au_canary = None, au_expires_at = rq_authority_expires_at rq\<rparr>)"

section \<open>The admitted rows\<close>

definition next_attempt_number :: "int \<Rightarrow> database \<Rightarrow> int" where
  "next_attempt_number app d =
     (case map (at_attempt_number \<circ> snd) (attempts_of app d) of
        [] \<Rightarrow> 1 | n # ns \<Rightarrow> fold max ns n + 1)"

definition new_attempt ::
  "submission_request \<Rightarrow> int \<Rightarrow> int \<Rightarrow> plan_row \<Rightarrow> adapter_descriptor \<Rightarrow> string \<Rightarrow> admission_authority \<Rightarrow> attempt" where
  "new_attempt rq number pid p a release au =
     \<lparr>at_application_id = rq_application_id rq, at_attempt_number = number,
      at_idempotency_key = rq_idempotency_key rq, at_submitter_name = ad_platform a,
      at_status = SS_PENDING, at_stage = QUEUED, at_outcome = None, at_reason_code = None,
      at_confirmation_id = None, at_selected_cv_id = Some (pl_selected_cv_id p),
      at_profile_version = pl_profile_version p, at_started_at = None, at_finished_at = None,
      at_reconciled_at = None, at_submitted_at = None,
      at_application_revision = rq_application_revision rq, at_adapter_name = Some (ad_platform a),
      at_adapter_version = Some (ad_adapter_version a), at_selector_version = Some (ad_selector_version a),
      at_form_plan_id = Some pid, at_form_plan_fingerprint = Some (pl_fingerprint p),
      at_requested_cv_id = Some (pl_selected_cv_id p), at_requested_cv_hash = Some (pl_selected_cv_hash p),
      at_attached_cv_id = pl_attached_cv_id p, at_attached_cv_hash = pl_attached_cv_hash p,
      at_attachment_verified = pl_attachment_verified p, at_final_action_at = None,
      at_verification_kind = None, at_evidence_digest = None, at_runner_release = Some release,
      at_authority_kind = au_kind au, at_policy_decision_id = map_option fst (au_decision au),
      at_policy_decision_digest = map_option (dr_decision_digest \<circ> snd) (au_decision au),
      at_canary_authorization_id = map_option fst (au_canary au),
      at_canary_authorization_digest = map_option (cy_authorization_digest \<circ> snd) (au_canary au)\<rparr>"

definition new_command :: "submission_request \<Rightarrow> int \<Rightarrow> instant \<Rightarrow> command_row" where
  "new_command rq i now =
     \<lparr>cm_attempt_id = i, cm_idempotency_key = rq_idempotency_key rq, cm_state = CS_PENDING,
      cm_available_at = now, cm_claimed_at = None, cm_completed_at = None, cm_claimed_by = None,
      cm_claim_token = None, cm_last_error_code = None\<rparr>"

definition consume_authority :: "admission_authority \<Rightarrow> instant \<Rightarrow> database \<Rightarrow> fault + database" where
  "consume_authority au now d =
     (case au_canary au of
        None \<Rightarrow> Inr d
      | Some (k, c) \<Rightarrow>
          and_then (consume_qualification_canary_authorization c now) (\<lambda>c'.
            Inr (d\<lparr>db_canaries := put_row k c' (db_canaries d)\<rparr>)))"

text \<open>
  The writing part of \<open>_create_one\<close>. A flush checks the constraints of the rows written so far, as a
  commit does.
\<close>

definition admit_rows ::
  "admission_env \<Rightarrow> submission_request \<Rightarrow> int \<Rightarrow> plan_row \<Rightarrow> adapter_descriptor \<Rightarrow> string
     \<Rightarrow> admission_authority \<Rightarrow> string \<Rightarrow> instant \<Rightarrow> database \<Rightarrow> fault + database \<times> created_command" where
  "admit_rows env rq pid p a release au url now d =
     (let app = rq_application_id rq; i = next_id (db_attempts d); k = next_id (db_commands d);
          x = new_attempt rq (next_attempt_number app d) pid p a release au in
      and_then (commit_db (set_attempt i x d)) (\<lambda>d1.
      and_then (consume_authority au now d1) (\<lambda>d2.
      and_then (lift_opt (AdmissionFault ''JOB_URL_INVALID'') (qe_url_hash (sv_adapter env) url)) (\<lambda>h.
      and_then (issue_final_submit_permit (sv_sha256 env) (sv_nonce env i) i x p h (sv_permit_ttl env) now
                  (au_expires_at au) (record_retry i x (record_attempt_stage i QUEUED TK_INITIAL d2))) (\<lambda>d3.
      and_then (commit_db d3) (\<lambda>d4.
      and_then (commit_db (record_application_event app ''submission_command_created''
                  (if rq_authority_kind rq = ''qualified_autopilot'' then ''qualified_autopilot'' else ''operator'')
                  [(''attempt_number'', DV_INT (at_attempt_number x)), (''platform'', DV_STR (ad_platform a)),
                   (''selected_cv_id'', opt_text (at_selected_cv_id x)),
                   (''profile_version'', opt_int (at_profile_version x)), (''state'', DV_STR ''queued''),
                   (''external_action_queued'', DV_BOOL True),
                   (''authority_kind'', DV_STR (rq_authority_kind rq))]
                  (set_command k (new_command rq i now) d4))) (\<lambda>d5.
        Inr (d5, \<lparr>cc_application_id = app, cc_attempt_id = i, cc_command_id = k,
                  cc_replayed = False\<rparr>))))))))"

text \<open>The checking part of \<open>_create_one\<close> once the application row is locked.\<close>

definition admission_descriptor ::
  "admission_env \<Rightarrow> admission_authority \<Rightarrow> string \<Rightarrow> plan_row \<Rightarrow> database \<Rightarrow> adapter_descriptor option" where
  "admission_descriptor env au url p d =
     (case au_canary au of
        Some (k, c) \<Rightarrow> descriptor_for_validated_canary (sv_adapter env) c url p
      | None \<Rightarrow>
          (case sv_descriptor_resolver env of
             Some resolver \<Rightarrow> resolver url
           | None \<Rightarrow> effective_live_descriptor_for_plan (sv_adapter env) url p d))"

definition reviewed_plan ::
  "admission_env \<Rightarrow> submission_request \<Rightarrow> application \<Rightarrow> instant \<Rightarrow> database
     \<Rightarrow> fault + (int \<times> plan_row \<times> form_plan)" where
  "reviewed_plan env rq ap now d =
     (let app = rq_application_id rq;
          plan = find (\<lambda>(k, p). pl_plan_id p = rq_form_plan_id rq) (db_plans d) in
      and_then (check_application rq ap) (\<lambda>_.
      and_then (check_history app ap d) (\<lambda>_.
      and_then (validate_admission_plan env app ap (map_option snd plan) rq now) (\<lambda>(p, dp).
        Inr (case plan of None \<Rightarrow> 0 | Some (k, q) \<Rightarrow> k, p, dp)))))"

definition admission_checks ::
  "admission_env \<Rightarrow> runtime_caps \<Rightarrow> submission_request \<Rightarrow> application \<Rightarrow> instant \<Rightarrow> database
     \<Rightarrow> fault + (int \<times> plan_row \<times> form_plan \<times> string \<times> admission_authority \<times> adapter_descriptor)" where
  "admission_checks env caps rq ap now d =
     (let app = rq_application_id rq; url = job_url_of d ap in
      and_then (reviewed_plan env rq ap now d) (\<lambda>(pid, p, dp).
      and_then (case sv_profile_error env (the (pl_profile_version p)) of
                  Some e \<Rightarrow> reject e | None \<Rightarrow> Inr ()) (\<lambda>_.
      and_then (require_runtime env caps (rq_authority_kind rq)) (\<lambda>release.
      and_then (require_model_binding env ap dp caps) (\<lambda>_.
      and_then (validate_automation_authority env rq app ap pid p url release now d) (\<lambda>au.
      and_then (validate_adapter (admission_descriptor env au url p d) p) (\<lambda>a.
      and_then (require (sv_session_ready env url a) ''SESSION_EXPIRED'') (\<lambda>_.
        Inr (pid, p, dp, release, au, a)))))))))"

definition create_one ::
  "admission_env \<Rightarrow> runtime_caps \<Rightarrow> submission_request \<Rightarrow> instant \<Rightarrow> database
     \<Rightarrow> fault + database \<times> created_command" where
  "create_one env caps rq now d =
     and_then (require_matching_client_release caps (rq_client_release rq)) (\<lambda>_.
     and_then (find_replay rq d) (\<lambda>replay.
       case replay of
         Some c \<Rightarrow> Inr (d, c)
       | None \<Rightarrow>
           and_then (lift_opt (AdmissionFault ''APPLICATION_NOT_FOUND'')
                       (row (db_applications d) (rq_application_id rq))) (\<lambda>ap.
           and_then (admission_checks env caps rq ap now d) (\<lambda>(pid, p, dp, release, au, a).
             admit_rows env rq pid p a release au (job_url_of d ap) now d))))"

section \<open>Batches\<close>

fun create_each ::
  "admission_env \<Rightarrow> runtime_caps \<Rightarrow> submission_request list \<Rightarrow> instant \<Rightarrow> database
     \<Rightarrow> fault + database \<times> created_command list" where
  "create_each env caps [] now d = Inr (d, [])"
| "create_each env caps (rq # rqs) now d =
     and_then (create_one env caps rq now d) (\<lambda>(d1, c).
     and_then (create_each env caps rqs now d1) (\<lambda>(d2, cs). Inr (d2, c # cs)))"

definition deadline_passed :: "instant \<Rightarrow> submission_request \<Rightarrow> bool" where
  "deadline_passed wall_clock rq =
     (case rq_authority_expires_at rq of None \<Rightarrow> False | Some t \<Rightarrow> t \<le> wall_clock)"

definition check_batch :: "admission_env \<Rightarrow> submission_request list \<Rightarrow> fault + unit" where
  "check_batch env rqs =
     and_then (require (rqs \<noteq> []) ''EMPTY_SUBMISSION_BATCH'') (\<lambda>_.
     and_then (require (length rqs \<le> 50) ''SUBMISSION_BATCH_TOO_LARGE'') (\<lambda>_.
     and_then (require (distinct (map rq_application_id rqs)) ''DUPLICATE_APPLICATION_IN_BATCH'') (\<lambda>_.
     and_then (require (distinct (map rq_idempotency_key rqs)) ''DUPLICATE_IDEMPOTENCY_KEY_IN_BATCH'') (\<lambda>_.
     and_then (require (sv_operator_auth env) ''OPERATOR_AUTH_REQUIRED'') (\<lambda>_.
       require (sv_serialized env) ''DATABASE_SERIALIZATION_REQUIRED'')))))"

definition create_batch ::
  "admission_env \<Rightarrow> runtime_caps \<Rightarrow> submission_request list \<Rightarrow> instant \<Rightarrow> instant \<Rightarrow> database
     \<Rightarrow> fault + database \<times> created_command list" where
  "create_batch env caps rqs now wall_clock d =
     and_then (create_each env caps (sort_key rq_application_id rqs) now d) (\<lambda>(d1, cs).
     and_then (require (\<not> list_ex (deadline_passed wall_clock) rqs) ''COMMAND_EXPIRED'') (\<lambda>_.
     and_then (commit_db d1) (\<lambda>d'. Inr (d', cs))))"

text \<open>
  A constraint violation rolls back; a single request is then answered as a replay if it is one in the
  database that is visible \<open>after\<close> the rollback.
\<close>

definition create_submission_commands ::
  "admission_env \<Rightarrow> runtime_caps \<Rightarrow> submission_request list \<Rightarrow> instant \<Rightarrow> instant \<Rightarrow> database
     \<Rightarrow> database \<Rightarrow> fault + database \<times> created_command list" where
  "create_submission_commands env caps rqs now wall_clock after d =
     and_then (check_batch env rqs) (\<lambda>_.
       case create_batch env caps rqs now wall_clock d of
         Inr r \<Rightarrow> Inr r
       | Inl IntegrityError \<Rightarrow>
           (case rqs of
              [rq] \<Rightarrow>
                and_then (find_replay rq after) (\<lambda>replay.
                  case replay of Some c \<Rightarrow> Inr (after, [c]) | None \<Rightarrow> reject ''SUBMISSION_ALREADY_ACTIVE'')
            | _ \<Rightarrow> reject ''SUBMISSION_ALREADY_ACTIVE'')
       | Inl e \<Rightarrow> Inl e)"

section \<open>Lemmas\<close>

lemma consume_authority_reads:
  assumes "consume_authority au now d = Inr d'"
  shows "db_attempts d' = db_attempts d" "db_permits d' = db_permits d" "db_commands d' = db_commands d"
    "db_applications d' = db_applications d" "db_plans d' = db_plans d"
  using assms by (auto simp: consume_authority_def elim!: and_then_okE split: option.splits)

lemma admitted_other_reads:
  "db_plans (record_application_event app ty actor det d) = db_plans d"
  "db_plans (set_command k c d) = db_plans d" "db_applications (set_command k c d) = db_applications d"
  "db_plans (set_permit i m d) = db_plans d" "db_applications (set_permit i m d) = db_applications d"
  "db_plans (set_attempt i x d) = db_plans d" "db_applications (set_attempt i x d) = db_applications d"
  "db_plans (record_retry i x d) = db_plans d" "db_applications (record_retry i x d) = db_applications d"
  "db_plans (record_attempt_stage i st tk d) = db_plans d"
  by (simp_all add: record_application_event_def set_command_def set_permit_def set_attempt_def log_defs)

lemma admit_rows_parts:
  assumes "admit_rows env rq pid p a release au url now d = Inr (d', c)"
  obtains d2 h d3 actor details where
    "consume_authority au now (set_attempt (next_id (db_attempts d))
       (new_attempt rq (next_attempt_number (rq_application_id rq) d) pid p a release au) d) = Inr d2"
    "issue_final_submit_permit (sv_sha256 env) (sv_nonce env (next_id (db_attempts d))) (next_id (db_attempts d))
       (new_attempt rq (next_attempt_number (rq_application_id rq) d) pid p a release au) p h (sv_permit_ttl env) now
       (au_expires_at au)
       (record_retry (next_id (db_attempts d)) (new_attempt rq (next_attempt_number (rq_application_id rq) d) pid p a release au)
          (record_attempt_stage (next_id (db_attempts d)) QUEUED TK_INITIAL d2)) = Inr d3"
    "d' = record_application_event (rq_application_id rq) ''submission_command_created'' actor details
       (set_command (next_id (db_commands d)) (new_command rq (next_id (db_attempts d)) now) d3)"
    "db_valid d'"
    "c = \<lparr>cc_application_id = rq_application_id rq, cc_attempt_id = next_id (db_attempts d),
           cc_command_id = next_id (db_commands d), cc_replayed = False\<rparr>"
  using assms unfolding admit_rows_def Let_def
  by (elim and_then_okE) (simp only: commit_db_ok prod.inject sum.inject, metis)

lemma admit_rowsE:
  assumes "admit_rows env rq pid p a release au url now d = Inr (d', c)"
  obtains i k x m where "i = next_id (db_attempts d)" "k = next_id (db_commands d)"
    "x = new_attempt rq (next_attempt_number (rq_application_id rq) d) pid p a release au"
    "db_attempts d' = put_row i x (db_attempts d)" "db_permits d' = put_row i m (db_permits d)"
    "db_commands d' = put_row k (new_command rq i now) (db_commands d)" "\<not> permit_spent m"
    "row (db_permits d) i = None" "db_plans d' = db_plans d" "db_applications d' = db_applications d"
    "db_valid d'"
    "c = \<lparr>cc_application_id = rq_application_id rq, cc_attempt_id = i, cc_command_id = k, cc_replayed = False\<rparr>"
proof -
  let ?i = "next_id (db_attempts d)" and ?k = "next_id (db_commands d)"
  let ?x = "new_attempt rq (next_attempt_number (rq_application_id rq) d) pid p a release au"
  from assms obtain d2 h d3 actor details where con: "consume_authority au now (set_attempt ?i ?x d) = Inr d2"
    and iss: "issue_final_submit_permit (sv_sha256 env) (sv_nonce env ?i) ?i ?x p h (sv_permit_ttl env) now
        (au_expires_at au) (record_retry ?i ?x (record_attempt_stage ?i QUEUED TK_INITIAL d2)) = Inr d3"
    and d': "d' = record_application_event (rq_application_id rq) ''submission_command_created'' actor details
        (set_command ?k (new_command rq ?i now) d3)" and v: "db_valid d'"
    and c: "c = \<lparr>cc_application_id = rq_application_id rq, cc_attempt_id = ?i, cc_command_id = ?k,
        cc_replayed = False\<rparr>"
    by (rule admit_rows_parts)
  note r = consume_authority_reads[OF con]
  from issue_okD(1)[OF iss] obtain m where d3: "d3 = set_permit ?i m (record_retry ?i ?x (record_attempt_stage ?i QUEUED TK_INITIAL d2))"
    and m: "\<not> permit_spent m" by (simp add: new_permit_def permit_spent_def)
  have none: "row (db_permits d) ?i = None"
    using iss r(2) by (auto simp: issue_final_submit_permit_def Let_def db_simps split: if_splits)
  show thesis
    by (rule that[OF refl refl refl _ _ _ m none _ _ v c])
       (use r in \<open>simp_all add: d' d3 db_simps admitted_other_reads\<close>)
qed

lemma admitted_permit_bounded:
  assumes "admit_rows env rq pid p a release au url now d = Inr (d', c)" and "au_expires_at au = Some t"
  shows "\<exists>m. row (db_permits d') (cc_attempt_id c) = Some m \<and> pm_expires_at m \<le> t
    \<and> pm_authority_kind m = au_kind au \<and> \<not> permit_spent m"
  using assms(1)
proof (rule admit_rows_parts)
  fix d2 h d3 actor details
  let ?i = "next_id (db_attempts d)" and ?x = "new_attempt rq (next_attempt_number (rq_application_id rq) d) pid p a release au"
  assume iss: "issue_final_submit_permit (sv_sha256 env) (sv_nonce env ?i) ?i ?x p h (sv_permit_ttl env) now
        (au_expires_at au) (record_retry ?i ?x (record_attempt_stage ?i QUEUED TK_INITIAL d2)) = Inr d3"
    and d': "d' = record_application_event (rq_application_id rq) ''submission_command_created'' actor details
        (set_command (next_id (db_commands d)) (new_command rq ?i now) d3)"
    and c: "c = \<lparr>cc_application_id = rq_application_id rq, cc_attempt_id = ?i, cc_command_id = next_id (db_commands d),
        cc_replayed = False\<rparr>"
  show ?thesis
    using permit_expiry_bounds(3)[OF assms(2)] issue_okD(1)[OF iss]
    by (simp add: d' c db_simps new_permit_def new_attempt_def permit_spent_def)
qed

text \<open>What the checks of an admission have established.\<close>

lemma check_historyD:
  assumes "check_history app ap d = Inr ()" and "row (db_attempts d) j = Some x" and "at_application_id x = app"
  shows "at_stage x = FINISHED" "at_outcome x \<notin> Some ` set immutable_outcomes"
proof -
  from assms(1) have h: "\<not> has_outcome_in app immutable_outcomes d"
    "\<not> list_ex (unfinished \<circ> snd) (attempts_of app d)"
    unfolding check_history_def by (auto elim!: and_then_okE simp: ensure_def split: if_splits)
  from row_in_set[OF assms(2)] assms(3) have "(j, x) \<in> set (attempts_of app d)" by (simp add: attempts_of_def)
  with h(2) show "at_stage x = FINISHED" by (auto simp: list_ex_iff unfinished_def)
  from row_in_set[OF assms(2)] assms(3) h(1) show "at_outcome x \<notin> Some ` set immutable_outcomes"
    by (auto simp: has_outcome_in_def list_ex_iff)
qed

lemma check_applicationD:
  assumes "check_application rq ap = Inr ()"
  shows "rq_application_revision rq = ap_revision ap" "ap_status ap = JS_DRAFT" "preparation_is_current ap"
  using assms unfolding check_application_def by (auto elim!: and_then_okE simp: ensure_def split: if_splits)

lemma require_ok [simp]: "ensure b e = Inr () \<longleftrightarrow> b"
  by (simp add: ensure_def)

lemma validate_admission_planD:
  assumes "validate_admission_plan env app ap plan rq now = Inr (p, dp)"
  shows "plan = Some p" "pl_application_id p = app" "pl_invalidated_at p = None"
    "reconstruct_persisted_form_plan (sv_policy env) p = Inr dp"
    "ready_for_permit_at dp (Aware now) = Some True" "fp_plan_id dp = rq_form_plan_id rq"
    "pl_application_revision p = ap_revision ap" "ap_selected_cv_id ap = Some (pl_selected_cv_id p)"
    "ap_selected_cv_hash ap = Some (fp_selected_cv_hash dp)" "ap_profile_version ap = pl_profile_version p"
    "ap_material_eligible ap = Some True"
proof -
  from assms have s: "check_plan_row app plan = Inr p"
    "reconstruct_persisted_form_plan (sv_policy env) p = Inr dp" "check_material env ap dp = Inr ()"
    "check_plan_binding rq ap p dp = Inr ()" "check_plan_ready dp now = Inr ()"
    unfolding validate_admission_plan_def by (auto elim!: and_then_okE)
  show "plan = Some p" "pl_application_id p = app" "pl_invalidated_at p = None"
    using s(1) unfolding check_plan_row_def by (auto elim!: and_then_okE split: option.splits)
  show "reconstruct_persisted_form_plan (sv_policy env) p = Inr dp" by (fact s(2))
  show "ready_for_permit_at dp (Aware now) = Some True"
    using s(5) unfolding check_plan_ready_def by (auto elim!: and_then_okE split: if_splits)
  show "fp_plan_id dp = rq_form_plan_id rq" "pl_application_revision p = ap_revision ap"
    "ap_selected_cv_id ap = Some (pl_selected_cv_id p)" "ap_profile_version ap = pl_profile_version p"
    using s(4) unfolding check_plan_binding_def by (auto elim!: and_then_okE)
  show "ap_selected_cv_hash ap = Some (fp_selected_cv_hash dp)" "ap_material_eligible ap = Some True"
    using s(3) unfolding check_material_def by (auto elim!: and_then_okE)
qed

lemma validate_adapterD:
  assumes "validate_adapter descriptor p = Inr a"
  shows "descriptor = Some a" "ad_platform a = pl_adapter_name p" "ad_adapter_version a = pl_adapter_version p"
    "ad_selector_version a = pl_selector_version p" "allows_final_execution a"
    "qualifies_form_fingerprint (pl_fingerprint p) a"
  using assms by (auto simp: validate_adapter_def split: option.splits if_splits)

lemma reviewed_planE:
  assumes "reviewed_plan env rq ap now d = Inr (pid, p, dp)"
  obtains "check_application rq ap = Inr ()" "check_history (rq_application_id rq) ap d = Inr ()"
    "find (\<lambda>(k, p). pl_plan_id p = rq_form_plan_id rq) (db_plans d) = Some (pid, p)"
    "validate_admission_plan env (rq_application_id rq) ap (Some p) rq now = Inr (p, dp)"
proof -
  let ?plan = "find (\<lambda>(k, p). pl_plan_id p = rq_form_plan_id rq) (db_plans d)"
  from assms obtain u v q where s: "check_application rq ap = Inr u"
    "check_history (rq_application_id rq) ap d = Inr v"
    "validate_admission_plan env (rq_application_id rq) ap (map_option snd ?plan) rq now = Inr q"
    and q: "(case q of (p, dp) \<Rightarrow> Inr (case ?plan of None \<Rightarrow> 0 | Some (k, q) \<Rightarrow> k, p, dp))
       = (Inr (pid, p, dp) :: fault + _)"
    unfolding reviewed_plan_def Let_def by (elim and_then_okE)
  obtain p0 dp0 where q0: "q = (p0, dp0)" by (cases q)
  from validate_admission_planD(1)[OF s(3)[unfolded q0]] obtain k where k: "?plan = Some (k, p0)" by auto
  from q have e: "k = pid" "p0 = p" "dp0 = dp" unfolding q0 k by simp_all
  show thesis by (rule that) (use s k q0 e in simp_all)
qed

lemma admission_checksE:
  assumes "admission_checks env caps rq ap now d = Inr (pid, p, dp, release, au, a)"
  obtains "reviewed_plan env rq ap now d = Inr (pid, p, dp)"
    "require_runtime env caps (rq_authority_kind rq) = Inr release"
    "require_model_binding env ap dp caps = Inr ()"
    "validate_automation_authority env rq (rq_application_id rq) ap pid p (job_url_of d ap) release now d = Inr au"
    "validate_adapter (admission_descriptor env au (job_url_of d ap) p d) p = Inr a"
    "sv_session_ready env (job_url_of d ap) a"
  using assms unfolding admission_checks_def Let_def
  by (elim and_then_okE) (auto elim!: and_then_okE)

section \<open>Admission is a step of the lifecycle\<close>

lemma claimed_in_new_command:
  assumes "db_commands d' = put_row k c (db_commands d)" and "row (db_commands d) k = None"
    and "cm_state c \<noteq> CS_CLAIMED"
  shows "claimed_in d' j \<longleftrightarrow> claimed_in d j"
proof -
  have r: "row (db_commands d') l = (if l = k then Some c else row (db_commands d) l)" for l
    by (simp add: assms(1) db_simps)
  show ?thesis using assms(2,3) unfolding claimed_in_def r by (metis option.distinct(1) option.inject)
qed

lemma refines_admit_rows:
  assumes "admit_rows env rq pid p a release au url now d = Inr (d', c)"
    and "check_history (rq_application_id rq) ap d = Inr ()" and "db_valid d"
  shows "refines d d' \<and> db_valid d'"
proof -
  from assms(1) obtain i k x m where new: "i = next_id (db_attempts d)" "k = next_id (db_commands d)"
    "x = new_attempt rq (next_attempt_number (rq_application_id rq) d) pid p a release au"
    and rows: "db_attempts d' = put_row i x (db_attempts d)" "db_permits d' = put_row i m (db_permits d)"
      "db_commands d' = put_row k (new_command rq i now) (db_commands d)"
    and m: "\<not> permit_spent m" and v: "db_valid d'"
    by (elim admit_rowsE)
  have fi: "row (db_attempts d) i = None" and fk: "row (db_commands d) k = None"
    by (simp_all add: new(1,2) next_id_fresh)
  have none: "\<not> claimed_in d i"
    using valid_command(2)[OF assms(3)] fi unfolding claimed_in_def by (metis option.distinct(1))
  note cl = claimed_in_new_command[OF rows(3) fk]
  let ?y = "\<lparr>lf_application = rq_application_id rq, lf_stage = QUEUED, lf_outcome = None, lf_used = False,
      lf_claimed = False\<rparr>"
  have l: "lives_of d' = (lives_of d)(i \<mapsto> ?y)"
    using m none cl by (intro ext) (simp add: lives_of_def permit_used_def rows(1,2) db_simps new_attempt_def
        new_command_def new(3))
  have "admissible (rq_application_id rq) (lives_of d)"
    unfolding admissible_def
  proof (intro allI impI, elim conjE)
    fix j z assume "lives_of d j = Some z" "lf_application z = rq_application_id rq"
    then obtain b where b: "row (db_attempts d) j = Some b" "at_application_id b = rq_application_id rq"
      "lf_stage z = at_stage b" "lf_outcome z = at_outcome b" by (auto simp: lives_of_def)
    show "lf_stage z = FINISHED \<and> lf_outcome z \<notin> Some ` set immutable_outcomes"
      using check_historyD[OF assms(2) b(1,2)] b(3,4) by simp
  qed
  then have step: "life_step (lives_of d) (lives_of d')"
    using life_step.ls_admit[where v = "lives_of d" and i = i and app = "rq_application_id rq"] fi
    by (simp add: l lives_of_def)
  have "quiet (lives_of d) (lives_of d')" unfolding l by (rule quiet_update) (simp_all add: notable_defs)
  moreover have "cmds_stable d d'" using fk by (auto simp: cmds_stable_def rows(3) db_simps)
  moreover have "all_calm d \<longrightarrow> all_calm d'"
    by (auto simp: all_calm_def rows(1) db_simps new(3) new_attempt_def calm_def)
  ultimately show ?thesis using step v valid_cmds_unique[OF v] by (simp add: refines_def r_into_rtranclp)
qed

lemma create_one_cases:
  assumes "create_one env caps rq now d = Inr (d', c)"
  obtains "find_replay rq d = Inr (Some c)" "d' = d"
  | ap pid p dp release au a where "find_replay rq d = Inr None"
      "row (db_applications d) (rq_application_id rq) = Some ap"
      "admission_checks env caps rq ap now d = Inr (pid, p, dp, release, au, a)"
      "admit_rows env rq pid p a release au (job_url_of d ap) now d = Inr (d', c)"
proof -
  from assms obtain u r where "require_matching_client_release caps (rq_client_release rq) = Inr u"
    and f: "find_replay rq d = Inr r"
    and k: "(case r of Some c \<Rightarrow> Inr (d, c)
       | None \<Rightarrow> and_then (lift_opt (AdmissionFault ''APPLICATION_NOT_FOUND'')
                       (row (db_applications d) (rq_application_id rq))) (\<lambda>ap.
           and_then (admission_checks env caps rq ap now d) (\<lambda>(pid, p, dp, release, au, a).
             admit_rows env rq pid p a release au (job_url_of d ap) now d))) = Inr (d', c)"
    unfolding create_one_def by (elim and_then_okE)
  show thesis
  proof (cases r)
    case (Some c0)
    from k[unfolded Some option.case] have "d' = d" "c0 = c" by simp_all
    with f Some show ?thesis by (intro that(1)) simp_all
  next
    case None
    note k' = k[unfolded None option.case]
    from k' obtain ap y where ap: "lift_opt (AdmissionFault ''APPLICATION_NOT_FOUND'')
        (row (db_applications d) (rq_application_id rq)) = Inr ap"
      and y: "admission_checks env caps rq ap now d = Inr y"
      and z: "(case y of (pid, p, dp, release, au, a) \<Rightarrow>
          admit_rows env rq pid p a release au (job_url_of d ap) now d) = Inr (d', c)"
      by (elim and_then_okE)
    from ap have "row (db_applications d) (rq_application_id rq) = Some ap"
      by (simp add: lift_opt_def split: option.splits)
    with that(2)[OF f[unfolded None]] y z show ?thesis by (cases y) simp
  qed
qed

lemma refines_create_one:
  assumes "create_one env caps rq now d = Inr (d', c)" and "db_valid d"
  shows "refines d d' \<and> db_valid d'"
  using assms(1)
proof (cases rule: create_one_cases)
  case 1
  with assms(2) show ?thesis by (simp add: refines_refl valid_cmds_unique)
next
  case (2 ap pid p dp release au a)
  from 2(3) obtain "reviewed_plan env rq ap now d = Inr (pid, p, dp)" by (elim admission_checksE)
  then have "check_history (rq_application_id rq) ap d = Inr ()" by (elim reviewed_planE)
  from refines_admit_rows[OF 2(4) this assms(2)] show ?thesis .
qed

lemma refines_create_each:
  "create_each env caps rqs now d = Inr (d', cs) \<Longrightarrow> db_valid d \<Longrightarrow> refines d d' \<and> db_valid d'"
proof (induction rqs arbitrary: d cs)
  case Nil
  then show ?case by (simp add: refines_refl valid_cmds_unique)
next
  case (Cons rq rqs)
  from Cons.prems(1) obtain d1 c cs' where s: "create_one env caps rq now d = Inr (d1, c)"
    "create_each env caps rqs now d1 = Inr (d', cs')" by (auto elim!: and_then_okE)
  from refines_create_one[OF s(1) Cons.prems(2)] have "refines d d1" "db_valid d1" by simp_all
  with Cons.IH[OF s(2)] refines_trans show ?case by blast
qed

lemma refines_create_submission_commands:
  assumes "create_submission_commands env caps rqs now wall after d = Inr (d', cs)" and "db_valid d"
  shows "refines d d' \<and> db_valid d' \<or> d' = after"
proof -
  from assms(1) consider "create_batch env caps rqs now wall d = Inr (d', cs)" | "d' = after"
    unfolding create_submission_commands_def
    by (auto elim!: and_then_okE split: sum.splits fault.splits list.splits option.splits)
  then show ?thesis
  proof cases
    case 1
    then obtain cs' where "create_each env caps (sort_key rq_application_id rqs) now d = Inr (d', cs')"
      by (auto simp: create_batch_def elim!: and_then_okE)
    from refines_create_each[OF this assms(2)] show ?thesis by blast
  qed simp
qed

section \<open>What was admitted\<close>

lemma find_replay_replayed: "find_replay rq d = Inr (Some c) \<Longrightarrow> cc_replayed c"
  by (auto simp: find_replay_def elim!: and_then_okE split: option.splits if_splits)

lemma authority_recorded:
  assumes "validate_automation_authority env rq app ap pid p url release now d = Inr au"
  shows "authority_text (au_kind au) = rq_authority_kind rq"
    "map_option fst (au_decision au) = rq_policy_decision_id rq"
    "map_option fst (au_canary au) = rq_canary_authorization_id rq"
proof -
  from assms consider "canary_authority env rq app ap pid p url release now d = Inr au"
      "rq_authority_kind rq = ''qualification_canary''"
    | "decision_authority env rq app ap pid p now d = Inr au" "rq_authority_kind rq = ''qualified_autopilot''"
      "rq_canary_authorization_id rq = None"
    | "au_kind au \<in> {AK_EXPLICIT_OPERATOR, AK_CONTROL_PLANE}" "authority_text (au_kind au) = rq_authority_kind rq"
      "au_decision au = None" "au_canary au = None" "rq_policy_decision_id rq = None"
      "rq_canary_authorization_id rq = None"
    by (auto simp: validate_automation_authority_def split: if_splits)
  then show "authority_text (au_kind au) = rq_authority_kind rq"
    "map_option fst (au_decision au) = rq_policy_decision_id rq"
    "map_option fst (au_canary au) = rq_canary_authorization_id rq"
    by (cases; auto simp: canary_authority_def decision_authority_def lift_opt_def elim!: and_then_okE
          split: option.splits)+
qed

lemma plan_found:
  assumes "find (\<lambda>(k, p). pl_plan_id p = u) (db_plans d) = Some (pid, p)" and "db_valid d"
  shows "row (db_plans d) pid = Some p" "pl_plan_id p = u"
proof -
  from assms(1) have m: "(pid, p) \<in> set (db_plans d)" and "pl_plan_id p = u"
    using find_Some_cond[OF assms(1)] by simp_all
  then show "row (db_plans d) pid = Some p" "pl_plan_id p = u"
    using assms(2) by (simp_all add: set_row db_valid_def other_rows_valid_def)
qed

lemma find_by_key:
  assumes "distinct (map (cm_idempotency_key \<circ> snd) cs)" and "(k, c) \<in> set cs"
  shows "find (\<lambda>(k, c'). cm_idempotency_key c' = cm_idempotency_key c) cs = Some (k, c)"
  using assms by (induction cs) (auto simp: rev_image_eqI)

lemma admitted_replay:
  assumes "admit_rows env rq pid p a release au url now d = Inr (d', c)" and "db_valid d"
    and "find (\<lambda>(k, p). pl_plan_id p = rq_form_plan_id rq) (db_plans d) = Some (pid, p)"
    and "validate_automation_authority env rq app ap pid p url release now d = Inr au"
  shows "find_replay rq d' = Inr (Some (c\<lparr>cc_replayed := True\<rparr>))"
proof -
  from assms(1) obtain i k x where i: "i = next_id (db_attempts d)"
    and x: "x = new_attempt rq (next_attempt_number (rq_application_id rq) d) pid p a release au"
    and rows: "db_attempts d' = put_row i x (db_attempts d)"
      "db_commands d' = put_row k (new_command rq i now) (db_commands d)" "db_plans d' = db_plans d"
    and v: "db_valid d'"
    and c: "c = \<lparr>cc_application_id = rq_application_id rq, cc_attempt_id = i, cc_command_id = k, cc_replayed = False\<rparr>"
    by (elim admit_rowsE)
  have rk: "row (db_commands d') k = Some (new_command rq i now)" by (simp add: rows(2) db_simps)
  have "distinct (map (cm_idempotency_key \<circ> snd) (db_commands d'))"
    using v by (simp add: db_valid_def commands_valid_def)
  from find_by_key[OF this row_in_set[OF rk]]
  have f: "find (\<lambda>(k, c'). cm_idempotency_key c' = rq_idempotency_key rq) (db_commands d') =
     Some (k, new_command rq i now)" by (simp add: new_command_def)
  have ri: "row (db_attempts d') i = Some x" by (simp add: rows(1) db_simps)
  note pl = plan_found[OF assms(3,2)]
  have "same_request rq x d'"
    using authority_recorded[OF assms(4)] pl
    by (simp add: same_request_def x new_attempt_def plan_of_attempt_def rows(3))
  with f ri show ?thesis
    by (simp add: find_replay_def lift_opt_def c x new_command_def) (simp add: new_attempt_def)
qed

text \<open>Rows are only added, and an answer names the command of its request.\<close>

definition grows :: "database \<Rightarrow> database \<Rightarrow> bool" where
  "grows d d' \<longleftrightarrow>
     (\<forall>j y. row (db_attempts d) j = Some y \<longrightarrow> row (db_attempts d') j = Some y)
     \<and> (\<forall>j y. row (db_permits d) j = Some y \<longrightarrow> row (db_permits d') j = Some y)
     \<and> (\<forall>j y. row (db_commands d) j = Some y \<longrightarrow> row (db_commands d') j = Some y)"

definition answered :: "database \<Rightarrow> submission_request \<Rightarrow> created_command \<Rightarrow> bool" where
  "answered d rq c \<longleftrightarrow>
     cc_application_id c = rq_application_id rq
     \<and> (\<exists>y. row (db_commands d) (cc_command_id c) = Some y
           \<and> cm_idempotency_key y = rq_idempotency_key rq \<and> cm_attempt_id y = cc_attempt_id c)
     \<and> (\<exists>x. row (db_attempts d) (cc_attempt_id c) = Some x \<and> at_application_id x = rq_application_id rq)"

lemma grows_refl [simp]: "grows d d"
  by (simp add: grows_def)

lemma grows_trans: "grows d e \<Longrightarrow> grows e f \<Longrightarrow> grows d f"
  by (simp add: grows_def)

lemma answered_grows: "answered d rq c \<Longrightarrow> grows d d' \<Longrightarrow> answered d' rq c"
  unfolding answered_def grows_def by blast

lemma admit_rows_answered:
  assumes "admit_rows env rq pid p a release au url now d = Inr (d', c)"
  shows "grows d d'" "answered d' rq c"
proof -
  from assms obtain i k x m where new: "i = next_id (db_attempts d)" "k = next_id (db_commands d)"
    "x = new_attempt rq (next_attempt_number (rq_application_id rq) d) pid p a release au"
    and rows: "db_attempts d' = put_row i x (db_attempts d)" "db_permits d' = put_row i m (db_permits d)"
      "db_commands d' = put_row k (new_command rq i now) (db_commands d)" "row (db_permits d) i = None"
    and c: "c = \<lparr>cc_application_id = rq_application_id rq, cc_attempt_id = i, cc_command_id = k, cc_replayed = False\<rparr>"
    by (elim admit_rowsE)
  have "row (db_attempts d) i = None" "row (db_commands d) k = None" by (simp_all add: new(1,2) next_id_fresh)
  with rows(4) show "grows d d'" by (auto simp: grows_def rows(1-3) db_simps)
  show "answered d' rq c"
    by (simp add: answered_def c rows(1,3) db_simps) (simp add: new_command_def new(3) new_attempt_def)
qed

lemma find_replay_answered:
  assumes "find_replay rq d = Inr (Some c)" and "db_valid d"
  shows "answered d rq c"
proof -
  from assms(1) obtain k y where f: "find (\<lambda>(k, c). cm_idempotency_key c = rq_idempotency_key rq) (db_commands d) = Some (k, y)"
    by (auto simp: find_replay_def split: option.splits)
  from find_Some_cond[OF f] have y: "cm_idempotency_key y = rq_idempotency_key rq" "(k, y) \<in> set (db_commands d)"
    by simp_all
  have "row (db_commands d) k = Some y"
    using assms(2) y(2) by (simp add: set_row db_valid_def commands_valid_def)
  with assms(1) f y(1) show ?thesis
    by (auto simp: find_replay_def answered_def lift_opt_def same_request_def elim!: and_then_okE
             split: option.splits if_splits)
qed

lemma create_one_answered:
  assumes "create_one env caps rq now d = Inr (d', c)" and "db_valid d"
  shows "grows d d' \<and> answered d' rq c"
  using assms(1)
proof (cases rule: create_one_cases)
  case 1
  with find_replay_answered[OF 1(1) assms(2)] show ?thesis by simp
next
  case (2 ap pid p dp release au a)
  from admit_rows_answered[OF 2(4)] show ?thesis by simp
qed

lemma create_each_answered:
  "create_each env caps rqs now d = Inr (d', cs) \<Longrightarrow> db_valid d \<Longrightarrow>
     grows d d' \<and> list_all2 (answered d') rqs cs"
proof (induction rqs arbitrary: d cs)
  case (Cons rq rqs)
  from Cons.prems(1) obtain d1 c cs' where s: "create_one env caps rq now d = Inr (d1, c)"
    "create_each env caps rqs now d1 = Inr (d', cs')" "cs = c # cs'" by (auto elim!: and_then_okE)
  from refines_create_one[OF s(1) Cons.prems(2)] have v: "db_valid d1" by simp
  from Cons.IH[OF s(2) v] create_one_answered[OF s(1) Cons.prems(2)] s(3) show ?case
    by (auto intro: grows_trans answered_grows)
qed simp

section \<open>A concrete admission\<close>

definition sample_live :: adapter_descriptor where
  "sample_live = (the (adapter_for_platform ''greenhouse''))\<lparr>ad_qualification := QT_LIVE_CANARY_QUALIFIED,
     ad_qualified_form_scope := [sample_hash]\<rparr>"

definition sample_admission :: admission_env where
  "sample_admission =
     \<lparr>sv_policy = sample_policy, sv_automation = sample_policy_env,
      sv_model_qualified = (\<lambda>p m l g. p = Some ''ollama'' \<and> m = Some ''qwen2.5:7b'' \<and> l),
      sv_sha256 = (\<lambda>s. sample_hash), sv_profile_error = (\<lambda>v. None),
      sv_descriptor_resolver = None, sv_session_ready = (\<lambda>u a. True), sv_permit_ttl = 60,
      sv_nonce = (\<lambda>i. ''nonce''), sv_operator_auth = True, sv_serialized = True\<rparr>"

definition sample_client :: client_release where
  "sample_client = \<lparr>cr_build_sha = ''b'', cr_ui_asset_digest = ''u'', cr_source_digest = ''s'',
     cr_protocol_version = ''p'', cr_boot_id = ''i''\<rparr>"

definition sample_caps :: runtime_caps where
  "sample_caps = \<lparr>rc_release = Some (sample_client, sample_hash), rc_submission = Some (True, []),
     rc_automation = Some (True, []),
     rc_llm = Some (True, Some ''ollama'', Some ''qwen2.5:7b'', True, ''sha256:1'')\<rparr>"

definition sample_request :: submission_request where
  "sample_request = \<lparr>rq_application_id = 7, rq_idempotency_key = ''key-0001'', rq_application_revision = 2,
     rq_form_plan_id = pl_plan_id sample_plan_row, rq_client_release = sample_client,
     rq_authority_expires_at = None, rq_authority_kind = ''explicit_operator'',
     rq_policy_decision_id = None, rq_canary_authorization_id = None\<rparr>"

definition prepared_db :: database where
  "prepared_db = empty_db\<lparr>db_jobs := [(1, sample_job)],
     db_applications := [(7, sample_application\<lparr>ap_material_prompt_version := Some ''application-materials-v1''\<rparr>)],
     db_plans := [(3, canary_plan\<lparr>pl_answer_policy_version := ''answer-policy-v1''\<rparr>)],
     db_qualifications := [(1, sample_dry_run\<lparr>qr_tier := QT_LIVE_CANARY_QUALIFIED, qr_attempt_id := Some 2\<rparr>)]\<rparr>"

definition admitted_attempt :: attempt where
  "admitted_attempt = new_attempt sample_request 1 3 canary_plan sample_live sample_hash
     \<lparr>au_kind = AK_EXPLICIT_OPERATOR, au_decision = None, au_canary = None, au_expires_at = None\<rparr>"

definition admitted_permit :: permit_row where
  "admitted_permit =
     \<lparr>pm_nonce_hash = sample_hash, pm_job_url_hash = sample_hash, pm_application_revision = 2,
      pm_adapter_name = ''greenhouse'', pm_adapter_version = ''1.0.0'',
      pm_selector_version = ''greenhouse-candidate-v9'', pm_form_plan_fingerprint = sample_hash,
      pm_cv_hash = sample_hash, pm_issued_at = 20, pm_expires_at = seconds 60 + 20, pm_consumed_at = None,
      pm_authority_kind = AK_EXPLICIT_OPERATOR, pm_policy_decision_digest = None,
      pm_canary_authorization_digest = None\<rparr>"

definition sample_event :: "string \<Rightarrow> string \<Rightarrow> (string \<times> detail_value) list \<Rightarrow> audit_event" where
  "sample_event kind actor details =
     \<lparr>ae_application_id = 7, ae_event_type = kind, ae_actor = actor, ae_details = details\<rparr>"

definition db_admitted :: database where
  "db_admitted = prepared_db\<lparr>db_attempts := [(1, admitted_attempt)], db_permits := [(1, admitted_permit)],
     db_commands := [(1, new_command sample_request 1 20)], db_metrics := [MK_STAGE 1 QUEUED TK_INITIAL],
     db_events := [sample_event ''submission_command_created'' ''operator''
       [(''attempt_number'', DV_INT 1), (''external_action_queued'', DV_BOOL True),
        (''platform'', DV_STR ''greenhouse''), (''profile_version'', DV_INT 1),
        (''selected_cv_id'', DV_STR ''cv1''), (''state'', DV_STR ''queued'')]]\<rparr>"

abbreviation sample_created :: created_command where
  "sample_created \<equiv> \<lparr>cc_application_id = 7, cc_attempt_id = 1, cc_command_id = 1, cc_replayed = False\<rparr>"

lemma prepared_db_valid: "db_valid prepared_db"
  by code_simp

lemma db_admitted_valid: "db_valid db_admitted"
  by code_simp

lemma sample_admitted:
  "create_one sample_admission sample_caps sample_request 20 prepared_db = Inr (db_admitted, sample_created)"
  by code_simp

lemma run_admits:
  "create_submission_commands sample_admission sample_caps [sample_request] 20 21 prepared_db prepared_db =
     Inr (db_admitted, [sample_created])"
proof -
  have "check_batch sample_admission [sample_request] = Inr ()" "\<not> deadline_passed 21 sample_request"
    by code_simp+
  then show ?thesis
    by (simp add: create_submission_commands_def create_batch_def sample_admitted commit_db_def db_admitted_valid ensure_def)
qed

section \<open>Properties\<close>



text \<open>
  C10: admission is idempotent. Once a request has been answered, sending it again under the same
  release changes nothing and returns the same attempt and command as a replay, at any later time and
  whatever the state of the services admission consults.
\<close>

theorem repeated_request_is_replayed:
  assumes "create_one env caps rq now d = Inr (d', c)" and "db_valid d"
  shows "create_one env' caps rq now' d' = Inr (d', c\<lparr>cc_replayed := True\<rparr>)"
proof -
  from assms(1) have rel: "require_matching_client_release caps (rq_client_release rq) = Inr ()"
    unfolding create_one_def by (elim and_then_okE) simp
  have "find_replay rq d' = Inr (Some (c\<lparr>cc_replayed := True\<rparr>))"
    using assms(1)
  proof (cases rule: create_one_cases)
    case 1
    from find_replay_replayed[OF 1(1)] have "c\<lparr>cc_replayed := True\<rparr> = c" by simp
    with 1 show ?thesis by simp
  next
    case (2 ap pid p dp release au a)
    from 2(3) obtain rp: "reviewed_plan env rq ap now d = Inr (pid, p, dp)"
      and au: "validate_automation_authority env rq (rq_application_id rq) ap pid p (job_url_of d ap) release now d = Inr au"
      by (elim admission_checksE)
    from rp obtain "find (\<lambda>(k, p). pl_plan_id p = rq_form_plan_id rq) (db_plans d) = Some (pid, p)"
      by (elim reviewed_planE)
    from admitted_replay[OF 2(4) assms(2) this au] show ?thesis .
  qed
  with rel show ?thesis by (simp add: create_one_def)
qed

theorem repeated_request_is_replayed_witness:
  "create_one sample_admission sample_caps sample_request 99 db_admitted =
     Inr (db_admitted, sample_created\<lparr>cc_replayed := True\<rparr>)"
  by (rule repeated_request_is_replayed[OF sample_admitted prepared_db_valid])



end
