(* ===== verification/Control_Runner.thy ===== *)
theory Control_Runner
  imports Review_Grants Control_Protocol Submission_Service
begin

text \<open>
  The private runner of the hosted control plane, \<^verbatim>\<open>worker/control_plane_runner.py\<close>: verification of a signed
  remote command, its admission in one transaction that spends the review grant, records the receipt, queues
  the first event and creates the attempt, and the activation of the stop switch.
\<close>

section \<open>Verified commands\<close>

record control_command =
  kc_command_id :: string
  kc_grant_id :: string
  kc_application_ref :: string
  kc_application_revision :: int
  kc_adapter :: string
  kc_adapter_version :: string
  kc_form_fingerprint_digest :: string
  kc_delivery_nonce :: string
  kc_issued_at :: instant
  kc_expires_at :: instant
  kc_envelope_digest :: string

record stop_command =
  kk_command_id :: string
  kk_runner_boot_id :: string
  kk_delivery_nonce :: string
  kk_issued_at :: instant
  kk_expires_at :: instant
  kk_envelope_digest :: string

record accepted_command =
  ak_remote_command_ref :: string
  ak_remote_attempt_ref :: string
  ak_application_id :: int
  ak_attempt_id :: int
  ak_submission_command_id :: int
  ak_replayed :: bool

abbreviation runner_error :: "string \<Rightarrow> runner_fault + 'a" where
  "runner_error r \<equiv> Inl (RunnerFault r)"

abbreviation insist :: "bool \<Rightarrow> string \<Rightarrow> runner_fault + unit" where
  "insist b r \<equiv> ensure b (RunnerFault r)"

definition canonical_uuid :: "string \<Rightarrow> bool" where
  "canonical_uuid s \<longleftrightarrow> uuid_text s = Some s"

definition token_chars :: string where
  "token_chars = ascii_letters @ ascii_digits @ ''_.:-''"

definition wire_token :: "string \<Rightarrow> bool" where
  "wire_token s \<longleftrightarrow> 1 \<le> length s \<and> length s \<le> 128 \<and> list_all (\<lambda>c. c \<in> set token_chars) s"

definition max_command_lifetime :: int where
  "max_command_lifetime = 300"

definition lifetime_ok :: "instant \<Rightarrow> instant \<Rightarrow> bool" where
  "lifetime_ok issued expires \<longleftrightarrow> issued < expires \<and> expires - issued \<le> seconds max_command_lifetime"

text \<open>The two \<open>__post_init__\<close> validators.\<close>

definition validate_control_command :: "control_command \<Rightarrow> runner_fault + control_command" where
  "validate_control_command c =
     and_then (insist (canonical_uuid (kc_command_id c)) ''CONTROL_COMMAND_ID_INVALID'') (\<lambda>_.
     and_then (insist (canonical_uuid (kc_grant_id c)) ''CONTROL_GRANT_ID_INVALID'') (\<lambda>_.
     and_then (insist (canonical_uuid (kc_application_ref c)) ''CONTROL_APPLICATION_REF_INVALID'') (\<lambda>_.
     and_then (insist (canonical_uuid (kc_delivery_nonce c)) ''CONTROL_NONCE_INVALID'') (\<lambda>_.
     and_then (insist (1 \<le> kc_application_revision c) ''CONTROL_REVISION_INVALID'') (\<lambda>_.
     and_then (insist (wire_token (kc_adapter c) \<and> wire_token (kc_adapter_version c)) ''CONTROL_ADAPTER_INVALID'') (\<lambda>_.
     and_then (insist (is_sha256 (kc_form_fingerprint_digest c)) ''CONTROL_FINGERPRINT_INVALID'') (\<lambda>_.
     and_then (insist (is_sha256 (kc_envelope_digest c)) ''CONTROL_ENVELOPE_DIGEST_INVALID'') (\<lambda>_.
     and_then (insist (lifetime_ok (kc_issued_at c) (kc_expires_at c)) ''CONTROL_COMMAND_LIFETIME_INVALID'') (\<lambda>_.
     Inr c)))))))))"

definition validate_stop_command :: "stop_command \<Rightarrow> runner_fault + stop_command" where
  "validate_stop_command c =
     and_then (insist (canonical_uuid (kk_command_id c)) ''KILL_SWITCH_COMMAND_ID_INVALID'') (\<lambda>_.
     and_then (insist (canonical_uuid (kk_runner_boot_id c)) ''RUNNER_BOOT_ID_INVALID'') (\<lambda>_.
     and_then (insist (canonical_uuid (kk_delivery_nonce c)) ''CONTROL_NONCE_INVALID'') (\<lambda>_.
     and_then (insist (is_sha256 (kk_envelope_digest c)) ''CONTROL_ENVELOPE_DIGEST_INVALID'') (\<lambda>_.
     and_then (insist (lifetime_ok (kk_issued_at c) (kk_expires_at c)) ''CONTROL_COMMAND_LIFETIME_INVALID'') (\<lambda>_.
     Inr c)))))"

section \<open>Verification of an envelope\<close>

record remote_payload =
  cp_command_id :: string
  cp_grant_id :: string
  cp_application_ref :: string
  cp_application_revision :: int
  cp_adapter :: string
  cp_adapter_version :: string
  cp_form_fingerprint_digest :: string

record stop_payload =
  kp_command_id :: string
  kp_boot_id :: string

text \<open>
  What a running \<open>ControlPlaneRunner\<close> knows: the identifier of the key of the control plane and its own boot.
  The envelope has been parsed by the protocol classes; \<open>signature_ok\<close> is the Ed25519 check and \<open>digest\<close>
  the SHA-256 of the canonical bytes. A rejected envelope gives one reason whatever the cause.
\<close>

record runner_identity =
  ri_signing_key_id :: string
  ri_boot_id :: string

definition same_text :: "string \<Rightarrow> string \<Rightarrow> string \<Rightarrow> string \<Rightarrow> runner_fault + unit" where
  "same_text otherwise x y reason =
     (case compare_digest x y of
        Inl e \<Rightarrow> runner_error otherwise | Inr b \<Rightarrow> insist b reason)"

definition envelope_verified :: "string \<Rightarrow> string option \<Rightarrow> runner_fault + unit" where
  "envelope_verified otherwise v = insist (v = None) otherwise"

definition verify_command ::
  "runner_identity \<Rightarrow> bool \<Rightarrow> string \<Rightarrow> instant \<Rightarrow> envelope \<Rightarrow> remote_payload \<Rightarrow> runner_fault + control_command" where
  "verify_command me signature_ok digest now en p =
     and_then (same_text ''CONTROL_COMMAND_INVALID'' (en_key_id en) (ri_signing_key_id me)
                 ''CONTROL_SIGNING_KEY_ID_MISMATCH'') (\<lambda>_.
     and_then (envelope_verified ''CONTROL_COMMAND_INVALID''
                 (verify_envelope signature_ok EP_CONTROL_COMMAND runner_audience now en)) (\<lambda>_.
     validate_control_command
       \<lparr>kc_command_id = cp_command_id p, kc_grant_id = cp_grant_id p, kc_application_ref = cp_application_ref p,
        kc_application_revision = cp_application_revision p, kc_adapter = cp_adapter p,
        kc_adapter_version = cp_adapter_version p, kc_form_fingerprint_digest = cp_form_fingerprint_digest p,
        kc_delivery_nonce = en_nonce en, kc_issued_at = en_issued_at en, kc_expires_at = en_expires_at en,
        kc_envelope_digest = digest\<rparr>))"

definition verify_kill_switch_command ::
  "runner_identity \<Rightarrow> bool \<Rightarrow> string \<Rightarrow> instant \<Rightarrow> envelope \<Rightarrow> stop_payload \<Rightarrow> runner_fault + stop_command" where
  "verify_kill_switch_command me signature_ok digest now en p =
     and_then (same_text ''KILL_SWITCH_COMMAND_INVALID'' (en_key_id en) (ri_signing_key_id me)
                 ''CONTROL_SIGNING_KEY_ID_MISMATCH'') (\<lambda>_.
     and_then (envelope_verified ''KILL_SWITCH_COMMAND_INVALID''
                 (verify_envelope signature_ok EP_CONTROL_KILL_COMMAND runner_audience now en)) (\<lambda>_.
     and_then (same_text ''KILL_SWITCH_COMMAND_INVALID'' (kp_boot_id p) (ri_boot_id me) ''RUNNER_BOOT_MISMATCH'') (\<lambda>_.
     validate_stop_command
       \<lparr>kk_command_id = kp_command_id p, kk_runner_boot_id = kp_boot_id p, kk_delivery_nonce = en_nonce en,
        kk_issued_at = en_issued_at en, kk_expires_at = en_expires_at en, kk_envelope_digest = digest\<rparr>)))"

section \<open>Replay\<close>

definition accepted_of ::
  "receipt_row \<Rightarrow> int \<times> command_row \<Rightarrow> attempt \<Rightarrow> accepted_command" where
  "accepted_of r kc a =
     \<lparr>ak_remote_command_ref = rw_remote_command_ref r, ak_remote_attempt_ref = rw_remote_attempt_ref r,
      ak_application_id = at_application_id a, ak_attempt_id = cm_attempt_id (snd kc),
      ak_submission_command_id = fst kc, ak_replayed = True\<rparr>"

definition find_command_replay :: "control_command \<Rightarrow> local_db \<Rightarrow> runner_fault + accepted_command option" where
  "find_command_replay c l =
     (case find (\<lambda>(k, r). rw_remote_command_ref r = kc_command_id c) (lc_receipts l) of
        None \<Rightarrow> Inr None
      | Some (j, r) \<Rightarrow>
          and_then (core (compare_digest (rw_envelope_digest r) (kc_envelope_digest c))) (\<lambda>same.
          and_then (insist same ''CONTROL_COMMAND_CONFLICT'') (\<lambda>_.
          and_then (lift_opt (RunnerFault ''CONTROL_RECEIPT_INCONSISTENT'')
             (find (\<lambda>(k, x). cm_idempotency_key x = rw_client_idempotency_key r) (db_commands (lc_db l)))) (\<lambda>kc.
          and_then (lift_opt (CoreFault MissingRow) (row (db_attempts (lc_db l)) (cm_attempt_id (snd kc)))) (\<lambda>a.
          and_then (lift_opt (CoreFault AttributeFault) (row (lc_grants l) (rw_review_grant_id r))) (\<lambda>g.
          and_then (insist (at_application_id a = gw_application_id g) ''CONTROL_RECEIPT_INCONSISTENT'') (\<lambda>_.
          Inr (Some (accepted_of r kc a)))))))))"

section \<open>Admission of a remote command\<close>

definition runner_release_of :: "runtime_caps \<Rightarrow> runner_fault + string" where
  "runner_release_of caps =
     (case rc_release caps of
        None \<Rightarrow> runner_error ''RUNTIME_NOT_READY''
      | Some (r, release_id) \<Rightarrow> and_then (insist (is_sha256 release_id) ''RUNTIME_NOT_READY'') (\<lambda>_. Inr release_id))"

definition client_release_of :: "runtime_caps \<Rightarrow> runner_fault + client_release" where
  "client_release_of caps =
     (case rc_release caps of
        None \<Rightarrow> runner_error ''RUNTIME_NOT_READY''
      | Some (r, release_id) \<Rightarrow>
          and_then (insist (list_all (\<lambda>f. f r \<noteq> [])
             [cr_build_sha, cr_ui_asset_digest, cr_source_digest, cr_protocol_version, cr_boot_id]) ''RUNTIME_NOT_READY'')
            (\<lambda>_. Inr r))"

fun check_matches :: "((fault + bool) \<times> string) list \<Rightarrow> runner_fault + unit" where
  "check_matches [] = Inr ()"
| "check_matches ((Inl e, r) # bs) = Inl (CoreFault e)"
| "check_matches ((Inr b, r) # bs) = (if b then check_matches bs else runner_error r)"

definition command_bindings :: "grant_row \<Rightarrow> string \<Rightarrow> control_command \<Rightarrow> ((fault + bool) \<times> string) list" where
  "command_bindings g ref c =
     [(compare_digest (gw_grant_ref g) (kc_grant_id c), ''CONTROL_GRANT_CHANGED''),
      (compare_digest ref (kc_application_ref c), ''CONTROL_APPLICATION_CHANGED''),
      (Inr (gw_application_revision g = kc_application_revision c), ''APPLICATION_REVISION_CHANGED''),
      (compare_digest (gw_adapter_name g) (kc_adapter c), ''ADAPTER_VERSION_CHANGED''),
      (compare_digest (gw_adapter_version g) (kc_adapter_version c), ''ADAPTER_VERSION_CHANGED''),
      (compare_digest (gw_form_plan_fingerprint g) (kc_form_fingerprint_digest c), ''FORM_CHANGED'')]"

text \<open>
  What one call reads beside the database: three clock readings, the wall clock of admission, the new attempt
  reference and \<open>transition_event_ref\<close>.
\<close>

record runner_env =
  re_admission :: admission_env
  re_grants :: grant_env
  re_caps :: runtime_caps
  re_first :: instant
  re_second :: instant
  re_third :: instant
  re_wall :: instant
  re_attempt_ref :: string
  re_event_ref :: "string \<Rightarrow> int \<Rightarrow> string"

definition client_key :: "control_command \<Rightarrow> string" where
  "client_key c = ''control-plane:'' @ kc_command_id c"

definition new_receipt :: "runner_env \<Rightarrow> control_command \<Rightarrow> int \<Rightarrow> receipt_row" where
  "new_receipt e c k =
     \<lparr>rw_remote_command_ref = kc_command_id c, rw_remote_attempt_ref = re_attempt_ref e, rw_review_grant_id = k,
      rw_delivery_nonce_hash = sv_sha256 (re_admission e) (kc_delivery_nonce c),
      rw_envelope_digest = kc_envelope_digest c, rw_client_idempotency_key = client_key c,
      rw_accepted_at = re_third e\<rparr>"

definition queued_event :: "runner_env \<Rightarrow> control_command \<Rightarrow> outbox_event" where
  "queued_event e c =
     \<lparr>ob_event_ref = re_event_ref e (kc_command_id c) 1, ob_command_ref = kc_command_id c, ob_sequence = 1,
      ob_cycle = 0, ob_stage = QUEUED, ob_outcome = None, ob_reason_code = None, ob_evidence_type = None,
      ob_evidence_digest = None, ob_occurred_at = re_third e\<rparr>"

text \<open>
  The submission core sees a receipt as the pair of its key and its command reference, so both views of the
  table are written.
\<close>

definition add_receipt :: "receipt_row \<Rightarrow> local_db \<Rightarrow> local_db" where
  "add_receipt r l =
     l\<lparr>lc_receipts := put_row (next_id (lc_receipts l)) r (lc_receipts l),
       lc_db := (lc_db l)\<lparr>db_receipts := db_receipts (lc_db l) @ [(rw_client_idempotency_key r, rw_remote_command_ref r)]\<rparr>\<rparr>"

definition remote_request ::
  "control_command \<Rightarrow> grant_row \<Rightarrow> plan_row \<Rightarrow> client_release \<Rightarrow> instant \<Rightarrow> submission_request" where
  "remote_request c g p client expires =
     \<lparr>rq_application_id = gw_application_id g, rq_idempotency_key = client_key c,
      rq_application_revision = gw_application_revision g, rq_form_plan_id = pl_plan_id p,
      rq_client_release = client, rq_authority_expires_at = Some expires,
      rq_authority_kind = ''control_plane'', rq_policy_decision_id = None, rq_canary_authorization_id = None\<rparr>"

text \<open>
  The last step, \<open>create_submission_commands\<close> in the transaction of the runner: when a constraint is
  violated the whole transaction is rolled back and the answer is looked up in \<open>after\<close>, otherwise its
  changes are committed together with those of the runner.
\<close>

definition create_remote_command ::
  "runner_env \<Rightarrow> submission_request \<Rightarrow> local_db \<Rightarrow> local_db \<Rightarrow> runner_fault + local_db \<times> created_command" where
  "create_remote_command e rq after l =
     and_then (core (create_submission_commands (re_admission e) (re_caps e) [rq] (re_third e) (re_wall e)
                       (lc_db after) (lc_db l))) (\<lambda>(d', cs).
     and_then (lift_opt (CoreFault ValueFault) (case cs of [x] \<Rightarrow> Some x | _ \<Rightarrow> None)) (\<lambda>x.
     if create_batch (re_admission e) (re_caps e) [rq] (re_third e) (re_wall e) (lc_db l) = Inl IntegrityError
     then Inr (after, x)
     else and_then (commit_local (l\<lparr>lc_db := d'\<rparr>)) (\<lambda>l'. Inr (l', x))))"

definition accepted_now :: "runner_env \<Rightarrow> control_command \<Rightarrow> created_command \<Rightarrow> accepted_command" where
  "accepted_now e c x =
     \<lparr>ak_remote_command_ref = kc_command_id c, ak_remote_attempt_ref = re_attempt_ref e,
      ak_application_id = cc_application_id x, ak_attempt_id = cc_attempt_id x,
      ak_submission_command_id = cc_command_id x, ak_replayed = cc_replayed x\<rparr>"

text \<open>
  The writing part, from the receipt on. The flush of the queued event checks the constraints; its event
  reference is new because an event is written only with its receipt.
\<close>

definition spend_and_create ::
  "runner_env \<Rightarrow> control_command \<Rightarrow> int \<Rightarrow> grant_row \<Rightarrow> instant \<Rightarrow> local_db \<Rightarrow> local_db
     \<Rightarrow> runner_fault + local_db \<times> accepted_command" where
  "spend_and_create e c k g expires after l =
     and_then (consume_control_plane_review_grant (kc_command_id c) g (re_third e)) (\<lambda>g'.
     let l1 = put_grant k g' (add_receipt (new_receipt e c k) l) in
     and_then (core (validate_event (queued_event e c))) (\<lambda>_.
     and_then (core (enqueue_control_plane_event (queued_event e c) (lc_db l1))) (\<lambda>d2.
     and_then (commit_local (l1\<lparr>lc_db := d2\<rparr>)) (\<lambda>l2.
     and_then (lift_opt (CoreFault AttributeFault) (row (db_plans d2) (gw_form_plan_id g))) (\<lambda>p.
     and_then (client_release_of (re_caps e)) (\<lambda>client.
     and_then (create_remote_command e (remote_request c g p client expires) after l2) (\<lambda>(l3, x).
     Inr (l3, accepted_now e c x))))))))"

text \<open>The exact bindings of the command and the last deadline check.\<close>

definition fresh_acceptance ::
  "runner_env \<Rightarrow> control_command \<Rightarrow> int \<times> grant_row \<Rightarrow> local_db \<Rightarrow> local_db
     \<Rightarrow> runner_fault + local_db \<times> accepted_command" where
  "fresh_acceptance e c kg after l =
     (let (k, g) = kg; expires = min (kc_expires_at c) (gw_expires_at g) in
      and_then (remote_ref_of l g) (\<lambda>ref.
      and_then (check_matches (command_bindings g ref c)) (\<lambda>_.
      and_then (insist (re_third e < expires) ''CONTROL_COMMAND_EXPIRED'') (\<lambda>_.
      spend_and_create e c k g expires after l))))"

text \<open>
  What follows the validation of the grant. A concurrent duplicate may have waited for the lock on the grant, so
  a spent grant is answered from the receipt if there is one.
\<close>

definition answer_by_grant ::
  "runner_env \<Rightarrow> control_command \<Rightarrow> local_db \<Rightarrow> local_db \<Rightarrow> runner_fault + int \<times> grant_row
     \<Rightarrow> runner_fault + local_db \<times> accepted_command" where
  "answer_by_grant e c after l validated =
     (case validated of
        Inr kg \<Rightarrow> fresh_acceptance e c kg after l
      | Inl (GrantFault r) \<Rightarrow>
          (if r = ''REVIEW_GRANT_REPLAYED''
           then and_then (find_command_replay c l) (\<lambda>again.
                  case again of Some x \<Rightarrow> Inr (l, x) | None \<Rightarrow> runner_error r)
           else runner_error r)
      | Inl f \<Rightarrow> Inl f)"

text \<open>
  \<open>earlier\<close> is the database at the first look for a receipt, \<open>l\<close> the one seen once the lock on the grant has
  been granted. The capabilities are those the runner passes.
\<close>

definition accept_control_plane_command ::
  "runner_env \<Rightarrow> control_command \<Rightarrow> local_db \<Rightarrow> local_db \<Rightarrow> local_db \<Rightarrow> runner_fault + local_db \<times> accepted_command" where
  "accept_control_plane_command e c earlier after l =
     and_then (insist (kc_issued_at c \<le> re_first e + max_clock_skew \<and> re_first e < kc_expires_at c)
                 ''CONTROL_COMMAND_EXPIRED'') (\<lambda>_.
     and_then (find_command_replay c earlier) (\<lambda>replay.
     case replay of
       Some x \<Rightarrow> Inr (l, x)
     | None \<Rightarrow>
         and_then (runner_release_of (re_caps e)) (\<lambda>release.
         and_then (insist (re_second e < kc_expires_at c) ''CONTROL_COMMAND_EXPIRED'') (\<lambda>_.
         answer_by_grant e c after l
           (validate_control_plane_review_grant (re_grants e) (kc_grant_id c) (kc_application_ref c) release
              (re_second e) l)))))"

text \<open>\<open>ControlPlaneRunner._admit\<close> passes no resolver, so the committed registry decides.\<close>

definition runner_admission :: "admission_env \<Rightarrow> admission_env" where
  "runner_admission env = env\<lparr>sv_descriptor_resolver := Some (adapter_for_url (sv_adapter env))\<rparr>"

definition runner_admit ::
  "runner_env \<Rightarrow> control_command \<Rightarrow> local_db \<Rightarrow> local_db \<Rightarrow> local_db \<Rightarrow> runner_fault + local_db \<times> accepted_command" where
  "runner_admit e = accept_control_plane_command (e\<lparr>re_admission := runner_admission (re_admission e)\<rparr>)"

section \<open>The stop switch\<close>

definition activate_control_plane_kill_switch ::
  "stop_command \<Rightarrow> instant \<Rightarrow> local_db \<Rightarrow> runner_fault + local_db \<times> bool" where
  "activate_control_plane_kill_switch c now l =
     and_then (insist (kk_issued_at c \<le> now + max_clock_skew) ''CONTROL_COMMAND_NOT_YET_VALID'') (\<lambda>_.
     and_then (insist (now < kk_expires_at c) ''CONTROL_COMMAND_EXPIRED'') (\<lambda>_.
     and_then (core (set_automation_kill_switch True VERCEL_SIGNED_KILL ''REMOTE_OPERATOR_KILL''
                       (Some (kk_envelope_digest c)) now (lc_db l))) (\<lambda>(d', k, replayed).
     and_then (commit_local (l\<lparr>lc_db := d'\<rparr>)) (\<lambda>l'. Inr (l', replayed)))))"

section \<open>One publication\<close>

text \<open>
  \<open>_publish_one_review_grant\<close> and its twin for revocations: claim, load, send and settle, each in a transaction
  of its own, here with no other transaction in between. \<open>send_error\<close> is the exception of the network call, if
  it raised one. What has been committed stays when an exception is raised.
\<close>

definition settled_with :: "runner_fault + local_db \<Rightarrow> local_db \<Rightarrow> runner_fault + bool \<Rightarrow> local_db \<times> (runner_fault + bool)" where
  "settled_with m l answer = (case m of Inl f \<Rightarrow> (l, Inl f) | Inr l' \<Rightarrow> (l', answer))"

definition send_claimed ::
  "runner_fault + 'p \<Rightarrow> runner_fault option \<Rightarrow> runner_fault + local_db \<Rightarrow> runner_fault + local_db \<Rightarrow> local_db
     \<Rightarrow> local_db \<times> (runner_fault + bool)" where
  "send_claimed loaded send_error released marked l =
     (case loaded of
        Inl f \<Rightarrow> settled_with released l (Inl f)
      | Inr pj \<Rightarrow>
          (case send_error of
             Some f \<Rightarrow> settled_with released l (Inl f)
           | None \<Rightarrow> settled_with marked l (Inr True)))"

definition failed_delivery :: string where
  "failed_delivery = ''CONTROL_PLANE_DELIVERY_FAILED''"

definition publish_one_review_grant ::
  "grant_env \<Rightarrow> string \<Rightarrow> string \<Rightarrow> string \<Rightarrow> runner_fault option \<Rightarrow> instant \<Rightarrow> instant \<Rightarrow> instant \<Rightarrow> local_db
     \<Rightarrow> local_db \<times> (runner_fault + bool)" where
  "publish_one_review_grant env device token release send_error t1 t2 t3 l =
     (case claim_review_grant_projection device token t1 l of
        Inl f \<Rightarrow> (l, Inl f)
      | Inr (l1, None) \<Rightarrow> (l1, Inr False)
      | Inr (l1, Some (k, tok)) \<Rightarrow>
          send_claimed (load_claimed_review_grant_projection env k tok release t2 l1) send_error
            (release_review_grant_projection k tok failed_delivery t3 l1)
            (mark_review_grant_projected k tok t3 l1) l1)"

definition publish_one_review_grant_revocation ::
  "string \<Rightarrow> string \<Rightarrow> runner_fault option \<Rightarrow> instant \<Rightarrow> instant \<Rightarrow> instant \<Rightarrow> local_db \<Rightarrow> local_db \<times> (runner_fault + bool)" where
  "publish_one_review_grant_revocation device token send_error t1 t2 t3 l =
     (case claim_review_grant_revocation device token t1 l of
        Inl f \<Rightarrow> (l, Inl f)
      | Inr (l1, None) \<Rightarrow> (l1, Inr False)
      | Inr (l1, Some (k, tok)) \<Rightarrow>
          send_claimed (load_claimed_review_grant_revocation k tok t2 l1) send_error
            (release_review_grant_revocation k tok failed_delivery t3 l1)
            (mark_review_grant_revocation_delivered k tok t3 l1) l1)"

text \<open>The loop of \<open>run_once\<close> over the revocations; its first argument bounds the rounds at twenty-five.\<close>

fun drain_revocations ::
  "nat \<Rightarrow> string \<Rightarrow> (nat \<Rightarrow> string \<times> runner_fault option \<times> instant \<times> instant \<times> instant) \<Rightarrow> local_db
     \<Rightarrow> local_db \<times> (runner_fault + nat)" where
  "drain_revocations 0 device inputs l = (l, Inr 0)"
| "drain_revocations (Suc n) device inputs l =
     (case inputs n of (token, send_error, t1, t2, t3) \<Rightarrow>
      (case publish_one_review_grant_revocation device token send_error t1 t2 t3 l of
         (l1, Inl f) \<Rightarrow> (l1, Inl f)
       | (l1, Inr False) \<Rightarrow> (l1, Inr 0)
       | (l1, Inr True) \<Rightarrow>
           (case drain_revocations n device inputs l1 of
              (l2, Inl f) \<Rightarrow> (l2, Inl f) | (l2, Inr m) \<Rightarrow> (l2, Inr (Suc m)))))"

section \<open>Lemmas\<close>

lemma check_matches_ok: "check_matches bs = Inr u \<longleftrightarrow> (\<forall>(m, r) \<in> set bs. m = Inr True)"
  by (induction bs rule: check_matches.induct) auto

declare check_matches.simps [simp del]

lemma command_bindings_ok:
  assumes "check_matches (command_bindings g ref c) = Inr ()"
  shows "kc_grant_id c = gw_grant_ref g" "kc_application_ref c = ref"
    "kc_application_revision c = gw_application_revision g" "kc_adapter c = gw_adapter_name g"
    "kc_adapter_version c = gw_adapter_version g" "kc_form_fingerprint_digest c = gw_form_plan_fingerprint g"
  using assms by (simp add: check_matches_ok command_bindings_def; elim conjE; simp)+

lemma answer_by_grant_cases:
  assumes "answer_by_grant e c after l v = Inr (l', x)"
  obtains "l' = l" "find_command_replay c l = Inr (Some x)"
  | k g where "v = Inr (k, g)" "fresh_acceptance e c (k, g) after l = Inr (l', x)"
proof (cases v)
  case (Inl f)
  with assms that(1) show thesis
    by (auto simp: answer_by_grant_def elim!: and_then_okE split: runner_fault.splits if_splits option.splits)
next
  case (Inr kg)
  with assms that(2) show thesis by (cases kg) (simp add: answer_by_grant_def)
qed

lemma accept_cases:
  assumes "accept_control_plane_command e c earlier after l = Inr (l', x)"
  obtains "l' = l" "find_command_replay c earlier = Inr (Some x) \<or> find_command_replay c l = Inr (Some x)"
  | release k g where "find_command_replay c earlier = Inr None" "re_second e < kc_expires_at c"
      "validate_control_plane_review_grant (re_grants e) (kc_grant_id c) (kc_application_ref c) release
         (re_second e) l = Inr (k, g)"
      "fresh_acceptance e c (k, g) after l = Inr (l', x)"
proof -
  from assms obtain r where r: "find_command_replay c earlier = Inr r"
    and rest: "(case r of
       Some x \<Rightarrow> Inr (l, x)
     | None \<Rightarrow>
         and_then (runner_release_of (re_caps e)) (\<lambda>release.
         and_then (insist (re_second e < kc_expires_at c) ''CONTROL_COMMAND_EXPIRED'') (\<lambda>_.
         answer_by_grant e c after l
           (validate_control_plane_review_grant (re_grants e) (kc_grant_id c) (kc_application_ref c) release
              (re_second e) l)))) = Inr (l', x)"
    unfolding accept_control_plane_command_def by (elim and_then_okE)
  show thesis
  proof (cases r)
    case (Some y)
    with r rest that(1) show ?thesis by simp
  next
    case None
    from rest[unfolded None option.case] obtain release where t: "re_second e < kc_expires_at c"
      and v: "answer_by_grant e c after l
           (validate_control_plane_review_grant (re_grants e) (kc_grant_id c) (kc_application_ref c) release
              (re_second e) l) = Inr (l', x)"
      by (elim and_then_okE) simp
    from v show ?thesis
      by (cases rule: answer_by_grant_cases) (use that r None t in auto)
  qed
qed

lemma remote_command_cases:
  assumes "create_remote_command e rq after l = Inr (l', y)"
  obtains "l' = after" "cc_replayed y"
  | d' where "create_one (re_admission e) (re_caps e) rq (re_third e) (lc_db l) = Inr (d', y)"
      "l' = l\<lparr>lc_db := d'\<rparr>" "local_valid l'"
proof -
  from assms obtain d' cs where cs: "create_submission_commands (re_admission e) (re_caps e) [rq] (re_third e) (re_wall e)
      (lc_db after) (lc_db l) = Inr (d', cs)" and y: "(case cs of [x] \<Rightarrow> Some x | _ \<Rightarrow> None) = Some y"
    and rest: "(if create_batch (re_admission e) (re_caps e) [rq] (re_third e) (re_wall e) (lc_db l) = Inl IntegrityError
       then Inr (after, y) else and_then (commit_local (l\<lparr>lc_db := d'\<rparr>)) (\<lambda>l'. Inr (l', y))) = Inr (l', y)"
    unfolding create_remote_command_def by (elim and_then_okE) (auto elim!: and_then_okE split: if_splits)
  from y have cs1: "cs = [y]" by (auto split: list.splits)
  show thesis
  proof (cases "create_batch (re_admission e) (re_caps e) [rq] (re_third e) (re_wall e) (lc_db l) = Inl IntegrityError")
    case True
    with cs have "find_replay rq (lc_db after) = Inr (Some y)"
      by (auto simp: create_submission_commands_def cs1 elim!: and_then_okE split: option.splits)
    with True rest that(1) find_replay_replayed show ?thesis by simp
  next
    case False
    with cs have "create_batch (re_admission e) (re_caps e) [rq] (re_third e) (re_wall e) (lc_db l) = Inr (d', cs)"
      unfolding create_submission_commands_def
      by (auto elim!: and_then_okE split: sum.splits fault.splits)
    then have "create_one (re_admission e) (re_caps e) rq (re_third e) (lc_db l) = Inr (d', y)"
      by (auto simp: create_batch_def cs1 elim!: and_then_okE)
    with False rest that(2) show ?thesis by (auto elim!: and_then_okE)
  qed
qed

lemma consume_grant_ok:
  assumes "consume_control_plane_review_grant ref g now = Inr g'"
  shows "g' = g\<lparr>gw_consumed_at := Some now, gw_consumed_command_ref := Some (strip ref)\<rparr>" "gw_consumed_at g = None"
  using assms by (auto simp: consume_control_plane_review_grant_def Let_def elim!: and_then_okE)

lemma fresh_acceptanceE:
  assumes "fresh_acceptance e c (k, g) after l = Inr (l', x)"
  obtains ref g' d2 p client y where "check_matches (command_bindings g ref c) = Inr ()"
    "re_third e < min (kc_expires_at c) (gw_expires_at g)"
    "consume_control_plane_review_grant (kc_command_id c) g (re_third e) = Inr g'"
    "enqueue_control_plane_event (queued_event e c) (lc_db (add_receipt (new_receipt e c k) l)) = Inr d2"
    "local_valid ((put_grant k g' (add_receipt (new_receipt e c k) l))\<lparr>lc_db := d2\<rparr>)"
    "row (db_plans d2) (gw_form_plan_id g) = Some p" "client_release_of (re_caps e) = Inr client"
    "create_remote_command e (remote_request c g p client (min (kc_expires_at c) (gw_expires_at g))) after
       ((put_grant k g' (add_receipt (new_receipt e c k) l))\<lparr>lc_db := d2\<rparr>) = Inr (l', y)"
    "x = accepted_now e c y"
proof -
  from assms obtain ref where m: "check_matches (command_bindings g ref c) = Inr ()"
    and t: "re_third e < min (kc_expires_at c) (gw_expires_at g)"
    and sp: "spend_and_create e c k g (min (kc_expires_at c) (gw_expires_at g)) after l = Inr (l', x)"
    unfolding fresh_acceptance_def Let_def prod.case by (elim and_then_okE) simp
  from sp obtain g' d2 p client y where
    con: "consume_control_plane_review_grant (kc_command_id c) g (re_third e) = Inr g'"
    and enq: "core (enqueue_control_plane_event (queued_event e c)
      (lc_db (put_grant k g' (add_receipt (new_receipt e c k) l)))) = Inr d2"
    and v: "local_valid ((put_grant k g' (add_receipt (new_receipt e c k) l))\<lparr>lc_db := d2\<rparr>)"
    and p: "row (db_plans d2) (gw_form_plan_id g) = Some p" and cl: "client_release_of (re_caps e) = Inr client"
    and cr: "create_remote_command e (remote_request c g p client (min (kc_expires_at c) (gw_expires_at g))) after
       ((put_grant k g' (add_receipt (new_receipt e c k) l))\<lparr>lc_db := d2\<rparr>) = Inr (l', y)"
    and x: "x = accepted_now e c y"
    unfolding spend_and_create_def Let_def
    by (elim and_then_okE) (auto elim!: and_then_okE)
  show thesis by (rule that[OF m t con _ v p cl cr x]) (use enq in simp)
qed

lemma queued_event_reads:
  assumes "enqueue_control_plane_event ev d = Inr d'"
  shows "db_attempts d' = db_attempts d" "db_permits d' = db_permits d" "db_commands d' = db_commands d"
    "db_applications d' = db_applications d" "db_plans d' = db_plans d" "db_receipts d' = db_receipts d"
  using assms by (cases rule: enqueue_event_cases; simp)+

lemma add_receipt_reads [simp]:
  "lc_grants (add_receipt r l) = lc_grants l" "lc_refs (add_receipt r l) = lc_refs l"
  "lc_receipts (add_receipt r l) = lc_receipts l @ [(next_id (lc_receipts l), r)]"
  "db_plans (lc_db (add_receipt r l)) = db_plans (lc_db l)"
  by (simp_all add: add_receipt_def put_next)

text \<open>A fresh acceptance either answers by an existing command or creates one from the grant it spends.\<close>

lemma fresh_acceptance_cases:
  assumes "fresh_acceptance e c (k, g) after l = Inr (l', x)"
  obtains "l' = after" "ak_replayed x"
  | d2 p client y d' where "re_third e < min (kc_expires_at c) (gw_expires_at g)" "gw_consumed_at g = None"
      "db_plans d2 = db_plans (lc_db l)" "row (db_plans (lc_db l)) (gw_form_plan_id g) = Some p"
      "create_one (re_admission e) (re_caps e)
         (remote_request c g p client (min (kc_expires_at c) (gw_expires_at g))) (re_third e) d2 = Inr (d', y)"
      "x = accepted_now e c y" "lc_db l' = d'" "local_valid l'"
      "lc_grants l' = put_row k (g\<lparr>gw_consumed_at := Some (re_third e),
         gw_consumed_command_ref := Some (strip (kc_command_id c))\<rparr>) (lc_grants l)"
      "lc_receipts l' = lc_receipts l @ [(next_id (lc_receipts l), new_receipt e c k)]" "db_valid d2"
  using assms
proof (rule fresh_acceptanceE)
  fix ref g' d2 p client y
  let ?l2 = "(put_grant k g' (add_receipt (new_receipt e c k) l))\<lparr>lc_db := d2\<rparr>"
  assume t: "re_third e < min (kc_expires_at c) (gw_expires_at g)"
    and con: "consume_control_plane_review_grant (kc_command_id c) g (re_third e) = Inr g'"
    and enq: "enqueue_control_plane_event (queued_event e c) (lc_db (add_receipt (new_receipt e c k) l)) = Inr d2"
    and v2: "local_valid ?l2" and p: "row (db_plans d2) (gw_form_plan_id g) = Some p"
    and cr: "create_remote_command e (remote_request c g p client (min (kc_expires_at c) (gw_expires_at g))) after ?l2 = Inr (l', y)"
    and x: "x = accepted_now e c y"
  note con' = consume_grant_ok[OF con] and rd = queued_event_reads[OF enq]
  from v2 have v: "db_valid d2" by (simp add: local_valid_def)
  from cr show thesis
  proof (cases rule: remote_command_cases)
    case 1
    with that(1) show ?thesis by (simp add: x accepted_now_def)
  next
    case (2 d')
    show ?thesis
      by (rule that(2)[OF t con'(2) _ _ _ x]) (use 2 rd p con'(1) v in \<open>simp_all add: x\<close>)
  qed
qed

lemma accept_advances:
  assumes "accept_control_plane_command e c earlier l l = Inr (l', x)" and "local_valid l"
  shows "grants_advance l l'" "local_valid l'"
proof -
  have "grants_advance l l' \<and> local_valid l'"
    using assms(1)
  proof (cases rule: accept_cases)
    case 1
    with assms(2) show ?thesis by (simp add: grants_advance_same)
  next
    case (2 release k g)
    note f = validate_grant_ok[OF 2(3)]
    from f(2) valid_grants(1)[OF assms(2)] have r: "row (lc_grants l) k = Some g" by (simp add: set_row)
    from 2(4) show ?thesis
    proof (cases rule: fresh_acceptance_cases)
      case 1
      with assms(2) show ?thesis by (simp add: grants_advance_same)
    next
      case (2 d2 p client y d')
      with r have "grants_advance l l'"
        by (intro advance_by_put[of _ _ _ l']) (auto simp: grant_follows_def)
      with 2 show ?thesis by simp
    qed
  qed
  then show "grants_advance l l'" "local_valid l'" by simp_all
qed

section \<open>Runs beside the runner\<close>

text \<open>
  One committed transaction: minting, the two deliveries, an admission, the stop switch, or any step of the
  rest of the program, which changes only the submission core.
\<close>

inductive runner_step :: "local_db \<Rightarrow> local_db \<Rightarrow> bool" where
  minted: "mint_control_plane_review_grant env fresh app pid release ttl now l = Inr (l', pj) \<Longrightarrow> runner_step l l'"
| admitted: "accept_control_plane_command e c l l l = Inr (l', x) \<Longrightarrow> runner_step l l'"
| projection_claimed: "claim_review_grant_projection runner token now l = Inr (l', r) \<Longrightarrow> runner_step l l'"
| projection_marked: "mark_review_grant_projected k token now l = Inr l' \<Longrightarrow> runner_step l l'"
| projection_released: "release_review_grant_projection k token reason now l = Inr l' \<Longrightarrow> runner_step l l'"
| revocation_claimed: "claim_review_grant_revocation runner token now l = Inr (l', r) \<Longrightarrow> runner_step l l'"
| revocation_marked: "mark_review_grant_revocation_delivered k token now l = Inr l' \<Longrightarrow> runner_step l l'"
| revocation_released: "release_review_grant_revocation k token reason now l = Inr l' \<Longrightarrow> runner_step l l'"
| stopped: "activate_control_plane_kill_switch kc now l = Inr (l', b) \<Longrightarrow> runner_step l l'"
| elsewhere: "local_valid (l\<lparr>lc_db := d\<rparr>) \<Longrightarrow> runner_step l (l\<lparr>lc_db := d\<rparr>)"

lemma kill_switch_reads:
  assumes "activate_control_plane_kill_switch c now l = Inr (l', b)"
  shows "grants_advance l l'" "local_valid l'"
  using assms unfolding activate_control_plane_kill_switch_def
  by (auto simp: grants_advance_same elim!: and_then_okE)

lemma runner_step_advances:
  assumes "runner_step l l'" and "local_valid l"
  shows "grants_advance l l' \<and> local_valid l'"
  using assms
proof (cases rule: runner_step.cases)
  case (elsewhere d)
  then show ?thesis by (simp add: grants_advance_same)
qed (auto simp: delivers_def dest: mint_advances accept_advances claim_projection_delivers claim_revocation_delivers
       deliveries_deliver kill_switch_reads)

lemma run_advances:
  assumes "runner_step\<^sup>*\<^sup>* l l'" and "local_valid l"
  shows "grants_advance l l' \<and> local_valid l'"
  using assms
  by (induction rule: rtranclp_induct)
     (auto simp: grants_advance_same intro: grants_advance_trans dest: runner_step_advances)

text \<open>A publication and the draining of revocations are such runs.\<close>

lemma send_claimed_cases:
  assumes "send_claimed loaded send_error released marked l = (l', answer)"
  obtains "l' = l" | "released = Inr l'" | "marked = Inr l'"
  using assms by (auto simp: send_claimed_def settled_with_def split: sum.splits option.splits)

lemma one_or_two_steps:
  "runner_step l m \<Longrightarrow> runner_step\<^sup>*\<^sup>* l m" "runner_step l m \<Longrightarrow> runner_step m n \<Longrightarrow> runner_step\<^sup>*\<^sup>* l n"
  by (simp_all add: r_into_rtranclp converse_rtranclp_into_rtranclp)

lemma publish_grant_runs:
  assumes "publish_one_review_grant env device token release send_error t1 t2 t3 l = (l', answer)"
  shows "runner_step\<^sup>*\<^sup>* l l'"
proof -
  from assms consider "l' = l" | r where "claim_review_grant_projection device token t1 l = Inr (l', r)"
    | l1 k tok r where "claim_review_grant_projection device token t1 l = Inr (l1, r)"
        "release_review_grant_projection k tok failed_delivery t3 l1 = Inr l' \<or> mark_review_grant_projected k tok t3 l1 = Inr l'"
    unfolding publish_one_review_grant_def
    by (auto split: sum.splits option.splits elim!: send_claimed_cases) blast+
  then show ?thesis
    by cases (auto intro: one_or_two_steps dest: projection_claimed projection_released projection_marked)
qed

lemma publish_revocation_runs:
  assumes "publish_one_review_grant_revocation device token send_error t1 t2 t3 l = (l', answer)"
  shows "runner_step\<^sup>*\<^sup>* l l'"
proof -
  from assms consider "l' = l" | r where "claim_review_grant_revocation device token t1 l = Inr (l', r)"
    | l1 k tok r where "claim_review_grant_revocation device token t1 l = Inr (l1, r)"
        "release_review_grant_revocation k tok failed_delivery t3 l1 = Inr l'
         \<or> mark_review_grant_revocation_delivered k tok t3 l1 = Inr l'"
    unfolding publish_one_review_grant_revocation_def
    by (auto split: sum.splits option.splits elim!: send_claimed_cases) blast+
  then show ?thesis
    by cases (auto intro: one_or_two_steps dest: revocation_claimed revocation_released revocation_marked)
qed

lemma drain_runs: "drain_revocations n device inputs l = (l', answer) \<Longrightarrow> runner_step\<^sup>*\<^sup>* l l'"
proof (induction n device inputs l arbitrary: l' answer rule: drain_revocations.induct)
  case (2 n device inputs l)
  obtain token send_error t1 t2 t3 where i: "inputs n = (token, send_error, t1, t2, t3)" by (metis prod_cases5)
  obtain l1 r where p: "publish_one_review_grant_revocation device token send_error t1 t2 t3 l = (l1, r)" by fastforce
  from publish_revocation_runs[OF p] have s: "runner_step\<^sup>*\<^sup>* l l1" .
  show ?case
  proof (cases "r = Inr True")
    case True
    obtain l2 q where "drain_revocations n device inputs l1 = (l2, q)" by fastforce
    with 2 i p True have "l' = l2" "runner_step\<^sup>*\<^sup>* l1 l2" by (auto split: sum.splits)
    with s show ?thesis by simp
  next
    case False
    with 2(2) i p have "l' = l1" by (auto split: sum.splits bool.splits)
    with s show ?thesis by simp
  qed
qed simp

text \<open>Once a grant has been spent or revoked, nothing is created from it any more.\<close>

lemma dead_grant_rejected:
  assumes "local_valid l" and "row (lc_grants l) k = Some g" and "\<not> grant_live g" and "runner_step\<^sup>*\<^sup>* l l1"
    and "accept_control_plane_command e c earlier after l1 = Inr (l2, x)" and "kc_grant_id c = gw_grant_ref g"
  shows "find_command_replay c earlier = Inr (Some x) \<or> find_command_replay c l1 = Inr (Some x)"
  using assms(5)
proof (cases rule: accept_cases)
  case (2 release j h)
  from run_advances[OF assms(4,1)] assms(2) obtain g1 where g1: "row (lc_grants l1) k = Some g1" "grant_follows g g1"
    and v: "local_valid l1" by (auto simp: grants_advance_def)
  note ok = validate_grant_ok[OF 2(3)]
  have "gw_grant_ref g1 = kc_grant_id c" using g1(2) assms(6) by (simp add: grant_follows_def)
  with distinct_map_eqD[OF valid_grants(2)[OF v] ok(2) row_in_set[OF g1(1)]] ok(3) have "h = g1" by simp
  with ok(6) g1(2) assms(3) show ?thesis by (auto simp: grant_live_def grant_follows_def)
qed simp

lemma find_command_replay_replayed: "find_command_replay c l = Inr (Some x) \<Longrightarrow> ak_replayed x"
  by (auto simp: find_command_replay_def accepted_of_def elim!: and_then_okE split: option.splits prod.splits)

section \<open>What a remote command creates\<close>

lemma remote_authority:
  assumes "validate_automation_authority env (remote_request c g p client t) app ap pid q url release now d = Inr au"
  shows "au_kind au = AK_CONTROL_PLANE" "au_canary au = None" "au_expires_at au = Some t"
  using assms by (auto simp: validate_automation_authority_def remote_request_def split: if_splits)

lemma remote_created:
  assumes "create_one env caps (remote_request c g p client t) now d = Inr (d', y)" and "\<not> cc_replayed y"
  shows "\<exists>a m. row (db_attempts d') (cc_attempt_id y) = Some a \<and> at_stage a = QUEUED
      \<and> at_authority_kind a = AK_CONTROL_PLANE \<and> at_application_id a = gw_application_id g
      \<and> at_application_revision a = gw_application_revision g
      \<and> row (db_permits d') (cc_attempt_id y) = Some m \<and> \<not> permit_spent m \<and> pm_expires_at m \<le> t
      \<and> cc_application_id y = gw_application_id g"
  using assms(1)
proof (cases rule: create_one_cases)
  case 1
  with find_replay_replayed assms(2) show ?thesis by blast
next
  case (2 ap pid q dp release au a)
  from 2(3) have "validate_automation_authority env (remote_request c g p client t)
      (rq_application_id (remote_request c g p client t)) ap pid q (job_url_of d ap) release now d = Inr au"
    by (elim admission_checksE)
  note au = remote_authority[OF this]
  from admitted_permit_bounded[OF 2(4) au(3)] obtain m where m: "row (db_permits d') (cc_attempt_id y) = Some m"
    "pm_expires_at m \<le> t" "\<not> permit_spent m" by blast
  from 2(4) obtain i k x m' where "x = new_attempt (remote_request c g p client t)
      (next_attempt_number (rq_application_id (remote_request c g p client t)) d) pid q a release au"
    "db_attempts d' = put_row i x (db_attempts d)"
    "y = \<lparr>cc_application_id = rq_application_id (remote_request c g p client t), cc_attempt_id = i, cc_command_id = k,
          cc_replayed = False\<rparr>"
    by (elim admit_rowsE)
  with m au show ?thesis by (simp add: db_simps new_attempt_def) (simp add: remote_request_def)
qed

text \<open>The committed registry has no live adapter, so nothing passes admission through it.\<close>

lemma registry_admits_nothing: "validate_adapter (adapter_for_url env url) q \<noteq> Inr a"
  using registry_not_live adapter_for_platform_Some
  by (auto simp: validate_adapter_def adapter_for_url_def split: option.splits if_splits)

lemma runner_descriptor:
  assumes "au_canary au = None"
  shows "admission_descriptor (runner_admission env) au url p d = adapter_for_url (sv_adapter env) url"
  by (simp add: admission_descriptor_def assms runner_admission_def)

lemma runner_only_replays:
  assumes "create_one (runner_admission env) caps (remote_request c g p client t) now d = Inr (d', y)"
  shows "cc_replayed y"
  using assms
proof (cases rule: create_one_cases)
  case 1
  then show ?thesis by (simp add: find_replay_replayed)
next
  case (2 ap pid q dp release au a)
  from 2(3) show ?thesis
  proof (rule admission_checksE)
    assume "validate_automation_authority (runner_admission env) (remote_request c g p client t)
      (rq_application_id (remote_request c g p client t)) ap pid q (job_url_of d ap) release now d = Inr au"
    from runner_descriptor[OF remote_authority(2)[OF this]]
    show ?thesis if "validate_adapter (admission_descriptor (runner_admission env) au (job_url_of d ap) q d) q = Inr a"
      using that by (simp add: registry_admits_nothing)
  qed
qed

section \<open>Redelivery\<close>

lemma find_unique:
  assumes "distinct (map (f \<circ> snd) t)" and "(k, r) \<in> set t" and "f r = v"
  shows "find (\<lambda>(k, r). f r = v) t = Some (k, r)"
  using assms by (induction t) (auto simp: rev_image_eqI)

lemma receipt_found:
  assumes "local_valid l" and "(n, r) \<in> set (lc_receipts l)" and "rw_remote_command_ref r = kc_command_id c"
    and "rw_envelope_digest r = kc_envelope_digest c"
    and "row (db_commands (lc_db l)) i = Some y" and "cm_idempotency_key y = rw_client_idempotency_key r"
    and "row (db_attempts (lc_db l)) (cm_attempt_id y) = Some a"
    and "row (lc_grants l) (rw_review_grant_id r) = Some g" and "at_application_id a = gw_application_id g"
  shows "find_command_replay c l = Inr (Some (accepted_of r (i, y) a))"
proof -
  have "is_sha256 (rw_envelope_digest r)"
    using assms(1,2) by (auto simp: local_valid_def receipt_check_def list_all_iff sha256_check_sql_iff)
  then have asc: "core (compare_digest (rw_envelope_digest r) (kc_envelope_digest c)) = Inr True"
    using assms(4) sha256_ascii by simp
  have "distinct (map (cm_idempotency_key \<circ> snd) (db_commands (lc_db l)))"
    using valid_grants(3)[OF assms(1)] by (simp add: db_valid_def commands_valid_def)
  note c = find_unique[OF this row_in_set[OF assms(5)] assms(6)]
  show ?thesis
    using find_unique[OF valid_grants(5)[OF assms(1)] assms(2,3)] c assms(7-9)
    by (simp add: find_command_replay_def asc lift_opt_def ensure_def)
qed

text \<open>Delivering an accepted command again finds its receipt and gives the same answer.\<close>

lemma accepted_is_found:
  assumes "accept_control_plane_command e c earlier after l = Inr (l', x)" and "\<not> ak_replayed x" and "local_valid l"
  shows "local_valid l'" "find_command_replay c l' = Inr (Some (x\<lparr>ak_replayed := True\<rparr>))"
proof -
  have "local_valid l' \<and> find_command_replay c l' = Inr (Some (x\<lparr>ak_replayed := True\<rparr>))"
    using assms(1)
  proof (cases rule: accept_cases)
    case 1
    with find_command_replay_replayed assms(2) show ?thesis by blast
  next
    case (2 release k g)
    from 2(4) show ?thesis
    proof (cases rule: fresh_acceptance_cases)
      case 1
      with assms(2) show ?thesis by simp
    next
      case (2 d2 p client y d')
      from create_one_answered[OF 2(5,11)] obtain cmd a where
        cmd: "row (db_commands d') (cc_command_id y) = Some cmd" "cm_idempotency_key cmd = client_key c"
          "cm_attempt_id cmd = cc_attempt_id y"
        and a: "row (db_attempts d') (cc_attempt_id y) = Some a" "at_application_id a = gw_application_id g"
          "cc_application_id y = gw_application_id g"
        by (auto simp: answered_def remote_request_def)
      have "find_command_replay c l' = Inr (Some (accepted_of (new_receipt e c k) (cc_command_id y, cmd) a))"
        by (rule receipt_found[OF 2(8), of "next_id (lc_receipts l)" "new_receipt e c k" _ _ _ _
              "g\<lparr>gw_consumed_at := Some (re_third e), gw_consumed_command_ref := Some (strip (kc_command_id c))\<rparr>"])
           (use cmd a 2(7,9,10) in \<open>simp_all add: new_receipt_def db_simps\<close>)
      also have "accepted_of (new_receipt e c k) (cc_command_id y, cmd) a = x\<lparr>ak_replayed := True\<rparr>"
        using cmd a by (simp add: accepted_of_def new_receipt_def accepted_now_def 2(6))
      finally show ?thesis using 2(8) by simp
    qed
  qed
  then show "local_valid l'" "find_command_replay c l' = Inr (Some (x\<lparr>ak_replayed := True\<rparr>))" by simp_all
qed

section \<open>A concrete remote command\<close>

definition sample_uuid :: "char \<Rightarrow> string" where
  "sample_uuid c = replicate 8 c @ ''-0000-0000-0000-000000000000''"

definition reviewed_grant :: grant_row where
  "reviewed_grant =
     \<lparr>gw_grant_ref = sample_uuid (CHR ''a''), gw_application_id = 7, gw_application_ref_id = 1, gw_form_plan_id = 3,
      gw_application_revision = 2, gw_job_url_hash = sample_hash, gw_form_plan_fingerprint = sample_hash,
      gw_cv_hash = sample_hash, gw_adapter_name = ''greenhouse'', gw_adapter_version = ''1.0.0'',
      gw_selector_version = ''greenhouse-candidate-v9'', gw_runner_release = sample_hash, gw_issued_at = 20,
      gw_expires_at = 20 + seconds 300, gw_revoked_at = None, gw_consumed_at = None, gw_consumed_command_ref = None,
      gw_projection = no_delivery\<lparr>dl_state := DL_PENDING, dl_available_at := Some 20\<rparr>,
      gw_revocation = no_delivery\<rparr>"

definition sample_local :: local_db where
  "sample_local =
     \<lparr>lc_db = prepared_db, lc_refs = [(1, \<lparr>rf_application_id = 7, rf_remote_ref = sample_uuid (CHR ''b'')\<rparr>)],
      lc_grants = [(1, reviewed_grant)], lc_receipts = []\<rparr>"

definition remote_sample :: control_command where
  "remote_sample =
     \<lparr>kc_command_id = sample_uuid (CHR ''c''), kc_grant_id = sample_uuid (CHR ''a''),
      kc_application_ref = sample_uuid (CHR ''b''), kc_application_revision = 2, kc_adapter = ''greenhouse'',
      kc_adapter_version = ''1.0.0'', kc_form_fingerprint_digest = sample_hash,
      kc_delivery_nonce = sample_uuid (CHR ''d''), kc_issued_at = 20, kc_expires_at = 20 + seconds 60,
      kc_envelope_digest = sample_hash\<rparr>"

definition sample_runner :: runner_env where
  "sample_runner =
     \<lparr>re_admission = sample_admission, re_grants = \<lparr>ge_policy = sample_policy, ge_url_hash = (\<lambda>u. Some sample_hash)\<rparr>,
      re_caps = sample_caps, re_first = 20, re_second = 20, re_third = 20, re_wall = 21,
      re_attempt_ref = sample_uuid (CHR ''e''), re_event_ref = (\<lambda>r n. sample_uuid (CHR ''f''))\<rparr>"

lemma sample_local_valid: "local_valid sample_local"
  by code_simp

lemma sample_accepted:
  "case accept_control_plane_command sample_runner remote_sample sample_local sample_local sample_local of
     Inl f \<Rightarrow> False | Inr (l, x) \<Rightarrow> \<not> ak_replayed x"
  by code_simp

lemma sample_acceptance:
  obtains l x where
    "accept_control_plane_command sample_runner remote_sample sample_local sample_local sample_local = Inr (l, x)"
    "\<not> ak_replayed x"
  using sample_accepted by (auto split: sum.splits)

lemma in_time: "kc_issued_at remote_sample \<le> re_first sample_runner + max_clock_skew"
  "re_first sample_runner < kc_expires_at remote_sample"
  by code_simp+

lemma found_is_answered:
  assumes "find_command_replay c l = Inr (Some x)" and "kc_issued_at c \<le> re_first e + max_clock_skew"
    and "re_first e < kc_expires_at c"
  shows "accept_control_plane_command e c l after l = Inr (l, x)"
  using assms by (simp add: accept_control_plane_command_def ensure_def)

lemma sort_key_first:
  assumes "sort_key f xs = y # ys" and "x \<in> set xs"
  shows "f y \<le> f x"
proof -
  have "sorted (map f (y # ys))" using sorted_sort_key[of f xs] by (simp only: assms(1))
  moreover have "x \<in> set (y # ys)" using assms set_sort[of f xs] by simp
  ultimately show ?thesis by auto
qed

lemma claim_next_first:
  assumes "claim_next sel due claim token stored l = Inr (l', Some (k, tok))" and "local_valid stored"
  shows "tok = token \<and> l' = update_grants [k] claim l \<and> (\<exists>g. row (lc_grants stored) k = Some g \<and> due g
    \<and> (\<forall>j h. row (lc_grants stored) j = Some h \<and> due h \<longrightarrow> due_order sel (k, g) \<le> due_order sel (j, h)))"
proof -
  from assms(1) obtain g rest where s: "sort_key (due_order sel) (filter (due \<circ> snd) (lc_grants stored)) = (k, g) # rest"
    and l': "tok = token" "l' = update_grants [k] claim l"
    by (auto simp: claim_next_def elim!: and_then_okE split: list.splits prod.splits)
  have "(k, g) \<in> set (sort_key (due_order sel) (filter (due \<circ> snd) (lc_grants stored)))" unfolding s by simp
  then have "(k, g) \<in> set (filter (due \<circ> snd) (lc_grants stored))" by simp
  then have "row (lc_grants stored) k = Some g" "due g"
    using valid_grants(1)[OF assms(2)] by (simp_all add: set_row)
  with l' sort_key_first[OF s] row_in_set show ?thesis by fastforce
qed

lemma loaded_projection_current:
  assumes "load_claimed_review_grant_projection env k token release t l = Inr pj" and "local_valid l"
  shows "\<exists>h. row (lc_grants l) k = Some h \<and> grant_current env t l h \<and> gw_runner_release h = release
     \<and> projection_of l h = Inr pj"
proof -
  from assms(1) obtain g :: grant_row and ref jh where
    v: "validate_control_plane_review_grant env (gw_grant_ref g) ref release t l = Inr jh"
    and r: "(case jh of (j, h) \<Rightarrow>
       and_then (if j \<noteq> k \<or> dl_state (gw_projection h) \<noteq> DL_CLAIMED then grant_error ''PROJECTION_CLAIM_LOST''
               else core (compare_digest (or_empty (dl_claim_token (gw_projection h))) token)) (\<lambda>same.
       and_then (need same ''PROJECTION_CLAIM_LOST'') (\<lambda>_. projection_of l h))) = Inr pj"
    unfolding load_claimed_review_grant_projection_def by (elim and_then_okE)
  obtain j h where jh: "jh = (j, h)" by fastforce
  from r have "j = k" "projection_of l h = Inr pj"
    by (auto simp: jh elim!: and_then_okE split: if_splits)
  with v jh have "validate_control_plane_review_grant env (gw_grant_ref g) ref release t l = Inr (k, h)"
    "projection_of l h = Inr pj" by simp_all
  with validate_grant_ok validate_grant_current[OF _ assms(2)] valid_grants(1)[OF assms(2)] show ?thesis
    by (metis set_row)
qed

section \<open>Properties\<close>

text \<open>
  C23: a remote command acts only under the review it names. A newly accepted command finds its grant unspent,
  unrevoked and unexpired; the application is still the reviewed draft with the reviewed plan, CV, job address
  and adapter, and the command repeats the grant. Its transaction spends the grant, records one receipt and
  creates a queued attempt of the control plane whose unspent permit ends with the command and the grant.
\<close>

theorem remote_command_is_authorised:
  assumes "accept_control_plane_command e c earlier after l = Inr (l', x)" and "\<not> ak_replayed x" and "local_valid l"
  shows "\<exists>k g a m. row (lc_grants l) k = Some g \<and> gw_grant_ref g = kc_grant_id c
     \<and> grant_current (re_grants e) (re_second e) l g
     \<and> kc_application_revision c = gw_application_revision g
     \<and> kc_form_fingerprint_digest c = gw_form_plan_fingerprint g
     \<and> kc_adapter c = gw_adapter_name g \<and> kc_adapter_version c = gw_adapter_version g
     \<and> row (lc_grants l') k = Some (g\<lparr>gw_consumed_at := Some (re_third e),
                                      gw_consumed_command_ref := Some (strip (kc_command_id c))\<rparr>)
     \<and> lc_receipts l' = lc_receipts l @ [(next_id (lc_receipts l), new_receipt e c k)]
     \<and> ak_application_id x = gw_application_id g
     \<and> row (db_attempts (lc_db l')) (ak_attempt_id x) = Some a \<and> at_stage a = QUEUED
     \<and> at_authority_kind a = AK_CONTROL_PLANE \<and> at_application_id a = gw_application_id g
     \<and> at_application_revision a = gw_application_revision g
     \<and> row (db_permits (lc_db l')) (ak_attempt_id x) = Some m \<and> \<not> permit_spent m
     \<and> pm_expires_at m \<le> min (kc_expires_at c) (gw_expires_at g)"
  using assms(1)
proof (cases rule: accept_cases)
  case 1
  with find_command_replay_replayed assms(2) show ?thesis by blast
next
  case (2 release k g)
  note ok = validate_grant_ok[OF 2(3)] and cur = validate_grant_current[OF 2(3) assms(3)]
  have r: "row (lc_grants l) k = Some g" using ok(2) valid_grants(1)[OF assms(3)] by (simp add: set_row)
  from 2(4) obtain ref where "check_matches (command_bindings g ref c) = Inr ()" by (rule fresh_acceptanceE)
  note b = command_bindings_ok[OF this]
  from 2(4) show ?thesis
  proof (cases rule: fresh_acceptance_cases)
    case 1
    with assms(2) show ?thesis by simp
  next
    case (2 d2 p client y d')
    have "\<not> cc_replayed y" using assms(2) 2(6) by (simp add: accepted_now_def)
    from remote_created[OF 2(5) this] obtain a m where am: "row (db_attempts d') (cc_attempt_id y) = Some a"
      "at_stage a = QUEUED" "at_authority_kind a = AK_CONTROL_PLANE" "at_application_id a = gw_application_id g"
      "at_application_revision a = gw_application_revision g" "row (db_permits d') (cc_attempt_id y) = Some m"
      "\<not> permit_spent m" "pm_expires_at m \<le> min (kc_expires_at c) (gw_expires_at g)"
      "cc_application_id y = gw_application_id g" by blast
    show ?thesis
      by (intro exI[of _ k] exI[of _ g] exI[of _ a] exI[of _ m])
         (use r cur b am 2(6-10) in \<open>simp add: db_simps accepted_now_def\<close>)
  qed
qed

theorem remote_command_is_authorised_witness:
  "\<exists>l x a m. accept_control_plane_command sample_runner remote_sample sample_local sample_local sample_local = Inr (l, x)
     \<and> row (db_attempts (lc_db l)) (ak_attempt_id x) = Some a \<and> at_authority_kind a = AK_CONTROL_PLANE
     \<and> row (db_permits (lc_db l)) (ak_attempt_id x) = Some m \<and> pm_expires_at m \<le> 20 + seconds 60"
proof -
  obtain l x where a:
    "accept_control_plane_command sample_runner remote_sample sample_local sample_local sample_local = Inr (l, x)"
    "\<not> ak_replayed x" by (rule sample_acceptance)
  have "kc_expires_at remote_sample = 20 + seconds 60" by (simp add: remote_sample_def)
  with remote_command_is_authorised[OF a sample_local_valid] a(1) show ?thesis by fastforce
qed

text \<open>
  C24: a grant gives at most one command. After a command has been newly accepted under a grant, no command under
  the same grant is newly accepted again, whatever minting, deliveries, admissions, stop commands and other
  work of the program come in between.
\<close>

theorem grant_accepted_once:
  assumes "local_valid l" and "accept_control_plane_command e c l l l = Inr (l1, x1)"
    and "runner_step\<^sup>*\<^sup>* l1 l2" and "accept_control_plane_command e' c' earlier after l2 = Inr (l3, x2)"
    and "kc_grant_id c' = kc_grant_id c"
  shows "ak_replayed x1 \<or> ak_replayed x2"
proof (cases "ak_replayed x1")
  case False
  from assms(2) show ?thesis
  proof (cases rule: accept_cases)
    case 1
    with find_command_replay_replayed show ?thesis by blast
  next
    case (2 release k g)
    note ok = validate_grant_ok[OF 2(3)]
    from 2(4) show ?thesis
    proof (cases rule: fresh_acceptance_cases)
      case (2 d2 p client y d')
      let ?g = "g\<lparr>gw_consumed_at := Some (re_third e), gw_consumed_command_ref := Some (strip (kc_command_id c))\<rparr>"
      have "row (lc_grants l1) k = Some ?g" by (simp add: 2(9) db_simps)
      from dead_grant_rejected[OF 2(8) this _ assms(3,4)] ok(3) assms(5) find_command_replay_replayed
      show ?thesis by (auto simp: grant_live_def)
    qed simp
  qed
qed simp

theorem grant_accepted_once_witness:
  "\<exists>l x y. accept_control_plane_command sample_runner remote_sample sample_local sample_local sample_local = Inr (l, x)
     \<and> accept_control_plane_command sample_runner remote_sample l l l = Inr (l, y) \<and> (ak_replayed x \<or> ak_replayed y)"
proof -
  obtain l x where a:
    "accept_control_plane_command sample_runner remote_sample sample_local sample_local sample_local = Inr (l, x)"
    "\<not> ak_replayed x" by (rule sample_acceptance)
  note again = found_is_answered[OF accepted_is_found(2)[OF a sample_local_valid] in_time, of l]
  from grant_accepted_once[OF sample_local_valid a(1) rtranclp.rtrancl_refl again] a(1) again
  show ?thesis by blast
qed

text \<open>
  C25: the runner as it is called can only repeat old answers. \<open>_admit\<close> leaves the adapter resolver at its default,
  the committed registry, and no adapter of that registry may execute finally; so whatever the command, the
  grant and the recorded qualifications, every answer of the runner is the replay of an earlier one.
\<close>

theorem runner_never_admits:
  assumes "runner_admit e c earlier after l = Inr (l', x)"
  shows "ak_replayed x"
proof -
  let ?e = "e\<lparr>re_admission := runner_admission (re_admission e)\<rparr>"
  from assms have "accept_control_plane_command ?e c earlier after l = Inr (l', x)" by (simp add: runner_admit_def)
  then show ?thesis
  proof (cases rule: accept_cases)
    case 1
    with find_command_replay_replayed show ?thesis by blast
  next
    case (2 release k g)
    from 2(4) show ?thesis
    proof (cases rule: fresh_acceptance_cases)
      case (2 d2 p client y d')
      from 2(5) have "cc_replayed y" using runner_only_replays by simp
      then show ?thesis by (simp add: 2(6) accepted_now_def)
    qed simp
  qed
qed

theorem runner_never_admits_witness:
  "\<exists>l x. runner_admit sample_runner remote_sample l l l = Inr (l, x) \<and> ak_replayed x"
proof -
  obtain l x where a:
    "accept_control_plane_command sample_runner remote_sample sample_local sample_local sample_local = Inr (l, x)"
    "\<not> ak_replayed x" by (rule sample_acceptance)
  have "runner_admit sample_runner remote_sample l l l = Inr (l, x\<lparr>ak_replayed := True\<rparr>)"
    unfolding runner_admit_def
    by (rule found_is_answered[OF accepted_is_found(2)[OF a sample_local_valid]]) (use in_time in simp_all)
  from this runner_never_admits[OF this] show ?thesis by blast
qed

text \<open>
  C26: the control plane is told only of grants that still hold, and of revocations first. A grant is claimed for
  publication only while no unexpired revocation is undelivered; it is live, due, and the first due one. What
  is then loaded for signing is the projection of a grant that the current application, plan and release still
  bear out at that moment.
\<close>

theorem only_current_grants_are_published:
  assumes "claim_review_grant_projection runner token now l = Inr (l', Some (k, tok))" and "local_valid l"
  shows "(\<forall>j h. row (lc_grants l) j = Some h \<and> dl_state (gw_revocation h) \<in> {DL_PENDING, DL_CLAIMED}
            \<longrightarrow> gw_expires_at h \<le> now)
     \<and> (\<exists>g h. row (lc_grants l) k = Some g \<and> projectable now g
          \<and> (\<forall>j h. row (lc_grants l) j = Some h \<and> projectable now h
               \<longrightarrow> due_order gw_projection (k, g) \<le> due_order gw_projection (j, h))
          \<and> row (lc_grants l') k = Some h \<and> dl_state (gw_projection h) = DL_CLAIMED
          \<and> dl_claim_token (gw_projection h) = Some tok)
     \<and> (\<forall>env release t later pj. local_valid later
          \<and> load_claimed_review_grant_projection env k tok release t later = Inr pj
          \<longrightarrow> (\<exists>h. row (lc_grants later) k = Some h \<and> grant_current env t later h \<and> gw_runner_release h = release
                 \<and> projection_of later h = Inr pj))"
  using assms(1)
proof (cases rule: claim_projection_cases)
  case (2 name)
  have "\<forall>j h. row (lc_grants l) j = Some h \<and> dl_state (gw_revocation h) \<in> {DL_PENDING, DL_CLAIMED} \<longrightarrow> gw_expires_at h \<le> now"
    using 2(2) by (auto simp: revocation_pending_def list_ex_iff not_less dest!: row_in_set)
  moreover from claim_next_first[OF 2(3) assms(2)] obtain g where "row (lc_grants l) k = Some g" "projectable now g"
    and "\<forall>j h. row (lc_grants l) j = Some h \<and> projectable now h
      \<longrightarrow> due_order gw_projection (k, g) \<le> due_order gw_projection (j, h)"
    and l': "tok = token" "l' = update_grants [k] (on_projection (claim_delivery name token now))
      (update_grants (first_ids 25 (stale_delivery now \<circ> gw_projection) l)
         (on_projection (retake ''PROJECTION_CLAIM_STALE'' now)) l)" by blast
  moreover from this(1) obtain h where "row (lc_grants l') k = Some h" "dl_state (gw_projection h) = DL_CLAIMED"
    "dl_claim_token (gw_projection h) = Some tok"
    by (simp add: l' on_projection_def claim_delivery_def)
  ultimately show ?thesis using loaded_projection_current by blast
qed simp

theorem only_current_grants_are_published_witness:
  "\<exists>l. claim_review_grant_projection ''runner'' ''t'' 30 sample_local = Inr (l, Some (1, ''t''))
     \<and> (\<exists>h. row (lc_grants l) 1 = Some h \<and> dl_claim_token (gw_projection h) = Some ''t'')"
proof -
  have "case claim_review_grant_projection ''runner'' ''t'' 30 sample_local of Inl f \<Rightarrow> False | Inr (l, r) \<Rightarrow> r = Some (1, ''t'')"
    by code_simp
  then obtain l where c: "claim_review_grant_projection ''runner'' ''t'' 30 sample_local = Inr (l, Some (1, ''t''))"
    by (auto split: sum.splits)
  from only_current_grants_are_published[OF c sample_local_valid] c show ?thesis by blast
qed

end
