(* ===== verification/Sample_Run.thy ===== *)
theory Sample_Run
  imports Submission_Service
begin

text \<open>
  The admitted sample application driven through the rest of the system: claimed, prepared, taken across
  the commit boundary and confirmed by an API receipt. Each database is written out as the change from the
  one before it, and each step is evaluated on the definitions of the model.
\<close>

definition run_env :: worker_env where
  "run_env = sample_env\<lparr>we_release := sample_hash\<rparr>"

definition run_action :: prepared_action where
  "run_action = sample_action\<lparr>pa_attempt_id := 1, pa_adapter_version := ''1.0.0'',
     pa_selector_version := ''greenhouse-candidate-v9''\<rparr>"

definition run_evidence :: submission_evidence where
  "run_evidence = sample_evidence\<lparr>ev_attempt_id := 1\<rparr>"

definition run_inputs :: exec_inputs where
  "run_inputs = sample_inputs\<lparr>xi_preflight := Some (V_PREPARED run_action),
     xi_reply := Some (V_CONFIRMED run_evidence)\<rparr>"

text \<open>The rows of the attempt and its command while the worker advances, with the stages logged so far.\<close>

definition db_worked :: "attempt_stage \<Rightarrow> instant \<Rightarrow> (attempt_stage \<times> instant) list \<Rightarrow> database" where
  "db_worked stage renewed logged = db_admitted\<lparr>
     db_attempts := [(1, admitted_attempt\<lparr>at_stage := stage, at_started_at := Some 22\<rparr>)],
     db_commands := [(1, claimed_command renewed ''runner'' ''tok'' (new_command sample_request 1 20))],
     db_metrics := MK_STAGE 1 QUEUED TK_INITIAL # map (\<lambda>(s, t). MK_STAGE 1 s (TK_AT t)) logged\<rparr>"

definition db_claimed :: database where
  "db_claimed = db_worked INSPECTING 22 [(INSPECTING, 22)]"

definition db_preparing :: database where
  "db_preparing = db_worked PREPARING 22 [(INSPECTING, 22), (PREPARING, 27)]"

definition db_ready :: database where
  "db_ready = db_worked READY 30 [(INSPECTING, 22), (PREPARING, 27), (READY, 30)]"

definition db_committing :: database where
  "db_committing = (db_worked COMMITTING 33 [(INSPECTING, 22), (PREPARING, 27), (READY, 30), (COMMITTING, 33)])\<lparr>
     db_attempts := [(1, admitted_attempt\<lparr>at_stage := COMMITTING, at_started_at := Some 22, at_status := SS_RUNNING,
       at_final_action_at := Some 33\<rparr>)],
     db_permits := [(1, admitted_permit\<lparr>pm_consumed_at := Some 33\<rparr>)]\<rparr>"

definition db_verifying :: database where
  "db_verifying = db_committing\<lparr>
     db_attempts := [(1, admitted_attempt\<lparr>at_stage := VERIFYING, at_started_at := Some 22, at_status := SS_RUNNING,
       at_final_action_at := Some 33\<rparr>)],
     db_metrics := db_metrics db_committing @ [MK_STAGE 1 VERIFYING (TK_AT 37)]\<rparr>"

text \<open>The rows \<open>finish_attempt\<close> leaves behind, with the evidence and the audit trail.\<close>

definition db_confirmed :: database where
  "db_confirmed = db_committing\<lparr>
     db_jobs := [(1, sample_job\<lparr>jb_status := JS_SUBMITTED\<rparr>)],
     db_applications := [(7, finished_application (ConfirmedSubmittedOutcome run_evidence)
        (sample_application\<lparr>ap_material_prompt_version := Some ''application-materials-v1''\<rparr>))],
     db_attempts := [(1, admitted_attempt\<lparr>at_stage := FINISHED, at_started_at := Some 22, at_status := SS_SUCCESS,
       at_final_action_at := Some 33, at_outcome := Some CONFIRMED_SUBMITTED,
       at_reason_code := Some ''EMPLOYER_VERIFIED'', at_confirmation_id := Some ''R-1'',
       at_finished_at := Some 37, at_submitted_at := Some 37,
       at_verification_kind := Some (VK_EVIDENCE API_RECEIPT), at_evidence_digest := Some sample_hash\<rparr>)],
     db_commands := [(1, completed_command 37 ''EMPLOYER_VERIFIED'' (new_command sample_request 1 20))],
     db_evidence := [evidence_row_of 1 run_evidence],
     db_metrics := db_metrics db_committing @ [MK_STAGE 1 VERIFYING (TK_AT 37),
       MK_STAGE 1 FINISHED (TK_FINISHED CONFIRMED_SUBMITTED),
       MK_OUTCOME 1 ''terminal'' (Some CONFIRMED_SUBMITTED) (Some ''EMPLOYER_VERIFIED'')],
     db_events := db_events db_committing @ [sample_event ''submission_attempt_finished'' ''worker''
       [(''attempt_number'', DV_INT 1), (''platform'', DV_STR ''greenhouse''), (''profile_version'', DV_INT 1),
        (''reason_code'', DV_STR ''EMPLOYER_VERIFIED''), (''selected_cv_id'', DV_STR ''cv1''),
        (''state'', DV_STR ''confirmed_submitted'')]]\<rparr>"

definition run_context :: exec_context where
  "run_context = \<lparr>ec_command = 1, ec_token = ''tok'',
     ec_plan = sample_plan\<lparr>fp_plan_id := pl_plan_id sample_plan_row, fp_adapter_version := ''1.0.0'',
       fp_selector_version := ''greenhouse-candidate-v9'', fp_answer_policy_version := ''answer-policy-v1''\<rparr>,
     ec_permit = \<lparr>dp_attempt_id = 1, dp_job_url_hash = sample_hash, dp_application_revision = 2,
       dp_adapter_name = ''greenhouse'', dp_adapter_version = ''1.0.0'',
       dp_selector_version = ''greenhouse-candidate-v9'', dp_form_fingerprint = sample_hash,
       dp_cv_hash = sample_hash, dp_expires_at = seconds 60 + 20, dp_nonce = sample_hash\<rparr>,
     ec_url_hash = sample_hash, ec_snapshot = None\<rparr>"

section \<open>The steps\<close>

lemma run_claims:
  "claim_submission_command run_env (\<lambda>k. False) None ''runner'' ''tok'' True 22 db_admitted =
     Inr (db_claimed, Some 1)"
  by code_simp

lemma run_begins: "begin_execution run_env run_inputs 1 db_claimed = Inr (db_claimed, Inr run_context)"
  by code_simp

lemma run_enters: "enter_claimed_preflight run_env 1 ''tok'' 27 db_claimed = Inr (db_preparing, True)"
  by code_simp

lemma run_marks:
  "mark_claimed_attempt_ready run_env 1 ''tok'' run_action 30 db_preparing = Inr (db_ready, RR_READY)"
  by code_simp

lemma run_replies: "settle_preflight (Some (V_PREPARED run_action)) = PreparedFinalAction run_action"
  by code_simp

lemma run_prepares:
  "after_preflight run_env run_context (Some (V_PREPARED run_action)) 29 30 31 db_preparing =
     Inr (db_ready, Inr run_action)"
  using run_marks run_replies by (simp add: after_preflight_def run_context_def)

lemma run_crosses:
  "enter_commit_boundary run_env 1 ''tok'' sample_hash run_action None (xi_boundary run_inputs) db_ready =
     Inr (db_committing, BR_ENTERED)"
  by code_simp

lemma run_outcome:
  "lock_claimed_context 1 ''tok'' db_committing = Some (1, snd (hd (db_attempts db_committing)), snd (hd (db_applications db_committing)))
   \<and> commit_ready db_committing 1 (snd (hd (db_attempts db_committing)))
   \<and> action_binds run_action (ec_plan run_context) (ec_permit run_context) (Aware 34) = Some True
   \<and> settle_outcome 1 (snd (hd (db_attempts db_committing))) (Some (V_CONFIRMED run_evidence)) 37 = ConfirmedSubmittedOutcome run_evidence"
  by code_simp

lemma run_verifies: "advance run_env 1 1 VERIFYING 37 db_committing = Inr db_verifying"
  by code_simp

lemma run_finishes:
  "finish_attempt run_env 1 1 (ConfirmedSubmittedOutcome run_evidence) 37 db_verifying = Inr db_confirmed"
  by code_simp

lemma run_promotes: "promote_canary run_env 1 37 db_confirmed = db_confirmed"
  by code_simp

lemma run_stores: "commit_db db_confirmed = Inr db_confirmed"
  by code_simp

lemma run_commits:
  "perform_commit run_env 1 ''tok'' (ec_plan run_context) (ec_permit run_context) run_action 34
     (Some (V_CONFIRMED run_evidence)) 37 db_committing = (True, Inr (db_confirmed, Done CONFIRMED_SUBMITTED))"
  using run_outcome run_verifies run_finishes run_promotes run_stores
  by (simp add: perform_commit_def settle_attempt_def and_then_ok_iff)

end
