(* ===== verification/Worker_System.thy ===== *)
theory Worker_System
  imports Sample_Run
begin

text \<open>
  The whole submission system as a transition system: any number of worker processes that interleave
  at transaction boundaries and may crash at any point, admission, stale recovery and the operator's
  actions, all on one database. The log \<open>w_clicks\<close> records each time an adapter was told to commit, the
  irreversible action; \<open>w_denials\<close> records the attempts the operator declared not submitted.
\<close>

section \<open>State\<close>

datatype worker_pc =
  Idle
  | Claimed int
  | Started exec_context
  | Preflight exec_context
  | Prepared exec_context prepared_action
  | Crossed exec_context prepared_action

record world =
  w_db :: database
  w_run :: "nat \<Rightarrow> worker_pc"
  w_clicks :: "int list"
  w_denials :: "int list"

definition commit_target :: "exec_context \<Rightarrow> database \<Rightarrow> int" where
  "commit_target ec d = (case row (db_commands d) (ec_command ec) of None \<Rightarrow> 0 | Some c \<Rightarrow> cm_attempt_id c)"

text \<open>The worker \<open>n\<close> moves to \<open>pc\<close> and the database to \<open>d\<close>.\<close>

definition moves :: "nat \<Rightarrow> worker_pc \<Rightarrow> database \<Rightarrow> world \<Rightarrow> world" where
  "moves n pc d w = w\<lparr>w_db := d, w_run := (w_run w)(n := pc)\<rparr>"

definition after_claim :: "int option \<Rightarrow> worker_pc" where
  "after_claim r = (case r of None \<Rightarrow> Idle | Some cid \<Rightarrow> Claimed cid)"

definition after_begin :: "exec_result + exec_context \<Rightarrow> worker_pc" where
  "after_begin r = (case r of Inl e \<Rightarrow> Idle | Inr ec \<Rightarrow> Started ec)"

definition after_reply :: "exec_context \<Rightarrow> exec_result + prepared_action \<Rightarrow> worker_pc" where
  "after_reply ec r = (case r of Inl e \<Rightarrow> Idle | Inr act \<Rightarrow> Prepared ec act)"

definition after_boundary :: "exec_context \<Rightarrow> prepared_action \<Rightarrow> boundary_result \<Rightarrow> worker_pc" where
  "after_boundary ec act r = (if r = BR_ENTERED then Crossed ec act else Idle)"

definition log_click :: "bool \<Rightarrow> int \<Rightarrow> world \<Rightarrow> world" where
  "log_click clicked i w = (if clicked then w\<lparr>w_clicks := i # w_clicks w\<rparr> else w)"

section \<open>Steps\<close>

text \<open>
  One rule per transaction. \<open>ws_commit\<close> is one step because the worker holds the application and
  command row locks across the adapter call, so that no other transaction of this application commits
  in between; \<open>ws_commit_lost\<close> is the same call when the process or the final commit fails after it.
  \<open>ws_crash\<close> covers every exception and every lost process elsewhere. \<open>ws_other\<close> is any other
  transaction of the program, which leaves attempts, permits and commands alone.
\<close>

inductive world_step :: "world \<Rightarrow> world \<Rightarrow> bool" where
  ws_admit: "create_submission_commands senv caps rqs now wall (w_db w) (w_db w) = Inr (d', cs) \<Longrightarrow>
     world_step w (w\<lparr>w_db := d'\<rparr>)"
| ws_claim: "w_run w n = Idle \<Longrightarrow>
     claim_submission_command env locked wanted runner token src now (w_db w) = Inr (d', r) \<Longrightarrow>
     world_step w (moves n (after_claim r) d' w)"
| ws_begin: "w_run w n = Claimed cid \<Longrightarrow> begin_execution env xi cid (w_db w) = Inr (d', r) \<Longrightarrow>
     world_step w (moves n (after_begin r) d' w)"
| ws_enter: "w_run w n = Started ec \<Longrightarrow>
     enter_claimed_preflight env (ec_command ec) (ec_token ec) t (w_db w) = Inr (d', b) \<Longrightarrow>
     world_step w (moves n (if b then Preflight ec else Idle) d' w)"
| ws_no_loop: "w_run w n = Preflight ec \<Longrightarrow>
     finish_claimed_before_commit env (ec_command ec) (ec_token ec) reason t (w_db w) = Inr (d', r) \<Longrightarrow>
     world_step w (moves n Idle d' w)"
| ws_preflight: "w_run w n = Preflight ec \<Longrightarrow>
     after_preflight env ec reply t1 t2 t3 (w_db w) = Inr (d', r) \<Longrightarrow>
     world_step w (moves n (after_reply ec r) d' w)"
| ws_boundary: "w_run w n = Prepared ec act \<Longrightarrow>
     enter_commit_boundary env (ec_command ec) (ec_token ec) (ec_url_hash ec) act (ec_snapshot ec) br
       (w_db w) = Inr (d', r) \<Longrightarrow>
     world_step w (moves n (after_boundary ec act r) d' w)"
| ws_commit: "w_run w n = Crossed ec act \<Longrightarrow>
     perform_commit env (ec_command ec) (ec_token ec) (ec_plan ec) (ec_permit ec) act t1 reply t2 (w_db w)
       = (clicked, Inr (d', r)) \<Longrightarrow>
     world_step w (log_click clicked (commit_target ec (w_db w)) (moves n Idle d' w))"
| ws_commit_lost: "w_run w n = Crossed ec act \<Longrightarrow>
     fst (perform_commit env (ec_command ec) (ec_token ec) (ec_plan ec) (ec_permit ec) act t1 reply t2 (w_db w))
       = clicked \<Longrightarrow>
     world_step w (log_click clicked (commit_target ec (w_db w)) (moves n Idle (w_db w) w))"
| ws_crash: "world_step w (moves n Idle (w_db w) w)"
| ws_recover: "reconcile_stale_submission_commands env locked ttl now (w_db w) = Inr (d', m) \<Longrightarrow>
     world_step w (w\<lparr>w_db := d'\<rparr>)"
| ws_reconcile: "reconcile_attempt env i verdict now (w_db w) = Inr d' \<Longrightarrow>
     world_step w (w\<lparr>w_db := d',
       w_denials := (if verdict = ''confirmed_not_submitted'' then i # w_denials w else w_denials w)\<rparr>)"
| ws_reject: "reject_application busy app reason now (w_db w) = Inr d' \<Longrightarrow> world_step w (w\<lparr>w_db := d'\<rparr>)"
| ws_other: "same_core (w_db w) d' \<Longrightarrow> db_valid d' \<Longrightarrow> world_step w (w\<lparr>w_db := d'\<rparr>)"

inductive_cases world_stepE: "world_step w w'"

definition world_init :: "world \<Rightarrow> bool" where
  "world_init w \<longleftrightarrow>
     db_valid (w_db w) \<and> db_attempts (w_db w) = [] \<and> (\<forall>n. w_run w n = Idle)
     \<and> w_clicks w = [] \<and> w_denials w = []"

section \<open>Invariant\<close>

text \<open>A worker past the boundary stands for a spent permit whose click has not happened.\<close>

definition pending_click :: "world \<Rightarrow> exec_context \<Rightarrow> bool" where
  "pending_click w ec \<longleftrightarrow>
     (\<exists>c. row (db_commands (w_db w)) (ec_command ec) = Some c
          \<and> permit_used (cm_attempt_id c) (w_db w)
          \<and> lives_of (w_db w) (cm_attempt_id c) \<noteq> None
          \<and> cm_attempt_id c \<notin> set (w_clicks w))"

definition spent_attempt :: "database \<Rightarrow> int \<Rightarrow> bool" where
  "spent_attempt d i \<longleftrightarrow> (\<exists>x. lives_of d i = Some x \<and> lf_used x)"

definition db_inv :: "world \<Rightarrow> bool" where
  "db_inv w \<longleftrightarrow> db_valid (w_db w) \<and> lives_ok (lives_of (w_db w)) \<and> all_calm (w_db w)"

definition click_inv :: "world \<Rightarrow> bool" where
  "click_inv w \<longleftrightarrow>
     distinct (w_clicks w) \<and> (\<forall>i \<in> set (w_clicks w). spent_attempt (w_db w) i)
     \<and> (\<forall>n ec act. w_run w n = Crossed ec act \<longrightarrow> pending_click w ec)
     \<and> (\<forall>n m ec ec' act act'. n \<noteq> m \<and> w_run w n = Crossed ec act \<and> w_run w m = Crossed ec' act' \<longrightarrow>
          commit_target ec (w_db w) \<noteq> commit_target ec' (w_db w))"

definition truth_inv :: "world \<Rightarrow> bool" where
  "truth_inv w \<longleftrightarrow>
     (\<forall>i. (had confirmed_life (lives_of (w_db w)) i \<longrightarrow> i \<in> set (w_clicks w))
        \<and> \<not> had verifying_life (lives_of (w_db w)) i
        \<and> (had denied_life (lives_of (w_db w)) i \<longrightarrow> i \<in> set (w_denials w)))"

definition world_inv :: "world \<Rightarrow> bool" where
  "world_inv w \<longleftrightarrow> db_inv w \<and> click_inv w \<and> truth_inv w"

lemmas inv_defs = world_inv_def db_inv_def click_inv_def truth_inv_def

lemma spent_attempt_iff:
  "spent_attempt d i \<longleftrightarrow> permit_used i d \<and> lives_of d i \<noteq> None"
  by (auto simp: spent_attempt_def lives_of_def)

lemma pending_click_iff:
  "pending_click w ec \<longleftrightarrow> row (db_commands (w_db w)) (ec_command ec) \<noteq> None
     \<and> spent_attempt (w_db w) (commit_target ec (w_db w)) \<and> commit_target ec (w_db w) \<notin> set (w_clicks w)"
  by (auto simp: pending_click_def spent_attempt_iff commit_target_def split: option.splits)

text \<open>Lifecycle steps keep what the click invariant reads.\<close>

lemma spent_attempt_steps:
  "life_step\<^sup>*\<^sup>* (lives_of d) (lives_of d') \<Longrightarrow> spent_attempt d i \<Longrightarrow> spent_attempt d' i"
  unfolding spent_attempt_def using life_steps_grow by blast

lemma commit_target_stable:
  assumes "cmds_stable d d'" and "row (db_commands d) (ec_command ec) \<noteq> None"
  shows "commit_target ec d' = commit_target ec d" "row (db_commands d') (ec_command ec) \<noteq> None"
proof -
  from assms obtain c c' where "row (db_commands d) (ec_command ec) = Some c"
    "row (db_commands d') (ec_command ec) = Some c'" "cm_attempt_id c' = cm_attempt_id c"
    unfolding cmds_stable_def by blast
  then show "commit_target ec d' = commit_target ec d" "row (db_commands d') (ec_command ec) \<noteq> None"
    by (simp_all add: commit_target_def)
qed

lemma crossedD:
  assumes "click_inv w" and "w_run w n = Crossed ec act"
  shows "row (db_commands (w_db w)) (ec_command ec) \<noteq> None"
    "spent_attempt (w_db w) (commit_target ec (w_db w))" "commit_target ec (w_db w) \<notin> set (w_clicks w)"
  using assms unfolding click_inv_def pending_click_iff by blast+

lemma click_inv_steps:
  assumes "click_inv w" and "life_step\<^sup>*\<^sup>* (lives_of (w_db w)) (lives_of d')" and "cmds_stable (w_db w) d'"
    and "w_clicks w' = w_clicks w" and "w_db w' = d'"
    and "\<And>n ec act. w_run w' n = Crossed ec act \<Longrightarrow> w_run w n = Crossed ec act"
  shows "click_inv w'"
proof -
  have t: "commit_target ec d' = commit_target ec (w_db w)" "row (db_commands d') (ec_command ec) \<noteq> None"
    if "w_run w' n = Crossed ec act" for n ec act
    using commit_target_stable[OF assms(3) crossedD(1)[OF assms(1) assms(6)[OF that]]] by simp_all
  show ?thesis unfolding click_inv_def
  proof (intro conjI allI impI ballI)
    show "distinct (w_clicks w')" using assms(1,4) by (simp add: click_inv_def)
    show "spent_attempt (w_db w') i" if "i \<in> set (w_clicks w')" for i
      using spent_attempt_steps[OF assms(2)] assms(1,4,5) that by (auto simp: click_inv_def)
    show "pending_click w' ec" if "w_run w' n = Crossed ec act" for n ec act
      using t[OF that] crossedD[OF assms(1) assms(6)[OF that]] assms(4,5) spent_attempt_steps[OF assms(2)]
      by (simp add: pending_click_iff)
    show "commit_target ec (w_db w') \<noteq> commit_target ec' (w_db w')"
      if "n \<noteq> m \<and> w_run w' n = Crossed ec act \<and> w_run w' m = Crossed ec' act'" for n m ec ec' act act'
      using that t assms(1,5) assms(6) unfolding click_inv_def by metis
  qed
qed

lemma truth_inv_quiet:
  assumes "truth_inv w" and "quiet (lives_of (w_db w)) (lives_of d')" and "w_db w' = d'"
    and "set (w_clicks w) \<subseteq> set (w_clicks w')" and "set (w_denials w) \<subseteq> set (w_denials w')"
  shows "truth_inv w'"
  using assms by (auto simp: truth_inv_def quiet_def)

lemma db_inv_refines:
  "db_inv w \<Longrightarrow> refines (w_db w) d' \<Longrightarrow> db_valid d' \<Longrightarrow> w_db w' = d' \<Longrightarrow> db_inv w'"
  using refines_ok by (simp add: db_inv_def) (simp add: refines_def)

lemma world_inv_refines:
  assumes "world_inv w" and "refines (w_db w) d' \<and> db_valid d'" and "w_db w' = d'"
    and "w_clicks w' = w_clicks w" and "w_denials w' = w_denials w"
    and "\<And>n ec act. w_run w' n = Crossed ec act \<Longrightarrow> w_run w n = Crossed ec act"
  shows "world_inv w'"
  using assms db_inv_refines[of w d' w'] click_inv_steps[of w d' w'] truth_inv_quiet[of w d' w']
  by (auto simp: world_inv_def refines_def)

lemma world_inv_moves:
  assumes "world_inv w" and "refines (w_db w) d' \<and> db_valid d'" and "\<forall>ec act. pc \<noteq> Crossed ec act"
  shows "world_inv (moves n pc d' w)"
  by (rule world_inv_refines[OF assms(1,2)]) (use assms(3) in \<open>auto simp: moves_def split: if_splits\<close>)

lemma not_crossed [simp]:
  "after_claim r \<noteq> Crossed ec act" "after_begin b \<noteq> Crossed ec act" "after_reply ec' p \<noteq> Crossed ec act"
  by (simp_all add: after_claim_def after_begin_def after_reply_def split: option.splits sum.splits)

text \<open>Crossing adds a pending click for an attempt nobody else is about to click.\<close>

lemma click_inv_cross:
  assumes "click_inv w" and "enters (ec_command ec) (w_db w) d'" and "refines (w_db w) d'"
  shows "click_inv (moves n (Crossed ec act) d' w)"
proof -
  let ?w = "moves n (Crossed ec act) d' w"
  have steps: "life_step\<^sup>*\<^sup>* (lives_of (w_db w)) (lives_of d')" and stable: "cmds_stable (w_db w) d'"
    using assms(3) by (simp_all add: refines_def)
  from assms(2) obtain c where c: "row (db_commands (w_db w)) (ec_command ec) = Some c"
    "\<not> permit_used (cm_attempt_id c) (w_db w)" "permit_used (cm_attempt_id c) d'"
    "row (db_attempts (w_db w)) (cm_attempt_id c) \<noteq> None" by (auto simp: enters_def)
  let ?i = "cm_attempt_id c"
  have here: "commit_target ec (w_db w) = ?i" by (simp add: commit_target_def c(1))
  have there: "commit_target ec d' = ?i" "row (db_commands d') (ec_command ec) \<noteq> None"
    using commit_target_stable[OF stable] c(1) here by simp_all
  have unspent: "\<not> spent_attempt (w_db w) ?i" using c(2) by (simp add: spent_attempt_iff)
  obtain y where y: "lives_of (w_db w) ?i = Some y" using c(4) by (auto simp: lives_of_def)
  have spent: "spent_attempt d' ?i"
    using life_steps_grow[OF steps y] c(3) by (auto simp: spent_attempt_iff)
  have fresh: "?i \<notin> set (w_clicks w)" using unspent assms(1) by (auto simp: click_inv_def)
  have other: "commit_target e d' = commit_target e (w_db w)" "commit_target e (w_db w) \<noteq> ?i"
    "row (db_commands d') (ec_command e) \<noteq> None" "spent_attempt d' (commit_target e (w_db w))"
    "commit_target e (w_db w) \<notin> set (w_clicks w)"
    if "w_run w m = Crossed e a" for m e a
    using commit_target_stable[OF stable] crossedD[OF assms(1) that] unspent spent_attempt_steps[OF steps]
    by auto
  show ?thesis unfolding click_inv_def
  proof (intro conjI allI impI ballI)
    show "distinct (w_clicks ?w)" using assms(1) by (simp add: moves_def click_inv_def)
    show "spent_attempt (w_db ?w) i" if "i \<in> set (w_clicks ?w)" for i
      using that assms(1) spent_attempt_steps[OF steps] by (simp add: moves_def click_inv_def)
    show "pending_click ?w e" if "w_run ?w m = Crossed e a" for m e a
      using that there spent fresh other(1,3-5)
      by (cases "m = n") (simp_all add: pending_click_iff moves_def)
    show "commit_target e (w_db ?w) \<noteq> commit_target e' (w_db ?w)"
      if two: "k \<noteq> m \<and> w_run ?w k = Crossed e a \<and> w_run ?w m = Crossed e' a'" for k m e e' a a'
    proof -
      consider "k = n" "w_run w m = Crossed e' a'" "e = ec" | "m = n" "w_run w k = Crossed e a" "e' = ec"
        | "w_run w k = Crossed e a" "w_run w m = Crossed e' a'"
        using two by (auto simp: moves_def split: if_splits)
      then show ?thesis
      proof cases
        case 1
        from other(1,2)[OF 1(2)] there(1) 1(3) show ?thesis by (simp add: moves_def)
      next
        case 2
        from other(1,2)[OF 2(2)] there(1) 2(3) show ?thesis by (simp add: moves_def)
      next
        case 3
        with two assms(1) other(1) show ?thesis unfolding click_inv_def by (simp add: moves_def) metis
      qed
    qed
  qed
qed

text \<open>The click itself: the attempt of the worker that crossed, once.\<close>

lemma click_inv_click:
  assumes "click_inv w" and "w_run w n = Crossed ec act"
    and "life_step\<^sup>*\<^sup>* (lives_of (w_db w)) (lives_of d')" and "cmds_stable (w_db w) d'"
  shows "click_inv (log_click clicked (commit_target ec (w_db w)) (moves n Idle d' w))"
proof -
  let ?i = "commit_target ec (w_db w)"
  let ?m = "moves n Idle d' w"
  have m: "click_inv ?m" by (rule click_inv_steps[OF assms(1,3,4)]) (auto simp: moves_def split: if_splits)
  note cr = crossedD[OF assms(1,2)]
  have si: "spent_attempt d' ?i" by (rule spent_attempt_steps[OF assms(3) cr(2)])
  have other: "commit_target e d' \<noteq> ?i" if "w_run ?m k = Crossed e a" for k e a
  proof -
    from that have k: "k \<noteq> n" "w_run w k = Crossed e a" by (auto simp: moves_def split: if_splits)
    have "commit_target e d' = commit_target e (w_db w)"
      using commit_target_stable(1)[OF assms(4) crossedD(1)[OF assms(1) k(2)]] .
    with assms(1,2) k show ?thesis unfolding click_inv_def by metis
  qed
  show ?thesis
  proof (cases clicked)
    case False
    with m show ?thesis by (simp add: log_click_def)
  next
    case True
    let ?w = "?m\<lparr>w_clicks := ?i # w_clicks w\<rparr>"
    have "click_inv ?w" unfolding click_inv_def
    proof (intro conjI allI impI ballI)
      show "distinct (w_clicks ?w)" using m cr(3) by (simp add: click_inv_def moves_def)
      show "spent_attempt (w_db ?w) i" if "i \<in> set (w_clicks ?w)" for i
        using that m si by (auto simp: click_inv_def moves_def)
      show "pending_click ?w e" if "w_run ?w k = Crossed e a" for k e a
        using crossedD[OF m, of k e a] other[of k e a] that by (simp add: pending_click_iff moves_def)
      show "commit_target e (w_db ?w) \<noteq> commit_target e' (w_db ?w)"
        if "k \<noteq> l \<and> w_run ?w k = Crossed e a \<and> w_run ?w l = Crossed e' a'" for k l e e' a a'
      proof -
        from that have "k \<noteq> l \<and> w_run ?m k = Crossed e a \<and> w_run ?m l = Crossed e' a'" by simp
        with m have "commit_target e (w_db ?m) \<noteq> commit_target e' (w_db ?m)" unfolding click_inv_def by blast
        then show ?thesis by simp
      qed
    qed
    with True show ?thesis by (simp add: log_click_def moves_def)
  qed
qed

section \<open>Every step keeps the invariant\<close>

lemma world_inv_dest:
  assumes "world_inv w"
  shows "db_valid (w_db w)" "lives_ok (lives_of (w_db w))" "all_calm (w_db w)" "click_inv w" "truth_inv w"
    "refines (w_db w) (w_db w)"
  using assms by (auto simp: world_inv_def db_inv_def intro: refines_refl valid_cmds_unique)

lemma step_boundary:
  assumes "world_inv w"
    and "enter_commit_boundary env (ec_command ec) (ec_token ec) (ec_url_hash ec) act (ec_snapshot ec) br
           (w_db w) = Inr (d', r)"
  shows "world_inv (moves n (after_boundary ec act r) d' w)"
proof -
  note inv = world_inv_dest[OF assms(1)]
  note b = refines_boundary[OF assms(2) inv(1,2)]
  show ?thesis
  proof (cases "r = BR_ENTERED")
    case True
    let ?w = "moves n (Crossed ec act) d' w"
    have "click_inv ?w" using click_inv_cross[OF inv(4)] b True by blast
    moreover have "db_inv ?w" by (rule db_inv_refines[of w d']) (use assms(1) b in \<open>auto simp: world_inv_def moves_def\<close>)
    moreover have "truth_inv ?w" by (rule truth_inv_quiet[OF inv(5), of d']) (use b in \<open>auto simp: refines_def moves_def\<close>)
    ultimately show ?thesis using True by (simp add: world_inv_def after_boundary_def)
  next
    case False
    with b show ?thesis by (intro world_inv_moves[OF assms(1)]) (auto simp: after_boundary_def)
  qed
qed

lemma step_commit:
  assumes "world_inv w" and "w_run w n = Crossed ec act" and "db_valid d'"
    and "commits (commit_target ec (w_db w)) clicked (w_db w) d'"
  shows "world_inv (log_click clicked (commit_target ec (w_db w)) (moves n Idle d' w))"
proof -
  note inv = world_inv_dest[OF assms(1)]
  let ?w = "log_click clicked (commit_target ec (w_db w)) (moves n Idle d' w)"
  have db: "w_db ?w = d'" and clicks: "set (w_clicks w) \<subseteq> set (w_clicks ?w)"
    "clicked \<Longrightarrow> commit_target ec (w_db w) \<in> set (w_clicks ?w)" and den: "w_denials ?w = w_denials w"
    by (auto simp: log_click_def moves_def)
  have "click_inv ?w" using click_inv_click[OF inv(4) assms(2)] assms(4) by (simp add: commits_def)
  moreover have "db_inv ?w"
    using inv(2,3) assms(3,4) life.steps_inv unfolding db_inv_def db commits_def by blast
  moreover have "truth_inv ?w"
    using inv(5) assms(4) clicks unfolding truth_inv_def db den commits_def by blast
  ultimately show ?thesis by (simp add: world_inv_def)
qed

lemma step_settle:
  assumes "world_inv w" and "settles i denied (w_db w) d'" and "db_valid d'"
  shows "world_inv (w\<lparr>w_db := d', w_denials := (if denied then i # w_denials w else w_denials w)\<rparr>)"
proof -
  note inv = world_inv_dest[OF assms(1)]
  let ?w = "w\<lparr>w_db := d', w_denials := (if denied then i # w_denials w else w_denials w)\<rparr>"
  have den: "set (w_denials w) \<subseteq> set (w_denials ?w)" "denied \<Longrightarrow> i \<in> set (w_denials ?w)" by auto
  have db: "w_db ?w = d'" and cl: "w_clicks ?w = w_clicks w" by simp_all
  have "click_inv ?w" by (rule click_inv_steps[OF inv(4)]) (use assms(2) in \<open>auto simp: settles_def\<close>)
  moreover have "db_inv ?w"
    using inv(2,3) assms(2,3) life.steps_inv unfolding db_inv_def db settles_def by blast
  moreover have "truth_inv ?w"
    using inv(5) assms(2) den unfolding truth_inv_def db cl settles_def by blast
  ultimately show ?thesis by (simp add: world_inv_def)
qed

lemma commit_at_target:
  assumes "world_inv w" and "w_run w n = Crossed ec act"
    and "perform_commit env (ec_command ec) token dp dm act t1 reply t2 (w_db w) = (clicked, Inr (d', r))"
  shows "db_valid d' \<and> commits (commit_target ec (w_db w)) clicked (w_db w) d'"
  using perform_commit_commits[OF assms(3) world_inv_dest(1,2)[OF assms(1)]]
  by (auto simp: commit_target_def intro: refines_commits)

text \<open>What a step does to the state the invariant reads.\<close>

definition calm_step :: "world \<Rightarrow> world \<Rightarrow> bool" where
  "calm_step w w' \<longleftrightarrow>
     refines (w_db w) (w_db w') \<and> db_valid (w_db w') \<and> w_clicks w' = w_clicks w \<and> w_denials w' = w_denials w
     \<and> (\<forall>n ec act. w_run w' n = Crossed ec act \<longrightarrow> w_run w n = Crossed ec act)"

lemma calm_stepI:
  "refines (w_db w) d' \<and> db_valid d' \<Longrightarrow> calm_step w (w\<lparr>w_db := d'\<rparr>)"
  "refines (w_db w) d' \<and> db_valid d' \<Longrightarrow> \<forall>ec act. pc \<noteq> Crossed ec act \<Longrightarrow> calm_step w (moves n pc d' w)"
  by (auto simp: calm_step_def moves_def split: if_splits)

lemma world_step_effect:
  assumes "world_inv w" and "world_step w w'"
  obtains "calm_step w w'"
  | n ec act env br d' r where "w' = moves n (after_boundary ec act r) d' w"
      "enter_commit_boundary env (ec_command ec) (ec_token ec) (ec_url_hash ec) act (ec_snapshot ec) br
         (w_db w) = Inr (d', r)"
  | n ec act clicked d' where "w_run w n = Crossed ec act" "db_valid d'"
      "commits (commit_target ec (w_db w)) clicked (w_db w) d'"
      "w' = log_click clicked (commit_target ec (w_db w)) (moves n Idle d' w)"
  | i denied d' where "settles i denied (w_db w) d'" "db_valid d'"
      "w' = w\<lparr>w_db := d', w_denials := (if denied then i # w_denials w else w_denials w)\<rparr>"
proof -
  note inv = world_inv_dest[OF assms(1)]
  have self: "refines (w_db w) (w_db w) \<and> db_valid (w_db w)" using inv(1,6) by simp
  from assms(2) show thesis
  proof cases
    case (ws_admit senv caps rqs now wall d' cs)
    have "refines (w_db w) d' \<and> db_valid d'"
      using refines_create_submission_commands[OF ws_admit(2) inv(1)] self by auto
    then show thesis using that(1) ws_admit(1) calm_stepI(1) by blast
  next
    case (ws_claim n env locked wanted runner token src now d' r)
    show thesis using that(1) calm_stepI(2)[OF refines_claim[OF ws_claim(3) inv(1,2)]] ws_claim(1) by simp
  next
    case (ws_begin n cid env xi d' r)
    show thesis using that(1) calm_stepI(2)[OF refines_begin_execution[OF ws_begin(3) inv(1,2)]] ws_begin(1) by simp
  next
    case (ws_enter n ec env t d' b)
    show thesis using that(1) calm_stepI(2)[OF refines_enter_preflight[OF ws_enter(3) inv(1,2)]] ws_enter(1) by simp
  next
    case (ws_no_loop n ec env reason t d' r)
    show thesis using that(1) calm_stepI(2)[OF refines_finish_claimed[OF ws_no_loop(3) inv(1,2)]] ws_no_loop(1) by simp
  next
    case (ws_preflight n ec env reply t1 t2 t3 d' r)
    show thesis using that(1) calm_stepI(2)[OF refines_after_preflight[OF ws_preflight(3) inv(1,2)]] ws_preflight(1) by simp
  next
    case (ws_boundary n ec act env br d' r)
    show thesis by (rule that(2)[OF ws_boundary(1,3)])
  next
    case (ws_commit n ec act env t1 reply t2 clicked d' r)
    show thesis using commit_at_target[OF assms(1) ws_commit(2,3)] that(3)[OF ws_commit(2) _ _ ws_commit(1)] by blast
  next
    case (ws_commit_lost n ec act env t1 reply t2 clicked)
    show thesis by (rule that(3)[OF ws_commit_lost(2) inv(1) refines_commits[OF inv(6)] ws_commit_lost(1)])
  next
    case (ws_crash n)
    show thesis using that(1) calm_stepI(2)[OF self] ws_crash by simp
  next
    case (ws_recover env locked ttl now d' m)
    show thesis using that(1) calm_stepI(1)[OF refines_reconcile_stale[OF ws_recover(2) inv(1,2)]] ws_recover(1) by simp
  next
    case (ws_reconcile env i verdict now d')
    show thesis using reconcile_settles[OF ws_reconcile(2) inv(1,2,3)] that(4) ws_reconcile(1) by blast
  next
    case (ws_reject busy app reason now d')
    show thesis using that(1) calm_stepI(1)[OF refines_reject_application[OF ws_reject(2) inv(1)]] ws_reject(1) by simp
  next
    case (ws_other d')
    show thesis using that(1) calm_stepI(1) refines_same[OF valid_cmds_unique[OF inv(1)] ws_other(2)] ws_other(1,3)
      by simp
  qed
qed

lemma world_step_inv:
  assumes "world_inv w" and "world_step w w'"
  shows "world_inv w'"
  using assms
proof (cases rule: world_step_effect)
  case 1
  then show ?thesis by (intro world_inv_refines[OF assms(1), of "w_db w'"]) (auto simp: calm_step_def)
next
  case 2
  show ?thesis unfolding 2(1) by (rule step_boundary[OF assms(1) 2(2)])
next
  case 3
  show ?thesis unfolding 3(4) by (rule step_commit[OF assms(1) 3(1-3)])
next
  case 4
  show ?thesis unfolding 4(3) by (rule step_settle[OF assms(1) 4(1,2)])
qed

lemma world_step_lives:
  assumes "world_inv w" and "world_step w w'"
  shows "life_step\<^sup>*\<^sup>* (lives_of (w_db w)) (lives_of (w_db w'))"
  using assms
proof (cases rule: world_step_effect)
  case 1
  then show ?thesis by (simp add: calm_step_def refines_def)
next
  case 2
  then show ?thesis using refines_boundary[OF 2(2) world_inv_dest(1,2)[OF assms(1)]]
    by (simp add: moves_def refines_def)
next
  case 3
  then show ?thesis by (simp add: commits_def log_click_def moves_def)
next
  case 4
  then show ?thesis by (simp add: settles_def)
qed

lemma world_init_inv: "world_init w \<Longrightarrow> world_inv w"
  by (auto simp: world_init_def world_inv_def db_inv_def click_inv_def truth_inv_def all_calm_def had_def
      lives_ok_def lives_of_def)

interpretation worker: invariant_system world_init world_step world_inv
  by unfold_locales (fact world_init_inv, fact world_step_inv)

section \<open>What the invariant says\<close>

definition attempt_of :: "int \<Rightarrow> database \<Rightarrow> int \<Rightarrow> bool" where
  "attempt_of app d i = (case row (db_attempts d) i of None \<Rightarrow> False | Some a \<Rightarrow> at_application_id a = app)"

lemma clickedD:
  assumes "world_inv w" and "i \<in> set (w_clicks w)"
  obtains a where "row (db_attempts (w_db w)) i = Some a" "permit_used i (w_db w)"
    "life_ok \<lparr>lf_application = at_application_id a, lf_stage = at_stage a, lf_outcome = at_outcome a,
       lf_used = True, lf_claimed = claimed_in (w_db w) i\<rparr>"
proof -
  note inv = world_inv_dest[OF assms(1)]
  have sp: "permit_used i (w_db w)" "lives_of (w_db w) i \<noteq> None"
    using inv(4) assms(2) by (auto simp: click_inv_def spent_attempt_iff)
  then obtain a where a: "row (db_attempts (w_db w)) i = Some a" by (auto simp: lives_of_def)
  with that sp lives_okD[OF inv(2) lives_of_Some[OF a]] show thesis by simp
qed

lemma clicked_alive:
  assumes "world_inv w" and "i \<in> set (w_clicks w)" and "i \<notin> set (w_denials w)" and "attempt_of app (w_db w) i"
  shows "\<exists>x. lives_of (w_db w) i = Some x \<and> lf_application x = app \<and> alive x"
proof -
  obtain a where a: "row (db_attempts (w_db w)) i = Some a" "permit_used i (w_db w)"
    by (rule clickedD[OF assms(1,2)])
  note x = lives_of_Some[OF a(1)]
  have "\<not> had denied_life (lives_of (w_db w)) i"
    using world_inv_dest(5)[OF assms(1)] assms(3) by (auto simp: truth_inv_def)
  with x a assms(4) show ?thesis by (auto simp: had_def denied_life_def alive_def attempt_of_def)
qed

lemma sql_sha256_known: "sql_sha256 x \<Longrightarrow> x \<noteq> None"
  by (cases x) (simp_all add: sql_sha256_def)

lemma confirmed_has_evidence:
  assumes "confirmed_evidence_check a" and "at_outcome a = Some CONFIRMED_SUBMITTED" and "confirmed_evidence_fk d i a"
  shows "at_status a = SS_SUCCESS \<and> (\<exists>e \<in> set (db_evidence d). er_attempt_id e = i
     \<and> at_evidence_digest a = Some (er_digest e) \<and> at_form_plan_fingerprint a = Some (er_form_fingerprint e)
     \<and> at_attached_cv_hash a = Some (er_cv_hash e))"
proof -
  have known: "at_evidence_digest a \<noteq> None" "at_form_plan_fingerprint a \<noteq> None" "at_attached_cv_hash a \<noteq> None"
    "at_verification_kind a \<noteq> None" "at_status a = SS_SUCCESS"
    using assms(1,2) sql_sha256_known unfolding confirmed_evidence_check_def
    by (blast, blast, blast, auto split: option.splits)
  with assms(3) have "\<exists>e \<in> set (db_evidence d). er_attempt_id e = i \<and> Some (er_digest e) = at_evidence_digest a
      \<and> Some (er_form_fingerprint e) = at_form_plan_fingerprint a \<and> Some (er_cv_hash e) = at_attached_cv_hash a"
    unfolding confirmed_evidence_fk_def list_ex_iff by blast
  with known(5) show ?thesis by (metis (no_types, lifting))
qed

lemma length_one: "distinct xs \<Longrightarrow> (\<And>x y. x \<in> set xs \<Longrightarrow> y \<in> set xs \<Longrightarrow> x = y) \<Longrightarrow> length xs \<le> 1"
  by (cases xs rule: list.exhaust[case_names Nil Cons]) (simp, metis distinct.simps(2) distinct_length_2_or_more
      le_refl length_Cons list.exhaust list.set_intros(1,2) list.size(3) One_nat_def)

section \<open>A run of the system\<close>

definition world_of :: "database \<Rightarrow> worker_pc \<Rightarrow> int list \<Rightarrow> world" where
  "world_of d pc clicks =
     \<lparr>w_db = d, w_run = (\<lambda>n. Idle)(0 := pc), w_clicks = clicks, w_denials = []\<rparr>"

lemma world_of_simps [simp]:
  "moves 0 pc' d' (world_of d pc cs) = world_of d' pc' cs"
  "(world_of d pc cs)\<lparr>w_db := d'\<rparr> = world_of d' pc cs"
  "log_click True i (world_of d pc cs) = world_of d pc (i # cs)"
  "w_run (world_of d pc cs) 0 = pc" "w_db (world_of d pc cs) = d" "w_clicks (world_of d pc cs) = cs"
  "w_denials (world_of d pc cs) = []"
  by (simp_all add: world_of_def moves_def log_click_def)

lemma run_context_simps [simp]:
  "ec_command run_context = 1" "ec_token run_context = ''tok''" "ec_url_hash run_context = sample_hash"
  "ec_snapshot run_context = None"
  by (simp_all add: run_context_def)

lemma run_target: "commit_target run_context db_committing = 1"
  by code_simp

lemma run_reachable:
  "reachable_by world_init world_step (world_of db_committing (Crossed run_context run_action) [])"
  "reachable_by world_init world_step (world_of db_confirmed Idle [1])"
proof -
  have "reachable_by world_init world_step (world_of prepared_db Idle [])"
    by (rule reach_start) (simp add: world_init_def prepared_db_valid, simp add: world_of_def prepared_db_def empty_db_def)
  from reach_step[OF this ws_admit] run_admits
  have "reachable_by world_init world_step (world_of db_admitted Idle [])" by (metis world_of_simps(2,5))
  from reach_step[OF this ws_claim[of _ 0]] run_claims
  have "reachable_by world_init world_step (world_of db_claimed (Claimed 1) [])"
    by (metis world_of_simps(1,4,5) after_claim_def option.simps(5))
  from reach_step[OF this ws_begin[of _ 0]] run_begins
  have "reachable_by world_init world_step (world_of db_claimed (Started run_context) [])"
    by (metis world_of_simps(1,4,5) after_begin_def sum.case(2))
  from reach_step[OF this ws_enter[of _ 0 run_context run_env 27 db_preparing True]] run_enters
  have "reachable_by world_init world_step (world_of db_preparing (Preflight run_context) [])" by simp
  from reach_step[OF this ws_preflight[of _ 0]] run_prepares
  have "reachable_by world_init world_step (world_of db_ready (Prepared run_context run_action) [])"
    by (metis world_of_simps(1,4,5) after_reply_def sum.case(2))
  from reach_step[OF this ws_boundary[of _ 0 run_context run_action run_env "xi_boundary run_inputs" db_committing BR_ENTERED]]
    run_crosses
  show crossed: "reachable_by world_init world_step (world_of db_committing (Crossed run_context run_action) [])"
    by (simp add: after_boundary_def)
  from reach_step[OF this ws_commit[of _ 0 run_context run_action run_env 34 "Some (V_CONFIRMED run_evidence)" 37
      True db_confirmed "Done CONFIRMED_SUBMITTED"]] run_commits run_target
  show "reachable_by world_init world_step (world_of db_confirmed Idle [1])" by simp
qed

section \<open>Properties\<close>

text \<open>
  C1: the adapter is told to commit at most once per attempt. Whatever workers run, crash, restart and
  interleave, and whatever recovery and the operator do in between, no attempt is clicked twice.
\<close>

theorem adapter_clicked_once:
  assumes "reachable_by world_init world_step w"
  shows "distinct (w_clicks w)"
  using worker.reachable_inv[OF assms] by (simp add: world_inv_def click_inv_def)

theorem adapter_clicked_once_witness:
  "reachable_by world_init world_step (world_of db_confirmed Idle [1]) \<and> distinct [1::int]"
  using run_reachable(2) adapter_clicked_once[OF run_reachable(2)] by simp

text \<open>
  C2: an application is submitted at most once. Of the attempts of one application that were clicked, at
  most one was not declared unsubmitted by the operator.
\<close>

theorem application_clicked_once:
  assumes "reachable_by world_init world_step w"
  shows "length (filter (\<lambda>i. attempt_of app (w_db w) i \<and> i \<notin> set (w_denials w)) (w_clicks w)) \<le> 1"
proof (rule length_one)
  note inv = worker.reachable_inv[OF assms]
  show "distinct (filter (\<lambda>i. attempt_of app (w_db w) i \<and> i \<notin> set (w_denials w)) (w_clicks w))"
    using inv by (simp add: world_inv_def click_inv_def)
  fix i j
  assume "i \<in> set (filter (\<lambda>i. attempt_of app (w_db w) i \<and> i \<notin> set (w_denials w)) (w_clicks w))"
    and "j \<in> set (filter (\<lambda>i. attempt_of app (w_db w) i \<and> i \<notin> set (w_denials w)) (w_clicks w))"
  then obtain x y where "lives_of (w_db w) i = Some x" "lf_application x = app" "alive x"
    "lives_of (w_db w) j = Some y" "lf_application y = app" "alive y"
    using clicked_alive[OF inv] by (auto simp del: set_filter simp: set_filter[unfolded Collect_conj_eq]) blast
  then show "i = j" using one_alive[OF world_inv_dest(2)[OF inv]] by metis
qed

theorem application_clicked_once_witness:
  "length (filter (attempt_of 7 db_confirmed) [1]) \<le> 1 \<and> attempt_of 7 db_confirmed 1"
  using application_clicked_once[OF run_reachable(2), of 7] by simp code_simp

text \<open>
  C3: submitted means submitted. An attempt recorded as confirmed, or with the legacy status of success,
  was clicked, its permit is spent, and the employer's evidence for exactly its form and its attached CV
  is stored.
\<close>

theorem confirmed_was_clicked:
  assumes "reachable_by world_init world_step w" and "row (db_attempts (w_db w)) i = Some a"
    and "at_outcome a = Some CONFIRMED_SUBMITTED \<or> at_status a = SS_SUCCESS"
  shows "i \<in> set (w_clicks w) \<and> permit_used i (w_db w) \<and> at_status a = SS_SUCCESS
    \<and> (\<exists>e \<in> set (db_evidence (w_db w)). er_attempt_id e = i \<and> at_evidence_digest a = Some (er_digest e)
         \<and> at_form_plan_fingerprint a = Some (er_form_fingerprint e)
         \<and> at_attached_cv_hash a = Some (er_cv_hash e))"
proof -
  note inv = worker.reachable_inv[OF assms(1)]
  note v = valid_attempt[OF world_inv_dest(1)[OF inv] assms(2)]
  have ok: "life_ok (the (lives_of (w_db w) i))"
    using lives_okD[OF world_inv_dest(2)[OF inv] lives_of_Some[OF assms(2)]] lives_of_Some[OF assms(2)] by simp
  have oc: "at_outcome a = Some CONFIRMED_SUBMITTED"
    using assms(3) v(1) ok lives_of_Some[OF assms(2)] by (auto simp: attempt_check_def life_ok_def)
  then have "had confirmed_life (lives_of (w_db w)) i"
    by (simp add: had_def lives_of_Some[OF assms(2)] confirmed_life_def)
  then have cl: "i \<in> set (w_clicks w)" using world_inv_dest(5)[OF inv] by (simp add: truth_inv_def)
  then have used: "permit_used i (w_db w)" by (rule clickedD[OF inv])
  have ce: "confirmed_evidence_check a" using v(1) by (simp add: attempt_check_def)
  note has = confirmed_has_evidence[OF ce oc v(3)]
  show ?thesis using cl used has by blast
qed

theorem confirmed_was_clicked_witness:
  "1 \<in> set [1::int] \<and> permit_used 1 db_confirmed"
proof -
  have "\<exists>a. row (db_attempts db_confirmed) 1 = Some a \<and> at_outcome a = Some CONFIRMED_SUBMITTED"
    by (simp add: db_confirmed_def row_def)
  then obtain a where "row (db_attempts (w_db (world_of db_confirmed Idle [1]))) 1 = Some a"
    "at_outcome a = Some CONFIRMED_SUBMITTED" by auto
  from confirmed_was_clicked[OF run_reachable(2) this(1)] this(2) show ?thesis by simp
qed

text \<open>
  C4: a click is never forgotten. A clicked attempt stays past the boundary with its permit spent: it
  never goes back to the queue or to preparation, and it finishes as confirmed, unknown or confirmed by
  the operator; it counts as failed only if the operator declared it unsubmitted.
\<close>

theorem clicked_never_restarts:
  assumes "reachable_by world_init world_step w" and "i \<in> set (w_clicks w)"
  shows "\<exists>a. row (db_attempts (w_db w)) i = Some a \<and> permit_used i (w_db w)
    \<and> (at_stage a = COMMITTING
       \<or> at_stage a = FINISHED
         \<and> at_outcome a \<in> {Some CONFIRMED_SUBMITTED, Some UNKNOWN, Some OPERATOR_CONFIRMED}
       \<or> at_stage a = FINISHED \<and> at_outcome a = Some FAILED_BEFORE_COMMIT \<and> i \<in> set (w_denials w))"
proof -
  note inv = worker.reachable_inv[OF assms(1)]
  obtain a where a: "row (db_attempts (w_db w)) i = Some a" "permit_used i (w_db w)"
    "life_ok \<lparr>lf_application = at_application_id a, lf_stage = at_stage a, lf_outcome = at_outcome a,
       lf_used = True, lf_claimed = claimed_in (w_db w) i\<rparr>"
    by (rule clickedD[OF inv assms(2)])
  have "\<not> had verifying_life (lives_of (w_db w)) i"
    "had denied_life (lives_of (w_db w)) i \<longrightarrow> i \<in> set (w_denials w)"
    using world_inv_dest(5)[OF inv] by (simp_all add: truth_inv_def)
  with a show ?thesis
    by (cases "at_stage a") (auto simp: had_def notable_defs lives_of_Some[OF a(1)] life_ok_def crossed_def)
qed

theorem clicked_never_restarts_witness:
  "\<exists>a. row (db_attempts db_confirmed) 1 = Some a \<and> at_stage a \<in> {COMMITTING, FINISHED}"
  using clicked_never_restarts[OF run_reachable(2), of 1] by auto

text \<open>
  C5: the system refines the attempt lifecycle. Every step of every component, admission, workers,
  recovery and the operator, is a sequence of steps of the lifecycle specification, and every reachable
  database satisfies its constraints and the invariant of the specification.
\<close>

theorem system_refines_lifecycle:
  assumes "reachable_by world_init world_step w"
  shows "lives_ok (lives_of (w_db w)) \<and> db_valid (w_db w)
    \<and> (\<forall>w'. world_step w w' \<longrightarrow> life_step\<^sup>*\<^sup>* (lives_of (w_db w)) (lives_of (w_db w')))"
  using worker.reachable_inv[OF assms] world_inv_dest world_step_lives by blast

theorem system_refines_lifecycle_witness:
  "lives_ok (lives_of db_committing) \<and> life_step\<^sup>*\<^sup>* (lives_of db_committing) (lives_of db_confirmed)"
proof -
  let ?w = "world_of db_committing (Crossed run_context run_action) []"
  have "world_step ?w (log_click True (commit_target run_context (w_db ?w)) (moves 0 Idle db_confirmed ?w))"
    using ws_commit[of ?w 0 run_context run_action run_env 34 "Some (V_CONFIRMED run_evidence)" 37] run_commits
    by simp
  with system_refines_lifecycle[OF run_reachable(1)] show ?thesis by (auto simp: run_target)
qed

end
