(* ===== verification/Execution_Results.thy ===== *)
theory Execution_Results
  imports Worker_System
begin

text \<open>
  What single operations of the worker achieve: which rows recovery of stale claims writes, when an
  execution may reach the adapter's commit, and what the result of that commit can be.
\<close>

section \<open>Recovery\<close>

text \<open>The attempt and command rows recovery is expected to leave for a command.\<close>

definition recovered ::
  "(int \<Rightarrow> bool) \<Rightarrow> instant \<Rightarrow> instant \<Rightarrow> bool \<Rightarrow> attempt \<Rightarrow> command_row \<Rightarrow> attempt \<times> command_row" where
  "recovered locked cutoff now spent a c =
     (if \<not> stale_command cutoff c \<or> locked (at_application_id a) then (a, c)
      else if crossed (at_stage a) \<or> spent
      then (finished_attempt (UnknownOutcome R_STALE_INDETERMINATE) now a,
            completed_command now (reason_value R_STALE_INDETERMINATE) c)
      else (requeued_attempt a, requeued_command c))"

definition replaces :: "int \<Rightarrow> command_row \<Rightarrow> attempt \<times> command_row \<Rightarrow> database \<Rightarrow> database \<Rightarrow> bool" where
  "replaces cid c ac d d' \<longleftrightarrow>
     cm_attempt_id (snd ac) = cm_attempt_id c
     \<and> (\<forall>k. row (db_commands d') k = (if k = cid then Some (snd ac) else row (db_commands d) k))
     \<and> (\<forall>j. row (db_attempts d') j = (if j = cm_attempt_id c then Some (fst ac) else row (db_attempts d) j))
     \<and> (\<forall>j. permit_used j d' = permit_used j d)"

lemma touches_replaces:
  "touches (cm_attempt_id c) cid a' c' (permit_used (cm_attempt_id c) d) d d' \<Longrightarrow> replaces cid c (a', c') d d'"
  by (auto simp: touches_def replaces_def)

lemma reconcile_one_replaces:
  assumes "reconcile_one env locked cutoff now cid d = Inr (d', b)" and "row (db_commands d) cid = Some c"
    and "row (db_attempts d) (cm_attempt_id c) = Some a"
  shows "replaces cid c (recovered locked cutoff now (permit_used (cm_attempt_id c) d) a c) d d'"
proof -
  let ?i = "cm_attempt_id c" and ?oc = "UnknownOutcome R_STALE_INDETERMINATE"
  consider (skip) "\<not> stale_command cutoff c \<or> locked (at_application_id a)" "d' = d"
    | (spent) "stale_command cutoff c" "\<not> locked (at_application_id a)"
        "crossed (at_stage a) \<or> permit_used ?i d" "finish_attempt env ?i cid ?oc now d = Inr d'"
    | (redo) "stale_command cutoff c" "\<not> locked (at_application_id a)"
        "\<not> (crossed (at_stage a) \<or> permit_used ?i d)" "requeue_rows env ?i a cid c now d = Inr d'"
    using assms unfolding reconcile_one_def by (auto elim!: and_then_okE split: if_splits)
  then show ?thesis
  proof cases
    case skip
    with assms(2,3) show ?thesis by (auto simp: recovered_def replaces_def)
  next
    case spent
    obtain a1 where "row (db_attempts d) ?i = Some a1"
      "touches ?i cid (finished_attempt ?oc now a1) (completed_command now (outcome_reason ?oc) c)
         (permit_used ?i d) d d'"
      by (rule finish_attempt_touches[OF spent(4) assms(2) refl])
    with touches_replaces assms(3) spent show ?thesis by (simp add: recovered_def)
  next
    case redo
    from enqueue_same_core[OF redo(4)[unfolded requeue_rows_def]] redo show ?thesis
      by (simp add: recovered_def replaces_def same_core_def db_simps requeued_command_def permit_used_def)
  qed
qed

lemma replaces_unique:
  assumes "replaces cid c ac d d'" and "row (db_commands d) cid = Some c" and "cmds_unique d"
  shows "cmds_unique d'"
  using assms unfolding replaces_def cmds_unique_def by (metis option.inject)

lemma reconcile_all_replaces:
  assumes "reconcile_all env locked cutoff now cids d = Inr (d', n)" and "distinct cids" and "cmds_unique d"
    and "\<And>k. k \<in> set cids \<Longrightarrow> \<exists>c a. row (db_commands d) k = Some c \<and> row (db_attempts d) (cm_attempt_id c) = Some a"
    and "row (db_commands d) cid = Some c" and "row (db_attempts d) (cm_attempt_id c) = Some a"
  shows "let ac = (if cid \<in> set cids then recovered locked cutoff now (permit_used (cm_attempt_id c) d) a c else (a, c))
     in row (db_attempts d') (cm_attempt_id c) = Some (fst ac) \<and> row (db_commands d') cid = Some (snd ac)
        \<and> permit_used (cm_attempt_id c) d' = permit_used (cm_attempt_id c) d"
  using assms
proof (induction cids arbitrary: d n a c)
  case Nil
  then show ?case by simp
next
  case (Cons k ks)
  from Cons.prems(1) obtain d1 b m where one: "reconcile_one env locked cutoff now k d = Inr (d1, b)"
    and rest: "reconcile_all env locked cutoff now ks d1 = Inr (d', m)"
    by (auto elim!: and_then_okE)
  from Cons.prems(4)[of k] obtain ck ak where k: "row (db_commands d) k = Some ck"
    "row (db_attempts d) (cm_attempt_id ck) = Some ak" by auto
  note rw = reconcile_one_replaces[OF one k]
  let ?r = "recovered locked cutoff now (permit_used (cm_attempt_id ck) d) ak ck"
  have other: "cm_attempt_id c' \<noteq> cm_attempt_id ck" if "row (db_commands d) j = Some c'" "j \<noteq> k" for j c'
    using Cons.prems(3) that k(1) unfolding cmds_unique_def by blast
  have kept: "row (db_commands d1) j = Some c'" "row (db_attempts d1) (cm_attempt_id c') = row (db_attempts d) (cm_attempt_id c')"
    if "row (db_commands d) j = Some c'" "j \<noteq> k" for j c'
    using rw other[OF that] that by (simp_all add: replaces_def)
  have rows: "\<exists>c a. row (db_commands d1) j = Some c \<and> row (db_attempts d1) (cm_attempt_id c) = Some a"
    if j: "j \<in> set ks" for j
  proof -
    from Cons.prems(2) j have "j \<noteq> k" by auto
    moreover from Cons.prems(4)[of j] j obtain cj aj where "row (db_commands d) j = Some cj"
      "row (db_attempts d) (cm_attempt_id cj) = Some aj" by auto
    ultimately show ?thesis using kept by metis
  qed
  note IH = Cons.IH[OF rest _ replaces_unique[OF rw k(1) Cons.prems(3)] rows]
  have pu: "permit_used j d1 = permit_used j d" for j using rw by (simp add: replaces_def)
  show ?case
  proof (cases "cid = k")
    case True
    with k Cons.prems(5,6) have same: "c = ck" "a = ak" by auto
    have r: "row (db_commands d1) cid = Some (snd ?r)" "row (db_attempts d1) (cm_attempt_id ck) = Some (fst ?r)"
      "cm_attempt_id (snd ?r) = cm_attempt_id ck"
      using rw True by (simp_all add: replaces_def)
    from IH[of "snd ?r" "fst ?r"] r Cons.prems(2) True same pu show ?thesis by (simp add: Let_def)
  next
    case False
    from IH[of c a] kept[OF Cons.prems(5) False] Cons.prems(2,6) False pu show ?thesis by (simp add: Let_def)
  qed
qed

lemma distinct_map_fst_sorted:
  fixes g :: "'a \<times> 'b \<Rightarrow> 'k::linorder"
  assumes "distinct (map fst xs)"
  shows "distinct (map fst (sort_key g (filter P xs)))"
proof -
  have "inj_on fst (set (filter P xs))" using assms by (auto simp: distinct_map inj_on_def)
  with assms show ?thesis by (simp add: distinct_map)
qed

lemma stale_candidates_reads:
  assumes "db_valid d"
  shows "distinct (stale_candidates cutoff d)"
    "k \<in> set (stale_candidates cutoff d) \<longleftrightarrow>
       (\<exists>c a. row (db_commands d) k = Some c \<and> stale_command cutoff c \<and> row (db_attempts d) (cm_attempt_id c) = Some a)"
proof -
  have keys: "distinct (map fst (db_commands d))" using assms by (simp add: db_valid_def commands_valid_def)
  then show "distinct (stale_candidates cutoff d)"
    unfolding stale_candidates_def by (intro distinct_map_fst_sorted)
  have "row (db_commands d) k = Some c \<longleftrightarrow> (k, c) \<in> set (db_commands d)" for c
    using keys row_in_set[of "db_commands d" k c] set_row[of "db_commands d" k c] by blast
  then show "k \<in> set (stale_candidates cutoff d) \<longleftrightarrow>
       (\<exists>c a. row (db_commands d) k = Some c \<and> stale_command cutoff c \<and> row (db_attempts d) (cm_attempt_id c) = Some a)"
    by (force simp: stale_candidates_def image_iff)
qed

section \<open>The irreversible action\<close>

text \<open>The evidence an adapter's reply proves, if it does.\<close>

definition proves_submission :: "int \<Rightarrow> attempt \<Rightarrow> instant \<Rightarrow> adapter_value option \<Rightarrow> bool" where
  "proves_submission i a t reply =
     (case Option.bind reply parse_commit_outcome of
        Some (ConfirmedSubmittedOutcome e) \<Rightarrow> confirmed_evidence_is_valid i a e t
      | _ \<Rightarrow> False)"

lemma settle_outcome_kind_iff:
  "outcome_kind (settle_outcome i a reply t) =
     (if proves_submission i a t reply then CONFIRMED_SUBMITTED else UNKNOWN)"
  by (simp add: settle_outcome_def proves_submission_def split: option.splits commit_outcome.splits)

lemma settle_attempt_result:
  "settle_attempt env i cid oc t d = Inr (d', r) \<Longrightarrow> r = Done (outcome_kind oc)"
  by (auto simp: settle_attempt_def finish_and_commit_def elim!: and_then_okE)

section \<open>The way to the adapter\<close>

lemma begin_execution_ok:
  assumes "begin_execution env xi cid d = Inr (d', Inr ec)"
  obtains c a ap where "row (db_commands d) cid = Some c" "cm_state c = CS_CLAIMED"
    "row (db_attempts d) (cm_attempt_id c) = Some a" "row (db_applications d) (at_application_id a) = Some ap"
    "xi_live xi" "xi_executor xi" "draft_and_current d ap a" "d' = d" "ec_command ec = cid"
proof -
  have no: "and_then m (\<lambda>(e, r). Inr (e, Inl r)) \<noteq> Inr (d', Inr ec)" for m :: "fault + database \<times> exec_result"
    by (auto elim!: and_then_okE)
  note b = assms[unfolded begin_execution_def Let_def]
  from b obtain c where c: "row (db_commands d) cid = Some c" "cm_state c = CS_CLAIMED" "or_empty (cm_claim_token c) \<noteq> []"
    by (auto split: option.splits if_splits)
  note b = b[unfolded c(1) option.case]
  from b c obtain a where a: "row (db_attempts d) (cm_attempt_id c) = Some a" by (auto split: option.splits)
  note b = b[unfolded a option.case]
  from b c obtain ap where ap: "row (db_applications d) (at_application_id a) = Some ap" by (auto split: option.splits)
  note b = b[unfolded ap option.case]
  from b c no have live: "xi_live xi" by (auto split: if_splits)
  from b c no live obtain p m j where pm: "plan_of_attempt d a = Some p" "row (db_permits d) (cm_attempt_id c) = Some m"
    "row (db_jobs d) (ap_job_id ap) = Some j"
    by (cases "plan_of_attempt d a"; cases "row (db_permits d) (cm_attempt_id c)"; cases "row (db_jobs d) (ap_job_id ap)")
       simp_all
  note b = b[unfolded pm option.case prod.case]
  from b c no live have cur: "draft_and_current d ap a" by (auto split: if_splits)
  from b c no live cur obtain x where x: "admit_execution env (cm_attempt_id c) a ap p m (xi_started_at xi) d = Inr x"
    by (cases "admit_execution env (cm_attempt_id c) a ap p m (xi_started_at xi) d") (simp_all split: if_splits)
  obtain dp dm h where dp: "x = (dp, dm, h)" by (cases x)
  note b = b[unfolded x dp sum.case prod.case]
  from b c no live cur have ex: "xi_executor xi" by (auto split: if_splits)
  from b c no live cur ex have "d' = d" "ec_command ec = cid" by (auto split: option.splits)
  with that[OF c(1,2) a ap live ex cur] show thesis by simp
qed

lemma rejected_result: "reject_at_boundary env i cid reason t d = Inr (d', r) \<Longrightarrow> r = BR_REJECTED"
  by (auto simp: reject_at_boundary_def elim!: and_then_okE)

lemma boundary_enteredE:
  assumes "enter_commit_boundary env cid token url_hash act snapshot br d = Inr (d', BR_ENTERED)"
  obtains i a ap p m dp dm where "lock_claimed_context cid token d = Some (i, a, ap)" "plan_of_attempt d a = Some p"
    "row (db_permits d) i = Some m" "br_source_before br" "br_gate br" "br_source_after br"
    "boundary_checks env i a ap p m dp dm url_hash act snapshot (br_commit_at br) d = Inr ()"
    "cross_boundary env i cid m (br_commit_at br) d = Inr d'"
proof -
  have no: "reject_at_boundary env i k reason t e \<noteq> Inr (d', BR_ENTERED)" for i k reason t e
    using rejected_result by blast
  from assms obtain i a ap where l: "lock_claimed_context cid token d = Some (i, a, ap)"
    by (auto simp: enter_commit_boundary_def split: option.splits)
  note b = assms[unfolded enter_commit_boundary_def this option.case prod.case Let_def]
  from b no have src: "br_source_before br" "boundary_open d ap a" by (auto split: if_splits)
  from b src obtain p m where pm: "plan_of_attempt d a = Some p" "row (db_permits d) i = Some m"
    by (auto split: option.splits)
  note b2 = b[unfolded pm option.case prod.case]
  from b2 src no obtain dp dm where g: "br_gate br"
      "after_governor env i cid a ap p m dp dm url_hash act snapshot br d = Inr (d', BR_ENTERED)"
    by (auto split: sum.splits if_splits)
  from g(2) no have "br_source_after br"
    "boundary_checks env i a ap p m dp dm url_hash act snapshot (br_commit_at br) d = Inr ()"
    "cross_boundary env i cid m (br_commit_at br) d = Inr d'"
    by (auto simp: after_governor_def Let_def and_then_ok_iff split: sum.splits if_splits)
  with l pm src g(1) show thesis by (intro that)
qed

lemma execute_from_ready_click:
  assumes "execute_from_ready env xi ec act d = (True, res)"
  obtains d' where "enter_commit_boundary env (ec_command ec) (ec_token ec) (ec_url_hash ec) act
     (ec_snapshot ec) (xi_boundary xi) d = Inr (d', BR_ENTERED)"
  using assms unfolding execute_from_ready_def by (auto split: sum.splits prod.splits boundary_result.splits)

lemma execute_click:
  assumes "execute_claimed_submission_command env xi cid d = (True, res)"
  obtains d1 ec d2 d3 act where "begin_execution env xi cid d = Inr (d1, Inr ec)"
    "enter_claimed_preflight env cid (ec_token ec) (xi_preparing_at xi) d1 = Inr (d2, True)" "xi_loop_opened xi"
    "after_preflight env ec (xi_preflight xi) (xi_preflight_at xi) (xi_ready_at xi) (xi_invalid_at xi) d2 = Inr (d3, Inr act)"
    "execute_from_ready env xi ec act d3 = (True, res)"
  using assms unfolding execute_claimed_submission_command_def execute_from_preflight_def
  by (auto split: sum.splits prod.splits bool.splits if_splits)

lemma after_preflight_action:
  assumes "after_preflight env ec reply t1 t2 t3 d = Inr (d', Inr act)"
  shows "settle_preflight reply = PreparedFinalAction act"
  using assms unfolding after_preflight_def
  by (auto elim!: and_then_okE split: preflight_outcome.splits option.splits prod.splits ready_result.splits)

section \<open>Properties\<close>

text \<open>
  C6: recovery redelivers exactly the unspent work and quarantines the rest. After a sweep every stale
  claim of an unlocked application is either back in the queue, when its attempt had not crossed the
  commit boundary and its permit is unspent, or finished as unknown; every other attempt and command is
  unchanged.
\<close>

theorem recovery_never_redelivers_spent_work:
  assumes "reconcile_stale_submission_commands env locked ttl now d = Inr (d', n)" and "db_valid d"
    and "row (db_commands d) cid = Some c" and "row (db_attempts d) (cm_attempt_id c) = Some a"
  shows "row (db_attempts d') (cm_attempt_id c) = Some (fst (recovered locked (now - seconds (max 1 ttl)) now
           (permit_used (cm_attempt_id c) d) a c))
    \<and> row (db_commands d') cid = Some (snd (recovered locked (now - seconds (max 1 ttl)) now
           (permit_used (cm_attempt_id c) d) a c))"
proof -
  let ?cut = "now - seconds (max 1 ttl)"
  from assms(1) obtain d1 where all: "reconcile_all env locked ?cut now (stale_candidates ?cut d) d = Inr (d1, n)"
    and "d' = d1"
    unfolding reconcile_stale_submission_commands_def Let_def
    by (elim and_then_okE) (auto simp: commit_db_def split: if_splits)
  note cand = stale_candidates_reads[OF assms(2), where cutoff = ?cut]
  have "cid \<notin> set (stale_candidates ?cut d) \<Longrightarrow>
      recovered locked ?cut now (permit_used (cm_attempt_id c) d) a c = (a, c)"
    using cand(2)[of cid] assms(3,4) by (simp add: recovered_def)
  moreover have "\<exists>c a. row (db_commands d) k = Some c \<and> row (db_attempts d) (cm_attempt_id c) = Some a"
    if "k \<in> set (stale_candidates ?cut d)" for k using that cand(2) by blast
  note rows = reconcile_all_replaces[OF all cand(1) valid_cmds_unique[OF assms(2)] this assms(3,4), unfolded Let_def]
  ultimately show ?thesis using rows \<open>d' = d1\<close> by (cases "cid \<in> set (stale_candidates ?cut d)") simp_all
qed

lemma run_recovers:
  "map_sum id snd (reconcile_stale_submission_commands run_env (\<lambda>k. False) 60 (22 + seconds 61) db_claimed) = Inr 1"
  by code_simp

theorem recovery_never_redelivers_spent_work_witness:
  "\<exists>(d' :: database) a. row (db_attempts d') 1 = Some a \<and> at_stage a = QUEUED"
proof -
  from run_recovers obtain d' where r: "reconcile_stale_submission_commands run_env (\<lambda>k. False) 60 (22 + seconds 61)
      db_claimed = Inr (d', 1)"
    by (cases "reconcile_stale_submission_commands run_env (\<lambda>k. False) 60 (22 + seconds 61) db_claimed") auto
  let ?c = "claimed_command 22 ''runner'' ''tok'' (new_command sample_request 1 20)"
  let ?a = "admitted_attempt\<lparr>at_stage := INSPECTING, at_started_at := Some 22\<rparr>"
  have c: "row (db_commands db_claimed) 1 = Some ?c" "row (db_attempts db_claimed) (cm_attempt_id ?c) = Some ?a"
    by (simp_all add: db_claimed_def db_worked_def row_def claimed_command_def new_command_def)
  have v: "db_valid db_claimed" by code_simp
  have "recovered (\<lambda>k. False) (22 + seconds 61 - seconds (max 1 60)) (22 + seconds 61)
      (permit_used (cm_attempt_id ?c) db_claimed) ?a ?c = (requeued_attempt ?a, requeued_command ?c)"
    by code_simp
  with recovery_never_redelivers_spent_work[OF r v c] show ?thesis
    by (intro exI[of _ d'] exI[of _ "requeued_attempt ?a"]) (simp add: claimed_command_def new_command_def requeued_attempt_def)
qed



text \<open>
  C8: an execution presses the final button only through every gate. If it does, live submission was on,
  the adapter had an executor, its preflight produced a final action, the governor agreed, the running
  source matched its release before and after the governor, and when the execution started the command
  was claimed, the application was the reviewed draft, and the permit was unspent.
\<close>

theorem click_passes_every_gate:
  assumes "execute_claimed_submission_command env xi cid d = (True, res)" and "db_valid d"
    and "lives_ok (lives_of d)"
  shows "xi_live xi \<and> xi_executor xi \<and> xi_loop_opened xi
    \<and> br_gate (xi_boundary xi) \<and> br_source_before (xi_boundary xi) \<and> br_source_after (xi_boundary xi)
    \<and> (\<exists>act. settle_preflight (xi_preflight xi) = PreparedFinalAction act)
    \<and> (\<exists>c a ap. row (db_commands d) cid = Some c \<and> cm_state c = CS_CLAIMED
         \<and> row (db_attempts d) (cm_attempt_id c) = Some a
         \<and> row (db_applications d) (at_application_id a) = Some ap
         \<and> draft_and_current d ap a \<and> \<not> permit_used (cm_attempt_id c) d)"
proof -
  from assms(1) obtain d1 ec d2 d3 act where b: "begin_execution env xi cid d = Inr (d1, Inr ec)"
    and p: "enter_claimed_preflight env cid (ec_token ec) (xi_preparing_at xi) d1 = Inr (d2, True)"
    and l: "xi_loop_opened xi"
    and f: "after_preflight env ec (xi_preflight xi) (xi_preflight_at xi) (xi_ready_at xi) (xi_invalid_at xi) d2 = Inr (d3, Inr act)"
    and e: "execute_from_ready env xi ec act d3 = (True, res)"
    by (rule execute_click)
  from b obtain c a ap where c: "row (db_commands d) cid = Some c" "cm_state c = CS_CLAIMED"
    "row (db_attempts d) (cm_attempt_id c) = Some a" "row (db_applications d) (at_application_id a) = Some ap"
    "xi_live xi" "xi_executor xi" "draft_and_current d ap a" "d1 = d" "ec_command ec = cid"
    by (rule begin_execution_ok)
  from e obtain d4 where x: "enter_commit_boundary env (ec_command ec) (ec_token ec) (ec_url_hash ec) act
     (ec_snapshot ec) (xi_boundary xi) d3 = Inr (d4, BR_ENTERED)" by (rule execute_from_ready_click)
  have r2: "refines d d2" "db_valid d2" "lives_ok (lives_of d2)"
    using refines_enter_preflight[OF p[unfolded c(8)] assms(2,3)] refines_ok[OF _ assms(3)] by auto
  have r3: "refines d d3" "db_valid d3" "lives_ok (lives_of d3)"
    using refines_after_preflight[OF f r2(2,3)] refines_trans[OF r2(1)] refines_ok[OF _ r2(3)] by auto
  from refines_boundary[OF x r3(2,3)] c(9) obtain c3 where c3: "row (db_commands d3) cid = Some c3"
    "\<not> permit_used (cm_attempt_id c3) d3" by (auto simp: enters_def)
  have same: "cm_attempt_id c3 = cm_attempt_id c"
    using r3(1) c(1) c3(1) unfolding refines_def cmds_stable_def by force
  have "\<not> permit_used (cm_attempt_id c) d"
    using spent_attempt_steps[of d d3 "cm_attempt_id c"] r3(1) c3(2) c(3) same
    by (auto simp: refines_def spent_attempt_iff lives_of_def)
  moreover have "br_source_before (xi_boundary xi) \<and> br_gate (xi_boundary xi) \<and> br_source_after (xi_boundary xi)"
    using x by (rule boundary_enteredE) simp
  ultimately show ?thesis using c l after_preflight_action[OF f] by blast
qed

lemma run_executes: "fst (execute_claimed_submission_command run_env run_inputs 1 db_claimed)"
proof -
  have "execute_from_ready run_env run_inputs run_context run_action db_ready
      = (True, Inr (db_confirmed, Done CONFIRMED_SUBMITTED))"
    using run_crosses run_commits by (simp add: execute_from_ready_def run_inputs_def sample_inputs_def)
  then show ?thesis
    using run_begins run_enters run_prepares
    by (simp add: execute_claimed_submission_command_def execute_from_preflight_def run_inputs_def sample_inputs_def)
qed

theorem click_passes_every_gate_witness:
  "\<exists>c. row (db_commands db_claimed) 1 = Some c \<and> \<not> permit_used (cm_attempt_id c) db_claimed"
proof -
  obtain res where "execute_claimed_submission_command run_env run_inputs 1 db_claimed = (True, res)"
    using run_executes by (cases "execute_claimed_submission_command run_env run_inputs 1 db_claimed") auto
  moreover have "db_valid db_claimed" by code_simp
  moreover have "lives_of db_claimed j = (if j = 1 then Some \<lparr>lf_application = 7, lf_stage = INSPECTING, lf_outcome = None,
      lf_used = False, lf_claimed = True\<rparr> else None)" for j
    by (simp add: lives_of_def db_claimed_def db_worked_def db_admitted_def row_def admitted_attempt_def new_attempt_def
        sample_request_def permit_used_def claimed_in_def claimed_command_def new_command_def admitted_permit_def permit_spent_def)
  then have "lives_ok (lives_of db_claimed)"
    by (simp add: lives_ok_def life_ok_def crossed_def)
  ultimately show ?thesis using click_passes_every_gate by blast
qed

text \<open>
  C12: the operator's verdict settles one unknown attempt, once. Reconciliation succeeds only for an
  attempt whose result is unknown; it rewrites that attempt alone, never as confirmed by the employer,
  leaves every permit and command as it is, and afterwards every further verdict on the attempt is
  refused with a conflict.
\<close>

theorem verdict_is_final:
  assumes "reconcile_attempt env i verdict now d = Inr d'"
  shows "(\<exists>a. row (db_attempts d) i = Some a \<and> reconciliable a
      \<and> row (db_attempts d') i = Some (reconciled_attempt (verdict = ''confirmed_submitted'') now a))
    \<and> (\<forall>j. j \<noteq> i \<longrightarrow> row (db_attempts d') j = row (db_attempts d) j)
    \<and> db_permits d' = db_permits d \<and> db_commands d' = db_commands d
    \<and> reconcile_attempt env' i verdict' now' d' = Inl (HttpFault 409)"
proof -
  from assms obtain a ap s where a: "row (db_attempts d) i = Some a" "reconciliable a" "db_valid d'"
    and s: "s \<longleftrightarrow> verdict = ''confirmed_submitted''" and core: "same_core (reconcile_rows i s now a ap d) d'"
    by (rule reconcile_attemptE)
  have rows: "row (db_attempts d') j = (if j = i then Some (reconciled_attempt s now a) else row (db_attempts d) j)"
    "db_commands d' = db_commands d" "db_permits d' = db_permits d" for j
    using core by (simp_all add: same_core_def reconcile_rows_reads db_simps)
  have i: "row (db_attempts d') i = Some (reconciled_attempt s now a)" by (simp add: rows(1))
  obtain ap' where ap': "row (db_applications d') (at_application_id (reconciled_attempt s now a)) = Some ap'"
    using valid_attempt(4)[OF a(3) i] by blast
  have "\<not> reconciliable (reconciled_attempt s now a)" by (simp add: reconciliable_def reconciled_attempt_def)
  with i ap' have "reconcile_attempt env' i verdict' now' d' = Inl (HttpFault 409)"
    by (simp add: reconcile_attempt_def lift_opt_def ensure_def)
  with a rows s show ?thesis by simp
qed

definition db_unknown :: database where
  "db_unknown = (case snd (perform_commit run_env 1 ''tok'' (ec_plan run_context) (ec_permit run_context) run_action 34
     None 37 db_committing) of Inl e \<Rightarrow> empty_db | Inr (d, r) \<Rightarrow> d)"

lemma run_reconciles:
  "map_sum id (\<lambda>d. 1 :: nat) (reconcile_attempt run_env 1 ''confirmed_not_submitted'' 50 db_unknown) = Inr 1"
  by code_simp

theorem verdict_is_final_witness:
  "\<exists>d'. reconcile_attempt run_env 1 ''confirmed_submitted'' 60 d' = Inl (HttpFault 409)"
proof -
  from run_reconciles obtain d' where "reconcile_attempt run_env 1 ''confirmed_not_submitted'' 50 db_unknown = Inr d'"
    by (cases "reconcile_attempt run_env 1 ''confirmed_not_submitted'' 50 db_unknown") auto
  from verdict_is_final[OF this] show ?thesis by blast
qed

end
