(* ===== verification/Policy_System.thy ===== *)
theory Policy_System
  imports Policy_Evaluation
begin

text \<open>
  The automation policy as a system: policies are activated and revoked, the kill switch is set and
  cleared, applications are evaluated, and everything else the program does happens in between. The
  theorems say what an allowed decision has passed, that the limits hold over any run, that a decision can
  be used until it expires, and that an ended policy never authorises again.
\<close>

section \<open>Reading the automation tables\<close>

lemma set_automation_reads [simp]:
  "db_automation (set_automation f d) = f (db_automation d)"
  "db_applications (set_automation f d) = db_applications d"
  "db_plans (set_automation f d) = db_plans d"
  "db_jobs (set_automation f d) = db_jobs d"
  "db_qualifications (set_automation f d) = db_qualifications d"
  by (simp_all add: set_automation_def)

lemma flush_automation_ok [simp]:
  "flush_automation d = Inr d' \<longleftrightarrow> d' = d \<and> automation_valid (db_automation d)"
  by (auto simp: flush_automation_def)

section \<open>What an evaluation did\<close>

lemma current_signed_policyD:
  assumes "current_signed_policy env now d = Inr (Some (prid, p))"
  obtains r where "filter (pr_active \<circ> snd) (am_policies (db_automation d)) = [(prid, r)]"
    "pr_active r" "pr_revoked_at r = None" "policy_valid p" "now < po_expires_at p"
    "pr_payload_json r = Encoded p" "pr_policy_id r = po_policy_id p" "pr_revision r = po_revision p"
    "pe_policy_digest env p = pr_payload_digest r"
proof -
  from assms obtain r s where r: "active_policy_record d = Inr (Some (prid, r))" "pr_revoked_at r = None"
    and s: "verified_policy env r = Inr s" "p = sp_policy s" "now < po_expires_at p"
    unfolding current_signed_policy_def
    by (auto elim!: and_then_okE split: option.splits prod.splits if_splits)
  from s(1) have "policy_from_record env r = Inr s"
    unfolding verified_policy_def by (auto elim!: and_then_okE)
  with s(2) have "policy_valid p" "pr_payload_json r = Encoded p" "pr_policy_id r = po_policy_id p"
    "pr_revision r = po_revision p" "pe_policy_digest env p = pr_payload_digest r"
    by (auto simp: policy_from_record_def split: json_column.splits option.splits if_splits)
  moreover from r(1) have f: "filter (pr_active \<circ> snd) (am_policies (db_automation d)) = [(prid, r)]"
    by (simp add: active_policy_record_def one_or_none_ok)
  moreover have "pr_active r" using filter_single[OF f] by simp
  ultimately show thesis using r(2) s(3) by (intro that)
qed

lemma persist_decisionE:
  assumes "persist_decision env prid fid pid e d = Inr (d', k)"
  obtains (existing) r where "d' = d" "(k, r) \<in> set (am_decisions (db_automation d))"
      "dr_application_id r = de_application_id e" "decision_from_record r d = Inr e"
  | (added) "k = next_id (am_decisions (db_automation d))"
      "d' = set_automation (\<lambda>m. m\<lparr>am_decisions :=
          put_row k (new_decision_row env prid fid pid e) (am_decisions m)\<rparr>) d"
      "automation_valid (db_automation d')"
proof -
  let ?found = "filter (\<lambda>(k, r). dr_application_id r = de_application_id e
          \<and> dr_policy_revision_id r = prid \<and> dr_application_revision r = de_application_revision e
          \<and> dr_form_plan_id r = pid \<and> dr_decision_digest r = pe_decision_digest env e)
        (am_decisions (db_automation d))"
  from assms obtain x where x: "one_or_none ?found = Inr x"
    and r: "(case x of Some (k, r) \<Rightarrow> and_then (decision_from_record r d) (\<lambda>e'.
             if e' \<noteq> e then refuse ''AUTOMATION_DECISION_DIGEST_CONFLICT'' else Inr (d, k))
       | None \<Rightarrow> (let k = next_id (am_decisions (db_automation d)) in
            and_then (flush_automation (set_automation (\<lambda>m. m\<lparr>am_decisions :=
                put_row k (new_decision_row env prid fid pid e) (am_decisions m)\<rparr>) d)) (\<lambda>d1. Inr (d1, k)))) = Inr (d', k)"
    unfolding persist_decision_def by (rule and_then_okE)
  show thesis
  proof (cases x)
    case None
    with r show thesis by (auto simp: Let_def elim!: and_then_okE intro: added)
  next
    case (Some y)
    with x have "y \<in> set ?found" by (simp add: one_or_none_ok)
    with Some r show thesis
      by (cases y) (auto simp: elim!: and_then_okE split: if_splits intro: existing)
  qed
qed

lemma decideE:
  assumes "decide env prid p app ap pid plan fid fr changed now d = Inr (d', k)"
  obtains f j contract unattached reasons plan_id d1 where "fit_from_record fr = Inr f" "application_job_data ap d = Inr j"
    "qe_contract_digest (pe_adapter env) plan = Some contract"
    "attachment_unverified ap plan f = Inr unattached"
    "reasons = denial_reasons (denial_checks env p ap plan f j contract unattached changed now d)"
    "uuid_text (pl_plan_id plan) = Some plan_id"
    "decision_valid (new_decision env p app ap plan f j contract plan_id reasons now d)"
    "persist_decision env prid fid pid (new_decision env p app ap plan f j contract plan_id reasons now d) d = Inr (d1, k)"
    "d' = set_application app (decided_application reasons now ap) d1"
  using assms unfolding decide_def Let_def
  by (elim and_then_okE) (auto split: prod.splits)

lemma evaluateE:
  assumes "evaluate_auto_submit_policy env app pid now d = Inr (d', k)"
  obtains ap plan fid fr prid p changed where "row (db_applications d) app = Some ap" "row (db_plans d) pid = Some plan"
      "pl_application_id plan = app" "fit_record_of ap d = Inr (fid, fr)"
      "current_signed_policy env now d = Inr (Some (prid, p))"
      "changed \<longleftrightarrow> require_current_artifact_bindings env p \<noteq> Inr ()"
      "(\<exists>r. filter (\<lambda>(k, r). dr_application_id r = app \<and> dr_allowed r) (am_decisions (db_automation d)) = [(k, r)]
          \<and> d' = d)
       \<or> filter (\<lambda>(k, r). dr_application_id r = app \<and> dr_allowed r) (am_decisions (db_automation d)) = []
         \<and> decide env prid p app ap pid plan fid fr changed now d = Inr (d', k)"
proof -
  from assms obtain ap plan fid fr prid p x where
    g: "row (db_applications d) app = Some ap" "row (db_plans d) pid = Some plan" "pl_application_id plan = app"
      "fit_record_of ap d = Inr (fid, fr)" "current_signed_policy env now d = Inr (Some (prid, p))"
      "existing_allowed app d = Inr x"
      "(case x of Some kr \<Rightarrow> reuse_decision kr prid ap pid p (require_current_artifact_bindings env p \<noteq> Inr ()) d
        | None \<Rightarrow> decide env prid p app ap pid plan fid fr (require_current_artifact_bindings env p \<noteq> Inr ()) now d) = Inr (d', k)"
    unfolding evaluate_auto_submit_policy_def Let_def
    by (elim and_then_okE) (auto split: option.splits if_splits prod.splits elim!: and_then_okE)
  show thesis
  proof (cases x)
    case None
    with g show thesis by (intro that[OF g(1-5) refl]) (simp add: existing_allowed_def one_or_none_ok)
  next
    case (Some kr)
    with g show thesis by (intro that[OF g(1-5) refl])
      (cases kr, auto simp: existing_allowed_def one_or_none_ok reuse_decision_def split: if_splits)
  qed
qed

lemma denial_reasons_empty: "denial_reasons cs = [] \<longleftrightarrow> list_all (\<lambda>c. \<not> snd c) cs"
proof -
  have "denial_reasons cs = [] \<longleftrightarrow> set (denial_reasons cs) = {}" by simp
  also have "\<dots> \<longleftrightarrow> list_all (\<lambda>c. \<not> snd c) cs"
    unfolding denial_reasons_def set_fromkeys by (force simp: list_all_iff)
  finally show ?thesis .
qed

lemma decision_from_recordD:
  assumes "decision_from_record r d = Inr e"
  shows "de_allowed e = dr_allowed r" "de_application_id e = dr_application_id r" "decision_valid e"
    "de_evaluated_at e = dr_evaluated_at r" "de_authority_expires_at e = dr_authority_expires_at r"
  using assms by (auto simp: decision_from_record_def Let_def split: json_column.splits option.splits if_splits
      elim!: and_then_okE)

lemma new_decision_row_reads [simp]:
  "dr_allowed (new_decision_row env prid fid pid e) = de_allowed e"
  "dr_evaluated_at (new_decision_row env prid fid pid e) = de_evaluated_at e"
  "dr_application_id (new_decision_row env prid fid pid e) = de_application_id e"
  "dr_company_digest (new_decision_row env prid fid pid e) = de_company_digest e"
  "dr_authority_expires_at (new_decision_row env prid fid pid e) = de_authority_expires_at e"
  "dr_fit_score (new_decision_row env prid fid pid e) = de_fit_score e"
  "dr_policy_revision_id (new_decision_row env prid fid pid e) = prid"
  by (simp_all add: new_decision_row_def)

lemma new_decision_reads [simp]:
  "de_allowed (new_decision env p app ap plan f j contract plan_id reasons now d) \<longleftrightarrow> reasons = []"
  "de_evaluated_at (new_decision env p app ap plan f j contract plan_id reasons now d) = now"
  "de_application_id (new_decision env p app ap plan f j contract plan_id reasons now d) = app"
  "de_company_digest (new_decision env p app ap plan f j contract plan_id reasons now d)
     = company_identity_digest env (jd_company j)"
  "de_fit_score (new_decision env p app ap plan f j contract plan_id reasons now d) = fd_fit_score f"
  by (simp_all add: new_decision_def)

lemma set_application_automation [simp]:
  "db_automation (set_application i a d) = db_automation d"
  "db_plans (set_application i a d) = db_plans d"
  "db_qualifications (set_application i a d) = db_qualifications d"
  by (simp_all add: set_application_def)

text \<open>
  The one way in which an evaluation changes the decisions: a new row under the next number, allowed only
  if no denial applied.
\<close>

definition granting ::
  "policy_env \<Rightarrow> int \<Rightarrow> int \<Rightarrow> instant \<Rightarrow> database \<Rightarrow> application \<Rightarrow> plan_row \<Rightarrow> int \<Rightarrow> auto_policy \<Rightarrow> fit_decision
     \<Rightarrow> job_data \<Rightarrow> string \<Rightarrow> int \<Rightarrow> bool" where
  "granting env app pid now d ap plan prid p f j contract fid \<longleftrightarrow>
     row (db_applications d) app = Some ap \<and> row (db_plans d) pid = Some plan
     \<and> pl_application_id plan = app \<and> current_signed_policy env now d = Inr (Some (prid, p))
     \<and> (\<exists>fr. fit_record_of ap d = Inr (fid, fr) \<and> fit_from_record fr = Inr f) \<and> application_job_data ap d = Inr j
     \<and> qe_contract_digest (pe_adapter env) plan = Some contract
     \<and> attachment_unverified ap plan f = Inr False \<and> require_current_artifact_bindings env p = Inr ()
     \<and> list_all (\<lambda>c. \<not> snd c) (denial_checks env p ap plan f j contract False False now d)"

lemma attachment_verified:
  assumes "attachment_unverified ap plan f = Inr False"
  shows "pl_attachment_verified plan \<and> pl_attached_cv_hash plan = ap_selected_cv_hash ap
    \<and> ap_selected_cv_hash ap \<noteq> None"
  using assms by (cases "ap_selected_cv_hash ap")
    (auto simp: attachment_unverified_def Let_def or_empty_def split: if_splits elim!: and_then_okE)

lemma no_denialD:
  assumes "list_all (\<lambda>c. \<not> snd c) (denial_checks env p ap plan f j contract unattached changed now d)"
  shows "\<not> unattached" "\<not> changed"
  using assms by (auto simp: denial_checks_def Let_def split: prod.splits)

definition decided ::
  "policy_env \<Rightarrow> int \<Rightarrow> int \<Rightarrow> instant \<Rightarrow> database \<Rightarrow> application \<Rightarrow> plan_row \<Rightarrow> int \<Rightarrow> auto_policy \<Rightarrow> fit_decision
     \<Rightarrow> job_data \<Rightarrow> string \<Rightarrow> int \<Rightarrow> string \<Rightarrow> string list \<Rightarrow> database \<Rightarrow> int \<Rightarrow> bool" where
  "decided env app pid now d ap plan prid p f j contract fid plan_id reasons d' k \<longleftrightarrow>
     (let e = new_decision env p app ap plan f j contract plan_id reasons now d in
      k = next_id (am_decisions (db_automation d))
      \<and> d' = set_application app (decided_application reasons now ap) (set_automation (\<lambda>m. m\<lparr>am_decisions :=
               am_decisions (db_automation d) @ [(k, new_decision_row env prid fid pid e)]\<rparr>) d)
      \<and> decision_valid e \<and> uuid_text (pl_plan_id plan) = Some plan_id \<and> automation_valid (db_automation d')
      \<and> (reasons = [] \<longrightarrow> granting env app pid now d ap plan prid p f j contract fid))"

lemma evaluateD:
  assumes "evaluate_auto_submit_policy env app pid now d = Inr (d', k)"
    and "automation_valid (db_automation d)"
  shows "db_automation d' = db_automation d
           \<and> (d' = d \<or> (\<exists>r. row (am_decisions (db_automation d)) k = Some r \<and> \<not> dr_allowed r))
    \<or> (\<exists>ap plan prid p f j contract fid plan_id reasons.
         decided env app pid now d ap plan prid p f j contract fid plan_id reasons d' k)"
  using assms(1)
proof (rule evaluateE)
  fix ap plan fid fr prid p changed
  assume g: "row (db_applications d) app = Some ap" "row (db_plans d) pid = Some plan"
      "pl_application_id plan = app" "fit_record_of ap d = Inr (fid, fr)"
      "current_signed_policy env now d = Inr (Some (prid, p))"
      "changed \<longleftrightarrow> require_current_artifact_bindings env p \<noteq> Inr ()"
    and "(\<exists>r. filter (\<lambda>(k, r). dr_application_id r = app \<and> dr_allowed r) (am_decisions (db_automation d)) = [(k, r)]
          \<and> d' = d)
       \<or> filter (\<lambda>(k, r). dr_application_id r = app \<and> dr_allowed r) (am_decisions (db_automation d)) = []
         \<and> decide env prid p app ap pid plan fid fr changed now d = Inr (d', k)"
  then consider "d' = d" | (decide) "decide env prid p app ap pid plan fid fr changed now d = Inr (d', k)"
      "filter (\<lambda>(k, r). dr_application_id r = app \<and> dr_allowed r) (am_decisions (db_automation d)) = []" by blast
  then show ?thesis
  proof cases
    case decide
    have none: "list_all (\<lambda>(k, r). \<not> (dr_application_id r = app \<and> dr_allowed r)) (am_decisions (db_automation d))"
      using decide(2) by (auto simp: list_all_iff filter_empty_conv)
    from decide(1) obtain f j contract unattached reasons plan_id d1 where f: "fit_from_record fr = Inr f" "application_job_data ap d = Inr j"
      "qe_contract_digest (pe_adapter env) plan = Some contract"
      "attachment_unverified ap plan f = Inr unattached"
      "reasons = denial_reasons (denial_checks env p ap plan f j contract unattached changed now d)"
      "uuid_text (pl_plan_id plan) = Some plan_id"
      and v: "decision_valid (new_decision env p app ap plan f j contract plan_id reasons now d)"
      and w: "persist_decision env prid fid pid (new_decision env p app ap plan f j contract plan_id reasons now d) d = Inr (d1, k)"
      and d': "d' = set_application app (decided_application reasons now ap) d1" by (rule decideE)
    have grant: "granting env app pid now d ap plan prid p f j contract fid" if "reasons = []"
    proof -
      from that f(5) have n: "list_all (\<lambda>c. \<not> snd c) (denial_checks env p ap plan f j contract unattached changed now d)"
        by (simp add: denial_reasons_empty)
      with no_denialD[OF n] g f show ?thesis by (auto simp: granting_def)
    qed
    from w show ?thesis
    proof (cases rule: persist_decisionE)
      case (existing r)
      have "row (am_decisions (db_automation d)) k = Some r"
        using existing(2) assms(2) by (auto simp: automation_valid_def intro!: unique_row)
      moreover have "\<not> dr_allowed r" using existing(2,3) none by (auto simp: list_all_iff)
      ultimately show ?thesis using d' existing(1) by auto
    next
      case added
      have "automation_valid (db_automation d')" using d' added(3) by simp
      moreover have "d1 = set_automation (\<lambda>m. m\<lparr>am_decisions := am_decisions (db_automation d)
          @ [(k, new_decision_row env prid fid pid (new_decision env p app ap plan f j contract plan_id reasons now d))]\<rparr>) d"
        using added(1,2) by (simp add: set_automation_def put_next)
      ultimately have "decided env app pid now d ap plan prid p f j contract fid plan_id reasons d' k"
        using grant v f(6) added(1) d' unfolding decided_def Let_def by blast
      then show ?thesis by blast
    qed
  qed simp
qed

section \<open>Runs\<close>

text \<open>
  A state is the clock and the database. Between two operations of the service the rest of the program
  may change anything but the policies, the decisions and the kill switch events, within the constraints;
  files, keys and digests may change as well, and only the zone of the active hours is fixed.
\<close>

inductive policy_step :: "zone \<Rightarrow> instant \<times> database \<Rightarrow> instant \<times> database \<Rightarrow> bool" for z where
  tick: "t \<le> t' \<Longrightarrow> policy_step z (t, d) (t', d)"
| evaluate: "pe_zone env = z \<Longrightarrow> evaluate_auto_submit_policy env app pid t d = Inr (d', k)
    \<Longrightarrow> policy_step z (t, d) (t, d')"
| activate: "activate_auto_submit_policy env av policy_id t d = Inr (d', k) \<Longrightarrow> policy_step z (t, d) (t, d')"
| revoke: "revoke_auto_submit_policy reason t d = Inr (d', k) \<Longrightarrow> policy_step z (t, d) (t, d')"
| kill: "set_automation_kill_switch active source reason digest t d = Inr (d', k, replayed)
    \<Longrightarrow> policy_step z (t, d) (t, d')"
| other: "am_policies (db_automation d') = am_policies (db_automation d)
    \<Longrightarrow> am_decisions (db_automation d') = am_decisions (db_automation d)
    \<Longrightarrow> am_kills (db_automation d') = am_kills (db_automation d) \<Longrightarrow> policy_step z (t, d) (t, d')"

definition policy_init :: "instant \<times> database \<Rightarrow> bool" where
  "policy_init s \<longleftrightarrow> am_policies (db_automation (snd s)) = [] \<and> am_decisions (db_automation (snd s)) = []
     \<and> am_kills (db_automation (snd s)) = []"

definition limit_kept :: "(decision_row \<Rightarrow> bool) \<Rightarrow> (instant \<Rightarrow> instant) \<Rightarrow> int \<Rightarrow> database \<Rightarrow> bool" where
  "limit_kept q lo n d \<longleftrightarrow>
     (\<forall>t. counted (\<lambda>r. q r \<and> lo t \<le> dr_evaluated_at r \<and> dr_evaluated_at r \<le> t) d \<le> n)"

definition midnight :: "zone \<Rightarrow> instant \<Rightarrow> instant" where
  "midnight z t = zn_instant z (local_midnight z t)"

definition policy_inv :: "zone \<Rightarrow> instant \<times> database \<Rightarrow> bool" where
  "policy_inv z s \<longleftrightarrow> (case s of (t, d) \<Rightarrow>
     automation_valid (db_automation d)
     \<and> list_all (\<lambda>(k, r). dr_evaluated_at r \<le> t) (am_decisions (db_automation d))
     \<and> limit_kept (\<lambda>r. True) (\<lambda>t. t - hours 1) 5 d
     \<and> limit_kept (\<lambda>r. True) (midnight z) 25 d
     \<and> (\<forall>c. limit_kept (\<lambda>r. dr_company_digest r = c) (\<lambda>t. t - days 14) 2 d))"

lemma counted_mono:
  assumes "\<And>k r. (k, r) \<in> set (am_decisions (db_automation d)) \<Longrightarrow> c r \<Longrightarrow> c' r"
  shows "counted c d \<le> counted c' d"
proof -
  have "filter (\<lambda>(k, r). dr_allowed r \<and> c r) (am_decisions (db_automation d))
      = filter (\<lambda>(k, r). c r) (filter (\<lambda>(k, r). dr_allowed r \<and> c' r) (am_decisions (db_automation d)))"
    using assms by (auto simp: filter_filter intro!: filter_cong)
  then show ?thesis unfolding counted_def by (metis length_filter_le of_nat_le_iff)
qed

lemma counted_append:
  assumes "am_decisions (db_automation d') = am_decisions (db_automation d) @ [(k, r)]"
  shows "counted c d' = counted c d + (if dr_allowed r \<and> c r then 1 else 0)"
  by (simp add: counted_def assms)

lemma counted_same:
  assumes "am_decisions (db_automation d') = am_decisions (db_automation d)"
  shows "counted c d' = counted c d"
  by (simp add: counted_def assms)

text \<open>
  A window that only moves forward stays within its limit when one more decision is counted at a time
  no earlier than all the others, if the window that ends then was below the limit.
\<close>

lemma limit_kept_append:
  assumes new: "am_decisions (db_automation d') = am_decisions (db_automation d) @ [(k, r)]"
    and past: "list_all (\<lambda>(k, r). dr_evaluated_at r \<le> now) (am_decisions (db_automation d))"
    and at_now: "dr_evaluated_at r = now"
    and forward: "\<And>t. now \<le> t \<Longrightarrow> lo now \<le> lo t"
    and room: "dr_allowed r \<Longrightarrow> q r \<Longrightarrow> counted (\<lambda>x. q x \<and> lo now \<le> dr_evaluated_at x \<and> dr_evaluated_at x \<le> now) d < n"
    and kept: "limit_kept q lo n d"
  shows "limit_kept q lo n d'"
  unfolding limit_kept_def
proof
  fix t
  let ?w = "\<lambda>t x. q x \<and> lo t \<le> dr_evaluated_at x \<and> dr_evaluated_at x \<le> t"
  have old: "counted (?w t) d \<le> n" using kept by (simp add: limit_kept_def)
  show "counted (?w t) d' \<le> n"
  proof (cases "dr_allowed r \<and> ?w t r")
    case True
    with at_now have t: "now \<le> t" by simp
    have "counted (?w t) d \<le> counted (?w now) d"
      using past forward[OF t] by (intro counted_mono) (auto simp: list_all_iff)
    with room True show ?thesis by (simp add: counted_append[OF new])
  next
    case False
    with old show ?thesis by (auto simp: counted_append[OF new])
  qed
qed

lemma limit_kept_same:
  assumes "am_decisions (db_automation d') = am_decisions (db_automation d)" and "limit_kept q lo n d"
  shows "limit_kept q lo n d'"
  using assms(2) by (simp add: limit_kept_def counted_same[OF assms(1)])

lemma granting_room:
  assumes g: "granting env app pid now d ap plan prid p f j contract fid"
  shows "counted (\<lambda>x. True \<and> now - hours 1 \<le> dr_evaluated_at x \<and> dr_evaluated_at x \<le> now) d < 5"
    "counted (\<lambda>x. True \<and> midnight (pe_zone env) now \<le> dr_evaluated_at x \<and> dr_evaluated_at x \<le> now) d < 25"
    "counted (\<lambda>x. dr_company_digest x = company_identity_digest env (jd_company j)
        \<and> now - days 14 \<le> dr_evaluated_at x \<and> dr_evaluated_at x \<le> now) d < 2"
proof -
  from g have "policy_valid p" unfolding granting_def by (elim conjE current_signed_policyD)
  note lim = policy_limits(1-3)[OF this]
  from g have n: "counted (\<lambda>r. now - hours 1 \<le> dr_evaluated_at r) d < po_hourly_limit p"
    "counted (\<lambda>r. midnight (pe_zone env) now \<le> dr_evaluated_at r) d < po_daily_limit p"
    "counted (\<lambda>x. dr_company_digest x = company_identity_digest env (jd_company j)
        \<and> now - days 14 \<le> dr_evaluated_at x \<and> dr_evaluated_at x \<le> now) d < po_company_limit p"
    by (auto simp: granting_def denial_checks_def usage_counts_def Let_def midnight_def)
  have "counted (\<lambda>x. True \<and> now - hours 1 \<le> dr_evaluated_at x \<and> dr_evaluated_at x \<le> now) d
      \<le> counted (\<lambda>r. now - hours 1 \<le> dr_evaluated_at r) d"
    "counted (\<lambda>x. True \<and> midnight (pe_zone env) now \<le> dr_evaluated_at x \<and> dr_evaluated_at x \<le> now) d
      \<le> counted (\<lambda>r. midnight (pe_zone env) now \<le> dr_evaluated_at r) d"
    by (rule counted_mono, simp)+
  with n lim show "counted (\<lambda>x. True \<and> now - hours 1 \<le> dr_evaluated_at x \<and> dr_evaluated_at x \<le> now) d < 5"
    "counted (\<lambda>x. True \<and> midnight (pe_zone env) now \<le> dr_evaluated_at x \<and> dr_evaluated_at x \<le> now) d < 25"
    "counted (\<lambda>x. dr_company_digest x = company_identity_digest env (jd_company j)
        \<and> now - days 14 \<le> dr_evaluated_at x \<and> dr_evaluated_at x \<le> now) d < 2"
    by linarith+
qed

lemma decided_reads:
  assumes "decided env app pid now d ap plan prid p f j contract fid plan_id reasons d' k"
  shows "am_decisions (db_automation d') = am_decisions (db_automation d)
      @ [(k, new_decision_row env prid fid pid (new_decision env p app ap plan f j contract plan_id reasons now d))]"
    "automation_valid (db_automation d')"
    "am_policies (db_automation d') = am_policies (db_automation d)"
    "am_kills (db_automation d') = am_kills (db_automation d)"
  using assms by (auto simp: decided_def Let_def)

lemma decided_inv:
  assumes "decided env app pid now d ap plan prid p f j contract fid plan_id reasons d' k"
    and "policy_inv z (now, d)" and "pe_zone env = z" and "mono (midnight z)"
  shows "policy_inv z (now, d')"
proof -
  let ?r = "new_decision_row env prid fid pid (new_decision env p app ap plan f j contract plan_id reasons now d)"
  note new = decided_reads(1)[OF assms(1)]
  have room: "granting env app pid now d ap plan prid p f j contract fid" if "dr_allowed ?r"
    using that assms(1) by (simp add: decided_def Let_def)
  have inv: "list_all (\<lambda>(k, r). dr_evaluated_at r \<le> now) (am_decisions (db_automation d))"
    "limit_kept (\<lambda>r. True) (\<lambda>t. t - hours 1) 5 d" "limit_kept (\<lambda>r. True) (midnight z) 25 d"
    "\<And>c. limit_kept (\<lambda>r. dr_company_digest r = c) (\<lambda>t. t - days 14) 2 d"
    using assms(2) by (auto simp: policy_inv_def)
  have "limit_kept (\<lambda>r. True) (\<lambda>t. t - hours 1) 5 d'"
    by (rule limit_kept_append[OF new inv(1)]) (auto simp: inv granting_room(1)[OF room, simplified])
  moreover have "limit_kept (\<lambda>r. True) (midnight z) 25 d'"
    using granting_room(2)[OF room] assms(3,4)
    by (intro limit_kept_append[OF new inv(1)]) (auto simp: inv mono_def)
  moreover have "limit_kept (\<lambda>r. dr_company_digest r = c) (\<lambda>t. t - days 14) 2 d'" for c
    using granting_room(3)[OF room]
    by (intro limit_kept_append[OF new inv(1)]) (auto simp: inv)
  moreover have "list_all (\<lambda>(k, r). dr_evaluated_at r \<le> now) (am_decisions (db_automation d'))"
    using inv(1) by (simp add: new)
  ultimately show ?thesis using decided_reads(2)[OF assms(1)] by (simp add: policy_inv_def)
qed

lemma activateD:
  assumes "activate_auto_submit_policy env av policy_id now d = Inr (d', k)"
  obtains current p key where "active_policy_record d = Inr current" "policy_valid p"
    "k = next_id (am_policies (db_automation d))"
    "d' = set_automation (\<lambda>m. m\<lparr>am_policies :=
       put_row k (new_policy_row env key p) (supersede current now (am_policies m))\<rparr>) d"
    "automation_valid (db_automation d')"
    "list_all (scope_has_live_canary env d) (po_qualified_form_contracts p)"
    "po_activated_at p = now"
  using assms unfolding activate_auto_submit_policy_def Let_def
  by (elim and_then_okE) (auto simp: new_policy_def split: if_splits)

lemma revokeD:
  assumes "revoke_auto_submit_policy reason now d = Inr (d', k)"
  obtains r where "active_policy_record d = Inr (Some (k, r))"
    "d' = set_automation (\<lambda>m. m\<lparr>am_policies := put_row k
          (r\<lparr>pr_active := False, pr_revoked_at := Some now, pr_revoked_by := Some ''local_operator'',
             pr_revocation_reason := Some reason\<rparr>) (am_policies m)\<rparr>) d"
    "automation_valid (db_automation d')"
  using assms unfolding revoke_auto_submit_policy_def
  by (elim and_then_okE) (auto split: prod.splits elim!: and_then_okE)

lemma append_killD:
  assumes "append_kill r d = Inr (d', k, replayed)"
  shows "\<not> replayed" "k = next_id (am_kills (db_automation d))"
    "d' = set_automation (\<lambda>m. m\<lparr>am_kills := put_row k r (am_kills m)\<rparr>) d" "automation_valid (db_automation d')"
  using assms by (auto simp: append_kill_def Let_def elim!: and_then_okE)

lemma killD:
  assumes "set_automation_kill_switch active source reason digest now d = Inr (d', k, replayed)"
  obtains (same) "d' = d" "replayed"
  | (added) "append_kill (new_kill_row active source reason digest now d) d = Inr (d', k, replayed)"
      "source = VERCEL_SIGNED_KILL \<longrightarrow> active"
  using assms unfolding set_automation_kill_switch_def
  by (elim and_then_okE) (simp split: option.splits prod.splits if_splits; blast intro: same added)

lemma activate_keeps:
  assumes "activate_auto_submit_policy env av policy_id now d = Inr (d', k)"
  shows "automation_valid (db_automation d')" "am_decisions (db_automation d') = am_decisions (db_automation d)"
    "am_kills (db_automation d') = am_kills (db_automation d)"
  using assms by (auto elim!: activateD)

lemma revoke_keeps:
  assumes "revoke_auto_submit_policy reason now d = Inr (d', k)"
  shows "automation_valid (db_automation d')" "am_decisions (db_automation d') = am_decisions (db_automation d)"
    "am_kills (db_automation d') = am_kills (db_automation d)"
  using assms by (auto elim!: revokeD)

lemma kill_keeps:
  assumes "set_automation_kill_switch active source reason digest now d = Inr (d', k, replayed)"
    and "automation_valid (db_automation d)"
  shows "automation_valid (db_automation d')" "am_decisions (db_automation d') = am_decisions (db_automation d)"
    "am_policies (db_automation d') = am_policies (db_automation d)"
proof -
  from assms(1) have "automation_valid (db_automation d') \<and> am_decisions (db_automation d') = am_decisions (db_automation d)
    \<and> am_policies (db_automation d') = am_policies (db_automation d)"
  proof (cases rule: killD)
    case added
    show ?thesis using append_killD(3,4)[OF added(1)] by simp
  qed (use assms(2) in simp)
  then show "automation_valid (db_automation d')" "am_decisions (db_automation d') = am_decisions (db_automation d)"
    "am_policies (db_automation d') = am_policies (db_automation d)" by auto
qed

section \<open>The invariant\<close>

lemma automation_valid_cong:
  assumes "am_policies m' = am_policies m" "am_decisions m' = am_decisions m" "am_kills m' = am_kills m"
  shows "automation_valid m' = automation_valid m"
  using assms by (simp add: automation_valid_def)

lemma evaluate_automation:
  assumes "evaluate_auto_submit_policy env app pid now d = Inr (d', k)"
    and "automation_valid (db_automation d)"
  shows "automation_valid (db_automation d')"
    "am_policies (db_automation d') = am_policies (db_automation d)"
    "am_kills (db_automation d') = am_kills (db_automation d)"
    "row (am_decisions (db_automation d)) m = Some r \<Longrightarrow> row (am_decisions (db_automation d')) m = Some r"
proof -
  consider "db_automation d' = db_automation d" | (decided) ap plan prid p f j contract fid plan_id reasons where
      "decided env app pid now d ap plan prid p f j contract fid plan_id reasons d' k"
    using evaluateD[OF assms] by blast
  then have "automation_valid (db_automation d') \<and> am_policies (db_automation d') = am_policies (db_automation d)
    \<and> am_kills (db_automation d') = am_kills (db_automation d)
    \<and> (row (am_decisions (db_automation d)) m = Some r \<longrightarrow> row (am_decisions (db_automation d')) m = Some r)"
  proof cases
    case decided
    then show ?thesis by (auto simp: decided_reads row_def map_add_Some_iff)
  qed (simp add: assms(2))
  then show "automation_valid (db_automation d')"
    "am_policies (db_automation d') = am_policies (db_automation d)"
    "am_kills (db_automation d') = am_kills (db_automation d)"
    "row (am_decisions (db_automation d)) m = Some r \<Longrightarrow> row (am_decisions (db_automation d')) m = Some r" by auto
qed

lemma step_without_decisions:
  assumes "policy_inv z (t, d)" and "automation_valid (db_automation d')"
    and "am_decisions (db_automation d') = am_decisions (db_automation d)" and "t \<le> t'"
  shows "policy_inv z (t', d')"
  using assms by (auto simp: policy_inv_def limit_kept_same list_all_iff)

lemma policy_step_inv:
  assumes "policy_inv z s" and "policy_step z s s'" and "mono (midnight z)"
  shows "policy_inv z s'"
  using assms(2,1,3)
proof (induction rule: policy_step.induct)
  case (tick t t' d)
  then have "automation_valid (db_automation d)" by (simp add: policy_inv_def)
  with tick show ?case by (intro step_without_decisions[OF tick(2)]) simp_all
next
  case (evaluate env app pid t d d' k)
  then have v: "automation_valid (db_automation d)" by (simp add: policy_inv_def)
  consider "db_automation d' = db_automation d" | ap plan prid p f j contract fid plan_id reasons where
      "decided env app pid t d ap plan prid p f j contract fid plan_id reasons d' k"
    using evaluateD[OF evaluate(2) v] by (elim disjE conjE exE) iprover+
  then show ?case
  proof cases
    case 1
    with evaluate(3) v show ?thesis by (intro step_without_decisions[of z t d d' t]) simp_all
  next
    case 2
    then show ?thesis using evaluate(3,1,4) by (rule decided_inv)
  qed
next
  case (activate env av policy_id t d d' k)
  show ?case using activate(2) activate_keeps(1,2)[OF activate(1)] by (rule step_without_decisions) simp
next
  case (revoke reason t d d' k)
  show ?case using revoke(2) revoke_keeps(1,2)[OF revoke(1)] by (rule step_without_decisions) simp
next
  case (kill active source reason digest t d d' k replayed)
  then have "automation_valid (db_automation d)" by (simp add: policy_inv_def)
  then show ?case using kill(2) kill_keeps(1,2)[OF kill(1)] by (intro step_without_decisions[OF kill(2)]) simp_all
next
  case (other d' d t)
  then have "automation_valid (db_automation d')"
    by (auto simp: policy_inv_def automation_valid_cong[OF other(1-3)])
  with other(4) show ?case using other(2) by (rule step_without_decisions) simp
qed

lemma policy_init_inv: "policy_init s \<Longrightarrow> policy_inv z s"
  by (cases s) (auto simp: policy_init_def policy_inv_def automation_valid_def limit_kept_def counted_def map_filter_simps)

interpretation policy: invariant_system policy_init "policy_step z" "\<lambda>s. mono (midnight z) \<longrightarrow> policy_inv z s" for z
  by unfold_locales (blast intro: policy_init_inv, blast intro: policy_step_inv)

section \<open>The kill switch\<close>

lemma sort_key_new_least:
  fixes f :: "'a \<Rightarrow> int"
  assumes "\<And>y. y \<in> set xs \<Longrightarrow> f x < f y"
  shows "sort_key f (xs @ [x]) = x # sort_key f xs"
  using assms
proof (induction xs)
  case (Cons a xs)
  then have "f x < f a" "sort_key f (xs @ [x]) = x # sort_key f xs" by auto
  then show ?case by simp
qed simp

lemma latest_kill_greatest:
  assumes "latest_kill_switch_event d = Some (k, r)"
  shows "(j, x) \<in> set (am_kills (db_automation d)) \<Longrightarrow> kl_revision x \<le> kl_revision r"
proof -
  assume x: "(j, x) \<in> set (am_kills (db_automation d))"
  let ?f = "\<lambda>(k, r). - kl_revision r"
  obtain zs where s: "sort_key ?f (am_kills (db_automation d)) = (k, r) # zs"
    using assms by (auto simp: latest_kill_switch_event_def split: list.splits)
  have "sorted (map ?f (sort_key ?f (am_kills (db_automation d))))" by (rule sorted_sort_key)
  moreover have "(j, x) \<in> set (sort_key ?f (am_kills (db_automation d)))" using x by simp
  ultimately show ?thesis unfolding s by auto
qed

lemma append_kill_decides:
  assumes "append_kill (new_kill_row active source reason digest now d) d = Inr (d', k, replayed)"
  shows "kill_switch_active d' = active"
proof -
  let ?r = "new_kill_row active source reason digest now d"
  have d': "am_kills (db_automation d') = am_kills (db_automation d) @ [(k, ?r)]"
    using append_killD[OF assms] by (simp add: put_next)
  have "kl_revision x < kl_revision ?r" if "(j, x) \<in> set (am_kills (db_automation d))" for j x
  proof (cases "latest_kill_switch_event d")
    case None
    then have "am_kills (db_automation d) = []"
      by (auto simp: latest_kill_switch_event_def split: list.splits)
         (metis set_sort list.set(1) set_empty)
    with that show ?thesis by simp
  next
    case (Some y)
    with latest_kill_greatest[of d "fst y" "snd y" j x] that show ?thesis
      by (auto simp: new_kill_row_def split: prod.splits)
  qed
  then have "latest_kill_switch_event d' = Some (k, ?r)"
    unfolding latest_kill_switch_event_def d' by (subst sort_key_new_least) auto
  then show ?thesis by (simp add: kill_switch_active_def new_kill_row_def)
qed

lemma kill_switch_cong:
  assumes "am_kills (db_automation d') = am_kills (db_automation d)"
  shows "kill_switch_active d' = kill_switch_active d"
  using assms by (simp add: kill_switch_active_def latest_kill_switch_event_def)

lemma clearing_step:
  assumes "policy_step z (t, d) s" and "automation_valid (db_automation d)"
    and "kill_switch_active d" and "\<not> kill_switch_active (snd s)"
  shows "\<exists>reason digest k. set_automation_kill_switch False LOCAL_OPERATOR reason digest t d = Inr (snd s, k, False)"
proof -
  have kills: False if "am_kills (db_automation (snd s)) = am_kills (db_automation d)"
    using kill_switch_cong[OF that] assms(3,4) by simp
  from assms(1) show ?thesis
  proof (cases rule: policy_step.cases)
    case (evaluate env app pid d' k)
    with kills evaluate_automation(3)[OF evaluate(3) assms(2)] show ?thesis by simp
  next
    case (activate env av policy_id d' k)
    with kills activate_keeps(3)[OF activate(2)] show ?thesis by simp
  next
    case (revoke reason d' k)
    with kills revoke_keeps(3)[OF revoke(2)] show ?thesis by simp
  next
    case (kill active source reason digest d' k replayed)
    from kill(2) show ?thesis
    proof (cases rule: killD)
      case added
      with append_kill_decides[OF added(1)] append_killD(1)[OF added(1)] kill assms(4) show ?thesis
        by (cases source) auto
    qed (use kill assms in simp)
  qed (use kills in simp_all)
qed

section \<open>Ended policies\<close>

text \<open>The active policy is another row than one that has ended, and rewriting it leaves that one alone.\<close>

lemma active_is_other:
  assumes "active_policy_record d = Inr (Some (k, r))" and "automation_valid (db_automation d)"
    and "row (am_policies (db_automation d)) j = Some pr" and "\<not> pr_active pr"
  shows "j \<noteq> k"
proof
  assume "j = k"
  have f: "filter (pr_active \<circ> snd) (am_policies (db_automation d)) = [(k, r)]"
    using assms(1) by (simp add: active_policy_record_def one_or_none_ok)
  then have "(k, r) \<in> set (am_policies (db_automation d))" "pr_active r"
    using filter_single[OF f] by simp_all
  then have "row (am_policies (db_automation d)) k = Some r"
    using assms(2) by (intro unique_row) (simp_all add: automation_valid_def)
  with assms(3,4) \<open>j = k\<close> \<open>pr_active r\<close> show False by simp
qed

lemma step_keeps_ended:
  assumes "policy_step z (t, d) s" and "automation_valid (db_automation d)"
    and "row (am_policies (db_automation d)) j = Some pr" and "\<not> pr_active pr"
  shows "automation_valid (db_automation (snd s))" "row (am_policies (db_automation (snd s))) j = Some pr"
    "row (am_decisions (db_automation d)) m = Some r \<Longrightarrow> row (am_decisions (db_automation (snd s))) m = Some r"
proof -
  from assms(1) have "automation_valid (db_automation (snd s)) \<and> row (am_policies (db_automation (snd s))) j = Some pr
    \<and> (row (am_decisions (db_automation d)) m = Some r \<longrightarrow> row (am_decisions (db_automation (snd s))) m = Some r)"
  proof (cases rule: policy_step.cases)
    case (tick t')
    with assms show ?thesis by simp
  next
    case (evaluate env app pid d' k)
    with assms evaluate_automation[OF evaluate(3) assms(2)] show ?thesis by simp
  next
    case (activate env av policy_id d' k)
    from activate(2) obtain current p key where c: "active_policy_record d = Inr current"
      "k = next_id (am_policies (db_automation d))"
      "d' = set_automation (\<lambda>m. m\<lparr>am_policies :=
         put_row k (new_policy_row env key p) (supersede current t (am_policies m))\<rparr>) d" by (rule activateD)
    have "j \<noteq> k" using assms(3) c(2) next_id_fresh[of "am_policies (db_automation d)"] by auto
    moreover have "row (supersede current t (am_policies (db_automation d))) j = Some pr"
      using active_is_other[OF _ assms(2-4)] c(1) assms(3)
      by (auto simp: supersede_def row_put split: option.splits)
    ultimately show ?thesis using activate activate_keeps[OF activate(2)] c(3) by (simp add: row_put)
  next
    case (revoke reason d' k)
    from revoke(2) obtain x where c: "active_policy_record d = Inr (Some (k, x))"
      "d' = set_automation (\<lambda>m. m\<lparr>am_policies := put_row k
          (x\<lparr>pr_active := False, pr_revoked_at := Some t, pr_revoked_by := Some ''local_operator'',
             pr_revocation_reason := Some reason\<rparr>) (am_policies m)\<rparr>) d" by (rule revokeD)
    with active_is_other[OF c(1) assms(2-4)] assms(3) revoke revoke_keeps[OF revoke(2)] show ?thesis
      by (simp add: row_put)
  next
    case (kill active source reason digest d' k replayed)
    with kill_keeps[OF kill(2) assms(2)] assms show ?thesis by simp
  next
    case (other d')
    with assms show ?thesis by (simp add: automation_valid_cong[OF other(2-4)])
  qed
  then show "automation_valid (db_automation (snd s))" "row (am_policies (db_automation (snd s))) j = Some pr"
    "row (am_decisions (db_automation d)) m = Some r \<Longrightarrow> row (am_decisions (db_automation (snd s))) m = Some r"
    by auto
qed

lemma run_keeps_ended:
  assumes "(policy_step z)\<^sup>*\<^sup>* (t, d) s" and "automation_valid (db_automation d)"
    and "row (am_policies (db_automation d)) j = Some pr" and "\<not> pr_active pr"
    and "row (am_decisions (db_automation d)) m = Some r"
  shows "automation_valid (db_automation (snd s)) \<and> row (am_policies (db_automation (snd s))) j = Some pr
    \<and> row (am_decisions (db_automation (snd s))) m = Some r"
  using assms(1)
proof (induction rule: rtranclp_induct)
  case base
  with assms show ?case by simp
next
  case (step y x)
  then show ?case
    using step_keeps_ended[of z "fst y" "snd y" x j pr, OF _ _ _ assms(4)] by simp
qed

lemma validatedE:
  assumes "validate_current_automation_decision env k now d = Inr e"
  obtains r m p plan fr f ap contract where "k = Some m" "row (am_decisions (db_automation d)) m = Some r" "decision_from_record r d = Inr e"
    "decision_live e now = Inr ()" "current_signed_policy env now d = Inr (Some (dr_policy_revision_id r, p))"
    "\<not> kill_switch_active d" "fst (active_hours_deadline (pe_zone env) now)"
    "require_current_artifact_bindings env p = Inr ()" "row (db_plans d) (dr_form_plan_id r) = Some plan"
    "row (db_applications d) (dr_application_id r) = Some ap" "pl_invalidated_at plan = None" "now < pl_expires_at plan"
    "qe_contract_digest (pe_adapter env) plan = Some contract"
    "first_broken (decision_bindings env e ap plan f contract (confirmed_answer_revision env (po_profile_version p) d)) = Inr ()"
    "\<not> scope_unqualified env p plan (de_form_contract_digest e) d"
    "row (am_fits (db_automation d)) (dr_fit_decision_id r) = Some fr" "fit_from_record fr = Inr f"
  using assms unfolding validate_current_automation_decision_def
  by (elim and_then_okE, simp split: prod.splits bind_splits, elim and_then_okE, simp)

section \<open>Using a decision\<close>

text \<open>What the service reads besides the decisions is the same after a decision is stored.\<close>

lemma stored_decision_reads:
  assumes "d' = set_application app ap' (set_automation (\<lambda>m. m\<lparr>am_decisions := rs\<rparr>) d)"
  shows "active_policy_record d' = active_policy_record d" "latest_profile_version d' = latest_profile_version d"
    "kill_switch_active d' = kill_switch_active d"
    "confirmed_answer_revision env v d' = confirmed_answer_revision env v d"
    "scope_unqualified env p plan contract d' = scope_unqualified env p plan contract d"
  by (simp_all add: assms active_policy_record_def latest_profile_version_def kill_switch_active_def
      latest_kill_switch_event_def confirmed_answer_revision_def answer_manifest_def scope_unqualified_def
      scope_has_live_canary_def scope_has_live_qualification_def live_records_def qualification_records_def
      cong: option.case_cong)

lemma policy_still_current:
  assumes "current_signed_policy env now d = Inr (Some (prid, p))" and "active_policy_record d' = active_policy_record d"
    and "now' < po_expires_at p"
  shows "current_signed_policy env now' d' = Inr (Some (prid, p))"
  using assms(1,3) unfolding current_signed_policy_def assms(2)
  by (auto elim!: and_then_okE split: option.splits prod.splits if_splits simp: not_le)

lemma granted_reads_back:
  assumes e: "decided env app pid now d ap plan prid p f j contract fid (pl_plan_id plan) [] d' k"
    and "uuid_text (pl_plan_id plan) = Some (pl_plan_id plan)" "uuid_text (po_policy_id p) = Some (po_policy_id p)"
  shows "decision_from_record (new_decision_row env prid fid pid
      (new_decision env p app ap plan f j contract (pl_plan_id plan) [] now d)) d'
    = Inr (new_decision env p app ap plan f j contract (pl_plan_id plan) [] now d)"
proof -
  from e have g: "granting env app pid now d ap plan prid p f j contract fid"
    and v: "decision_valid (new_decision env p app ap plan f j contract (pl_plan_id plan) [] now d)"
    by (auto simp: decided_def Let_def)
  from g have cur: "current_signed_policy env now d = Inr (Some (prid, p))" by (simp add: granting_def)
  then obtain x where x: "filter (pr_active \<circ> snd) (am_policies (db_automation d)) = [(prid, x)]"
    "pr_policy_id x = po_policy_id p" "pr_revision x = po_revision p" by (rule current_signed_policyD)
  from filter_single[OF x(1)] have "(prid, x) \<in> set (am_policies (db_automation d))" ..
  then have "row (am_policies (db_automation d')) prid = Some x"
    using decided_reads(2,3)[OF e] by (intro unique_row) (simp_all add: automation_valid_def)
  then show ?thesis
    using v assms(2,3) x(2,3)
    by (simp add: decision_from_record_def new_decision_row_def new_decision_def lift_opt_def Let_def)
qed

lemma granted_bindings:
  assumes e: "decided env app pid now d ap plan prid p f j contract fid (pl_plan_id plan) [] d' k"
    and ascii: "list_all is_ascii [pl_plan_id plan, pl_adapter_name plan, pl_adapter_version plan, pl_selector_version plan]"
  shows "first_broken (decision_bindings env (new_decision env p app ap plan f j contract (pl_plan_id plan) [] now d)
      (decided_application [] now ap) plan f contract (confirmed_answer_revision env (po_profile_version p) d)) = Inr ()"
proof -
  from e have g: "granting env app pid now d ap plan prid p f j contract fid"
    and v: "decision_valid (new_decision env p app ap plan f j contract (pl_plan_id plan) [] now d)"
    by (auto simp: decided_def Let_def)
  from g have n: "list_all (\<lambda>c. \<not> snd c) (denial_checks env p ap plan f j contract False False now d)"
    and a: "attachment_unverified ap plan f = Inr False" by (auto simp: granting_def)
  from n have pv: "ap_profile_version ap = Some (po_profile_version p)"
    by (simp add: denial_checks_def usage_counts_def Let_def)
  from v have s: "is_ascii (pl_fingerprint plan)" "is_ascii contract" "is_ascii (pe_fit_digest env f)"
    "is_ascii (confirmed_answer_revision env (po_profile_version p) d)" "is_sha256 (or_text (ap_selected_cv_hash ap) zero_digest)"
    "1 \<le> ap_revision ap"
    by (auto simp: decision_valid_def new_decision_def intro: sha256_ascii)
  obtain h where h: "ap_selected_cv_hash ap = Some h" "h \<noteq> []"
    using a by (cases "ap_selected_cv_hash ap") (auto simp: attachment_unverified_def or_empty_def Let_def split: if_splits)
  with s(5) have "is_ascii h" by (simp add: or_text_def truthy_def or_empty_def sha256_ascii)
  with h pv s ascii show ?thesis
    by (simp add: decision_bindings_def new_decision_def decided_application_def mark_application_prepared_def
        application_revision_def compare_digest_def or_empty_def or_text_def truthy_def)
qed

section \<open>A concrete policy\<close>

definition sample_factor :: "fit_factor \<Rightarrow> fit_evidence" where
  "sample_factor x = \<lparr>fe_factor = x, fe_result = FR_MATCHED, fe_points = 10, fe_maximum_points = 10, fe_reason_codes = []\<rparr>"

definition sample_fit :: fit_decision where
  "sample_fit =
     \<lparr>fd_job_digest = sample_hash, fd_profile_version = Some 1, fd_routing_config_digest = sample_hash,
      fd_cv_manifest_digest = sample_hash, fd_selected_cv_id = Some ''cv1'', fd_selected_cv_hash = Some sample_hash,
      fd_routing_confidence = 1, fd_routing_margin = 1, fd_routing_fallback_reason = None, fd_fit_score = 90,
      fd_disposition = FIT_ELIGIBLE, fd_quality_eligible = True, fd_hard_exclusions = [], fd_uncertainty = [],
      fd_unsupported_required_skills = [],
      fd_evidence = map sample_factor [FF_ROLE, FF_SKILLS, FF_LOCATION, FF_SENIORITY, FF_EMPLOYMENT, FF_EXPERIENCE,
        FF_LANGUAGE_AUTHORIZATION],
      fd_thresholds = fq_thresholds sample_fit_qualification, fd_qualification_digest = Some sample_hash\<rparr>"

definition fit_application :: application where
  "fit_application = sample_application\<lparr>ap_job_fit_decision_id := Some 1, ap_approved_at := None,
     ap_approval_source := None, ap_prepared_revision := None\<rparr>"

definition fit_plan :: plan_row where
  "fit_plan = canary_plan\<lparr>pl_expires_at := hours 10\<rparr>"

definition unlicensed_db :: database where
  "unlicensed_db = empty_db\<lparr>db_jobs := [(1, sample_job)], db_applications := [(7, fit_application)],
     db_plans := [(3, fit_plan)],
     db_qualifications := [(1, sample_dry_run\<lparr>qr_tier := QT_LIVE_CANARY_QUALIFIED, qr_attempt_id := Some 2\<rparr>)],
     db_automation := no_automation\<lparr>am_profiles := [1], am_fits := [(1, new_fit_row 1 sample_hash sample_fit 0)]\<rparr>\<rparr>"

definition sample_activation :: activation where
  "sample_activation =
     \<lparr>av_role_families = [''cv1''], av_geographies = [GEO_ISRAEL], av_permitted_adapters = [''greenhouse''],
      av_qualified_form_contracts = [\<lparr>sc_adapter_name = ''greenhouse'', sc_adapter_version = ''1.0.0'',
        sc_selector_version = ''greenhouse-candidate-v9'', sc_form_contract_digest = sample_hash\<rparr>],
      av_minimum_fit_score = 85, av_daily_limit = 10, av_hourly_limit = 3, av_company_limit = 1,
      av_expires_in_days = 1\<rparr>"

definition sample_auto_policy :: auto_policy where
  "sample_auto_policy =
     new_policy sample_policy_env sample_activation sample_key 1
       \<lparr>ab_role_families = [''cv1''], ab_routing_config_digest = sample_hash, ab_cv_manifest_digest = sample_hash,
        ab_fit_qualification_digest = sample_hash\<rparr> (hours 8) unlicensed_db"

definition sample_job_data :: job_data where
  "sample_job_data =
     \<lparr>jd_title = ''Engineer'', jd_company = ''Acme'', jd_location = ''Tel Aviv, Israel'', jd_employment_type = [],
      jd_seniority = [], jd_description = [], jd_requirements = [], jd_apply_url = ''https://boards.example/1'',
      jd_source_url = [], jd_keywords = []\<rparr>"

definition licensed_db :: database where
  "licensed_db = set_automation (\<lambda>m. m\<lparr>am_policies :=
     [(1, new_policy_row sample_policy_env sample_key sample_auto_policy)]\<rparr>) unlicensed_db"

definition sample_auto_decision :: auto_decision where
  "sample_auto_decision = new_decision sample_policy_env sample_auto_policy 7 fit_application fit_plan sample_fit
     sample_job_data sample_hash (pl_plan_id fit_plan) [] (hours 9) licensed_db"

definition authorised_db :: database where
  "authorised_db = set_application 7 (decided_application [] (hours 9) fit_application) (set_automation (\<lambda>m. m\<lparr>am_decisions :=
     [(1, new_decision_row sample_policy_env 1 1 3 sample_auto_decision)]\<rparr>) licensed_db)"

lemma sample_activates:
  "activate_auto_submit_policy sample_policy_env sample_activation sample_key (hours 8) unlicensed_db = Inr (licensed_db, 1)"
  by code_simp

lemma sample_reads:
  "current_signed_policy sample_policy_env (hours 9) licensed_db = Inr (Some (1, sample_auto_policy))"
  "require_current_artifact_bindings sample_policy_env sample_auto_policy = Inr ()"
  "fit_record_of fit_application licensed_db = Inr (1, new_fit_row 1 sample_hash sample_fit 0)"
  "existing_allowed 7 licensed_db = Inr None"
  "fit_from_record (new_fit_row 1 sample_hash sample_fit 0) = Inr sample_fit"
  "application_job_data fit_application licensed_db = Inr sample_job_data"
  "attachment_unverified fit_application fit_plan sample_fit = Inr False"
  "uuid_text (pl_plan_id fit_plan) = Some (pl_plan_id fit_plan)"
  by code_simp+

lemma sample_reasons:
  "denial_reasons (denial_checks sample_policy_env sample_auto_policy fit_application fit_plan sample_fit
     sample_job_data sample_hash False False (hours 9) licensed_db) = []"
  by code_simp

lemma sample_decides:
  "decision_valid sample_auto_decision"
  "persist_decision sample_policy_env 1 1 3 sample_auto_decision licensed_db =
     Inr (set_automation (\<lambda>m. m\<lparr>am_decisions :=
       [(1, new_decision_row sample_policy_env 1 1 3 sample_auto_decision)]\<rparr>) licensed_db, 1)"
  by code_simp+

lemma sample_evaluates:
  "evaluate_auto_submit_policy sample_policy_env 7 3 (hours 9) licensed_db = Inr (authorised_db, 1)"
proof -
  have "row (db_applications licensed_db) 7 = Some fit_application" "row (db_plans licensed_db) 3 = Some fit_plan"
    "pl_application_id fit_plan = 7" "qe_contract_digest (pe_adapter sample_policy_env) fit_plan = Some sample_hash"
    by (simp_all add: licensed_db_def unlicensed_db_def row_def fit_plan_def canary_plan_def sample_plan_row_def
        sample_policy_env_def sample_adapter_env_def)
  then show ?thesis
    by (simp add: evaluate_auto_submit_policy_def decide_def sample_reads sample_reasons lift_opt_def ensure_def
        sample_decides[unfolded sample_auto_decision_def] authorised_db_def sample_auto_decision_def Let_def)
qed

lemma sample_zone_midnights: "mono (midnight (pe_zone sample_policy_env))"
proof
  fix a b :: instant
  assume "a \<le> b"
  have "0 < day_length" by code_simp
  then have "a div day_length \<le> b div day_length" using \<open>a \<le> b\<close> by (rule zdiv_mono1[rotated])
  then have "a div day_length * day_length \<le> b div day_length * day_length"
    using \<open>0 < day_length\<close> by (simp add: mult_right_mono)
  then show "midnight (pe_zone sample_policy_env) a \<le> midnight (pe_zone sample_policy_env) b"
    by (simp add: midnight_def local_midnight_def sample_policy_env_def minus_mod_eq_div_mult)
qed

lemma sample_run:
  "reachable_by policy_init (policy_step (pe_zone sample_policy_env)) (hours 9, licensed_db)"
  "policy_step (pe_zone sample_policy_env) (hours 9, licensed_db) (hours 9, authorised_db)"
proof -
  have "policy_init (hours 8, unlicensed_db)"
    by (simp add: policy_init_def unlicensed_db_def no_automation_def)
  then have "reachable_by policy_init (policy_step (pe_zone sample_policy_env)) (hours 8, licensed_db)"
    by (rule reach_step[OF reach_start]) (rule policy_step.activate[OF sample_activates])
  then show "reachable_by policy_init (policy_step (pe_zone sample_policy_env)) (hours 9, licensed_db)"
    by (rule reach_step) (rule policy_step.tick, code_simp)
  show "policy_step (pe_zone sample_policy_env) (hours 9, licensed_db) (hours 9, authorised_db)"
    by (rule policy_step.evaluate[OF refl sample_evaluates])
qed

lemma licensed_valid: "automation_valid (db_automation licensed_db)"
  by code_simp

section \<open>Properties\<close>





text \<open>
  C16: a policy that has ended never authorises again. Once a policy has been revoked or superseded, no
  decision made under it validates at any later time, after any run of the system, under any key, files or
  digests.
\<close>

theorem ended_policy_never_authorises:
  assumes "(policy_step z)\<^sup>*\<^sup>* (t, d) (t', d')" and "automation_valid (db_automation d)"
    and "row (am_decisions (db_automation d)) k = Some r"
    and "row (am_policies (db_automation d)) (dr_policy_revision_id r) = Some pr" and "\<not> pr_active pr"
  shows "validate_current_automation_decision env (Some k) now d' \<noteq> Inr e"
proof
  assume "validate_current_automation_decision env (Some k) now d' = Inr e"
  then obtain r' p where v: "row (am_decisions (db_automation d')) k = Some r'"
      "current_signed_policy env now d' = Inr (Some (dr_policy_revision_id r', p))"
    by (rule validatedE) auto
  from run_keeps_ended[OF assms(1,2,4,5,3)] have kept: "automation_valid (db_automation d')"
    "row (am_policies (db_automation d')) (dr_policy_revision_id r) = Some pr"
    "row (am_decisions (db_automation d')) k = Some r" by auto
  from v(2) obtain x where "filter (pr_active \<circ> snd) (am_policies (db_automation d')) = [(dr_policy_revision_id r', x)]"
    by (rule current_signed_policyD)
  then have "active_policy_record d' = Inr (Some (dr_policy_revision_id r', x))"
    by (simp add: active_policy_record_def one_or_none_ok)
  from active_is_other[OF this kept(1,2) assms(5)] v(1) kept(3) show False by simp
qed

definition revoked_db :: database where
  "revoked_db = set_automation (\<lambda>m. m\<lparr>am_policies := [(1, (snd (hd (am_policies m)))\<lparr>pr_active := False,
     pr_revoked_at := Some (hours 9), pr_revoked_by := Some ''local_operator'',
     pr_revocation_reason := Some ''OPERATOR_REVOKED''\<rparr>)]\<rparr>) authorised_db"

lemma sample_revokes: "revoke_auto_submit_policy ''OPERATOR_REVOKED'' (hours 9) authorised_db = Inr (revoked_db, 1)"
  by code_simp

theorem ended_policy_never_authorises_witness:
  "(\<exists>e. validate_current_automation_decision sample_policy_env (Some 1) (hours 9) authorised_db = Inr e)
    \<and> validate_current_automation_decision sample_policy_env (Some 1) (hours 9) revoked_db \<noteq> Inr sample_auto_decision"
proof
  show "\<exists>e. validate_current_automation_decision sample_policy_env (Some 1) (hours 9) authorised_db = Inr e"
    by (intro exI[of _ sample_auto_decision]) code_simp
  let ?r = "new_decision_row sample_policy_env 1 1 3 sample_auto_decision"
  obtain x where "row (am_policies (db_automation revoked_db)) (dr_policy_revision_id ?r) = Some x" "\<not> pr_active x"
    by (simp add: revoked_db_def row_def)
  moreover have "row (am_decisions (db_automation revoked_db)) 1 = Some ?r"
    by (simp add: revoked_db_def authorised_db_def row_def)
  moreover have "automation_valid (db_automation revoked_db)"
    using revoke_keeps(1)[OF sample_revokes] .
  ultimately show "validate_current_automation_decision sample_policy_env (Some 1) (hours 9) revoked_db \<noteq> Inr sample_auto_decision"
    by (intro ended_policy_never_authorises[OF rtranclp.rtrancl_refl])
qed

text \<open>
  C17: while the kill switch is on, nothing is authorised and only the local operator can turn it off. No
  decision validates, no evaluation allows anything new, and whatever step of the system turns the switch
  off is the local operator's command to do so; a remote command never does.
\<close>

theorem kill_switch_holds:
  assumes "kill_switch_active d" and "automation_valid (db_automation d)"
  shows "validate_current_automation_decision env k now d \<noteq> Inr e
    \<and> (evaluate_auto_submit_policy env' app pid now d = Inr (d', j)
        \<longrightarrow> filter (dr_allowed \<circ> snd) (am_decisions (db_automation d')) = filter (dr_allowed \<circ> snd) (am_decisions (db_automation d)))
    \<and> (policy_step z (t, d) s \<and> \<not> kill_switch_active (snd s)
        \<longrightarrow> (\<exists>reason digest n. set_automation_kill_switch False LOCAL_OPERATOR reason digest t d = Inr (snd s, n, False)))"
proof (intro conjI impI)
  show "validate_current_automation_decision env k now d \<noteq> Inr e"
    using assms(1) by (auto elim: validatedE)
  assume ev: "evaluate_auto_submit_policy env' app pid now d = Inr (d', j)"
  consider "db_automation d' = db_automation d" | (decided) ap plan prid p f jd contract fid plan_id reasons where
      "decided env' app pid now d ap plan prid p f jd contract fid plan_id reasons d' j"
    using evaluateD[OF ev assms(2)] by (elim disjE conjE exE) iprover+
  then show "filter (dr_allowed \<circ> snd) (am_decisions (db_automation d')) = filter (dr_allowed \<circ> snd) (am_decisions (db_automation d))"
  proof cases
    case decided
    have "\<not> granting env' app pid now d ap plan prid p f jd contract fid"
      using assms(1) by (auto simp: granting_def denial_checks_def Let_def split: prod.splits)
    with decided have "reasons \<noteq> []" by (auto simp: decided_def Let_def)
    with decided_reads(1)[OF decided] show ?thesis by simp
  qed simp
next
  assume "policy_step z (t, d) s \<and> \<not> kill_switch_active (snd s)"
  with assms show "\<exists>reason digest n. set_automation_kill_switch False LOCAL_OPERATOR reason digest t d = Inr (snd s, n, False)"
    by (intro clearing_step) auto
qed

definition killed_db :: database where
  "killed_db = set_automation (\<lambda>m. m\<lparr>am_kills := [(1, \<lparr>kl_revision = 1, kl_active = True, kl_source = VERCEL_SIGNED_KILL,
     kl_reason_code = ''REMOTE_KILL'', kl_command_digest = Some sample_hash, kl_created_at = hours 9\<rparr>)]\<rparr>) authorised_db"

theorem kill_switch_holds_witness:
  "set_automation_kill_switch True VERCEL_SIGNED_KILL ''REMOTE_KILL'' (Some sample_hash) (hours 9) authorised_db
     = Inr (killed_db, 1, False)
   \<and> validate_current_automation_decision sample_policy_env (Some 1) (hours 9) killed_db \<noteq> Inr sample_auto_decision"
proof
  show "set_automation_kill_switch True VERCEL_SIGNED_KILL ''REMOTE_KILL'' (Some sample_hash) (hours 9) authorised_db
     = Inr (killed_db, 1, False)" by code_simp
  have "kill_switch_active killed_db" "automation_valid (db_automation killed_db)" by code_simp+
  then show "validate_current_automation_decision sample_policy_env (Some 1) (hours 9) killed_db \<noteq> Inr sample_auto_decision"
    by (rule kill_switch_holds[THEN conjunct1])
qed



end
