(* ===== verification/Autopilot_Authority.thy ===== *)
theory Autopilot_Authority
  imports Execution_Results Policy_System
begin

text \<open>
  The automation policy at the commit boundary: what the worker requires, at the moment at which it
  crosses, of an attempt that the autopilot or a qualification canary authorised.
\<close>

lemma boundary_authority:
  assumes "boundary_checks env i a ap p m dp dm url_hash act snapshot t d = Inr ()"
  shows "validate_attempt_automation_authority env a ap t d = Inr None"
    "require_attempt_artifact_snapshot env a snapshot d = Inr ()"
    "validate_final_submit_permit (Some (i, m)) i a p url_hash t = Inr ()"
    "action_binds act dp dm (Aware t) = Some True"
  using assms by (auto simp: boundary_checks_def elim!: and_then_okE split: option.splits)

lemma decision_denial_none [simp]: "decision_denial x = Inr None \<longleftrightarrow> (\<exists>e. x = Inr e)"
  by (auto simp: decision_denial_def split: sum.splits fault.splits)

lemma canary_denial_none [simp]: "canary_denial x = Inr None \<longleftrightarrow> (\<exists>c. x = Inr c)"
  by (auto simp: canary_denial_def split: sum.splits fault.splits)

section \<open>A concrete crossing\<close>

definition autopilot_db :: database where
  "autopilot_db = authorised_db\<lparr>
     db_plans := [(3, fit_plan\<lparr>pl_answer_policy_version := ''answer-policy-v1'', pl_created_at := hours 9,
       pl_session_verified_at := Some (hours 9), pl_expires_at := hours 9 + minutes 10\<rparr>)],
     db_attempts := [(1, admitted_attempt\<lparr>at_stage := READY, at_started_at := Some (hours 9),
       at_authority_kind := AK_QUALIFIED_AUTOPILOT, at_policy_decision_id := Some 1,
       at_policy_decision_digest := Some sample_hash\<rparr>)],
     db_permits := [(1, admitted_permit\<lparr>pm_issued_at := hours 9, pm_expires_at := hours 9 + seconds 60,
       pm_authority_kind := AK_QUALIFIED_AUTOPILOT, pm_policy_decision_digest := Some sample_hash\<rparr>)],
     db_commands := [(1, claimed_command (hours 9) ''runner'' ''tok'' (new_command sample_request 1 20))]\<rparr>"

definition autopilot_readings :: boundary_readings where
  "autopilot_readings = \<lparr>br_validation_at = hours 9 + 1, br_commit_at = hours 9 + 1, br_source_before = True,
     br_source_after = True, br_gate = True\<rparr>"

definition autopilot_action :: prepared_action where
  "autopilot_action = run_action\<lparr>pa_prepared_at := hours 9, pa_expires_at := hours 9 + seconds 50\<rparr>"

definition autopilot_attempt :: attempt where
  "autopilot_attempt = snd (hd (db_attempts autopilot_db))"

definition autopilot_application :: application where
  "autopilot_application = snd (hd (db_applications autopilot_db))"

definition autopilot_plan :: plan_row where
  "autopilot_plan = snd (hd (db_plans autopilot_db))"

definition autopilot_permit :: permit_row where
  "autopilot_permit = snd (hd (db_permits autopilot_db))"

definition autopilot_form :: form_plan where
  "autopilot_form = (ec_plan run_context)\<lparr>fp_created_at := hours 9, fp_session_verified_at := hours 9,
     fp_expires_at := hours 9 + minutes 10\<rparr>"

definition autopilot_domain_permit :: domain_permit where
  "autopilot_domain_permit = (ec_permit run_context)\<lparr>dp_expires_at := hours 9 + seconds 60\<rparr>"

lemma autopilot_rows:
  "lock_claimed_context 1 ''tok'' autopilot_db = Some (1, autopilot_attempt, autopilot_application)"
  "plan_of_attempt autopilot_db autopilot_attempt = Some autopilot_plan"
  "row (db_permits autopilot_db) 1 = Some autopilot_permit"
  "boundary_open autopilot_db autopilot_application autopilot_attempt"
  by code_simp+

lemma autopilot_loads:
  "load_domain_plan (we_policy run_env) autopilot_plan = Inr autopilot_form"
  "load_domain_permit 1 autopilot_permit = Inr autopilot_domain_permit"
  by code_simp+

lemma autopilot_validates:
  "validate_attempt_automation_authority run_env autopilot_attempt autopilot_application (hours 9 + 1) autopilot_db = Inr None"
  by code_simp

lemma autopilot_binds:
  "require_attempt_artifact_snapshot run_env autopilot_attempt (Some sample_hash) autopilot_db = Inr ()"
  "validate_final_submit_permit (Some (1, autopilot_permit)) 1 autopilot_attempt autopilot_plan sample_hash (hours 9 + 1) = Inr ()"
  "action_binds autopilot_action autopilot_form autopilot_domain_permit (Aware (hours 9 + 1)) = Some True"
  by code_simp+

lemma autopilot_advances:
  "map_sum id (\<lambda>d. ()) (cross_boundary run_env 1 1 autopilot_permit (hours 9 + 1) autopilot_db) = Inr ()"
  by code_simp

lemma autopilot_crosses:
  obtains d' where "enter_commit_boundary run_env 1 ''tok'' sample_hash autopilot_action (Some sample_hash)
     autopilot_readings autopilot_db = Inr (d', BR_ENTERED)"
proof -
  obtain d' where "cross_boundary run_env 1 1 autopilot_permit (hours 9 + 1) autopilot_db = Inr d'"
    using autopilot_advances by (auto simp: map_sum_def split: sum.splits)
  then show thesis
    using that[of d']
    by (simp add: enter_commit_boundary_def autopilot_rows autopilot_loads boundary_checks_def autopilot_validates
        autopilot_binds autopilot_readings_def after_governor_def Let_def ensure_def)
qed

section \<open>Properties\<close>

text \<open>
  C13: no automated attempt crosses the commit boundary without living authority. If an attempt of the
  autopilot crosses, then at the second reading of the clock its own decision was allowed, not expired and
  valid under the signed policy that is active, with the kill switch off; if an attempt of a qualification
  canary crosses, its single-use authorisation was valid for exactly this application, form and release.
\<close>

theorem automated_crossing_is_licensed:
  assumes "enter_commit_boundary env cid token url_hash act snapshot br d = Inr (d', BR_ENTERED)"
    and "lock_claimed_context cid token d = Some (i, a, ap)"
  shows "(at_authority_kind a = AK_QUALIFIED_AUTOPILOT \<longrightarrow>
      (\<exists>k r e p t. at_policy_decision_id a = Some k \<and> row (am_decisions (db_automation d)) k = Some r
         \<and> at_policy_decision_digest a = Some (dr_decision_digest r)
         \<and> validate_current_automation_decision (we_automation env) (Some k) (br_commit_at br) d = Inr e
         \<and> dr_allowed r \<and> dr_authority_expires_at r = Some t \<and> br_commit_at br < t
         \<and> current_signed_policy (we_automation env) (br_commit_at br) d = Inr (Some (dr_policy_revision_id r, p))
         \<and> \<not> kill_switch_active d))
    \<and> (at_authority_kind a = AK_QUALIFICATION_CANARY \<longrightarrow>
      (\<exists>pid p k g c. at_form_plan_id a = Some pid \<and> plan_of_attempt d a = Some p
         \<and> at_canary_authorization_id a = Some k \<and> at_canary_authorization_digest a = Some g
         \<and> validate_qualification_canary_authorization (pe_adapter (we_automation env)) k g (at_application_id a) ap
             pid p (job_url_of d ap) (or_empty (at_runner_release a)) True (br_commit_at br) d = Inr c))"
proof -
  from assms(1) obtain p m dp dm where
      "boundary_checks env i a ap p m dp dm url_hash act snapshot (br_commit_at br) d = Inr ()"
    by (rule boundary_enteredE) (use assms(2) in auto)
  then have v: "validate_attempt_automation_authority env a ap (br_commit_at br) d = Inr None"
    by (rule boundary_authority)
  show ?thesis
  proof (intro conjI impI)
    assume k: "at_authority_kind a = AK_QUALIFIED_AUTOPILOT"
    from v k obtain k r where kr: "attempt_decision a d = Some (k, r)"
      "at_policy_decision_digest a = Some (dr_decision_digest r)"
      and ok: "decision_denial (validate_current_automation_decision (we_automation env) (Some k) (br_commit_at br) d) = Inr None"
      by (auto simp: validate_attempt_automation_authority_def split: option.splits if_splits)
    from ok obtain e where e: "validate_current_automation_decision (we_automation env) (Some k) (br_commit_at br) d = Inr e"
      by auto
    from kr(1) have at_k: "at_policy_decision_id a = Some k" "row (am_decisions (db_automation d)) k = Some r"
      by (auto simp: attempt_decision_def split: bind_splits)
    from e obtain r' q where r': "row (am_decisions (db_automation d)) k = Some r'" "decision_from_record r' d = Inr e"
      "decision_live e (br_commit_at br) = Inr ()" "\<not> kill_switch_active d"
      "current_signed_policy (we_automation env) (br_commit_at br) d = Inr (Some (dr_policy_revision_id r', q))"
      by (rule validatedE) auto
    with at_k(2) have [simp]: "r' = r" by simp
    from r'(3) decision_from_recordD[OF r'(2)] obtain t where
        "dr_allowed r" "dr_authority_expires_at r = Some t" "br_commit_at br < t"
      by (auto simp: decision_live_def elim!: and_then_okE split: option.splits)
    with at_k kr(2) e r'(4,5) show "\<exists>k r e p t. at_policy_decision_id a = Some k \<and> row (am_decisions (db_automation d)) k = Some r
         \<and> at_policy_decision_digest a = Some (dr_decision_digest r)
         \<and> validate_current_automation_decision (we_automation env) (Some k) (br_commit_at br) d = Inr e
         \<and> dr_allowed r \<and> dr_authority_expires_at r = Some t \<and> br_commit_at br < t
         \<and> current_signed_policy (we_automation env) (br_commit_at br) d = Inr (Some (dr_policy_revision_id r, p))
         \<and> \<not> kill_switch_active d" by auto
  next
    assume "at_authority_kind a = AK_QUALIFICATION_CANARY"
    with v show "\<exists>pid p k g c. at_form_plan_id a = Some pid \<and> plan_of_attempt d a = Some p
         \<and> at_canary_authorization_id a = Some k \<and> at_canary_authorization_digest a = Some g
         \<and> validate_qualification_canary_authorization (pe_adapter (we_automation env)) k g (at_application_id a) ap
             pid p (job_url_of d ap) (or_empty (at_runner_release a)) True (br_commit_at br) d = Inr c"
      by (auto simp: validate_attempt_automation_authority_def split: option.splits if_splits)
  qed
qed

theorem automated_crossing_is_licensed_witness:
  "\<exists>k e. validate_current_automation_decision (we_automation run_env) (Some k) (br_commit_at autopilot_readings) autopilot_db = Inr e
    \<and> \<not> kill_switch_active autopilot_db"
proof -
  obtain d' where e: "enter_commit_boundary run_env 1 ''tok'' sample_hash autopilot_action (Some sample_hash)
     autopilot_readings autopilot_db = Inr (d', BR_ENTERED)" by (rule autopilot_crosses)
  have "at_authority_kind autopilot_attempt = AK_QUALIFIED_AUTOPILOT"
    by (simp add: autopilot_attempt_def autopilot_db_def)
  then show ?thesis using automated_crossing_is_licensed[OF e autopilot_rows(1)] by blast
qed

end
