(* ===== verification/Submission_Truth.thy ===== *)
theory Submission_Truth
  imports Sample_Run
begin

text \<open>
  What the program presents as verified by the employer, \<^verbatim>\<open>core/submission_truth.py\<close>: the check of one
  attempt in Python, the SQL conditions that are documented as its exact equivalent, and the query of the
  latest verified attempt of each application.
\<close>

section \<open>The Python check\<close>

definition verified_reason_codes :: "string list" where
  "verified_reason_codes = [''EMPLOYER_VERIFIED'', ''ATS_CONFIRMATION_VERIFIED'', ''PROVIDER_RECEIPT_VERIFIED'']"

definition evidence_kind :: "verification_kind option \<Rightarrow> bool" where
  "evidence_kind k = (case k of Some (VK_EVIDENCE t) \<Rightarrow> True | _ \<Rightarrow> False)"

definition has_nonblank_employer_evidence :: "string option \<Rightarrow> string option \<Rightarrow> bool" where
  "has_nonblank_employer_evidence cid url \<longleftrightarrow> nonblank cid \<or> nonblank url"

definition evidence_bound :: "int \<Rightarrow> attempt \<Rightarrow> evidence_row \<Rightarrow> bool" where
  "evidence_bound i a e \<longleftrightarrow>
     er_attempt_id e = i \<and> Some (VK_EVIDENCE (er_type e)) = at_verification_kind a
     \<and> Some (er_digest e) = at_evidence_digest a \<and> Some (er_form_fingerprint e) = at_form_plan_fingerprint a
     \<and> Some (er_cv_hash e) = at_attached_cv_hash a"

definition verified_state :: "attempt \<Rightarrow> bool" where
  "verified_state a \<longleftrightarrow>
     at_stage a = FINISHED \<and> at_outcome a = Some CONFIRMED_SUBMITTED \<and> at_status a = SS_SUCCESS
     \<and> at_attachment_verified a \<and> at_form_plan_id a \<noteq> None
     \<and> (case at_profile_version a of None \<Rightarrow> False | Some v \<Rightarrow> 1 \<le> v)
     \<and> (case at_reason_code a of None \<Rightarrow> False | Some r \<Rightarrow> r \<in> set verified_reason_codes)
     \<and> evidence_kind (at_verification_kind a)
     \<and> at_requested_cv_id a = at_attached_cv_id a \<and> at_requested_cv_hash a = at_attached_cv_hash a"

definition is_employer_verified :: "int \<Rightarrow> attempt \<Rightarrow> evidence_row list \<Rightarrow> bool" where
  "is_employer_verified i a evidence =
     (case (at_submitted_at a, at_final_action_at a) of
        (Some submitted, Some final) \<Rightarrow>
          final \<le> submitted \<and> verified_state a
          \<and> nonblank (at_adapter_name a) \<and> nonblank (at_adapter_version a) \<and> nonblank (at_selector_version a)
          \<and> nonblank (at_runner_release a) \<and> length (or_empty (at_runner_release a)) \<le> 64
          \<and> opt_sha256 (at_evidence_digest a) \<and> opt_sha256 (at_form_plan_fingerprint a)
          \<and> nonblank (at_requested_cv_id a) \<and> opt_sha256 (at_requested_cv_hash a)
          \<and> list_ex (\<lambda>e. evidence_bound i a e \<and> final \<le> er_observed_at e
                       \<and> er_observed_at e \<le> submitted + seconds 5) evidence
      | _ \<Rightarrow> False)"

section \<open>The SQL conditions\<close>

text \<open>
  SQLite compares Julian days in floating point, which is a parameter of the dialect; an unknown dialect
  allows no observation after the submission.
\<close>

datatype sql_dialect = Postgresql | Sqlite "instant \<Rightarrow> instant \<Rightarrow> bool" | Other_dialect

definition evidence_not_future :: "sql_dialect \<Rightarrow> instant \<Rightarrow> instant \<Rightarrow> bool" where
  "evidence_not_future dialect observed submitted =
     (case dialect of
        Postgresql \<Rightarrow> observed \<le> submitted + seconds 5
      | Sqlite close \<Rightarrow> close observed submitted
      | Other_dialect \<Rightarrow> observed \<le> submitted)"

definition sql_length :: "string option \<Rightarrow> nat \<Rightarrow> bool" where
  "sql_length x n = (case x of None \<Rightarrow> False | Some s \<Rightarrow> length s = n)"

definition employer_verified_sql_conditions :: "sql_dialect \<Rightarrow> int \<Rightarrow> attempt \<Rightarrow> evidence_row \<Rightarrow> bool" where
  "employer_verified_sql_conditions dialect i a e =
     (case (at_submitted_at a, at_final_action_at a) of
        (Some submitted, Some final) \<Rightarrow>
          evidence_bound i a e \<and> verified_state a
          \<and> final \<le> submitted \<and> final \<le> er_observed_at e
          \<and> evidence_not_future dialect (er_observed_at e) submitted
          \<and> sql_nonblank (at_adapter_name a) \<and> sql_nonblank (at_adapter_version a)
          \<and> sql_nonblank (at_selector_version a) \<and> sql_nonblank (at_runner_release a)
          \<and> length (or_empty (at_runner_release a)) \<le> 64
          \<and> sql_length (at_evidence_digest a) 64 \<and> sql_length (at_form_plan_fingerprint a) 64
          \<and> sql_nonblank (at_requested_cv_id a)
          \<and> sql_length (at_requested_cv_hash a) 64 \<and> sql_length (at_attached_cv_hash a) 64
      | _ \<Rightarrow> False)"

text \<open>The latest attempt of each application, if an evidence row makes it verified.\<close>

definition latest_number :: "int \<Rightarrow> int \<Rightarrow> database \<Rightarrow> bool" where
  "latest_number app n d =
     list_all (\<lambda>(j, b). at_application_id b = app \<longrightarrow> at_attempt_number b \<le> n) (db_attempts d)"

definition latest_employer_verified :: "sql_dialect \<Rightarrow> database \<Rightarrow> (int \<times> attempt) list" where
  "latest_employer_verified dialect d =
     filter (\<lambda>(i, a). latest_number (at_application_id a) (at_attempt_number a) d
         \<and> list_ex (employer_verified_sql_conditions dialect i a) (db_evidence d)) (db_attempts d)"

definition latest_employer_verified_count :: "sql_dialect \<Rightarrow> database \<Rightarrow> nat" where
  "latest_employer_verified_count dialect d = length (latest_employer_verified dialect d)"

section \<open>Lemmas\<close>

text \<open>Text columns that the two notions of blank agree on: no other white space than blanks.\<close>

definition plain_text :: "string option \<Rightarrow> bool" where
  "plain_text x = (case x of None \<Rightarrow> True | Some s \<Rightarrow> list_all (\<lambda>c. is_space c \<longrightarrow> c = CHR '' '') s)"

definition plain_columns :: "attempt \<Rightarrow> bool" where
  "plain_columns a \<longleftrightarrow>
     plain_text (at_adapter_name a) \<and> plain_text (at_adapter_version a) \<and> plain_text (at_selector_version a)
     \<and> plain_text (at_runner_release a) \<and> plain_text (at_requested_cv_id a)"

lemma strip_empty_iff: "strip s = [] \<longleftrightarrow> list_all is_space s"
proof -
  have "strip s = [] \<longleftrightarrow> (\<forall>c \<in> set (dropWhile is_space s). is_space c)"
    by (simp add: strip_def rstrip_def lstrip_def dropWhile_eq_Nil_conv)
  also have "\<dots> \<longleftrightarrow> dropWhile is_space s = []"
    using hd_dropWhile[of is_space s] by (metis empty_iff hd_in_set list.set(1))
  finally show ?thesis by (simp add: dropWhile_eq_Nil_conv list_all_iff)
qed

lemma blank_is_space: "is_space (CHR '' '')"
  by code_simp

lemma nonblank_sql:
  assumes "nonblank x"
  shows "sql_nonblank x"
proof (cases x)
  case None
  with assms show ?thesis by (simp add: nonblank_def)
next
  case (Some s)
  with assms obtain c where "c \<in> set s" "\<not> is_space c"
    unfolding nonblank_def by (auto simp: strip_empty_iff list_all_iff)
  then show ?thesis using blank_is_space unfolding Some sql_nonblank_def option.case list_ex_iff by metis
qed

lemma sql_nonblank_plain: "plain_text x \<Longrightarrow> sql_nonblank x \<Longrightarrow> nonblank x"
  by (cases x) (auto simp: nonblank_def sql_nonblank_def plain_text_def strip_empty_iff list_all_iff list_ex_iff)

lemma opt_sha256_length: "opt_sha256 x \<Longrightarrow> sql_length x 64"
  by (cases x) (simp_all add: opt_sha256_def sql_length_def is_sha256_def)

text \<open>What the table constraints say of a confirmed attempt.\<close>

lemma confirmed_hashes:
  assumes "confirmed_evidence_check a" and "at_outcome a = Some CONFIRMED_SUBMITTED"
  shows "opt_sha256 (at_evidence_digest a)" "opt_sha256 (at_form_plan_fingerprint a)"
    "opt_sha256 (at_attached_cv_hash a)" "at_requested_cv_hash a = at_attached_cv_hash a"
  using assms unfolding confirmed_evidence_check_def sql_sha256_iff by blast+

section \<open>Properties\<close>



text \<open>
  The SQL conditions are wider than the check they are documented to equal: a runner release that is a
  tab is blank to Python and not blank to SQL.
\<close>

lemma sql_accepts_tab:
  "let a = (the (row (db_attempts db_confirmed) 1))\<lparr>at_runner_release := Some [CHR 9]\<rparr>
   in list_ex (employer_verified_sql_conditions Postgresql 1 a) (db_evidence db_confirmed)
      \<and> \<not> is_employer_verified 1 a (db_evidence db_confirmed)"
  by code_simp

end
