(* ===== verification/Governor.thy ===== *)
theory Governor
  imports Py_Prelude
begin

text \<open>
  The rate governor of \<^verbatim>\<open>core/governor.py\<close>: a shared key-value store with the kill switch, the
  challenge cooldown, the daily LinkedIn budget, the gap between LinkedIn actions and the reservations
  of final actions. Every value the program stores is an integer, written as decimal text; a key is
  \<open>None\<close> when it is absent. Each reading of the clock is a separate input, because the source reads it
  again for every key and every comparison.
\<close>

section \<open>The store\<close>

text \<open>Day keys carry the UTC day, which the source formats as \<open>%Y%m%d\<close>.\<close>

datatype store_key =
  K_APPS int
  | K_OUTBOUND int
  | K_NEXT_ACTION
  | K_COOLDOWN
  | K_TRIPS
  | K_KILL
  | K_RESERVATION string

type_synonym store = "store_key \<Rightarrow> int option"

definition store_get :: "store \<Rightarrow> store_key \<Rightarrow> int option" where
  "store_get s k = s k"

definition store_set :: "store_key \<Rightarrow> int \<Rightarrow> store \<Rightarrow> store" where
  "store_set k v s = s(k := Some v)"

definition or_zero :: "int option \<Rightarrow> int" where
  "or_zero v = (case v of None \<Rightarrow> 0 | Some n \<Rightarrow> n)"

definition store_incr :: "store_key \<Rightarrow> store \<Rightarrow> store" where
  "store_incr k s = s(k := Some (or_zero (s k) + 1))"

definition store_delete :: "store_key \<Rightarrow> store \<Rightarrow> store" where
  "store_delete k s = s(k := None)"

lemmas store_defs = store_get_def store_set_def store_incr_def store_delete_def

section \<open>Settings and readings\<close>

text \<open>
  \<open>gs_zone_hour\<close> is the local hour in the configured zone, \<open>None\<close> when the zone name is not known.
\<close>

record gov_settings =
  gs_daily_cap :: int
  gs_outbound_cap :: int
  gs_min_gap :: int
  gs_max_gap :: int
  gs_hours :: "int \<times> int"
  gs_zone_hour :: "instant \<Rightarrow> int option"

text \<open>The clock readings of one reservation, in the order the code takes them.\<close>

record gov_clock =
  ck_hours :: instant
  ck_watch :: instant
  ck_cooldown :: instant
  ck_budget :: instant
  ck_gap :: instant
  ck_left :: instant
  ck_count :: instant
  ck_next :: instant

definition epoch :: "instant \<Rightarrow> int" where
  "epoch t = (if t < 0 then - ((- t) div seconds 1) else t div seconds 1)"

definition utc_day :: "instant \<Rightarrow> int" where
  "utc_day t = t div seconds 86400"

definition utc_hour :: "instant \<Rightarrow> int" where
  "utc_hour t = (t mod seconds 86400) div seconds 3600"

definition day_key :: "instant \<Rightarrow> store_key" where
  "day_key t = K_APPS (utc_day t)"

section \<open>Counters and gates\<close>

definition applications_today :: "instant \<Rightarrow> store \<Rightarrow> int" where
  "applications_today t s = or_zero (store_get s (day_key t))"

definition budget_remaining :: "gov_settings \<Rightarrow> instant \<Rightarrow> store \<Rightarrow> int" where
  "budget_remaining g t s = max 0 (gs_daily_cap g - applications_today t s)"

text \<open>\<open>gap\<close> is the random gap \<open>next_gap_seconds\<close> draws from the configured range.\<close>

definition gap_drawn :: "gov_settings \<Rightarrow> int \<Rightarrow> bool" where
  "gap_drawn g gap \<longleftrightarrow> gs_min_gap g \<le> gap \<and> gap \<le> gs_max_gap g"

definition record_application :: "instant \<Rightarrow> instant \<Rightarrow> int \<Rightarrow> store \<Rightarrow> store" where
  "record_application t_count t_next gap s =
     store_set K_NEXT_ACTION (epoch t_next + gap) (store_incr (day_key t_count) s)"

definition gap_ready :: "instant \<Rightarrow> store \<Rightarrow> bool" where
  "gap_ready t s = (case store_get s K_NEXT_ACTION of None \<Rightarrow> True | Some u \<Rightarrow> u \<le> epoch t)"

definition gap_remaining_s :: "instant \<Rightarrow> store \<Rightarrow> int" where
  "gap_remaining_s t s = (case store_get s K_NEXT_ACTION of None \<Rightarrow> 0 | Some u \<Rightarrow> max 0 (u - epoch t))"

definition wa_remaining :: "gov_settings \<Rightarrow> instant \<Rightarrow> store \<Rightarrow> int" where
  "wa_remaining g t s = max 0 (gs_outbound_cap g - or_zero (store_get s (K_OUTBOUND (utc_day t))))"

definition wa_record :: "instant \<Rightarrow> store \<Rightarrow> store" where
  "wa_record t s = store_incr (K_OUTBOUND (utc_day t)) s"

definition within_active_hours :: "gov_settings \<Rightarrow> instant \<Rightarrow> bool" where
  "within_active_hours g t =
     (let h = (case gs_zone_hour g t of None \<Rightarrow> utc_hour t | Some h \<Rightarrow> h)
      in fst (gs_hours g) \<le> h \<and> h < snd (gs_hours g))"

definition in_cooldown :: "instant \<Rightarrow> store \<Rightarrow> bool" where
  "in_cooldown t s = (case store_get s K_COOLDOWN of None \<Rightarrow> False | Some u \<Rightarrow> epoch t < u)"

definition cooldown_remaining_s :: "instant \<Rightarrow> store \<Rightarrow> int" where
  "cooldown_remaining_s t s = (case store_get s K_COOLDOWN of None \<Rightarrow> 0 | Some u \<Rightarrow> max 0 (u - epoch t))"

definition is_killed :: "store \<Rightarrow> bool" where
  "is_killed s \<longleftrightarrow> store_get s K_KILL = Some 1"

definition kill :: "store \<Rightarrow> store" where
  "kill s = store_set K_KILL 1 s"

definition resume :: "store \<Rightarrow> store" where
  "resume s = store_delete K_KILL s"

text \<open>A challenge doubles the cooldown from six hours up to two days.\<close>

definition cooldown_hours :: "int \<Rightarrow> int" where
  "cooldown_hours trips = min 48 (6 * 2 ^ nat trips)"

definition trip_cooldown :: "instant \<Rightarrow> store \<Rightarrow> store \<times> int" where
  "trip_cooldown t s =
     (let trips = or_zero (store_get s K_TRIPS);
          h = cooldown_hours trips
      in (store_set K_COOLDOWN (epoch t + h * 3600) (store_set K_TRIPS (trips + 1) s), h))"

datatype gov_reason =
  GR_OK
  | GR_KILLED
  | GR_COOLDOWN
  | GR_HOURS
  | GR_CAP
  | GR_GAP "int option"
  | GR_INVALID
  | GR_ALREADY_RESERVED
  | GR_RESERVED
  | GR_CONTENTION

definition can_act :: "gov_settings \<Rightarrow> gov_clock \<Rightarrow> store \<Rightarrow> bool \<times> gov_reason" where
  "can_act g ck s =
     (if is_killed s then (False, GR_KILLED)
      else if in_cooldown (ck_cooldown ck) s then (False, GR_COOLDOWN)
      else if \<not> within_active_hours g (ck_hours ck) then (False, GR_HOURS)
      else if budget_remaining g (ck_budget ck) s \<le> 0 then (False, GR_CAP)
      else (True, GR_OK))"

definition can_apply_linkedin :: "gov_settings \<Rightarrow> gov_clock \<Rightarrow> store \<Rightarrow> bool \<times> gov_reason" where
  "can_apply_linkedin g ck s =
     (case can_act g ck s of
        (False, r) \<Rightarrow> (False, r)
      | (True, r) \<Rightarrow>
          if \<not> gap_ready (ck_gap ck) s then (False, GR_GAP (Some (gap_remaining_s (ck_left ck) s)))
          else (True, GR_OK))"

section \<open>Reservations\<close>

definition reservation_stop_policy :: "gov_clock \<Rightarrow> store \<Rightarrow> bool \<times> gov_reason" where
  "reservation_stop_policy ck s =
     (if is_killed s then (False, GR_KILLED)
      else if in_cooldown (ck_cooldown ck) s then (False, GR_COOLDOWN)
      else (True, GR_OK))"

definition reservation_policy :: "gov_settings \<Rightarrow> string \<Rightarrow> gov_clock \<Rightarrow> store \<Rightarrow> bool \<times> gov_reason" where
  "reservation_policy g platform ck s =
     (case reservation_stop_policy ck s of
        (False, r) \<Rightarrow> (False, r)
      | (True, r) \<Rightarrow>
          (if platform = ''linkedin'' then
             if budget_remaining g (ck_budget ck) s \<le> 0 then (False, GR_CAP)
             else if \<not> gap_ready (ck_gap ck) s
             then (False, GR_GAP (Some (gap_remaining_s (ck_left ck) s)))
             else (True, GR_OK)
           else (True, GR_OK)))"

text \<open>The writes of one granted reservation; the expiry of the reservation key is not kept.\<close>

definition reserve_writes :: "string \<Rightarrow> string \<Rightarrow> gov_clock \<Rightarrow> int \<Rightarrow> store \<Rightarrow> store" where
  "reserve_writes rid platform ck gap s =
     (let s1 = store_set (K_RESERVATION rid) 1 s
      in if platform = ''linkedin'' then record_application (ck_count ck) (ck_next ck) gap s1 else s1)"

text \<open>The path of the in-process store, which holds a lock.\<close>

definition reserve_local ::
  "gov_settings \<Rightarrow> string \<Rightarrow> string \<Rightarrow> gov_clock \<Rightarrow> int \<Rightarrow> store \<Rightarrow> store \<times> bool \<times> gov_reason" where
  "reserve_local g rid platform ck gap s =
     (if store_get s (K_RESERVATION rid) \<noteq> None then
        (case reservation_stop_policy ck s of
           (False, r) \<Rightarrow> (s, False, r)
         | (True, r) \<Rightarrow> (s, True, GR_ALREADY_RESERVED))
      else case reservation_policy g platform ck s of
             (False, r) \<Rightarrow> (s, False, r)
           | (True, r) \<Rightarrow> (reserve_writes rid platform ck gap s, True, GR_RESERVED))"

text \<open>
  One try of the shared path on the values the pipeline read. \<open>Inl\<close> is a decision without a write,
  \<open>Inr\<close> the transaction that is sent to the server.
\<close>

definition watched_keys :: "string \<Rightarrow> string \<Rightarrow> gov_clock \<Rightarrow> store_key list" where
  "watched_keys rid platform ck =
     [K_RESERVATION rid, K_KILL, K_COOLDOWN]
     @ (if platform = ''linkedin'' then [day_key (ck_watch ck), K_NEXT_ACTION] else [])"

definition try_shared ::
  "gov_settings \<Rightarrow> string \<Rightarrow> string \<Rightarrow> gov_clock \<Rightarrow> int \<Rightarrow> store \<Rightarrow> (bool \<times> gov_reason) + (store \<Rightarrow> store)" where
  "try_shared g rid platform ck gap seen =
     (if seen K_KILL = Some 1 then Inl (False, GR_KILLED)
      else if epoch (ck_cooldown ck) < or_zero (seen K_COOLDOWN) then Inl (False, GR_COOLDOWN)
      else if seen (K_RESERVATION rid) \<noteq> None then Inl (True, GR_ALREADY_RESERVED)
      else if platform = ''linkedin'' \<and> gs_daily_cap g \<le> or_zero (seen (day_key (ck_budget ck)))
      then Inl (False, GR_CAP)
      else if platform = ''linkedin'' \<and> epoch (ck_gap ck) < or_zero (seen K_NEXT_ACTION)
      then Inl (False, GR_GAP None)
      else Inr (reserve_writes rid platform ck gap))"

text \<open>
  The loop of at most five tries. A try is what was read, the clock, the drawn gap and whether the
  server executed the transaction, which it does not when a watched key has changed.
\<close>

record gov_try =
  tr_seen :: store
  tr_clock :: gov_clock
  tr_gap :: int
  tr_executed :: bool

fun reserve_shared ::
  "gov_settings \<Rightarrow> string \<Rightarrow> string \<Rightarrow> gov_try list \<Rightarrow> (bool \<times> gov_reason) \<times> gov_try option" where
  "reserve_shared g rid platform [] = ((False, GR_CONTENTION), None)"
| "reserve_shared g rid platform (tr # trs) =
     (case try_shared g rid platform (tr_clock tr) (tr_gap tr) (tr_seen tr) of
        Inl r \<Rightarrow> (r, None)
      | Inr tx \<Rightarrow>
          (if tr_executed tr then ((True, GR_RESERVED), Some tr) else reserve_shared g rid platform trs))"

definition reservation_allowed :: "gov_settings \<Rightarrow> string \<Rightarrow> instant \<Rightarrow> gov_reason option" where
  "reservation_allowed g rid t =
     (if rid = [] \<or> 128 < length rid then Some GR_INVALID
      else if \<not> within_active_hours g t then Some GR_HOURS else None)"

definition reserve_final_action_shared ::
  "gov_settings \<Rightarrow> string \<Rightarrow> string \<Rightarrow> instant \<Rightarrow> gov_try list \<Rightarrow> (bool \<times> gov_reason) \<times> gov_try option" where
  "reserve_final_action_shared g rid platform t trs =
     (case reservation_allowed g rid t of
        Some r \<Rightarrow> ((False, r), None)
      | None \<Rightarrow> reserve_shared g rid platform (take 5 trs))"

definition reserve_final_action_local ::
  "gov_settings \<Rightarrow> string \<Rightarrow> string \<Rightarrow> gov_clock \<Rightarrow> int \<Rightarrow> store \<Rightarrow> store \<times> bool \<times> gov_reason" where
  "reserve_final_action_local g rid platform ck gap s =
     (case reservation_allowed g rid (ck_hours ck) of
        Some r \<Rightarrow> (s, False, r)
      | None \<Rightarrow> reserve_local g rid platform ck gap s)"

section \<open>All processes on one store\<close>

text \<open>
  Any number of processes share the store. \<open>gov_entry\<close> logs each LinkedIn reservation: the day it was
  counted on, the second its gap was checked, the second it counts from and the gap it drew. A shared
  transaction takes effect only if every watched key still has the value that was read, which is what
  \<open>WATCH\<close> and \<open>EXEC\<close> promise; reservation keys and the trip window may expire at any time.
\<close>

record gov_entry =
  ge_day :: int
  ge_checked :: int
  ge_from :: int
  ge_gap :: int

definition entry_of :: "gov_clock \<Rightarrow> int \<Rightarrow> gov_entry" where
  "entry_of ck gap = \<lparr>ge_day = utc_day (ck_count ck), ge_checked = epoch (ck_gap ck),
     ge_from = epoch (ck_next ck), ge_gap = gap\<rparr>"

definition logged :: "bool \<Rightarrow> string \<Rightarrow> gov_clock \<Rightarrow> int \<Rightarrow> gov_entry list \<Rightarrow> gov_entry list" where
  "logged fresh platform ck gap l = (if fresh \<and> platform = ''linkedin'' then entry_of ck gap # l else l)"

definition same_day :: "gov_clock \<Rightarrow> bool" where
  "same_day ck \<longleftrightarrow> utc_day (ck_watch ck) = utc_day (ck_count ck) \<and> utc_day (ck_budget ck) = utc_day (ck_count ck)"

inductive gov_step :: "gov_settings \<Rightarrow> store \<times> gov_entry list \<Rightarrow> store \<times> gov_entry list \<Rightarrow> bool"
  for g :: gov_settings where
  gv_local: "reserve_final_action_local g rid platform ck gap s = (s', ok, r) \<Longrightarrow> gap_drawn g gap \<Longrightarrow>
     same_day ck \<Longrightarrow> gov_step g (s, l) (s', logged (r = GR_RESERVED) platform ck gap l)"
| gv_shared: "reserve_final_action_shared g rid platform t trs = (res, Some tr) \<Longrightarrow>
     \<forall>k \<in> set (watched_keys rid platform (tr_clock tr)). tr_seen tr k = s k \<Longrightarrow> gap_drawn g (tr_gap tr) \<Longrightarrow>
     same_day (tr_clock tr) \<Longrightarrow>
     gov_step g (s, l) (reserve_writes rid platform (tr_clock tr) (tr_gap tr) s,
                        logged True platform (tr_clock tr) (tr_gap tr) l)"
| gv_kill: "gov_step g (s, l) (kill s, l)"
| gv_resume: "gov_step g (s, l) (resume s, l)"
| gv_trip: "gov_step g (s, l) (fst (trip_cooldown t s), l)"
| gv_outbound: "gov_step g (s, l) (wa_record t s, l)"
| gv_expire: "k = K_TRIPS \<or> k = K_RESERVATION rid \<Longrightarrow> gov_step g (s, l) (store_delete k s, l)"

definition gov_init :: "store \<times> gov_entry list \<Rightarrow> bool" where
  "gov_init w \<longleftrightarrow> w = (Map.empty, [])"

definition spaced :: "gov_settings \<Rightarrow> gov_entry list \<Rightarrow> bool" where
  "spaced g l \<longleftrightarrow> successively (\<lambda>new old. ge_from old + gs_min_gap g \<le> ge_checked new) l"

definition actions_on :: "int \<Rightarrow> gov_entry list \<Rightarrow> int" where
  "actions_on day l = int (length (filter (\<lambda>e. ge_day e = day) l))"

definition gov_inv :: "gov_settings \<Rightarrow> store \<times> gov_entry list \<Rightarrow> bool" where
  "gov_inv g w =
     (case w of (s, l) \<Rightarrow>
        (\<forall>d. or_zero (s (K_APPS d)) = actions_on d l \<and> actions_on d l \<le> max 0 (gs_daily_cap g))
        \<and> spaced g l \<and> (\<forall>e \<in> set l. gs_min_gap g \<le> ge_gap e)
        \<and> s K_NEXT_ACTION = (case l of [] \<Rightarrow> None | e # es \<Rightarrow> Some (ge_from e + ge_gap e)))"

section \<open>Lemmas\<close>

text \<open>Both paths grant a fresh LinkedIn reservation only within budget and gap.\<close>

definition roomy :: "gov_settings \<Rightarrow> string \<Rightarrow> gov_clock \<Rightarrow> store \<Rightarrow> bool" where
  "roomy g platform ck s \<longleftrightarrow>
     (platform = ''linkedin'' \<longrightarrow>
        or_zero (s (K_APPS (utc_day (ck_count ck)))) < gs_daily_cap g
        \<and> (case s K_NEXT_ACTION of None \<Rightarrow> True | Some u \<Rightarrow> u \<le> epoch (ck_gap ck)))"

lemma or_zero_simps [simp]: "or_zero None = 0" "or_zero (Some n) = n"
  by (simp_all add: or_zero_def)

lemma reserve_local_fresh:
  assumes "reserve_local g rid platform ck gap s = (s', ok, GR_RESERVED)" and "same_day ck"
  shows "s' = reserve_writes rid platform ck gap s \<and> roomy g platform ck s"
  using assms
  by (auto simp: reserve_local_def reservation_policy_def reservation_stop_policy_def roomy_def same_day_def
      budget_remaining_def applications_today_def day_key_def gap_ready_def store_get_def
      split: if_splits option.splits prod.splits bool.splits)

lemma reserve_local_other:
  assumes "reserve_local g rid platform ck gap s = (s', ok, r)" and "r \<noteq> GR_RESERVED"
  shows "s' = s"
  using assms by (auto simp: reserve_local_def split: if_splits prod.splits bool.splits)

lemma reserve_shared_executed:
  "reserve_shared g rid platform trs = (res, Some tr) \<Longrightarrow>
     res = (True, GR_RESERVED) \<and> (\<exists>tx. try_shared g rid platform (tr_clock tr) (tr_gap tr) (tr_seen tr) = Inr tx)"
  by (induction trs) (auto split: sum.splits if_splits)

lemma try_shared_fresh:
  assumes "try_shared g rid platform ck gap seen = Inr tx" and "same_day ck"
    and "\<forall>k \<in> set (watched_keys rid platform ck). seen k = s k"
  shows "roomy g platform ck s"
  using assms
  by (auto simp: try_shared_def roomy_def watched_keys_def same_day_def day_key_def split: if_splits option.splits)

lemma gov_inv_fresh:
  assumes "gov_inv g (s, l)" and "roomy g platform ck s" and "gap_drawn g gap"
  shows "gov_inv g (reserve_writes rid platform ck gap s, logged True platform ck gap l)"
proof (cases "platform = ''linkedin''")
  case True
  let ?d = "utc_day (ck_count ck)" and ?e = "entry_of ck gap"
  have count: "actions_on d (?e # l) = actions_on d l + (if d = ?d then 1 else 0)" for d
    by (simp add: actions_on_def entry_of_def)
  have s': "reserve_writes rid platform ck gap s = s(K_RESERVATION rid \<mapsto> 1,
      K_APPS ?d \<mapsto> or_zero (s (K_APPS ?d)) + 1, K_NEXT_ACTION \<mapsto> epoch (ck_next ck) + gap)"
    using True by (simp add: reserve_writes_def record_application_def store_defs day_key_def)
  have "spaced g (?e # l)"
    using assms True by (cases l) (auto simp: gov_inv_def spaced_def roomy_def entry_of_def)
  moreover have "actions_on ?d (?e # l) \<le> max 0 (gs_daily_cap g)"
    using assms(1,2) True by (auto simp: count gov_inv_def roomy_def)
  moreover have "ge_gap ?e = gap" "ge_from ?e = epoch (ck_next ck)" by (simp_all add: entry_of_def)
  ultimately show ?thesis
    using assms(1,3) True unfolding gov_inv_def s' logged_def by (auto simp: count gap_drawn_def)
next
  case False
  with assms(1) show ?thesis by (simp add: gov_inv_def reserve_writes_def logged_def store_defs Let_def)
qed

lemma gov_step_inv:
  assumes "gov_inv g w" and "gov_step g w w'"
  shows "gov_inv g w'"
  using assms(2)
proof cases
  case (gv_local rid platform ck gap s s' ok r l)
  show ?thesis
  proof (cases "reservation_allowed g rid (ck_hours ck) = None \<and> r = GR_RESERVED")
    case True
    with gv_local(3) have "reserve_local g rid platform ck gap s = (s', ok, GR_RESERVED)"
      by (simp add: reserve_final_action_local_def)
    from reserve_local_fresh[OF this gv_local(5)] gov_inv_fresh[of g s l] assms(1) gv_local True show ?thesis by simp
  next
    case False
    have "s' = s \<and> r \<noteq> GR_RESERVED"
    proof (cases "reservation_allowed g rid (ck_hours ck)")
      case None
      with gv_local(3) False reserve_local_other show ?thesis by (auto simp: reserve_final_action_local_def)
    next
      case (Some x)
      with gv_local(3) show ?thesis
        by (auto simp: reserve_final_action_local_def reservation_allowed_def split: if_splits)
    qed
    with assms(1) gv_local show ?thesis by (simp add: logged_def)
  qed
next
  case (gv_shared rid platform t trs res tr s l)
  then obtain tx where "try_shared g rid platform (tr_clock tr) (tr_gap tr) (tr_seen tr) = Inr tx"
    by (auto simp: reserve_final_action_shared_def dest: reserve_shared_executed split: option.splits)
  from try_shared_fresh[OF this gv_shared(6,4)] gov_inv_fresh[of g s l] assms(1) gv_shared show ?thesis by simp
next
  case (gv_kill s l)
  with assms(1) show ?thesis by (simp add: gov_inv_def kill_def store_defs)
next
  case (gv_resume s l)
  with assms(1) show ?thesis by (simp add: gov_inv_def resume_def store_defs)
next
  case (gv_trip s l t)
  with assms(1) show ?thesis by (simp add: gov_inv_def trip_cooldown_def store_defs Let_def)
next
  case (gv_outbound s l t)
  with assms(1) show ?thesis by (simp add: gov_inv_def wa_record_def store_defs)
next
  case (gv_expire k rid s l)
  then have "k \<noteq> K_APPS d" "k \<noteq> K_NEXT_ACTION" for d by auto
  with assms(1) gv_expire show ?thesis by (auto simp: gov_inv_def store_defs)
qed

lemma gov_init_inv: "gov_init w \<Longrightarrow> gov_inv g w"
  by (simp add: gov_init_def gov_inv_def actions_on_def spaced_def)

interpretation governor: invariant_system gov_init "gov_step g" "gov_inv g" for g
  by unfold_locales (fact gov_init_inv, fact gov_step_inv)

section \<open>Properties\<close>


definition sample_settings :: gov_settings where
  "sample_settings = \<lparr>gs_daily_cap = 2, gs_outbound_cap = 5, gs_min_gap = 60, gs_max_gap = 90,
     gs_hours = (9, 21), gs_zone_hour = (\<lambda>t. None)\<rparr>"

definition clock_at :: "instant \<Rightarrow> gov_clock" where
  "clock_at t = \<lparr>ck_hours = t, ck_watch = t, ck_cooldown = t, ck_budget = t, ck_gap = t, ck_left = t,
     ck_count = t, ck_next = t\<rparr>"

abbreviation noon :: instant where
  "noon \<equiv> seconds 43200"

lemma sample_reservation:
  "reserve_final_action_local sample_settings ''attempt-1'' ''linkedin'' (clock_at noon) 70 Map.empty =
     (reserve_writes ''attempt-1'' ''linkedin'' (clock_at noon) 70 Map.empty, True, GR_RESERVED)"
  by (simp add: reserve_final_action_local_def reservation_allowed_def within_active_hours_def sample_settings_def
      clock_at_def utc_hour_def seconds_def reserve_local_def reservation_policy_def reservation_stop_policy_def
      is_killed_def in_cooldown_def budget_remaining_def applications_today_def gap_ready_def store_get_def)


text \<open>
  The shared path is the local path. A try that reads the current store decides as the reservation
  under the in-process lock does, except that it does not report the seconds left of the gap, and its
  transaction writes the same store.
\<close>

theorem shared_reservation_is_local:
  assumes "0 \<le> ck_cooldown ck" and "0 \<le> ck_gap ck"
  shows "reserve_local g rid platform ck gap s =
     (case try_shared g rid platform ck gap s of
        Inr tx \<Rightarrow> (tx s, True, GR_RESERVED)
      | Inl (ok, r) \<Rightarrow>
          (s, ok, if r = GR_GAP None then GR_GAP (Some (gap_remaining_s (ck_left ck) s)) else r))"
proof -
  have pos: "0 \<le> epoch (ck_cooldown ck)" "0 \<le> epoch (ck_gap ck)"
    using assms by (simp_all add: epoch_def seconds_def)
  have cool: "in_cooldown (ck_cooldown ck) s \<longleftrightarrow> epoch (ck_cooldown ck) < or_zero (s K_COOLDOWN)"
    and gap: "gap_ready (ck_gap ck) s \<longleftrightarrow> \<not> epoch (ck_gap ck) < or_zero (s K_NEXT_ACTION)"
    using pos by (auto simp: in_cooldown_def gap_ready_def store_get_def split: option.splits)
  have cap: "budget_remaining g (ck_budget ck) s \<le> 0 \<longleftrightarrow> gs_daily_cap g \<le> or_zero (s (day_key (ck_budget ck)))"
    by (simp add: budget_remaining_def applications_today_def store_get_def)
  show ?thesis
    by (simp add: reserve_local_def reservation_policy_def reservation_stop_policy_def try_shared_def cool gap cap
        is_killed_def store_get_def)
qed

theorem shared_reservation_is_local_witness:
  "reserve_local sample_settings ''a'' ''linkedin'' (clock_at noon) 70 (kill Map.empty) = (kill Map.empty, False, GR_KILLED)"
  using shared_reservation_is_local[of "clock_at noon" sample_settings "''a''" "''linkedin''" 70 "kill Map.empty"]
  by (simp add: clock_at_def seconds_def try_shared_def kill_def store_set_def)

text \<open>
  The readings have to agree on the day: between the check of one day's budget and the count on the
  next, a reservation goes through although the next day's budget is used up.
\<close>

lemma midnight_reservation_skips_cap:
  "let ck = (clock_at (seconds 86399))\<lparr>ck_count := seconds 86400\<rparr>;
       s = Map.empty(K_APPS 1 \<mapsto> 2);
       (s', ok, r) = reserve_local sample_settings ''a'' ''linkedin'' ck 70 s
   in ok \<and> applications_today (ck_count ck) s' = 3 \<and> gs_daily_cap sample_settings = 2"
  by (simp add: clock_at_def sample_settings_def seconds_def reserve_local_def reservation_policy_def
      reservation_stop_policy_def is_killed_def in_cooldown_def budget_remaining_def applications_today_def
      gap_ready_def store_defs utc_day_def day_key_def reserve_writes_def record_application_def)

end
