(* ===== verification/Control_Plane.thy ===== *)
theory Control_Plane
  imports Control_Protocol
begin

text \<open>
  The hosted control plane, \<^verbatim>\<open>control_plane/job_control_plane/services.py\<close> on the tables of \<open>models.py\<close>: it
  authenticates the runner's envelopes, keeps review grants, turns a grant into one signed command,
  delivers commands and emergency stops, and receives the runner's event stream. A handler is one
  request: the nonce of its envelope is committed first and stays even if the rest of the request is
  rolled back, so a handler returns the database together with an error or a result.
\<close>

section \<open>State\<close>

record device =
  dv_public_key :: string
  dv_active :: bool
  dv_last_seen_at :: "instant option"
  dv_boot_id :: "string option"
  dv_release_digest :: "string option"
  dv_status :: "runner_status option"
  dv_operations_digest :: "string option"
  dv_policy :: "policy_summary option"
  dv_pipeline :: "int list"
  dv_sources :: "source_summary list"
  dv_adapters :: "adapter_summary list"

record grant =
  gr_device_id :: string
  gr_application_ref :: string
  gr_application_revision :: int
  gr_adapter :: string
  gr_adapter_version :: string
  gr_form_fingerprint_digest :: string
  gr_envelope_digest :: string
  gr_reviewed_at :: instant
  gr_expires_at :: instant
  gr_created_at :: instant
  gr_consumed_at :: "instant option"
  gr_revoked_at :: "instant option"
  gr_revocation_envelope_digest :: "string option"

datatype remote_status = CQ_QUEUED | CQ_CLAIMED | CQ_ACKNOWLEDGED | CQ_REJECTED | CQ_EXPIRED | CQ_RUNNING | CQ_FINISHED

text \<open>The payload of a control command, as it is signed and stored.\<close>

record command_payload =
  cp_command_id :: string
  cp_grant_id :: string
  cp_application_ref :: string
  cp_application_revision :: int
  cp_adapter :: string
  cp_adapter_version :: string
  cp_form_fingerprint_digest :: string

record remote_command =
  rm_grant_id :: string
  rm_device_id :: string
  rm_application_ref :: string
  rm_application_revision :: int
  rm_adapter :: string
  rm_adapter_version :: string
  rm_form_fingerprint_digest :: string
  rm_idempotency_digest :: string
  rm_status :: remote_status
  rm_envelope :: "envelope \<times> command_payload"
  rm_created_at :: instant
  rm_expires_at :: instant
  rm_claimed_at :: "instant option"
  rm_lease_expires_at :: "instant option"
  rm_delivery_count :: int
  rm_acknowledged_at :: "instant option"
  rm_ack_status :: "ack_status option"
  rm_finished_at :: "instant option"

text \<open>The payload of an emergency stop is its command and the boot it is for.\<close>

record kill_command =
  kc_device_id :: string
  kc_boot_id :: string
  kc_idempotency_digest :: string
  kc_status :: remote_status
  kc_envelope :: "envelope \<times> string \<times> string"
  kc_created_at :: instant
  kc_expires_at :: instant
  kc_claimed_at :: "instant option"
  kc_lease_expires_at :: "instant option"
  kc_delivery_count :: int
  kc_acknowledged_at :: "instant option"
  kc_ack_status :: "ack_status option"
  kc_finished_at :: "instant option"

record nonce_row =
  nr_device_id :: string
  nr_purpose :: envelope_purpose
  nr_nonce :: string
  nr_expires_at :: instant

record runner_event =
  re_event_id :: string
  re_device_id :: string
  re_command_id :: string
  re_payload :: outbox_event
  re_received_at :: instant

record audit_row =
  ar_action :: string
  ar_result :: string
  ar_created_at :: instant

record control_db =
  cb_schema :: "string list"
  cb_devices :: "(string \<times> device) list"
  cb_grants :: "(string \<times> grant) list"
  cb_commands :: "(string \<times> remote_command) list"
  cb_kills :: "(string \<times> kill_command) list"
  cb_nonces :: "nonce_row list"
  cb_events :: "runner_event list"
  cb_audit :: "(int \<times> audit_row) list"

definition set_device :: "string \<Rightarrow> device \<Rightarrow> control_db \<Rightarrow> control_db" where
  "set_device k v d = d\<lparr>cb_devices := AList.update k v (cb_devices d)\<rparr>"

definition set_grant :: "string \<Rightarrow> grant \<Rightarrow> control_db \<Rightarrow> control_db" where
  "set_grant k v d = d\<lparr>cb_grants := AList.update k v (cb_grants d)\<rparr>"

definition set_remote :: "string \<Rightarrow> remote_command \<Rightarrow> control_db \<Rightarrow> control_db" where
  "set_remote k v d = d\<lparr>cb_commands := AList.update k v (cb_commands d)\<rparr>"

definition set_kill :: "string \<Rightarrow> kill_command \<Rightarrow> control_db \<Rightarrow> control_db" where
  "set_kill k v d = d\<lparr>cb_kills := AList.update k v (cb_kills d)\<rparr>"

section \<open>Environment and results\<close>

text \<open>
  The settings, and what stands for cryptography: whether the runner's signature of an envelope and its
  payload is valid, the digests of an operations summary, of an envelope and of a text, and the signature the control plane makes.
\<close>

record control_env =
  ce_device_id :: string
  ce_public_key :: string
  ce_signing_key_id :: string
  ce_dispatch_allowed :: bool
  ce_offline_seconds :: int
  ce_signature_ok :: "envelope \<Rightarrow> runner_payload \<Rightarrow> bool"
  ce_operations_digest :: "heartbeat_payload \<Rightarrow> string"
  ce_envelope_digest :: "envelope \<Rightarrow> runner_payload \<Rightarrow> string"
  ce_text_digest :: "string \<Rightarrow> string"
  ce_sign :: "envelope \<Rightarrow> string"

type_synonym cp_error = "string \<times> int"

record receipt =
  rt_identifier :: string
  rt_duplicate :: bool

abbreviation conflict :: "string \<Rightarrow> cp_error + 'a" where
  "conflict code \<equiv> Inl (code, 409)"

definition expected_schema :: string where
  "expected_schema = ''0006_runner_operations_summary''"

section \<open>Audit\<close>

definition newer_first :: "(int \<times> audit_row) list \<Rightarrow> (int \<times> audit_row) list" where
  "newer_first rows = rev (sort_key (\<lambda>(k, r). (ar_created_at r, k)) rows)"

definition record_audit :: "string \<Rightarrow> string \<Rightarrow> instant \<Rightarrow> control_db \<Rightarrow> control_db" where
  "record_audit action res now d =
     (let rows = cb_audit d @ [(next_id (cb_audit d), \<lparr>ar_action = action, ar_result = res, ar_created_at = now\<rparr>)];
          fresh = filter (\<lambda>(k, r). \<not> ar_created_at r < now - 30 * seconds 86400) rows;
          kept = map fst (take 5000 (newer_first fresh))
      in d\<lparr>cb_audit := filter (\<lambda>(k, r). k \<in> set kept) fresh\<rparr>)"

section \<open>Authentication\<close>

definition new_device :: "string \<Rightarrow> device" where
  "new_device key =
     \<lparr>dv_public_key = key, dv_active = True, dv_last_seen_at = None, dv_boot_id = None,
      dv_release_digest = None, dv_status = None, dv_operations_digest = None, dv_policy = None,
      dv_pipeline = [], dv_sources = [], dv_adapters = []\<rparr>"

definition configured_device :: "control_env \<Rightarrow> control_db \<Rightarrow> cp_error + control_db" where
  "configured_device env d =
     (let (dv, d') = (case map_of (cb_devices d) (ce_device_id env) of
                        Some dv \<Rightarrow> (dv, d)
                      | None \<Rightarrow> (let dv = new_device (ce_public_key env)
                                 in (dv, set_device (ce_device_id env) dv d)))
      in if \<not> dv_active dv then Inl (''RUNNER_DISABLED'', 401)
         else if dv_public_key dv \<noteq> ce_public_key env then Inl (''RUNNER_KEY_MISMATCH'', 401)
         else Inr d')"

definition nonce_of :: "control_env \<Rightarrow> envelope \<Rightarrow> nonce_row" where
  "nonce_of env en = \<lparr>nr_device_id = ce_device_id env, nr_purpose = en_purpose en, nr_nonce = en_nonce en,
     nr_expires_at = en_expires_at en\<rparr>"

definition nonce_clash :: "nonce_row \<Rightarrow> nonce_row \<Rightarrow> bool" where
  "nonce_clash a b \<longleftrightarrow>
     nr_device_id a = nr_device_id b \<and> nr_purpose a = nr_purpose b \<and> nr_nonce a = nr_nonce b"

definition live_nonces :: "instant \<Rightarrow> nonce_row list \<Rightarrow> nonce_row list" where
  "live_nonces now rows = filter (\<lambda>r. \<not> nr_expires_at r < now - minutes 10) rows"

definition verify_runner_envelope ::
  "control_env \<Rightarrow> envelope_purpose \<Rightarrow> instant \<Rightarrow> envelope \<Rightarrow> runner_payload \<Rightarrow> control_db \<Rightarrow> cp_error + control_db"
  where
  "verify_runner_envelope env purpose now en p d =
     (if en_key_id en \<noteq> ce_device_id env then Inl (''RUNNER_UNKNOWN'', 401)
      else if verify_envelope (ce_signature_ok env en p) purpose control_audience now en \<noteq> None
      then Inl (''RUNNER_SIGNATURE_INVALID'', 401)
      else if cb_schema d \<noteq> [expected_schema] then Inl (''SCHEMA_NOT_CURRENT'', 503)
      else case configured_device env d of
             Inl e \<Rightarrow> Inl e
           | Inr d1 \<Rightarrow>
               (let kept = live_nonces now (cb_nonces d1) in
                if list_ex (nonce_clash (nonce_of env en)) kept then conflict ''RUNNER_REPLAYED''
                else Inr (d1\<lparr>cb_nonces := kept @ [nonce_of env en]\<rparr>)))"

text \<open>
  The frame of a request: authenticate and commit, then run the body; an error of the body rolls back to
  the committed nonce.
\<close>

definition authenticated ::
  "control_env \<Rightarrow> envelope_purpose \<Rightarrow> instant \<Rightarrow> envelope \<Rightarrow> runner_payload
     \<Rightarrow> (control_db \<Rightarrow> cp_error + control_db \<times> 'a) \<Rightarrow> control_db \<Rightarrow> control_db \<times> (cp_error + 'a)" where
  "authenticated env purpose now en p body d =
     (case verify_runner_envelope env purpose now en p d of
        Inl e \<Rightarrow> (d, Inl e)
      | Inr d1 \<Rightarrow> (case body d1 of Inl e \<Rightarrow> (d1, Inl e) | Inr (d2, r) \<Rightarrow> (d2, Inr r)))"

definition this_device :: "control_env \<Rightarrow> control_db \<Rightarrow> device" where
  "this_device env d =
     (case map_of (cb_devices d) (ce_device_id env) of Some dv \<Rightarrow> dv | None \<Rightarrow> new_device (ce_public_key env))"

section \<open>Heartbeats and grants\<close>

definition beat :: "heartbeat_payload \<Rightarrow> instant \<Rightarrow> device \<Rightarrow> device" where
  "beat h now dv =
     (let b = dv\<lparr>dv_boot_id := Some (hb_boot_id h), dv_release_digest := Some (hb_release_digest h),
                 dv_status := Some (hb_status h), dv_last_seen_at := Some now\<rparr>
      in case (hb_pipeline h, hb_policy h) of
           (Some cs, Some p) \<Rightarrow>
             b\<lparr>dv_operations_digest := hb_operations_digest h, dv_policy := Some p, dv_pipeline := cs,
               dv_sources := hb_sources h, dv_adapters := hb_adapters h\<rparr>
         | _ \<Rightarrow>
             b\<lparr>dv_operations_digest := None, dv_policy := None, dv_pipeline := [], dv_sources := [],
               dv_adapters := []\<rparr>)"

definition receive_heartbeat ::
  "control_env \<Rightarrow> envelope \<Rightarrow> heartbeat_payload \<Rightarrow> instant \<Rightarrow> control_db \<Rightarrow> control_db \<times> (cp_error + receipt)" where
  "receive_heartbeat env en h now =
     authenticated env EP_HEARTBEAT now en (P_HEARTBEAT h) (\<lambda>d.
       Inr (set_device (ce_device_id env) (beat h now (this_device env d)) d,
            \<lparr>rt_identifier = ce_device_id env, rt_duplicate = False\<rparr>))"

text \<open>\<open>expected_binding\<close>, and its comparison with a stored grant.\<close>

definition grant_binding ::
  "string \<Rightarrow> grant_payload \<Rightarrow> instant \<Rightarrow> string \<times> string \<times> int \<times> string \<times> string \<times> string \<times> instant \<times> instant" where
  "grant_binding device p expires =
     (device, gp_application_ref p, gp_application_revision p, gp_adapter p, gp_adapter_version p,
      gp_form_fingerprint_digest p, gp_reviewed_at p, expires)"

definition stored_binding_of ::
  "grant \<Rightarrow> string \<times> string \<times> int \<times> string \<times> string \<times> string \<times> instant \<times> instant" where
  "stored_binding_of g =
     (gr_device_id g, gr_application_ref g, gr_application_revision g, gr_adapter g, gr_adapter_version g,
      gr_form_fingerprint_digest g, gr_reviewed_at g, gr_expires_at g)"

definition new_grant :: "string \<Rightarrow> grant_payload \<Rightarrow> instant \<Rightarrow> string \<Rightarrow> instant \<Rightarrow> grant" where
  "new_grant device p expires digest now =
     \<lparr>gr_device_id = device, gr_application_ref = gp_application_ref p,
      gr_application_revision = gp_application_revision p, gr_adapter = gp_adapter p,
      gr_adapter_version = gp_adapter_version p,
      gr_form_fingerprint_digest = gp_form_fingerprint_digest p, gr_envelope_digest = digest,
      gr_reviewed_at = gp_reviewed_at p, gr_expires_at = expires, gr_created_at = now,
      gr_consumed_at = None, gr_revoked_at = None, gr_revocation_envelope_digest = None\<rparr>"

text \<open>
  \<open>stale\<close> says that another transaction inserted the grant after the first read, so that the insert
  fails on the key and the grant is read again.
\<close>

definition store_grant ::
  "control_env \<Rightarrow> envelope \<Rightarrow> grant_payload \<Rightarrow> bool \<Rightarrow> instant \<Rightarrow> control_db \<Rightarrow> cp_error + control_db \<times> receipt" where
  "store_grant env en p stale now d =
     (let replayed = (\<lambda>g. if stored_binding_of g \<noteq> grant_binding (ce_device_id env) p (en_expires_at en)
                         then conflict ''REVIEW_GRANT_CONFLICT''
                         else Inr (d, \<lparr>rt_identifier = gp_grant_id p, rt_duplicate = True\<rparr>))
      in if en_issued_at en + seconds 30 < gp_reviewed_at p then conflict ''REVIEW_GRANT_TIME_INVALID''
         else if gp_reviewed_at p < en_issued_at en - minutes 30 then conflict ''REVIEW_GRANT_STALE''
         else case (if stale then None else map_of (cb_grants d) (gp_grant_id p)) of
                Some g \<Rightarrow> replayed g
              | None \<Rightarrow>
                  (case map_of (cb_grants d) (gp_grant_id p) of
                     Some g \<Rightarrow> replayed g
                   | None \<Rightarrow>
                       Inr (set_grant (gp_grant_id p)
                              (new_grant (ce_device_id env) p (en_expires_at en)
                                 (ce_envelope_digest env en (P_GRANT p)) now) d,
                            \<lparr>rt_identifier = gp_grant_id p, rt_duplicate = False\<rparr>)))"

definition receive_review_grant ::
  "control_env \<Rightarrow> envelope \<Rightarrow> grant_payload \<Rightarrow> bool \<Rightarrow> instant \<Rightarrow> control_db \<Rightarrow> control_db \<times> (cp_error + receipt)"
  where
  "receive_review_grant env en p stale now =
     authenticated env EP_REVIEW_GRANT now en (P_GRANT p) (store_grant env en p stale now)"

definition command_of_grant :: "string \<Rightarrow> control_db \<Rightarrow> (string \<times> remote_command) option" where
  "command_of_grant gid d = find (\<lambda>(k, c). rm_grant_id c = gid) (cb_commands d)"

definition cancelled_remote :: "instant \<Rightarrow> remote_command \<Rightarrow> remote_command" where
  "cancelled_remote now c = c\<lparr>rm_status := CQ_REJECTED, rm_lease_expires_at := None, rm_finished_at := Some now\<rparr>"

definition cancel_unadmitted_revoked_command :: "string \<Rightarrow> instant \<Rightarrow> control_db \<Rightarrow> control_db" where
  "cancel_unadmitted_revoked_command gid now d =
     (case command_of_grant gid d of
        None \<Rightarrow> d
      | Some (k, c) \<Rightarrow>
          (if rm_acknowledged_at c \<noteq> None \<or> rm_status c \<notin> {CQ_QUEUED, CQ_CLAIMED} then d
           else set_remote k (cancelled_remote now c) d))"

definition revoke_existing ::
  "control_env \<Rightarrow> revocation_payload \<Rightarrow> string \<Rightarrow> instant \<Rightarrow> grant \<Rightarrow> control_db \<Rightarrow> cp_error + control_db \<times> receipt"
  where
  "revoke_existing env r digest now g d =
     (let gid = gp_grant_id (rp_grant r) in
      if stored_binding_of g \<noteq> grant_binding (ce_device_id env) (rp_grant r) (rp_grant_expires_at r)
      then conflict ''REVIEW_GRANT_REVOCATION_CONFLICT''
      else case gr_revoked_at g of
             Some t \<Rightarrow>
               (if t \<noteq> rp_revoked_at r then conflict ''REVIEW_GRANT_REVOCATION_CONFLICT''
                else Inr (cancel_unadmitted_revoked_command gid now d,
                          \<lparr>rt_identifier = gid, rt_duplicate = True\<rparr>))
           | None \<Rightarrow>
               Inr (cancel_unadmitted_revoked_command gid now
                      (set_grant gid (g\<lparr>gr_revoked_at := Some (rp_revoked_at r),
                         gr_revocation_envelope_digest := Some digest\<rparr>) d),
                    \<lparr>rt_identifier = gid, rt_duplicate = False\<rparr>))"

definition revoke_grant ::
  "control_env \<Rightarrow> envelope \<Rightarrow> revocation_payload \<Rightarrow> bool \<Rightarrow> instant \<Rightarrow> control_db
     \<Rightarrow> cp_error + control_db \<times> receipt" where
  "revoke_grant env en r stale now d =
     (let gid = gp_grant_id (rp_grant r); digest = ce_envelope_digest env en (P_REVOCATION r) in
      if en_issued_at en + seconds 30 < rp_revoked_at r then conflict ''REVIEW_GRANT_REVOCATION_TIME_INVALID''
      else case (if stale then None else map_of (cb_grants d) gid) of
             Some g \<Rightarrow> revoke_existing env r digest now g d
           | None \<Rightarrow>
               (case map_of (cb_grants d) gid of
                  Some g \<Rightarrow> revoke_existing env r digest now g d
                | None \<Rightarrow>
                    Inr (set_grant gid
                           ((new_grant (ce_device_id env) (rp_grant r) (rp_grant_expires_at r) digest now)\<lparr>
                              gr_revoked_at := Some (rp_revoked_at r),
                              gr_revocation_envelope_digest := Some digest\<rparr>) d,
                         \<lparr>rt_identifier = gid, rt_duplicate = False\<rparr>)))"

definition receive_review_grant_revocation ::
  "control_env \<Rightarrow> envelope \<Rightarrow> revocation_payload \<Rightarrow> bool \<Rightarrow> instant \<Rightarrow> control_db
     \<Rightarrow> control_db \<times> (cp_error + receipt)" where
  "receive_review_grant_revocation env en r stale now =
     authenticated env EP_REVIEW_GRANT_REVOCATION now en (P_REVOCATION r) (revoke_grant env en r stale now)"

section \<open>Commands\<close>

text \<open>The operator's request for a command, and the identifiers drawn for it.\<close>

record command_request =
  cq_grant_id :: string
  cq_application_ref :: string
  cq_application_revision :: int
  cq_form_fingerprint_digest :: string
  cq_idempotency_key :: string

definition idempotent_command ::
  "(string \<times> remote_command) option \<Rightarrow> command_request \<Rightarrow> cp_error + (string \<times> bool) option" where
  "idempotent_command prior q =
     (case prior of
        None \<Rightarrow> Inr None
      | Some (k, c) \<Rightarrow>
          (if rm_grant_id c \<noteq> cq_grant_id q \<or> rm_application_ref c \<noteq> cq_application_ref q
              \<or> rm_application_revision c \<noteq> cq_application_revision q
              \<or> rm_form_fingerprint_digest c \<noteq> cq_form_fingerprint_digest q
           then conflict ''IDEMPOTENCY_CONFLICT''
           else Inr (Some (k, True))))"

definition prior_command :: "control_env \<Rightarrow> command_request \<Rightarrow> control_db \<Rightarrow> (string \<times> remote_command) option" where
  "prior_command env q d =
     find (\<lambda>(k, c). rm_idempotency_digest c = ce_text_digest env (cq_idempotency_key q)) (cb_commands d)"

definition runner_live :: "control_env \<Rightarrow> instant \<Rightarrow> device \<Rightarrow> bool" where
  "runner_live env now dv =
     (case dv_last_seen_at dv of None \<Rightarrow> False | Some t \<Rightarrow> now - t \<le> seconds (ce_offline_seconds env))"

definition runner_ready :: "control_env \<Rightarrow> instant \<Rightarrow> device \<Rightarrow> bool" where
  "runner_ready env now dv \<longleftrightarrow>
     runner_live env now dv \<and> dv_status dv = Some RS_READY \<and> or_empty (dv_boot_id dv) \<noteq> []"

definition signed_envelope :: "control_env \<Rightarrow> envelope_purpose \<Rightarrow> instant \<Rightarrow> instant \<Rightarrow> string \<Rightarrow> envelope" where
  "signed_envelope env purpose now expires nonce =
     (let en = \<lparr>en_key_id = ce_signing_key_id env, en_purpose = purpose, en_audience = runner_audience,
                en_issued_at = now, en_expires_at = expires, en_nonce = nonce, en_signature = []\<rparr>
      in en\<lparr>en_signature := ce_sign env en\<rparr>)"

definition new_remote ::
  "control_env \<Rightarrow> command_request \<Rightarrow> grant \<Rightarrow> string \<Rightarrow> string \<Rightarrow> instant \<Rightarrow> remote_command" where
  "new_remote env q g cid nonce now =
     (let expires = min (gr_expires_at g) (now + minutes 5) in
      \<lparr>rm_grant_id = cq_grant_id q, rm_device_id = gr_device_id g,
       rm_application_ref = gr_application_ref g, rm_application_revision = gr_application_revision g,
       rm_adapter = gr_adapter g, rm_adapter_version = gr_adapter_version g,
       rm_form_fingerprint_digest = gr_form_fingerprint_digest g,
       rm_idempotency_digest = ce_text_digest env (cq_idempotency_key q), rm_status = CQ_QUEUED,
       rm_envelope = (signed_envelope env EP_CONTROL_COMMAND now expires nonce,
          \<lparr>cp_command_id = cid, cp_grant_id = cq_grant_id q, cp_application_ref = cq_application_ref q,
           cp_application_revision = cq_application_revision q, cp_adapter = gr_adapter g,
           cp_adapter_version = gr_adapter_version g,
           cp_form_fingerprint_digest = cq_form_fingerprint_digest q\<rparr>),
       rm_created_at = now, rm_expires_at = expires, rm_claimed_at = None, rm_lease_expires_at = None,
       rm_delivery_count = 0, rm_acknowledged_at = None, rm_ack_status = None, rm_finished_at = None\<rparr>)"

text \<open>The checks of the locked grant and its runner.\<close>

definition grant_usable :: "control_env \<Rightarrow> command_request \<Rightarrow> grant \<Rightarrow> instant \<Rightarrow> control_db \<Rightarrow> cp_error + unit" where
  "grant_usable env q g now d =
     (if gr_revoked_at g \<noteq> None then conflict ''REVIEW_GRANT_REVOKED''
      else if gr_application_ref g \<noteq> cq_application_ref q
           \<or> gr_application_revision g \<noteq> cq_application_revision q
           \<or> gr_form_fingerprint_digest g \<noteq> cq_form_fingerprint_digest q
      then conflict ''REVIEW_GRANT_BINDING_MISMATCH''
      else if gr_expires_at g \<le> now then conflict ''REVIEW_GRANT_EXPIRED''
      else if gr_consumed_at g \<noteq> None \<or> command_of_grant (cq_grant_id q) d \<noteq> None
      then conflict ''REVIEW_GRANT_CONSUMED''
      else case map_of (cb_devices d) (gr_device_id g) of
             None \<Rightarrow> conflict ''RUNNER_OFFLINE''
           | Some dv \<Rightarrow>
               (if \<not> dv_active dv \<or> \<not> runner_ready env now dv then conflict ''RUNNER_OFFLINE'' else Inr ()))"

text \<open>
  \<open>early\<close> is what the first look for the idempotency key saw, before the grant was locked; it may be
  older than the database the rest of the transaction reads.
\<close>

definition create_command ::
  "control_env \<Rightarrow> command_request \<Rightarrow> (string \<times> remote_command) option \<Rightarrow> string \<Rightarrow> string \<Rightarrow> instant
     \<Rightarrow> control_db \<Rightarrow> control_db \<times> (cp_error + string \<times> bool)" where
  "create_command env q early cid nonce now d =
     (if \<not> ce_dispatch_allowed env then (d, Inl (''DISPATCH_DISABLED'', 403))
      else case idempotent_command early q of
             Inl e \<Rightarrow> (d, Inl e)
           | Inr (Some r) \<Rightarrow> (d, Inr r)
           | Inr None \<Rightarrow>
               (case map_of (cb_grants d) (cq_grant_id q) of
                  None \<Rightarrow> (d, Inl (''REVIEW_GRANT_NOT_FOUND'', 404))
                | Some g \<Rightarrow>
                    (case idempotent_command (prior_command env q d) q of
                       Inl e \<Rightarrow> (d, Inl e)
                     | Inr (Some r) \<Rightarrow> (d, Inr r)
                     | Inr None \<Rightarrow>
                         (case grant_usable env q g now d of
                            Inl e \<Rightarrow> (d, Inl e)
                          | Inr u \<Rightarrow>
                              (if map_of (cb_commands d) cid \<noteq> None then (d, conflict ''COMMAND_CONFLICT'')
                               else (set_remote cid (new_remote env q g cid nonce now)
                                       (set_grant (cq_grant_id q) (g\<lparr>gr_consumed_at := Some now\<rparr>) d),
                                     Inr (cid, False)))))))"

section \<open>Emergency stops\<close>

definition expire_undeliverable ::
  "control_env \<Rightarrow> string \<Rightarrow> kill_command \<Rightarrow> instant \<Rightarrow> control_db \<Rightarrow> control_db" where
  "expire_undeliverable env k c now d =
     (if kc_status c \<notin> {CQ_QUEUED, CQ_CLAIMED} then d
      else let boot_changed =
             (case map_of (cb_devices d) (ce_device_id env) of
                None \<Rightarrow> True
              | Some dv \<Rightarrow> kc_device_id c \<noteq> ce_device_id env \<or> or_empty (dv_boot_id dv) = []
                          \<or> kc_boot_id c \<noteq> or_empty (dv_boot_id dv))
           in if now < kc_expires_at c \<and> \<not> boot_changed then d
              else set_kill k (c\<lparr>kc_status := CQ_EXPIRED, kc_lease_expires_at := None,
                     kc_finished_at := Some (case kc_finished_at c of None \<Rightarrow> now | Some t \<Rightarrow> t)\<rparr>) d)"

definition prior_kill :: "string \<Rightarrow> control_db \<Rightarrow> (string \<times> kill_command) option" where
  "prior_kill digest d = find (\<lambda>(k, c). kc_idempotency_digest c = digest) (cb_kills d)"

definition new_kill :: "control_env \<Rightarrow> string \<Rightarrow> string \<Rightarrow> string \<Rightarrow> string \<Rightarrow> instant \<Rightarrow> kill_command" where
  "new_kill env digest boot kid nonce now =
     \<lparr>kc_device_id = ce_device_id env, kc_boot_id = boot, kc_idempotency_digest = digest,
      kc_status = CQ_QUEUED,
      kc_envelope = (signed_envelope env EP_CONTROL_KILL_COMMAND now (now + minutes 5) nonce, kid, boot),
      kc_created_at = now, kc_expires_at = now + minutes 5, kc_claimed_at = None,
      kc_lease_expires_at = None, kc_delivery_count = 0, kc_acknowledged_at = None,
      kc_ack_status = None, kc_finished_at = None\<rparr>"

text \<open>\<open>parse_uuid\<close> is the UUID constructor: the canonical text, or \<open>None\<close> when it raises.\<close>

definition create_kill_switch_command ::
  "control_env \<Rightarrow> (string \<Rightarrow> string option) \<Rightarrow> string \<Rightarrow> bool \<Rightarrow> string \<Rightarrow> string \<Rightarrow> instant \<Rightarrow> control_db
     \<Rightarrow> control_db \<times> (cp_error + string \<times> bool)" where
  "create_kill_switch_command env parse_uuid key stale kid nonce now d =
     (let digest = ce_text_digest env key;
          replayed = (\<lambda>(k, c). (expire_undeliverable env k c now d, Inr (k, True)))
      in case (if stale then None else prior_kill digest d) of
           Some kc \<Rightarrow> replayed kc
         | None \<Rightarrow>
             (case map_of (cb_devices d) (ce_device_id env) of
                None \<Rightarrow> (d, conflict ''RUNNER_DISABLED'')
              | Some dv \<Rightarrow>
                  (if \<not> dv_active dv then (d, conflict ''RUNNER_DISABLED'')
                   else if \<not> runner_ready env now dv then (d, conflict ''RUNNER_OFFLINE'')
                   else case parse_uuid (or_empty (dv_boot_id dv)) of
                          None \<Rightarrow> (d, conflict ''RUNNER_OFFLINE'')
                        | Some boot \<Rightarrow>
                            (case prior_kill digest d of
                               Some kc \<Rightarrow> replayed kc
                             | None \<Rightarrow>
                                 if map_of (cb_kills d) kid \<noteq> None
                                 then (d, conflict ''KILL_SWITCH_COMMAND_CONFLICT'')
                                 else (set_kill kid (new_kill env digest boot kid nonce now) d,
                                       Inr (kid, False))))))"

section \<open>Delivery\<close>

definition deliverable :: "instant \<Rightarrow> remote_status \<Rightarrow> instant option \<Rightarrow> instant option \<Rightarrow> instant \<Rightarrow> bool" where
  "deliverable now status acknowledged lease expires \<longleftrightarrow>
     (status = CQ_QUEUED
      \<or> status = CQ_CLAIMED \<and> acknowledged = None \<and> (case lease of None \<Rightarrow> False | Some t \<Rightarrow> t \<le> now))
     \<and> now < expires"

text \<open>\<open>locked k\<close>: another transaction holds the row, which \<open>SKIP LOCKED\<close> passes over.\<close>

definition oldest :: "('a \<Rightarrow> instant) \<Rightarrow> ('a \<Rightarrow> bool) \<Rightarrow> (string \<Rightarrow> bool) \<Rightarrow> (string \<times> 'a) list \<Rightarrow> (string \<times> 'a) option" where
  "oldest created ok locked rows =
     (case sort_key (\<lambda>(k, c). created c) (filter (\<lambda>(k, c). ok c \<and> \<not> locked k) rows) of
        [] \<Rightarrow> None | kc # kcs \<Rightarrow> Some kc)"

definition delivered_remote :: "instant \<Rightarrow> remote_command \<Rightarrow> remote_command" where
  "delivered_remote now c =
     c\<lparr>rm_status := CQ_CLAIMED,
       rm_claimed_at := Some (case rm_claimed_at c of None \<Rightarrow> now | Some t \<Rightarrow> t),
       rm_lease_expires_at := Some (now + seconds 15), rm_delivery_count := rm_delivery_count c + 1\<rparr>"

definition delivered_kill :: "instant \<Rightarrow> kill_command \<Rightarrow> kill_command" where
  "delivered_kill now c =
     c\<lparr>kc_status := CQ_CLAIMED,
       kc_claimed_at := Some (case kc_claimed_at c of None \<Rightarrow> now | Some t \<Rightarrow> t),
       kc_lease_expires_at := Some (now + seconds 15), kc_delivery_count := kc_delivery_count c + 1\<rparr>"

definition deliver_command ::
  "control_env \<Rightarrow> string \<Rightarrow> (string \<Rightarrow> bool) \<Rightarrow> instant \<Rightarrow> control_db
     \<Rightarrow> cp_error + control_db \<times> (envelope \<times> command_payload) list" where
  "deliver_command env boot locked now d =
     (let dv = this_device env d in
      if dv_boot_id dv \<noteq> Some boot then conflict ''RUNNER_BOOT_MISMATCH''
      else if dv_status dv \<noteq> Some RS_READY \<or> \<not> runner_live env now dv then conflict ''RUNNER_OFFLINE''
      else case oldest rm_created_at
                  (\<lambda>c. rm_device_id c = ce_device_id env
                       \<and> deliverable now (rm_status c) (rm_acknowledged_at c) (rm_lease_expires_at c)
                           (rm_expires_at c)) locked (cb_commands d) of
             None \<Rightarrow> Inr (d, [])
           | Some (k, c) \<Rightarrow> Inr (set_remote k (delivered_remote now c) d, [rm_envelope c]))"

definition poll_command ::
  "control_env \<Rightarrow> envelope \<Rightarrow> string \<Rightarrow> (string \<Rightarrow> bool) \<Rightarrow> instant \<Rightarrow> control_db
     \<Rightarrow> control_db \<times> (cp_error + (envelope \<times> command_payload) list)" where
  "poll_command env en boot locked now =
     authenticated env EP_COMMAND_POLL now en (P_POLL boot) (deliver_command env boot locked now)"

definition deliver_kill ::
  "control_env \<Rightarrow> string \<Rightarrow> (string \<Rightarrow> bool) \<Rightarrow> instant \<Rightarrow> control_db
     \<Rightarrow> cp_error + control_db \<times> (envelope \<times> string \<times> string) list" where
  "deliver_kill env boot locked now d =
     (let dv = this_device env d in
      if dv_boot_id dv \<noteq> Some boot then conflict ''RUNNER_BOOT_MISMATCH''
      else if \<not> dv_active dv \<or> \<not> runner_live env now dv then conflict ''RUNNER_OFFLINE''
      else case oldest kc_created_at
                  (\<lambda>c. kc_device_id c = ce_device_id env \<and> kc_boot_id c = boot
                       \<and> deliverable now (kc_status c) (kc_acknowledged_at c) (kc_lease_expires_at c)
                           (kc_expires_at c)) locked (cb_kills d) of
             None \<Rightarrow> Inr (d, [])
           | Some (k, c) \<Rightarrow>
               (if snd (snd (kc_envelope c)) \<noteq> kc_boot_id c
                then conflict ''KILL_SWITCH_COMMAND_BINDING_MISMATCH''
                else Inr (set_kill k (delivered_kill now c) d, [kc_envelope c])))"

definition poll_kill_switch_command ::
  "control_env \<Rightarrow> envelope \<Rightarrow> string \<Rightarrow> (string \<Rightarrow> bool) \<Rightarrow> instant \<Rightarrow> control_db
     \<Rightarrow> control_db \<times> (cp_error + (envelope \<times> string \<times> string) list)" where
  "poll_kill_switch_command env en boot locked now =
     authenticated env EP_COMMAND_POLL now en (P_POLL boot) (deliver_kill env boot locked now)"

section \<open>Acknowledgements\<close>

definition claimed_in_time :: "instant option \<Rightarrow> instant \<Rightarrow> bool" where
  "claimed_in_time claimed expires = (case claimed of None \<Rightarrow> False | Some t \<Rightarrow> t < expires)"

definition command_was_claimed_before_expiry :: "remote_command \<Rightarrow> bool" where
  "command_was_claimed_before_expiry c = claimed_in_time (rm_claimed_at c) (rm_expires_at c)"

definition revoked_grant :: "remote_command \<Rightarrow> control_db \<Rightarrow> bool" where
  "revoked_grant c d =
     (case map_of (cb_grants d) (rm_grant_id c) of None \<Rightarrow> False | Some g \<Rightarrow> gr_revoked_at g \<noteq> None)"

definition ack_command ::
  "control_env \<Rightarrow> string \<Rightarrow> string \<Rightarrow> ack_status \<Rightarrow> instant \<Rightarrow> control_db \<Rightarrow> cp_error + control_db \<times> receipt" where
  "ack_command env path cid ack now d =
     (let fresh = \<lparr>rt_identifier = path, rt_duplicate = False\<rparr> in
      if cid \<noteq> path then conflict ''COMMAND_BINDING_MISMATCH''
      else case map_of (cb_commands d) path of
             None \<Rightarrow> Inl (''COMMAND_NOT_FOUND'', 404)
           | Some c \<Rightarrow>
               (if rm_device_id c \<noteq> ce_device_id env then Inl (''COMMAND_NOT_FOUND'', 404)
                else if rm_acknowledged_at c \<noteq> None then
                  (if rm_ack_status c \<noteq> Some ack then conflict ''COMMAND_ACK_CONFLICT''
                   else Inr (d, fresh\<lparr>rt_duplicate := True\<rparr>))
                else if rm_status c = CQ_REJECTED \<and> revoked_grant c d then
                  (if ack \<noteq> ACK_REJECTED then conflict ''COMMAND_ACK_CONFLICT''
                   else Inr (set_remote path (c\<lparr>rm_ack_status := Some ack, rm_acknowledged_at := Some now\<rparr>) d, fresh))
                else if rm_status c \<noteq> CQ_CLAIMED then conflict ''COMMAND_NOT_CLAIMED''
                else if \<not> command_was_claimed_before_expiry c then conflict ''COMMAND_CLAIM_INVALID''
                else let c1 = c\<lparr>rm_ack_status := Some ack, rm_acknowledged_at := Some now, rm_lease_expires_at := None\<rparr>
                     in Inr (set_remote path
                               (if ack = ACK_RECEIVED then c1\<lparr>rm_status := CQ_ACKNOWLEDGED\<rparr>
                                else c1\<lparr>rm_status := CQ_REJECTED, rm_finished_at := Some now\<rparr>) d, fresh)))"

definition acknowledge_command ::
  "control_env \<Rightarrow> envelope \<Rightarrow> string \<Rightarrow> string \<Rightarrow> ack_status \<Rightarrow> instant \<Rightarrow> control_db
     \<Rightarrow> control_db \<times> (cp_error + receipt)" where
  "acknowledge_command env en path cid ack now =
     authenticated env EP_COMMAND_ACK now en (P_ACK cid ack) (ack_command env path cid ack now)"

definition ack_kill ::
  "control_env \<Rightarrow> string \<Rightarrow> string \<Rightarrow> ack_status \<Rightarrow> instant \<Rightarrow> control_db \<Rightarrow> cp_error + control_db \<times> receipt" where
  "ack_kill env path cid ack now d =
     (let fresh = \<lparr>rt_identifier = path, rt_duplicate = False\<rparr> in
      if cid \<noteq> path then conflict ''KILL_SWITCH_COMMAND_BINDING_MISMATCH''
      else case map_of (cb_kills d) path of
             None \<Rightarrow> Inl (''KILL_SWITCH_COMMAND_NOT_FOUND'', 404)
           | Some c \<Rightarrow>
               (if kc_device_id c \<noteq> ce_device_id env then Inl (''KILL_SWITCH_COMMAND_NOT_FOUND'', 404)
                else if Some (kc_boot_id c) \<noteq> dv_boot_id (this_device env d) then conflict ''RUNNER_BOOT_MISMATCH''
                else if kc_acknowledged_at c \<noteq> None then
                  (if kc_ack_status c \<noteq> Some ack then conflict ''KILL_SWITCH_ACK_CONFLICT''
                   else Inr (d, fresh\<lparr>rt_duplicate := True\<rparr>))
                else if kc_status c \<noteq> CQ_CLAIMED \<or> \<not> claimed_in_time (kc_claimed_at c) (kc_expires_at c)
                then conflict ''KILL_SWITCH_COMMAND_NOT_CLAIMED''
                else Inr (set_kill path
                            (c\<lparr>kc_ack_status := Some ack, kc_acknowledged_at := Some now,
                               kc_lease_expires_at := None, kc_finished_at := Some now,
                               kc_status := (if ack = ACK_RECEIVED then CQ_ACKNOWLEDGED else CQ_REJECTED)\<rparr>) d,
                          fresh)))"

definition acknowledge_kill_switch_command ::
  "control_env \<Rightarrow> envelope \<Rightarrow> string \<Rightarrow> string \<Rightarrow> ack_status \<Rightarrow> instant \<Rightarrow> control_db
     \<Rightarrow> control_db \<times> (cp_error + receipt)" where
  "acknowledge_kill_switch_command env en path cid ack now =
     authenticated env EP_COMMAND_ACK now en (P_ACK cid ack) (ack_kill env path cid ack now)"

section \<open>Events\<close>

definition stage_order :: "attempt_stage \<Rightarrow> nat" where
  "stage_order s =
     (case s of QUEUED \<Rightarrow> 0 | INSPECTING \<Rightarrow> 1 | PREPARING \<Rightarrow> 2 | READY \<Rightarrow> 3 | COMMITTING \<Rightarrow> 4
      | VERIFYING \<Rightarrow> 5 | FINISHED \<Rightarrow> 6)"

definition stream :: "string \<Rightarrow> control_db \<Rightarrow> runner_event list" where
  "stream cid d = filter (\<lambda>e. re_command_id e = cid) (cb_events d)"

text \<open>The row with the highest sequence; sequences are unique within a command.\<close>

definition previous_event :: "string \<Rightarrow> control_db \<Rightarrow> runner_event option" where
  "previous_event cid d =
     (case rev (sort_key (\<lambda>e. ob_sequence (re_payload e)) (stream cid d)) of [] \<Rightarrow> None | e # es \<Rightarrow> Some e)"

definition safe_reconciliation :: "runner_event option \<Rightarrow> outbox_event \<Rightarrow> bool" where
  "safe_reconciliation prev p =
     (case prev of
        None \<Rightarrow> False
      | Some e \<Rightarrow>
          ob_outcome (re_payload e) \<in> {Some UNKNOWN, Some LEGACY_UNVERIFIED} \<and> ob_stage p = FINISHED
          \<and> ob_outcome p \<in> {Some OPERATOR_CONFIRMED, Some FAILED_BEFORE_COMMIT} \<and> ob_evidence_type p = None)"

definition recovers_lost_ack :: "remote_command \<Rightarrow> outbox_event \<Rightarrow> bool" where
  "recovers_lost_ack c p \<longleftrightarrow>
     rm_status c = CQ_CLAIMED \<and> command_was_claimed_before_expiry c \<and> ob_sequence p = 1 \<and> ob_stage p = QUEUED
     \<and> (case rm_claimed_at c of None \<Rightarrow> False | Some t \<Rightarrow> t - seconds 30 \<le> ob_occurred_at p)
     \<and> ob_occurred_at p \<le> rm_expires_at c"

definition stage_follows :: "runner_event option \<Rightarrow> outbox_event \<Rightarrow> cp_error + unit" where
  "stage_follows prev p =
     (case prev of
        None \<Rightarrow> if ob_stage p \<noteq> QUEUED then conflict ''EVENT_INITIAL_STAGE_INVALID'' else Inr ()
      | Some e \<Rightarrow>
          (if stage_order (ob_stage p) < stage_order (ob_stage (re_payload e))
              \<and> \<not> (ob_stage p = QUEUED \<and> ob_stage (re_payload e) \<in> {INSPECTING, PREPARING, READY})
           then conflict ''EVENT_STAGE_REGRESSION'' else Inr ()))"

definition acknowledged_remote :: "instant \<Rightarrow> remote_command \<Rightarrow> remote_command" where
  "acknowledged_remote now c =
     c\<lparr>rm_ack_status := Some ACK_RECEIVED, rm_acknowledged_at := Some now, rm_lease_expires_at := None\<rparr>"

definition ran_remote :: "outbox_event \<Rightarrow> instant \<Rightarrow> remote_command \<Rightarrow> remote_command" where
  "ran_remote p now c =
     (if ob_stage p = FINISHED
      then c\<lparr>rm_status := CQ_FINISHED,
             rm_finished_at := Some (case rm_finished_at c of None \<Rightarrow> now | Some t \<Rightarrow> t)\<rparr>
      else c\<lparr>rm_status := CQ_RUNNING\<rparr>)"

text \<open>The checks of a new event against the command and the stream so far, in their order.\<close>

definition event_admissible ::
  "envelope \<Rightarrow> outbox_event \<Rightarrow> string \<Rightarrow> remote_command \<Rightarrow> control_db \<Rightarrow> cp_error + unit" where
  "event_admissible en p cid c d =
     (let prev = previous_event cid d in
      if en_issued_at en + seconds 30 < ob_occurred_at p \<or> ob_occurred_at p < rm_created_at c - seconds 30
      then conflict ''EVENT_TIME_INVALID''
      else if list_ex (\<lambda>e. ob_sequence (re_payload e) = ob_sequence p) (stream cid d)
      then conflict ''EVENT_SEQUENCE_CONFLICT''
      else if rm_finished_at c \<noteq> None \<and> \<not> safe_reconciliation prev p then conflict ''COMMAND_ALREADY_FINISHED''
      else if ob_sequence p \<noteq> (case prev of None \<Rightarrow> 1 | Some e \<Rightarrow> ob_sequence (re_payload e) + 1)
      then conflict ''EVENT_SEQUENCE_INVALID''
      else stage_follows prev p)"

text \<open>Payload digests are compared through the wire forms they are taken of.\<close>

definition receive_event ::
  "control_env \<Rightarrow> envelope \<Rightarrow> outbox_event \<Rightarrow> instant \<Rightarrow> control_db \<Rightarrow> cp_error + control_db \<times> receipt" where
  "receive_event env en p now d =
     (let eid = ob_event_ref p; cid = ob_command_ref p in
      case find (\<lambda>e. re_event_id e = eid) (cb_events d) of
        Some e \<Rightarrow>
          (if \<not> same_wire (re_payload e) p then conflict ''EVENT_ID_CONFLICT''
           else Inr (d, \<lparr>rt_identifier = eid, rt_duplicate = True\<rparr>))
      | None \<Rightarrow>
          (case map_of (cb_commands d) cid of
             None \<Rightarrow> Inl (''COMMAND_NOT_FOUND'', 404)
           | Some c \<Rightarrow>
               (if rm_device_id c \<noteq> ce_device_id env then Inl (''COMMAND_NOT_FOUND'', 404)
                else let acked = (rm_acknowledged_at c \<noteq> None \<and> rm_ack_status c = Some ACK_RECEIVED) in
                  if \<not> acked \<and> \<not> recovers_lost_ack c p then conflict ''COMMAND_NOT_ACKNOWLEDGED''
                  else let c1 = (if acked then c else acknowledged_remote now c) in
                    case event_admissible en p cid c1 d of
                      Inl e \<Rightarrow> Inl e
                    | Inr u \<Rightarrow>
                        Inr (set_remote cid (ran_remote p now c1)
                               (d\<lparr>cb_events := cb_events d @ [\<lparr>re_event_id = eid, re_device_id = ce_device_id env,
                                   re_command_id = cid, re_payload = p, re_received_at = now\<rparr>]\<rparr>),
                             \<lparr>rt_identifier = eid, rt_duplicate = False\<rparr>))))"

definition receive_runner_event ::
  "control_env \<Rightarrow> envelope \<Rightarrow> outbox_event \<Rightarrow> instant \<Rightarrow> control_db \<Rightarrow> control_db \<times> (cp_error + receipt)" where
  "receive_runner_event env en p now =
     authenticated env EP_EVENT now en (P_EVENT p) (receive_event env en p now)"

end
