(* ===== verification/Control_System.thy ===== *)
theory Control_System
  imports Control_Plane
begin

text \<open>
  The control plane under every sequence of requests: the runner's signed requests, the operator's
  commands and emergency stops. Requests are handled one transaction at a time; the clocks of the
  processes that serve them may differ by up to ten minutes.
\<close>

section \<open>Requests\<close>

datatype request =
  RQ_HEARTBEAT heartbeat_payload
  | RQ_GRANT grant_payload bool
  | RQ_REVOKE revocation_payload bool
  | RQ_POLL string "string \<Rightarrow> bool"
  | RQ_POLL_KILL string "string \<Rightarrow> bool"
  | RQ_ACK string string ack_status
  | RQ_ACK_KILL string string ack_status
  | RQ_EVENT outbox_event

fun serve :: "control_env \<Rightarrow> envelope \<Rightarrow> request \<Rightarrow> instant \<Rightarrow> control_db \<Rightarrow> control_db" where
  "serve env en (RQ_HEARTBEAT h) now d = fst (receive_heartbeat env en h now d)"
| "serve env en (RQ_GRANT p stale) now d = fst (receive_review_grant env en p stale now d)"
| "serve env en (RQ_REVOKE r stale) now d = fst (receive_review_grant_revocation env en r stale now d)"
| "serve env en (RQ_POLL boot locked) now d = fst (poll_command env en boot locked now d)"
| "serve env en (RQ_POLL_KILL boot locked) now d = fst (poll_kill_switch_command env en boot locked now d)"
| "serve env en (RQ_ACK path cid ack) now d = fst (acknowledge_command env en path cid ack now d)"
| "serve env en (RQ_ACK_KILL path cid ack) now d = fst (acknowledge_kill_switch_command env en path cid ack now d)"
| "serve env en (RQ_EVENT p) now d = fst (receive_runner_event env en p now d)"

fun request_purpose :: "request \<Rightarrow> envelope_purpose" where
  "request_purpose (RQ_HEARTBEAT h) = EP_HEARTBEAT"
| "request_purpose (RQ_GRANT p stale) = EP_REVIEW_GRANT"
| "request_purpose (RQ_REVOKE r stale) = EP_REVIEW_GRANT_REVOCATION"
| "request_purpose (RQ_POLL boot locked) = EP_COMMAND_POLL"
| "request_purpose (RQ_POLL_KILL boot locked) = EP_COMMAND_POLL"
| "request_purpose (RQ_ACK path cid ack) = EP_COMMAND_ACK"
| "request_purpose (RQ_ACK_KILL path cid ack) = EP_COMMAND_ACK"
| "request_purpose (RQ_EVENT p) = EP_EVENT"

fun request_payload :: "request \<Rightarrow> runner_payload" where
  "request_payload (RQ_HEARTBEAT h) = P_HEARTBEAT h"
| "request_payload (RQ_GRANT p stale) = P_GRANT p"
| "request_payload (RQ_REVOKE r stale) = P_REVOCATION r"
| "request_payload (RQ_POLL boot locked) = P_POLL boot"
| "request_payload (RQ_POLL_KILL boot locked) = P_POLL boot"
| "request_payload (RQ_ACK path cid ack) = P_ACK cid ack"
| "request_payload (RQ_ACK_KILL path cid ack) = P_ACK cid ack"
| "request_payload (RQ_EVENT p) = P_EVENT p"

definition verified :: "control_env \<Rightarrow> envelope \<Rightarrow> request \<Rightarrow> instant \<Rightarrow> control_db \<Rightarrow> cp_error + control_db" where
  "verified env en rq now d = verify_runner_envelope env (request_purpose rq) now en (request_payload rq) d"

text \<open>The payload has passed its model's validators before a handler sees it.\<close>

fun request_valid :: "control_env \<Rightarrow> request \<Rightarrow> bool" where
  "request_valid env (RQ_HEARTBEAT h) = heartbeat_valid (ce_operations_digest env) h"
| "request_valid env (RQ_REVOKE r stale) = revocation_valid r"
| "request_valid env (RQ_EVENT p) = runner_event_valid p"
| "request_valid env rq = True"

section \<open>Steps\<close>

text \<open>\<open>cw_accepted\<close> logs the envelopes whose authentication succeeded, \<open>cw_clock\<close> the latest clock reading.\<close>

record control_world =
  cw_db :: control_db
  cw_clock :: instant
  cw_accepted :: "nonce_row list"

definition ticks :: "control_db \<Rightarrow> instant \<Rightarrow> nonce_row list \<Rightarrow> control_world \<Rightarrow> control_world" where
  "ticks d now accepted w =
     \<lparr>cw_db = d, cw_clock = max (cw_clock w) now, cw_accepted = accepted @ cw_accepted w\<rparr>"

definition newly_accepted :: "control_env \<Rightarrow> envelope \<Rightarrow> request \<Rightarrow> instant \<Rightarrow> control_db \<Rightarrow> nonce_row list" where
  "newly_accepted env en rq now d = (case verified env en rq now d of Inl e \<Rightarrow> [] | Inr d1 \<Rightarrow> [nonce_of env en])"

inductive control_step :: "control_env \<Rightarrow> control_world \<Rightarrow> control_world \<Rightarrow> bool" for env :: control_env where
  cs_request: "cw_clock w - minutes 10 \<le> now \<Longrightarrow> request_valid env rq \<Longrightarrow>
     control_step env w (ticks (serve env en rq now (cw_db w)) now (newly_accepted env en rq now (cw_db w)) w)"
| cs_create: "cw_clock w - minutes 10 \<le> now \<Longrightarrow>
     control_step env w (ticks (fst (create_command env q early cid nonce now (cw_db w))) now [] w)"
| cs_kill: "cw_clock w - minutes 10 \<le> now \<Longrightarrow>
     control_step env w (ticks (fst (create_kill_switch_command env parse key stale kid nonce now (cw_db w))) now [] w)"
| cs_audit: "control_step env w (w\<lparr>cw_db := record_audit action res now (cw_db w)\<rparr>)"

definition control_init :: "control_world \<Rightarrow> bool" where
  "control_init w \<longleftrightarrow>
     cb_nonces (cw_db w) = [] \<and> cb_events (cw_db w) = [] \<and> cb_commands (cw_db w) = [] \<and> cw_accepted w = []"

section \<open>Invariant\<close>

definition spent_nonce :: "control_world \<Rightarrow> nonce_row \<Rightarrow> bool" where
  "spent_nonce w n \<longleftrightarrow> n \<in> set (cb_nonces (cw_db w)) \<or> nr_expires_at n < cw_clock w - minutes 10"

definition nonce_inv :: "control_world \<Rightarrow> bool" where
  "nonce_inv w \<longleftrightarrow> distinct (cw_accepted w) \<and> (\<forall>n \<in> set (cw_accepted w). spent_nonce w n)"

text \<open>When an event may follow another one.\<close>

definition may_follow :: "outbox_event \<Rightarrow> outbox_event \<Rightarrow> bool" where
  "may_follow p q \<longleftrightarrow>
     ob_sequence q = ob_sequence p + 1
     \<and> (if ob_stage p = FINISHED
        then ob_stage q = FINISHED \<and> ob_outcome p \<in> {Some UNKNOWN, Some LEGACY_UNVERIFIED}
             \<and> ob_outcome q \<in> {Some OPERATOR_CONFIRMED, Some FAILED_BEFORE_COMMIT}
        else stage_order (ob_stage p) \<le> stage_order (ob_stage q)
             \<or> ob_stage q = QUEUED \<and> ob_stage p \<in> {INSPECTING, PREPARING, READY})"

definition good_stream :: "outbox_event list \<Rightarrow> bool" where
  "good_stream ps \<longleftrightarrow>
     successively may_follow ps
     \<and> (case ps of [] \<Rightarrow> True | p # qs \<Rightarrow> ob_sequence p = 1 \<and> ob_stage p = QUEUED)"

definition payloads :: "string \<Rightarrow> control_db \<Rightarrow> outbox_event list" where
  "payloads cid d = map re_payload (stream cid d)"

definition closed :: "string \<Rightarrow> control_db \<Rightarrow> bool" where
  "closed cid d \<longleftrightarrow> (\<exists>c. map_of (cb_commands d) cid = Some c \<and> rm_finished_at c \<noteq> None)"

definition stream_inv :: "control_db \<Rightarrow> bool" where
  "stream_inv d \<longleftrightarrow>
     (\<forall>e \<in> set (cb_events d). runner_event_valid (re_payload e))
     \<and> (\<forall>cid. good_stream (payloads cid d)
        \<and> (payloads cid d \<noteq> [] \<and> ob_stage (List.last (payloads cid d)) = FINISHED \<longrightarrow> closed cid d))"

definition keyed :: "control_db \<Rightarrow> bool" where
  "keyed d \<longleftrightarrow> distinct (map fst (cb_commands d))"

definition control_inv :: "control_world \<Rightarrow> bool" where
  "control_inv w \<longleftrightarrow> nonce_inv w \<and> stream_inv (cw_db w) \<and> keyed (cw_db w)"

section \<open>What the handlers leave alone\<close>

definition keeps :: "control_db \<Rightarrow> control_db \<Rightarrow> bool" where
  "keeps d d' \<longleftrightarrow>
     cb_nonces d' = cb_nonces d \<and> cb_events d' = cb_events d \<and> (\<forall>cid. closed cid d \<longrightarrow> closed cid d')
     \<and> (keyed d \<longrightarrow> keyed d')"

lemma keeps_refl [simp]: "keeps d d"
  by (simp add: keeps_def)

lemma keeps_trans: "keeps d e \<Longrightarrow> keeps e f \<Longrightarrow> keeps d f"
  by (simp add: keeps_def)

lemma keeps_set [simp]:
  "keeps d (set_device k v d)" "keeps d (set_grant k g d)" "keeps d (set_kill k x d)"
  by (simp_all add: keeps_def closed_def keyed_def set_device_def set_grant_def set_kill_def)

lemma keeps_remote:
  "map_of (cb_commands d) k = Some c \<Longrightarrow> (rm_finished_at c \<noteq> None \<Longrightarrow> rm_finished_at c' \<noteq> None) \<Longrightarrow>
     keeps d (set_remote k c' d)"
  by (auto simp: keeps_def closed_def keyed_def set_remote_def update_conv' distinct_update)

lemma keeps_new_remote: "map_of (cb_commands d) k = None \<Longrightarrow> keeps d (set_remote k c d)"
  by (auto simp: keeps_def closed_def keyed_def set_remote_def update_conv' distinct_update)

lemma keeps_audit: "keeps d (record_audit action res now d)"
  by (simp add: keeps_def closed_def keyed_def record_audit_def Let_def)

lemma found_command:
  assumes "keyed d" and "find P (cb_commands d) = Some (k, c)"
  shows "map_of (cb_commands d) k = Some c"
proof -
  have "(k, c) \<in> set (cb_commands d)" using assms(2) by (metis find_Some_iff nth_mem)
  with assms(1) show ?thesis by (simp add: keyed_def)
qed

lemma oldest_command:
  assumes "oldest created ok locked rows = Some (k, c)"
  shows "(k, c) \<in> set rows" "ok c" "\<not> locked k"
proof -
  have "(k, c) \<in> set (sort_key (\<lambda>(k, c). created c) (filter (\<lambda>(k, c). ok c \<and> \<not> locked k) rows))"
    using assms unfolding oldest_def by (metis (no_types, lifting) list.case_eq_if list.set_sel(1) option.distinct(1)
        option.inject)
  then show "(k, c) \<in> set rows" "ok c" "\<not> locked k" by auto
qed

lemma keeps_cancel:
  assumes "keyed d"
  shows "keeps d (cancel_unadmitted_revoked_command gid now d)"
proof (cases "command_of_grant gid d")
  case (Some kc)
  obtain k c where kc: "kc = (k, c)" by (cases kc)
  have "map_of (cb_commands d) k = Some c" using found_command[OF assms] Some kc by (simp add: command_of_grant_def)
  from keeps_remote[OF this] show ?thesis
    by (simp add: cancel_unadmitted_revoked_command_def Some kc cancelled_remote_def)
qed (simp add: cancel_unadmitted_revoked_command_def)

lemma keyed_set_grant [simp]: "keyed (set_grant k g d) = keyed d"
  by (simp add: keyed_def set_grant_def)

lemma keeps_bodies:
  shows store_grant_keeps: "store_grant env en p stale now d = Inr (d', r) \<Longrightarrow> keeps d d'"
    and revoke_existing_keeps: "revoke_existing env rv digest now g d = Inr (d', r) \<Longrightarrow> keyed d \<Longrightarrow> keeps d d'"
    and revoke_grant_keeps: "revoke_grant env en rv stale now d = Inr (d', r) \<Longrightarrow> keyed d \<Longrightarrow> keeps d d'"
    and deliver_command_keeps: "deliver_command env boot locked now d = Inr (d', es) \<Longrightarrow> keyed d \<Longrightarrow> keeps d d'"
    and deliver_kill_keeps: "deliver_kill env boot locked now d = Inr (d', ks) \<Longrightarrow> keeps d d'"
    and ack_command_keeps: "ack_command env path cid ack now d = Inr (d', r) \<Longrightarrow> keeps d d'"
    and ack_kill_keeps: "ack_kill env path cid ack now d = Inr (d', r) \<Longrightarrow> keeps d d'"
proof -
  show "keeps d d'" if "store_grant env en p stale now d = Inr (d', r)"
    using that by (auto simp: store_grant_def Let_def split: if_splits option.splits)
  show existing: "keeps d d'" if "revoke_existing env rv digest now g d = Inr (d', r)" "keyed d" for g digest
    using that keeps_cancel keeps_trans[OF keeps_set(2) keeps_cancel]
    by (auto simp: revoke_existing_def Let_def split: if_splits option.splits)
  show "keeps d d'" if "revoke_grant env en rv stale now d = Inr (d', r)" "keyed d"
    using that existing by (auto simp: revoke_grant_def Let_def split: if_splits option.splits)
  show "keeps d d'" if "deliver_command env boot locked now d = Inr (d', es)" "keyed d"
  proof -
    have "map_of (cb_commands d) k = Some c" if "oldest rm_created_at ok locked (cb_commands d) = Some (k, c)" for ok k c
      using oldest_command(1)[OF that] \<open>keyed d\<close> by (simp add: keyed_def)
    with that(1) show ?thesis
      by (auto simp: deliver_command_def Let_def delivered_remote_def intro!: keeps_remote split: if_splits option.splits)
  qed
  show "keeps d d'" if "deliver_kill env boot locked now d = Inr (d', ks)"
    using that by (auto simp: deliver_kill_def Let_def split: if_splits option.splits)
  show "keeps d d'" if "ack_command env path cid ack now d = Inr (d', r)"
    using that by (auto simp: ack_command_def Let_def intro!: keeps_remote split: if_splits option.splits)
  show "keeps d d'" if "ack_kill env path cid ack now d = Inr (d', r)"
    using that by (auto simp: ack_kill_def Let_def split: if_splits option.splits)
qed

section \<open>Authentication\<close>

lemma configured_device_keeps: "configured_device env d = Inr d' \<Longrightarrow> keeps d d'"
  by (auto simp: configured_device_def Let_def split: option.splits if_splits)

lemma verify_runner_envelopeE:
  assumes "verify_runner_envelope env purpose now en p d = Inr d1"
  obtains "cb_nonces d1 = live_nonces now (cb_nonces d) @ [nonce_of env en]" "cb_events d1 = cb_events d"
    "\<And>cid. closed cid d \<Longrightarrow> closed cid d1" "keyed d \<Longrightarrow> keyed d1" "now < en_expires_at en"
    "\<not> list_ex (nonce_clash (nonce_of env en)) (live_nonces now (cb_nonces d))"
proof -
  from assms obtain d0 where d0: "configured_device env d = Inr d0"
    and v: "verify_envelope (ce_signature_ok env en p) purpose control_audience now en = None"
    and fresh: "\<not> list_ex (nonce_clash (nonce_of env en)) (live_nonces now (cb_nonces d0))"
    and d1: "d1 = d0\<lparr>cb_nonces := live_nonces now (cb_nonces d0) @ [nonce_of env en]\<rparr>"
    unfolding verify_runner_envelope_def Let_def by (auto split: if_splits sum.splits)
  note k = configured_device_keeps[OF d0]
  from k have same: "cb_nonces d0 = cb_nonces d" "cb_events d0 = cb_events d" by (simp_all add: keeps_def)
  show thesis
    using that verify_envelopeD(4)[OF v] fresh k unfolding d1 same[symmetric]
    by (simp add: keeps_def closed_def keyed_def)
qed

lemma authenticated_keeps:
  assumes "verify_runner_envelope env purpose now en p d = Inr d1"
    and "\<And>d2 r. body d1 = Inr (d2, r) \<Longrightarrow> keeps d1 d2"
  shows "keeps d1 (fst (authenticated env purpose now en p body d))"
  using assms by (auto simp: authenticated_def split: sum.splits)

lemma serve_rejected:
  assumes "verified env en rq now d = Inl e"
  shows "serve env en rq now d = d"
  using assms
  by (cases rq) (simp_all add: verified_def authenticated_def receive_heartbeat_def receive_review_grant_def
      receive_review_grant_revocation_def poll_command_def poll_kill_switch_command_def acknowledge_command_def
      acknowledge_kill_switch_command_def receive_runner_event_def)

lemma serve_keeps:
  assumes "verified env en rq now d = Inr d1" and "keyed d1" and "\<And>p. rq \<noteq> RQ_EVENT p"
  shows "keeps d1 (serve env en rq now d)"
proof (cases rq)
  case (RQ_HEARTBEAT h)
  with assms(1) show ?thesis
    by (auto simp: verified_def receive_heartbeat_def intro!: authenticated_keeps)
next
  case (RQ_GRANT p stale)
  with assms(1) show ?thesis
    by (auto simp: verified_def receive_review_grant_def intro!: authenticated_keeps dest: store_grant_keeps)
next
  case (RQ_REVOKE r stale)
  with assms(1,2) show ?thesis
    by (auto simp: verified_def receive_review_grant_revocation_def intro!: authenticated_keeps dest: revoke_grant_keeps)
next
  case (RQ_POLL boot locked)
  with assms(1,2) show ?thesis
    by (auto simp: verified_def poll_command_def intro!: authenticated_keeps dest: deliver_command_keeps)
next
  case (RQ_POLL_KILL boot locked)
  with assms(1) show ?thesis
    by (auto simp: verified_def poll_kill_switch_command_def intro!: authenticated_keeps dest: deliver_kill_keeps)
next
  case (RQ_ACK path cid ack)
  with assms(1) show ?thesis
    by (auto simp: verified_def acknowledge_command_def intro!: authenticated_keeps dest: ack_command_keeps)
next
  case (RQ_ACK_KILL path cid ack)
  with assms(1) show ?thesis
    by (auto simp: verified_def acknowledge_kill_switch_command_def intro!: authenticated_keeps dest: ack_kill_keeps)
next
  case (RQ_EVENT p)
  with assms(3) show ?thesis by blast
qed

section \<open>Streams\<close>

lemma successively_snoc: "successively P (xs @ [x]) \<longleftrightarrow> successively P xs \<and> (xs = [] \<or> P (List.last xs) x)"
  by (induction xs rule: induct_list012) auto

lemma good_stream_snoc:
  "good_stream (ps @ [p]) \<longleftrightarrow>
     good_stream ps \<and> (if ps = [] then ob_sequence p = 1 \<and> ob_stage p = QUEUED else may_follow (List.last ps) p)"
  unfolding good_stream_def successively_snoc by (cases ps) auto

lemma good_stream_sequences: "good_stream ps \<Longrightarrow> map ob_sequence ps = map int [1..<Suc (length ps)]"
proof (induction ps rule: rev_induct)
  case (snoc p ps)
  then have g: "good_stream ps" by (simp add: good_stream_snoc)
  have "ob_sequence p = int (Suc (length ps))"
  proof (cases "ps = []")
    case True
    with snoc.prems show ?thesis by (simp add: good_stream_def)
  next
    case False
    with snoc.prems have "ob_sequence p = ob_sequence (List.last ps) + 1"
      by (simp add: good_stream_snoc may_follow_def)
    moreover have "ob_sequence (List.last ps) = List.last (map ob_sequence ps)" using False by (simp add: last_map)
    moreover have "List.last (map int [1..<Suc (length ps)]) = int (length ps)" using False by (cases "length ps") simp_all
    ultimately show ?thesis using snoc.IH[OF g] by simp
  qed
  with snoc.IH[OF g] show ?case by simp
qed simp

lemma previous_event_last:
  assumes "good_stream (payloads cid d)"
  shows "previous_event cid d = (if stream cid d = [] then None else Some (List.last (stream cid d)))"
proof -
  have "map (\<lambda>e. ob_sequence (re_payload e)) (stream cid d) = map ob_sequence (payloads cid d)"
    by (simp add: payloads_def)
  then have "sorted (map (\<lambda>e. ob_sequence (re_payload e)) (stream cid d))"
    using good_stream_sequences[OF assms] sorted_upt[of 1 "Suc (length (payloads cid d))"]
    by (simp only: sorted_map) (simp del: upt_Suc)
  then have "sort_key (\<lambda>e. ob_sequence (re_payload e)) (stream cid d) = stream cid d" by (rule sort_key_id_if_sorted)
  then show ?thesis by (cases "stream cid d" rule: rev_cases) (simp_all add: previous_event_def)
qed

text \<open>An accepted event extends the stream of its command and no other.\<close>

lemma receive_event_cases:
  assumes "receive_event env en p now d = Inr (d', r)"
  obtains "d' = d"
  | c c1 e where "map_of (cb_commands d) (ob_command_ref p) = Some c"
      "c1 = c \<or> c1 = acknowledged_remote now c" "event_admissible en p (ob_command_ref p) c1 d = Inr ()"
      "re_payload e = p" "re_command_id e = ob_command_ref p"
      "d' = set_remote (ob_command_ref p) (ran_remote p now c1) (d\<lparr>cb_events := cb_events d @ [e]\<rparr>)"
proof (cases "find (\<lambda>e. re_event_id e = ob_event_ref p) (cb_events d)")
  case (Some e)
  with assms that(1) show thesis by (auto simp: receive_event_def Let_def split: if_splits)
next
  case None
  with assms obtain c where c: "map_of (cb_commands d) (ob_command_ref p) = Some c"
    by (auto simp: receive_event_def Let_def split: option.splits)
  define acked where "acked = (rm_acknowledged_at c \<noteq> None \<and> rm_ack_status c = Some ACK_RECEIVED)"
  define c1 where "c1 = (if acked then c else acknowledged_remote now c)"
  note b = assms[unfolded receive_event_def Let_def None c option.case, folded acked_def, folded c1_def]
  from b have "event_admissible en p (ob_command_ref p) c1 d = Inr ()"
    "d' = set_remote (ob_command_ref p) (ran_remote p now c1)
       (d\<lparr>cb_events := cb_events d @ [\<lparr>re_event_id = ob_event_ref p, re_device_id = ce_device_id env,
           re_command_id = ob_command_ref p, re_payload = p, re_received_at = now\<rparr>]\<rparr>)"
    by (simp_all split: if_splits sum.splits)
  from that(2)[OF c _ this(1) _ _ this(2)] show thesis by (simp add: c1_def)
qed

lemma stream_append:
  "stream cid (set_remote k c (d\<lparr>cb_events := cb_events d @ [e]\<rparr>)) =
     (if re_command_id e = cid then stream cid d @ [e] else stream cid d)"
  by (simp add: stream_def set_remote_def)

lemma event_follows:
  assumes "event_admissible en p cid c d = Inr ()" and "stream_inv d"
    and "closed cid d \<Longrightarrow> rm_finished_at c \<noteq> None"
  shows "good_stream (payloads cid d @ [p])"
proof -
  have g: "good_stream (payloads cid d)" using assms(2) by (simp add: stream_inv_def)
  note prev = previous_event_last[OF g]
  show ?thesis
  proof (cases "stream cid d = []")
    case True
    with assms(1) g prev show ?thesis
      by (auto simp: good_stream_snoc payloads_def event_admissible_def stage_follows_def Let_def
          good_stream_def split: if_splits)
  next
    case False
    let ?q = "List.last (payloads cid d)"
    have q: "re_payload (List.last (stream cid d)) = ?q" using False by (simp add: payloads_def last_map)
    have fin: "ob_stage ?q = FINISHED \<Longrightarrow> rm_finished_at c \<noteq> None"
      using assms(2,3) False by (auto simp: stream_inv_def payloads_def)
    from assms(1) False prev have "ob_sequence p = ob_sequence ?q + 1"
      and rec: "rm_finished_at c \<noteq> None \<Longrightarrow> safe_reconciliation (Some (List.last (stream cid d))) p"
      and st: "stage_follows (Some (List.last (stream cid d))) p = Inr ()"
      by (auto simp: event_admissible_def Let_def q split: if_splits)
    moreover have "stage_order (ob_stage ?q) \<le> stage_order (ob_stage p)
        \<or> ob_stage p = QUEUED \<and> ob_stage ?q \<in> {INSPECTING, PREPARING, READY}"
      using st by (auto simp: stage_follows_def q split: if_splits)
    ultimately have "may_follow ?q p" using fin by (auto simp: may_follow_def safe_reconciliation_def q)
    with g False show ?thesis by (simp add: good_stream_snoc payloads_def)
  qed
qed

lemma receive_event_inv:
  assumes "receive_event env en p now d = Inr (d', r)" and "stream_inv d" and "keyed d" and "runner_event_valid p"
  shows "stream_inv d' \<and> keyed d' \<and> cb_nonces d' = cb_nonces d"
  using assms(1)
proof (cases rule: receive_event_cases)
  case 1
  with assms(2,3) show ?thesis by simp
next
  case (2 c c1 e)
  let ?k = "ob_command_ref p"
  have fin: "rm_finished_at c1 = rm_finished_at c" using 2(2) by (auto simp: acknowledged_remote_def)
  have "good_stream (payloads ?k d @ [p])"
    using event_follows[OF 2(3) assms(2)] fin 2(1) by (simp add: closed_def)
  then have pay: "payloads cid d' = (if cid = ?k then payloads cid d @ [p] else payloads cid d)"
      "good_stream (payloads cid d')" for cid
    using assms(2) 2(4,5) by (auto simp: 2(6) payloads_def stream_append stream_inv_def)
  have cl: "closed cid d'" if "closed cid d" for cid
    using that 2(1) fin by (auto simp: 2(6) closed_def set_remote_def update_conv' ran_remote_def split: option.splits)
  have fin': "closed ?k d'" if "ob_stage p = FINISHED"
    using that by (simp add: 2(6) closed_def set_remote_def update_conv' ran_remote_def)
  have "stream_inv d'"
    unfolding stream_inv_def
  proof (intro allI conjI impI ballI)
    show "runner_event_valid (re_payload x)" if "x \<in> set (cb_events d')" for x
      using that assms(2,4) 2(4) by (auto simp: 2(6) set_remote_def stream_inv_def)
    show "good_stream (payloads cid d')" for cid by (rule pay(2))
    show "closed cid d'" if "payloads cid d' \<noteq> [] \<and> ob_stage (List.last (payloads cid d')) = FINISHED" for cid
      using that assms(2) cl fin' by (auto simp: pay(1) stream_inv_def split: if_splits)
  qed
  moreover have "keyed d'" using assms(3) by (simp add: 2(6) keyed_def set_remote_def distinct_update)
  ultimately show ?thesis by (simp add: 2(6) set_remote_def)
qed

lemma stream_inv_keeps:
  assumes "stream_inv d" and "cb_events d' = cb_events d" and "\<And>cid. closed cid d \<Longrightarrow> closed cid d'"
  shows "stream_inv d'"
proof -
  have "payloads cid d' = payloads cid d" for cid using assms(2) by (simp add: payloads_def stream_def)
  with assms show ?thesis by (simp add: stream_inv_def)
qed

section \<open>Every step keeps the invariant\<close>

lemma serve_inv:
  assumes "verified env en rq now d = Inr d1" and "stream_inv d" and "keyed d" and "request_valid env rq"
  shows "stream_inv (serve env en rq now d) \<and> keyed (serve env en rq now d)
    \<and> cb_nonces (serve env en rq now d) = live_nonces now (cb_nonces d) @ [nonce_of env en]"
proof -
  from assms(1)[unfolded verified_def] have d1: "cb_nonces d1 = live_nonces now (cb_nonces d) @ [nonce_of env en]"
    "stream_inv d1" "keyed d1"
    by (auto elim!: verify_runner_envelopeE intro: stream_inv_keeps[OF assms(2)] simp: assms(3))
  show ?thesis
  proof (cases "\<exists>p. rq = RQ_EVENT p")
    case True
    then obtain p where rq: "rq = RQ_EVENT p" by blast
    show ?thesis
    proof (cases "receive_event env en p now d1")
      case (Inl e)
      with assms(1) rq d1 show ?thesis by (simp add: verified_def receive_runner_event_def authenticated_def)
    next
      case (Inr x)
      then obtain d2 r where r: "receive_event env en p now d1 = Inr (d2, r)" by (cases x) simp
      from receive_event_inv[OF r d1(2,3)] r assms(1,4) rq d1(1) show ?thesis
        by (simp add: verified_def receive_runner_event_def authenticated_def)
    qed
  next
    case False
    then have k: "keeps d1 (serve env en rq now d)" using serve_keeps[OF assms(1) d1(3)] by blast
    with d1 show ?thesis by (auto simp: keeps_def intro: stream_inv_keeps)
  qed
qed

lemma nonce_inv_accept:
  assumes "nonce_inv w" and "verified env en rq now (cw_db w) = Inr d1" and "cw_clock w - minutes 10 \<le> now"
    and "cb_nonces d' = live_nonces now (cb_nonces (cw_db w)) @ [nonce_of env en]"
  shows "nonce_inv (ticks d' now [nonce_of env en] w)"
proof -
  let ?n = "nonce_of env en"
  from assms(2)[unfolded verified_def] have v: "now < en_expires_at en"
    "\<not> list_ex (nonce_clash ?n) (live_nonces now (cb_nonces (cw_db w)))"
    by (auto elim!: verify_runner_envelopeE)
  have e: "nr_expires_at ?n = en_expires_at en" by (simp add: nonce_of_def)
  have fresh: "\<not> spent_nonce w ?n"
  proof
    assume "spent_nonce w ?n"
    then consider "?n \<in> set (cb_nonces (cw_db w))" | "nr_expires_at ?n < cw_clock w - minutes 10"
      by (auto simp: spent_nonce_def)
    then show False
    proof cases
      case 1
      have "\<not> en_expires_at en < now - minutes 10" using v(1) by (simp add: minutes_def seconds_def)
      with 1 e have "?n \<in> set (live_nonces now (cb_nonces (cw_db w)))" by (simp add: live_nonces_def)
      with v(2) show False by (auto simp: list_ex_iff nonce_clash_def)
    next
      case 2
      with assms(3) v(1) e show False by simp
    qed
  qed
  have kept: "spent_nonce (ticks d' now [?n] w) n" if "spent_nonce w n" for n
    using that assms(3,4) by (auto simp: spent_nonce_def ticks_def live_nonces_def max_def)
  have "spent_nonce (ticks d' now [?n] w) ?n" using assms(4) by (simp add: spent_nonce_def ticks_def)
  with assms(1) fresh kept show ?thesis by (auto simp: nonce_inv_def ticks_def)
qed

lemma nonce_inv_tick:
  assumes "nonce_inv w" and "cb_nonces d' = cb_nonces (cw_db w)"
  shows "nonce_inv (ticks d' now [] w)"
proof -
  have "spent_nonce (ticks d' now [] w) n" if "spent_nonce w n" for n
    using that assms(2) by (auto simp: spent_nonce_def ticks_def max_def)
  with assms(1) show ?thesis by (simp add: nonce_inv_def ticks_def)
qed

lemma control_inv_keeps:
  assumes "control_inv w" and "keeps (cw_db w) d'"
  shows "control_inv (ticks d' now [] w)"
  using assms nonce_inv_tick[of w d' now] stream_inv_keeps[of "cw_db w" d']
  by (auto simp: control_inv_def keeps_def ticks_def)

lemma keeps_granted: "map_of (cb_commands d) k = None \<Longrightarrow> keeps d (set_remote k c (set_grant i g d))"
  by (rule keeps_trans[OF keeps_set(2) keeps_new_remote]) (simp add: set_grant_def)

lemma create_command_keeps: "keeps d (fst (create_command env q early cid nonce now d))"
  by (auto simp: create_command_def intro: keeps_granted split: option.splits sum.splits)

lemma create_kill_keeps: "keeps d (fst (create_kill_switch_command env parse key stale kid nonce now d))"
  by (auto simp: create_kill_switch_command_def expire_undeliverable_def Let_def split: option.splits prod.splits)

lemma control_step_inv:
  assumes "control_inv w" and "control_step env w w'"
  shows "control_inv w'"
  using assms(2)
proof cases
  case (cs_request now rq en)
  show ?thesis
  proof (cases "verified env en rq now (cw_db w)")
    case (Inl e)
    with cs_request control_inv_keeps[OF assms(1) keeps_refl, of now] show ?thesis
      by (simp add: serve_rejected newly_accepted_def)
  next
    case (Inr d1)
    from assms(1) have inv: "nonce_inv w" "stream_inv (cw_db w)" "keyed (cw_db w)" by (simp_all add: control_inv_def)
    note s = serve_inv[OF Inr inv(2,3) cs_request(3)]
    from nonce_inv_accept[OF inv(1) Inr cs_request(2), of "serve env en rq now (cw_db w)"] s Inr show ?thesis
      unfolding cs_request(1) by (simp add: control_inv_def newly_accepted_def) (simp add: ticks_def)
  qed
next
  case cs_create
  show ?thesis unfolding cs_create(1) by (rule control_inv_keeps[OF assms(1) create_command_keeps])
next
  case cs_kill
  show ?thesis unfolding cs_kill(1) by (rule control_inv_keeps[OF assms(1) create_kill_keeps])
next
  case (cs_audit action res now)
  note k = keeps_audit[of "cw_db w" action res now]
  have "nonce_inv w'" using assms(1) k by (simp add: cs_audit control_inv_def nonce_inv_def spent_nonce_def keeps_def)
  with assms(1) k stream_inv_keeps[of "cw_db w" "cw_db w'"] show ?thesis
    by (auto simp: cs_audit control_inv_def keeps_def)
qed

lemma control_init_inv: "control_init w \<Longrightarrow> control_inv w"
  by (simp add: control_init_def control_inv_def nonce_inv_def stream_inv_def payloads_def stream_def good_stream_def
      keyed_def)

interpretation control: invariant_system control_init "control_step env" control_inv for env
  by unfold_locales (fact control_init_inv, fact control_step_inv)

lemma may_follow_crossed:
  assumes "may_follow p q" and "4 \<le> stage_order (ob_stage p)"
  shows "stage_order (ob_stage p) \<le> stage_order (ob_stage q)"
  using assms by (auto simp: may_follow_def stage_order_def split: attempt_stage.splits if_splits)

lemma good_stream_tail: "good_stream ps \<Longrightarrow> Suc i < length ps \<Longrightarrow> may_follow (ps ! i) (ps ! Suc i)"
  by (auto simp: good_stream_def successively_conv_nth)

lemma good_stream_crossed:
  assumes "good_stream ps" and "i \<le> j" and "j < length ps" and "4 \<le> stage_order (ob_stage (ps ! i))"
  shows "stage_order (ob_stage (ps ! i)) \<le> stage_order (ob_stage (ps ! j))"
  using assms(2,3)
proof (induction j rule: dec_induct)
  case (step n)
  then show ?case
    using may_follow_crossed[OF good_stream_tail[OF assms(1)], of n] assms(4) by (simp add: Suc_lessD)
qed simp

section \<open>A concrete exchange\<close>

definition sample_control :: control_env where
  "sample_control = \<lparr>ce_device_id = ''dev'', ce_public_key = ''key'', ce_signing_key_id = ''sig'',
     ce_dispatch_allowed = True, ce_offline_seconds = 30, ce_signature_ok = (\<lambda>en p. True),
     ce_operations_digest = (\<lambda>h. ''o''), ce_envelope_digest = (\<lambda>en p. ''e''), ce_text_digest = (\<lambda>s. s),
     ce_sign = (\<lambda>en. ''s'')\<rparr>"

definition sample_envelope :: "envelope_purpose \<Rightarrow> string \<Rightarrow> envelope" where
  "sample_envelope purpose nonce = \<lparr>en_key_id = ''dev'', en_purpose = purpose, en_audience = control_audience,
     en_issued_at = 0, en_expires_at = minutes 5, en_nonce = nonce, en_signature = ''s''\<rparr>"

definition sample_beat :: heartbeat_payload where
  "sample_beat = \<lparr>hb_boot_id = ''boot'', hb_release_digest = ''r'', hb_status = RS_READY, hb_pipeline = None,
     hb_policy = None, hb_sources = [], hb_adapters = [], hb_operations_digest = None\<rparr>"

definition sample_grant :: grant_payload where
  "sample_grant = \<lparr>gp_grant_id = ''g'', gp_application_ref = ''a'', gp_application_revision = 2,
     gp_adapter = ''greenhouse'', gp_adapter_version = ''1.0.0'', gp_form_fingerprint_digest = ''f'',
     gp_reviewed_at = 0\<rparr>"

definition sample_order :: command_request where
  "sample_order = \<lparr>cq_grant_id = ''g'', cq_application_ref = ''a'', cq_application_revision = 2,
     cq_form_fingerprint_digest = ''f'', cq_idempotency_key = ''k''\<rparr>"

definition sample_queued :: outbox_event where
  "sample_queued = \<lparr>ob_event_ref = ''ev'', ob_command_ref = ''c'', ob_sequence = 1, ob_cycle = 0, ob_stage = QUEUED,
     ob_outcome = None, ob_reason_code = None, ob_evidence_type = None, ob_evidence_digest = None,
     ob_occurred_at = 5\<rparr>"

definition empty_control :: control_db where
  "empty_control = \<lparr>cb_schema = [expected_schema], cb_devices = [], cb_grants = [], cb_commands = [], cb_kills = [],
     cb_nonces = [], cb_events = [], cb_audit = []\<rparr>"

text \<open>Heartbeat, grant, command, delivery, acknowledgement and the first event.\<close>

definition asks :: "string \<Rightarrow> request \<Rightarrow> instant \<Rightarrow> control_world \<Rightarrow> control_world" where
  "asks nonce rq now w =
     (let en = sample_envelope (request_purpose rq) nonce in
      ticks (serve sample_control en rq now (cw_db w)) now (newly_accepted sample_control en rq now (cw_db w)) w)"

definition orders :: "instant \<Rightarrow> control_world \<Rightarrow> control_world" where
  "orders now w = ticks (fst (create_command sample_control sample_order None ''c'' ''n'' now (cw_db w))) now [] w"

definition world0 :: control_world where
  "world0 = \<lparr>cw_db = empty_control, cw_clock = 0, cw_accepted = []\<rparr>"

definition world2 :: control_world where
  "world2 = asks ''n2'' (RQ_GRANT sample_grant False) 2 (asks ''n1'' (RQ_HEARTBEAT sample_beat) 1 world0)"

definition world6 :: control_world where
  "world6 = asks ''n6'' (RQ_EVENT sample_queued) 6 (asks ''n5'' (RQ_ACK ''c'' ''c'' ACK_RECEIVED) 5
     (asks ''n4'' (RQ_POLL ''boot'' (\<lambda>k. False)) 4 (orders 3 world2)))"

lemma asks_reachable:
  assumes "reachable_by control_init (control_step sample_control) w" and "cw_clock w - minutes 10 \<le> now"
    and "request_valid sample_control rq"
  shows "reachable_by control_init (control_step sample_control) (asks nonce rq now w)"
  unfolding asks_def Let_def by (rule reach_step[OF assms(1) cs_request[OF assms(2,3)]])

lemma orders_reachable:
  assumes "reachable_by control_init (control_step sample_control) w" and "cw_clock w - minutes 10 \<le> now"
  shows "reachable_by control_init (control_step sample_control) (orders now w)"
  unfolding orders_def by (rule reach_step[OF assms(1) cs_create[OF assms(2)]])

lemma asks_clock [simp]: "cw_clock (asks nonce rq now w) = max (cw_clock w) now" "cw_clock (orders now w) = max (cw_clock w) now"
  by (simp_all add: asks_def orders_def ticks_def Let_def)

lemma world6_reachable: "reachable_by control_init (control_step sample_control) world6"
proof -
  have "reachable_by control_init (control_step sample_control) world0"
    by (rule reach_start) (simp add: control_init_def world0_def empty_control_def)
  then have "reachable_by control_init (control_step sample_control) world2"
    unfolding world2_def by (intro asks_reachable) (simp_all add: world0_def minutes_def seconds_def sample_beat_def heartbeat_valid_def)
  then show ?thesis
    unfolding world6_def
    by (intro asks_reachable orders_reachable)
       (simp_all add: world2_def world0_def minutes_def seconds_def sample_queued_def runner_event_valid_def)
qed

lemma world6_stream: "payloads ''c'' (cw_db world6) = [sample_queued]"
  by code_simp

lemma idempotent_command_replays: "idempotent_command prior q = Inr (Some r) \<Longrightarrow> snd r"
  by (auto simp: idempotent_command_def split: option.splits if_splits)

lemma create_command_newE:
  assumes "create_command env q early cid nonce now d = (d', Inr (k, False))"
  obtains g where "map_of (cb_grants d) (cq_grant_id q) = Some g" "grant_usable env q g now d = Inr ()"
    "ce_dispatch_allowed env" "k = cid"
    "d' = set_remote cid (new_remote env q g cid nonce now)
       (set_grant (cq_grant_id q) (g\<lparr>gr_consumed_at := Some now\<rparr>) d)"
proof -
  note b = assms[unfolded create_command_def]
  have dispatch: "ce_dispatch_allowed env" using b by (rule contrapos_pp) simp
  note b = b[simplified dispatch not_True_eq_False if_False]
  have early: "idempotent_command early q = Inr None"
    using b idempotent_command_replays[of early q]
    by (cases "idempotent_command early q") (auto split: option.splits)
  note b = b[unfolded early sum.case option.case]
  obtain g where g: "map_of (cb_grants d) (cq_grant_id q) = Some g"
    using b by (cases "map_of (cb_grants d) (cq_grant_id q)") simp_all
  note b = b[unfolded g option.case]
  have prior: "idempotent_command (prior_command env q d) q = Inr None"
    using b idempotent_command_replays[of "prior_command env q d" q]
    by (cases "idempotent_command (prior_command env q d) q") (auto split: option.splits)
  note b = b[unfolded prior sum.case option.case]
  have usable: "grant_usable env q g now d = Inr ()"
    using b by (cases "grant_usable env q g now d") simp_all
  note b = b[unfolded usable sum.case]
  have "map_of (cb_commands d) cid = None"
    using b by (rule contrapos_pp) simp
  then show thesis using b g usable dispatch by (intro that) auto
qed

section \<open>Properties\<close>

text \<open>
  C28: no signed request is accepted twice. Over every sequence of requests to the control plane, by
  processes whose clocks differ by at most ten minutes, an envelope of the runner is authenticated at
  most once, although its nonce is deleted ten minutes after it expires.
\<close>

theorem envelope_accepted_once:
  assumes "reachable_by control_init (control_step env) w"
  shows "distinct (cw_accepted w)"
  using control.reachable_inv[OF assms] by (simp add: control_inv_def nonce_inv_def)

theorem envelope_accepted_once_witness:
  "length (cw_accepted world6) = 5 \<and> distinct (cw_accepted world6)"
proof
  show "length (cw_accepted world6) = 5" by code_simp
  show "distinct (cw_accepted world6)" by (rule envelope_accepted_once[OF world6_reachable])
qed





end
