(* ===== verification/Spec2Isabelle.thy ===== *)
theory Spec2Isabelle
  imports Fit_Runtime Control_Runner Autopilot_Authority Submission_Truth Governor Control_System
begin

text \<open>
  The submission core of the job application agent: the part of the program that decides whether a job
  application may be sent, sends it exactly once, and says afterwards what is known about it.

  The program. A posting is discovered, matched with one of the candidate's CVs and prepared for review.
  The operator, or a signed automation policy, admits a submission: \<^verbatim>\<open>core/submission_service.py\<close> creates an
  attempt, a one-use permit and a durable command. A worker (\<^verbatim>\<open>worker/submission_commands.py\<close>) claims the
  command, inspects the form, crosses the commit boundary in one transaction and lets a browser adapter press
  the final button. The result becomes employer evidence, a confirmed or an unknown outcome; the operator
  reconciles unknown ones. Attempts that come from the hosted control plane (\<^verbatim>\<open>control_plane/job_control_plane\<close>)
  mirror their transitions to it through an outbox of signed events. A database shared by all processes is
  the only state they have in common, besides the key-value store of the governor.

  Foundations.
  \<^item> \<open>Py_Prelude\<close>: time, Latin-1 Python strings, results as sums, the locales \<open>invariant_system\<close> (a transition
    system with an inductive invariant) and of a one-use capability, which the components interpret.
  \<^item> \<open>Py_Float\<close>: binary64 arithmetic on rationals, \<open>round(x, 4)\<close> and the compensated \<open>sum\<close>, with error bounds.
  \<^item> \<open>Database\<close>: the rows and declared constraints of \<^verbatim>\<open>db/models.py\<close> that the modelled code uses;
    \<open>commit_db\<close> keeps a transaction only if the constraints hold.

  Contracts of a submission (\<^verbatim>\<open>core/submission_domain.py\<close>, \<^verbatim>\<open>core/submission_state.py\<close>).
  \<^item> \<open>Submission_Domain\<close>, \<open>Submission_State\<close>: stages, outcomes, employer evidence, the untrusted adapter
    reply, the stage machine; every run of the machine is short.
  \<^item> \<open>Safe_Pattern\<close>, \<open>Field_Values\<close>, \<open>Form_Plan\<close>: the bounded matcher of employer patterns and its equivalence
    with the language of the pattern, typed answers, reviewed form plans and the binding of a final action.

  Persistence and authority.
  \<^item> \<open>Audit_Log\<close> (\<^verbatim>\<open>core/application_audit.py\<close>, \<^verbatim>\<open>core/operational_metrics.py\<close>), \<open>Submit_Permits\<close>
    (\<^verbatim>\<open>core/submit_permits.py\<close>), \<open>Event_Outbox\<close> (\<^verbatim>\<open>worker/control_plane_event_outbox.py\<close>),
    \<open>Application_Mutations\<close> (\<^verbatim>\<open>core/application_revision.py\<close>, \<^verbatim>\<open>application_state.py\<close>,
    \<^verbatim>\<open>application_mutations.py\<close>), \<open>Plan_Store\<close> (the loaders of plans and permits).
  \<^item> \<open>Adapter_Authority\<close> (\<^verbatim>\<open>submitters/platforms.py\<close> and the canary authority of
    \<^verbatim>\<open>core/adapter_qualification_service.py\<close>), \<open>Adapter_Qualification\<close> (its qualification records): which adapter
    may act on which form; only a recorded employer confirmation of a consumed canary unlocks one.
  \<^item> \<open>Fit_Decision\<close>, \<open>Automation_Policy\<close>: the contracts of fit decisions and signed policies;
    \<open>Policy_Service\<close>, \<open>Policy_Evaluation\<close> (\<^verbatim>\<open>core/automation_policy_service.py\<close>, \<^verbatim>\<open>match/job_fit_store.py\<close>):
    activation, revocation, the kill switch, the evaluation that reserves authority and its check;
    \<open>Policy_System\<close>: the limits, the kill switch and ended policies over every run.
  \<^item> \<open>Job_Text\<close>, \<open>Cv_Routing\<close>, \<open>Job_Fit\<close>, \<open>Fit_Evaluation\<close>, \<open>Fit_Runtime\<close> (\<^verbatim>\<open>profile/cv_routing.py\<close>,
    \<^verbatim>\<open>match/job_fit.py\<close>, \<^verbatim>\<open>match/job_fit_runtime.py\<close>, the evidence of \<^verbatim>\<open>profile/models.py\<close>): how the fit decision that
    the policy relies on is made. Both routers are independent of the order of the configuration, the
    calibrated one picks a best CV, the scoring never leaves its ranges after rounding, and the configured
    evaluation fails closed.
  \<^item> \<open>Governor\<close> (\<^verbatim>\<open>core/governor.py\<close>): daily budgets and gaps of LinkedIn actions on a shared store.

  The system.
  \<^item> \<open>Submission_Commands\<close>: one function per transaction of the worker, and \<open>execute_claimed_submission_command\<close>
    as their composition. \<open>Attempt_Lives\<close>: the abstract lifecycle \<open>life_step\<close> and the proof that each worker
    transaction refines it. \<open>Operator_Actions\<close> (\<open>_reconcile_attempt\<close> and rejection of
    \<^verbatim>\<open>api/routes/applications.py\<close>) and \<open>Submission_Service\<close> (admission) refine it too.
  \<^item> \<open>Worker_System\<close>: any number of workers that interleave at transaction boundaries and may crash at any
    point, with admission, recovery and the operator. The invariant gives the central results: an adapter is
    told to commit at most once per attempt, an application is clicked again only after the operator declared
    the earlier attempt unsubmitted, and what is recorded as confirmed was clicked and has its evidence.
  \<^item> \<open>Execution_Results\<close>, \<open>Autopilot_Authority\<close>, \<open>Submission_Truth\<close> (\<^verbatim>\<open>core/submission_truth.py\<close>),
    \<open>Sample_Run\<close>: what recovery, the click and the boundary achieve, what the program presents as verified, and
    one application driven through the whole system, evaluated step by step.
  \<^item> \<open>Control_Protocol\<close>, \<open>Control_Plane\<close>, \<open>Control_System\<close> (\<^verbatim>\<open>protocol.py\<close>, \<^verbatim>\<open>crypto.py\<close>, \<^verbatim>\<open>services.py\<close> of the
    hosted control plane): envelopes, grants, commands, emergency stops and event streams over every sequence
    of requests.

  \<^item> \<open>Review_Grants\<close>, \<open>Control_Runner\<close> (\<^verbatim>\<open>core/control_plane_review_permits.py\<close>,
    \<^verbatim>\<open>worker/control_plane_runner.py\<close>): the other end of that protocol. The local review grants with their tables
    in \<open>local_db\<close>, the publication of grants and revocations, and the transaction in which a verified remote
    command spends its grant, leaves a receipt and creates an attempt. A grant gives one command over every run,
    and the runner as it is called never creates one, because it asks the committed adapter registry.

  How the lemmas are grouped. Each component theory first has its definitions in the order of the code, then
  elimination rules for what a successful operation has checked (\<open>guard_elims\<close>) and rewrite rules for reads of
  updated rows (\<open>db_simps\<close>), then its invariant, its properties and, for each property with hypotheses, a
  witness on a concrete database or configuration. Transition systems interpret \<open>invariant_system\<close>, so their
  properties follow from the preserved invariant.

  Bounds and fuel. Times are microseconds as integers. The search for years of experience uses the length of
  the text as fuel: every step consumes a character. The position sets of the pattern matcher are bounded by
  the subject. Exponents of floats are unbounded; the numbers that are computed with lie between 0 and 100.

  Not modelled. Code outside the repository and cryptography are parameters: signatures, SHA-256 digests of
  canonical JSON, random tokens, key files, time zones, URL parsing. A clock reading is an input of the
  transaction that makes it. Strings have code points below 256, so the Hebrew terms of the fit evaluation are
  left out. The tests whether a text holds an injected instruction or asks for a sensitive answer, and whether a
  model identity is qualified, are parameters too: the theorems hold for every such test. Browser adapters and
  their submitters drive live pages, and the adapter's reply is an arbitrary input that the model validates as
  the code does. Of the runner, the polling loop with its network calls, heartbeats, key files and logging is left out.
  Discovery, ingestion, the language model runtime, scripts, the dashboard, the web routes
  other than those named above, operator sessions and login are left out: they neither admit, send nor
  settle a submission.
\<close>

end
